(* ===== verification/Prelude.thy ===== *)
theory Prelude
  imports Main "HOL-Library.Word" "HOL-Library.Char_ord" "HOL-Library.List_Lexorder"
    "HOL-Library.Product_Lexorder"
begin

text \<open>
  Shared vocabulary of the development: Python values as HOL values, the collections of hints
  the component theories add to, and the generic list, option and sum lemmas they share.

  Conventions. A Python \<open>str\<close> is a \<open>string\<close> (so text is over the 256 code points of
  \<open>char\<close>; every identifier, digest and symbol of the program is ASCII), \<open>bytes\<close> is a list of
  8-bit words, an \<open>int\<close> is an \<open>int\<close>, and a call that may raise returns
  \<open>'e + 'a\<close> with \<open>Inl\<close> the exception.  A list comprehension whose element may raise is
  \<open>traverse\<close>: it stops at the first exception, as the generator of the source does.
\<close>

type_synonym bytes = "8 word list"

named_theorems model_defs \<open>definitions a component proof usually unfolds\<close>
named_theorems result_elims \<open>inversion rules for operations that returned\<close>

section \<open>Results\<close>

fun is_ok :: "'e + 'a \<Rightarrow> bool" where
  "is_ok (Inl _) = False"
| "is_ok (Inr _) = True"

lemma is_ok_iff: "is_ok r \<longleftrightarrow> (\<exists>x. r = Inr x)"
  by (cases r) auto

lemma if_Inl_eq_Inr [simp]: "(if c then Inl e else r) = Inr x \<longleftrightarrow> \<not> c \<and> r = Inr x"
  by auto

text \<open>
  \<open>bindR m k\<close> runs \<open>k\<close> on the value of \<open>m\<close> and passes an exception on;
  \<open>wrapR f m\<close> is \<open>except E as exc: raise f(exc)\<close> around \<open>m\<close>.
\<close>

definition bindR :: "('e + 'a) \<Rightarrow> ('a \<Rightarrow> 'e + 'b) \<Rightarrow> 'e + 'b" where
  "bindR m k = (case m of Inl e \<Rightarrow> Inl e | Inr x \<Rightarrow> k x)"

definition wrapR :: "('e \<Rightarrow> 'f) \<Rightarrow> ('e + 'a) \<Rightarrow> 'f + 'a" where
  "wrapR f m = (case m of Inl e \<Rightarrow> Inl (f e) | Inr x \<Rightarrow> Inr x)"

lemma bindR_simps [simp]: "bindR (Inl e) k = Inl e" "bindR (Inr x) k = k x"
  by (simp_all add: bindR_def)

lemma wrapR_simps [simp]: "wrapR f (Inl e) = Inl (f e)" "wrapR f (Inr x) = Inr x"
  by (simp_all add: wrapR_def)

lemma bindR_eq_Inr [simp]: "bindR m k = Inr y \<longleftrightarrow> (\<exists>x. m = Inr x \<and> k x = Inr y)"
  by (cases m) auto

lemma bindR_eq_Inl: "bindR m k = Inl e \<longleftrightarrow> m = Inl e \<or> (\<exists>x. m = Inr x \<and> k x = Inl e)"
  by (cases m) auto

lemma wrapR_eq_Inr [simp]: "wrapR f m = Inr y \<longleftrightarrow> m = Inr y"
  by (cases m) auto

lemma wrapR_eq_Inl: "wrapR f m = Inl e \<longleftrightarrow> (\<exists>e'. m = Inl e' \<and> e = f e')"
  by (cases m) auto

lemma bindR_cong [fundef_cong]:
  "m = m' \<Longrightarrow> (\<And>x. m' = Inr x \<Longrightarrow> k x = k' x) \<Longrightarrow> bindR m k = bindR m' k'"
  by (cases m') auto

fun traverse :: "('a \<Rightarrow> 'e + 'b) \<Rightarrow> 'a list \<Rightarrow> 'e + 'b list" where
  "traverse f [] = Inr []"
| "traverse f (x # xs) =
     bindR (f x) (\<lambda>y. bindR (traverse f xs) (\<lambda>ys. Inr (y # ys)))"

lemma traverse_Cons_Inr:
  "traverse f (x # xs) = Inr zs \<longleftrightarrow>
     (\<exists>y ys. f x = Inr y \<and> traverse f xs = Inr ys \<and> zs = y # ys)"
  by auto

lemma traverse_Inr_iff:
  "traverse f xs = Inr ys \<longleftrightarrow> list_all2 (\<lambda>x y. f x = Inr y) xs ys"
proof (induction xs arbitrary: ys)
  case Nil
  then show ?case by (auto simp: eq_commute)
next
  case (Cons x xs)
  then show ?case
    by (cases ys) (simp_all add: traverse_Cons_Inr del: traverse.simps(2))
qed

lemma traverse_length: "traverse f xs = Inr ys \<Longrightarrow> length ys = length xs"
  by (simp add: traverse_Inr_iff list_all2_lengthD)

lemma traverse_is_ok: "is_ok (traverse f xs) \<longleftrightarrow> (\<forall>x \<in> set xs. is_ok (f x))"
  by (induction xs) (fastforce simp: is_ok_iff)+

lemma traverse_total: "(\<And>x. x \<in> set xs \<Longrightarrow> f x = Inr (g x)) \<Longrightarrow> traverse f xs = Inr (map g xs)"
  by (induction xs) auto

text \<open>Which errors a computation can end in.\<close>

definition fails_only :: "('e \<Rightarrow> bool) \<Rightarrow> 'e + 'a \<Rightarrow> bool" where
  "fails_only E r \<longleftrightarrow> (\<forall>e. r = Inl e \<longrightarrow> E e)"

named_theorems fails_intros

lemma fails_only_simps [simp]: "fails_only E (Inr x)" "fails_only E (Inl e) \<longleftrightarrow> E e"
  by (simp_all add: fails_only_def)

lemma fails_only_bindR [fails_intros]:
  "fails_only E m \<Longrightarrow> (\<And>x. m = Inr x \<Longrightarrow> fails_only E (f x)) \<Longrightarrow> fails_only E (bindR m f)"
  by (cases m) simp_all

lemma fails_only_if [fails_intros]:
  "(b \<Longrightarrow> fails_only E r) \<Longrightarrow> (\<not> b \<Longrightarrow> fails_only E s) \<Longrightarrow> fails_only E (if b then r else s)"
  by simp

lemma fails_only_traverse [fails_intros]:
  "(\<And>x. x \<in> set xs \<Longrightarrow> fails_only E (f x)) \<Longrightarrow> fails_only E (traverse f xs)"
  by (induction xs) (auto intro!: fails_only_bindR)

section \<open>Strings\<close>

text \<open>\<open>str.removeprefix\<close>, \<open>s in t\<close> on strings, and the negative slice \<open>s[-n:]\<close>.\<close>

definition removeprefix :: "string \<Rightarrow> string \<Rightarrow> string" where
  "removeprefix p s = (if take (length p) s = p then drop (length p) s else s)"

lemma removeprefix_append [simp]: "removeprefix p (p @ s) = s"
  by (simp add: removeprefix_def)

definition last_chars :: "nat \<Rightarrow> string \<Rightarrow> string" where
  "last_chars n s = drop (length s - n) s"

lemma length_last_chars [simp]: "length (last_chars n s) = min n (length s)"
  by (simp add: last_chars_def)

lemma last_chars_append: "n \<le> length s \<Longrightarrow> last_chars n (p @ s) = last_chars n s"
  by (simp add: last_chars_def)

fun starts_with :: "string \<Rightarrow> string \<Rightarrow> bool" where
  "starts_with [] s \<longleftrightarrow> True"
| "starts_with (p # ps) [] \<longleftrightarrow> False"
| "starts_with (p # ps) (c # cs) \<longleftrightarrow> p = c \<and> starts_with ps cs"

lemma starts_with_iff: "starts_with p s \<longleftrightarrow> (\<exists>r. s = p @ r)"
  by (induction p s rule: starts_with.induct) auto

fun str_contains :: "string \<Rightarrow> string \<Rightarrow> bool" where
  "str_contains p [] \<longleftrightarrow> p = []"
| "str_contains p (c # cs) \<longleftrightarrow> starts_with p (c # cs) \<or> str_contains p cs"

lemma str_contains_iff: "str_contains p s \<longleftrightarrow> (\<exists>l r. s = l @ p @ r)"
proof (induction s)
  case (Cons c cs)
  then show ?case by (auto simp: starts_with_iff Cons_eq_append_conv)
qed simp

fun join :: "string \<Rightarrow> string list \<Rightarrow> string" where
  "join sep [] = []"
| "join sep [x] = x"
| "join sep (x # y # ys) = x @ sep @ join sep (y # ys)"

text \<open>Character classes of the wire patterns.\<close>

definition is_digit :: "char \<Rightarrow> bool" where
  "is_digit c \<longleftrightarrow> c \<in> set ''0123456789''"

definition is_lower :: "char \<Rightarrow> bool" where
  "is_lower c \<longleftrightarrow> c \<in> set ''abcdefghijklmnopqrstuvwxyz''"

definition is_hex :: "char \<Rightarrow> bool" where
  "is_hex c \<longleftrightarrow> c \<in> set ''0123456789abcdef''"

text \<open>\<open>[0-9a-f]{64}\<close>, the shape of \<open>hexdigest()\<close> of SHA-256.\<close>

definition is_hex64 :: "string \<Rightarrow> bool" where
  "is_hex64 s \<longleftrightarrow> length s = 64 \<and> list_all is_hex s"

text \<open>White space of \<open>str.strip()\<close> below code point 256; \<open>strip()\<close> leaves nothing exactly when
  every character is white space.\<close>

definition is_space :: "char \<Rightarrow> bool" where
  "is_space c \<longleftrightarrow>
     (let n = of_char c :: nat in
      (9 \<le> n \<and> n \<le> 13) \<or> (28 \<le> n \<and> n \<le> 32) \<or> n = 133 \<or> n = 160)"

definition is_blank :: "string \<Rightarrow> bool" where
  "is_blank s \<longleftrightarrow> list_all is_space s"

section \<open>Decimal digits\<close>

definition digit_char :: "nat \<Rightarrow> char" where
  "digit_char d = ''0123456789'' ! d"

text \<open>\<open>pad_digits w n\<close> is \<open>f"{n:0wd}"\<close> for \<open>n < 10 ^ w\<close>; \<open>show_nat\<close> and
  \<open>show_int\<close> are \<open>str(n)\<close>.\<close>

fun pad_digits :: "nat \<Rightarrow> int \<Rightarrow> string" where
  "pad_digits 0 n = []"
| "pad_digits (Suc w) n = pad_digits w (n div 10) @ [digit_char (nat (n mod 10))]"

fun show_nat :: "nat \<Rightarrow> string" where
  "show_nat n = (if n < 10 then [digit_char n] else show_nat (n div 10) @ [digit_char (n mod 10)])"

declare show_nat.simps [simp del]

definition show_int :: "int \<Rightarrow> string" where
  "show_int i = (if i < 0 then CHR ''-'' # show_nat (nat (- i)) else show_nat (nat i))"

lemma length_pad_digits [simp]: "length (pad_digits w n) = w"
  by (induction w arbitrary: n) auto

lemma show_nat_nonempty [simp]: "show_nat n \<noteq> []"
  by (subst show_nat.simps) simp

lemma digit_char_table:
  "d < 10 \<Longrightarrow> of_char (digit_char d) = (48 + d :: nat) \<and> is_digit (digit_char d)"
proof -
  have "\<forall>d \<in> set [0..<10]. of_char (digit_char d) = (48 + d :: nat) \<and> is_digit (digit_char d)"
    by code_simp
  moreover assume "d < 10"
  ultimately show ?thesis by simp
qed

lemma of_char_digit_char: "d < 10 \<Longrightarrow> of_char (digit_char d) = (48 + d :: nat)"
  and is_digit_digit_char: "d < 10 \<Longrightarrow> is_digit (digit_char d)"
  using digit_char_table by auto

lemma digit_char_inject: "d < 10 \<Longrightarrow> e < 10 \<Longrightarrow> digit_char d = digit_char e \<longleftrightarrow> d = e"
  by (metis add_left_cancel of_char_digit_char)

section \<open>Lists\<close>

text \<open>First-occurrence deduplication (the keys of a dict in insertion order).\<close>

fun dedup :: "'a list \<Rightarrow> 'a list" where
  "dedup [] = []"
| "dedup (x # xs) = x # filter (\<lambda>y. y \<noteq> x) (dedup xs)"

lemma set_dedup [simp]: "set (dedup xs) = set xs"
  by (induction xs) auto

lemma distinct_dedup [simp]: "distinct (dedup xs)"
  by (induction xs) auto

text \<open>A dict comprehension \<open>{key(x): x for x in xs}\<close>: the last entry for a key wins.\<close>

definition dict_by :: "('a \<Rightarrow> 'k) \<Rightarrow> 'a list \<Rightarrow> ('k \<rightharpoonup> 'a)" where
  "dict_by key xs = map_of (rev (map (\<lambda>x. (key x, x)) xs))"

lemma dict_by_Some: "dict_by key xs k = Some x \<Longrightarrow> x \<in> set xs \<and> key x = k"
  by (auto simp: dict_by_def dest!: map_of_SomeD)

lemma dict_by_None: "dict_by key xs k = None \<longleftrightarrow> k \<notin> key ` set xs"
  by (force simp: dict_by_def map_of_eq_None_iff)

lemma dom_dict_by: "dom (dict_by key xs) = key ` set xs"
  by (force simp: dict_by_def dom_map_of_conv_image_fst)

lemma dict_by_distinct:
  assumes "distinct (map key xs)" and "x \<in> set xs"
  shows "dict_by key xs (key x) = Some x"
proof -
  have "distinct (map fst (rev (map (\<lambda>x. (key x, x)) xs)))"
    using assms(1) by (simp add: rev_map comp_def distinct_map)
  moreover have "(key x, x) \<in> set (rev (map (\<lambda>x. (key x, x)) xs))"
    using assms(2) by auto
  ultimately show ?thesis
    unfolding dict_by_def by (rule map_of_is_SomeI)
qed

lemma set_subset_iff_list_all: "set xs \<subseteq> set ys \<longleftrightarrow> list_all (\<lambda>x. x \<in> set ys) xs"
  by (auto simp: list_all_iff)

lemma filter_key_at_most_one:
  "distinct (map f xs) \<Longrightarrow> length (filter (\<lambda>x. f x = y) xs) \<le> 1"
proof (induction xs)
  case (Cons x xs)
  show ?case
  proof (cases "f x = y")
    case True
    with Cons.prems have "filter (\<lambda>x. f x = y) xs = []" by (fastforce simp: filter_empty_conv image_iff)
    with True show ?thesis by simp
  next
    case False
    with Cons show ?thesis by simp
  qed
qed simp

lemma sum_list_filter_split:
  "sum_list (map f xs) =
     sum_list (map f (filter P xs)) + (sum_list (map f (filter (\<lambda>x. \<not> P x) xs)) :: 'a::comm_monoid_add)"
  by (induction xs) (auto simp: ac_simps)

text \<open>A sum changes by the change at the one element whose key is touched.\<close>

lemma sum_list_change_key:
  fixes f g :: "'a \<Rightarrow> int"
  assumes "distinct (map k xs)" and "x \<in> set xs"
    and "\<And>y. y \<in> set xs \<Longrightarrow> k y \<noteq> k x \<Longrightarrow> g y = f y"
  shows "sum_list (map g xs) = sum_list (map f xs) + (g x - f x)"
  using assms
proof (induction xs)
  case Nil
  then show ?case by simp
next
  case (Cons y ys)
  show ?case
  proof (cases "y = x")
    case True
    have "\<forall>z \<in> set ys. g z = f z"
    proof
      fix z assume "z \<in> set ys"
      moreover from this Cons.prems(1) True have "k z \<noteq> k x" by (auto simp: image_iff)
      ultimately show "g z = f z" by (intro Cons.prems(3)) simp_all
    qed
    then have "sum_list (map g ys) = sum_list (map f ys)" by (metis map_cong)
    with True show ?thesis by simp
  next
    case False
    with Cons.prems have "k y \<noteq> k x" by (auto simp: image_iff)
    with Cons.prems(3) have "g y = f y" by simp
    moreover have "sum_list (map g ys) = sum_list (map f ys) + (g x - f x)"
      using Cons.prems False by (intro Cons.IH) auto
    ultimately show ?thesis by simp
  qed
qed

lemma sum_list_map_zero: "(\<And>x. x \<in> set xs \<Longrightarrow> f x = 0) \<Longrightarrow> sum_list (map f xs) = (0::'a::comm_monoid_add)"
  by (induction xs) auto

end
