(* ===== verification/Sha256.thy ===== *)
theory Sha256
  imports Prelude
begin

unbundle bit_operations_syntax

text \<open>
  \<open>hashlib.sha256(data).hexdigest()\<close>: SHA-256 over byte lists, executable, with the only fact the
  development uses of it (the shape of a hex digest) and the interface \<open>hex_digest\<close> it provides.
  No theorem assumes the function injective; where a conclusion needs it, the absence of a
  collision between the two inputs concerned is a hypothesis.
\<close>

type_synonym u32 = "32 word"

text \<open>The round constants, in decimal.\<close>

definition K256 :: "u32 list" where
  "K256 =
    [1116352408, 1899447441, 3049323471, 3921009573, 961987163, 1508970993, 2453635748, 2870763221,
     3624381080, 310598401, 607225278, 1426881987, 1925078388, 2162078206, 2614888103, 3248222580,
     3835390401, 4022224774, 264347078, 604807628, 770255983, 1249150122, 1555081692, 1996064986,
     2554220882, 2821834349, 2952996808, 3210313671, 3336571891, 3584528711, 113926993, 338241895,
     666307205, 773529912, 1294757372, 1396182291, 1695183700, 1986661051, 2177026350, 2456956037,
     2730485921, 2820302411, 3259730800, 3345764771, 3516065817, 3600352804, 4094571909, 275423344,
     430227734, 506948616, 659060556, 883997877, 958139571, 1322822218, 1537002063, 1747873779,
     1955562222, 2024104815, 2227730452, 2361852424, 2428436474, 2756734187, 3204031479, 3329325298]"

definition rotr :: "nat \<Rightarrow> u32 \<Rightarrow> u32" where
  "rotr n x = (drop_bit n x) OR (push_bit (32 - n) x)"

definition sig0 :: "u32 \<Rightarrow> u32" where
  "sig0 x = rotr 7 x XOR rotr 18 x XOR drop_bit 3 x"

definition sig1 :: "u32 \<Rightarrow> u32" where
  "sig1 x = rotr 17 x XOR rotr 19 x XOR drop_bit 10 x"

definition Sig0 :: "u32 \<Rightarrow> u32" where
  "Sig0 x = rotr 2 x XOR rotr 13 x XOR rotr 22 x"

definition Sig1 :: "u32 \<Rightarrow> u32" where
  "Sig1 x = rotr 6 x XOR rotr 11 x XOR rotr 25 x"

text \<open>The message schedule is kept newest word first.\<close>

fun schedule :: "nat \<Rightarrow> u32 list \<Rightarrow> u32 list" where
  "schedule 0 w = rev w"
| "schedule (Suc n) w =
     schedule n ((sig1 (w ! 1) + w ! 6 + sig0 (w ! 14) + w ! 15) # w)"

type_synonym sha_state = "u32 \<times> u32 \<times> u32 \<times> u32 \<times> u32 \<times> u32 \<times> u32 \<times> u32"

fun sha_round :: "sha_state \<Rightarrow> u32 \<times> u32 \<Rightarrow> sha_state" where
  "sha_round (a, b, c, d, e, f, g, h) (k, w) =
     (let t1 = h + Sig1 e + ((e AND f) XOR (NOT e AND g)) + k + w;
          t2 = Sig0 a + ((a AND b) XOR (a AND c) XOR (b AND c))
      in (t1 + t2, a, b, c, d + t1, e, f, g))"

fun add_state :: "sha_state \<Rightarrow> sha_state \<Rightarrow> sha_state" where
  "add_state (a, b, c, d, e, f, g, h) (a', b', c', d', e', f', g', h') =
     (a + a', b + b', c + c', d + d', e + e', f + f', g + g', h + h')"

definition sha_init :: sha_state where
  "sha_init = (1779033703, 3144134277, 1013904242, 2773480762,
     1359893119, 2600822924, 528734635, 1541459225)"

fun words_of_bytes :: "bytes \<Rightarrow> u32 list" where
  "words_of_bytes (a # b # c # d # bs) =
     (push_bit 24 (ucast a) OR push_bit 16 (ucast b) OR push_bit 8 (ucast c) OR ucast d)
       # words_of_bytes bs"
| "words_of_bytes _ = []"

definition compress :: "sha_state \<Rightarrow> u32 list \<Rightarrow> sha_state" where
  "compress st block =
     add_state st (foldl sha_round st (zip K256 (schedule 48 (rev block))))"

fun sha_blocks :: "nat \<Rightarrow> sha_state \<Rightarrow> u32 list \<Rightarrow> sha_state" where
  "sha_blocks 0 st w = st"
| "sha_blocks (Suc n) st w = sha_blocks n (compress st (take 16 w)) (drop 16 w)"

definition length_bytes :: "nat \<Rightarrow> bytes" where
  "length_bytes n = map (\<lambda>i. word_of_int (8 * int n div 256 ^ i)) [7, 6, 5, 4, 3, 2, 1, 0]"

definition sha_pad :: "bytes \<Rightarrow> bytes" where
  "sha_pad m = m @ [0x80] @ replicate ((119 - length m mod 64) mod 64) 0 @ length_bytes (length m)"

definition hex_char :: "int \<Rightarrow> char" where
  "hex_char d = ''0123456789abcdef'' ! nat d"

fun hex_digits :: "nat \<Rightarrow> int \<Rightarrow> string" where
  "hex_digits 0 n = []"
| "hex_digits (Suc w) n = hex_digits w (n div 16) @ [hex_char (n mod 16)]"

fun hex_state :: "sha_state \<Rightarrow> string" where
  "hex_state (a, b, c, d, e, f, g, h) =
     concat (map (\<lambda>x. hex_digits 8 (uint x)) [a, b, c, d, e, f, g, h])"

definition sha256 :: "bytes \<Rightarrow> string" where
  "sha256 m =
     (let w = words_of_bytes (sha_pad m)
      in hex_state (sha_blocks (length w div 16) sha_init w))"

text \<open>\<open>"sha256:" + hashlib.sha256(payload).hexdigest()\<close>, the digest form of every module.\<close>

definition content_digest :: "bytes \<Rightarrow> string" where
  "content_digest payload = ''sha256:'' @ sha256 payload"

definition is_digest :: "string \<Rightarrow> bool" where
  "is_digest s \<longleftrightarrow> take 7 s = ''sha256:'' \<and> is_hex64 (drop 7 s)"

section \<open>Hex digests\<close>

lemma length_hex_digits [simp]: "length (hex_digits w n) = w"
  by (induction w arbitrary: n) auto

lemma is_hex_hex_char: "0 \<le> d \<Longrightarrow> d < 16 \<Longrightarrow> is_hex (hex_char d)"
proof -
  assume "0 \<le> d" "d < 16"
  then have "nat d < length ''0123456789abcdef''" by simp
  from nth_mem [OF this] show ?thesis by (simp only: hex_char_def is_hex_def)
qed

lemma list_all_hex_digits: "list_all is_hex (hex_digits w n)"
  by (induction w arbitrary: n) (auto simp: is_hex_hex_char)

lemma is_hex64_sha256: "is_hex64 (sha256 m)"
proof -
  have "is_hex64 (hex_state st)" for st
    by (cases st rule: hex_state.cases) (simp add: is_hex64_def list_all_hex_digits)
  then show ?thesis by (simp add: sha256_def Let_def)
qed

locale hex_digest =
  fixes digest :: "bytes \<Rightarrow> string"
  assumes hex64: "is_hex64 (digest m)"
begin

definition prefixed :: "bytes \<Rightarrow> string" where
  "prefixed m = ''sha256:'' @ digest m"

lemma digest_is_digest: "is_digest (prefixed m)"
  by (simp add: prefixed_def is_digest_def hex64)

lemma digest_length: "length (prefixed m) = 71"
  using hex64 [of m] by (simp add: prefixed_def is_hex64_def)

lemma digest_name: "removeprefix ''sha256:'' (prefixed m) = digest m"
  by (simp only: prefixed_def removeprefix_append)

lemma digest_inject: "prefixed m = prefixed n \<longleftrightarrow> digest m = digest n"
  by (simp add: prefixed_def)

end

interpretation sha: hex_digest sha256
  rewrites "hex_digest.prefixed sha256 = content_digest"
  by (unfold_locales, rule is_hex64_sha256)
    (simp add: fun_eq_iff hex_digest.prefixed_def hex_digest.intro is_hex64_sha256 content_digest_def)

lemmas content_digest_is_digest [simp] = sha.digest_is_digest
lemmas content_digest_length [simp] = sha.digest_length
lemmas content_digest_name [simp] = sha.digest_name
lemmas content_digest_inject = sha.digest_inject

end
