(* ===== verification/Canonical.thy ===== *)
theory Canonical
  imports Sha256
begin

text \<open>
  JSON as the program uses it: \<open>canonical_json\<close> of \<open>src/iou_ai/quarantine.py\<close> (sorted keys, compact
  separators, ASCII escapes) and the standard parser \<open>json.loads\<close>, both executable, with the round
  trip between them.  It makes the canonical bytes of a document, and so its digest input,
  determine the document.  Numbers are integers: no wire contract of the program has a float.
\<close>

datatype json =
    JNull
  | JBool bool
  | JInt int
  | JStr string
  | JList "json list"
  | JObj "(string \<times> json) list"

section \<open>Rendering\<close>

abbreviation (input) DQ :: char where "DQ \<equiv> CHR 0x22"
abbreviation (input) BS :: char where "BS \<equiv> CHR 0x5C"

definition escape_char :: "char \<Rightarrow> string" where
  "escape_char c =
     (if c = DQ then [BS, DQ]
      else if c = BS then [BS, BS]
      else if c = CHR 0x0A then [BS, CHR ''n'']
      else if c = CHR 0x0D then [BS, CHR ''r'']
      else if c = CHR 0x09 then [BS, CHR ''t'']
      else if c = CHR 0x0C then [BS, CHR ''f'']
      else if c = CHR 0x08 then [BS, CHR ''b'']
      else if 32 \<le> (of_char c :: nat) \<and> (of_char c :: nat) \<le> 126 then [c]
      else [BS, CHR ''u'', CHR ''0'', CHR ''0'',
            hex_char (of_char c div 16), hex_char (of_char c mod 16)])"

definition quote :: "string \<Rightarrow> string" where
  "quote s = [DQ] @ concat (map escape_char s) @ [DQ]"

fun render :: "json \<Rightarrow> string" where
  "render JNull = ''null''"
| "render (JBool b) = (if b then ''true'' else ''false'')"
| "render (JInt i) = show_int i"
| "render (JStr s) = quote s"
| "render (JList vs) = ''['' @ join '','' (map render vs) @ '']''"
| "render (JObj kvs) =
     ''{'' @
     join '',''
       (map (\<lambda>(k, t). quote k @ '':'' @ t)
         (sort_key fst (map (\<lambda>(k, v). (k, render v)) kvs))) @
     ''}''"

definition ascii_bytes :: "string \<Rightarrow> bytes" where
  "ascii_bytes s = map (\<lambda>c. word_of_int (of_char c)) s"

definition canonical_json :: "json \<Rightarrow> bytes" where
  "canonical_json v = ascii_bytes (render v)"

definition sha256_json :: "json \<Rightarrow> string" where
  "sha256_json v = sha256 (canonical_json v)"

text \<open>\<open>"sha256:" + sha256(canonical_json(value))\<close>, the model digest of every module.\<close>

definition json_digest :: "json \<Rightarrow> string" where
  "json_digest v = content_digest (canonical_json v)"

lemma json_digest_is_digest [simp]: "is_digest (json_digest v)"
  by (simp add: json_digest_def)

section \<open>Parsing\<close>

definition is_json_space :: "char \<Rightarrow> bool" where
  "is_json_space c \<longleftrightarrow> c = CHR 0x20 \<or> c = CHR 0x09 \<or> c = CHR 0x0A \<or> c = CHR 0x0D"

abbreviation skip_ws :: "string \<Rightarrow> string" where
  "skip_ws s \<equiv> dropWhile is_json_space s"

definition hex_value :: "char \<Rightarrow> nat option" where
  "hex_value c =
     (let n = of_char c :: nat in
      if 48 \<le> n \<and> n \<le> 57 then Some (n - 48)
      else if 97 \<le> n \<and> n \<le> 102 then Some (n - 87)
      else if 65 \<le> n \<and> n \<le> 70 then Some (n - 55)
      else None)"

definition hex4_value :: "char \<Rightarrow> char \<Rightarrow> char \<Rightarrow> char \<Rightarrow> nat option" where
  "hex4_value a b c d =
     (case (hex_value a, hex_value b, hex_value c, hex_value d) of
        (Some p, Some q, Some r, Some s) \<Rightarrow>
          (if ((p * 16 + q) * 16 + r) * 16 + s < 256 then Some (((p * 16 + q) * 16 + r) * 16 + s)
           else None)
      | _ \<Rightarrow> None)"

definition simple_escape :: "char \<Rightarrow> char option" where
  "simple_escape e =
     (if e = DQ then Some DQ
      else if e = BS then Some BS
      else if e = CHR ''/'' then Some (CHR ''/'')
      else if e = CHR ''n'' then Some (CHR 0x0A)
      else if e = CHR ''r'' then Some (CHR 0x0D)
      else if e = CHR ''t'' then Some (CHR 0x09)
      else if e = CHR ''f'' then Some (CHR 0x0C)
      else if e = CHR ''b'' then Some (CHR 0x08)
      else None)"

text \<open>One character of a string body, then the body up to the closing quote.\<close>

fun unescape_char :: "string \<Rightarrow> (char \<times> string) option" where
  "unescape_char [] = None"
| "unescape_char (c # cs) =
     (if c = BS then
        (case cs of
           [] \<Rightarrow> None
         | e # es \<Rightarrow>
             if e = CHR ''u'' then
               (case es of
                  p # q # r # s # rest \<Rightarrow> map_option (\<lambda>n. (char_of n, rest)) (hex4_value p q r s)
                | _ \<Rightarrow> None)
             else map_option (\<lambda>x. (x, es)) (simple_escape e))
      else if (of_char c :: nat) < 32 then None
      else Some (c, cs))"

lemma unescape_char_shorter: "unescape_char s = Some (c, r) \<Longrightarrow> length r < length s"
  by (induction s rule: unescape_char.induct) (auto split: if_splits list.splits)

function parse_string :: "string \<Rightarrow> (string \<times> string) option" where
  "parse_string s =
     (case s of
        [] \<Rightarrow> None
      | c # cs \<Rightarrow>
          if c = DQ then Some ([], cs)
          else
            (case unescape_char s of
               None \<Rightarrow> None
             | Some (x, r) \<Rightarrow>
                 (case parse_string r of None \<Rightarrow> None | Some (t, r') \<Rightarrow> Some (x # t, r'))))"
  by pat_completeness auto
termination
  by (relation "measure length") (auto dest!: unescape_char_shorter simp del: unescape_char.simps)

declare parse_string.simps [simp del]

definition digits_value :: "string \<Rightarrow> nat" where
  "digits_value s = foldl (\<lambda>n c. n * 10 + (of_char c - 48)) 0 s"

definition parse_nat :: "string \<Rightarrow> (nat \<times> string) option" where
  "parse_nat s =
     (let ds = takeWhile is_digit s; r = dropWhile is_digit s in
      if ds = [] then None
      else if hd ds = CHR ''0'' \<and> length ds \<noteq> 1 then None
      else if r \<noteq> [] \<and> hd r \<in> {CHR ''.'', CHR ''e'', CHR ''E''} then None
      else Some (digits_value ds, r))"

text \<open>A dict built from pairs: a repeated key keeps its place and takes the last value.\<close>

fun dict_set :: "('k \<times> 'v) list \<Rightarrow> 'k \<times> 'v \<Rightarrow> ('k \<times> 'v) list" where
  "dict_set [] kv = [kv]"
| "dict_set ((k, v) # kvs) kv = (if k = fst kv then (k, snd kv) # kvs else (k, v) # dict_set kvs kv)"

definition dict_of_pairs :: "('k \<times> 'v) list \<Rightarrow> ('k \<times> 'v) list" where
  "dict_of_pairs kvs = foldl dict_set [] kvs"

definition parse_key :: "string \<Rightarrow> (string \<times> string) option" where
  "parse_key s =
     (case skip_ws s of
        [] \<Rightarrow> None
      | c # cs \<Rightarrow>
          if c \<noteq> DQ then None
          else
            (case parse_string cs of
               None \<Rightarrow> None
             | Some (k, r) \<Rightarrow>
                 (case skip_ws r of
                    [] \<Rightarrow> None
                  | d # ds \<Rightarrow> if d = CHR '':'' then Some (k, ds) else None)))"

text \<open>
  The recursive descent, by fuel; a document of length \<open>n\<close> is given \<open>2 * n + 2\<close>, which
  \<open>loads_render\<close> below shows to be enough for every rendered document.
\<close>

fun parse_value :: "nat \<Rightarrow> string \<Rightarrow> (json \<times> string) option"
  and parse_elements :: "nat \<Rightarrow> string \<Rightarrow> (json list \<times> string) option"
  and parse_members :: "nat \<Rightarrow> string \<Rightarrow> ((string \<times> json) list \<times> string) option" where
  "parse_value 0 s = None"
| "parse_value (Suc n) s =
     (case skip_ws s of
        [] \<Rightarrow> None
      | c # cs \<Rightarrow>
          if c = DQ then map_option (\<lambda>(t, r). (JStr t, r)) (parse_string cs)
          else if c = CHR ''['' then
            (case skip_ws cs of
               [] \<Rightarrow> None
             | d # ds \<Rightarrow>
                 if d = CHR '']'' then Some (JList [], ds)
                 else map_option (\<lambda>(vs, r). (JList vs, r)) (parse_elements n cs))
          else if c = CHR ''{'' then
            (case skip_ws cs of
               [] \<Rightarrow> None
             | d # ds \<Rightarrow>
                 if d = CHR ''}'' then Some (JObj [], ds)
                 else map_option (\<lambda>(kvs, r). (JObj (dict_of_pairs kvs), r)) (parse_members n cs))
          else if c = CHR ''-'' then map_option (\<lambda>(i, r). (JInt (- int i), r)) (parse_nat cs)
          else if is_digit c then map_option (\<lambda>(i, r). (JInt (int i), r)) (parse_nat (c # cs))
          else if take 4 (c # cs) = ''null'' then Some (JNull, drop 4 (c # cs))
          else if take 4 (c # cs) = ''true'' then Some (JBool True, drop 4 (c # cs))
          else if take 5 (c # cs) = ''false'' then Some (JBool False, drop 5 (c # cs))
          else None)"
| "parse_elements 0 s = None"
| "parse_elements (Suc n) s =
     (case parse_value n s of
        None \<Rightarrow> None
      | Some (v, r) \<Rightarrow>
          (case skip_ws r of
             [] \<Rightarrow> None
           | c # cs \<Rightarrow>
               if c = CHR '','' then map_option (\<lambda>(vs, r'). (v # vs, r')) (parse_elements n cs)
               else if c = CHR '']'' then Some ([v], cs)
               else None))"
| "parse_members 0 s = None"
| "parse_members (Suc n) s =
     (case parse_key s of
        None \<Rightarrow> None
      | Some (k, r) \<Rightarrow>
          (case parse_value n r of
             None \<Rightarrow> None
           | Some (v, r') \<Rightarrow>
               (case skip_ws r' of
                  [] \<Rightarrow> None
                | c # cs \<Rightarrow>
                    if c = CHR '','' then
                      map_option (\<lambda>(kvs, r''). ((k, v) # kvs, r'')) (parse_members n cs)
                    else if c = CHR ''}'' then Some ([(k, v)], cs)
                    else None)))"

definition loads_text :: "string \<Rightarrow> json option" where
  "loads_text s =
     (case parse_value (2 * length s + 2) s of
        None \<Rightarrow> None
      | Some (v, r) \<Rightarrow> if skip_ws r = [] then Some v else None)"

definition loads :: "bytes \<Rightarrow> json option" where
  "loads b = loads_text (map (\<lambda>w. char_of (uint w)) b)"

section \<open>Characters and strings round-trip\<close>

lemma hex_value_hex_char: "0 \<le> d \<Longrightarrow> d < 16 \<Longrightarrow> hex_value (hex_char d) = Some (nat d)"
proof -
  have "\<forall>n \<in> set [0..<16]. hex_value (''0123456789abcdef'' ! n) = Some n" by code_simp
  moreover assume "0 \<le> d" "d < 16"
  then have "nat d \<in> set [0..<16]" by auto
  ultimately show ?thesis unfolding hex_char_def by blast
qed

lemma of_char_bound: "0 \<le> (of_char c :: int)" "(of_char c :: int) < 256"
proof -
  have "(of_char c :: int) = int (of_char c)" by (simp add: of_char_def)
  with nat_of_char_less_256 [of c] show "0 \<le> (of_char c :: int)" "(of_char c :: int) < 256" by simp_all
qed

lemma nat_of_char: "nat (of_char c) = of_char c"
  by (simp add: of_char_def)

lemma hex4_escape:
  "hex4_value (CHR ''0'') (CHR ''0'') (hex_char (of_char c div 16)) (hex_char (of_char c mod 16))
     = Some (of_char c)"
proof -
  have "hex_value (hex_char (of_char c div 16)) = Some (nat (of_char c div 16))"
    using of_char_bound [of c] by (intro hex_value_hex_char) auto
  moreover have "hex_value (hex_char (of_char c mod 16)) = Some (nat (of_char c mod 16))"
    by (intro hex_value_hex_char) auto
  moreover have "hex_value (CHR ''0'') = Some 0" by (simp add: hex_value_def)
  moreover have "nat (of_char c div 16) * 16 + nat (of_char c mod 16) = of_char c"
    using nat_of_char [of c] by (simp add: nat_div_distrib nat_mod_distrib of_char_bound(1))
  moreover have "(of_char c :: nat) < 256" by (rule nat_of_char_less_256)
  ultimately show ?thesis by (simp add: hex4_value_def)
qed

lemma unescape_escape: "unescape_char (escape_char c @ r) = Some (c, r)"
  by (simp add: escape_char_def simple_escape_def hex4_escape)

lemma escape_char_head: "\<exists>d ds. escape_char c = d # ds \<and> d \<noteq> DQ"
  by (simp add: escape_char_def)

lemma parse_string_quote: "parse_string (concat (map escape_char s) @ DQ # r) = Some (s, r)"
proof (induction s)
  case Nil
  then show ?case by (simp add: parse_string.simps)
next
  case (Cons c s)
  obtain d ds where d: "escape_char c = d # ds" "d \<noteq> DQ" using escape_char_head by blast
  let ?rest = "concat (map escape_char s) @ DQ # r"
  have "unescape_char (d # ds @ ?rest) = Some (c, ?rest)"
    using unescape_escape [of c ?rest] by (simp add: d)
  with d Cons.IH show ?case
    by (subst parse_string.simps) (simp del: unescape_char.simps)
qed

section \<open>Numbers round-trip\<close>

text \<open>What may follow a value inside a document.\<close>

definition ends_value :: "string \<Rightarrow> bool" where
  "ends_value r \<longleftrightarrow> r = [] \<or> hd r \<in> {CHR '','', CHR '']'', CHR ''}''}"

lemma show_nat_digits: "list_all is_digit (show_nat n)"
  by (induction n rule: show_nat.induct)
    (subst show_nat.simps, auto simp: is_digit_digit_char)

lemma digits_value_snoc: "digits_value (s @ [c]) = digits_value s * 10 + (of_char c - 48)"
  by (simp add: digits_value_def)

lemma digits_value_show_nat: "digits_value (show_nat n) = n"
proof (induction n rule: show_nat.induct)
  case (1 n)
  show ?case
  proof (cases "n < 10")
    case True
    then show ?thesis
      by (subst show_nat.simps) (simp add: digits_value_def of_char_digit_char)
  next
    case False
    with 1 show ?thesis
      by (subst show_nat.simps) (simp add: digits_value_snoc of_char_digit_char)
  qed
qed

lemma show_nat_leading: "hd (show_nat n) = CHR ''0'' \<Longrightarrow> n = 0"
proof (induction n rule: show_nat.induct)
  case (1 n)
  show ?case
  proof (cases "n < 10")
    case True
    with "1.prems" have "digit_char n = digit_char 0"
      by (simp add: show_nat.simps [of n]) (simp add: digit_char_def)
    with True show ?thesis by (simp add: digit_char_inject)
  next
    case False
    with "1.prems" have "hd (show_nat (n div 10)) = CHR ''0''"
      by (simp add: show_nat.simps [of n])
    with 1 False show ?thesis by simp
  qed
qed

lemma show_nat_0 [simp]: "show_nat 0 = ''0''"
  by (simp add: show_nat.simps digit_char_def)

lemma parse_nat_show:
  assumes "ends_value r"
  shows "parse_nat (show_nat n @ r) = Some (n, r)"
proof -
  have r: "takeWhile is_digit r = []" "dropWhile is_digit r = r"
    "r \<noteq> [] \<Longrightarrow> hd r \<notin> {CHR ''.'', CHR ''e'', CHR ''E''}"
    using assms by (cases r; auto simp: ends_value_def is_digit_def)+
  have all: "\<And>c. c \<in> set (show_nat n) \<Longrightarrow> is_digit c"
    using show_nat_digits by (simp add: list_all_iff)
  have "takeWhile is_digit (show_nat n @ r) = show_nat n" "dropWhile is_digit (show_nat n @ r) = r"
    using all r by (simp_all add: takeWhile_append2 dropWhile_append2)
  moreover have "hd (show_nat n) = CHR ''0'' \<Longrightarrow> length (show_nat n) = 1"
    using show_nat_leading [of n] by simp
  ultimately show ?thesis using r(3) by (auto simp: parse_nat_def Let_def digits_value_show_nat)
qed

section \<open>Documents\<close>

text \<open>
  A Python dict has one entry per key (\<open>wf_json\<close>); rendering sorts the entries (\<open>norm_json\<close>).
\<close>

fun wf_json :: "json \<Rightarrow> bool" where
  "wf_json (JList vs) = list_all wf_json vs"
| "wf_json (JObj kvs) \<longleftrightarrow> distinct (map fst kvs) \<and> list_all (\<lambda>(k, v). wf_json v) kvs"
| "wf_json _ = True"

fun norm_json :: "json \<Rightarrow> json" where
  "norm_json (JList vs) = JList (map norm_json vs)"
| "norm_json (JObj kvs) = JObj (sort_key fst (map (\<lambda>(k, v). (k, norm_json v)) kvs))"
| "norm_json v = v"

lemma insort_key_map:
  "insort_key f (g x) (map g xs) = map g (insort_key (f \<circ> g) x xs)"
  by (induction xs) auto

lemma sort_key_map: "sort_key f (map g xs) = map g (sort_key (f \<circ> g) xs)"
  by (induction xs) (simp_all add: insort_key_map del: o_apply)

lemma sort_key_values:
  "sort_key fst (map (\<lambda>(k, v). (k, f v)) kvs) = map (\<lambda>(k, v). (k, f v)) (sort_key fst kvs)"
  by (simp add: sort_key_map comp_def case_prod_unfold)

definition member_text :: "string \<times> json \<Rightarrow> string" where
  "member_text kv = quote (fst kv) @ '':'' @ render (snd kv)"

lemma member_text_pair: "member_text (k, v) = quote k @ '':'' @ render v"
  by (simp add: member_text_def)

lemma render_JObj:
  "render (JObj kvs) = ''{'' @ join '','' (map member_text (sort_key fst kvs)) @ ''}''"
  by (simp add: sort_key_values) (simp add: comp_def case_prod_unfold member_text_def [abs_def])

lemma dict_set_fresh: "fst kv \<notin> fst ` set kvs \<Longrightarrow> dict_set kvs kv = kvs @ [kv]"
  by (induction kvs) auto

lemma dict_of_pairs_distinct: "distinct (map fst kvs) \<Longrightarrow> dict_of_pairs kvs = kvs"
proof -
  have "distinct (map fst (acc @ kvs)) \<Longrightarrow> foldl dict_set acc kvs = acc @ kvs" for acc
    by (induction kvs arbitrary: acc) (auto simp: dict_set_fresh)
  from this [of "[]"] show "distinct (map fst kvs) \<Longrightarrow> dict_of_pairs kvs = kvs"
    by (simp add: dict_of_pairs_def)
qed

text \<open>The first character of a rendered value decides the parser's branch.\<close>

lemma digit_cases: "is_digit c \<Longrightarrow> c \<notin> {DQ, CHR ''['', CHR ''{'', CHR ''-'', CHR '']''} \<and> \<not> is_json_space c"
  by (auto simp: is_digit_def is_json_space_def)

lemma show_nat_Cons: "\<exists>c cs. show_nat n = c # cs \<and> is_digit c"
  using show_nat_digits [of n] by (cases "show_nat n") auto

lemma render_head: "\<exists>c cs. render v = c # cs \<and> c \<noteq> CHR '']'' \<and> \<not> is_json_space c"
proof (cases v)
  case (JInt i)
  obtain c cs where "show_nat (nat i) = c # cs" "is_digit c" using show_nat_Cons by blast
  then show ?thesis using digit_cases [of c]
    by (auto simp: JInt show_int_def is_json_space_def)
qed (auto simp: quote_def is_json_space_def)

lemma skip_ws_render: "skip_ws (render v @ r) = render v @ r"
  using render_head [of v] by auto

lemma skip_ws_ends: "ends_value r \<Longrightarrow> skip_ws r = r"
  by (cases r) (auto simp: ends_value_def is_json_space_def)

lemma ends_value_simps [simp]:
  "ends_value []" "ends_value (CHR '','' # r)" "ends_value (CHR '']'' # r)"
  "ends_value (CHR ''}'' # r)"
  by (simp_all add: ends_value_def)

definition parses :: "json \<Rightarrow> bool" where
  "parses v \<longleftrightarrow>
     (\<forall>n r. ends_value r \<longrightarrow> 2 * length (render v) \<le> n \<longrightarrow>
        parse_value n (render v @ r) = Some (norm_json v, r))"

lemma parsesD:
  "parses v \<Longrightarrow> ends_value r \<Longrightarrow> 2 * length (render v) \<le> n \<Longrightarrow>
     parse_value n (render v @ r) = Some (norm_json v, r)"
  by (simp add: parses_def)

lemma parsesI:
  assumes "\<And>m r. ends_value r \<Longrightarrow> 2 * length (render v) \<le> Suc m \<Longrightarrow>
    parse_value (Suc m) (render v @ r) = Some (norm_json v, r)"
  shows "parses v"
  unfolding parses_def
proof (intro allI impI)
  fix n r
  assume "ends_value r" "2 * length (render v) \<le> n"
  moreover obtain c cs where "render v = c # cs" using render_head [of v] by blast
  ultimately show "parse_value n (render v @ r) = Some (norm_json v, r)"
    using assms by (cases n) auto
qed

lemma join_Cons: "xs \<noteq> [] \<Longrightarrow> join sep (x # xs) = x @ sep @ join sep xs"
  by (cases xs) auto

lemma parse_elements_render:
  assumes "vs \<noteq> []" and "\<And>v. v \<in> set vs \<Longrightarrow> parses v"
    and "2 * length (join '','' (map render vs)) + 1 \<le> n"
  shows "parse_elements n (join '','' (map render vs) @ CHR '']'' # r) = Some (map norm_json vs, r)"
  using assms
proof (induction vs arbitrary: n)
  case Nil
  then show ?case by simp
next
  case (Cons v vs)
  from Cons.prems(3) obtain m where n: "n = Suc m" by (cases n) auto
  have v: "parses v" using Cons.prems(2) by simp
  show ?case
  proof (cases "vs = []")
    case True
    with Cons.prems(3) n parsesD [OF v, of "CHR '']'' # r" m] show ?thesis
      by (simp add: is_json_space_def)
  next
    case False
    let ?rest = "join '','' (map render vs) @ CHR '']'' # r"
    have eqn: "join '','' (map render (v # vs)) @ CHR '']'' # r = render v @ CHR '','' # ?rest"
      using False by (simp add: join_Cons)
    have "2 * length (render v) \<le> m" "2 * length (join '','' (map render vs)) + 1 \<le> m"
      using Cons.prems(3) False by (simp_all add: n join_Cons)
    then show ?thesis
      using parsesD [OF v, of "CHR '','' # ?rest" m] Cons.IH [of m] Cons.prems(2) False
      unfolding eqn n by (simp add: is_json_space_def)
  qed
qed

lemma parse_key_quote: "parse_key (quote k @ CHR '':'' # r) = Some (k, r)"
  by (simp add: parse_key_def quote_def parse_string_quote is_json_space_def)

lemma parse_members_render:
  assumes "kvs \<noteq> []" and "\<And>kv. kv \<in> set kvs \<Longrightarrow> parses (snd kv)"
    and "2 * length (join '','' (map member_text kvs)) + 1 \<le> n"
  shows "parse_members n (join '','' (map member_text kvs) @ CHR ''}'' # r) =
    Some (map (\<lambda>(k, v). (k, norm_json v)) kvs, r)"
  using assms
proof (induction kvs arbitrary: n)
  case Nil
  then show ?case by simp
next
  case (Cons kv kvs)
  from Cons.prems(3) obtain m where n: "n = Suc m" by (cases n) auto
  obtain k v where kv: "kv = (k, v)" by (cases kv)
  have v: "parses v" using Cons.prems(2) [of kv] by (simp add: kv)
  show ?case
  proof (cases "kvs = []")
    case True
    with Cons.prems(3) n parsesD [OF v, of "CHR ''}'' # r" m] show ?thesis
      by (simp add: kv member_text_pair parse_key_quote is_json_space_def)
  next
    case False
    let ?rest = "join '','' (map member_text kvs) @ CHR ''}'' # r"
    have eqn: "join '','' (map member_text (kv # kvs)) @ CHR ''}'' # r =
        quote k @ CHR '':'' # render v @ CHR '','' # ?rest"
      using False by (simp add: join_Cons kv member_text_pair)
    have "2 * length (render v) \<le> m" "2 * length (join '','' (map member_text kvs)) + 1 \<le> m"
      using Cons.prems(3) False by (simp_all add: n join_Cons kv member_text_pair)
    then show ?thesis
      using parsesD [OF v, of "CHR '','' # ?rest" m] Cons.IH [of m] Cons.prems(2) False
      unfolding eqn n by (simp add: kv parse_key_quote is_json_space_def)
  qed
qed

lemma parses_int: "parses (JInt i)"
proof (rule parsesI)
  fix m r
  assume r: "ends_value r"
  obtain c cs where c: "show_nat (nat i) = c # cs" "is_digit c" using show_nat_Cons by blast
  show "parse_value (Suc m) (render (JInt i) @ r) = Some (norm_json (JInt i), r)"
  proof (cases "i < 0")
    case True
    then show ?thesis using r by (simp add: show_int_def parse_nat_show is_json_space_def)
  next
    case False
    have "parse_nat (c # cs @ r) = Some (nat i, r)" using parse_nat_show [OF r, of "nat i"] c by simp
    with False c digit_cases [of c] show ?thesis by (simp add: show_int_def)
  qed
qed

lemma parses_list:
  assumes vs: "\<And>v. v \<in> set vs \<Longrightarrow> parses v"
  shows "parses (JList vs)"
proof (rule parsesI)
  fix m r
  assume m: "2 * length (render (JList vs)) \<le> Suc m"
  show "parse_value (Suc m) (render (JList vs) @ r) = Some (norm_json (JList vs), r)"
  proof (cases "vs = []")
    case True
    then show ?thesis by (simp add: is_json_space_def)
  next
    case False
    obtain d ds where "join '','' (map render vs) = d # ds" "d \<noteq> CHR '']''" "\<not> is_json_space d"
      using False render_head [of "hd vs"] by (cases vs; cases "tl vs") auto
    with parse_elements_render [OF False vs, of m r] m show ?thesis
      by (simp add: is_json_space_def)
  qed
qed

text \<open>An object ends at its own brace, whatever follows.\<close>

lemma parse_object:
  assumes kvs: "\<And>kv. kv \<in> set kvs \<Longrightarrow> parses (snd kv)" and dist: "distinct (map fst kvs)"
    and m: "2 * length (render (JObj kvs)) \<le> Suc m"
  shows "parse_value (Suc m) (render (JObj kvs) @ r) = Some (norm_json (JObj kvs), r)"
proof -
  let ?skvs = "sort_key fst kvs"
  have dist': "dict_of_pairs (map (\<lambda>(k, v). (k, norm_json v)) ?skvs) =
      map (\<lambda>(k, v). (k, norm_json v)) ?skvs"
    using dist by (intro dict_of_pairs_distinct) (simp add: comp_def case_prod_unfold distinct_map)
  show ?thesis
  proof (cases "kvs = []")
    case True
    then show ?thesis by (simp add: is_json_space_def)
  next
    case False
    then have ne: "?skvs \<noteq> []" by (metis length_0_conv length_sort)
    obtain d ds where "join '','' (map member_text ?skvs) = d # ds" "d \<noteq> CHR ''}''"
      "\<not> is_json_space d"
      using ne by (cases ?skvs; cases "tl ?skvs")
        (auto simp: member_text_def quote_def is_json_space_def)
    with parse_members_render [OF ne, of m r] kvs m show ?thesis
      by (simp add: render_JObj sort_key_values dist' is_json_space_def del: render.simps(6))
  qed
qed

lemma parses_obj:
  assumes "\<And>kv. kv \<in> set kvs \<Longrightarrow> parses (snd kv)" and "distinct (map fst kvs)"
  shows "parses (JObj kvs)"
  by (rule parsesI) (rule parse_object [OF assms])

lemma parses_wf: "wf_json v \<Longrightarrow> parses v"
proof (induction v)
  case JNull
  show ?case by (rule parsesI) (simp add: is_json_space_def is_digit_def)
next
  case (JBool b)
  show ?case by (rule parsesI) (simp add: is_json_space_def is_digit_def)
next
  case (JInt i)
  show ?case by (rule parses_int)
next
  case (JStr s)
  show ?case by (rule parsesI) (simp add: quote_def parse_string_quote is_json_space_def)
next
  case (JList vs)
  then show ?case by (intro parses_list) (auto simp: list_all_iff)
next
  case (JObj kvs)
  then show ?case by (intro parses_obj) (force simp: list_all_iff)+
qed

lemma loads_text_render: "wf_json v \<Longrightarrow> loads_text (render v) = Some (norm_json v)"
  using parsesD [OF parses_wf, of v "[]" "2 * length (render v) + 2"]
  by (simp add: loads_text_def)

lemma decode_ascii_bytes: "map (\<lambda>w. char_of (uint w)) (ascii_bytes s) = s"
proof -
  have "uint (word_of_int (of_char c) :: 8 word) = of_char c" for c
    by (simp add: uint_word_of_int take_bit_eq_mod)
  then show ?thesis by (simp add: ascii_bytes_def comp_def)
qed

lemma loads_canonical: "wf_json v \<Longrightarrow> loads (canonical_json v) = Some (norm_json v)"
  by (simp add: loads_def canonical_json_def decode_ascii_bytes loads_text_render)

lemma canonical_json_inject:
  "wf_json v \<Longrightarrow> wf_json w \<Longrightarrow> canonical_json v = canonical_json w \<Longrightarrow> norm_json v = norm_json w"
  using loads_canonical [of v] loads_canonical [of w] by simp

text \<open>No object is a proper prefix of another one.\<close>

lemma canonical_prefix_free:
  assumes "wf_json (JObj v)" "wf_json (JObj w)" "canonical_json (JObj v) = canonical_json (JObj w) @ rest"
  shows "rest = []"
proof -
  have "map (\<lambda>b. char_of (uint b)) (canonical_json (JObj v)) = render (JObj w) @ map (\<lambda>b. char_of (uint b)) rest"
    unfolding assms(3) by (simp add: canonical_json_def decode_ascii_bytes del: render.simps)
  then have rendered: "render (JObj v) = render (JObj w) @ map (\<lambda>b. char_of (uint b)) rest"
    by (simp add: canonical_json_def decode_ascii_bytes del: render.simps)
  have whole: "parse_value (Suc m) (render (JObj kvs) @ r) = Some (norm_json (JObj kvs), r)"
    if "wf_json (JObj kvs)" "2 * length (render (JObj kvs)) \<le> Suc m" for kvs m r
    using that by (intro parse_object parses_wf) (auto simp: list_all_iff)
  let ?m = "2 * length (render (JObj v))"
  have "parse_value (Suc ?m) (render (JObj v)) = Some (norm_json (JObj v), [])"
    using whole [OF assms(1), of ?m "[]"] by (simp del: render.simps parse_value.simps)
  moreover have "parse_value (Suc ?m) (render (JObj v)) = Some (norm_json (JObj w), map (\<lambda>b. char_of (uint b)) rest)"
    using whole [OF assms(2), of ?m "map (\<lambda>b. char_of (uint b)) rest"] unfolding rendered by simp
  ultimately show ?thesis by simp
qed

text \<open>Rendering does not see the order of a dict's entries beyond what sorting removes.\<close>

lemma sort_key_idem: "sort_key f (sort_key f xs) = sort_key f xs"
  by (rule sort_key_id_if_sorted) simp

lemma render_norm: "render (norm_json v) = render v"
proof (induction v rule: norm_json.induct)
  case (2 kvs)
  have "render (norm_json v) = render v" if "(k, v) \<in> set kvs" for k v using 2 [OF that refl] .
  then have "map (\<lambda>(k, v). (k, render v)) (map (\<lambda>(k, v). (k, norm_json v)) kvs) = map (\<lambda>(k, v). (k, render v)) kvs"
    by auto
  from arg_cong [OF this, of "sort_key fst"]
  have "sort_key fst (map (\<lambda>(k, v). (k, render v)) (map (\<lambda>(k, v). (k, norm_json v)) kvs)) =
      sort_key fst (map (\<lambda>(k, v). (k, render v)) kvs)" .
  then show ?case
    by (simp add: sort_key_idem sort_key_values del: map_map)
qed (simp_all add: comp_def cong: map_cong)

lemma canonical_norm [simp]: "canonical_json (norm_json v) = canonical_json v"
  by (simp add: canonical_json_def render_norm)

end
