(* ===== verification/PyTime.thy ===== *)
theory PyTime
  imports Prelude
begin

text \<open>
  Time as the program uses Python's \<open>datetime\<close>.  A timezone-aware instant is the number of
  microseconds since 0001-01-01T00:00:00 UTC, so comparison, difference and \<open>timedelta\<close> arithmetic
  are those of \<open>int\<close>; a naive datetime is its own constructor, because every consumer rejects it.
  Dates are proleptic Gregorian ordinals with 1 for 0001-01-01.  \<open>ord2ymd\<close> is the conversion the
  standard library uses.
\<close>

type_synonym instant = int

datatype pydatetime = Aware instant | Naive

abbreviation (input) usec_per_second :: int where "usec_per_second \<equiv> 1000000"

definition seconds :: "int \<Rightarrow> int" where "seconds s = s * 1000000"

definition minutes :: "int \<Rightarrow> int" where "minutes m = m * 60000000"

definition hours :: "int \<Rightarrow> int" where "hours h = h * 3600000000"

definition usec_per_day :: int where "usec_per_day = 86400000000"

definition date_of :: "instant \<Rightarrow> int" where
  "date_of t = t div usec_per_day + 1"

definition DAYS_BEFORE_MONTH :: "int list" where
  "DAYS_BEFORE_MONTH = [-1, 0, 31, 59, 90, 120, 151, 181, 212, 243, 273, 304, 334]"

definition DAYS_IN_MONTH :: "int list" where
  "DAYS_IN_MONTH = [-1, 31, 28, 31, 30, 31, 30, 31, 31, 30, 31, 30, 31]"

definition ord2ymd :: "int \<Rightarrow> int \<times> int \<times> int" where
  "ord2ymd ordinal =
     (let n = ordinal - 1;
          n400 = n div 146097; n = n mod 146097;
          year = n400 * 400 + 1;
          n100 = n div 36524; n = n mod 36524;
          n4 = n div 1461; n = n mod 1461;
          n1 = n div 365; n = n mod 365;
          year = year + n100 * 100 + n4 * 4 + n1
      in if n1 = 4 \<or> n100 = 4 then (year - 1, 12, 31)
         else
           (let leapyear = (n1 = 3 \<and> (n4 \<noteq> 24 \<or> n100 = 3));
                month = (n + 50) div 32;
                preceding = DAYS_BEFORE_MONTH ! nat month + (if month > 2 \<and> leapyear then 1 else 0);
                month' = (if preceding > n then month - 1 else month);
                preceding' =
                  (if preceding > n
                   then preceding - (DAYS_IN_MONTH ! nat month' + (if month' = 2 \<and> leapyear then 1 else 0))
                   else preceding)
            in (year, month', n - preceding' + 1)))"

text \<open>\<open>strftime("%Y-%m")\<close> and \<open>strftime("%Y-%m-%d")\<close> of a UTC instant.\<close>

definition month_string :: "instant \<Rightarrow> string" where
  "month_string t =
     (case ord2ymd (date_of t) of (y, m, d) \<Rightarrow> pad_digits 4 y @ ''-'' @ pad_digits 2 m)"

definition date_string :: "instant \<Rightarrow> string" where
  "date_string t =
     (case ord2ymd (date_of t) of
        (y, m, d) \<Rightarrow> pad_digits 4 y @ ''-'' @ pad_digits 2 m @ ''-'' @ pad_digits 2 d)"

definition time_string :: "instant \<Rightarrow> string" where
  "time_string t =
     (let s = (t mod usec_per_day) div usec_per_second
      in pad_digits 2 (s div 3600) @ '':'' @ pad_digits 2 (s mod 3600 div 60) @ '':'' @
         pad_digits 2 (s mod 60))"

text \<open>
  \<open>isoformat()\<close> of an aware UTC datetime: the fraction is printed only when it is not zero.
  Followed by \<open>replace("+00:00", "Z")\<close> it is \<open>iso_z\<close>, and with \<open>timespec="seconds"\<close> \<open>iso_seconds_z\<close>.
\<close>

definition isoformat :: "instant \<Rightarrow> string" where
  "isoformat t =
     date_string t @ ''T'' @ time_string t @
     (if t mod usec_per_second = 0 then [] else ''.'' @ pad_digits 6 (t mod usec_per_second)) @
     ''+00:00''"

definition iso_z :: "instant \<Rightarrow> string" where
  "iso_z t =
     date_string t @ ''T'' @ time_string t @
     (if t mod usec_per_second = 0 then [] else ''.'' @ pad_digits 6 (t mod usec_per_second)) @ ''Z''"

definition iso_seconds_z :: "instant \<Rightarrow> string" where
  "iso_seconds_z t = date_string t @ ''T'' @ time_string t @ ''Z''"

lemma length_month_string [simp]: "length (month_string t) = 7"
  by (simp add: month_string_def split: prod.split)

lemma length_date_string [simp]: "length (date_string t) = 10"
  by (simp add: date_string_def split: prod.split)

lemma length_time_string [simp]: "length (time_string t) = 8"
  by (simp add: time_string_def Let_def)

text \<open>The first ten characters of \<open>isoformat()\<close> are the date, the first seven the month.\<close>

lemma take_date_isoformat [simp]: "take 10 (isoformat t) = date_string t"
  by (simp add: isoformat_def)

lemma take_month_date [simp]: "take 7 (date_string t) = month_string t"
  by (simp add: date_string_def month_string_def split: prod.split)

lemma same_day_same_month: "date_string s = date_string t \<Longrightarrow> month_string s = month_string t"
  by (metis take_month_date)

section \<open>Reading timestamps\<close>

text \<open>
  \<open>datetime.fromisoformat(s.replace("Z", "+00:00"))\<close> followed by a conversion to UTC, on texts of
  the wire pattern (a date, a time, one to six digits of a fraction or none, and a zone).  None is
  the \<open>ValueError\<close> of a date, time or offset out of range, or the overflow of the conversion.
\<close>

definition is_leap :: "int \<Rightarrow> bool" where
  "is_leap y \<longleftrightarrow> y mod 4 = 0 \<and> (y mod 100 \<noteq> 0 \<or> y mod 400 = 0)"

definition days_before_year :: "int \<Rightarrow> int" where
  "days_before_year y = (let y = y - 1 in y * 365 + y div 4 - y div 100 + y div 400)"

definition days_in_month :: "int \<Rightarrow> int \<Rightarrow> int" where
  "days_in_month y m = (if m = 2 \<and> is_leap y then 29 else DAYS_IN_MONTH ! nat m)"

definition ymd2ord :: "int \<Rightarrow> int \<Rightarrow> int \<Rightarrow> int" where
  "ymd2ord y m d =
     days_before_year y + DAYS_BEFORE_MONTH ! nat m + (if m > 2 \<and> is_leap y then 1 else 0) + d"

definition digit_of :: "char \<Rightarrow> int" where
  "digit_of c = the (map_of (zip ''0123456789'' [0, 1, 2, 3, 4, 5, 6, 7, 8, 9]) c)"

definition number_at :: "string \<Rightarrow> nat \<Rightarrow> nat \<Rightarrow> int" where
  "number_at s i n = foldl (\<lambda>a c. 10 * a + digit_of c) 0 (take n (drop i s))"

definition zone_seconds :: "string \<Rightarrow> int option" where
  "zone_seconds z =
     (if z = ''Z'' then Some 0
      else
        (let offset = number_at z 1 2 * 3600 + number_at z 4 2 * 60 in
         if offset \<ge> 86400 then None
         else Some (if take 1 z = ''-'' then - offset else offset)))"

definition parse_timestamp :: "string \<Rightarrow> instant option" where
  "parse_timestamp s =
     (let y = number_at s 0 4; mo = number_at s 5 2; d = number_at s 8 2;
          h = number_at s 11 2; mi = number_at s 14 2; sec = number_at s 17 2;
          rest = drop 19 s;
          fraction = (if take 1 rest = ''.'' then takeWhile is_digit (drop 1 rest) else []);
          micros = number_at (fraction @ replicate (6 - length fraction) CHR ''0'') 0 6;
          zone = (if fraction = [] then rest else drop (1 + length fraction) rest)
      in if \<not> (1 \<le> y \<and> 1 \<le> mo \<and> mo \<le> 12 \<and> 1 \<le> d \<and> d \<le> days_in_month y mo \<and>
             h < 24 \<and> mi < 60 \<and> sec < 60) then None
         else
           (case zone_seconds zone of
              None \<Rightarrow> None
            | Some offset \<Rightarrow>
                (let t = (ymd2ord y mo d - 1) * usec_per_day +
                       (h * 3600 + mi * 60 + sec - offset) * 1000000 + micros
                 in if 0 \<le> t \<and> t < 3652059 * usec_per_day then Some t else None)))"

section \<open>The calendar round trip\<close>

text \<open>The month and day of the \<open>n\<close>-th day of a year, as \<open>ord2ymd\<close> finds them.\<close>

definition month_day :: "bool \<Rightarrow> int \<Rightarrow> int \<times> int" where
  "month_day leapyear n =
     (let month = (n + 50) div 32;
          preceding = DAYS_BEFORE_MONTH ! nat month + (if month > 2 \<and> leapyear then 1 else 0);
          month' = (if preceding > n then month - 1 else month);
          preceding' =
            (if preceding > n
             then preceding - (DAYS_IN_MONTH ! nat month' + (if month' = 2 \<and> leapyear then 1 else 0))
             else preceding)
      in (month', n - preceding' + 1))"

definition month_day_ok :: "bool \<Rightarrow> int \<Rightarrow> bool" where
  "month_day_ok leap n \<longleftrightarrow>
     (case month_day leap n of (m, d) \<Rightarrow>
        1 \<le> m \<and> m \<le> 12 \<and> 1 \<le> d \<and> d \<le> (if m = 2 \<and> leap then 29 else DAYS_IN_MONTH ! nat m) \<and>
        DAYS_BEFORE_MONTH ! nat m + (if m > 2 \<and> leap then 1 else 0) + d = n + 1)"

lemma month_day_ok: "0 \<le> n \<Longrightarrow> n < 365 \<Longrightarrow> month_day_ok leap n"
proof -
  assume n: "0 \<le> n" "n < 365"
  have "\<forall>i \<in> set [0..364]. month_day_ok True i \<and> month_day_ok False i" by code_simp
  moreover have "n \<in> set [0..364]" using n by simp
  ultimately show ?thesis by (cases leap) auto
qed

text \<open>Every day number in the mixed radix of 400, 100, 4 and 1 years.\<close>

lemma digit_bounds:
  fixes n1 n2 n3 b c e r :: int
  assumes "n1 = 36524 * b + n2" "n2 = 1461 * c + n3" "n3 = 365 * e + r"
    and "0 \<le> n1" "n1 < 146097" "0 \<le> n2" "n2 < 36524" "0 \<le> n3" "n3 < 1461" "0 \<le> r" "r < 365"
  shows "0 \<le> b \<and> b \<le> 4 \<and> 0 \<le> c \<and> c \<le> 24 \<and> 0 \<le> e \<and> e \<le> 4 \<and>
    (b = 4 \<longrightarrow> c = 0 \<and> e = 0 \<and> r = 0) \<and> (e = 4 \<longrightarrow> r = 0 \<and> c \<le> 23)"
proof -
  have "0 \<le> b" "b \<le> 4" "0 \<le> c" "c \<le> 24" "0 \<le> e" "e \<le> 4" using assms by linarith+
  moreover have "c = 0 \<and> e = 0 \<and> r = 0" if "b = 4"
  proof -
    have "n2 \<le> 0" using that assms by linarith
    then have "c \<le> 0" "n3 \<le> 0" using assms \<open>0 \<le> c\<close> by linarith+
    moreover from this have "e \<le> 0" "r \<le> 0" using assms \<open>0 \<le> e\<close> by linarith+
    ultimately show ?thesis using \<open>0 \<le> c\<close> \<open>0 \<le> e\<close> assms(10) by linarith
  qed
  moreover have "r = 0 \<and> c \<le> 23" if "e = 4"
  proof -
    have "n3 = 1460" "r = 0" using that assms by linarith+
    moreover from this have "c < 24" using assms by linarith
    ultimately show ?thesis by simp
  qed
  ultimately show ?thesis by blast
qed

lemma split_digits:
  fixes n :: int
  assumes "n = 146097 * a + n1" "n1 = 36524 * b + n2" "n2 = 1461 * c + n3" "n3 = 365 * e + r"
  shows "n = 146097 * a + 36524 * b + 1461 * c + 365 * e + r"
  using assms by linarith

lemma day_digits:
  fixes n :: int
  assumes "0 \<le> n"
  obtains a b c e r where "n = 146097 * a + 36524 * b + 1461 * c + 365 * e + r"
    "n div 146097 = a" "n mod 146097 div 36524 = b" "n mod 146097 mod 36524 div 1461 = c"
    "n mod 146097 mod 36524 mod 1461 div 365 = e" "n mod 146097 mod 36524 mod 1461 mod 365 = r"
    "0 \<le> a" "0 \<le> b" "b \<le> 4" "0 \<le> c" "c \<le> 24" "0 \<le> e" "e \<le> 4" "0 \<le> r" "r < 365"
    "b = 4 \<longrightarrow> c = 0 \<and> e = 0 \<and> r = 0" "e = 4 \<longrightarrow> r = 0 \<and> c \<le> 23"
proof -
  let ?n1 = "n mod 146097"
  let ?n2 = "?n1 mod 36524"
  let ?n3 = "?n2 mod 1461"
  have eqs: "?n1 = 36524 * (?n1 div 36524) + ?n2" "?n2 = 1461 * (?n2 div 1461) + ?n3"
    "?n3 = 365 * (?n3 div 365) + ?n3 mod 365" "n = 146097 * (n div 146097) + ?n1"
    by (rule mult_div_mod_eq [symmetric])+
  have bounds: "0 \<le> ?n1" "?n1 < 146097" "0 \<le> ?n2" "?n2 < 36524" "0 \<le> ?n3" "?n3 < 1461"
    "0 \<le> ?n3 mod 365" "?n3 mod 365 < 365" by (rule pos_mod_sign pos_mod_bound; simp)+
  note digits = digit_bounds [OF eqs(1-3) bounds]
  note d = digits [THEN conjunct1] digits [THEN conjunct2, THEN conjunct1]
    digits [THEN conjunct2, THEN conjunct2, THEN conjunct1]
    digits [THEN conjunct2, THEN conjunct2, THEN conjunct2, THEN conjunct1]
    digits [THEN conjunct2, THEN conjunct2, THEN conjunct2, THEN conjunct2, THEN conjunct1]
    digits [THEN conjunct2, THEN conjunct2, THEN conjunct2, THEN conjunct2, THEN conjunct2, THEN conjunct1]
    digits [THEN conjunct2, THEN conjunct2, THEN conjunct2, THEN conjunct2, THEN conjunct2, THEN conjunct2, THEN conjunct1]
    digits [THEN conjunct2, THEN conjunct2, THEN conjunct2, THEN conjunct2, THEN conjunct2, THEN conjunct2, THEN conjunct2]
  have split: "n = 146097 * (n div 146097) + 36524 * (?n1 div 36524) + 1461 * (?n2 div 1461) + 365 * (?n3 div 365) + ?n3 mod 365"
    by (rule split_digits [OF eqs(4,1,2,3)])
  have nonneg: "0 \<le> n div 146097" using assms by (simp add: pos_imp_zdiv_nonneg_iff)
  show ?thesis
    by (rule that [OF split refl refl refl refl refl nonneg d(1,2,3,4,5,6) bounds(7,8) d(7,8)])
qed

lemma small_mod: "0 < x \<Longrightarrow> x \<le> m \<Longrightarrow> x mod m = 0 \<longleftrightarrow> x = (m :: int)"
  by (cases "x = m") auto

lemma days_before_digits:
  assumes "0 \<le> b" "b \<le> 3" "0 \<le> c" "c \<le> 24" "0 \<le> e" "e \<le> 3"
  shows "days_before_year (400 * a + 100 * b + 4 * c + e + 1) = 146097 * a + 36524 * b + 1461 * c + 365 * e"
    "is_leap (400 * a + 100 * b + 4 * c + e + 1) \<longleftrightarrow> e = 3 \<and> (c \<noteq> 24 \<or> b = 3)"
proof -
  let ?y = "400 * a + 100 * b + 4 * c + e"
  have "?y div 4 = 100 * a + 25 * b + c" by (rule int_div_pos_eq [of _ _ _ e]) (use assms in simp_all)
  moreover have "?y div 100 = 4 * a + b" by (rule int_div_pos_eq [of _ _ _ "4 * c + e"]) (use assms in simp_all)
  moreover have "?y div 400 = a" by (rule int_div_pos_eq [of _ _ _ "100 * b + 4 * c + e"]) (use assms in simp_all)
  ultimately show "days_before_year (?y + 1) = 146097 * a + 36524 * b + 1461 * c + 365 * e"
    by (simp add: days_before_year_def)
  have "?y + 1 = e + 1 + 4 * (100 * a + 25 * b + c)" by simp
  then have "(?y + 1) mod 4 = (e + 1) mod 4" by (metis mod_mult_self2)
  then have "(?y + 1) mod 4 = 0 \<longleftrightarrow> e = 3" using assms(5,6) by presburger
  moreover have "?y + 1 = 4 * c + e + 1 + 100 * (4 * a + b)" by simp
  then have "(?y + 1) mod 100 = (4 * c + e + 1) mod 100" by (metis mod_mult_self2)
  then have "(?y + 1) mod 100 = 0 \<longleftrightarrow> 4 * c + e + 1 = 100" using small_mod [of "4 * c + e + 1" 100] assms(3-6) by simp
  moreover have "?y + 1 = 100 * b + 4 * c + e + 1 + 400 * a" by simp
  then have "(?y + 1) mod 400 = (100 * b + 4 * c + e + 1) mod 400" by (metis mod_mult_self2)
  then have "(?y + 1) mod 400 = 0 \<longleftrightarrow> 100 * b + 4 * c + e + 1 = 400" using small_mod [of "100 * b + 4 * c + e + 1" 400] assms by simp
  moreover have "4 * c + e + 1 = 100 \<longleftrightarrow> e = 3 \<and> c = 24" using assms(3-6) by linarith
  moreover have "100 * b + 4 * c + e + 1 = 400 \<longleftrightarrow> e = 3 \<and> c = 24 \<and> b = 3" using assms by linarith
  ultimately show "is_leap (?y + 1) \<longleftrightarrow> e = 3 \<and> (c \<noteq> 24 \<or> b = 3)" unfolding is_leap_def by argo
qed


lemma ord2ymd_digits:
  assumes "(N - 1) div 146097 = a" "(N - 1) mod 146097 div 36524 = b"
    "(N - 1) mod 146097 mod 36524 div 1461 = c" "(N - 1) mod 146097 mod 36524 mod 1461 div 365 = e"
    "(N - 1) mod 146097 mod 36524 mod 1461 mod 365 = r"
  shows "ord2ymd N =
    (if e = 4 \<or> b = 4 then (a * 400 + 1 + b * 100 + c * 4 + e - 1, 12, 31)
     else (a * 400 + 1 + b * 100 + c * 4 + e, month_day (e = 3 \<and> (c \<noteq> 24 \<or> b = 3)) r))"
  unfolding ord2ymd_def month_day_def Let_def assms by (rule refl)

definition valid_date :: "int \<Rightarrow> int \<Rightarrow> int \<Rightarrow> bool" where
  "valid_date y m d \<longleftrightarrow> 1 \<le> y \<and> y \<le> 9999 \<and> 1 \<le> m \<and> m \<le> 12 \<and> 1 \<le> d \<and> d \<le> days_in_month y m"

lemma last_day_of_leap_year:
  assumes "is_leap y" "1 \<le> y" "y \<le> 9999"
  shows "valid_date y 12 31" "ymd2ord y 12 31 = days_before_year y + 366"
  using assms by (simp_all add: valid_date_def days_in_month_def ymd2ord_def DAYS_IN_MONTH_def DAYS_BEFORE_MONTH_def)

lemma ord2ymd_inverse:
  assumes "1 \<le> N" "N \<le> 3652059"
  shows "case ord2ymd N of (y, m, d) \<Rightarrow> valid_date y m d \<and> ymd2ord y m d = N"
proof -
  have "0 \<le> N - 1" using assms by simp
  from day_digits [OF this] obtain a b c e r where d:
    "N - 1 = 146097 * a + 36524 * b + 1461 * c + 365 * e + r"
    "(N - 1) div 146097 = a" "(N - 1) mod 146097 div 36524 = b"
    "(N - 1) mod 146097 mod 36524 div 1461 = c" "(N - 1) mod 146097 mod 36524 mod 1461 div 365 = e"
    "(N - 1) mod 146097 mod 36524 mod 1461 mod 365 = r"
    and ranges: "0 \<le> a" "0 \<le> b" "b \<le> 4" "0 \<le> c" "c \<le> 24" "0 \<le> e" "e \<le> 4" "0 \<le> r" "r < 365"
    and tops: "b = 4 \<longrightarrow> c = 0 \<and> e = 0 \<and> r = 0" "e = 4 \<longrightarrow> r = 0 \<and> c \<le> 23" .
  note eq = ord2ymd_digits [OF d(2-6)]
  show ?thesis
  proof (cases "e = 4 \<or> b = 4")
    case True
    define b' where "b' = (if b = 4 then 3 else b)"
    define c' where "c' = (if b = 4 then 24 else c)"
    have small: "0 \<le> b'" "b' \<le> 3" "0 \<le> c'" "c' \<le> 24" "c' \<noteq> 24 \<or> b' = 3"
      using True ranges tops by (auto simp: b'_def c'_def)
    let ?y = "400 * a + 100 * b' + 4 * c' + 3 + 1"
    have y: "a * 400 + 1 + b * 100 + c * 4 + e - 1 = ?y"
      using True tops by (auto simp: b'_def c'_def)
    have n: "N = 146097 * a + 36524 * b' + 1461 * c' + 365 * 3 + 366"
      using True tops d(1) by (auto simp: b'_def c'_def)
    note days = days_before_digits [OF small(1-4), of 3 a, simplified]
    have leap: "is_leap ?y" using days(2) small(5) by simp
    have "1 \<le> ?y" "?y \<le> 9999" using ranges small n assms(2) by linarith+
    note last = last_day_of_leap_year [OF leap this]
    have "ymd2ord ?y 12 31 = N" using last(2) days(1) n by simp
    with last(1) show ?thesis using True unfolding eq y by simp
  next
    case False
    then have small: "0 \<le> b" "b \<le> 3" "0 \<le> c" "c \<le> 24" "0 \<le> e" "e \<le> 3" using ranges by linarith+
    let ?y = "400 * a + 100 * b + 4 * c + e + 1"
    have y: "a * 400 + 1 + b * 100 + c * 4 + e = ?y" by simp
    note days = days_before_digits [OF small, of a]
    obtain m k where mk: "month_day (is_leap ?y) r = (m, k)" by fastforce
    have ok: "1 \<le> m" "m \<le> 12" "1 \<le> k" "k \<le> (if m = 2 \<and> is_leap ?y then 29 else DAYS_IN_MONTH ! nat m)"
      "DAYS_BEFORE_MONTH ! nat m + (if m > 2 \<and> is_leap ?y then 1 else 0) + k = r + 1"
      using month_day_ok [OF ranges(8,9), of "is_leap ?y"] mk unfolding month_day_ok_def by simp_all
    have "1 \<le> ?y" "?y \<le> 9999" using ranges small d(1) assms(2) by linarith+
    then have "valid_date ?y m k" using ok(1-4) by (simp only: valid_date_def days_in_month_def)
    moreover have "ymd2ord ?y m k = N" using ok(5) days(1) d(1) unfolding ymd2ord_def by linarith
    moreover have "ord2ymd N = (?y, m, k)"
      using False mk eq y days(2) by simp
    ultimately show ?thesis by simp
  qed
qed


text \<open>Reading back the decimal fields.\<close>

lemma digit_of_digit_char: "d < 10 \<Longrightarrow> digit_of (digit_char d) = int d"
proof -
  have "\<forall>d \<in> set [0..<10]. digit_of (digit_char d) = int d" by code_simp
  moreover assume "d < 10"
  ultimately show ?thesis by simp
qed

lemma foldl_pad_digits:
  "0 \<le> n \<Longrightarrow> n < 10 ^ w \<Longrightarrow> foldl (\<lambda>a c. 10 * a + digit_of c) 0 (pad_digits w n) = n"
proof (induction w arbitrary: n)
  case (Suc w)
  have "foldl (\<lambda>a c. 10 * a + digit_of c) 0 (pad_digits w (n div 10)) = n div 10"
    by (rule Suc.IH) (use Suc.prems in auto)
  moreover have "digit_of (digit_char (nat (n mod 10))) = n mod 10"
    by (subst digit_of_digit_char) simp_all
  ultimately show ?case by simp
qed simp

lemma number_at_field:
  "0 \<le> n \<Longrightarrow> n < 10 ^ w \<Longrightarrow> length xs = i \<Longrightarrow> number_at (xs @ pad_digits w n @ ys) i w = n"
  by (simp add: number_at_def foldl_pad_digits)

lemma time_fields:
  fixes s :: int
  assumes "0 \<le> s" "s < 86400"
  shows "0 \<le> s div 3600" "s div 3600 < 24" "0 \<le> s mod 3600 div 60" "s mod 3600 div 60 < 60"
    "0 \<le> s mod 60" "s mod 60 < 60" "s div 3600 * 3600 + s mod 3600 div 60 * 60 + s mod 60 = s"
proof -
  have "s mod 3600 mod 60 = s mod 60" by (rule mod_mod_cancel) simp
  then have "s mod 3600 div 60 * 60 + s mod 60 = s mod 3600" by (metis div_mult_mod_eq)
  then show "s div 3600 * 3600 + s mod 3600 div 60 * 60 + s mod 60 = s" by (metis add.assoc div_mult_mod_eq)
qed (use assms in simp_all)


lemma days_in_month_bound: "1 \<le> m \<Longrightarrow> m \<le> 12 \<Longrightarrow> days_in_month y m \<le> 31"
proof -
  have "\<forall>i \<in> set [1..12]. DAYS_IN_MONTH ! nat i \<le> 31" by code_simp
  moreover assume "1 \<le> m" "m \<le> 12"
  ultimately show ?thesis by (simp add: days_in_month_def)
qed

lemma day_seconds:
  "(date_of t - 1) * usec_per_day + t mod usec_per_day div 1000000 * 1000000 = t - t mod 1000000"
proof -
  have "t mod usec_per_day mod 1000000 = t mod 1000000" by (rule mod_mod_cancel) (simp add: usec_per_day_def)
  then have "t mod usec_per_day div 1000000 * 1000000 = t mod usec_per_day - t mod 1000000"
    by (metis minus_mod_eq_div_mult)
  moreover have "(date_of t - 1) * usec_per_day = t - t mod usec_per_day"
    by (simp add: date_of_def minus_mod_eq_div_mult)
  ultimately show ?thesis by simp
qed

lemma parse_fields:
  assumes "number_at x 0 4 = y" "number_at x 5 2 = m" "number_at x 8 2 = d" "number_at x 11 2 = h"
    "number_at x 14 2 = mi" "number_at x 17 2 = sec" "drop 19 x = ''Z''"
    and "valid_date y m d" "h < 24" "mi < 60" "sec < 60"
    and "(ymd2ord y m d - 1) * usec_per_day + (h * 3600 + mi * 60 + sec) * 1000000 = u"
    and "0 \<le> u" "u < 3652059 * usec_per_day"
  shows "parse_timestamp x = Some u"
proof -
  have "number_at (replicate 6 CHR ''0'') 0 6 = 0" by code_simp
  then show ?thesis
    using assms(8-)
    unfolding parse_timestamp_def Let_def assms(1-7)
    by (simp add: zone_seconds_def valid_date_def)
qed

lemma timestamp_reads:
  assumes "0 \<le> t" "t < 3652059 * usec_per_day"
  shows "parse_timestamp (iso_seconds_z t) = Some (t - t mod 1000000)"
proof -
  define s where "s = t mod usec_per_day div 1000000"
  obtain y m d where ymd: "ord2ymd (date_of t) = (y, m, d)" by (cases "ord2ymd (date_of t)") auto
  have "1 \<le> date_of t" "date_of t \<le> 3652059"
    using assms by (simp_all add: date_of_def usec_per_day_def pos_imp_zdiv_nonneg_iff div_less_iff_less_mult flip: zless_add1_eq)
  from ord2ymd_inverse [OF this] have date: "valid_date y m d" "ymd2ord y m d = date_of t" by (simp_all add: ymd)
  have s: "0 \<le> s" "s < 86400" by (simp_all add: s_def usec_per_day_def pos_imp_zdiv_nonneg_iff div_less_iff_less_mult)
  note time = time_fields [OF s]
  let ?t = "iso_seconds_z t"
  have shape: "?t = pad_digits 4 y @ ''-'' @ pad_digits 2 m @ ''-'' @ pad_digits 2 d @ ''T'' @
      pad_digits 2 (s div 3600) @ '':'' @ pad_digits 2 (s mod 3600 div 60) @ '':'' @ pad_digits 2 (s mod 60) @ ''Z''"
    by (simp add: iso_seconds_z_def date_string_def time_string_def Let_def ymd s_def)
  have ranges: "0 \<le> y" "y < 10 ^ 4" "0 \<le> m" "m < 10 ^ 2" "0 \<le> d" "d < 10 ^ 2"
    using date(1) days_in_month_bound [of m y] by (auto simp: valid_date_def)
  have "s mod 60 < 10 ^ 2" using time(6) by simp
  then have seconds: "foldl (\<lambda>a c. 10 * a + digit_of c) 0 (pad_digits 2 (s mod 60)) = s mod 60"
    by (rule foldl_pad_digits [OF time(5)])
  have fields: "number_at ?t 0 4 = y" "number_at ?t 5 2 = m" "number_at ?t 8 2 = d"
    "number_at ?t 11 2 = s div 3600" "number_at ?t 14 2 = s mod 3600 div 60" "number_at ?t 17 2 = s mod 60"
    using ranges time by (simp_all add: number_at_def shape foldl_pad_digits seconds)
  have rest: "drop 19 ?t = ''Z''" by (simp add: shape)
  have "(date_of t - 1) * usec_per_day + (s div 3600 * 3600 + s mod 3600 div 60 * 60 + s mod 60) * 1000000 =
      t - t mod 1000000"
    unfolding time(7) unfolding s_def by (rule day_seconds)
  moreover have "0 \<le> t - t mod 1000000" "t - t mod 1000000 < 3652059 * usec_per_day"
    using assms by (simp_all add: minus_mod_eq_div_mult) 
  ultimately show ?thesis
    using parse_fields [OF fields rest date(1) time(2,4,6)] date(2) by simp
qed

text \<open>
  A representable instant written with second precision is read back as that instant without
  its microseconds: the calendar conversion, the fixed-width fields and the zone all round trip.
\<close>

lemma timestamp_round_trip:
  assumes "0 \<le> t" "t < 3652059 * usec_per_day"
  shows "parse_timestamp (iso_seconds_z t) = Some (t - t mod 1000000)"
  using assms by (rule timestamp_reads)

lemma timestamp_round_trip_witness: "parse_timestamp (iso_seconds_z 63900000001234567) = Some 63900000001000000"
  using timestamp_round_trip [of 63900000001234567] by (simp add: usec_per_day_def)

end
