(* ===== verification/Budget.thy ===== *)
theory Budget
  imports Canonical PyTime
begin

text \<open>
  The budget ledger of \<open>src/iou_ai/budget.py\<close>: pricing policies, the \<open>ledger_events\<close> table with the
  constraints its schema declares, and the operations of \<open>BudgetLedger\<close> (reserve, settle, abandon,
  reconcile, status).  Amounts are integer microdollars.  Each operation runs in one
  \<open>BEGIN IMMEDIATE\<close> transaction, so it is one step on the table; the table is the list of its rows
  in \<open>sequence\<close> order.  Inputs from outside the program are arguments: the clock, the fresh
  identifiers of \<open>uuid4\<close>, and what the two looks at the kill-switch file see.
\<close>

section \<open>Errors and values\<close>

datatype budget_error =
    BudgetConfigurationError string
  | BudgetExceeded
  | QuotaExceeded
  | UnknownQuota
  | KillSwitchActive
  | DuplicateRequest string
  | ReservationNotFound
  | ReservationAlreadyClosed
  | PricingNotEffective
  | IntegrityError
  | OverflowError

text \<open>A value of static type \<open>object\<close>: what the type tests of the module tell apart.\<close>

datatype py_object = PyNone | PyBool bool | PyInt int | PyOther

definition require_nonnegative_int :: "py_object \<Rightarrow> string \<Rightarrow> budget_error + int" where
  "require_nonnegative_int value name =
     (case value of
        PyInt i \<Rightarrow> if i < 0 then Inl (BudgetConfigurationError name) else Inr i
      | _ \<Rightarrow> Inl (BudgetConfigurationError name))"

section \<open>Pricing\<close>

definition TOKENS_PER_MILLION :: int where "TOKENS_PER_MILLION = 1000000"

definition ceil_rate :: "int \<Rightarrow> int \<Rightarrow> int" where
  "ceil_rate tokens rate =
     (let numerator = tokens * rate
      in (numerator + TOKENS_PER_MILLION - 1) div TOKENS_PER_MILLION)"

record pricing_policy =
  pp_provider :: string
  pp_model :: string
  pp_version :: string
  effective_from :: int
  effective_until :: "int option"
  input_rate :: int
  output_rate :: int
  cached_input_rate :: "int option"

text \<open>\<open>__post_init__\<close>: the checks, in order, that make a policy.\<close>

definition post_init_policy :: "pricing_policy \<Rightarrow> budget_error + pricing_policy" where
  "post_init_policy p =
     (if is_blank (pp_provider p) then Inl (BudgetConfigurationError ''provider'')
      else if is_blank (pp_model p) then Inl (BudgetConfigurationError ''model'')
      else if is_blank (pp_version p) then Inl (BudgetConfigurationError ''version'')
      else if (case effective_until p of None \<Rightarrow> False | Some u \<Rightarrow> u \<le> effective_from p)
      then Inl (BudgetConfigurationError ''effective_until'')
      else
        bindR (require_nonnegative_int (PyInt (input_rate p)) ''input_rate'') (\<lambda>_.
        bindR (require_nonnegative_int (PyInt (output_rate p)) ''output_rate'') (\<lambda>_.
        case cached_input_rate p of
          None \<Rightarrow> Inr p
        | Some r \<Rightarrow>
            bindR (require_nonnegative_int (PyInt r) ''cached_input_rate'') (\<lambda>_. Inr p))))"

definition cached_rate :: "pricing_policy \<Rightarrow> int" where
  "cached_rate p = (case cached_input_rate p of None \<Rightarrow> input_rate p | Some r \<Rightarrow> r)"

definition is_effective :: "pricing_policy \<Rightarrow> int \<Rightarrow> bool" where
  "is_effective p on \<longleftrightarrow>
     effective_from p \<le> on \<and>
     (case effective_until p of None \<Rightarrow> True | Some u \<Rightarrow> on < u)"

definition quote_usage ::
  "pricing_policy \<Rightarrow> py_object \<Rightarrow> py_object \<Rightarrow> py_object \<Rightarrow> budget_error + int" where
  "quote_usage p input_tokens output_tokens cached_input_tokens =
     bindR (require_nonnegative_int input_tokens ''input_tokens'') (\<lambda>input_count.
     bindR (require_nonnegative_int output_tokens ''output_tokens'') (\<lambda>output_count.
     bindR (require_nonnegative_int cached_input_tokens ''cached_input_tokens'') (\<lambda>cached_count.
       if cached_count > input_count then
         Inl (BudgetConfigurationError ''cached_input_tokens cannot exceed input_tokens'')
       else
         (let uncached_count = input_count - cached_count in
          Inr (ceil_rate uncached_count (input_rate p)
             + ceil_rate cached_count (cached_rate p)
             + ceil_rate output_count (output_rate p))))))"

section \<open>The table\<close>

datatype event_type = Reserve | Settle | Abandon

text \<open>
  A row of \<open>ledger_events\<close>.  Dates are kept as ordinals: the TEXT columns hold \<open>isoformat()\<close> of a
  date and are only read back with \<open>fromisoformat\<close>.
\<close>

record ledger_row =
  event_id :: string
  event_type :: event_type
  reservation_id :: string
  occurred_at_utc :: string
  month_key :: string
  row_provider :: string
  row_model :: string
  request_key :: string
  amount :: int
  pricing_version :: string
  pricing_effective_from :: int
  pricing_effective_until :: "int option"
  row_input_rate :: int
  row_output_rate :: int
  row_cached_rate :: int
  row_input_tokens :: "int option"
  row_output_tokens :: "int option"
  row_cached_tokens :: "int option"
  usage_valid :: "bool option"
  details_json :: string

type_synonym table = "ledger_row list"

definition is_reserve :: "ledger_row \<Rightarrow> bool" where
  "is_reserve r \<longleftrightarrow> event_type r = Reserve"

definition is_terminal :: "ledger_row \<Rightarrow> bool" where
  "is_terminal r \<longleftrightarrow> event_type r = Settle \<or> event_type r = Abandon"

text \<open>
  \<open>INSERT\<close> under the constraints of the schema: the CHECKs on the amount and the rates, the UNIQUE
  event id, and the two partial unique indexes.  The UPDATE and DELETE triggers abort, and no
  statement of the module updates or deletes, so \<open>INSERT\<close> is the only change to the table.
\<close>

definition insert_event :: "table \<Rightarrow> ledger_row \<Rightarrow> budget_error + table" where
  "insert_event t row =
     (if amount row < 0 \<or> row_input_rate row < 0 \<or> row_output_rate row < 0 \<or> row_cached_rate row < 0
      then Inl IntegrityError
      else if event_id row \<in> set (map event_id t) then Inl IntegrityError
      else if is_reserve row \<and>
        list_ex (\<lambda>r. is_reserve r \<and> month_key r = month_key row \<and> row_provider r = row_provider row \<and>
          row_model r = row_model row \<and> request_key r = request_key row) t
      then Inl IntegrityError
      else if is_terminal row \<and>
        list_ex (\<lambda>r. is_terminal r \<and> reservation_id r = reservation_id row) t
      then Inl IntegrityError
      else Inr (t @ [row]))"

text \<open>
  \<open>reserve LEFT JOIN terminal ON terminal.reservation_id = reserve.reservation_id AND
  terminal.event_type IN ('settle', 'abandon')\<close>: every pair, or the reserve with NULL.
\<close>

definition terminals_of :: "table \<Rightarrow> string \<Rightarrow> table" where
  "terminals_of t rid = filter (\<lambda>r. is_terminal r \<and> reservation_id r = rid) t"

definition left_join :: "table \<Rightarrow> table \<Rightarrow> (ledger_row \<times> ledger_row option) list" where
  "left_join reserves t =
     concat (map (\<lambda>r.
       (case terminals_of t (reservation_id r) of
          [] \<Rightarrow> [(r, None)]
        | ts \<Rightarrow> map (\<lambda>u. (r, Some u)) ts)) reserves)"

section \<open>Queries\<close>

definition spend_parts :: "table \<Rightarrow> string \<Rightarrow> int \<times> int" where
  "spend_parts t month =
     (let joined = left_join (filter (\<lambda>r. is_reserve r \<and> month_key r = month) t) t
      in (sum_list (map (\<lambda>(r, u). case u of Some u \<Rightarrow> amount u | None \<Rightarrow> 0) joined),
          sum_list (map (\<lambda>(r, u). case u of Some u \<Rightarrow> 0 | None \<Rightarrow> amount r) joined)))"

definition day_effective_spend :: "table \<Rightarrow> string \<Rightarrow> int" where
  "day_effective_spend t day =
     sum_list (map (\<lambda>(r, u). case u of Some u \<Rightarrow> amount u | None \<Rightarrow> amount r)
       (left_join (filter (\<lambda>r. is_reserve r \<and> take 10 (occurred_at_utc r) = day) t) t))"

definition call_count :: "table \<Rightarrow> string \<Rightarrow> string \<Rightarrow> string \<Rightarrow> int" where
  "call_count t month provider model =
     int (length (filter (\<lambda>r. is_reserve r \<and> month_key r = month \<and>
       row_provider r = provider \<and> row_model r = model) t))"

section \<open>The ledger object\<close>

record ledger_config =
  hard_limit :: int
  quotas :: "((string \<times> string) \<times> int) list"
  warning_thresholds :: "int list"
  daily_limit :: "int option"

text \<open>\<open>__init__\<close>: what makes a configuration (paths and the SQLite timeout apart).\<close>

definition init_ledger ::
  "int \<Rightarrow> ((string \<times> string) \<times> int) list \<Rightarrow> int list \<Rightarrow> int option \<Rightarrow> budget_error + ledger_config"
where
  "init_ledger limit qs thresholds daily =
     bindR (require_nonnegative_int (PyInt limit) ''hard_limit_microdollars'') (\<lambda>hl.
       if hl = 0 then Inl (BudgetConfigurationError ''hard_limit_microdollars must be positive'')
       else
         bindR (traverse (\<lambda>i. require_nonnegative_int (PyInt i) ''warning threshold'') thresholds)
           (\<lambda>ths.
           if sort (remdups ths) \<noteq> ths then
             Inl (BudgetConfigurationError ''warning thresholds must be strictly increasing and unique'')
           else if list_ex (\<lambda>i. i \<ge> hl) ths then
             Inl (BudgetConfigurationError ''warning thresholds must be below the hard limit'')
           else
             bindR
               (case daily of
                  None \<Rightarrow> Inr None
                | Some d \<Rightarrow>
                    bindR (require_nonnegative_int (PyInt d) ''daily_limit_microdollars'') (\<lambda>d.
                      if d = 0 then
                        Inl (BudgetConfigurationError ''daily_limit_microdollars must be positive'')
                      else Inr (Some d)))
               (\<lambda>dl.
               bindR (traverse (\<lambda>(key, value).
                   if is_blank (fst key) \<or> is_blank (snd key) then
                     Inl (BudgetConfigurationError ''quota keys must be non-empty (provider, model) tuples'')
                   else
                     bindR (require_nonnegative_int (PyInt value) ''quota'') (\<lambda>v. Inr (key, v))) qs)
                 (\<lambda>q. Inr \<lparr>hard_limit = hl, quotas = q, warning_thresholds = ths,
                    daily_limit = dl\<rparr>))))"

definition normalize_now :: "pydatetime option \<Rightarrow> instant \<Rightarrow> budget_error + instant" where
  "normalize_now now clock =
     (case now of
        None \<Rightarrow> Inr clock
      | Some (Aware t) \<Rightarrow> Inr t
      | Some Naive \<Rightarrow> Inl (BudgetConfigurationError ''timestamps must be timezone-aware''))"

text \<open>A mapping of details, or None; its values are JSON by construction of the type.\<close>

definition json_details :: "(string \<times> json) list option \<Rightarrow> string" where
  "json_details details = (case details of None \<Rightarrow> ''{}'' | Some kvs \<Rightarrow> render (JObj kvs))"

datatype kill_probe = SwitchAbsent | SwitchPresent | SwitchUnreadable

definition assert_calls_enabled :: "kill_probe \<Rightarrow> budget_error + unit" where
  "assert_calls_enabled k = (if k = SwitchAbsent then Inr () else Inl KillSwitchActive)"

definition quota_for :: "ledger_config \<Rightarrow> string \<Rightarrow> string \<Rightarrow> budget_error + int" where
  "quota_for cfg provider model =
     (case map_of (quotas cfg) (provider, model) of None \<Rightarrow> Inl UnknownQuota | Some q \<Rightarrow> Inr q)"

definition validate_identity :: "string \<Rightarrow> string \<Rightarrow> string \<Rightarrow> budget_error + unit" where
  "validate_identity provider model key =
     bindR
       (traverse (\<lambda>(name, value, limit).
          if is_blank value then Inl (BudgetConfigurationError name)
          else if length value > limit then Inl (BudgetConfigurationError (name @ '' is too long''))
          else Inr ())
         [(''provider'', provider, 100), (''model'', model, 200), (''request_key'', key, 512)])
       (\<lambda>_. Inr ())"

section \<open>Reserving\<close>

text \<open>
  What an operation meets outside the program: the clock, the kill-switch file before and after
  the write lock is taken, and the identifiers \<open>uuid4\<close> draws.
\<close>

record budget_env =
  clock :: instant
  switch_before :: kill_probe
  switch_locked :: kill_probe
  fresh_reservation_id :: string
  fresh_event_id :: string

record reserve_args =
  ra_provider :: string
  ra_model :: string
  ra_request_key :: string
  ra_worst_case :: py_object
  ra_policy :: pricing_policy
  ra_now :: "pydatetime option"
  ra_details :: "(string \<times> json) list option"

record reservation =
  res_id :: string
  res_event_id :: string
  res_month :: string
  res_provider :: string
  res_model :: string
  res_request_key :: string
  reserved_microdollars :: int
  res_pricing_version :: string
  created_at :: instant

definition reserve_row ::
  "string \<Rightarrow> string \<Rightarrow> instant \<Rightarrow> reserve_args \<Rightarrow> int \<Rightarrow> string \<Rightarrow> ledger_row" where
  "reserve_row eid rid instant a amt details =
     \<lparr>event_id = eid, event_type = Reserve, reservation_id = rid,
      occurred_at_utc = isoformat instant, month_key = month_string instant,
      row_provider = ra_provider a, row_model = ra_model a, request_key = ra_request_key a,
      amount = amt, pricing_version = pp_version (ra_policy a),
      pricing_effective_from = effective_from (ra_policy a),
      pricing_effective_until = effective_until (ra_policy a),
      row_input_rate = input_rate (ra_policy a), row_output_rate = output_rate (ra_policy a),
      row_cached_rate = cached_rate (ra_policy a),
      row_input_tokens = None, row_output_tokens = None, row_cached_tokens = None,
      usage_valid = None, details_json = details\<rparr>"

text \<open>The checks inside the transaction, after the lock is held.\<close>

definition reserve_locked ::
  "ledger_config \<Rightarrow> budget_env \<Rightarrow> table \<Rightarrow> reserve_args \<Rightarrow> instant \<Rightarrow> int \<Rightarrow> int \<Rightarrow> string
     \<Rightarrow> budget_error + table" where
  "reserve_locked cfg env t a instant amt quota details =
     bindR (assert_calls_enabled (switch_locked env)) (\<lambda>_.
       let month = month_string instant in
       case filter (\<lambda>r. is_reserve r \<and> month_key r = month \<and> row_provider r = ra_provider a \<and>
              row_model r = ra_model a \<and> request_key r = ra_request_key a) t of
         existing # _ \<Rightarrow> Inl (DuplicateRequest (reservation_id existing))
       | [] \<Rightarrow>
           if call_count t month (ra_provider a) (ra_model a) \<ge> quota then Inl QuotaExceeded
           else
             (case spend_parts t month of
                (charged, active_reserved) \<Rightarrow>
                  if charged + active_reserved + amt > hard_limit cfg then Inl BudgetExceeded
                  else if (case daily_limit cfg of
                             None \<Rightarrow> False
                           | Some d \<Rightarrow> day_effective_spend t (date_string instant) + amt > d)
                  then Inl BudgetExceeded
                  else insert_event t
                    (reserve_row (fresh_event_id env) (fresh_reservation_id env) instant a amt details)))"

definition reserve ::
  "ledger_config \<Rightarrow> budget_env \<Rightarrow> table \<Rightarrow> reserve_args \<Rightarrow> budget_error + (reservation \<times> table)" where
  "reserve cfg env t a =
     bindR (validate_identity (ra_provider a) (ra_model a) (ra_request_key a)) (\<lambda>_.
     bindR (require_nonnegative_int (ra_worst_case a) ''worst_case_microdollars'') (\<lambda>amt.
       if pp_provider (ra_policy a) \<noteq> ra_provider a \<or> pp_model (ra_policy a) \<noteq> ra_model a then
         Inl (BudgetConfigurationError ''pricing policy provider/model does not match reservation'')
       else
         bindR (normalize_now (ra_now a) (clock env)) (\<lambda>instant.
           if \<not> is_effective (ra_policy a) (date_of instant) then Inl PricingNotEffective
           else
             bindR (quota_for cfg (ra_provider a) (ra_model a)) (\<lambda>quota.
             bindR (assert_calls_enabled (switch_before env)) (\<lambda>_.
             bindR (reserve_locked cfg env t a instant amt quota (json_details (ra_details a)))
               (\<lambda>t'.
               Inr (\<lparr>res_id = fresh_reservation_id env, res_event_id = fresh_event_id env,
                     res_month = month_string instant, res_provider = ra_provider a,
                     res_model = ra_model a, res_request_key = ra_request_key a,
                     reserved_microdollars = amt,
                     res_pricing_version = pp_version (ra_policy a),
                     created_at = instant\<rparr>, t')))))))"

definition reserve_for_tokens ::
  "ledger_config \<Rightarrow> budget_env \<Rightarrow> table \<Rightarrow> reserve_args \<Rightarrow> py_object \<Rightarrow> py_object \<Rightarrow> py_object
     \<Rightarrow> budget_error + (reservation \<times> table)" where
  "reserve_for_tokens cfg env t a max_input max_output guaranteed_cached =
     bindR (quote_usage (ra_policy a) max_input max_output guaranteed_cached) (\<lambda>amt.
       reserve cfg env t (a\<lparr>ra_worst_case := PyInt amt\<rparr>))"

section \<open>Closing\<close>

record settlement =
  set_reservation_id :: string
  set_event_id :: string
  set_event_type :: event_type
  set_month :: string
  set_provider :: string
  set_model :: string
  set_reserved :: int
  charged_microdollars :: int
  set_usage_valid :: bool
  closed_at :: instant

definition active_reservation :: "table \<Rightarrow> string \<Rightarrow> budget_error + ledger_row" where
  "active_reservation t rid =
     (case filter (\<lambda>r. is_reserve r \<and> reservation_id r = rid) t of
        [] \<Rightarrow> Inl ReservationNotFound
      | r # _ \<Rightarrow>
          (case terminals_of t rid of
             [] \<Rightarrow> Inr r
           | _ \<Rightarrow> Inl ReservationAlreadyClosed))"

definition valid_usage :: "py_object \<Rightarrow> py_object \<Rightarrow> py_object \<Rightarrow> bool" where
  "valid_usage input_tokens output_tokens cached_tokens =
     (case (input_tokens, output_tokens, cached_tokens) of
        (PyInt i, PyInt out, PyInt c) \<Rightarrow> \<not> (i < 0 \<or> out < 0 \<or> c < 0) \<and> c \<le> i
      | _ \<Rightarrow> False)"

definition policy_from_row :: "ledger_row \<Rightarrow> budget_error + pricing_policy" where
  "policy_from_row r =
     post_init_policy
       \<lparr>pp_provider = row_provider r, pp_model = row_model r, pp_version = pricing_version r,
        effective_from = pricing_effective_from r, effective_until = pricing_effective_until r,
        input_rate = row_input_rate r, output_rate = row_output_rate r,
        cached_input_rate = Some (row_cached_rate r)\<rparr>"

fun recorded_tokens :: "bool \<Rightarrow> py_object \<Rightarrow> int option" where
  "recorded_tokens True (PyInt i) = Some i"
| "recorded_tokens _ _ = None"

text \<open>The terminal row of one reservation: the identity and the rates are those of the reserve.\<close>

definition terminal_row ::
  "string \<Rightarrow> event_type \<Rightarrow> instant \<Rightarrow> ledger_row \<Rightarrow> int \<Rightarrow> bool \<Rightarrow> py_object \<Rightarrow> py_object \<Rightarrow> py_object
     \<Rightarrow> string \<Rightarrow> ledger_row" where
  "terminal_row eid kind instant r charged valid i out c details =
     r\<lparr>event_id := eid, event_type := kind, occurred_at_utc := isoformat instant,
       amount := charged,
       row_input_tokens := recorded_tokens valid i,
       row_output_tokens := recorded_tokens valid out,
       row_cached_tokens := recorded_tokens valid c,
       usage_valid := Some valid, details_json := details\<rparr>"

definition close_reservation ::
  "budget_env \<Rightarrow> table \<Rightarrow> string \<Rightarrow> event_type \<Rightarrow> py_object \<Rightarrow> py_object \<Rightarrow> py_object
     \<Rightarrow> pydatetime option \<Rightarrow> (string \<times> json) list option \<Rightarrow> budget_error + (settlement \<times> table)" where
  "close_reservation env t rid kind i out c now details =
     (if rid = [] then Inl (BudgetConfigurationError ''reservation_id must be non-empty'')
      else
        bindR (normalize_now now (clock env)) (\<lambda>instant.
        bindR (active_reservation t rid) (\<lambda>r.
          let valid = (kind = Settle \<and> valid_usage i out c) in
          bindR (if valid then bindR (policy_from_row r) (\<lambda>p. quote_usage p i out c)
                 else Inr (amount r)) (\<lambda>charged.
          bindR (insert_event t
              (terminal_row (fresh_event_id env) kind instant r charged valid i out c
                (json_details details))) (\<lambda>t'.
            Inr (\<lparr>set_reservation_id = rid, set_event_id = fresh_event_id env,
                  set_event_type = kind, set_month = month_key r, set_provider = row_provider r,
                  set_model = row_model r, set_reserved = amount r,
                  charged_microdollars = charged, set_usage_valid = valid,
                  closed_at = instant\<rparr>, t'))))))"

definition settle ::
  "budget_env \<Rightarrow> table \<Rightarrow> string \<Rightarrow> py_object \<Rightarrow> py_object \<Rightarrow> py_object
     \<Rightarrow> pydatetime option \<Rightarrow> (string \<times> json) list option \<Rightarrow> budget_error + (settlement \<times> table)" where
  "settle env t rid i out c now details = close_reservation env t rid Settle i out c now details"

definition abandon ::
  "budget_env \<Rightarrow> table \<Rightarrow> string \<Rightarrow> string
     \<Rightarrow> pydatetime option \<Rightarrow> (string \<times> json) list option \<Rightarrow> budget_error + (settlement \<times> table)" where
  "abandon env t rid reason now details =
     (if is_blank reason \<or> length reason > 500 then
        Inl (BudgetConfigurationError ''abandon reason must be 1-500 characters'')
      else
        (let merged = dict_set (case details of None \<Rightarrow> [] | Some kvs \<Rightarrow> kvs) (''reason'', JStr reason)
         in close_reservation env t rid Abandon PyNone PyNone PyNone now (Some merged)))"

section \<open>Reconciling\<close>

definition stale_reservations :: "table \<Rightarrow> string \<Rightarrow> table" where
  "stale_reservations t cutoff =
     map fst (filter (\<lambda>(r, u). u = None \<and> occurred_at_utc r \<le> cutoff)
       (left_join (filter is_reserve t) t))"

definition stale_details :: "string \<Rightarrow> string" where
  "stale_details cutoff =
     render (JObj [(''reason'', JStr ''stale_reservation_reconciled''), (''cutoff_utc'', JStr cutoff)])"

text \<open>The loop over the rows read, one insert each; an exception rolls the transaction back.  The
  \<open>k\<close>-th identifier drawn is \<open>eids k\<close>.\<close>

fun reconcile_rows ::
  "(nat \<Rightarrow> string) \<Rightarrow> nat \<Rightarrow> instant \<Rightarrow> string \<Rightarrow> table \<Rightarrow> table
     \<Rightarrow> budget_error + (settlement list \<times> table)" where
  "reconcile_rows eids k instant details t [] = Inr ([], t)"
| "reconcile_rows eids k instant details t (r # rs) =
     bindR (insert_event t
         (terminal_row (eids k) Abandon instant r (amount r) False PyNone PyNone PyNone details))
       (\<lambda>t'.
       bindR (reconcile_rows eids (Suc k) instant details t' rs) (\<lambda>(ss, t'').
         Inr (\<lparr>set_reservation_id = reservation_id r, set_event_id = eids k,
               set_event_type = Abandon, set_month = month_key r, set_provider = row_provider r,
               set_model = row_model r, set_reserved = amount r,
               charged_microdollars = amount r, set_usage_valid = False,
               closed_at = instant\<rparr> # ss, t'')))"

definition reconcile_abandoned ::
  "budget_env \<Rightarrow> (nat \<Rightarrow> string) \<Rightarrow> table \<Rightarrow> int \<Rightarrow> pydatetime option
     \<Rightarrow> budget_error + (settlement list \<times> table)" where
  "reconcile_abandoned env eids t older_than now =
     (if older_than < 0 then
        Inl (BudgetConfigurationError ''older_than must be a non-negative timedelta'')
      else
        bindR (normalize_now now (clock env)) (\<lambda>instant.
          if instant - older_than < 0 then Inl OverflowError
          else
            (let cutoff = isoformat (instant - older_than) in
             reconcile_rows eids 0 instant (stale_details cutoff) t (stale_reservations t cutoff))))"

section \<open>Status\<close>

datatype warning_level = LevelOk | LevelWarning | LevelCritical | LevelExhausted

record budget_status =
  st_month :: string
  st_hard_limit :: int
  st_charged :: int
  st_active_reserved :: int
  st_effective :: int
  st_remaining :: int
  st_level :: warning_level
  st_crossed :: "int list"
  st_call_counts :: "((string \<times> string) \<times> int \<times> int option) list"

definition status :: "ledger_config \<Rightarrow> table \<Rightarrow> instant \<Rightarrow> budget_status" where
  "status cfg t instant =
     (let month = month_string instant in
      case spend_parts t month of
        (charged, active_reserved) \<Rightarrow>
          (let rows = filter (\<lambda>r. is_reserve r \<and> month_key r = month) t;
               used_keys = remdups (map (\<lambda>r. (row_provider r, row_model r)) rows);
               all_keys = sort (remdups (used_keys @ map fst (quotas cfg)));
               counts = map (\<lambda>(p, m). ((p, m), call_count t month p m, map_of (quotas cfg) (p, m))) all_keys;
               effective = charged + active_reserved;
               crossed = filter (\<lambda>threshold. effective \<ge> threshold) (warning_thresholds cfg);
               level =
                 (if effective \<ge> hard_limit cfg then LevelExhausted
                  else if length crossed \<ge> 2 then LevelCritical
                  else if crossed \<noteq> [] then LevelWarning
                  else LevelOk)
           in \<lparr>st_month = month, st_hard_limit = hard_limit cfg, st_charged = charged,
               st_active_reserved = active_reserved, st_effective = effective,
               st_remaining = max 0 (hard_limit cfg - effective), st_level = level,
               st_crossed = crossed, st_call_counts = counts\<rparr>))"

section \<open>What the operations do when they return\<close>

lemma require_nonnegative_int_Inr [simp]:
  "require_nonnegative_int v name = Inr i \<longleftrightarrow> v = PyInt i \<and> 0 \<le> i"
  by (cases v) (auto simp: require_nonnegative_int_def)

lemma insert_event_Inr:
  "insert_event t row = Inr t' \<longleftrightarrow>
     t' = t @ [row] \<and> 0 \<le> amount row \<and> 0 \<le> row_input_rate row \<and> 0 \<le> row_output_rate row \<and>
     0 \<le> row_cached_rate row \<and> event_id row \<notin> set (map event_id t) \<and>
     (is_reserve row \<longrightarrow> (\<forall>r \<in> set t. \<not> (is_reserve r \<and> month_key r = month_key row \<and>
        row_provider r = row_provider row \<and> row_model r = row_model row \<and>
        request_key r = request_key row))) \<and>
     (is_terminal row \<longrightarrow> (\<forall>r \<in> set t. \<not> (is_terminal r \<and> reservation_id r = reservation_id row)))"
  by (auto simp: insert_event_def list_ex_iff not_less)

lemma reserve_row_simps [simp]:
  "event_type (reserve_row eid rid i a amt d) = Reserve"
  "is_reserve (reserve_row eid rid i a amt d)" "\<not> is_terminal (reserve_row eid rid i a amt d)"
  "reservation_id (reserve_row eid rid i a amt d) = rid"
  "event_id (reserve_row eid rid i a amt d) = eid"
  "amount (reserve_row eid rid i a amt d) = amt"
  "month_key (reserve_row eid rid i a amt d) = month_string i"
  "occurred_at_utc (reserve_row eid rid i a amt d) = isoformat i"
  by (simp_all add: reserve_row_def is_reserve_def is_terminal_def)

lemma terminal_row_simps [simp]:
  "event_type (terminal_row eid k i r c v x y z d) = k"
  "reservation_id (terminal_row eid k i r c v x y z d) = reservation_id r"
  "event_id (terminal_row eid k i r c v x y z d) = eid"
  "amount (terminal_row eid k i r c v x y z d) = c"
  "month_key (terminal_row eid k i r c v x y z d) = month_key r"
  "row_provider (terminal_row eid k i r c v x y z d) = row_provider r"
  "row_model (terminal_row eid k i r c v x y z d) = row_model r"
  "request_key (terminal_row eid k i r c v x y z d) = request_key r"
  "row_input_rate (terminal_row eid k i r c v x y z d) = row_input_rate r"
  "row_output_rate (terminal_row eid k i r c v x y z d) = row_output_rate r"
  "row_cached_rate (terminal_row eid k i r c v x y z d) = row_cached_rate r"
  by (simp_all add: terminal_row_def)

lemma terminal_row_kind:
  "k \<noteq> Reserve \<Longrightarrow> is_terminal (terminal_row eid k i r c v x y z d) \<and>
     \<not> is_reserve (terminal_row eid k i r c v x y z d)"
  by (cases k) (simp_all add: is_terminal_def is_reserve_def)

lemma reserve_not_terminal: "is_reserve r \<Longrightarrow> \<not> is_terminal r"
  by (simp add: is_reserve_def is_terminal_def)

lemma quota_for_Inr [simp]: "quota_for cfg p m = Inr q \<longleftrightarrow> map_of (quotas cfg) (p, m) = Some q"
  by (auto simp: quota_for_def split: option.splits)

lemma assert_calls_enabled_Inr [simp]: "assert_calls_enabled k = Inr u \<longleftrightarrow> k = SwitchAbsent"
  by (simp add: assert_calls_enabled_def)

lemma case_list_Inl_Inr:
  "(case xs of [] \<Rightarrow> A | y # ys \<Rightarrow> Inl (f y)) = Inr z \<longleftrightarrow> xs = [] \<and> A = Inr z"
  by (cases xs) auto

text \<open>The transaction of \<open>reserve\<close> commits exactly when every check passes.\<close>

lemma reserve_locked_Inr:
  "reserve_locked cfg env t a instant amt quota details = Inr t' \<longleftrightarrow>
     switch_locked env = SwitchAbsent \<and>
     (\<forall>r \<in> set t. \<not> (is_reserve r \<and> month_key r = month_string instant \<and>
        row_provider r = ra_provider a \<and> row_model r = ra_model a \<and>
        request_key r = ra_request_key a)) \<and>
     call_count t (month_string instant) (ra_provider a) (ra_model a) < quota \<and>
     fst (spend_parts t (month_string instant)) + snd (spend_parts t (month_string instant)) + amt
       \<le> hard_limit cfg \<and>
     (\<forall>d. daily_limit cfg = Some d \<longrightarrow> day_effective_spend t (date_string instant) + amt \<le> d) \<and>
     insert_event t (reserve_row (fresh_event_id env) (fresh_reservation_id env) instant a amt details)
       = Inr t'"
proof -
  obtain c ar where "spend_parts t (month_string instant) = (c, ar)" by fastforce
  then show ?thesis
    by (auto simp: reserve_locked_def Let_def case_list_Inl_Inr filter_empty_conv not_le not_less
        split: option.splits)
qed

lemma reserve_result [result_elims]:
  assumes "reserve cfg env t a = Inr (res, t')"
  obtains instant amt q where
    "ra_worst_case a = PyInt amt" "0 \<le> amt"
    "normalize_now (ra_now a) (clock env) = Inr instant"
    "is_effective (ra_policy a) (date_of instant)"
    "map_of (quotas cfg) (ra_provider a, ra_model a) = Some q"
    "switch_before env = SwitchAbsent"
    "reserve_locked cfg env t a instant amt q (json_details (ra_details a)) = Inr t'"
    "res_id res = fresh_reservation_id env" "res_month res = month_string instant"
    "reserved_microdollars res = amt"
  using assms by (auto simp: reserve_def)

lemma reserve_appends:
  assumes "reserve cfg env t a = Inr (res, t')"
  obtains instant amt where
    "t' = t @ [reserve_row (fresh_event_id env) (fresh_reservation_id env) instant a amt
       (json_details (ra_details a))]"
    "res_id res = fresh_reservation_id env" "reserved_microdollars res = amt" "0 \<le> amt"
    "res_month res = month_string instant"
  using assms by (auto elim!: reserve_result simp: reserve_locked_Inr insert_event_Inr)

lemma active_reservation_Inr:
  "active_reservation t rid = Inr r \<Longrightarrow>
     r \<in> set t \<and> is_reserve r \<and> reservation_id r = rid \<and> terminals_of t rid = []"
  by (auto simp: active_reservation_def filter_eq_Cons_iff split: list.splits)

lemma close_result [result_elims]:
  assumes "close_reservation env t rid kind i out c now details = Inr (s, t')"
  obtains instant r charged where
    "active_reservation t rid = Inr r"
    "charged_microdollars s = charged" "set_reserved s = amount r"
    "set_month s = month_key r" "set_event_type s = kind" "set_reservation_id s = rid"
    "set_usage_valid s \<longleftrightarrow> kind = Settle \<and> valid_usage i out c"
    "set_usage_valid s \<Longrightarrow>
       \<exists>p. policy_from_row r = Inr p \<and> quote_usage p i out c = Inr charged"
    "\<not> set_usage_valid s \<Longrightarrow> charged = amount r"
    "insert_event t (terminal_row (fresh_event_id env) kind instant r charged
       (set_usage_valid s) i out c (json_details details)) = Inr t'"
  using assms
  by (auto simp: close_reservation_def Let_def split: if_splits)

lemma close_appends:
  assumes "close_reservation env t rid kind i out c now details = Inr (s, t')"
  obtains instant r v d where
    "active_reservation t rid = Inr r"
    "t' = t @ [terminal_row (fresh_event_id env) kind instant r (charged_microdollars s) v i out c d]"
    "set_reserved s = amount r"
  by (rule close_result [OF assms]) (rule that, auto simp: insert_event_Inr)

section \<open>The effective spend\<close>

text \<open>
  The abstract account: a reservation costs its own amount until a terminal row charges another.
  \<open>effective_on P\<close> sums over the reservations that satisfy \<open>P\<close> (those of a month, of a day).
\<close>

definition charge :: "table \<Rightarrow> ledger_row \<Rightarrow> int" where
  "charge t r =
     (case terminals_of t (reservation_id r) of [] \<Rightarrow> amount r | u # _ \<Rightarrow> amount u)"

definition effective_on :: "(ledger_row \<Rightarrow> bool) \<Rightarrow> table \<Rightarrow> int" where
  "effective_on P t = sum_list (map (charge t) (filter (\<lambda>r. is_reserve r \<and> P r) t))"

definition overrun_on :: "(ledger_row \<Rightarrow> bool) \<Rightarrow> table \<Rightarrow> int" where
  "overrun_on P t =
     sum_list (map (\<lambda>r. max 0 (charge t r - amount r)) (filter (\<lambda>r. is_reserve r \<and> P r) t))"

definition of_month :: "string \<Rightarrow> ledger_row \<Rightarrow> bool" where
  "of_month m r \<longleftrightarrow> month_key r = m"

definition of_day :: "string \<Rightarrow> ledger_row \<Rightarrow> bool" where
  "of_day d r \<longleftrightarrow> take 10 (occurred_at_utc r) = d"

text \<open>What the schema and the operations keep of the table.\<close>

definition ledger_inv :: "table \<Rightarrow> bool" where
  "ledger_inv t \<longleftrightarrow>
     distinct (map event_id t) \<and>
     distinct (map reservation_id (filter is_reserve t)) \<and>
     distinct (map reservation_id (filter is_terminal t)) \<and>
     (\<forall>u \<in> set t. is_terminal u \<longrightarrow>
        (\<exists>r \<in> set t. is_reserve r \<and> reservation_id r = reservation_id u \<and>
           month_key r = month_key u \<and> row_provider r = row_provider u \<and>
           row_model r = row_model u \<and> request_key r = request_key u)) \<and>
     (\<forall>r \<in> set t. 0 \<le> amount r \<and> 0 \<le> row_input_rate r \<and> 0 \<le> row_output_rate r \<and>
        0 \<le> row_cached_rate r)"

lemma ledger_inv_Nil: "ledger_inv []"
  by (simp add: ledger_inv_def)

lemma terminals_of_append: "terminals_of (t @ u) rid = terminals_of t rid @ terminals_of u rid"
  by (simp add: terminals_of_def)

lemma terminals_of_reserve [simp]: "\<not> is_terminal r \<Longrightarrow> terminals_of [r] rid = []"
  by (simp add: terminals_of_def)

lemma terminals_of_unique:
  assumes "distinct (map reservation_id (filter is_terminal t))"
  shows "length (terminals_of t rid) \<le> 1"
proof -
  have "terminals_of t rid = filter (\<lambda>r. reservation_id r = rid) (filter is_terminal t)"
    by (simp add: terminals_of_def conj_commute)
  with assms show ?thesis using filter_key_at_most_one by metis
qed

lemma left_join_unique:
  assumes "distinct (map reservation_id (filter is_terminal t))"
  shows "left_join rs t =
    map (\<lambda>r. (r, case terminals_of t (reservation_id r) of [] \<Rightarrow> None | u # _ \<Rightarrow> Some u)) rs"
proof (induction rs)
  case Nil
  show ?case by (simp add: left_join_def)
next
  case (Cons r rs)
  have "length (terminals_of t (reservation_id r)) \<le> 1" using assms by (rule terminals_of_unique)
  with Cons.IH show ?case
    by (cases "terminals_of t (reservation_id r)") (auto simp: left_join_def)
qed

lemma spend_parts_effective:
  assumes "ledger_inv t"
  shows "fst (spend_parts t m) + snd (spend_parts t m) = effective_on (of_month m) t"
proof -
  have "distinct (map reservation_id (filter is_terminal t))"
    using assms by (simp add: ledger_inv_def)
  note lj = left_join_unique [OF this]
  have "sum_list (map (\<lambda>r. case terminals_of t (reservation_id r) of [] \<Rightarrow> 0 | u # _ \<Rightarrow> amount u) rs) +
      sum_list (map (\<lambda>r. case terminals_of t (reservation_id r) of [] \<Rightarrow> amount r | u # _ \<Rightarrow> 0) rs) =
      sum_list (map (charge t) rs)" for rs
    by (induction rs) (auto simp: charge_def split: list.splits)
  moreover have "(case case xs of [] \<Rightarrow> None | u # _ \<Rightarrow> Some u of None \<Rightarrow> a | Some u \<Rightarrow> f u) =
      (case xs of [] \<Rightarrow> a | u # _ \<Rightarrow> f u)" for xs :: table and a :: int and f
    by (cases xs) auto
  ultimately show ?thesis
    by (simp add: spend_parts_def lj effective_on_def of_month_def comp_def)
qed

lemma day_spend_effective:
  assumes "ledger_inv t"
  shows "day_effective_spend t d = effective_on (of_day d) t"
proof -
  have "distinct (map reservation_id (filter is_terminal t))"
    using assms by (simp add: ledger_inv_def)
  note lj = left_join_unique [OF this]
  have "(case case xs of [] \<Rightarrow> None | u # _ \<Rightarrow> Some u of None \<Rightarrow> a | Some u \<Rightarrow> amount u) =
      (case xs of [] \<Rightarrow> a | u # _ \<Rightarrow> amount u)" for xs :: table and a :: int
    by (cases xs) auto
  then show ?thesis
    by (simp add: day_effective_spend_def lj effective_on_def of_day_def comp_def charge_def [abs_def])
qed

section \<open>How a row changes the account\<close>

lemma charge_append_reserve: "\<not> is_terminal row \<Longrightarrow> charge (t @ [row]) r = charge t r"
  by (simp add: charge_def terminals_of_append)

lemma charge_append_terminal:
  "is_terminal u \<Longrightarrow> terminals_of t (reservation_id u) = [] \<Longrightarrow>
     charge (t @ [u]) r = (if reservation_id r = reservation_id u then amount u else charge t r)"
  by (auto simp: charge_def terminals_of_append terminals_of_def)

text \<open>Sums over reservations, as one fold of all reserve rows with a weight.\<close>

definition weigh :: "(ledger_row \<Rightarrow> bool) \<Rightarrow> (ledger_row \<Rightarrow> int) \<Rightarrow> table \<Rightarrow> int" where
  "weigh P f t = sum_list (map (\<lambda>r. if P r then f r else 0) (filter is_reserve t))"

lemma effective_on_weigh: "effective_on P t = weigh P (charge t) t"
  by (simp add: effective_on_def weigh_def sum_list_map_filter' flip: filter_filter)

lemma overrun_on_weigh: "overrun_on P t = weigh P (\<lambda>r. max 0 (charge t r - amount r)) t"
  by (simp add: overrun_on_def weigh_def sum_list_map_filter' flip: filter_filter)

lemma weigh_append_reserve:
  "is_reserve row \<Longrightarrow> weigh P f (t @ [row]) = weigh P f t + (if P row then f row else 0)"
  by (simp add: weigh_def)

lemma weigh_append_other: "\<not> is_reserve u \<Longrightarrow> weigh P f (t @ [u]) = weigh P f t"
  by (simp add: weigh_def)

lemma weigh_change:
  assumes "ledger_inv t" and "r \<in> set t" and "is_reserve r"
    and "\<And>x. reservation_id x \<noteq> reservation_id r \<Longrightarrow> g x = f x"
  shows "weigh P g t = weigh P f t + (if P r then g r - f r else 0)"
proof -
  have "distinct (map reservation_id (filter is_reserve t))" "r \<in> set (filter is_reserve t)"
    using assms by (auto simp: ledger_inv_def)
  from sum_list_change_key [OF this, of "\<lambda>r. if P r then g r else 0" "\<lambda>r. if P r then f r else 0"]
  show ?thesis using assms(4) by (simp add: weigh_def)
qed

lemma fresh_no_terminals: "rid \<notin> set (map reservation_id t) \<Longrightarrow> terminals_of t rid = []"
  by (auto simp: terminals_of_def filter_empty_conv)

lemma effective_after_reserve:
  assumes "is_reserve row" and "reservation_id row \<notin> set (map reservation_id t)"
  shows "effective_on P (t @ [row]) = effective_on P t + (if P row then amount row else 0)"
    and "overrun_on P (t @ [row]) = overrun_on P t"
proof -
  have "charge (t @ [row]) = charge t"
    using assms(1) by (simp add: fun_eq_iff charge_append_reserve reserve_not_terminal)
  moreover have "charge t row = amount row"
    using fresh_no_terminals [OF assms(2)] by (simp add: charge_def)
  ultimately show "effective_on P (t @ [row]) = effective_on P t + (if P row then amount row else 0)"
    and "overrun_on P (t @ [row]) = overrun_on P t"
    by (simp_all add: effective_on_weigh overrun_on_weigh weigh_append_reserve assms(1))
qed

lemma effective_after_close:
  assumes "ledger_inv t" and "active_reservation t (reservation_id r) = Inr r"
    and "is_terminal u" and "reservation_id u = reservation_id r"
  shows "effective_on P (t @ [u]) = effective_on P t + (if P r then amount u - amount r else 0)"
    and "overrun_on P (t @ [u]) = overrun_on P t + (if P r then max 0 (amount u - amount r) else 0)"
proof -
  note r = active_reservation_Inr [OF assms(2)]
  have u: "\<not> is_reserve u" using assms(3) reserve_not_terminal by blast
  have old: "charge t r = amount r" using r by (simp add: charge_def)
  have new: "charge (t @ [u]) x = (if reservation_id x = reservation_id r then amount u else charge t x)"
    for x using charge_append_terminal [OF assms(3), of t x] r assms(4) by simp
  show "effective_on P (t @ [u]) = effective_on P t + (if P r then amount u - amount r else 0)"
    using weigh_change [OF assms(1), of r "charge (t @ [u])" "charge t" P] r new old u
    by (simp add: effective_on_weigh weigh_append_other)
  show "overrun_on P (t @ [u]) = overrun_on P t + (if P r then max 0 (amount u - amount r) else 0)"
    using weigh_change [OF assms(1), of r "\<lambda>x. max 0 (charge (t @ [u]) x - amount x)"
      "\<lambda>x. max 0 (charge t x - amount x)" P] r new old u
    by (simp add: overrun_on_weigh weigh_append_other)
qed

lemma overrun_nonneg: "0 \<le> overrun_on P t"
  by (auto simp: overrun_on_def intro!: sum_list_nonneg)

section \<open>The invariant is kept\<close>

lemma inv_append_reserve:
  assumes "ledger_inv t" and "insert_event t row = Inr t'" and "is_reserve row"
    and "reservation_id row \<notin> set (map reservation_id t)"
  shows "ledger_inv t'"
proof -
  have "t' = t @ [row]" "0 \<le> amount row" "0 \<le> row_input_rate row" "0 \<le> row_output_rate row"
    "0 \<le> row_cached_rate row" "event_id row \<notin> set (map event_id t)"
    using assms(2) by (auto simp: insert_event_Inr)
  with assms(1,3,4) reserve_not_terminal [OF assms(3)] show ?thesis
    by (auto simp: ledger_inv_def)
qed

lemma inv_append_terminal:
  assumes "ledger_inv t" and "insert_event t u = Inr t'" and "is_terminal u"
    and "r \<in> set t" "is_reserve r" "reservation_id u = reservation_id r" "month_key u = month_key r"
    "row_provider u = row_provider r" "row_model u = row_model r" "request_key u = request_key r"
  shows "ledger_inv t'"
proof -
  have t': "t' = t @ [u]" "0 \<le> amount u" "0 \<le> row_input_rate u" "0 \<le> row_output_rate u"
    "0 \<le> row_cached_rate u" "event_id u \<notin> set (map event_id t)"
    "\<forall>v \<in> set t. is_terminal v \<longrightarrow> reservation_id v \<noteq> reservation_id u"
    using assms(2,3) by (auto simp: insert_event_Inr)
  have "\<not> is_reserve u" using assms(3) reserve_not_terminal by blast
  with t' assms(1,3) have "distinct (map event_id t')"
    "distinct (map reservation_id (filter is_reserve t'))"
    "distinct (map reservation_id (filter is_terminal t'))"
    "\<forall>r \<in> set t'. 0 \<le> amount r \<and> 0 \<le> row_input_rate r \<and> 0 \<le> row_output_rate r \<and>
       0 \<le> row_cached_rate r"
    by (auto simp: ledger_inv_def)
  moreover have "\<forall>v \<in> set t'. is_terminal v \<longrightarrow>
      (\<exists>r \<in> set t'. is_reserve r \<and> reservation_id r = reservation_id v \<and> month_key r = month_key v \<and>
         row_provider r = row_provider v \<and> row_model r = row_model v \<and> request_key r = request_key v)"
  proof (intro ballI impI)
    fix v
    assume v: "v \<in> set t'" "is_terminal v"
    show "\<exists>r \<in> set t'. is_reserve r \<and> reservation_id r = reservation_id v \<and> month_key r = month_key v \<and>
         row_provider r = row_provider v \<and> row_model r = row_model v \<and> request_key r = request_key v"
    proof (cases "v = u")
      case True
      with assms(4-10) t' show ?thesis by (intro bexI [of _ r]) auto
    next
      case False
      with v t' have "v \<in> set t" by simp
      with v assms(1) obtain r' where "r' \<in> set t" "is_reserve r'"
        "reservation_id r' = reservation_id v" "month_key r' = month_key v"
        "row_provider r' = row_provider v" "row_model r' = row_model v"
        "request_key r' = request_key v"
        unfolding ledger_inv_def by blast
      with t' show ?thesis by (intro bexI [of _ r']) auto
    qed
  qed
  ultimately show ?thesis by (simp add: ledger_inv_def)
qed

lemma inv_reserve:
  assumes "ledger_inv t" and "reserve cfg env t a = Inr (res, t')"
    and "fresh_reservation_id env \<notin> set (map reservation_id t)"
  shows "ledger_inv t'"
  using assms(2)
proof (rule reserve_result)
  fix instant amt q
  assume "reserve_locked cfg env t a instant amt q (json_details (ra_details a)) = Inr t'"
  then have "insert_event t (reserve_row (fresh_event_id env) (fresh_reservation_id env) instant a amt
      (json_details (ra_details a))) = Inr t'"
    by (simp add: reserve_locked_Inr)
  from inv_append_reserve [OF assms(1) this] assms(3) show "ledger_inv t'" by simp
qed

lemma inv_close:
  assumes "ledger_inv t" and "close_reservation env t rid kind i out c now details = Inr (s, t')"
    and "kind \<noteq> Reserve"
  shows "ledger_inv t'"
  using assms(2)
proof (rule close_result)
  fix instant r charged
  assume "active_reservation t rid = Inr r"
    and ins: "insert_event t (terminal_row (fresh_event_id env) kind instant r charged
       (set_usage_valid s) i out c (json_details details)) = Inr t'"
  from active_reservation_Inr [OF this(1)] have "r \<in> set t" "is_reserve r" by auto
  with inv_append_terminal [OF assms(1) ins] terminal_row_kind [OF assms(3)] show "ledger_inv t'"
    by simp
qed

lemma settle_result:
  "settle env t rid i out c now details = Inr (s, t') \<Longrightarrow>
     close_reservation env t rid Settle i out c now details = Inr (s, t')"
  by (simp add: settle_def)

lemma abandon_result:
  "abandon env t rid reason now details = Inr (s, t') \<Longrightarrow>
     \<exists>d. close_reservation env t rid Abandon PyNone PyNone PyNone now (Some d) = Inr (s, t')"
  by (auto simp: abandon_def Let_def split: if_splits)

lemma inv_active:
  assumes "ledger_inv t" and "r \<in> set t" and "is_reserve r" and "terminals_of t (reservation_id r) = []"
  shows "active_reservation t (reservation_id r) = Inr r"
proof -
  let ?rs = "filter (\<lambda>x. is_reserve x \<and> reservation_id x = reservation_id r) t"
  have "length (filter (\<lambda>x. reservation_id x = reservation_id r) (filter is_reserve t)) \<le> 1"
    using assms(1) by (intro filter_key_at_most_one) (simp add: ledger_inv_def)
  then have "length ?rs \<le> 1" by (simp add: conj_commute)
  moreover have "r \<in> set ?rs" using assms by simp
  ultimately have "?rs = [r]" by (cases ?rs) auto
  with assms(4) show ?thesis by (simp add: active_reservation_def)
qed

text \<open>Reconciling is a sequence of terminal rows, one for each reservation listed.\<close>

lemma reconcile_rows_step [result_elims]:
  assumes "reconcile_rows eids k instant d t (r # rs) = Inr (ss, t')"
  obtains ss' where
    "insert_event t (terminal_row (eids k) Abandon instant r (amount r) False PyNone PyNone PyNone d)
       = Inr (t @ [terminal_row (eids k) Abandon instant r (amount r) False PyNone PyNone PyNone d])"
    "terminals_of t (reservation_id r) = []"
    "reconcile_rows eids (Suc k) instant d
       (t @ [terminal_row (eids k) Abandon instant r (amount r) False PyNone PyNone PyNone d]) rs
       = Inr (ss', t')"
    "map set_reservation_id ss = reservation_id r # map set_reservation_id ss'"
proof -
  let ?u = "terminal_row (eids k) Abandon instant r (amount r) False PyNone PyNone PyNone d"
  from assms obtain ss' where ins: "insert_event t ?u = Inr (t @ [?u])"
    and rest: "reconcile_rows eids (Suc k) instant d (t @ [?u]) rs = Inr (ss', t')"
    and ss: "map set_reservation_id ss = reservation_id r # map set_reservation_id ss'"
    by (auto simp: insert_event_Inr)
  have "terminals_of t (reservation_id r) = []"
    using ins terminal_row_kind [of Abandon]
    by (auto simp: insert_event_Inr terminals_of_def filter_empty_conv)
  from that [OF ins this rest ss] show thesis .
qed

lemma reconcile_rows_account:
  assumes "reconcile_rows eids k instant d t rs = Inr (ss, t')"
    and "ledger_inv t" and "set rs \<subseteq> {r \<in> set t. is_reserve r}"
  shows "ledger_inv t' \<and> effective_on P t' = effective_on P t \<and> overrun_on P t' = overrun_on P t \<and>
    map set_reservation_id ss = map reservation_id rs \<and>
    (\<exists>us. t' = t @ us \<and> list_all is_terminal us \<and> map reservation_id us = map reservation_id rs)"
  using assms
proof (induction rs arbitrary: k t ss)
  case Nil
  then show ?case by auto
next
  case (Cons r rs)
  let ?u = "terminal_row (eids k) Abandon instant r (amount r) False PyNone PyNone PyNone d"
  from Cons.prems(1) show ?case
  proof (rule reconcile_rows_step)
    fix ss'
    assume ins: "insert_event t ?u = Inr (t @ [?u])" and none: "terminals_of t (reservation_id r) = []"
      and rest: "reconcile_rows eids (Suc k) instant d (t @ [?u]) rs = Inr (ss', t')"
      and ss: "map set_reservation_id ss = reservation_id r # map set_reservation_id ss'"
    have r: "r \<in> set t" "is_reserve r" using Cons.prems(3) by auto
    have u: "is_terminal ?u" "\<not> is_reserve ?u" using terminal_row_kind [of Abandon] by auto
    note act = inv_active [OF Cons.prems(2) r none]
    have "ledger_inv (t @ [?u])"
      using inv_append_terminal [OF Cons.prems(2) ins u(1) r] by simp
    moreover have "effective_on P (t @ [?u]) = effective_on P t" "overrun_on P (t @ [?u]) = overrun_on P t"
      using effective_after_close [OF Cons.prems(2) act u(1), of P] by simp_all
    moreover have "set rs \<subseteq> {x \<in> set (t @ [?u]). is_reserve x}" using Cons.prems(3) by auto
    ultimately have "ledger_inv t' \<and> effective_on P t' = effective_on P t \<and> overrun_on P t' = overrun_on P t \<and>
      map set_reservation_id ss' = map reservation_id rs \<and>
      (\<exists>us. t' = (t @ [?u]) @ us \<and> list_all is_terminal us \<and> map reservation_id us = map reservation_id rs)"
      using Cons.IH [OF rest] by simp
    then obtain us where us: "ledger_inv t'" "effective_on P t' = effective_on P t"
      "overrun_on P t' = overrun_on P t" "map set_reservation_id ss' = map reservation_id rs"
      "t' = (t @ [?u]) @ us" "list_all is_terminal us" "map reservation_id us = map reservation_id rs"
      by blast
    have "t' = t @ (?u # us) \<and> list_all is_terminal (?u # us) \<and>
      map reservation_id (?u # us) = map reservation_id (r # rs)" using us u by simp
    with us(1-4) ss show ?case by (metis list.simps(9))
  qed
qed

text \<open>With fresh event identifiers the loop never stops on an error.\<close>

lemma reconcile_rows_total:
  assumes "ledger_inv t" and "set rs \<subseteq> {r \<in> set t. is_reserve r}"
    and "distinct (map reservation_id rs)" and "\<forall>r \<in> set rs. terminals_of t (reservation_id r) = []"
    and "inj eids" and "\<forall>j \<ge> k. eids j \<notin> set (map event_id t)"
  shows "\<exists>ss t'. reconcile_rows eids k instant d t rs = Inr (ss, t')"
  using assms
proof (induction rs arbitrary: k t)
  case Nil
  then show ?case by simp
next
  case (Cons r rs)
  let ?u = "terminal_row (eids k) Abandon instant r (amount r) False PyNone PyNone PyNone d"
  have r: "r \<in> set t" "is_reserve r" using Cons.prems(2) by auto
  have u: "is_terminal ?u" "\<not> is_reserve ?u" using terminal_row_kind [of Abandon] by auto
  have "0 \<le> amount r" "0 \<le> row_input_rate r" "0 \<le> row_output_rate r" "0 \<le> row_cached_rate r"
    using Cons.prems(1) r(1) by (auto simp: ledger_inv_def)
  then have ins: "insert_event t ?u = Inr (t @ [?u])"
    using Cons.prems(4,6) u by (auto simp: insert_event_Inr terminals_of_def filter_empty_conv)
  have inv: "ledger_inv (t @ [?u])"
    using inv_append_terminal [OF Cons.prems(1) ins u(1) r] by simp
  have fresh: "\<forall>j \<ge> Suc k. eids j \<notin> set (map event_id (t @ [?u]))"
    using Cons.prems(5,6) by (auto simp: inj_eq)
  have still: "\<forall>x \<in> set rs. terminals_of (t @ [?u]) (reservation_id x) = []"
  proof
    fix x assume "x \<in> set rs"
    with Cons.prems(3,4) show "terminals_of (t @ [?u]) (reservation_id x) = []"
      by (auto simp: terminals_of_append) (auto simp: terminals_of_def image_iff)
  qed
  have "\<exists>ss t'. reconcile_rows eids (Suc k) instant d (t @ [?u]) rs = Inr (ss, t')"
    using Cons.prems(2,3) by (intro Cons.IH [OF inv _ _ still Cons.prems(5) fresh]) auto
  with ins show ?case by auto
qed

lemma stale_sub:
  assumes "ledger_inv t" and "r \<in> set (stale_reservations t cutoff)"
  shows "r \<in> set t" "is_reserve r" "terminals_of t (reservation_id r) = []" "occurred_at_utc r \<le> cutoff"
proof -
  have "distinct (map reservation_id (filter is_terminal t))"
    using assms(1) by (simp add: ledger_inv_def)
  note lj = left_join_unique [OF this]
  show "r \<in> set t" "is_reserve r" "terminals_of t (reservation_id r) = []" "occurred_at_utc r \<le> cutoff"
    using assms(2) by (auto simp: stale_reservations_def lj split: list.splits)
qed

lemma stale_reservations_eq:
  assumes "ledger_inv t"
  shows "stale_reservations t cutoff =
    filter (\<lambda>r. is_reserve r \<and> terminals_of t (reservation_id r) = [] \<and> occurred_at_utc r \<le> cutoff) t"
proof -
  have "distinct (map reservation_id (filter is_terminal t))"
    using assms(1) by (simp add: ledger_inv_def)
  note lj = left_join_unique [OF this]
  have "map fst (filter (\<lambda>(r, u). u = None \<and> occurred_at_utc r \<le> cutoff)
      (map (\<lambda>r. (r, case terminals_of t (reservation_id r) of [] \<Rightarrow> None | u # _ \<Rightarrow> Some u)) rs)) =
      filter (\<lambda>r. terminals_of t (reservation_id r) = [] \<and> occurred_at_utc r \<le> cutoff) rs" for rs
    by (induction rs) (auto split: list.splits)
  from this [of "filter is_reserve t"] show ?thesis
    by (simp add: stale_reservations_def lj conj_commute conj_left_commute)
qed

section \<open>Histories\<close>

text \<open>
  One step is one committed transaction; a call that fails rolls back and is no step.  The
  identifiers \<open>uuid4\<close> draws are assumed not to repeat a reservation identifier of the table.
\<close>

inductive ledger_step :: "ledger_config \<Rightarrow> table \<Rightarrow> table \<Rightarrow> bool" for cfg where
  reserves: "reserve cfg env t a = Inr (res, t') \<Longrightarrow>
     fresh_reservation_id env \<notin> set (map reservation_id t) \<Longrightarrow> ledger_step cfg t t'"
| settles: "settle env t rid i out c now details = Inr (s, t') \<Longrightarrow> ledger_step cfg t t'"
| abandons: "abandon env t rid reason now details = Inr (s, t') \<Longrightarrow> ledger_step cfg t t'"
| reconciles: "reconcile_abandoned env eids t older_than now = Inr (ss, t') \<Longrightarrow> ledger_step cfg t t'"

inductive_cases ledger_stepE: "ledger_step cfg t t'"

abbreviation ledger_history :: "ledger_config \<Rightarrow> table \<Rightarrow> table \<Rightarrow> bool" where
  "ledger_history cfg \<equiv> (ledger_step cfg)\<^sup>*\<^sup>*"

lemma reconcile_abandoned_Inr:
  "reconcile_abandoned env eids t older now = Inr (ss, t') \<Longrightarrow>
     \<exists>instant. normalize_now now (clock env) = Inr instant \<and> 0 \<le> older \<and> 0 \<le> instant - older \<and>
       reconcile_rows eids 0 instant (stale_details (isoformat (instant - older))) t
         (stale_reservations t (isoformat (instant - older))) = Inr (ss, t')"
  by (auto simp: reconcile_abandoned_def Let_def split: if_splits)

text \<open>
  Every step is one of two shapes: a reservation that passed the checks, or terminal rows for
  reservations that were open.  The lemmas on histories use these two cases only.
\<close>

lemma close_step_account:
  assumes "ledger_inv t" and "close_reservation env t rid kind i out c now details = Inr (s, t')"
    and "kind \<noteq> Reserve"
  shows "\<exists>us. t' = t @ us \<and> list_all is_terminal us" (is ?A)
    and "effective_on P t' \<le> effective_on P t + (overrun_on P t' - overrun_on P t)" (is ?B)
    and "overrun_on P t \<le> overrun_on P t'" (is ?C)
proof -
  from assms(2) have "?A \<and> ?B \<and> ?C"
  proof (rule close_appends)
    fix instant r v d
    let ?u = "terminal_row (fresh_event_id env) kind instant r (charged_microdollars s) v i out c d"
    assume act: "active_reservation t rid = Inr r" and t': "t' = t @ [?u]"
    from active_reservation_Inr [OF act] act have "active_reservation t (reservation_id r) = Inr r" by simp
    from effective_after_close [OF assms(1) this, of ?u] terminal_row_kind [OF assms(3)] t'
    show "?A \<and> ?B \<and> ?C" by auto
  qed
  then show ?A ?B ?C by auto
qed

lemma ledger_step_cases:
  assumes "ledger_step cfg t t'" and "ledger_inv t"
  obtains (reserved) env a res where "reserve cfg env t a = Inr (res, t')"
      "fresh_reservation_id env \<notin> set (map reservation_id t)"
    | (closed) us where "t' = t @ us" "list_all is_terminal us" "ledger_inv t'"
      "\<And>P. effective_on P t' \<le> effective_on P t + (overrun_on P t' - overrun_on P t)"
      "\<And>P. overrun_on P t \<le> overrun_on P t'"
  using assms(1)
proof (cases rule: ledger_step.cases)
  case (reserves env a res)
  then show thesis by (rule reserved)
next
  case (settles env rid i out c now details s)
  note cl = settle_result [OF this]
  from close_step_account [OF assms(2) cl] inv_close [OF assms(2) cl] show thesis
    by (metis closed event_type.distinct(1))
next
  case (abandons env rid reason now details s)
  then obtain d where cl: "close_reservation env t rid Abandon PyNone PyNone PyNone now (Some d) = Inr (s, t')"
    using abandon_result by blast
  from close_step_account [OF assms(2) cl] inv_close [OF assms(2) cl] show thesis
    by (metis closed event_type.distinct(3))
next
  case (reconciles env eids older now ss)
  then obtain instant cutoff d where
    rec: "reconcile_rows eids 0 instant d t (stale_reservations t cutoff) = Inr (ss, t')"
    using reconcile_abandoned_Inr by blast
  have "set (stale_reservations t cutoff) \<subseteq> {r \<in> set t. is_reserve r}"
    using stale_sub [OF assms(2)] by blast
  note acc = reconcile_rows_account [OF rec assms(2) this]
  then obtain us where "t' = t @ us" "list_all is_terminal us" by blast
  with acc show thesis by (intro closed) auto
qed

lemma inv_step: "ledger_step cfg t t' \<Longrightarrow> ledger_inv t \<Longrightarrow> ledger_inv t'"
  by (erule ledger_step_cases) (auto intro: inv_reserve)

lemma inv_history: "ledger_history cfg t t' \<Longrightarrow> ledger_inv t \<Longrightarrow> ledger_inv t'"
  by (induction rule: rtranclp_induct) (auto intro: inv_step)

lemma step_appends: "ledger_step cfg t t' \<Longrightarrow> ledger_inv t \<Longrightarrow> \<exists>us. t' = t @ us"
  by (erule ledger_step_cases) (auto elim: reserve_appends)

lemma history_appends:
  assumes "ledger_history cfg t t'" and "ledger_inv t"
  shows "\<exists>us. t' = t @ us"
  using assms
proof (induction rule: rtranclp_induct)
  case (step y z)
  then show ?case by (metis append.assoc inv_history step_appends)
qed simp

text \<open>What one reservation does to the accounts of a month and of a day.\<close>

lemma reserve_account:
  assumes "ledger_inv t" and "reserve cfg env t a = Inr (res, t')"
    and "fresh_reservation_id env \<notin> set (map reservation_id t)"
  obtains instant q where
    "normalize_now (ra_now a) (clock env) = Inr instant"
    "map_of (quotas cfg) (ra_provider a, ra_model a) = Some q"
    "call_count t (month_string instant) (ra_provider a) (ra_model a) < q"
    "effective_on (of_month (month_string instant)) t + reserved_microdollars res \<le> hard_limit cfg"
    "\<And>d. daily_limit cfg = Some d \<Longrightarrow>
       effective_on (of_day (date_string instant)) t + reserved_microdollars res \<le> d"
    "\<And>m. effective_on (of_month m) t' = effective_on (of_month m) t +
       (if m = month_string instant then reserved_microdollars res else 0)"
    "\<And>d. effective_on (of_day d) t' = effective_on (of_day d) t +
       (if d = date_string instant then reserved_microdollars res else 0)"
    "\<And>P. overrun_on P t' = overrun_on P t"
    "\<And>m p k. call_count t' m p k = call_count t m p k +
       (if m = month_string instant \<and> p = ra_provider a \<and> k = ra_model a then 1 else 0)"
    "0 \<le> reserved_microdollars res" "res_month res = month_string instant"
  using assms(2)
proof (rule reserve_result)
  fix instant amt q
  let ?row = "reserve_row (fresh_event_id env) (fresh_reservation_id env) instant a amt
    (json_details (ra_details a))"
  assume nn: "normalize_now (ra_now a) (clock env) = Inr instant" "0 \<le> amt"
    "map_of (quotas cfg) (ra_provider a, ra_model a) = Some q"
    "reserved_microdollars res = amt" "res_month res = month_string instant"
    and lk: "reserve_locked cfg env t a instant amt q (json_details (ra_details a)) = Inr t'"
  from lk have t': "t' = t @ [?row]" by (simp add: reserve_locked_Inr insert_event_Inr)
  have eff: "effective_on P t' = effective_on P t + (if P ?row then amt else 0)"
    and over: "overrun_on P t' = overrun_on P t" for P
    using effective_after_reserve [of ?row t P] assms(3) by (simp_all add: t')
  have count: "call_count t' m p k = call_count t m p k +
       (if m = month_string instant \<and> p = ra_provider a \<and> k = ra_model a then 1 else 0)" for m p k
    unfolding t' by (auto simp: call_count_def reserve_row_def is_reserve_def)
  show thesis
    by (rule that [OF nn(1,3)])
      (use lk nn eff over count spend_parts_effective [OF assms(1)] day_spend_effective [OF assms(1)]
        in \<open>auto simp: reserve_locked_Inr of_month_def of_day_def\<close>)
qed

text \<open>The account of every month and every day stays under its limit, up to what settlements overran.\<close>

lemma history_caps:
  assumes "ledger_history cfg [] t"
  shows "0 \<le> hard_limit cfg \<Longrightarrow> effective_on (of_month m) t \<le> hard_limit cfg + overrun_on (of_month m) t"
    and "daily_limit cfg = Some d \<Longrightarrow> 0 \<le> d \<Longrightarrow>
      effective_on (of_day day) t \<le> d + overrun_on (of_day day) t"
  using assms
proof (induction rule: rtranclp_induct)
  case base
  { case 1 then show ?case by (simp add: effective_on_def overrun_on_def) }
  { case 2 then show ?case by (simp add: effective_on_def overrun_on_def) }
next
  case (step y z)
  from step(1) have inv: "ledger_inv y" by (rule inv_history) (rule ledger_inv_Nil)
  { case 1
    note IH = step(3) [OF 1]
    from step(2) inv show ?case
    proof (cases rule: ledger_step_cases)
      case (reserved env a res)
      from inv reserved show ?thesis
        by (rule reserve_account) (use IH overrun_nonneg [of "of_month m" y] in auto)
    next
      case (closed us)
      with IH closed(4) [of "of_month m"] show ?thesis by linarith
    qed }
  { case 2
    note IH = step(4) [OF 2]
    from step(2) inv show ?case
    proof (cases rule: ledger_step_cases)
      case (reserved env a res)
      from inv reserved show ?thesis
        by (rule reserve_account)
          (use IH 2(1) overrun_nonneg [of "of_day day" y] in \<open>auto split: if_splits\<close>)
    next
      case (closed us)
      with IH closed(4) [of "of_day day"] show ?thesis by linarith
    qed }
qed

lemma call_count_terminal: "list_all is_terminal us \<Longrightarrow> call_count (t @ us) m p k = call_count t m p k"
  by (auto simp: call_count_def filter_empty_conv list_all_iff is_terminal_def is_reserve_def)

lemma history_quota:
  assumes "ledger_history cfg [] t"
  shows "call_count t m p k \<le> (case map_of (quotas cfg) (p, k) of Some q \<Rightarrow> max 0 q | None \<Rightarrow> 0)"
  using assms
proof (induction rule: rtranclp_induct)
  case base
  show ?case by (simp add: call_count_def split: option.splits)
next
  case (step y z)
  from step(1) have inv: "ledger_inv y" by (rule inv_history) (rule ledger_inv_Nil)
  from step(2) inv show ?case
  proof (cases rule: ledger_step_cases)
    case (reserved env a res)
    from inv reserved show ?thesis by (rule reserve_account) (use step.IH in auto)
  next
    case (closed us)
    with step.IH call_count_terminal show ?thesis by simp
  qed
qed

lemma history_open_is_old_row:
  assumes "ledger_inv t" and "ledger_history cfg t t'" and "r \<in> set t" and "is_reserve r"
    and "active_reservation t' (reservation_id r) = Inr r'"
  shows "r' = r"
proof -
  obtain us where "t' = t @ us" using history_appends assms(1,2) by blast
  with assms(3) have "r \<in> set (filter is_reserve t')" using assms(4) by simp
  moreover have "r' \<in> set (filter is_reserve t')" "reservation_id r' = reservation_id r"
    using active_reservation_Inr [OF assms(5)] by auto
  moreover have "distinct (map reservation_id (filter is_reserve t'))"
    using inv_history [OF assms(2,1)] by (simp add: ledger_inv_def)
  ultimately show ?thesis by (metis distinct_map inj_onD)
qed

lemma reserved_row:
  assumes "reserve cfg env t (a\<lparr>ra_worst_case := PyInt amt\<rparr>) = Inr (res, t')"
  obtains row where "row \<in> set t'" "is_reserve row" "reservation_id row = res_id res" "amount row = amt"
    "reserved_microdollars res = amt" "row_input_rate row = input_rate (ra_policy a)"
    "row_output_rate row = output_rate (ra_policy a)" "row_cached_rate row = cached_rate (ra_policy a)"
  using assms
proof (rule reserve_result)
  fix instant amt' q
  let ?row = "reserve_row (fresh_event_id env) (fresh_reservation_id env) instant
    (a\<lparr>ra_worst_case := PyInt amt\<rparr>) amt' (json_details (ra_details (a\<lparr>ra_worst_case := PyInt amt\<rparr>)))"
  assume "ra_worst_case (a\<lparr>ra_worst_case := PyInt amt\<rparr>) = PyInt amt'"
    and lk: "reserve_locked cfg env t (a\<lparr>ra_worst_case := PyInt amt\<rparr>) instant amt' q
      (json_details (ra_details (a\<lparr>ra_worst_case := PyInt amt\<rparr>))) = Inr t'"
    and res: "res_id res = fresh_reservation_id env" "reserved_microdollars res = amt'"
  then have amt: "amt' = amt" by simp
  from lk have "t' = t @ [?row]" unfolding reserve_locked_Inr insert_event_Inr by blast
  then have mem: "?row \<in> set t'" by simp
  from amt res show thesis
    by (intro that [OF mem]) (simp_all, simp_all add: reserve_row_def)
qed

lemma closed_stays_closed:
  assumes "ledger_history cfg t t'" and "ledger_inv t" and "terminals_of t rid \<noteq> []"
    and "\<exists>r \<in> set t. is_reserve r \<and> reservation_id r = rid"
  shows "active_reservation t' rid = Inl ReservationAlreadyClosed"
proof -
  obtain us where t': "t' = t @ us" using history_appends assms(1,2) by blast
  have "filter (\<lambda>r. is_reserve r \<and> reservation_id r = rid) t' \<noteq> []"
    using assms(4) t' by (auto simp: filter_empty_conv)
  moreover have "terminals_of t' rid \<noteq> []" using assms(3) t' by (simp add: terminals_of_append)
  ultimately show ?thesis by (auto simp: active_reservation_def split: list.splits)
qed

text \<open>Rounding each component up costs at most one microdollar more than rounding their sum.\<close>

lemma div_superadd: "0 < n \<Longrightarrow> a div n + b div n \<le> (a + b) div (n::int)"
  by (simp add: div_add1_eq [of a b n] pos_imp_zdiv_nonneg_iff)

lemma ceil_rate_add: "ceil_rate a r + ceil_rate b r \<le> ceil_rate (a + b) r + 1"
proof -
  let ?N = "1000000 :: int"
  have "(a * r + ?N - 1) div ?N + (b * r + ?N - 1) div ?N \<le> (a * r + ?N - 1 + (b * r + ?N - 1)) div ?N"
    by (rule div_superadd) simp
  also have "\<dots> \<le> ((a + b) * r + ?N - 1 + ?N) div ?N"
    by (rule zdiv_mono1) (simp_all add: algebra_simps)
  also have "\<dots> = ((a + b) * r + ?N - 1) div ?N + 1" by simp
  finally show ?thesis by (simp add: ceil_rate_def TOKENS_PER_MILLION_def Let_def)
qed

lemma ceil_rate_mono_tokens: "a \<le> b \<Longrightarrow> 0 \<le> r \<Longrightarrow> ceil_rate a r \<le> ceil_rate b r"
  unfolding ceil_rate_def TOKENS_PER_MILLION_def Let_def
  by (rule zdiv_mono1) (auto intro: mult_right_mono)

lemma ceil_rate_mono_rate: "r \<le> s \<Longrightarrow> 0 \<le> a \<Longrightarrow> ceil_rate a r \<le> ceil_rate a s"
  unfolding ceil_rate_def TOKENS_PER_MILLION_def Let_def
  by (rule zdiv_mono1) (auto intro: mult_left_mono)

lemma quote_in_bounds:
  assumes "quote_usage p (PyInt i) (PyInt out) (PyInt c) = Inr charged"
    and "quote_usage q (PyInt max_in) (PyInt max_out) (PyInt 0) = Inr reserved"
    and "input_rate p = input_rate q" "output_rate p = output_rate q" "cached_rate p = cached_rate q"
    and "i \<le> max_in" "out \<le> max_out" "cached_rate q \<le> input_rate q"
    and "0 \<le> input_rate q" "0 \<le> output_rate q"
  shows "charged \<le> reserved + 1"
proof -
  have c: "0 \<le> c" "c \<le> i"
    "charged = ceil_rate (i - c) (input_rate q) + ceil_rate c (cached_rate q) + ceil_rate out (output_rate q)"
    using assms(1,3-5) by (auto simp: quote_usage_def Let_def split: if_splits)
  have "ceil_rate 0 (cached_rate q) = 0" by (simp add: ceil_rate_def TOKENS_PER_MILLION_def)
  then have r: "reserved = ceil_rate max_in (input_rate q) + ceil_rate max_out (output_rate q)"
    using assms(2) by (auto simp: quote_usage_def Let_def split: if_splits)
  have "ceil_rate c (cached_rate q) \<le> ceil_rate c (input_rate q)"
    using assms(8) c(1) by (rule ceil_rate_mono_rate)
  moreover have "ceil_rate (i - c) (input_rate q) + ceil_rate c (input_rate q) \<le> ceil_rate i (input_rate q) + 1"
    using ceil_rate_add [of "i - c" "input_rate q" c] by simp
  moreover have "ceil_rate i (input_rate q) \<le> ceil_rate max_in (input_rate q)"
    using assms(6,9) by (rule ceil_rate_mono_tokens)
  moreover have "ceil_rate out (output_rate q) \<le> ceil_rate max_out (output_rate q)"
    using assms(7,10) by (rule ceil_rate_mono_tokens)
  ultimately show ?thesis using c(3) r by simp
qed

section \<open>A sample ledger\<close>

definition sample_policy :: pricing_policy where
  "sample_policy = \<lparr>pp_provider = ''moonshot'', pp_model = ''kimi'', pp_version = ''v1'',
     effective_from = 738000, effective_until = None, input_rate = 1000001, output_rate = 3000000,
     cached_input_rate = Some 1000001\<rparr>"

definition sample_config :: ledger_config where
  "sample_config = \<lparr>hard_limit = 3, quotas = [((''moonshot'', ''kimi''), 2)],
     warning_thresholds = [1, 2], daily_limit = Some 3\<rparr>"

definition sample_env :: "string \<Rightarrow> budget_env" where
  "sample_env k = \<lparr>clock = 63800000000000000, switch_before = SwitchAbsent,
     switch_locked = SwitchAbsent, fresh_reservation_id = ''r'' @ k, fresh_event_id = ''e'' @ k\<rparr>"

definition sample_args :: "string \<Rightarrow> reserve_args" where
  "sample_args key = \<lparr>ra_provider = ''moonshot'', ra_model = ''kimi'', ra_request_key = key,
     ra_worst_case = PyInt 3, ra_policy = sample_policy, ra_now = None, ra_details = None\<rparr>"

text \<open>One reservation of two input tokens, then its settlement with one of them cached.\<close>

definition sample_reserved :: "reservation \<times> table" where
  "sample_reserved =
     projr (reserve_for_tokens sample_config (sample_env ''1'') [] (sample_args ''k'')
        (PyInt 2) (PyInt 0) (PyInt 0))"

definition sample_settled :: "settlement \<times> table" where
  "sample_settled =
     projr (settle (sample_env ''2'') (snd sample_reserved) ''r1'' (PyInt 2) (PyInt 0) (PyInt 1) None None)"

lemma sample_values:
  "res_id (fst sample_reserved) = ''r1''" "reserved_microdollars (fst sample_reserved) = 3"
  "charged_microdollars (fst sample_settled) = 4"
  by code_simp+

lemma sample_facts:
  "reserve_for_tokens sample_config (sample_env ''1'') [] (sample_args ''k'') (PyInt 2) (PyInt 0) (PyInt 0)
     = Inr sample_reserved"
  "settle (sample_env ''2'') (snd sample_reserved) ''r1'' (PyInt 2) (PyInt 0) (PyInt 1) None None
     = Inr sample_settled"
proof -
  have "is_ok (reserve_for_tokens sample_config (sample_env ''1'') [] (sample_args ''k'') (PyInt 2) (PyInt 0) (PyInt 0))"
    by code_simp
  then show "reserve_for_tokens sample_config (sample_env ''1'') [] (sample_args ''k'') (PyInt 2) (PyInt 0) (PyInt 0)
     = Inr sample_reserved"
    unfolding sample_reserved_def by (auto simp: is_ok_iff)
  have "is_ok (settle (sample_env ''2'') (snd sample_reserved) ''r1'' (PyInt 2) (PyInt 0) (PyInt 1) None None)"
    by code_simp
  then show "settle (sample_env ''2'') (snd sample_reserved) ''r1'' (PyInt 2) (PyInt 0) (PyInt 1) None None
     = Inr sample_settled"
    unfolding sample_settled_def by (auto simp: is_ok_iff)
qed

lemma sample_now: "normalize_now (ra_now (sample_args k)) (clock (sample_env j)) = Inr 63800000000000000"
  by (simp add: normalize_now_def sample_args_def sample_env_def)

lemma sample_reserve:
  "reserve sample_config (sample_env ''1'') [] (sample_args ''k'') = Inr sample_reserved"
proof -
  have "quote_usage (ra_policy (sample_args ''k'')) (PyInt 2) (PyInt 0) (PyInt 0) = Inr 3" by code_simp
  moreover have "(sample_args ''k'')\<lparr>ra_worst_case := PyInt 3\<rparr> = sample_args ''k''"
    by (simp add: sample_args_def)
  ultimately show ?thesis using sample_facts(1) by (simp add: reserve_for_tokens_def)
qed

lemma sample_history_reserved: "ledger_history sample_config [] (snd sample_reserved)"
  by (rule r_into_rtranclp, rule reserves [of _ "sample_env ''1''" _ "sample_args ''k''" "fst sample_reserved"])
    (simp_all add: sample_reserve)

lemma sample_history_settled: "ledger_history sample_config [] (snd sample_settled)"
  using sample_history_reserved
proof (rule rtranclp.rtrancl_into_rtrancl)
  show "ledger_step sample_config (snd sample_reserved) (snd sample_settled)"
    by (rule settles [of "sample_env ''2''" _ "''r1''" "PyInt 2" "PyInt 0" "PyInt 1" None None "fst sample_settled"])
      (simp add: sample_facts(2))
qed

section \<open>Properties\<close>

text \<open>
  C4: After any history of transactions, the recorded spend of a month (settled charges plus open
  reservations) exceeds the hard limit by no more than what settlements charged above their own
  reservations: the reservations alone never break the limit, whatever their order and months.
\<close>

theorem monthly_cap:
  assumes "ledger_history cfg [] t" and "0 \<le> hard_limit cfg"
  shows "fst (spend_parts t m) + snd (spend_parts t m) \<le> hard_limit cfg + overrun_on (of_month m) t"
  using history_caps(1) [OF assms] inv_history [OF assms(1) ledger_inv_Nil]
  by (simp add: spend_parts_effective)

lemma monthly_cap_witness:
  "fst (spend_parts (snd sample_settled) ''2022-09'') + snd (spend_parts (snd sample_settled) ''2022-09'')
     \<le> hard_limit sample_config + overrun_on (of_month ''2022-09'') (snd sample_settled)"
  using monthly_cap [OF sample_history_settled] by (simp add: sample_config_def)

text \<open>
  The same for the daily limit: every day's spend, by the day its reservations were made, stays
  within the daily limit plus the overruns of that day's own settlements.
\<close>

lemma daily_cap:
  assumes "ledger_history cfg [] t" and "daily_limit cfg = Some d" and "0 \<le> d"
  shows "day_effective_spend t day \<le> d + overrun_on (of_day day) t"
  using history_caps(2) [OF assms] inv_history [OF assms(1) ledger_inv_Nil]
  by (simp add: day_spend_effective)

lemma daily_cap_witness:
  "day_effective_spend (snd sample_settled) ''2022-09-28'' \<le> 3 + overrun_on (of_day ''2022-09-28'') (snd sample_settled)"
  by (rule daily_cap [OF sample_history_settled]) (simp_all add: sample_config_def)

text \<open>
  After any history, no provider and model pair has more reservations in a month than its
  configured quota, and a pair without a quota has none at all.
\<close>

lemma call_quota:
  assumes "ledger_history cfg [] t"
  shows "call_count t m p k \<le> (case map_of (quotas cfg) (p, k) of Some q \<Rightarrow> max 0 q | None \<Rightarrow> 0)"
  using assms by (rule history_quota)

lemma call_quota_witness: "call_count (snd sample_settled) ''2022-09'' ''moonshot'' ''kimi'' \<le> 2"
  using call_quota [OF sample_history_settled, of "''2022-09''" "''moonshot''" "''kimi''"]
  by (simp add: sample_config_def)

text \<open>
  C34: The ledger is an append-only log in which a reservation is closed once: after a settlement
  commits, every later table extends the one it left, and every further attempt to settle that
  reservation, in any later state and with any usage, fails with \<open>ReservationAlreadyClosed\<close>.
\<close>

theorem settled_once:
  assumes "ledger_history cfg [] t"
    and "settle env t rid i out c now details = Inr (s, t1)"
    and "ledger_history cfg t1 t2"
    and "normalize_now now' (clock env') = Inr instant"
  shows "(\<exists>us. t2 = t1 @ us) \<and>
    settle env' t2 rid i' out' c' now' details' = Inl ReservationAlreadyClosed"
proof -
  have inv: "ledger_inv t1"
    using inv_close [OF inv_history [OF assms(1) ledger_inv_Nil] settle_result [OF assms(2)]] by simp
  have rid: "rid \<noteq> []" using assms(2) by (auto simp: settle_def close_reservation_def)
  have "terminals_of t1 rid \<noteq> [] \<and> (\<exists>r \<in> set t1. is_reserve r \<and> reservation_id r = rid)"
    using settle_result [OF assms(2)]
  proof (rule close_appends)
    fix instant r v d
    let ?u = "terminal_row (fresh_event_id env) Settle instant r (charged_microdollars s) v i out c d"
    assume act: "active_reservation t rid = Inr r" and t1: "t1 = t @ [?u]"
    from active_reservation_Inr [OF act] terminal_row_kind [of Settle] t1
    show "terminals_of t1 rid \<noteq> [] \<and> (\<exists>r \<in> set t1. is_reserve r \<and> reservation_id r = rid)"
      by (auto simp: terminals_of_def)
  qed
  with closed_stays_closed [OF assms(3) inv]
  have "active_reservation t2 rid = Inl ReservationAlreadyClosed" by blast
  with rid assms(4) history_appends [OF assms(3) inv] show ?thesis
    by (auto simp: settle_def close_reservation_def)
qed

lemma settled_once_witness:
  "settle (sample_env ''3'') (snd sample_settled) ''r1'' (PyInt 1) (PyInt 0) (PyInt 0) None None
     = Inl ReservationAlreadyClosed"
  using settled_once [OF sample_history_reserved, of "sample_env ''2''" "''r1''" "PyInt 2" "PyInt 0"
      "PyInt 1" None None "fst sample_settled" "snd sample_settled" "snd sample_settled" None "sample_env ''3''"]
  by (simp add: sample_facts(2) normalize_now_def)




text \<open>
  C35: Reconciling always succeeds on a reachable ledger with fresh event identifiers, closes
  exactly the open reservations that are old enough, leaves none of them open, and changes no
  month's spend: an abandoned reservation is charged in full.
\<close>

theorem reconcile_complete:
  assumes "ledger_history cfg [] t"
    and "normalize_now now (clock env) = Inr instant" and "0 \<le> older" and "0 \<le> instant - older"
    and "inj eids" and "\<forall>k. eids k \<notin> set (map event_id t)"
  shows "\<exists>ss t'. reconcile_abandoned env eids t older now = Inr (ss, t') \<and>
    map set_reservation_id ss =
      map reservation_id (filter (\<lambda>r. is_reserve r \<and> terminals_of t (reservation_id r) = [] \<and>
        occurred_at_utc r \<le> isoformat (instant - older)) t) \<and>
    stale_reservations t' (isoformat (instant - older)) = [] \<and>
    (\<forall>m. fst (spend_parts t' m) + snd (spend_parts t' m) = fst (spend_parts t m) + snd (spend_parts t m))"
proof -
  let ?cut = "isoformat (instant - older)"
  let ?rs = "stale_reservations t ?cut"
  have inv: "ledger_inv t" using assms(1) by (rule inv_history) (rule ledger_inv_Nil)
  note eq = stale_reservations_eq [OF inv, of ?cut]
  have sub: "set ?rs \<subseteq> {r \<in> set t. is_reserve r}" using stale_sub [OF inv] by blast
  have "distinct (map reservation_id (filter is_reserve t))" using inv by (simp add: ledger_inv_def)
  then have dist: "distinct (map reservation_id ?rs)"
    unfolding eq by (auto simp: distinct_map inj_on_def distinct_filter conj_commute
        dest: distinct_filter simp flip: filter_filter)
  have none: "\<forall>r \<in> set ?rs. terminals_of t (reservation_id r) = []" using stale_sub [OF inv] by blast
  obtain ss t' where rec: "reconcile_rows eids 0 instant (stale_details ?cut) t ?rs = Inr (ss, t')"
    using reconcile_rows_total [OF inv sub dist none assms(5), of 0] assms(6) by blast
  note acc = reconcile_rows_account [OF rec inv sub]
  then obtain us where us: "t' = t @ us" "list_all is_terminal us"
    "map reservation_id us = map reservation_id ?rs" by blast
  have "stale_reservations t' ?cut = []"
  proof -
    have "\<not> (is_reserve r \<and> terminals_of t' (reservation_id r) = [] \<and> occurred_at_utc r \<le> ?cut)"
      if "r \<in> set t'" for r
    proof
      assume r: "is_reserve r \<and> terminals_of t' (reservation_id r) = [] \<and> occurred_at_utc r \<le> ?cut"
      with that us(1,2) reserve_not_terminal have "r \<in> set t" by (auto simp: list_all_iff)
      with r us(1) have "r \<in> set ?rs" by (simp add: eq terminals_of_append)
      then have "reservation_id r \<in> set (map reservation_id us)" using us(3) by simp
      with us(1,2) r show False
        by (auto simp: terminals_of_append list_all_iff) (auto simp: terminals_of_def filter_empty_conv)
    qed
    with acc show ?thesis by (simp add: stale_reservations_eq filter_empty_conv)
  qed
  with acc rec assms(2-4) inv show ?thesis
    by (auto simp: reconcile_abandoned_def Let_def spend_parts_effective eq)
qed

lemma reconcile_complete_witness:
  "\<exists>ss t'. reconcile_abandoned (sample_env ''4'') (\<lambda>k. replicate k CHR ''x'') (snd sample_reserved) 0 None
       = Inr (ss, t') \<and> map set_reservation_id ss = [''r1'']"
proof -
  have "map event_id (snd sample_reserved) = [''e1'']" by code_simp
  then have fresh: "\<forall>k. replicate k CHR ''x'' \<notin> set (map event_id (snd sample_reserved))"
    by (auto simp: eq_commute [of "replicate _ _" "''e1''"] Cons_replicate_eq)
  have open_now: "map reservation_id (filter (\<lambda>r. is_reserve r \<and>
      terminals_of (snd sample_reserved) (reservation_id r) = [] \<and>
      occurred_at_utc r \<le> isoformat (63800000000000000 - 0)) (snd sample_reserved)) = [''r1'']"
    by code_simp
  have "inj (\<lambda>k. replicate k CHR ''x'')" by (rule injI) (metis length_replicate)
  from reconcile_complete [OF sample_history_reserved _ _ _ this fresh,
      of None "sample_env ''4''" 63800000000000000 0] open_now
  show ?thesis by (auto simp: normalize_now_def sample_env_def)
qed

text \<open>
  The status report is exact for the next reservation: one that commits at the instant reported
  fits in the reported remaining budget, lowers it by the reserved amount and raises the effective
  spend by it; the report itself never shows more remaining than the limit leaves.
\<close>

theorem status_predicts_reserve:
  assumes "ledger_history cfg [] t"
    and "reserve cfg env t a = Inr (res, t')"
    and "fresh_reservation_id env \<notin> set (map reservation_id t)"
    and "normalize_now (ra_now a) (clock env) = Inr instant"
  shows "reserved_microdollars res \<le> st_remaining (status cfg t instant) \<and>
    st_remaining (status cfg t' instant) = st_remaining (status cfg t instant) - reserved_microdollars res \<and>
    st_effective (status cfg t' instant) = st_effective (status cfg t instant) + reserved_microdollars res \<and>
    (st_level (status cfg t' instant) = LevelExhausted \<longleftrightarrow> st_remaining (status cfg t' instant) = 0)"
proof -
  have inv: "ledger_inv t" using assms(1) by (rule inv_history) (rule ledger_inv_Nil)
  have inv': "ledger_inv t'" using inv assms(2,3) by (rule inv_reserve)
  have st: "st_effective (status cfg u instant) = effective_on (of_month (month_string instant)) u"
    "st_remaining (status cfg u instant) = max 0 (hard_limit cfg - effective_on (of_month (month_string instant)) u)"
    "st_level (status cfg u instant) = LevelExhausted \<longleftrightarrow>
       hard_limit cfg \<le> effective_on (of_month (month_string instant)) u"
    if "ledger_inv u" for u
    using spend_parts_effective [OF that, of "month_string instant"]
    by (auto simp: status_def Let_def split: prod.splits if_splits)
  from inv assms(2,3) show ?thesis
    by (rule reserve_account) (use assms(4) st [OF inv] st [OF inv'] in auto)
qed

lemma status_predicts_reserve_witness:
  "st_remaining (status sample_config (snd sample_reserved) 63800000000000000) =
     st_remaining (status sample_config [] 63800000000000000) - 3"
  using status_predicts_reserve [OF rtranclp.rtrancl_refl, of sample_config "sample_env ''1''" "sample_args ''k''"
      "fst sample_reserved" "snd sample_reserved" 63800000000000000]
  by (simp add: sample_reserve sample_values sample_now)

end
