(* ===== verification/Models.thy ===== *)
theory Models
  imports Canonical PyTime
begin

text \<open>
  The wire contracts of \<open>src/iou_ai/models.py\<close>: a record for each class, an enumeration for each
  \<open>Enum\<close>, and a predicate \<open>valid_<class>\<close> with the declared constraints of its fields and its
  \<open>model_validator\<close>, so that the class accepts a document exactly when the predicate holds of it.
  The \<open>dump_<class>\<close> functions are \<open>model_dump(mode="json")\<close>, which every digest is taken of.  A
  field whose type is a single literal is left out of the record when no code reads it.
\<close>

section \<open>Field types\<close>

definition is_tail_char :: "char \<Rightarrow> bool" where
  "is_tail_char c \<longleftrightarrow> is_lower c \<or> is_digit c \<or> c \<in> set ''._:-''"

definition is_identifier_text :: "string \<Rightarrow> bool" where
  "is_identifier_text s \<longleftrightarrow>
     (case s of [] \<Rightarrow> False | c # cs \<Rightarrow> (is_lower c \<or> is_digit c) \<and> list_all is_tail_char cs)"

definition is_Identifier :: "string \<Rightarrow> bool" where
  "is_Identifier s \<longleftrightarrow> length s \<le> 96 \<and> is_identifier_text s"

definition is_upper :: "char \<Rightarrow> bool" where
  "is_upper c \<longleftrightarrow> c \<in> set ''ABCDEFGHIJKLMNOPQRSTUVWXYZ''"

definition is_ProviderResponseId :: "string \<Rightarrow> bool" where
  "is_ProviderResponseId s \<longleftrightarrow> length s \<le> 128 \<and>
     (case s of [] \<Rightarrow> False
      | c # cs \<Rightarrow> (is_upper c \<or> is_lower c \<or> is_digit c) \<and>
          list_all (\<lambda>c. is_upper c \<or> is_tail_char c) cs)"

definition is_symbol_char :: "char \<Rightarrow> bool" where
  "is_symbol_char c \<longleftrightarrow> is_lower c \<or> is_digit c \<or> c = CHR ''_''"

definition is_Symbol :: "string \<Rightarrow> bool" where
  "is_Symbol s \<longleftrightarrow> length s \<le> 80 \<and>
     (case s of [] \<Rightarrow> False | c # cs \<Rightarrow> is_lower c \<and> list_all is_symbol_char cs)"

text \<open>The pattern \<open>^(?:|[a-z][a-z0-9_]*)$\<close> with at most 80 characters.\<close>

definition is_OptionalSymbol :: "string \<Rightarrow> bool" where
  "is_OptionalSymbol s \<longleftrightarrow> s = [] \<or> is_Symbol s"

abbreviation is_Digest :: "string \<Rightarrow> bool" where
  "is_Digest \<equiv> is_digest"

definition matches_template :: "string \<Rightarrow> string \<Rightarrow> bool" where
  "matches_template p s \<longleftrightarrow>
     list_all2 (\<lambda>p c. if p = CHR ''d'' then is_digit c else c = p) p s"

definition is_zone :: "string \<Rightarrow> bool" where
  "is_zone s \<longleftrightarrow> s = ''Z'' \<or> matches_template ''+dd:dd'' s \<or> matches_template ''-dd:dd'' s"

definition is_Timestamp :: "string \<Rightarrow> bool" where
  "is_Timestamp s \<longleftrightarrow> 20 \<le> length s \<and> length s \<le> 35 \<and>
     matches_template ''dddd-dd-ddTdd:dd:dd'' (take 19 s) \<and>
     (let rest = drop 19 s in
      is_zone rest \<or>
      (take 1 rest = ''.'' \<and>
       list_ex (\<lambda>n. length (take n (drop 1 rest)) = n \<and> list_all is_digit (take n (drop 1 rest)) \<and>
         is_zone (drop (n + 1) rest)) [1, 2, 3, 4, 5, 6]))"

definition is_ShortText :: "string \<Rightarrow> bool" where
  "is_ShortText s \<longleftrightarrow> 1 \<le> length s \<and> length s \<le> 240"

definition is_SummaryText :: "string \<Rightarrow> bool" where
  "is_SummaryText s \<longleftrightarrow> 1 \<le> length s \<and> length s \<le> 800"

definition is_EvidenceRef :: "string \<Rightarrow> bool" where
  "is_EvidenceRef s \<longleftrightarrow> length s \<le> 96 \<and> take 9 s = ''evidence:'' \<and> is_identifier_text (drop 9 s)"

definition is_ppm :: "int \<Rightarrow> bool" where
  "is_ppm i \<longleftrightarrow> 0 \<le> i \<and> i \<le> 1000000"

definition len_between :: "nat \<Rightarrow> nat \<Rightarrow> 'a list \<Rightarrow> bool" where
  "len_between lo hi xs \<longleftrightarrow> lo \<le> length xs \<and> length xs \<le> hi"

section \<open>Sanitized text\<close>

text \<open>
  \<open>casefold()\<close> on code points below 256, up to characters no forbidden fragment contains: ASCII
  letters are lowered and the sharp s becomes two letters.
\<close>

definition casefold_char :: "char \<Rightarrow> string" where
  "casefold_char c =
     (if c = CHR 0xDF then ''ss''
      else case map_of (zip ''ABCDEFGHIJKLMNOPQRSTUVWXYZ'' ''abcdefghijklmnopqrstuvwxyz'') c of
             None \<Rightarrow> [c]
           | Some l \<Rightarrow> [l])"

definition casefold :: "string \<Rightarrow> string" where
  "casefold s = concat (map casefold_char s)"

definition FORBIDDEN_TEXT_FRAGMENTS :: "string list" where
  "FORBIDDEN_TEXT_FRAGMENTS =
     [''-----begin private key-----'', ''authorization: bearer'', ''x-api-key:'', ''api_key='',
      ''password='', ''passwd='', ''ssh-rsa '', ''ssh-ed25519 '', ''#!/bin/'', ''powershell -'',
      ''sh -c '', ''bash -c '']"

definition is_stripped :: "string \<Rightarrow> bool" where
  "is_stripped s \<longleftrightarrow> s = [] \<or> (\<not> is_space (hd s) \<and> \<not> is_space (last s))"

definition sanitized_text :: "string \<Rightarrow> bool" where
  "sanitized_text s \<longleftrightarrow>
     is_stripped s \<and>
     \<not> (CHR 0x0A \<in> set s \<or> CHR 0x0D \<in> set s \<or> CHR 0x00 \<in> set s) \<and>
     (let lowered = casefold s
      in \<not> list_ex (\<lambda>fragment. str_contains fragment lowered) FORBIDDEN_TEXT_FRAGMENTS)"

definition short_sanitized :: "string \<Rightarrow> bool" where
  "short_sanitized s \<longleftrightarrow> is_ShortText s \<and> sanitized_text s"

definition summary_sanitized :: "string \<Rightarrow> bool" where
  "summary_sanitized s \<longleftrightarrow> is_SummaryText s \<and> sanitized_text s"

section \<open>Enumerations\<close>

datatype lane_kind = STABLE_COVERAGE | PROBABILISTIC_RACE

datatype evidence_kind =
  COVERAGE_DELTA | CORPUS_SHAPE | OUTCOME_CLASS | RACE_SIGNAL | STALL_SIGNAL | PRIOR_PROPOSAL
| KERNEL_PATCH | MAIL_THREAD

datatype outcome_kind = NO_CHANGE | COVERAGE_GAIN | NOVEL_OUTCOME | UNSTABLE | REJECTED | NOT_RUN

datatype argument_kind = ARG_INTEGER | ARG_BOOLEAN | ARG_SYMBOL | ARG_RESOURCE

datatype link_mode = LINK_NONE | LINK_LINK | LINK_HARD | LINK_DRAIN

datatype verdict_kind = ACCEPT | REJECT | ESCALATE

datatype finding_severity = SEV_CRITICAL | SEV_HIGH | SEV_MEDIUM | SEV_LOW | SEV_INFO

datatype finding_category =
  SEMANTIC | SAFETY | HARNESS_MISMATCH | EVIDENCE_GAP | PRIVACY | DETERMINISM | BUDGET | SCOPE

datatype residual_risk = RISK_LOW | RISK_MEDIUM | RISK_HIGH | RISK_CRITICAL

datatype harness_environment = PRODUCTION | MOCK | TEST

datatype harness_argument_kind = HARG_INTEGER | HARG_BOOLEAN | HARG_ENUM | HARG_RESOURCE

datatype byte_order = LITTLE | BIG | NOT_APPLICABLE

datatype resource_lifetime = PROGRAM | STEP

datatype provider_role = PLANNER | REVIEWER | AUDITOR

text \<open>The wire value of a member is its JSON form.\<close>

fun lane_value :: "lane_kind \<Rightarrow> string" where
  "lane_value STABLE_COVERAGE = ''stable_coverage''"
| "lane_value PROBABILISTIC_RACE = ''probabilistic_race''"

fun argument_kind_value :: "argument_kind \<Rightarrow> string" where
  "argument_kind_value ARG_INTEGER = ''integer''"
| "argument_kind_value ARG_BOOLEAN = ''boolean''"
| "argument_kind_value ARG_SYMBOL = ''symbol''"
| "argument_kind_value ARG_RESOURCE = ''resource''"

fun link_value :: "link_mode \<Rightarrow> string" where
  "link_value LINK_NONE = ''none''"
| "link_value LINK_LINK = ''link''"
| "link_value LINK_HARD = ''hard_link''"
| "link_value LINK_DRAIN = ''drain''"

fun verdict_value :: "verdict_kind \<Rightarrow> string" where
  "verdict_value ACCEPT = ''accept''"
| "verdict_value REJECT = ''reject''"
| "verdict_value ESCALATE = ''escalate''"

fun severity_value :: "finding_severity \<Rightarrow> string" where
  "severity_value SEV_CRITICAL = ''critical''"
| "severity_value SEV_HIGH = ''high''"
| "severity_value SEV_MEDIUM = ''medium''"
| "severity_value SEV_LOW = ''low''"
| "severity_value SEV_INFO = ''info''"

fun category_value :: "finding_category \<Rightarrow> string" where
  "category_value SEMANTIC = ''semantic''"
| "category_value SAFETY = ''safety''"
| "category_value HARNESS_MISMATCH = ''harness_mismatch''"
| "category_value EVIDENCE_GAP = ''evidence_gap''"
| "category_value PRIVACY = ''privacy''"
| "category_value DETERMINISM = ''determinism''"
| "category_value BUDGET = ''budget''"
| "category_value SCOPE = ''scope''"

fun risk_value :: "residual_risk \<Rightarrow> string" where
  "risk_value RISK_LOW = ''low''"
| "risk_value RISK_MEDIUM = ''medium''"
| "risk_value RISK_HIGH = ''high''"
| "risk_value RISK_CRITICAL = ''critical''"

fun environment_value :: "harness_environment \<Rightarrow> string" where
  "environment_value PRODUCTION = ''production''"
| "environment_value MOCK = ''mock''"
| "environment_value TEST = ''test''"

fun harness_argument_value :: "harness_argument_kind \<Rightarrow> string" where
  "harness_argument_value HARG_INTEGER = ''integer''"
| "harness_argument_value HARG_BOOLEAN = ''boolean''"
| "harness_argument_value HARG_ENUM = ''enum''"
| "harness_argument_value HARG_RESOURCE = ''resource''"

fun byte_order_value :: "byte_order \<Rightarrow> string" where
  "byte_order_value LITTLE = ''little''"
| "byte_order_value BIG = ''big''"
| "byte_order_value NOT_APPLICABLE = ''not_applicable''"

fun lifetime_value :: "resource_lifetime \<Rightarrow> string" where
  "lifetime_value PROGRAM = ''program''"
| "lifetime_value STEP = ''step''"

fun role_value :: "provider_role \<Rightarrow> string" where
  "role_value PLANNER = ''planner''"
| "role_value REVIEWER = ''reviewer''"
| "role_value AUDITOR = ''auditor''"

fun evidence_kind_value :: "evidence_kind \<Rightarrow> string" where
  "evidence_kind_value COVERAGE_DELTA = ''coverage_delta''"
| "evidence_kind_value CORPUS_SHAPE = ''corpus_shape''"
| "evidence_kind_value OUTCOME_CLASS = ''outcome_class''"
| "evidence_kind_value RACE_SIGNAL = ''race_signal''"
| "evidence_kind_value STALL_SIGNAL = ''stall_signal''"
| "evidence_kind_value PRIOR_PROPOSAL = ''prior_proposal''"
| "evidence_kind_value KERNEL_PATCH = ''kernel_patch''"
| "evidence_kind_value MAIL_THREAD = ''mail_thread''"

fun outcome_value :: "outcome_kind \<Rightarrow> string" where
  "outcome_value NO_CHANGE = ''no_change''"
| "outcome_value COVERAGE_GAIN = ''coverage_gain''"
| "outcome_value NOVEL_OUTCOME = ''novel_outcome''"
| "outcome_value UNSTABLE = ''unstable''"
| "outcome_value REJECTED = ''rejected''"
| "outcome_value NOT_RUN = ''not_run''"

abbreviation strs :: "string list \<Rightarrow> json" where
  "strs xs \<equiv> JList (map JStr xs)"

section \<open>Telemetry\<close>

record target_hashes =
  harness_hash :: string
  compiler_hash :: string
  op_table_hash :: string
  fleet_config_hash :: string

definition valid_target_hashes :: "target_hashes \<Rightarrow> bool" where
  "valid_target_hashes t \<longleftrightarrow> is_Digest (harness_hash t) \<and> is_Digest (compiler_hash t) \<and>
     is_Digest (op_table_hash t) \<and> is_Digest (fleet_config_hash t)"

definition dump_target_hashes :: "target_hashes \<Rightarrow> json" where
  "dump_target_hashes t =
     JObj [(''harness_hash'', JStr (harness_hash t)), (''compiler_hash'', JStr (compiler_hash t)),
           (''op_table_hash'', JStr (op_table_hash t)),
           (''fleet_config_hash'', JStr (fleet_config_hash t))]"

text \<open>\<open>ExternalizationPolicy\<close>: every field but the version is a literal.\<close>

record externalization_policy =
  redaction_version :: string

definition valid_externalization :: "externalization_policy \<Rightarrow> bool" where
  "valid_externalization p \<longleftrightarrow> is_Identifier (redaction_version p)"

record telemetry_window =
  start_at :: string
  end_at :: string
  duration_seconds :: int

definition valid_window :: "telemetry_window \<Rightarrow> bool" where
  "valid_window w \<longleftrightarrow> is_Timestamp (start_at w) \<and> is_Timestamp (end_at w) \<and> 1 \<le> duration_seconds w"

record fleet_summary =
  workers_expected :: int
  fleet_workers_running :: int
  workers_stalled :: int
  fleet_executions_total :: int
  fleet_executions_per_second_milli :: int
  fleet_queue_entries :: int
  favored_entries :: int
  pending_entries :: int

definition workers_are_bounded :: "fleet_summary \<Rightarrow> bool" where
  "workers_are_bounded f \<longleftrightarrow>
     \<not> fleet_workers_running f + workers_stalled f > workers_expected f \<and>
     \<not> favored_entries f > fleet_queue_entries f \<and>
     \<not> pending_entries f > fleet_queue_entries f"

definition valid_fleet :: "fleet_summary \<Rightarrow> bool" where
  "valid_fleet f \<longleftrightarrow>
     1 \<le> workers_expected f \<and> 0 \<le> fleet_workers_running f \<and> 0 \<le> workers_stalled f \<and>
     0 \<le> fleet_executions_total f \<and> 0 \<le> fleet_executions_per_second_milli f \<and>
     0 \<le> fleet_queue_entries f \<and> 0 \<le> favored_entries f \<and> 0 \<le> pending_entries f \<and>
     workers_are_bounded f"

record coverage_summary =
  paths_total :: int
  cov_paths_new_in_window :: int
  edges_total :: int
  edges_new_in_window :: int
  bitmap_density_ppm :: int
  corpus_bytes_total :: int
  corpus_entry_bytes_p50 :: int
  corpus_entry_bytes_p95 :: int

definition valid_coverage :: "coverage_summary \<Rightarrow> bool" where
  "valid_coverage c \<longleftrightarrow>
     0 \<le> paths_total c \<and> 0 \<le> cov_paths_new_in_window c \<and> 0 \<le> edges_total c \<and>
     0 \<le> edges_new_in_window c \<and> is_ppm (bitmap_density_ppm c) \<and> 0 \<le> corpus_bytes_total c \<and>
     0 \<le> corpus_entry_bytes_p50 c \<and> 0 \<le> corpus_entry_bytes_p95 c"

record outcome_class_summary =
  outcome_class :: string
  oc_count :: int
  reproducible_count :: int

definition valid_outcome_class :: "outcome_class_summary \<Rightarrow> bool" where
  "valid_outcome_class c \<longleftrightarrow>
     is_Symbol (outcome_class c) \<and> 0 \<le> oc_count c \<and> 0 \<le> reproducible_count c \<and>
     \<not> reproducible_count c > oc_count c"

record lane_summary =
  ls_lane :: lane_kind
  lane_workers_running :: int
  lane_executions_total :: int
  lane_executions_per_second_milli :: int
  lane_queue_entries :: int
  lane_paths_new_in_window :: int
  novel_outcomes_in_window :: int
  timeout_count :: int
  instability_ppm :: int

definition valid_lane_summary :: "lane_summary \<Rightarrow> bool" where
  "valid_lane_summary l \<longleftrightarrow>
     0 \<le> lane_workers_running l \<and> 0 \<le> lane_executions_total l \<and>
     0 \<le> lane_executions_per_second_milli l \<and> 0 \<le> lane_queue_entries l \<and>
     0 \<le> lane_paths_new_in_window l \<and> 0 \<le> novel_outcomes_in_window l \<and> 0 \<le> timeout_count l \<and>
     is_ppm (instability_ppm l)"

record evidence_summary =
  ev_ref :: string
  ev_kind :: evidence_kind
  ev_summary :: string
  observation_count :: int

definition valid_evidence :: "evidence_summary \<Rightarrow> bool" where
  "valid_evidence e \<longleftrightarrow>
     is_EvidenceRef (ev_ref e) \<and> summary_sanitized (ev_summary e) \<and> 1 \<le> observation_count e"

record prior_outcome =
  po_proposal_id :: string
  po_outcome :: outcome_kind
  po_executions :: int
  po_paths_gained :: int
  po_novel_outcomes :: int
  po_summary :: string

definition valid_prior_outcome :: "prior_outcome \<Rightarrow> bool" where
  "valid_prior_outcome p \<longleftrightarrow>
     is_Identifier (po_proposal_id p) \<and> 0 \<le> po_executions p \<and> 0 \<le> po_paths_gained p \<and>
     0 \<le> po_novel_outcomes p \<and> short_sanitized (po_summary p)"

record telemetry_packet =
  tp_packet_id :: string
  tp_packet_hash :: string
  tp_generated_at :: string
  tp_fleet_id :: string
  tp_campaign_id :: string
  tp_kernel_release :: string
  tp_target_hashes :: target_hashes
  tp_window :: telemetry_window
  tp_fleet :: fleet_summary
  tp_coverage :: coverage_summary
  tp_lanes :: "lane_summary list"
  tp_outcome_classes :: "outcome_class_summary list"
  tp_evidence :: "evidence_summary list"
  tp_prior :: "prior_outcome list"
  tp_externalization :: externalization_policy

definition require_one_summary_per_lane :: "telemetry_packet \<Rightarrow> bool" where
  "require_one_summary_per_lane p \<longleftrightarrow>
     set (map ls_lane (tp_lanes p)) = {STABLE_COVERAGE, PROBABILISTIC_RACE} \<and>
     distinct (map ls_lane (tp_lanes p)) \<and>
     distinct (map ev_ref (tp_evidence p))"

definition valid_telemetry :: "telemetry_packet \<Rightarrow> bool" where
  "valid_telemetry p \<longleftrightarrow>
     is_Identifier (tp_packet_id p) \<and> is_Digest (tp_packet_hash p) \<and>
     is_Timestamp (tp_generated_at p) \<and> is_Identifier (tp_fleet_id p) \<and>
     is_Identifier (tp_campaign_id p) \<and> len_between 1 80 (tp_kernel_release p) \<and>
     sanitized_text (tp_kernel_release p) \<and> valid_target_hashes (tp_target_hashes p) \<and>
     valid_window (tp_window p) \<and> valid_fleet (tp_fleet p) \<and> valid_coverage (tp_coverage p) \<and>
     len_between 2 2 (tp_lanes p) \<and> list_all valid_lane_summary (tp_lanes p) \<and>
     len_between 0 24 (tp_outcome_classes p) \<and> list_all valid_outcome_class (tp_outcome_classes p) \<and>
     len_between 0 24 (tp_evidence p) \<and> list_all valid_evidence (tp_evidence p) \<and>
     len_between 0 12 (tp_prior p) \<and> list_all valid_prior_outcome (tp_prior p) \<and>
     valid_externalization (tp_externalization p) \<and>
     require_one_summary_per_lane p"

text \<open>
  \<open>model_dump(mode="json")\<close> without the key \<open>packet_hash\<close>: what the packet's own digest is taken of.
\<close>

definition dump_lane_summary :: "lane_summary \<Rightarrow> json" where
  "dump_lane_summary l =
     JObj [(''lane'', JStr (lane_value (ls_lane l))), (''workers_running'', JInt (lane_workers_running l)),
           (''executions_total'', JInt (lane_executions_total l)),
           (''executions_per_second_milli'', JInt (lane_executions_per_second_milli l)),
           (''queue_entries'', JInt (lane_queue_entries l)),
           (''paths_new_in_window'', JInt (lane_paths_new_in_window l)),
           (''novel_outcomes_in_window'', JInt (novel_outcomes_in_window l)),
           (''timeout_count'', JInt (timeout_count l)), (''instability_ppm'', JInt (instability_ppm l))]"

definition dump_fleet :: "fleet_summary \<Rightarrow> json" where
  "dump_fleet f =
     JObj [(''workers_expected'', JInt (workers_expected f)),
           (''workers_running'', JInt (fleet_workers_running f)),
           (''workers_stalled'', JInt (workers_stalled f)),
           (''executions_total'', JInt (fleet_executions_total f)),
           (''executions_per_second_milli'', JInt (fleet_executions_per_second_milli f)),
           (''queue_entries'', JInt (fleet_queue_entries f)),
           (''favored_entries'', JInt (favored_entries f)), (''pending_entries'', JInt (pending_entries f))]"

definition dump_coverage :: "coverage_summary \<Rightarrow> json" where
  "dump_coverage c =
     JObj [(''paths_total'', JInt (paths_total c)), (''paths_new_in_window'', JInt (cov_paths_new_in_window c)),
           (''edges_total'', JInt (edges_total c)), (''edges_new_in_window'', JInt (edges_new_in_window c)),
           (''bitmap_density_ppm'', JInt (bitmap_density_ppm c)),
           (''corpus_bytes_total'', JInt (corpus_bytes_total c)),
           (''corpus_entry_bytes_p50'', JInt (corpus_entry_bytes_p50 c)),
           (''corpus_entry_bytes_p95'', JInt (corpus_entry_bytes_p95 c))]"

definition dump_outcome_class :: "outcome_class_summary \<Rightarrow> json" where
  "dump_outcome_class c =
     JObj [(''outcome_class'', JStr (outcome_class c)), (''count'', JInt (oc_count c)),
           (''reproducible_count'', JInt (reproducible_count c))]"

definition dump_evidence :: "evidence_summary \<Rightarrow> json" where
  "dump_evidence e =
     JObj [(''evidence_ref'', JStr (ev_ref e)), (''kind'', JStr (evidence_kind_value (ev_kind e))),
           (''summary'', JStr (ev_summary e)), (''observation_count'', JInt (observation_count e))]"

definition dump_prior_outcome :: "prior_outcome \<Rightarrow> json" where
  "dump_prior_outcome p =
     JObj [(''proposal_id'', JStr (po_proposal_id p)), (''outcome'', JStr (outcome_value (po_outcome p))),
           (''executions'', JInt (po_executions p)), (''paths_gained'', JInt (po_paths_gained p)),
           (''novel_outcomes'', JInt (po_novel_outcomes p)), (''summary'', JStr (po_summary p))]"

definition dump_externalization :: "externalization_policy \<Rightarrow> json" where
  "dump_externalization p =
     JObj [(''redaction_version'', JStr (redaction_version p)), (''sanitized_for_external_api'', JBool True),
           (''contains_raw_logs'', JBool False), (''contains_seed_bytes'', JBool False),
           (''contains_source_code'', JBool False), (''contains_filesystem_paths'', JBool False),
           (''contains_usernames'', JBool False), (''contains_credentials'', JBool False),
           (''contains_crash_traces'', JBool False)]"

definition dump_packet_body :: "telemetry_packet \<Rightarrow> json" where
  "dump_packet_body p =
     JObj [(''schema_version'', JStr ''telemetry.v1''), (''packet_id'', JStr (tp_packet_id p)),
           (''generated_at'', JStr (tp_generated_at p)), (''fleet_id'', JStr (tp_fleet_id p)),
           (''campaign_id'', JStr (tp_campaign_id p)), (''kernel_release'', JStr (tp_kernel_release p)),
           (''target_hashes'', dump_target_hashes (tp_target_hashes p)),
           (''window'', JObj [(''start_at'', JStr (start_at (tp_window p))),
              (''end_at'', JStr (end_at (tp_window p))),
              (''duration_seconds'', JInt (duration_seconds (tp_window p)))]),
           (''fleet'', dump_fleet (tp_fleet p)), (''coverage'', dump_coverage (tp_coverage p)),
           (''lane_summaries'', JList (map dump_lane_summary (tp_lanes p))),
           (''outcome_classes'', JList (map dump_outcome_class (tp_outcome_classes p))),
           (''evidence'', JList (map dump_evidence (tp_evidence p))),
           (''prior_proposal_outcomes'', JList (map dump_prior_outcome (tp_prior p))),
           (''externalization'', dump_externalization (tp_externalization p))]"

section \<open>Proposals\<close>

record hypothesis =
  hy_claim :: string
  hy_evidence_refs :: "string list"
  hy_expected_signal :: string

definition valid_hypothesis :: "hypothesis \<Rightarrow> bool" where
  "valid_hypothesis h \<longleftrightarrow>
     summary_sanitized (hy_claim h) \<and> len_between 1 16 (hy_evidence_refs h) \<and>
     list_all is_EvidenceRef (hy_evidence_refs h) \<and> short_sanitized (hy_expected_signal h)"

definition dump_hypothesis :: "hypothesis \<Rightarrow> json" where
  "dump_hypothesis h =
     JObj [(''claim'', JStr (hy_claim h)), (''evidence_refs'', strs (hy_evidence_refs h)),
           (''expected_signal'', JStr (hy_expected_signal h))]"

record research_priority =
  rp_id :: string
  rp_rationale :: string
  rp_evidence_refs :: "string list"
  rp_operation_families :: "string list"
  rp_ring_profile_ids :: "string list"
  rp_preferred_lanes :: "lane_kind list"
  rp_expected_signal :: string
  rp_safety_notes :: "string list"

definition require_unique_references :: "research_priority \<Rightarrow> bool" where
  "require_unique_references r \<longleftrightarrow>
     distinct (rp_evidence_refs r) \<and> distinct (rp_operation_families r) \<and>
     distinct (rp_ring_profile_ids r) \<and> distinct (rp_preferred_lanes r)"

definition valid_research_priority :: "research_priority \<Rightarrow> bool" where
  "valid_research_priority r \<longleftrightarrow>
     is_Symbol (rp_id r) \<and> summary_sanitized (rp_rationale r) \<and>
     len_between 1 12 (rp_evidence_refs r) \<and> list_all is_EvidenceRef (rp_evidence_refs r) \<and>
     len_between 1 16 (rp_operation_families r) \<and> list_all is_Symbol (rp_operation_families r) \<and>
     len_between 1 8 (rp_ring_profile_ids r) \<and> list_all is_Symbol (rp_ring_profile_ids r) \<and>
     len_between 1 2 (rp_preferred_lanes r) \<and> short_sanitized (rp_expected_signal r) \<and>
     len_between 0 8 (rp_safety_notes r) \<and> list_all short_sanitized (rp_safety_notes r) \<and>
     require_unique_references r"

definition dump_research_priority :: "research_priority \<Rightarrow> json" where
  "dump_research_priority r =
     JObj [(''priority_id'', JStr (rp_id r)), (''rationale'', JStr (rp_rationale r)),
           (''evidence_refs'', strs (rp_evidence_refs r)),
           (''operation_families'', strs (rp_operation_families r)),
           (''ring_profile_ids'', strs (rp_ring_profile_ids r)),
           (''preferred_lanes'', strs (map lane_value (rp_preferred_lanes r))),
           (''expected_signal'', JStr (rp_expected_signal r)),
           (''safety_notes'', strs (rp_safety_notes r))]"

text \<open>Every kind keeps its value in one field and the others empty.\<close>

record symbolic_argument =
  sa_name :: string
  sa_kind :: argument_kind
  integer_value :: int
  boolean_value :: bool
  symbol_value :: string
  sa_resource_ref :: string

definition enforce_active_value :: "symbolic_argument \<Rightarrow> bool" where
  "enforce_active_value a =
     (case sa_kind a of
        ARG_INTEGER \<Rightarrow> \<not> (boolean_value a \<or> symbol_value a \<noteq> [] \<or> sa_resource_ref a \<noteq> [])
      | ARG_BOOLEAN \<Rightarrow> \<not> (integer_value a \<noteq> 0 \<or> symbol_value a \<noteq> [] \<or> sa_resource_ref a \<noteq> [])
      | ARG_SYMBOL \<Rightarrow>
          symbol_value a \<noteq> [] \<and> \<not> (integer_value a \<noteq> 0 \<or> boolean_value a \<or> sa_resource_ref a \<noteq> [])
      | ARG_RESOURCE \<Rightarrow>
          sa_resource_ref a \<noteq> [] \<and> \<not> (integer_value a \<noteq> 0 \<or> boolean_value a \<or> symbol_value a \<noteq> []))"

definition valid_argument :: "symbolic_argument \<Rightarrow> bool" where
  "valid_argument a \<longleftrightarrow>
     is_Symbol (sa_name a) \<and> is_OptionalSymbol (symbol_value a) \<and>
     is_OptionalSymbol (sa_resource_ref a) \<and> enforce_active_value a"

definition dump_argument :: "symbolic_argument \<Rightarrow> json" where
  "dump_argument a =
     JObj [(''name'', JStr (sa_name a)), (''kind'', JStr (argument_kind_value (sa_kind a))),
           (''integer_value'', JInt (integer_value a)), (''boolean_value'', JBool (boolean_value a)),
           (''symbol_value'', JStr (symbol_value a)), (''resource_ref'', JStr (sa_resource_ref a))]"

record resource_binding =
  rb_resource_ref :: string
  rb_resource_kind :: string
  rb_quantity :: int

definition valid_resource_binding :: "resource_binding \<Rightarrow> bool" where
  "valid_resource_binding r \<longleftrightarrow>
     is_Symbol (rb_resource_ref r) \<and> is_Symbol (rb_resource_kind r) \<and>
     1 \<le> rb_quantity r \<and> rb_quantity r \<le> 64"

definition dump_resource_binding :: "resource_binding \<Rightarrow> json" where
  "dump_resource_binding r =
     JObj [(''resource_ref'', JStr (rb_resource_ref r)), (''resource_kind'', JStr (rb_resource_kind r)),
           (''quantity'', JInt (rb_quantity r))]"

record symbolic_step =
  st_step_id :: string
  st_ordinal :: int
  st_operation :: string
  st_ring_ref :: string
  st_arguments :: "symbolic_argument list"
  st_flags :: "string list"
  st_link_mode :: link_mode
  st_expected :: "string list"

definition require_unique_argument_and_flag_names :: "symbolic_step \<Rightarrow> bool" where
  "require_unique_argument_and_flag_names s \<longleftrightarrow>
     distinct (map sa_name (st_arguments s)) \<and> distinct (st_flags s)"

definition valid_step :: "symbolic_step \<Rightarrow> bool" where
  "valid_step s \<longleftrightarrow>
     is_Symbol (st_step_id s) \<and> 0 \<le> st_ordinal s \<and> st_ordinal s \<le> 63 \<and>
     is_Symbol (st_operation s) \<and> is_Symbol (st_ring_ref s) \<and>
     len_between 0 16 (st_arguments s) \<and> list_all valid_argument (st_arguments s) \<and>
     len_between 0 16 (st_flags s) \<and> list_all is_Symbol (st_flags s) \<and>
     len_between 1 8 (st_expected s) \<and> list_all is_Symbol (st_expected s) \<and>
     require_unique_argument_and_flag_names s"

definition dump_step :: "symbolic_step \<Rightarrow> json" where
  "dump_step s =
     JObj [(''step_id'', JStr (st_step_id s)), (''ordinal'', JInt (st_ordinal s)),
           (''operation'', JStr (st_operation s)), (''ring_ref'', JStr (st_ring_ref s)),
           (''arguments'', JList (map dump_argument (st_arguments s))),
           (''flags'', strs (st_flags s)), (''link_mode'', JStr (link_value (st_link_mode s))),
           (''expected_result_classes'', strs (st_expected s))]"

record perturbation =
  pt_kind :: string
  pt_target_step_id :: string
  pt_magnitude :: int
  pt_rationale :: string

definition valid_perturbation :: "perturbation \<Rightarrow> bool" where
  "valid_perturbation p \<longleftrightarrow>
     is_Symbol (pt_kind p) \<and> is_Symbol (pt_target_step_id p) \<and> 0 \<le> pt_magnitude p \<and>
     pt_magnitude p \<le> 1000000 \<and> short_sanitized (pt_rationale p)"

definition dump_perturbation :: "perturbation \<Rightarrow> json" where
  "dump_perturbation p =
     JObj [(''kind'', JStr (pt_kind p)), (''target_step_id'', JStr (pt_target_step_id p)),
           (''magnitude'', JInt (pt_magnitude p)), (''rationale'', JStr (pt_rationale p))]"

record planner_program =
  pg_program_id :: string
  pg_objective :: string
  pg_lane :: lane_kind
  pg_ring_profile_id :: string
  pg_resources :: "resource_binding list"
  pg_steps :: "symbolic_step list"
  pg_perturbations :: "perturbation list"
  pg_requested_local_variants :: int
  pg_expected_signals :: "string list"
  pg_safety_notes :: "string list"

definition enforce_program_references :: "planner_program \<Rightarrow> bool" where
  "enforce_program_references p \<longleftrightarrow>
     distinct (map rb_resource_ref (pg_resources p)) \<and>
     distinct (map st_step_id (pg_steps p)) \<and>
     map st_ordinal (pg_steps p) = map int [0..<length (pg_steps p)] \<and>
     list_all (\<lambda>s. list_all (\<lambda>a.
         \<not> (sa_kind a = ARG_RESOURCE \<and> sa_resource_ref a \<notin> set (map rb_resource_ref (pg_resources p))))
       (st_arguments s)) (pg_steps p) \<and>
     list_all (\<lambda>q. pt_target_step_id q \<in> set (map st_step_id (pg_steps p))) (pg_perturbations p)"

definition valid_program :: "planner_program \<Rightarrow> bool" where
  "valid_program p \<longleftrightarrow>
     is_Symbol (pg_program_id p) \<and> summary_sanitized (pg_objective p) \<and>
     is_Symbol (pg_ring_profile_id p) \<and>
     len_between 0 16 (pg_resources p) \<and> list_all valid_resource_binding (pg_resources p) \<and>
     len_between 1 64 (pg_steps p) \<and> list_all valid_step (pg_steps p) \<and>
     len_between 0 8 (pg_perturbations p) \<and> list_all valid_perturbation (pg_perturbations p) \<and>
     1 \<le> pg_requested_local_variants p \<and> pg_requested_local_variants p \<le> 32 \<and>
     len_between 1 8 (pg_expected_signals p) \<and> list_all short_sanitized (pg_expected_signals p) \<and>
     len_between 0 8 (pg_safety_notes p) \<and> list_all short_sanitized (pg_safety_notes p) \<and>
     enforce_program_references p"

definition dump_program :: "planner_program \<Rightarrow> json" where
  "dump_program p =
     JObj [(''program_id'', JStr (pg_program_id p)), (''objective'', JStr (pg_objective p)),
           (''lane'', JStr (lane_value (pg_lane p))),
           (''ring_profile_id'', JStr (pg_ring_profile_id p)),
           (''resources'', JList (map dump_resource_binding (pg_resources p))),
           (''steps'', JList (map dump_step (pg_steps p))),
           (''perturbations'', JList (map dump_perturbation (pg_perturbations p))),
           (''requested_local_variants'', JInt (pg_requested_local_variants p)),
           (''expected_signals'', strs (pg_expected_signals p)),
           (''safety_notes'', strs (pg_safety_notes p))]"

record planner_proposal =
  pr_proposal_id :: string
  pr_packet_id :: string
  pr_target_hashes :: target_hashes
  pr_hypothesis :: hypothesis
  pr_abstain :: bool
  pr_abstain_reason :: string
  pr_analysis_only :: bool
  pr_research_priorities :: "research_priority list"
  pr_programs :: "planner_program list"

definition enforce_abstention_shape :: "planner_proposal \<Rightarrow> bool" where
  "enforce_abstention_shape p \<longleftrightarrow>
     (if pr_abstain p then
        \<not> (pr_analysis_only p \<or> pr_programs p \<noteq> [] \<or> pr_research_priorities p \<noteq> []) \<and>
        pr_abstain_reason p \<noteq> []
      else if pr_analysis_only p then
        pr_programs p = [] \<and> pr_research_priorities p \<noteq> [] \<and> pr_abstain_reason p = []
      else
        pr_programs p \<noteq> [] \<and> pr_research_priorities p = [] \<and> pr_abstain_reason p = []) \<and>
     distinct (map rp_id (pr_research_priorities p)) \<and>
     distinct (map pg_program_id (pr_programs p))"

definition valid_proposal :: "planner_proposal \<Rightarrow> bool" where
  "valid_proposal p \<longleftrightarrow>
     is_Identifier (pr_proposal_id p) \<and> is_Identifier (pr_packet_id p) \<and>
     valid_target_hashes (pr_target_hashes p) \<and> valid_hypothesis (pr_hypothesis p) \<and>
     length (pr_abstain_reason p) \<le> 400 \<and>
     (pr_abstain_reason p \<noteq> [] \<longrightarrow> sanitized_text (pr_abstain_reason p)) \<and>
     len_between 0 8 (pr_research_priorities p) \<and>
     list_all valid_research_priority (pr_research_priorities p) \<and>
     len_between 0 4 (pr_programs p) \<and> list_all valid_program (pr_programs p) \<and>
     enforce_abstention_shape p"

definition dump_proposal :: "planner_proposal \<Rightarrow> json" where
  "dump_proposal p =
     JObj [(''schema_version'', JStr ''planner-proposal.v1''),
           (''proposal_id'', JStr (pr_proposal_id p)), (''packet_id'', JStr (pr_packet_id p)),
           (''target_hashes'', dump_target_hashes (pr_target_hashes p)),
           (''hypothesis'', dump_hypothesis (pr_hypothesis p)), (''abstain'', JBool (pr_abstain p)),
           (''abstain_reason'', JStr (pr_abstain_reason p)),
           (''analysis_only'', JBool (pr_analysis_only p)),
           (''research_priorities'', JList (map dump_research_priority (pr_research_priorities p))),
           (''programs'', JList (map dump_program (pr_programs p)))]"

section \<open>Reviews\<close>

record review_finding =
  rf_id :: string
  rf_severity :: finding_severity
  rf_category :: finding_category
  rf_message :: string
  rf_evidence_refs :: "string list"
  rf_program_id :: string
  rf_step_id :: string

definition valid_finding :: "review_finding \<Rightarrow> bool" where
  "valid_finding f \<longleftrightarrow>
     is_Identifier (rf_id f) \<and> summary_sanitized (rf_message f) \<and>
     len_between 0 12 (rf_evidence_refs f) \<and> list_all is_EvidenceRef (rf_evidence_refs f) \<and>
     is_OptionalSymbol (rf_program_id f) \<and> is_OptionalSymbol (rf_step_id f)"

definition dump_finding :: "review_finding \<Rightarrow> json" where
  "dump_finding f =
     JObj [(''finding_id'', JStr (rf_id f)), (''severity'', JStr (severity_value (rf_severity f))),
           (''category'', JStr (category_value (rf_category f))), (''message'', JStr (rf_message f)),
           (''evidence_refs'', strs (rf_evidence_refs f)), (''program_id'', JStr (rf_program_id f)),
           (''step_id'', JStr (rf_step_id f))]"

record reviewer_verdict =
  rv_review_id :: string
  rv_proposal_id :: string
  rv_packet_id :: string
  rv_verdict :: verdict_kind
  rv_summary :: string
  rv_findings :: "review_finding list"
  rv_checked_evidence_refs :: "string list"
  rv_required_changes :: "string list"
  rv_residual_risk :: residual_risk
  safe_for_quarantine :: bool

definition enforce_verdict_semantics :: "reviewer_verdict \<Rightarrow> bool" where
  "enforce_verdict_semantics r \<longleftrightarrow>
     (if rv_verdict r = ACCEPT then
        \<not> list_ex (\<lambda>f. rf_severity f \<in> {SEV_CRITICAL, SEV_HIGH}) (rv_findings r) \<and>
        safe_for_quarantine r \<and> rv_required_changes r = []
      else \<not> safe_for_quarantine r)"

definition valid_verdict :: "reviewer_verdict \<Rightarrow> bool" where
  "valid_verdict r \<longleftrightarrow>
     is_Identifier (rv_review_id r) \<and> is_Identifier (rv_proposal_id r) \<and>
     is_Identifier (rv_packet_id r) \<and> summary_sanitized (rv_summary r) \<and>
     len_between 0 32 (rv_findings r) \<and> list_all valid_finding (rv_findings r) \<and>
     len_between 0 24 (rv_checked_evidence_refs r) \<and>
     list_all is_EvidenceRef (rv_checked_evidence_refs r) \<and>
     len_between 0 16 (rv_required_changes r) \<and> list_all short_sanitized (rv_required_changes r) \<and>
     enforce_verdict_semantics r"

definition dump_verdict :: "reviewer_verdict \<Rightarrow> json" where
  "dump_verdict r =
     JObj [(''schema_version'', JStr ''reviewer-verdict.v1''), (''review_id'', JStr (rv_review_id r)),
           (''proposal_id'', JStr (rv_proposal_id r)), (''packet_id'', JStr (rv_packet_id r)),
           (''verdict'', JStr (verdict_value (rv_verdict r))), (''summary'', JStr (rv_summary r)),
           (''findings'', JList (map dump_finding (rv_findings r))),
           (''checked_evidence_refs'', strs (rv_checked_evidence_refs r)),
           (''required_changes'', strs (rv_required_changes r)),
           (''residual_risk'', JStr (risk_value (rv_residual_risk r))),
           (''safe_for_quarantine'', JBool (safe_for_quarantine r))]"

section \<open>Harness contracts\<close>

record argument_spec =
  as_name :: string
  as_kind :: harness_argument_kind
  as_byte_width :: int
  as_signed :: bool
  as_byte_order :: byte_order
  as_minimum :: int
  as_maximum :: int
  as_enum_symbols :: "string list"
  as_resource_kind :: string
  as_summary :: string

definition enforce_argument_shape :: "argument_spec \<Rightarrow> bool" where
  "enforce_argument_shape a \<longleftrightarrow>
     \<not> as_minimum a > as_maximum a \<and>
     (case as_kind a of
        HARG_ENUM \<Rightarrow> as_enum_symbols a \<noteq> [] \<and> as_resource_kind a = []
      | HARG_RESOURCE \<Rightarrow> as_resource_kind a \<noteq> [] \<and> as_enum_symbols a = []
      | _ \<Rightarrow> as_enum_symbols a = [] \<and> as_resource_kind a = []) \<and>
     \<not> (as_byte_width a = 0 \<and> as_byte_order a \<noteq> NOT_APPLICABLE) \<and>
     \<not> (as_byte_width a > 0 \<and> as_byte_order a = NOT_APPLICABLE)"

definition valid_argument_spec :: "argument_spec \<Rightarrow> bool" where
  "valid_argument_spec a \<longleftrightarrow>
     is_Symbol (as_name a) \<and> 0 \<le> as_byte_width a \<and> as_byte_width a \<le> 8 \<and>
     len_between 0 64 (as_enum_symbols a) \<and> list_all is_Symbol (as_enum_symbols a) \<and>
     is_OptionalSymbol (as_resource_kind a) \<and> short_sanitized (as_summary a) \<and>
     enforce_argument_shape a"

definition dump_argument_spec :: "argument_spec \<Rightarrow> json" where
  "dump_argument_spec a =
     JObj [(''name'', JStr (as_name a)), (''kind'', JStr (harness_argument_value (as_kind a))),
           (''byte_width'', JInt (as_byte_width a)), (''signed'', JBool (as_signed a)),
           (''byte_order'', JStr (byte_order_value (as_byte_order a))),
           (''minimum_value'', JInt (as_minimum a)), (''maximum_value'', JInt (as_maximum a)),
           (''enum_symbols'', strs (as_enum_symbols a)),
           (''resource_kind'', JStr (as_resource_kind a)), (''summary'', JStr (as_summary a))]"

record harness_profile =
  hp_profile_id :: string
  hp_selector_value :: int
  hp_setup_flags :: "string list"
  hp_allowed_lanes :: "lane_kind list"
  hp_summary :: string

definition valid_profile :: "harness_profile \<Rightarrow> bool" where
  "valid_profile p \<longleftrightarrow>
     is_Symbol (hp_profile_id p) \<and> 0 \<le> hp_selector_value p \<and> hp_selector_value p \<le> 255 \<and>
     len_between 0 16 (hp_setup_flags p) \<and> list_all is_Symbol (hp_setup_flags p) \<and>
     len_between 1 2 (hp_allowed_lanes p) \<and> short_sanitized (hp_summary p)"

definition dump_profile :: "harness_profile \<Rightarrow> json" where
  "dump_profile p =
     JObj [(''profile_id'', JStr (hp_profile_id p)), (''selector_value'', JInt (hp_selector_value p)),
           (''setup_flags'', strs (hp_setup_flags p)),
           (''allowed_lanes'', strs (map lane_value (hp_allowed_lanes p))),
           (''summary'', JStr (hp_summary p))]"

record resource_spec =
  rs_resource_kind :: string
  rs_lifetime :: resource_lifetime
  rs_max_instances :: int
  rs_summary :: string

definition valid_resource_spec :: "resource_spec \<Rightarrow> bool" where
  "valid_resource_spec r \<longleftrightarrow>
     is_Symbol (rs_resource_kind r) \<and> 1 \<le> rs_max_instances r \<and> rs_max_instances r \<le> 64 \<and>
     short_sanitized (rs_summary r)"

definition dump_resource_spec :: "resource_spec \<Rightarrow> json" where
  "dump_resource_spec r =
     JObj [(''resource_kind'', JStr (rs_resource_kind r)),
           (''lifetime'', JStr (lifetime_value (rs_lifetime r))),
           (''max_instances'', JInt (rs_max_instances r)), (''summary'', JStr (rs_summary r))]"

record flag_spec =
  fs_symbol :: string
  fs_bit_value :: int
  fs_summary :: string

definition valid_flag_spec :: "flag_spec \<Rightarrow> bool" where
  "valid_flag_spec f \<longleftrightarrow>
     is_Symbol (fs_symbol f) \<and> 1 \<le> fs_bit_value f \<and> fs_bit_value f \<le> 4294967295 \<and>
     short_sanitized (fs_summary f)"

definition dump_flag_spec :: "flag_spec \<Rightarrow> json" where
  "dump_flag_spec f =
     JObj [(''symbol'', JStr (fs_symbol f)), (''bit_value'', JInt (fs_bit_value f)),
           (''summary'', JStr (fs_summary f))]"

record harness_operation =
  ho_symbol :: string
  ho_selector :: int
  ho_arguments :: "argument_spec list"
  ho_allowed_flags :: "string list"
  ho_allowed_profiles :: "string list"
  ho_allowed_lanes :: "lane_kind list"
  ho_expected :: "string list"
  ho_summary :: string

definition valid_operation :: "harness_operation \<Rightarrow> bool" where
  "valid_operation h \<longleftrightarrow>
     is_Symbol (ho_symbol h) \<and> 0 \<le> ho_selector h \<and> ho_selector h \<le> 255 \<and>
     len_between 0 16 (ho_arguments h) \<and> list_all valid_argument_spec (ho_arguments h) \<and>
     len_between 0 16 (ho_allowed_flags h) \<and> list_all is_Symbol (ho_allowed_flags h) \<and>
     len_between 1 16 (ho_allowed_profiles h) \<and> list_all is_Symbol (ho_allowed_profiles h) \<and>
     len_between 1 2 (ho_allowed_lanes h) \<and>
     len_between 1 16 (ho_expected h) \<and> list_all is_Symbol (ho_expected h) \<and>
     short_sanitized (ho_summary h)"

definition dump_operation :: "harness_operation \<Rightarrow> json" where
  "dump_operation h =
     JObj [(''symbol'', JStr (ho_symbol h)), (''selector_modulus_value'', JInt (ho_selector h)),
           (''arguments'', JList (map dump_argument_spec (ho_arguments h))),
           (''allowed_flags'', strs (ho_allowed_flags h)),
           (''allowed_profiles'', strs (ho_allowed_profiles h)),
           (''allowed_lanes'', strs (map lane_value (ho_allowed_lanes h))),
           (''expected_result_classes'', strs (ho_expected h)), (''summary'', JStr (ho_summary h))]"

record harness_contract =
  hc_contract_id :: string
  hc_generated_at :: string
  hc_environment :: harness_environment
  hc_verified :: bool
  hc_test_only :: bool
  hc_verified_by :: string
  hc_evidence_hash :: string
  hc_source_revision_hash :: string
  hc_target_hashes :: target_hashes
  hc_input_max_bytes :: int
  hc_operation_max_count :: int
  hc_selector_modulus :: int
  hc_deterministic_compiler :: bool
  hc_round_trip_verified :: bool
  hc_profiles :: "harness_profile list"
  hc_resources :: "resource_spec list"
  hc_flags :: "flag_spec list"
  hc_operations :: "harness_operation list"
  hc_forbidden_profiles :: "string list"
  hc_notes :: "string list"

definition operation_references_known :: "harness_contract \<Rightarrow> harness_operation \<Rightarrow> bool" where
  "operation_references_known c h \<longleftrightarrow>
     set (ho_allowed_profiles h) \<subseteq> set (map hp_profile_id (hc_profiles c)) \<and>
     set (ho_allowed_flags h) \<subseteq> set (map fs_symbol (hc_flags c)) \<and>
     list_all (\<lambda>a. \<not> (as_kind a = HARG_RESOURCE \<and>
         as_resource_kind a \<notin> set (map rs_resource_kind (hc_resources c)))) (ho_arguments h)"

definition enforce_contract_references :: "harness_contract \<Rightarrow> bool" where
  "enforce_contract_references c \<longleftrightarrow>
     \<not> (hc_environment c = PRODUCTION \<and> hc_test_only c) \<and>
     \<not> (hc_environment c \<noteq> PRODUCTION \<and> \<not> hc_test_only c) \<and>
     distinct (map hp_profile_id (hc_profiles c)) \<and>
     distinct (map hp_selector_value (hc_profiles c)) \<and>
     distinct (map rs_resource_kind (hc_resources c)) \<and>
     distinct (map fs_symbol (hc_flags c)) \<and>
     distinct (map ho_symbol (hc_operations c)) \<and>
     distinct (map ho_selector (hc_operations c)) \<and>
     \<not> list_ex (\<lambda>h. ho_selector h \<ge> hc_selector_modulus c) (hc_operations c) \<and>
     list_all (operation_references_known c) (hc_operations c) \<and>
     set (hc_forbidden_profiles c) \<inter> set (map hp_profile_id (hc_profiles c)) = {}"

definition valid_contract :: "harness_contract \<Rightarrow> bool" where
  "valid_contract c \<longleftrightarrow>
     is_Identifier (hc_contract_id c) \<and> is_Timestamp (hc_generated_at c) \<and>
     is_Identifier (hc_verified_by c) \<and> is_Digest (hc_evidence_hash c) \<and>
     is_Digest (hc_source_revision_hash c) \<and> valid_target_hashes (hc_target_hashes c) \<and>
     1 \<le> hc_input_max_bytes c \<and> hc_input_max_bytes c \<le> 1048576 \<and>
     1 \<le> hc_operation_max_count c \<and> hc_operation_max_count c \<le> 4096 \<and>
     1 \<le> hc_selector_modulus c \<and> hc_selector_modulus c \<le> 256 \<and>
     len_between 1 16 (hc_profiles c) \<and> list_all valid_profile (hc_profiles c) \<and>
     len_between 0 32 (hc_resources c) \<and> list_all valid_resource_spec (hc_resources c) \<and>
     len_between 0 64 (hc_flags c) \<and> list_all valid_flag_spec (hc_flags c) \<and>
     len_between 1 256 (hc_operations c) \<and> list_all valid_operation (hc_operations c) \<and>
     len_between 0 16 (hc_forbidden_profiles c) \<and> list_all is_Symbol (hc_forbidden_profiles c) \<and>
     len_between 0 16 (hc_notes c) \<and> list_all short_sanitized (hc_notes c) \<and>
     enforce_contract_references c"

definition dump_contract :: "harness_contract \<Rightarrow> json" where
  "dump_contract c =
     JObj [(''schema_version'', JStr ''harness-contract.v1''),
           (''contract_id'', JStr (hc_contract_id c)), (''generated_at'', JStr (hc_generated_at c)),
           (''environment'', JStr (environment_value (hc_environment c))),
           (''verified'', JBool (hc_verified c)), (''test_only'', JBool (hc_test_only c)),
           (''verified_by'', JStr (hc_verified_by c)),
           (''verification_evidence_hash'', JStr (hc_evidence_hash c)),
           (''source_revision_hash'', JStr (hc_source_revision_hash c)),
           (''target_hashes'', dump_target_hashes (hc_target_hashes c)),
           (''input_max_bytes'', JInt (hc_input_max_bytes c)),
           (''operation_max_count'', JInt (hc_operation_max_count c)),
           (''operation_selector_modulus'', JInt (hc_selector_modulus c)),
           (''deterministic_compiler'', JBool (hc_deterministic_compiler c)),
           (''decode_round_trip_verified'', JBool (hc_round_trip_verified c)),
           (''profiles'', JList (map dump_profile (hc_profiles c))),
           (''resources'', JList (map dump_resource_spec (hc_resources c))),
           (''flags'', JList (map dump_flag_spec (hc_flags c))),
           (''operations'', JList (map dump_operation (hc_operations c))),
           (''forbidden_profile_ids'', strs (hc_forbidden_profiles c)),
           (''notes'', strs (hc_notes c))]"

section \<open>Quarantine envelopes\<close>

record validation_record =
  vr_validator_version :: string
  vr_validator_hash :: string
  vr_passed :: "string list"
  vr_failed :: "string list"

definition valid_validation_record :: "validation_record \<Rightarrow> bool" where
  "valid_validation_record r \<longleftrightarrow>
     is_Identifier (vr_validator_version r) \<and> is_Digest (vr_validator_hash r) \<and>
     len_between 1 128 (vr_passed r) \<and> list_all is_Identifier (vr_passed r) \<and>
     len_between 0 64 (vr_failed r) \<and> list_all is_Identifier (vr_failed r)"

definition dump_validation_record :: "validation_record \<Rightarrow> json" where
  "dump_validation_record r =
     JObj [(''validator_version'', JStr (vr_validator_version r)),
           (''validator_hash'', JStr (vr_validator_hash r)),
           (''passed_check_ids'', strs (vr_passed r)), (''failed_check_ids'', strs (vr_failed r))]"

record provider_trace =
  pt_role :: provider_role
  pt_provider :: string
  pt_model :: string
  pt_response_id :: string
  pt_client_request_id :: string
  pt_input_tokens :: int
  pt_output_tokens :: int
  pt_reasoning_tokens :: int
  pt_cost_microusd :: int

definition valid_trace :: "provider_trace \<Rightarrow> bool" where
  "valid_trace t \<longleftrightarrow>
     is_Symbol (pt_provider t) \<and> is_Identifier (pt_model t) \<and>
     is_ProviderResponseId (pt_response_id t) \<and> is_Identifier (pt_client_request_id t) \<and>
     0 \<le> pt_input_tokens t \<and> 0 \<le> pt_output_tokens t \<and> 0 \<le> pt_reasoning_tokens t \<and>
     0 \<le> pt_cost_microusd t"

definition dump_trace :: "provider_trace \<Rightarrow> json" where
  "dump_trace t =
     JObj [(''role'', JStr (role_value (pt_role t))), (''provider'', JStr (pt_provider t)),
           (''model'', JStr (pt_model t)), (''response_id'', JStr (pt_response_id t)),
           (''client_request_id'', JStr (pt_client_request_id t)),
           (''input_tokens'', JInt (pt_input_tokens t)),
           (''output_tokens'', JInt (pt_output_tokens t)),
           (''reasoning_tokens'', JInt (pt_reasoning_tokens t)),
           (''cost_microusd'', JInt (pt_cost_microusd t))]"

record quarantine_envelope =
  qe_envelope_id :: string
  qe_created_at :: string
  qe_telemetry_packet_hash :: string
  qe_proposal_hash :: string
  qe_reviewer_verdict_hash :: string
  qe_auditor_verdict_hash :: "string option"
  qe_harness_contract_hash :: string
  qe_compiled_artifact_hashes :: "string list"
  qe_target_hashes :: target_hashes
  qe_proposal :: planner_proposal
  qe_reviewer_verdict :: reviewer_verdict
  qe_auditor_verdict :: "reviewer_verdict option"
  qe_validations :: "validation_record list"
  qe_provider_traces :: "provider_trace list"

definition auditor_bound :: "quarantine_envelope \<Rightarrow> bool" where
  "auditor_bound e \<longleftrightarrow>
     (case qe_auditor_verdict e of
        Some a \<Rightarrow>
          rv_proposal_id a = pr_proposal_id (qe_proposal e) \<and>
          rv_packet_id a = pr_packet_id (qe_proposal e) \<and>
          rv_verdict a = ACCEPT \<and> qe_auditor_verdict_hash e \<noteq> None
      | None \<Rightarrow> qe_auditor_verdict_hash e = None)"

definition bind_related_artifacts :: "quarantine_envelope \<Rightarrow> bool" where
  "bind_related_artifacts e \<longleftrightarrow>
     pr_proposal_id (qe_proposal e) = rv_proposal_id (qe_reviewer_verdict e) \<and>
     pr_packet_id (qe_proposal e) = rv_packet_id (qe_reviewer_verdict e) \<and>
     pr_target_hashes (qe_proposal e) = qe_target_hashes e \<and>
     rv_verdict (qe_reviewer_verdict e) = ACCEPT \<and>
     auditor_bound e \<and>
     \<not> list_ex (\<lambda>r. vr_failed r \<noteq> []) (qe_validations e) \<and>
     (let roles = map pt_role (qe_provider_traces e) in
      distinct roles \<and> PLANNER \<in> set roles \<and> REVIEWER \<in> set roles \<and>
      (AUDITOR \<in> set roles) = (qe_auditor_verdict e \<noteq> None))"

definition valid_envelope :: "quarantine_envelope \<Rightarrow> bool" where
  "valid_envelope e \<longleftrightarrow>
     is_Identifier (qe_envelope_id e) \<and> is_Timestamp (qe_created_at e) \<and>
     is_Digest (qe_telemetry_packet_hash e) \<and> is_Digest (qe_proposal_hash e) \<and>
     is_Digest (qe_reviewer_verdict_hash e) \<and> pred_option is_Digest (qe_auditor_verdict_hash e) \<and>
     is_Digest (qe_harness_contract_hash e) \<and>
     len_between 0 128 (qe_compiled_artifact_hashes e) \<and>
     list_all is_Digest (qe_compiled_artifact_hashes e) \<and>
     valid_target_hashes (qe_target_hashes e) \<and> valid_proposal (qe_proposal e) \<and>
     valid_verdict (qe_reviewer_verdict e) \<and> pred_option valid_verdict (qe_auditor_verdict e) \<and>
     len_between 1 16 (qe_validations e) \<and> list_all valid_validation_record (qe_validations e) \<and>
     len_between 2 3 (qe_provider_traces e) \<and> list_all valid_trace (qe_provider_traces e) \<and>
     bind_related_artifacts e"

definition dump_optional :: "('a \<Rightarrow> json) \<Rightarrow> 'a option \<Rightarrow> json" where
  "dump_optional f x = (case x of None \<Rightarrow> JNull | Some y \<Rightarrow> f y)"

definition dump_envelope :: "quarantine_envelope \<Rightarrow> json" where
  "dump_envelope e =
     JObj [(''schema_version'', JStr ''quarantine-envelope.v1''),
           (''envelope_id'', JStr (qe_envelope_id e)), (''created_at'', JStr (qe_created_at e)),
           (''promotion_state'', JStr ''quarantined''), (''human_approval_required'', JBool True),
           (''isolated_canary_required'', JBool True),
           (''telemetry_packet_hash'', JStr (qe_telemetry_packet_hash e)),
           (''proposal_hash'', JStr (qe_proposal_hash e)),
           (''reviewer_verdict_hash'', JStr (qe_reviewer_verdict_hash e)),
           (''auditor_verdict_hash'', dump_optional JStr (qe_auditor_verdict_hash e)),
           (''harness_contract_hash'', JStr (qe_harness_contract_hash e)),
           (''compiled_artifact_hashes'', strs (qe_compiled_artifact_hashes e)),
           (''target_hashes'', dump_target_hashes (qe_target_hashes e)),
           (''proposal'', dump_proposal (qe_proposal e)),
           (''reviewer_verdict'', dump_verdict (qe_reviewer_verdict e)),
           (''auditor_verdict'', dump_optional dump_verdict (qe_auditor_verdict e)),
           (''validations'', JList (map dump_validation_record (qe_validations e))),
           (''provider_traces'', JList (map dump_trace (qe_provider_traces e)))]"

section \<open>Clean texts\<close>

text \<open>
  Every forbidden fragment has a colon, an equals sign, a hash or a dash, and folding neither makes
  nor removes one; so a text without them is clean whatever else it says.
\<close>

definition mark :: "char \<Rightarrow> bool" where
  "mark c \<longleftrightarrow> c \<in> set '':=#-''"

lemma casefold_char_marks: "filter mark (casefold_char c) = filter mark [c]"
proof -
  have up: "\<forall>c \<in> set ''ABCDEFGHIJKLMNOPQRSTUVWXYZ''. \<not> mark c" by code_simp
  have low: "\<forall>c \<in> set ''abcdefghijklmnopqrstuvwxyz''. \<not> mark c" by code_simp
  show ?thesis
  proof (cases "map_of (zip ''ABCDEFGHIJKLMNOPQRSTUVWXYZ'' ''abcdefghijklmnopqrstuvwxyz'') c")
    case None
    then show ?thesis by (simp add: casefold_char_def) (simp add: mark_def)
  next
    case (Some l)
    then have "(c, l) \<in> set (zip ''ABCDEFGHIJKLMNOPQRSTUVWXYZ'' ''abcdefghijklmnopqrstuvwxyz'')"
      by (rule map_of_SomeD)
    then have "\<not> mark c" "\<not> mark l" using up low by (blast dest: set_zip_leftD set_zip_rightD)+
    moreover have "\<not> mark CHR ''s''" by (simp add: mark_def)
    ultimately show ?thesis using Some by (simp add: casefold_char_def)
  qed
qed

lemma casefold_marks: "filter mark (casefold s) = filter mark s"
proof (induction s)
  case (Cons c s)
  then show ?case using casefold_char_marks [of c] by (simp add: casefold_def)
qed (simp add: casefold_def)

lemma casefold_append [simp]: "casefold (s @ t) = casefold s @ casefold t"
  by (simp add: casefold_def)

lemma mark_of_filter: "mark c \<Longrightarrow> c \<in> set s \<longleftrightarrow> c \<in> set (filter mark s)"
  by simp

lemma contains_marks: "str_contains p s \<Longrightarrow> set (filter mark p) \<subseteq> set (filter mark s)"
  by (auto simp: str_contains_iff)

lemma plain_text_clean:
  assumes "list_all (\<lambda>c. \<not> mark c) s" and "p \<in> set FORBIDDEN_TEXT_FRAGMENTS"
  shows "\<not> str_contains p (casefold s)"
proof
  assume "str_contains p (casefold s)"
  have "filter mark s = []" using assms(1) by (simp add: list_all_iff filter_empty_conv)
  then have "filter mark (casefold s) = []" by (simp only: casefold_marks)
  with contains_marks [OF \<open>str_contains p (casefold s)\<close>] have "filter mark p = []"
    by (simp del: set_filter)
  moreover have "\<forall>p \<in> set FORBIDDEN_TEXT_FRAGMENTS. filter mark p \<noteq> []" by code_simp
  ultimately show False using assms(2) by blast
qed

text \<open>With a single dash, the character before it decides the fragments that have no other mark.\<close>

lemma dash_before:
  assumes "str_contains (a @ x # CHR ''-'' # b) (A @ y # CHR ''-'' # B)"
    and "CHR ''-'' \<notin> set A" "y \<noteq> CHR ''-''" "CHR ''-'' \<notin> set B"
  shows "x = y"
proof -
  from assms(1) obtain l r where "A @ y # CHR ''-'' # B = l @ (a @ x # CHR ''-'' # b) @ r"
    unfolding str_contains_iff by blast
  then have "(A @ [y]) @ CHR ''-'' # B = (l @ a @ [x]) @ CHR ''-'' # (b @ r)" by simp
  with assms(2-4) have "A @ [y] = l @ a @ [x]" by (subst (asm) append_Cons_eq_iff) auto
  then show ?thesis by (metis append_assoc append_is_Nil_conv last_snoc)
qed

section \<open>Facts the components share\<close>

lemma is_symbol_identifier: "is_Symbol s \<Longrightarrow> s \<noteq> []"
  by (cases s) (auto simp: is_Symbol_def)

lemma matches_template_append:
  "matches_template p s \<Longrightarrow> matches_template q t \<Longrightarrow> matches_template (p @ q) (s @ t)"
  by (simp add: matches_template_def list_all2_appendI)

lemma matches_template_digits:
  "list_all is_digit s \<Longrightarrow> length s = n \<Longrightarrow> matches_template (replicate n CHR ''d'') s"
  by (auto simp: matches_template_def list_all2_conv_all_nth list_all_length)

lemma digits_pad: "list_all is_digit (pad_digits w n)"
  by (induction w arbitrary: n) (auto simp: is_digit_digit_char)

lemma template_pad: "matches_template (replicate w CHR ''d'') (pad_digits w n)"
  by (rule matches_template_digits [OF digits_pad length_pad_digits])

text \<open>The timestamps the program writes satisfy the wire type.\<close>

lemma is_Timestamp_iso_seconds_z: "is_Timestamp (iso_seconds_z t)"
proof -
  obtain y m d where ymd: "ord2ymd (date_of t) = (y, m, d)" by (cases "ord2ymd (date_of t)") auto
  have c: "matches_template [c] [c]" if "c \<noteq> CHR ''d''" for c using that by (simp add: matches_template_def)
  have "matches_template (replicate 4 CHR ''d'' @ ''-'' @ replicate 2 CHR ''d'' @ ''-'' @ replicate 2 CHR ''d'')
      (date_string t)"
    unfolding date_string_def ymd prod.case
    by (intro matches_template_append template_pad c) simp_all
  moreover have "matches_template (replicate 2 CHR ''d'' @ '':'' @ replicate 2 CHR ''d'' @ '':'' @ replicate 2 CHR ''d'')
      (time_string t)"
    unfolding time_string_def Let_def
    by (intro matches_template_append template_pad c) simp_all
  moreover have "matches_template ''T'' ''T''" by (rule c) simp
  ultimately have "matches_template (''dddd-dd-dd'' @ ''T'' @ ''dd:dd:dd'') (date_string t @ ''T'' @ time_string t)"
    by (intro matches_template_append) (simp_all add: numeral_eq_Suc)
  moreover have "take 19 (iso_seconds_z t) = date_string t @ ''T'' @ time_string t"
    "drop 19 (iso_seconds_z t) = ''Z''" "length (iso_seconds_z t) = 20"
    by (simp_all add: iso_seconds_z_def)
  ultimately show ?thesis by (simp add: is_Timestamp_def is_zone_def)
qed

section \<open>The wire form determines the document\<close>

text \<open>
  Two objects with the same keys and the same canonical form have values of the same canonical
  form, key by key; so the dumps can be compared field by field.
\<close>

lemma norm_obj_values:
  assumes "norm_json (JObj kvs) = norm_json (JObj lws)" and "map fst kvs = map fst lws"
    and "distinct (map fst kvs)"
  shows "list_all2 (\<lambda>(k, v) (l, w). norm_json v = norm_json w) kvs lws"
proof -
  let ?n = "map (\<lambda>(k, v). (k, norm_json v))"
  have keys: "map fst (?n xs) = map fst xs" for xs :: "(string \<times> json) list"
    by (induction xs) auto
  have "sort_key fst (?n kvs) = sort_key fst (?n lws)" using assms(1) by simp
  then have "set (?n kvs) = set (?n lws)" by (metis set_sort)
  moreover have d: "distinct (map fst (?n kvs))" "distinct (map fst (?n lws))"
    using assms(2,3) by (simp_all only: keys)
  ultimately have m: "map_of (?n kvs) = map_of (?n lws)" using map_of_inject_set by blast
  have len: "length kvs = length lws" using arg_cong [OF assms(2), of length] by simp
  show ?thesis
  proof (rule list_all2_all_nthI [OF len])
    fix i assume i: "i < length kvs"
    have at: "map_of (?n xs) (fst (xs ! i)) = Some (norm_json (snd (xs ! i)))"
      if "i < length xs" "distinct (map fst (?n xs))" for xs :: "(string \<times> json) list"
    proof -
      have "(fst (xs ! i), norm_json (snd (xs ! i))) = ?n xs ! i"
        using that(1) by (simp add: case_prod_unfold)
      with that show ?thesis by (metis length_map map_of_is_SomeI nth_mem)
    qed
    have "fst (kvs ! i) = fst (lws ! i)" using assms(2) i len by (metis nth_map)
    moreover have "map_of (?n kvs) (fst (kvs ! i)) = Some (norm_json (snd (kvs ! i)))"
      using i d(1) by (rule at)
    moreover have "map_of (?n lws) (fst (lws ! i)) = Some (norm_json (snd (lws ! i)))"
      using i len d(2) by (intro at) simp_all
    ultimately have "norm_json (snd (kvs ! i)) = norm_json (snd (lws ! i))"
      unfolding m by simp
    then show "(\<lambda>(k, v) (l, w). norm_json v = norm_json w) (kvs ! i) (lws ! i)"
      by (simp add: case_prod_unfold)
  qed
qed

text \<open>Documents with the same canonical form.\<close>

definition same_json :: "json \<Rightarrow> json \<Rightarrow> bool" where
  "same_json v w \<longleftrightarrow> norm_json v = norm_json w"

lemma same_json_atoms [simp]:
  "same_json (JStr s) (JStr t) \<longleftrightarrow> s = t" "same_json (JInt i) (JInt j) \<longleftrightarrow> i = j"
  "same_json (JBool a) (JBool b) \<longleftrightarrow> a = b" "same_json JNull JNull"
  "\<not> same_json JNull (JStr s)" "\<not> same_json (JStr s) JNull"
  "\<not> same_json JNull (JObj kvs)" "\<not> same_json (JObj kvs) JNull"
  by (simp_all add: same_json_def)

lemma same_json_list: "same_json (JList (map f xs)) (JList (map g ys)) \<longleftrightarrow> list_all2 (\<lambda>x y. same_json (f x) (g y)) xs ys"
  by (simp add: same_json_def list_eq_iff_nth_eq list_all2_conv_all_nth comp_def) auto

lemma same_json_obj:
  "same_json (JObj kvs) (JObj lws) \<Longrightarrow> map fst kvs = map fst lws \<Longrightarrow> distinct (map fst kvs) \<Longrightarrow>
     list_all2 same_json (map snd kvs) (map snd lws)"
  using norm_obj_values [of kvs lws]
  by (simp add: same_json_def list_all2_conv_all_nth case_prod_unfold)

lemma same_json_map:
  "same_json (JList (map f xs)) (JList (map f ys)) \<Longrightarrow> (\<And>x y. same_json (f x) (f y) \<Longrightarrow> x = y) \<Longrightarrow> xs = ys"
  by (auto simp: same_json_list list_all2_conv_all_nth intro: nth_equalityI)

lemma same_json_strs [simp]: "same_json (strs xs) (strs ys) \<longleftrightarrow> xs = ys"
  by (auto simp: same_json_list list_all2_conv_all_nth intro: nth_equalityI)

lemma enum_values_inject [simp]:
  "lane_value a = lane_value b \<longleftrightarrow> a = b"
  "argument_kind_value c = argument_kind_value d \<longleftrightarrow> c = d"
  "link_value e = link_value f \<longleftrightarrow> e = f"
  "verdict_value g = verdict_value h \<longleftrightarrow> g = h"
  "severity_value i = severity_value j \<longleftrightarrow> i = j"
  "risk_value m = risk_value n \<longleftrightarrow> m = n"
  "role_value p = role_value q \<longleftrightarrow> p = q"
  by ((cases a; cases b), simp_all) ((cases c; cases d), simp_all | (cases e; cases f), simp_all
    | (cases g; cases h), simp_all | (cases i; cases j), simp_all | (cases m; cases n), simp_all
    | (cases p; cases q), simp_all)+

lemma category_value_inject [simp]: "category_value a = category_value b \<longleftrightarrow> a = b"
  by (cases a; cases b) simp_all

lemma map_lane_value_inject [simp]: "map lane_value xs = map lane_value ys \<longleftrightarrow> xs = ys"
  by (rule inj_map_eq_map) (simp add: inj_def)

lemma same_json_lanes [simp]:
  "same_json (JList (map (JStr \<circ> lane_value) xs)) (JList (map (JStr \<circ> lane_value) ys)) \<longleftrightarrow> xs = ys"
  using same_json_strs [of "map lane_value xs" "map lane_value ys"] by (simp del: same_json_strs)

lemma more_enum_values_inject [simp]:
  "environment_value a = environment_value b \<longleftrightarrow> a = b"
  "harness_argument_value c = harness_argument_value d \<longleftrightarrow> c = d"
  "byte_order_value e = byte_order_value f \<longleftrightarrow> e = f"
  "lifetime_value g = lifetime_value h \<longleftrightarrow> g = h"
  by ((cases a; cases b), simp_all) ((cases c; cases d), simp_all | (cases e; cases f), simp_all
    | (cases g; cases h), simp_all)+

lemma same_json_optional:
  "same_json (dump_optional f x) (dump_optional f y) \<Longrightarrow> (\<And>x y. same_json (f x) (f y) \<Longrightarrow> x = y) \<Longrightarrow>
     (\<And>x. \<not> same_json JNull (f x) \<and> \<not> same_json (f x) JNull) \<Longrightarrow> x = y"
  by (cases x; cases y) (auto simp: dump_optional_def)

text \<open>One object dump: comparing the values of its fields.\<close>

lemma same_json_fields:
  "same_json (JObj kvs) (JObj lws) \<Longrightarrow> map fst kvs = map fst lws \<Longrightarrow> distinct (map fst kvs) \<Longrightarrow>
     (list_all2 same_json (map snd kvs) (map snd lws) \<Longrightarrow> P) \<Longrightarrow> P"
  using same_json_obj by blast

lemma dump_target_hashes_eq: "same_json (dump_target_hashes t) (dump_target_hashes u) \<Longrightarrow> t = u"
  unfolding dump_target_hashes_def by (erule same_json_fields) simp_all

lemma dump_hypothesis_eq: "same_json (dump_hypothesis t) (dump_hypothesis u) \<Longrightarrow> t = u"
  unfolding dump_hypothesis_def by (erule same_json_fields) simp_all

lemma dump_research_priority_eq: "same_json (dump_research_priority t) (dump_research_priority u) \<Longrightarrow> t = u"
  unfolding dump_research_priority_def by (erule same_json_fields) simp_all

lemma dump_argument_eq: "same_json (dump_argument t) (dump_argument u) \<Longrightarrow> t = u"
  unfolding dump_argument_def by (erule same_json_fields) simp_all

lemma dump_resource_binding_eq: "same_json (dump_resource_binding t) (dump_resource_binding u) \<Longrightarrow> t = u"
  unfolding dump_resource_binding_def by (erule same_json_fields) simp_all

lemma dump_step_eq: "same_json (dump_step t) (dump_step u) \<Longrightarrow> t = u"
  unfolding dump_step_def by (erule same_json_fields) (auto dest!: same_json_map [OF _ dump_argument_eq])

lemma dump_perturbation_eq: "same_json (dump_perturbation t) (dump_perturbation u) \<Longrightarrow> t = u"
  unfolding dump_perturbation_def by (erule same_json_fields) simp_all

lemma dump_program_eq: "same_json (dump_program t) (dump_program u) \<Longrightarrow> t = u"
  unfolding dump_program_def
  by (erule same_json_fields) (auto dest!: same_json_map [OF _ dump_resource_binding_eq] same_json_map [OF _ dump_step_eq] same_json_map [OF _ dump_perturbation_eq])

lemma dump_proposal_eq: "same_json (dump_proposal t) (dump_proposal u) \<Longrightarrow> t = u"
  unfolding dump_proposal_def
  by (erule same_json_fields) (auto dest!: dump_target_hashes_eq dump_hypothesis_eq same_json_map [OF _ dump_research_priority_eq] same_json_map [OF _ dump_program_eq])

lemma dump_finding_eq: "same_json (dump_finding t) (dump_finding u) \<Longrightarrow> t = u"
  unfolding dump_finding_def by (erule same_json_fields) simp_all

lemma dump_verdict_eq: "same_json (dump_verdict t) (dump_verdict u) \<Longrightarrow> t = u"
  unfolding dump_verdict_def
  by (erule same_json_fields) (auto dest!: same_json_map [OF _ dump_finding_eq])

lemma dump_argument_spec_eq: "same_json (dump_argument_spec t) (dump_argument_spec u) \<Longrightarrow> t = u"
  unfolding dump_argument_spec_def by (erule same_json_fields) simp_all

lemma dump_profile_eq: "same_json (dump_profile t) (dump_profile u) \<Longrightarrow> t = u"
  unfolding dump_profile_def by (erule same_json_fields) simp_all

lemma dump_resource_spec_eq: "same_json (dump_resource_spec t) (dump_resource_spec u) \<Longrightarrow> t = u"
  unfolding dump_resource_spec_def by (erule same_json_fields) simp_all

lemma dump_flag_spec_eq: "same_json (dump_flag_spec t) (dump_flag_spec u) \<Longrightarrow> t = u"
  unfolding dump_flag_spec_def by (erule same_json_fields) simp_all

lemma dump_operation_eq: "same_json (dump_operation t) (dump_operation u) \<Longrightarrow> t = u"
  unfolding dump_operation_def
  by (erule same_json_fields) (auto dest!: same_json_map [OF _ dump_argument_spec_eq])

lemma dump_contract_eq: "same_json (dump_contract t) (dump_contract u) \<Longrightarrow> t = u"
  unfolding dump_contract_def
  by (erule same_json_fields) (auto dest!: dump_target_hashes_eq same_json_map [OF _ dump_profile_eq] same_json_map [OF _ dump_resource_spec_eq] same_json_map [OF _ dump_flag_spec_eq] same_json_map [OF _ dump_operation_eq])

lemma dump_validation_record_eq: "same_json (dump_validation_record t) (dump_validation_record u) \<Longrightarrow> t = u"
  unfolding dump_validation_record_def by (erule same_json_fields) simp_all

lemma dump_trace_eq: "same_json (dump_trace t) (dump_trace u) \<Longrightarrow> t = u"
  unfolding dump_trace_def by (erule same_json_fields) simp_all

lemma dump_envelope_eq: "same_json (dump_envelope t) (dump_envelope u) \<Longrightarrow> t = u"
proof -
  assume a: "same_json (dump_envelope t) (dump_envelope u)"
  have v: "\<not> same_json JNull (dump_verdict x) \<and> \<not> same_json (dump_verdict x) JNull" for x
    by (simp add: dump_verdict_def)
  from a show "t = u"
    unfolding dump_envelope_def
    by (elim same_json_fields)
      (auto dest!: dump_target_hashes_eq dump_proposal_eq dump_verdict_eq
        same_json_optional [OF _ dump_verdict_eq v] same_json_optional [of JStr]
        same_json_map [OF _ dump_validation_record_eq] same_json_map [OF _ dump_trace_eq])
qed

lemma wf_strs [simp]: "wf_json (JList (map (\<lambda>x. JStr (f x)) xs))"
  by (simp add: list_all_iff)

lemma wf_dump_target_hashes [simp]: "wf_json (dump_target_hashes x)"
  by (simp add: dump_target_hashes_def list_all_iff comp_def)

lemma wf_dump_hypothesis [simp]: "wf_json (dump_hypothesis x)"
  by (simp add: dump_hypothesis_def list_all_iff comp_def)

lemma wf_dump_research_priority [simp]: "wf_json (dump_research_priority x)"
  by (simp add: dump_research_priority_def list_all_iff comp_def)

lemma wf_dump_argument [simp]: "wf_json (dump_argument x)"
  by (simp add: dump_argument_def list_all_iff comp_def)

lemma wf_dump_resource_binding [simp]: "wf_json (dump_resource_binding x)"
  by (simp add: dump_resource_binding_def list_all_iff comp_def)

lemma wf_dump_step [simp]: "wf_json (dump_step x)"
  by (simp add: dump_step_def list_all_iff comp_def)

lemma wf_dump_perturbation [simp]: "wf_json (dump_perturbation x)"
  by (simp add: dump_perturbation_def list_all_iff comp_def)

lemma wf_dump_program [simp]: "wf_json (dump_program x)"
  by (simp add: dump_program_def list_all_iff comp_def)

lemma wf_dump_proposal [simp]: "wf_json (dump_proposal x)"
  by (simp add: dump_proposal_def list_all_iff comp_def)

lemma wf_dump_finding [simp]: "wf_json (dump_finding x)"
  by (simp add: dump_finding_def list_all_iff comp_def)

lemma wf_dump_verdict [simp]: "wf_json (dump_verdict x)"
  by (simp add: dump_verdict_def list_all_iff comp_def)

lemma wf_dump_argument_spec [simp]: "wf_json (dump_argument_spec x)"
  by (simp add: dump_argument_spec_def list_all_iff comp_def)

lemma wf_dump_profile [simp]: "wf_json (dump_profile x)"
  by (simp add: dump_profile_def list_all_iff comp_def)

lemma wf_dump_resource_spec [simp]: "wf_json (dump_resource_spec x)"
  by (simp add: dump_resource_spec_def list_all_iff comp_def)

lemma wf_dump_flag_spec [simp]: "wf_json (dump_flag_spec x)"
  by (simp add: dump_flag_spec_def list_all_iff comp_def)

lemma wf_dump_operation [simp]: "wf_json (dump_operation x)"
  by (simp add: dump_operation_def list_all_iff comp_def)

lemma wf_dump_contract [simp]: "wf_json (dump_contract x)"
  by (simp add: dump_contract_def list_all_iff comp_def)

lemma wf_dump_validation_record [simp]: "wf_json (dump_validation_record x)"
  by (simp add: dump_validation_record_def list_all_iff comp_def)

lemma wf_dump_trace [simp]: "wf_json (dump_trace x)"
  by (simp add: dump_trace_def list_all_iff comp_def)

lemma wf_dump_envelope [simp]: "wf_json (dump_envelope e)"
  by (simp add: dump_envelope_def dump_optional_def list_all_iff split: option.split)

lemma same_bytes: "wf_json v \<Longrightarrow> wf_json w \<Longrightarrow> canonical_json v = canonical_json w \<Longrightarrow> same_json v w"
  unfolding same_json_def by (rule canonical_json_inject)

section \<open>Properties\<close>

text \<open>
  The canonical encoding identifies the document: two envelopes, proposals, verdicts or harness
  contracts with the same canonical JSON bytes are equal in every field, nested ones included.  So
  a digest of the bytes binds the whole document up to a collision of the hash alone.
\<close>

theorem wire_bytes_identify:
  "(canonical_json (dump_envelope e) = canonical_json (dump_envelope e') \<longleftrightarrow> e = e') \<and>
   (canonical_json (dump_proposal p) = canonical_json (dump_proposal p') \<longleftrightarrow> p = p') \<and>
   (canonical_json (dump_verdict v) = canonical_json (dump_verdict v') \<longleftrightarrow> v = v') \<and>
   (canonical_json (dump_contract c) = canonical_json (dump_contract c') \<longleftrightarrow> c = c')"
  by (auto dest!: same_bytes [OF wf_dump_envelope wf_dump_envelope] same_bytes [OF wf_dump_proposal wf_dump_proposal]
      same_bytes [OF wf_dump_verdict wf_dump_verdict] same_bytes [OF wf_dump_contract wf_dump_contract]
      dest: dump_envelope_eq dump_proposal_eq dump_verdict_eq dump_contract_eq)

text \<open>
  A telemetry packet that the wire contract accepts has exactly one summary for each lane, in
  some order, a worker count that its fleet can hold, and unambiguous evidence references.
\<close>

theorem telemetry_lane_summaries:
  assumes "valid_telemetry p"
  shows "(\<exists>a b. tp_lanes p = [a, b] \<and> {ls_lane a, ls_lane b} = {STABLE_COVERAGE, PROBABILISTIC_RACE} \<and>
      ls_lane a \<noteq> ls_lane b) \<and>
    fleet_workers_running (tp_fleet p) \<le> workers_expected (tp_fleet p) \<and>
    (\<forall>e \<in> set (tp_evidence p). \<forall>f \<in> set (tp_evidence p). ev_ref e = ev_ref f \<longrightarrow> e = f)"
proof -
  have l: "length (tp_lanes p) = 2" "set (map ls_lane (tp_lanes p)) = {STABLE_COVERAGE, PROBABILISTIC_RACE}"
    "distinct (map ls_lane (tp_lanes p))" and ev: "distinct (map ev_ref (tp_evidence p))"
    and fl: "workers_are_bounded (tp_fleet p)" "0 \<le> workers_stalled (tp_fleet p)"
    using assms by (auto simp: valid_telemetry_def len_between_def require_one_summary_per_lane_def valid_fleet_def)
  from l(1) obtain a b where ab: "tp_lanes p = [a, b]" by (auto simp: numeral_2_eq_2 length_Suc_conv)
  moreover have "{ls_lane a, ls_lane b} = {STABLE_COVERAGE, PROBABILISTIC_RACE}" "ls_lane a \<noteq> ls_lane b"
    using l(2,3) ab by simp_all
  moreover have "fleet_workers_running (tp_fleet p) \<le> workers_expected (tp_fleet p)"
    using fl by (simp add: workers_are_bounded_def)
  ultimately show ?thesis using ev by (auto simp: distinct_map inj_on_def)
qed

definition sample_lane :: "lane_kind \<Rightarrow> lane_summary" where
  "sample_lane l = \<lparr>ls_lane = l, lane_workers_running = 2, lane_executions_total = 1000,
     lane_executions_per_second_milli = 500, lane_queue_entries = 10, lane_paths_new_in_window = 1,
     novel_outcomes_in_window = 0, timeout_count = 0, instability_ppm = 10\<rparr>"

definition sample_hashes :: target_hashes where
  "sample_hashes = \<lparr>harness_hash = ''sha256:'' @ replicate 64 CHR ''a'',
     compiler_hash = ''sha256:'' @ replicate 64 CHR ''b'',
     op_table_hash = ''sha256:'' @ replicate 64 CHR ''c'',
     fleet_config_hash = ''sha256:'' @ replicate 64 CHR ''d''\<rparr>"

definition sample_packet :: telemetry_packet where
  "sample_packet = \<lparr>tp_packet_id = ''packet-1'', tp_packet_hash = ''sha256:'' @ replicate 64 CHR ''0'',
     tp_generated_at = ''2026-01-02T03:04:05Z'', tp_fleet_id = ''fleet'', tp_campaign_id = ''campaign'',
     tp_kernel_release = ''6.12'', tp_target_hashes = sample_hashes,
     tp_window = \<lparr>start_at = ''2026-01-02T02:04:05Z'', end_at = ''2026-01-02T03:04:05Z'', duration_seconds = 3600\<rparr>,
     tp_fleet = \<lparr>workers_expected = 8, fleet_workers_running = 6, workers_stalled = 1,
       fleet_executions_total = 2000, fleet_executions_per_second_milli = 900, fleet_queue_entries = 20,
       favored_entries = 5, pending_entries = 3\<rparr>,
     tp_coverage = \<lparr>paths_total = 100, cov_paths_new_in_window = 2, edges_total = 500,
       edges_new_in_window = 3, bitmap_density_ppm = 1200, corpus_bytes_total = 4096,
       corpus_entry_bytes_p50 = 30, corpus_entry_bytes_p95 = 200\<rparr>,
     tp_lanes = [sample_lane STABLE_COVERAGE, sample_lane PROBABILISTIC_RACE],
     tp_outcome_classes = [], 
     tp_evidence = [\<lparr>ev_ref = ''evidence:coverage.1'', ev_kind = COVERAGE_DELTA,
       ev_summary = ''Two new paths in the last hour.'', observation_count = 2\<rparr>],
     tp_prior = [], tp_externalization = \<lparr>redaction_version = ''redaction.v1''\<rparr>\<rparr>"

lemma telemetry_lane_summaries_witness:
  "\<exists>a b. tp_lanes sample_packet = [a, b] \<and> ls_lane a \<noteq> ls_lane b"
proof -
  have "valid_telemetry sample_packet" by code_simp
  from telemetry_lane_summaries [OF this] show ?thesis by blast
qed

end

