(* ===== verification/Codec.thy ===== *)
theory Codec
  imports Prelude
begin

text \<open>
  The byte codec of \<open>src/iou_ai/harness_codec.py\<close>: the canonical programs of the audited harness,
  the encoder with its table of operand names, the decoder with its independently written table of
  operand counts and its cursor loop, and the self test.  The interface \<open>byte_codec\<close> states the
  two round-trip laws the compiler and the execution authority rely on.
\<close>

section \<open>Programs\<close>

definition AUDITED_HARNESS_HASH :: string where
  "AUDITED_HARNESS_HASH =
     ''sha256:cbdebc2ae149cde0f9b0482a980d539031c7ea493c3ec8c7ff46832a5c09c180''"

definition RING_COUNT :: int where "RING_COUNT = 8"

definition OPERATION_COUNT :: int where "OPERATION_COUNT = 61"

definition MAX_OPERATIONS :: nat where "MAX_OPERATIONS = 96"

definition MAX_INPUT_BYTES :: nat where "MAX_INPUT_BYTES = 2048"

text \<open>The messages of \<open>HarnessCodecError\<close>.\<close>

datatype codec_error =
    HashNotAudited
  | NotAByte string
  | SelectorNotCanonical
  | OperandCountMismatch
  | RingNotCanonical
  | TooManyOperations
  | TooManyBytes
  | PayloadOmitsRing
  | PayloadTruncated
  | RoundTripFailed
  | EncoderTableIncomplete
  | DecoderTableIncomplete

record native_operation =
  selector :: int
  operands :: "int list"
  sqe_control :: int

record native_program =
  ring_selector :: int
  operations :: "native_operation list"

section \<open>The two grammar tables\<close>

definition ENCODER_OPERAND_NAMES :: "string list list" where
  "ENCODER_OPERAND_NAMES =
    [[],
     [''fd''],
     [''fd''],
     [''fd'', ''length''],
     [''fd''],
     [''fd'', ''datasync''],
     [''fd''],
     [''user_data''],
     [''flags'', ''count''],
     [''user_data''],
     [''fd''],
     [''fd''],
     [''fd''],
     [''fd''],
     [],
     [''input_fd'', ''output_fd''],
     [''input_fd'', ''output_fd''],
     [''fd''],
     [''buffer_group''],
     [''buffer_group''],
     [''fd''],
     [''fd''],
     [''accept_flags''],
     [],
     [''fd''],
     [''fd''],
     [''fd'', ''backlog''],
     [''socket_type''],
     [''fd'', ''how''],
     [''fd''],
     [''fd''],
     [''fd''],
     [''fd''],
     [''fd'', ''zc_flags''],
     [''fd''],
     [''user_data''],
     [''fd'', ''cancel_flags''],
     [''timeout_flags''],
     [''user_data''],
     [''flags'', ''new_user_data'', ''old_user_data''],
     [''fd''],
     [''fd'', ''buffer_index''],
     [''fd'', ''buffer_index''],
     [''offset'', ''count''],
     [''fd''],
     [''file_index''],
     [''fd''],
     [''data'', ''length''],
     [''fd'', ''file_index''],
     [],
     [''expected_value''],
     [],
     [],
     [],
     [''unlink_flags''],
     [],
     [],
     [''fd''],
     [''fd'', ''length_units''],
     [],
     [''register_opcode'', ''register_count'']]"

definition DECODER_OPERAND_COUNTS :: "nat list" where
  "DECODER_OPERAND_COUNTS =
    [0, 1, 1, 2, 1, 2, 1, 1, 2, 1,
     1, 1, 1, 1, 0, 2, 2, 1, 1, 1,
     1, 1, 1, 0, 1, 1, 2, 1, 2, 1,
     1, 1, 1, 2, 1, 1, 2, 1, 1, 3,
     1, 2, 2, 2, 1, 1, 1, 2, 2, 0,
     1, 0, 0, 0, 1, 0, 0, 1, 2, 0,
     2]"

section \<open>The encoder\<close>

definition require_int_byte :: "int \<Rightarrow> string \<Rightarrow> codec_error + unit" where
  "require_int_byte value label =
     (if \<not> (0 \<le> value \<and> value \<le> 255) then Inl (NotAByte label) else Inr ())"

definition operand_names :: "int \<Rightarrow> codec_error + string list" where
  "operand_names sel =
     bindR (require_int_byte sel ''operation selector'') (\<lambda>_.
       if sel \<ge> OPERATION_COUNT then Inl SelectorNotCanonical
       else Inr (ENCODER_OPERAND_NAMES ! nat sel))"

definition require_hash :: "string \<Rightarrow> codec_error + unit" where
  "require_hash harness_hash =
     (if harness_hash \<noteq> AUDITED_HARNESS_HASH then Inl HashNotAudited else Inr ())"

definition canonical_operation :: "native_operation \<Rightarrow> codec_error + bytes" where
  "canonical_operation opn =
     bindR (require_int_byte (selector opn) ''operation selector'') (\<lambda>_.
       if selector opn \<ge> OPERATION_COUNT then Inl SelectorNotCanonical
       else if length (operands opn) \<noteq> length (ENCODER_OPERAND_NAMES ! nat (selector opn))
       then Inl OperandCountMismatch
       else
         bindR (traverse (\<lambda>v. require_int_byte v ''operand'') (operands opn)) (\<lambda>_.
         bindR (require_int_byte (sqe_control opn) ''SQE control'') (\<lambda>_.
           Inr (map word_of_int (selector opn # operands opn @ [sqe_control opn])))))"

definition encode_program :: "native_program \<Rightarrow> string \<Rightarrow> codec_error + bytes" where
  "encode_program program harness_hash =
     bindR (require_hash harness_hash) (\<lambda>_.
     bindR (require_int_byte (ring_selector program) ''ring selector'') (\<lambda>_.
       if ring_selector program \<ge> RING_COUNT then Inl RingNotCanonical
       else if length (operations program) > MAX_OPERATIONS then Inl TooManyOperations
       else
         bindR (traverse canonical_operation (operations program)) (\<lambda>parts.
           let payload = word_of_int (ring_selector program) # concat parts
           in if length payload > MAX_INPUT_BYTES then Inl TooManyBytes else Inr payload)))"

section \<open>The decoder\<close>

text \<open>
  The \<open>while cursor < len(payload)\<close> loop, with the cursor and the operations read so far.
  \<open>payload[cursor:end]\<close> is a slice.
\<close>

function decode_loop ::
  "bytes \<Rightarrow> nat \<Rightarrow> native_operation list \<Rightarrow> codec_error + native_operation list" where
  "decode_loop payload cursor ops =
     (if \<not> cursor < length payload then Inr ops
      else if length ops \<ge> MAX_OPERATIONS then Inl TooManyOperations
      else
        (let sel = uint (payload ! cursor); cursor = cursor + 1 in
         if sel \<ge> OPERATION_COUNT then Inl SelectorNotCanonical
         else
           (let operand_count = DECODER_OPERAND_COUNTS ! nat sel;
                endp = cursor + operand_count in
            if endp \<ge> length payload then Inl PayloadTruncated
            else
              decode_loop payload (endp + 1)
                (ops @ [\<lparr>selector = sel,
                         operands = map uint (take operand_count (drop cursor payload)),
                         sqe_control = uint (payload ! endp)\<rparr>]))))"
  by pat_completeness auto
termination
  by (relation "measure (\<lambda>(payload, cursor, ops). length payload - cursor)") auto

declare decode_loop.simps [simp del]

definition decode_program :: "bytes \<Rightarrow> string \<Rightarrow> codec_error + native_program" where
  "decode_program payload harness_hash =
     bindR (require_hash harness_hash) (\<lambda>_.
       if payload = [] then Inl PayloadOmitsRing
       else if length payload > MAX_INPUT_BYTES then Inl TooManyBytes
       else
         (let ring = uint (payload ! 0) in
          if ring \<ge> RING_COUNT then Inl RingNotCanonical
          else
            bindR (decode_loop payload 1 []) (\<lambda>ops.
              Inr \<lparr>ring_selector = ring, operations = ops\<rparr>)))"

section \<open>The self test\<close>

fun verify_programs :: "native_program list \<Rightarrow> string \<Rightarrow> codec_error + unit" where
  "verify_programs [] harness_hash = Inr ()"
| "verify_programs (p # ps) harness_hash =
     bindR (encode_program p harness_hash) (\<lambda>payload.
     bindR (decode_program payload harness_hash) (\<lambda>decoded.
       if decoded \<noteq> p then Inl RoundTripFailed else verify_programs ps harness_hash))"

definition verify_round_trip :: "native_program list \<Rightarrow> string \<Rightarrow> codec_error + unit" where
  "verify_round_trip programs harness_hash =
     bindR (require_hash harness_hash) (\<lambda>_. verify_programs programs harness_hash)"

text \<open>\<open>x & 0xFF\<close> on a non-negative integer is \<open>x mod 256\<close>.\<close>

definition golden_program :: "nat \<Rightarrow> native_program" where
  "golden_program sel =
     \<lparr>ring_selector = int sel mod RING_COUNT,
      operations =
        [\<lparr>selector = int sel,
          operands = map (\<lambda>index. (int sel * 17 + int index * 29) mod 256)
            [0..<length (ENCODER_OPERAND_NAMES ! sel)],
          sqe_control = (int sel * 7) mod 256\<rparr>]\<rparr>"

definition verify_audited_codec :: "codec_error + unit" where
  "verify_audited_codec =
     (if int (length ENCODER_OPERAND_NAMES) \<noteq> OPERATION_COUNT then Inl EncoderTableIncomplete
      else if int (length DECODER_OPERAND_COUNTS) \<noteq> OPERATION_COUNT then Inl DecoderTableIncomplete
      else verify_round_trip (map golden_program [0..<nat OPERATION_COUNT]) AUDITED_HARNESS_HASH)"

section \<open>What a canonical program is\<close>

text \<open>
  The specification the encoder and the decoder are measured against: the programs of the audited
  grammar and the bytes they stand for.
\<close>

definition is_byte :: "int \<Rightarrow> bool" where
  "is_byte v \<longleftrightarrow> 0 \<le> v \<and> v \<le> 255"

definition canonical_op :: "native_operation \<Rightarrow> bool" where
  "canonical_op opn \<longleftrightarrow>
     0 \<le> selector opn \<and> selector opn < 61 \<and>
     length (operands opn) = length (ENCODER_OPERAND_NAMES ! nat (selector opn)) \<and>
     list_all is_byte (operands opn) \<and> is_byte (sqe_control opn)"

definition op_bytes :: "native_operation \<Rightarrow> bytes" where
  "op_bytes opn = map word_of_int (selector opn # operands opn @ [sqe_control opn])"

definition canonical_program :: "native_program \<Rightarrow> bool" where
  "canonical_program p \<longleftrightarrow>
     0 \<le> ring_selector p \<and> ring_selector p < 8 \<and>
     length (operations p) \<le> 96 \<and> list_all canonical_op (operations p)"

definition program_bytes :: "native_program \<Rightarrow> bytes" where
  "program_bytes p = word_of_int (ring_selector p) # concat (map op_bytes (operations p))"

section \<open>Lemmas on the tables\<close>

lemma tables_agree: "map length ENCODER_OPERAND_NAMES = DECODER_OPERAND_COUNTS"
  by (simp add: ENCODER_OPERAND_NAMES_def DECODER_OPERAND_COUNTS_def)

lemma length_tables [simp]:
  "length ENCODER_OPERAND_NAMES = 61" "length DECODER_OPERAND_COUNTS = 61"
  by (simp_all add: ENCODER_OPERAND_NAMES_def DECODER_OPERAND_COUNTS_def)

lemma table_lookup:
  assumes "i < 61"
  shows "length (ENCODER_OPERAND_NAMES ! i) = DECODER_OPERAND_COUNTS ! i"
  using assms nth_map [of i ENCODER_OPERAND_NAMES length] by (simp add: tables_agree)

lemma operand_counts_small: "i < 61 \<Longrightarrow> DECODER_OPERAND_COUNTS ! i \<le> 3"
proof -
  assume "i < 61"
  then have "DECODER_OPERAND_COUNTS ! i \<in> set DECODER_OPERAND_COUNTS" by simp
  moreover have "\<forall>n \<in> set DECODER_OPERAND_COUNTS. n \<le> 3"
    by (simp add: DECODER_OPERAND_COUNTS_def)
  ultimately show ?thesis by blast
qed

lemma operand_names_Inr:
  "operand_names sel = Inr ns \<longleftrightarrow>
     0 \<le> sel \<and> sel < 61 \<and> ns = ENCODER_OPERAND_NAMES ! nat sel"
  by (auto simp: operand_names_def require_int_byte_def OPERATION_COUNT_def)

section \<open>The encoder meets the specification\<close>

lemma uint_word_of_int_byte: "is_byte v \<Longrightarrow> uint (word_of_int v :: 8 word) = v"
  by (simp add: is_byte_def uint_word_of_int take_bit_eq_mod)

lemma map_uint_word_of_int:
  "list_all is_byte vs \<Longrightarrow> map uint (map word_of_int vs :: bytes) = vs"
  by (induction vs) (simp_all add: uint_word_of_int_byte)

lemma uint_is_byte [simp]: "is_byte (uint (w :: 8 word))"
  using uint_lt2p [of w] by (simp add: is_byte_def)

lemma require_int_byte_Inr [simp]: "require_int_byte v l = Inr x \<longleftrightarrow> is_byte v"
  by (auto simp: require_int_byte_def is_byte_def)

lemma require_hash_Inr [simp]: "require_hash h = Inr x \<longleftrightarrow> h = AUDITED_HARNESS_HASH"
  by (auto simp: require_hash_def)

lemma traverse_require_bytes:
  "(\<exists>us. traverse (\<lambda>v. require_int_byte v l) vs = Inr us) \<longleftrightarrow> list_all is_byte vs"
  using traverse_is_ok [of "\<lambda>v. require_int_byte v l" vs]
  by (simp add: is_ok_iff list_all_iff)

lemma canonical_operation_Inr [simp]:
  "canonical_operation opn = Inr b \<longleftrightarrow> canonical_op opn \<and> b = op_bytes opn"
  using traverse_require_bytes [of "''operand''" "operands opn"]
  by (auto simp: canonical_operation_def canonical_op_def op_bytes_def is_byte_def
      OPERATION_COUNT_def)

lemma traverse_canonical_operation [simp]:
  "traverse canonical_operation ops = Inr bs \<longleftrightarrow>
     list_all canonical_op ops \<and> bs = map op_bytes ops"
  by (induction ops arbitrary: bs) (auto simp: traverse_Cons_Inr simp del: traverse.simps(2))

lemma traverse_eq_Inl: "traverse f xs = Inl e \<Longrightarrow> \<exists>x \<in> set xs. f x = Inl e"
  by (induction xs) (auto simp: bindR_eq_Inl)

lemma canonical_operation_not_TooManyBytes: "canonical_operation opn \<noteq> Inl TooManyBytes"
  by (auto simp: canonical_operation_def bindR_eq_Inl require_int_byte_def dest!: traverse_eq_Inl
      split: if_splits)

lemma length_op_bytes: "canonical_op opn \<Longrightarrow> 2 \<le> length (op_bytes opn) \<and> length (op_bytes opn) \<le> 5"
  using operand_counts_small [of "nat (selector opn)"]
  by (auto simp: op_bytes_def canonical_op_def table_lookup)

lemma length_concat_op_bytes:
  "list_all canonical_op ops \<Longrightarrow>
     2 * length ops \<le> length (concat (map op_bytes ops)) \<and>
     length (concat (map op_bytes ops)) \<le> 5 * length ops"
proof (induction ops)
  case Nil
  then show ?case by simp
next
  case (Cons opn ops)
  then show ?case using length_op_bytes [of opn] by simp
qed

lemma length_program_bytes:
  "canonical_program p \<Longrightarrow>
     length (program_bytes p) \<le> 5 * length (operations p) + 1 \<and> length (program_bytes p) \<le> 481"
  using length_concat_op_bytes [of "operations p"]
  by (simp add: canonical_program_def program_bytes_def)

lemma encode_program_Inr:
  "encode_program p h = Inr b \<longleftrightarrow>
     h = AUDITED_HARNESS_HASH \<and> canonical_program p \<and> b = program_bytes p"
  using length_program_bytes [of p]
  by (auto simp: encode_program_def canonical_program_def program_bytes_def is_byte_def Let_def
      RING_COUNT_def MAX_OPERATIONS_def MAX_INPUT_BYTES_def)

section \<open>The decoder meets the specification\<close>

lemma decode_loop_bytes:
  assumes "list_all canonical_op rest" and "length acc + length rest \<le> 96"
  shows "decode_loop (pre @ concat (map op_bytes rest)) (length pre) acc = Inr (acc @ rest)"
  using assms
proof (induction rest arbitrary: pre acc)
  case Nil
  then show ?case by (simp add: decode_loop.simps)
next
  case (Cons opn rest)
  let ?tail = "concat (map op_bytes rest)"
  let ?n = "length (operands opn)"
  have opn: "0 \<le> selector opn" "selector opn < 61" "list_all is_byte (operands opn)"
    "is_byte (sqe_control opn)" "DECODER_OPERAND_COUNTS ! nat (selector opn) = ?n"
    using Cons.prems(1) by (auto simp: canonical_op_def table_lookup)
  have sel: "uint (word_of_int (selector opn) :: 8 word) = selector opn"
    using opn by (intro uint_word_of_int_byte) (simp add: is_byte_def)
  define P where "P = pre @ concat (map op_bytes (opn # rest))"
  have pay: "P = pre @ word_of_int (selector opn) # map word_of_int (operands opn) @
      word_of_int (sqe_control opn) # ?tail"
    by (simp add: P_def op_bytes_def)
  have nth1: "uint (P ! length pre) = selector opn"
    unfolding pay by (simp add: sel)
  have nth2: "uint (P ! Suc (length pre + ?n)) = sqe_control opn"
    unfolding pay by (simp add: nth_append uint_word_of_int_byte opn)
  have slice: "map uint (take ?n (drop (Suc (length pre)) P)) = operands opn"
    unfolding pay using opn by (simp add: map_uint_word_of_int del: map_map)
  have len: "length P = length pre + 2 + ?n + length ?tail"
    unfolding pay by simp
  have opn': "\<not> 61 \<le> selector opn" using opn by simp
  have eta: "\<lparr>selector = selector opn, operands = operands opn, sqe_control = sqe_control opn\<rparr> = opn"
    by (cases opn) simp
  have "decode_loop P (length pre) acc = decode_loop P (length (pre @ op_bytes opn)) (acc @ [opn])"
    using Cons.prems(2) opn'
    by (subst decode_loop.simps)
      (simp add: nth1 nth2 slice len opn eta Let_def OPERATION_COUNT_def MAX_OPERATIONS_def op_bytes_def)
  also have "\<dots> = Inr ((acc @ [opn]) @ rest)"
    using Cons.IH [of "acc @ [opn]" "pre @ op_bytes opn"] Cons.prems by (simp add: P_def)
  finally show ?case by (simp add: P_def)
qed

lemma decode_loop_Inr:
  assumes "decode_loop payload cursor acc = Inr ops" and "cursor \<le> length payload"
  shows "\<exists>rest. ops = acc @ rest \<and> list_all canonical_op rest \<and>
    drop cursor payload = concat (map op_bytes rest) \<and> (rest \<noteq> [] \<longrightarrow> length ops \<le> 96)"
  using assms
proof (induction payload cursor acc rule: decode_loop.induct)
  case (1 payload cursor acc)
  let ?sel = "uint (payload ! cursor)"
  let ?n = "DECODER_OPERAND_COUNTS ! nat ?sel"
  let ?opn = "\<lparr>selector = ?sel, operands = map uint (take ?n (drop (cursor + 1) payload)),
      sqe_control = uint (payload ! (cursor + 1 + ?n))\<rparr>"
  show ?case
  proof (cases "cursor < length payload")
    case False
    with "1.prems" show ?thesis by (simp add: decode_loop.simps [of payload cursor])
  next
    case True
    with "1.prems"(1) have guards: "length acc < 96" "?sel < 61" "cursor + 1 + ?n < length payload"
      and rec: "decode_loop payload (cursor + 1 + ?n + 1) (acc @ [?opn]) = Inr ops"
      by (auto simp: decode_loop.simps [of payload cursor] Let_def OPERATION_COUNT_def
          MAX_OPERATIONS_def not_le split: if_splits)
    obtain rest where rest: "ops = (acc @ [?opn]) @ rest" "list_all canonical_op rest"
      "drop (cursor + 1 + ?n + 1) payload = concat (map op_bytes rest)"
      "rest \<noteq> [] \<longrightarrow> length ops \<le> 96"
      using "1.IH" [OF _ _ refl refl _ refl refl] True guards rec
      by (auto simp: OPERATION_COUNT_def MAX_OPERATIONS_def not_le)
    have "nat ?sel < 61" using guards(2) by linarith
    from table_lookup [OF this] have lookup: "length (ENCODER_OPERAND_NAMES ! nat ?sel) = ?n" .
    have canon: "canonical_op ?opn"
      using guards lookup by (simp add: canonical_op_def list_all_iff)
    have "drop cursor payload = payload ! cursor # drop (cursor + 1) payload"
      using True by (simp add: Cons_nth_drop_Suc)
    also have "drop (cursor + 1) payload =
        take ?n (drop (cursor + 1) payload) @ drop (cursor + 1 + ?n) payload"
      by (metis append_take_drop_id drop_drop add.commute)
    also have "drop (cursor + 1 + ?n) payload =
        payload ! (cursor + 1 + ?n) # drop (cursor + 1 + ?n + 1) payload"
      using guards by (simp add: Cons_nth_drop_Suc)
    finally have "drop cursor payload = concat (map op_bytes (?opn # rest))"
      by (simp add: op_bytes_def rest(3) [symmetric] comp_def)
    with rest canon guards show ?thesis
      by (intro exI [of _ "?opn # rest"]) (cases rest; simp)
  qed
qed

lemma decode_program_Inr:
  "decode_program b h = Inr p \<longleftrightarrow>
     h = AUDITED_HARNESS_HASH \<and> canonical_program p \<and> b = program_bytes p"
proof
  assume dec: "decode_program b h = Inr p"
  then obtain ops where b: "b \<noteq> []" and h: "h = AUDITED_HARNESS_HASH" and ring: "uint (b ! 0) < 8"
    and loop: "decode_loop b 1 [] = Inr ops"
    and p: "p = \<lparr>ring_selector = uint (b ! 0), operations = ops\<rparr>"
    by (auto simp: decode_program_def Let_def RING_COUNT_def not_le)
  from b have "1 \<le> length b" by (cases b) auto
  from decode_loop_Inr [OF loop this] obtain rest where "ops = [] @ rest" "list_all canonical_op rest"
    "drop 1 b = concat (map op_bytes rest)" "rest \<noteq> [] \<longrightarrow> length ops \<le> 96" by blast
  then have ops: "list_all canonical_op ops" "drop 1 b = concat (map op_bytes ops)"
    "length ops \<le> 96"
    by (simp, simp, cases rest) simp_all
  obtain w ws where wb: "b = w # ws" using b by (cases b) auto
  with ops(2) p have bytes: "b = program_bytes p" by (simp add: program_bytes_def)
  have "canonical_program p" using ops ring by (simp add: p canonical_program_def)
  with h bytes show "h = AUDITED_HARNESS_HASH \<and> canonical_program p \<and> b = program_bytes p"
    by simp
next
  assume asm: "h = AUDITED_HARNESS_HASH \<and> canonical_program p \<and> b = program_bytes p"
  then have c: "canonical_program p" by simp
  have "decode_loop ([word_of_int (ring_selector p)] @ concat (map op_bytes (operations p)))
      (length [word_of_int (ring_selector p) :: 8 word]) [] = Inr ([] @ operations p)"
    using c by (intro decode_loop_bytes) (auto simp: canonical_program_def)
  moreover have "uint (word_of_int (ring_selector p) :: 8 word) = ring_selector p"
    using c by (intro uint_word_of_int_byte) (simp add: canonical_program_def is_byte_def)
  ultimately show "decode_program b h = Inr p"
    using asm c length_program_bytes [OF c]
    by (simp add: decode_program_def program_bytes_def RING_COUNT_def canonical_program_def
        MAX_INPUT_BYTES_def require_hash_def)
qed

section \<open>The interface\<close>

text \<open>
  What a client of a codec may use: the encoder and the decoder are partial inverses of each other.
\<close>

locale byte_codec =
  fixes enc :: "'p \<Rightarrow> 'e + bytes"
    and dec :: "bytes \<Rightarrow> 'e + 'p"
  assumes enc_dec: "enc p = Inr b \<longleftrightarrow> dec b = Inr p"
begin

lemma redecode: "enc p = Inr b \<Longrightarrow> dec b = Inr p"
  by (simp add: enc_dec)

lemma reencode: "dec b = Inr p \<Longrightarrow> enc p = Inr b"
  by (simp add: enc_dec)

lemma enc_injective: "enc p = Inr b \<Longrightarrow> enc q = Inr b \<Longrightarrow> p = q"
  by (simp add: enc_dec)

lemma dec_injective: "dec a = Inr p \<Longrightarrow> dec b = Inr p \<Longrightarrow> a = b"
  using enc_dec [of p a] enc_dec [of p b] by simp

lemma checked_redecode: "enc p = Inr b \<Longrightarrow> bindR (dec b) k = k p"
  by (simp add: redecode)

lemma checked_reencode: "dec b = Inr p \<Longrightarrow> bindR (enc p) k = k b"
  by (simp add: reencode)

end

interpretation harness: byte_codec "\<lambda>p. encode_program p h" "\<lambda>b. decode_program b h"
  for h
  by unfold_locales (auto simp: encode_program_Inr decode_program_Inr)

section \<open>The self test\<close>

lemma verify_audited_codec_ok: "verify_audited_codec = Inr ()"
proof -
  have "verify_programs ps AUDITED_HARNESS_HASH = Inr ()" if "list_all canonical_program ps" for ps
    using that by (induction ps) (auto simp: encode_program_Inr decode_program_Inr)
  moreover have "list_all canonical_program (map golden_program [0..<61])"
    by (auto simp: list_all_iff golden_program_def canonical_program_def canonical_op_def
        is_byte_def RING_COUNT_def)
  ultimately show ?thesis
    by (simp add: verify_audited_codec_def verify_round_trip_def OPERATION_COUNT_def require_hash_def)
qed

section \<open>Properties\<close>

text \<open>
  C14: the codec round trip.  For every harness hash, program and byte string, the encoder
  produces the bytes from the program exactly when the strict decoder produces the program from
  the bytes; so no two programs share bytes and no two byte strings share a program.
\<close>

theorem encode_decode_round_trip:
  "encode_program p h = Inr b \<longleftrightarrow> decode_program b h = Inr p"
  by (rule harness.enc_dec)

text \<open>
  exactly the canonical programs are encodable, and only for the audited ELF: the hash is the
  audited one, the ring selector is below 8, there are at most 96 operations, every operation has
  a selector below 61, as many operands as the audited grammar says, and byte operands.
\<close>

lemma encode_accepts_canonical:
  "is_ok (encode_program p h) \<longleftrightarrow> h = AUDITED_HARNESS_HASH \<and> canonical_program p"
  by (auto simp: is_ok_iff encode_program_Inr)

text \<open>
  The harness input limit cannot be exceeded by a canonical program: the operation limit
  already bounds the payload by 481 bytes, so the encoder's byte-maximum check never fires.
\<close>

theorem encoder_byte_limit_unreachable:
  "encode_program p h \<noteq> Inl TooManyBytes"
proof
  assume "encode_program p h = Inl TooManyBytes"
  then have "canonical_program p" and "MAX_INPUT_BYTES < length (program_bytes p)"
    by (auto simp: encode_program_def bindR_eq_Inl require_hash_def require_int_byte_def Let_def
        canonical_program_def program_bytes_def RING_COUNT_def MAX_OPERATIONS_def not_le
        canonical_operation_not_TooManyBytes is_byte_def dest!: traverse_eq_Inl split: if_splits)
  with length_program_bytes [of p] show False by (simp add: MAX_INPUT_BYTES_def)
qed

text \<open>
  The self test the compiler and the contract builder run passes: the two grammar tables are
  complete and all 61 golden single-operation programs round-trip.
\<close>

theorem audited_codec_verifies: "verify_audited_codec = Inr ()"
  by (rule verify_audited_codec_ok)

end
