(* ===== verification/Store.thy ===== *)
theory Store
  imports Canonical
begin

text \<open>
  Directories as the create-only stores see them (\<open>quarantine.py\<close>, \<open>artifacts.py\<close>,
  \<open>decisions.py\<close>, \<open>events.py\<close>, \<open>promoter.py\<close>): an association list from names to nodes, the three
  system calls the stores use, and the interface \<open>object_store\<close> of a content-addressed store.
\<close>

section \<open>Directories\<close>

text \<open>A symbolic link carries what a read that follows it returns, None when that fails.\<close>

datatype node = RegularFile bytes | Symlink "bytes option" | Directory

type_synonym directory = "(string \<times> node) list"

text \<open>\<open>os.open(path, O_RDONLY | O_NOFOLLOW)\<close>: None for OSError, which a symbolic link raises too.\<close>

definition open_nofollow :: "directory \<Rightarrow> string \<Rightarrow> node option" where
  "open_nofollow d name =
     (case map_of d name of
        None \<Rightarrow> None
      | Some (Symlink _) \<Rightarrow> None
      | Some n \<Rightarrow> Some n)"

text \<open>\<open>Path.read_bytes()\<close> follows links.\<close>

definition read_bytes :: "directory \<Rightarrow> string \<Rightarrow> bytes option" where
  "read_bytes d name =
     (case map_of d name of
        Some (RegularFile b) \<Rightarrow> Some b
      | Some (Symlink t) \<Rightarrow> t
      | _ \<Rightarrow> None)"

text \<open>\<open>O_CREAT | O_EXCL\<close> refuses any existing name, a link included.\<close>

definition exists_name :: "directory \<Rightarrow> string \<Rightarrow> bool" where
  "exists_name d name \<longleftrightarrow> map_of d name \<noteq> None"

definition create_file :: "directory \<Rightarrow> string \<Rightarrow> bytes \<Rightarrow> directory" where
  "create_file d name payload = d @ [(name, RegularFile payload)]"

text \<open>Whether writing and syncing the new file succeeds; on a failure it is unlinked again.\<close>

datatype write_outcome = WriteOk | WriteFails

definition regular_only :: "directory \<Rightarrow> bool" where
  "regular_only d \<longleftrightarrow> (\<forall>(name, n) \<in> set d. \<exists>b. n = RegularFile b)"

lemma open_nofollow_regular [simp]:
  "open_nofollow d name = Some (RegularFile b) \<longleftrightarrow> map_of d name = Some (RegularFile b)"
  by (auto simp: open_nofollow_def split: option.splits node.splits)

lemma open_nofollow_mono:
  "map_of d \<subseteq>\<^sub>m map_of d' \<Longrightarrow> open_nofollow d name = Some n \<Longrightarrow> open_nofollow d' name = Some n"
  by (auto simp: open_nofollow_def map_le_def dom_def split: option.splits node.splits)

lemma map_of_create_file:
  "\<not> exists_name d name \<Longrightarrow> map_of (create_file d name b) = (map_of d)(name \<mapsto> RegularFile b)"
  by (auto simp: create_file_def exists_name_def map_add_def fun_eq_iff split: option.splits)

lemma create_file_keeps: "\<not> exists_name d name \<Longrightarrow> map_of d \<subseteq>\<^sub>m map_of (create_file d name b)"
  by (simp add: map_of_create_file map_le_def exists_name_def dom_def)

lemma regular_only_create [simp]: "regular_only (create_file d name b) \<longleftrightarrow> regular_only d"
  by (auto simp: regular_only_def create_file_def)

lemma regular_only_Nil [simp]: "regular_only []"
  by (simp add: regular_only_def)

lemma regular_only_lookup:
  "regular_only d \<Longrightarrow> map_of d name = Some n \<Longrightarrow> \<exists>b. n = RegularFile b"
  by (auto simp: regular_only_def dest: map_of_SomeD)

section \<open>Bounded reads and create-only writes\<close>

text \<open>
  The reads and writes the stores share: open without following links, a regular file of at most
  \<open>m\<close> bytes; and a write that creates the name, or accepts it when it holds the same bytes already.
\<close>

datatype read_failure = Unavailable | NotRegular | TooLarge

definition read_bounded :: "int \<Rightarrow> directory \<Rightarrow> string \<Rightarrow> read_failure + bytes" where
  "read_bounded m d name =
     (case open_nofollow d name of
        None \<Rightarrow> Inl Unavailable
      | Some (RegularFile b) \<Rightarrow> if int (length b) > m then Inl TooLarge else Inr b
      | Some _ \<Rightarrow> Inl NotRegular)"

datatype create_failure = ReadBack read_failure | Mutated | WriteError

definition create_only :: "write_outcome \<Rightarrow> directory \<Rightarrow> string \<Rightarrow> bytes \<Rightarrow> create_failure + directory" where
  "create_only w d name payload =
     (if exists_name d name then
        bindR (wrapR ReadBack (read_bounded (max (int (length payload)) 1) d name)) (\<lambda>existing.
          if existing \<noteq> payload then Inl Mutated else Inr d)
      else if w = WriteFails then Inl WriteError
      else Inr (create_file d name payload))"

lemma read_bounded_Inr [simp]:
  "read_bounded m d name = Inr b \<longleftrightarrow> map_of d name = Some (RegularFile b) \<and> int (length b) \<le> m"
  by (auto simp: read_bounded_def open_nofollow_def split: option.splits node.splits)

lemma create_only_Inr:
  "create_only w d name b = Inr d' \<Longrightarrow>
     map_of d' name = Some (RegularFile b) \<and> map_of d \<subseteq>\<^sub>m map_of d' \<and> (regular_only d \<longrightarrow> regular_only d')"
  by (auto simp: create_only_def map_of_create_file map_le_def exists_name_def split: if_splits)

lemma create_only_fresh:
  "\<not> exists_name d name \<Longrightarrow> create_only WriteOk d name b = Inr (create_file d name b)"
  by (simp add: create_only_def)

text \<open>Writing the same bytes again changes nothing, whatever the outcome of writes.\<close>

lemma create_only_again:
  "map_of d name = Some (RegularFile b) \<Longrightarrow> create_only w d name b = Inr d"
proof -
  assume d: "map_of d name = Some (RegularFile b)"
  then have "read_bounded (max (int (length b)) 1) d name = Inr b" by simp
  with d show ?thesis by (simp add: create_only_def exists_name_def)
qed

section \<open>Content-addressed stores\<close>

text \<open>
  What a client of a store relies on: \<open>put\<close> returns the key of the object and changes no other
  name, what \<open>put\<close> stored can be read back (up to the normal form \<open>norm\<close> of the encoding) while
  the directory holds plain files, reading depends only on the entries present, and the key of an
  object is a function of the object read.
\<close>

locale object_store =
  fixes put :: "'v \<Rightarrow> directory \<Rightarrow> 'e + string \<times> directory"
    and get :: "directory \<Rightarrow> string \<Rightarrow> 'e + 'v"
    and norm :: "'v \<Rightarrow> 'v"
    and storable :: "'v \<Rightarrow> bool"
    and key :: "'v \<Rightarrow> string"
  assumes put_get:
      "storable v \<Longrightarrow> regular_only d \<Longrightarrow> put v d = Inr (k, d') \<Longrightarrow> get d' k = Inr (norm v)"
    and put_keeps: "put v d = Inr (k, d') \<Longrightarrow> map_of d \<subseteq>\<^sub>m map_of d'"
    and put_regular: "put v d = Inr (k, d') \<Longrightarrow> regular_only d \<Longrightarrow> regular_only d'"
    and get_mono: "map_of d \<subseteq>\<^sub>m map_of d' \<Longrightarrow> get d k = Inr v \<Longrightarrow> get d' k = Inr v"
    and get_key: "get d k = Inr v \<Longrightarrow> key v = k"
begin

text \<open>One step of a store's life is a \<open>put\<close> that returned.\<close>

inductive put_step :: "directory \<Rightarrow> directory \<Rightarrow> bool" where
  "put v d = Inr (k, d') \<Longrightarrow> put_step d d'"

lemma history_keeps: "put_step\<^sup>*\<^sup>* d d' \<Longrightarrow> map_of d \<subseteq>\<^sub>m map_of d'"
  by (induction rule: rtranclp_induct) (auto elim!: put_step.cases intro: map_le_trans put_keeps)

lemma history_regular: "put_step\<^sup>*\<^sup>* d d' \<Longrightarrow> regular_only d \<Longrightarrow> regular_only d'"
  by (induction rule: rtranclp_induct) (auto elim!: put_step.cases intro: put_regular)

text \<open>An object is readable under its key from the moment it is stored, in every later state.\<close>

lemma durable:
  assumes "storable v" and "regular_only d" and "put v d = Inr (k, d')" and "put_step\<^sup>*\<^sup>* d' d''"
  shows "get d'' k = Inr (norm v)"
  using get_mono [OF history_keeps [OF assms(4)] put_get [OF assms(1-3)]] .

text \<open>What is read under a key never changes.\<close>

lemma stable:
  "get d k = Inr v \<Longrightarrow> put_step\<^sup>*\<^sup>* d d' \<Longrightarrow> get d' k = Inr v"
  using get_mono history_keeps by blast

end

end
