(* ===== verification/Contract.thy ===== *)
theory Contract
  imports Models Codec Store
begin

text \<open>
  The contract builder of \<open>src/iou_ai/contract.py\<close>: the tables of the audited harness, the checks of
  the authority snapshot, and the contract they yield.  The authority directory is a \<open>directory\<close> of
  \<open>Store\<close>, the three implementation files whose digests are bound are arguments.  File names are
  strings of characters below code point 256.
\<close>

section \<open>Tables\<close>

definition SUPPORTED_SOURCE_HASH :: string where
  "SUPPORTED_SOURCE_HASH =
     ''sha256:64ba43a293ad00c1abb26fb3181ed8a24db2e59392382807466708b4625a5caf''"

definition SUPPORTED_ELF_HASH :: string where
  "SUPPORTED_ELF_HASH =
     ''sha256:cbdebc2ae149cde0f9b0482a980d539031c7ea493c3ec8c7ff46832a5c09c180''"

definition LANES :: "lane_kind list" where
  "LANES = [STABLE_COVERAGE, PROBABILISTIC_RACE]"

definition PROFILES :: "(string \<times> int \<times> string list \<times> string) list" where
  "PROFILES =
    [(''single_issuer_defer_coop'', 0,
      [''ioring_setup_single_issuer'', ''ioring_setup_defer_taskrun'', ''ioring_setup_coop_taskrun''],
      ''Single issuer with deferred and cooperative task work.''),
     (''plain'', 1,
      [],
      ''Plain ring setup with no requested setup flags.''),
     (''single_issuer_defer_cqsize'', 2,
      [''ioring_setup_single_issuer'', ''ioring_setup_defer_taskrun'', ''ioring_setup_cqsize''],
      ''Single issuer with deferred task work and an enlarged completion queue.''),
     (''iopoll'', 3,
      [''ioring_setup_iopoll''],
      ''Polled I/O ring personality.''),
     (''wide_sqe_cqe'', 4,
      [''ioring_setup_sqe128'', ''ioring_setup_cqe32''],
      ''Ring with 128-byte submission entries and 32-byte completion entries.''),
     (''clamp_submit_all_taskrun'', 5,
      [''ioring_setup_clamp'', ''ioring_setup_submit_all'', ''ioring_setup_taskrun_flag''],
      ''Clamped ring that submits all entries and reports task work.''),
     (''no_sqarray_coop'', 6,
      [''ioring_setup_no_sqarray'', ''ioring_setup_coop_taskrun''],
      ''Ring without a submission array and with cooperative task work.''),
     (''disabled_until_register'', 7,
      [''ioring_setup_r_disabled''],
      ''Ring initially disabled until a matching registration operation enables it.'')]"

definition FLAGS :: "(string \<times> int \<times> string) list" where
  "FLAGS =
    [(''iosqe_fixed_file'', 1, ''Interpret the file descriptor as a registered-file index.''),
     (''iosqe_io_drain'', 2, ''Defer this request until prior requests complete.''),
     (''iosqe_io_link'', 4, ''Link this request to the next request.''),
     (''iosqe_io_hardlink'', 8, ''Hard-link this request to the next request.''),
     (''iosqe_async'', 16, ''Request asynchronous issue for this entry.''),
     (''iosqe_buffer_select'', 32, ''Select a buffer from a registered buffer group.'')]"

definition OPERATION_SYMBOLS :: "string list" where
  "OPERATION_SYMBOLS =
    [''nop'', ''readv'', ''writev'', ''read'', ''write'', ''fsync'', ''poll_add'',
     ''poll_remove'', ''timeout'', ''timeout_remove'', ''recv'', ''send'', ''fadvise'',
     ''fallocate'', ''openat'', ''splice'', ''tee'', ''epoll_ctl'', ''provide_buffers'',
     ''remove_buffers'', ''sync_file_range'', ''statx'', ''accept'', ''multishot_accept'',
     ''connect'', ''bind'', ''listen'', ''socket'', ''shutdown'', ''sendmsg'', ''recvmsg'',
     ''recvmsg_multishot'', ''recv_multishot'', ''send_zc'', ''sendmsg_zc'', ''cancel'',
     ''cancel_fd'', ''link_timeout'', ''timeout_update'', ''poll_update'', ''poll_multishot'',
     ''read_fixed'', ''write_fixed'', ''files_update'', ''fixed_fd_install'', ''close_direct'',
     ''close'', ''msg_ring'', ''msg_ring_fd'', ''futex_wake'', ''futex_wait'', ''futex_waitv'',
     ''waitid'', ''renameat'', ''unlinkat'', ''mkdirat'', ''linkat'', ''fsetxattr'',
     ''ftruncate'', ''epoll_wait'', ''register_raw'']"

definition EXPECTED_RESULTS :: "string list" where
  "EXPECTED_RESULTS =
    [''success'', ''invalid'', ''retry'', ''short_io'', ''cancelled'', ''timeout'',
     ''not_supported'', ''resource_busy'', ''kernel_error'']"

definition CONTRACT_NOTES :: "string list" where
  "CONTRACT_NOTES =
    [''Typed program planning is enabled only through the hash-bound deterministic compiler and independent decoder.'',
     ''Provider-visible operations omit source, paths, logs, credentials, crash traces, and opaque seed bytes.'',
     ''ELF-specific operand order for timeout, poll_update, files_update, and msg_ring is bound inside the inert local codec.'',
     ''Compiled artifacts remain quarantined until logical checks, isolated canarying, and an artifact-bound human execution approval pass.'',
     ''Ring setup personalities may fall back to a plain ring when the requested setup is unavailable.'']"

section \<open>Building the typed tables\<close>

definition profiles_table :: "harness_profile list" where
  "profiles_table =
     map (\<lambda>(profile_id, sel, setup, summary).
       \<lparr>hp_profile_id = profile_id, hp_selector_value = sel, hp_setup_flags = setup,
        hp_allowed_lanes = LANES, hp_summary = summary\<rparr>) PROFILES"

definition flags_table :: "flag_spec list" where
  "flags_table =
     map (\<lambda>(symbol, value, summary).
       \<lparr>fs_symbol = symbol, fs_bit_value = value, fs_summary = summary\<rparr>) FLAGS"

text \<open>\<open>name.replace("_", " ")\<close>\<close>

definition spaced :: "string \<Rightarrow> string" where
  "spaced name = map (\<lambda>c. if c = CHR ''_'' then CHR '' '' else c) name"

definition byte_argument :: "string \<Rightarrow> argument_spec" where
  "byte_argument name =
     \<lparr>as_name = name, as_kind = HARG_INTEGER, as_byte_width = 1, as_signed = False,
      as_byte_order = LITTLE, as_minimum = 0, as_maximum = 255, as_enum_symbols = [],
      as_resource_kind = [],
      as_summary = ''Canonical one-byte '' @ spaced name @ '' operand in the audited ELF parser order.''\<rparr>"

definition table_operation :: "int \<Rightarrow> string \<Rightarrow> string list \<Rightarrow> harness_operation" where
  "table_operation sel symbol names =
     \<lparr>ho_symbol = symbol, ho_selector = sel, ho_arguments = map byte_argument names,
      ho_allowed_flags = map (\<lambda>(s, _). s) FLAGS, ho_allowed_profiles = map (\<lambda>(p, _). p) PROFILES,
      ho_allowed_lanes = LANES, ho_expected = EXPECTED_RESULTS,
      ho_summary = ''Typed reference for the '' @ spaced symbol @
        '' operation family; opaque payload bytes remain unavailable.''\<rparr>"

definition operations_table :: "codec_error + harness_operation list" where
  "operations_table =
     traverse (\<lambda>(sel, symbol).
       bindR (operand_names (int sel)) (\<lambda>names. Inr (table_operation (int sel) symbol names)))
       (enumerate 0 OPERATION_SYMBOLS)"

section \<open>The authority snapshot\<close>

datatype contract_error =
    ContractBuildError string
  | UnicodeError
  | CodecError codec_error
  | ContractValidationError

text \<open>The shell patterns of \<open>glob\<close>: only \<open>*\<close> occurs in the patterns of the module.\<close>

fun glob_match :: "string \<Rightarrow> string \<Rightarrow> bool" where
  "glob_match [] s \<longleftrightarrow> s = []"
| "glob_match (p # ps) [] \<longleftrightarrow> p = CHR ''*'' \<and> glob_match ps []"
| "glob_match (p # ps) (c # cs) \<longleftrightarrow>
     (if p = CHR ''*'' then glob_match ps (c # cs) \<or> glob_match (p # ps) cs
      else p = c \<and> glob_match ps cs)"

definition glob :: "directory \<Rightarrow> string \<Rightarrow> string list" where
  "glob d pattern = sort (filter (glob_match pattern) (map fst d))"

definition removesuffix :: "string \<Rightarrow> string \<Rightarrow> string" where
  "removesuffix p s =
     (if p \<noteq> [] \<and> drop (length s - length p) s = p \<and> length p \<le> length s
      then take (length s - length p) s else s)"

fun split_dots :: "string \<Rightarrow> string list" where
  "split_dots [] = [[]]"
| "split_dots (c # cs) =
     (if c = CHR ''.'' then [] # split_dots cs
      else (case split_dots cs of [] \<Rightarrow> [[c]] | w # ws \<Rightarrow> (c # w) # ws))"

text \<open>\<open>with_suffix\<close> on a name that has the given suffix.\<close>

definition with_suffix :: "string \<Rightarrow> string \<Rightarrow> string \<Rightarrow> string" where
  "with_suffix old new name = removesuffix old name @ new"

definition digest_file :: "directory \<Rightarrow> string \<Rightarrow> contract_error + string" where
  "digest_file d name =
     (case read_bytes d name of
        None \<Rightarrow> Inl (ContractBuildError ''authority artifact is unavailable'')
      | Some b \<Rightarrow> Inr (content_digest b))"

definition require_file :: "directory \<Rightarrow> string \<Rightarrow> contract_error + string" where
  "require_file d name =
     (if read_bytes d name = None then Inl (ContractBuildError ''authority artifact is missing'')
      else Inr name)"

text \<open>
  \<open>read_text(encoding="utf-8").split()[0].lower()\<close>: the first token of the text.  A text outside
  ASCII is a \<open>UnicodeDecodeError\<close> or decodes to characters that are not hexadecimal; \<open>decode\<close>
  stands for that decoding and is an argument.
\<close>

definition lower_char :: "char \<Rightarrow> char" where
  "lower_char c = (if is_upper c then char_of (of_char c + (32 :: int)) else c)"

definition first_token :: "string \<Rightarrow> string option" where
  "first_token s =
     (case takeWhile (\<lambda>c. \<not> is_space c) (dropWhile is_space s) of
        [] \<Rightarrow> None
      | t \<Rightarrow> Some (map lower_char t))"

definition checksum :: "(bytes \<Rightarrow> string option) \<Rightarrow> directory \<Rightarrow> string \<Rightarrow> contract_error + string" where
  "checksum decode d name =
     (case read_bytes d name of
        None \<Rightarrow> Inl (ContractBuildError ''checksum is unavailable or empty'')
      | Some b \<Rightarrow>
          (case decode b of
             None \<Rightarrow> Inl UnicodeError
           | Some s \<Rightarrow>
               (case first_token s of
                  None \<Rightarrow> Inl (ContractBuildError ''checksum is unavailable or empty'')
                | Some token \<Rightarrow>
                    if \<not> is_hex64 token then Inl (ContractBuildError ''checksum is malformed'')
                    else Inr (''sha256:'' @ token))))"

definition single :: "directory \<Rightarrow> string \<Rightarrow> contract_error + string" where
  "single d pattern =
     (case glob d pattern of
        [name] \<Rightarrow> Inr name
      | _ \<Rightarrow> Inl (ContractBuildError ''expected exactly one authority artifact''))"

definition verified_file ::
  "(bytes \<Rightarrow> string option) \<Rightarrow> directory \<Rightarrow> string \<Rightarrow> contract_error + (string \<times> string)" where
  "verified_file decode d checksum_name =
     (let data = with_suffix ''.sha256'' ''.bin'' checksum_name in
      bindR (require_file d data) (\<lambda>_.
      bindR (checksum decode d checksum_name) (\<lambda>declared.
      bindR (digest_file d data) (\<lambda>actual.
        if declared \<noteq> actual then Inl (ContractBuildError ''authority checksum mismatch'')
        else Inr (data, actual)))))"

text \<open>\<open>\d{8}T\d{6}Z\<close>\<close>

definition is_stamp :: "string \<Rightarrow> bool" where
  "is_stamp s \<longleftrightarrow> matches_template ''ddddddddTddddddZ'' s"

definition stamps_of :: "directory \<Rightarrow> string \<Rightarrow> string list" where
  "stamps_of d pattern =
     map (\<lambda>name. split_dots name ! 1)
       (filter (\<lambda>name. length (split_dots name) \<ge> 4) (glob d pattern))"

definition select_source :: "directory \<Rightarrow> contract_error + (string \<times> string \<times> string)" where
  "select_source d =
     (let sources = glob d ''io_uring_harness_native.*.c'' in
      bindR
        (if sources \<noteq> [] then
           (let source = last sources in
            Inr (source, with_suffix ''.c'' ''.sha256'' source,
              removesuffix ''.c'' (removeprefix ''io_uring_harness_native.'' source)))
         else
           bindR (require_file d ''io_uring_harness_native.c'') (\<lambda>source.
           bindR (require_file d ''io_uring_harness_native.sha256'') (\<lambda>check.
             (let common = sort (filter
                    (\<lambda>s. s \<in> set (stamps_of d ''iou_kasan.*.elf*.sha256''))
                    (remdups (stamps_of d ''iou_native.*.elf*.sha256'')))
              in if common = [] then
                   Inl (ContractBuildError ''authority handoff has no common native/KASAN stamp'')
                 else Inr (source, check, last common)))))
        (\<lambda>(source, check, stamp).
          if \<not> is_stamp stamp then
            Inl (ContractBuildError ''latest harness source has an invalid authority stamp'')
          else
            bindR (require_file d source) (\<lambda>source.
            bindR (require_file d check) (\<lambda>check. Inr (source, check, stamp)))))"

definition digest_map :: "directory \<Rightarrow> string list \<Rightarrow> contract_error + (string \<times> string) list" where
  "digest_map d names =
     bindR (traverse (\<lambda>name.
         bindR (require_file d name) (\<lambda>name. bindR (digest_file d name) (\<lambda>h. Inr (name, h)))) names)
       (\<lambda>pairs. Inr (dict_of_pairs pairs))"

section \<open>The contract\<close>

record implementation_files =
  file_contract :: "bytes option"
  file_codec :: "bytes option"
  file_compiler :: "bytes option"

definition digest_own :: "bytes option \<Rightarrow> contract_error + string" where
  "digest_own f =
     (case f of
        None \<Rightarrow> Inl (ContractBuildError ''authority artifact is unavailable'')
      | Some b \<Rightarrow> Inr (content_digest b))"

definition evidence_names :: "string \<Rightarrow> string \<Rightarrow> string \<Rightarrow> string \<Rightarrow> string \<Rightarrow> string \<Rightarrow> string \<Rightarrow> string list" where
  "evidence_names source source_check native_bin native_check kasan_bin kasan_check stamp =
     (let native_stem = removesuffix ''.sha256'' native_check;
          kasan_stem = removesuffix ''.sha256'' kasan_check
      in [source, source_check, native_bin, native_check,
          native_stem @ ''.metadata.txt'', native_stem @ ''.main.objdump.txt'',
          kasan_bin, kasan_check,
          kasan_stem @ ''.metadata.txt'', kasan_stem @ ''.main.objdump.txt'',
          ''iou_native.'' @ stamp @ ''.target.sha256'',
          ''iou_native.'' @ stamp @ ''.target.inventory.txt'',
          ''iou_kasan.'' @ stamp @ ''.target.sha256'',
          ''iou_kasan.'' @ stamp @ ''.target.inventory.txt''])"

text \<open>The contract document of one snapshot, before the wire class validates it.\<close>

definition contract_document ::
  "string \<Rightarrow> string \<Rightarrow> string \<Rightarrow> string \<Rightarrow> target_hashes \<Rightarrow> harness_operation list \<Rightarrow> harness_contract" where
  "contract_document stamp generated_at evidence_hash source_hash hashes ops =
     \<lparr>hc_contract_id = ''harness:production.typed.'' @ map lower_char stamp,
      hc_generated_at = generated_at, hc_environment = PRODUCTION, hc_verified = True,
      hc_test_only = False, hc_verified_by = ''verifier:codex.source_elf.audit.v1'',
      hc_evidence_hash = evidence_hash, hc_source_revision_hash = source_hash,
      hc_target_hashes = hashes, hc_input_max_bytes = 2048, hc_operation_max_count = 96,
      hc_selector_modulus = 61, hc_deterministic_compiler = True, hc_round_trip_verified = True,
      hc_profiles = profiles_table, hc_resources = [], hc_flags = flags_table,
      hc_operations = ops, hc_forbidden_profiles = [''sqpoll''], hc_notes = CONTRACT_NOTES\<rparr>"

definition op_table_digest :: "harness_operation list \<Rightarrow> string" where
  "op_table_digest ops = content_digest (canonical_json (JList (map dump_operation ops)))"

definition validate_contract :: "harness_contract \<Rightarrow> contract_error + harness_contract" where
  "validate_contract c = (if valid_contract c then Inr c else Inl ContractValidationError)"

text \<open>The digests bound by the evidence collected, and the document over them.\<close>

definition finish_contract ::
  "(string \<times> string) list \<Rightarrow> harness_operation list \<Rightarrow> string \<Rightarrow> instant \<Rightarrow> string \<Rightarrow> string \<Rightarrow> string
     \<Rightarrow> contract_error + harness_contract" where
  "finish_contract evidence ops compiler_digest generated stamp source_hash native_hash =
     (case (map_of evidence (''iou_native.'' @ stamp @ ''.target.sha256''),
            map_of evidence (''iou_kasan.'' @ stamp @ ''.target.sha256'')) of
        (Some native_target, Some kasan_target) \<Rightarrow>
          (let fleet_digest = content_digest (canonical_json (JObj
                 [(''native_target_manifest'', JStr native_target),
                  (''kasan_target_manifest'', JStr kasan_target)]));
               evidence_hash = content_digest (canonical_json (JObj
                 [(''authority_stamp'', JStr stamp),
                  (''artifacts'', JObj (map (\<lambda>(k, h). (k, JStr h)) evidence)),
                  (''semantic_op_table_hash'', JStr (op_table_digest ops)),
                  (''compiler_boundary_hash'', JStr compiler_digest)]))
           in validate_contract (contract_document stamp (iso_seconds_z generated)
                evidence_hash source_hash
                \<lparr>harness_hash = native_hash, compiler_hash = compiler_digest,
                 op_table_hash = op_table_digest ops, fleet_config_hash = fleet_digest\<rparr> ops))
      | _ \<Rightarrow> Inl (ContractBuildError ''KeyError''))"

text \<open>What follows the checks of the two lanes: the evidence, the self test and the document.\<close>

definition assemble_contract ::
  "directory \<Rightarrow> implementation_files \<Rightarrow> instant \<Rightarrow> string list \<Rightarrow> string \<Rightarrow> string \<Rightarrow> string
     \<Rightarrow> contract_error + harness_contract" where
  "assemble_contract d own generated names stamp source_hash native_hash =
     bindR (traverse (require_file d) names) (\<lambda>_.
     bindR (digest_map d names) (\<lambda>artifacts.
     bindR (digest_own (file_contract own)) (\<lambda>generator_hash.
     bindR (digest_own (file_codec own)) (\<lambda>codec_hash.
     bindR (if is_ok verify_audited_codec then Inr ()
            else Inl (ContractBuildError ''audited harness codec round trip failed'')) (\<lambda>_.
     bindR (wrapR CodecError operations_table) (\<lambda>ops.
     bindR (digest_own (file_compiler own)) (\<lambda>compiler_digest.
       finish_contract
         (dict_set (dict_set artifacts (''contract_generator.py'', generator_hash))
           (''harness_codec.py'', codec_hash))
         ops compiler_digest generated stamp source_hash native_hash)))))))"

definition build_contract ::
  "(bytes \<Rightarrow> string option) \<Rightarrow> directory \<Rightarrow> implementation_files \<Rightarrow> instant \<Rightarrow> string \<Rightarrow> string
     \<Rightarrow> contract_error + harness_contract" where
  "build_contract decode d own generated supported_source supported_elf =
     bindR (select_source d) (\<lambda>(source, source_check, stamp).
     bindR (checksum decode d source_check) (\<lambda>declared_source.
     bindR (digest_file d source) (\<lambda>actual_source.
       if declared_source \<noteq> actual_source then
         Inl (ContractBuildError ''harness source checksum does not match the snapshot'')
       else if actual_source \<noteq> supported_source then
         Inl (ContractBuildError ''harness source is not the independently audited revision'')
       else
         bindR (single d (''iou_native.'' @ stamp @ ''.elf*.sha256'')) (\<lambda>native_check.
         bindR (single d (''iou_kasan.'' @ stamp @ ''.elf*.sha256'')) (\<lambda>kasan_check.
         bindR (verified_file decode d native_check) (\<lambda>(native_bin, native_hash).
         bindR (verified_file decode d kasan_check) (\<lambda>(kasan_bin, kasan_hash).
           if native_hash \<noteq> kasan_hash then
             Inl (ContractBuildError ''native and KASAN lanes do not share one harness ELF'')
           else if native_hash \<noteq> supported_elf then
             Inl (ContractBuildError ''live harness ELF is not the independently audited build'')
           else
             assemble_contract d own generated
               (evidence_names source source_check native_bin native_check kasan_bin kasan_check stamp)
               stamp actual_source native_hash)))))))"

section \<open>The tables satisfy the wire classes\<close>

lemma profiles_valid:
  "list_all valid_profile profiles_table" "distinct (map hp_profile_id profiles_table)"
  "distinct (map hp_selector_value profiles_table)" "length profiles_table = 8"
  by code_simp+

lemma flags_valid:
  "list_all valid_flag_spec flags_table" "distinct (map fs_symbol flags_table)" "length flags_table = 6"
  by code_simp+

lemma notes_valid: "list_all short_sanitized CONTRACT_NOTES" "length CONTRACT_NOTES = 5"
  by code_simp+

lemma symbols_valid:
  "list_all is_Symbol OPERATION_SYMBOLS" "distinct OPERATION_SYMBOLS" "length OPERATION_SYMBOLS = 61"
  by code_simp+

lemma expected_valid: "list_all is_Symbol EXPECTED_RESULTS" "length EXPECTED_RESULTS = 9"
  by code_simp+

lemma operand_symbols: "list_all (\<lambda>ns. list_all is_Symbol ns \<and> length ns \<le> 16) ENCODER_OPERAND_NAMES"
  by code_simp

lemma symbol_chars: "is_Symbol s \<Longrightarrow> list_all is_symbol_char s"
  by (cases s) (auto simp: is_Symbol_def is_symbol_char_def)

lemma symbol_char_plain: "is_symbol_char c \<Longrightarrow> \<not> mark c \<and> c \<noteq> CHR 0x0A \<and> c \<noteq> CHR 0x0D \<and> c \<noteq> CHR 0x00"
proof -
  have "\<forall>c \<in> set ''abcdefghijklmnopqrstuvwxyz0123456789_''.
      \<not> mark c \<and> c \<noteq> CHR 0x0A \<and> c \<noteq> CHR 0x0D \<and> c \<noteq> CHR 0x00" by code_simp
  moreover assume "is_symbol_char c"
  then have "c \<in> set ''abcdefghijklmnopqrstuvwxyz0123456789_''"
    by (auto simp: is_symbol_char_def is_lower_def is_digit_def)
  ultimately show ?thesis by blast
qed

definition text_char :: "char \<Rightarrow> bool" where
  "text_char c \<longleftrightarrow> \<not> mark c \<and> c \<noteq> CHR 0x0A \<and> c \<noteq> CHR 0x0D \<and> c \<noteq> CHR 0x00"

lemma spaced_text: "is_Symbol s \<Longrightarrow> list_all text_char (spaced s)"
  using symbol_chars [of s] symbol_char_plain
  by (auto simp: spaced_def list_all_iff text_char_def mark_def)

lemma operation_summary_clean:
  assumes "is_Symbol s"
  shows "short_sanitized (''Typed reference for the '' @ spaced s @
    '' operation family; opaque payload bytes remain unavailable.'')" (is "short_sanitized ?t")
proof -
  have "list_all text_char ''Typed reference for the ''"
    "list_all text_char '' operation family; opaque payload bytes remain unavailable.''" by code_simp+
  with spaced_text [OF assms] have t: "list_all text_char ?t" by simp
  then have "\<not> list_ex (\<lambda>p. str_contains p (casefold ?t)) FORBIDDEN_TEXT_FRAGMENTS"
    using plain_text_clean [of ?t] by (auto simp: text_char_def list_all_iff list_ex_iff simp del: casefold_append)
  moreover have "is_stripped ?t" by (simp add: is_stripped_def is_space_def)
  moreover have "length (spaced s) \<le> 80" using assms by (simp add: spaced_def is_Symbol_def)
  moreover have "\<not> (CHR 0x0A \<in> set ?t \<or> CHR 0x0D \<in> set ?t \<or> CHR 0x00 \<in> set ?t)"
    using t by (auto simp only: list_all_iff text_char_def)
  ultimately show ?thesis
    by (simp add: short_sanitized_def is_ShortText_def sanitized_text_def Let_def)
qed

text \<open>A text with a single dash, after a letter that ends no fragment's first part, is clean too.\<close>

lemma one_dash_clean:
  assumes "filter mark A = []" "filter mark B = []" "\<not> mark y" "y \<noteq> CHR ''h''" "y \<noteq> CHR '' ''"
    and "p \<in> set FORBIDDEN_TEXT_FRAGMENTS"
  shows "\<not> str_contains p (A @ y # CHR ''-'' # B)"
proof
  let ?T = "A @ y # CHR ''-'' # B"
  assume c: "str_contains p ?T"
  have dash: "CHR ''-'' \<notin> set A" "CHR ''-'' \<notin> set B" "y \<noteq> CHR ''-''"
    using assms(1-3) by (auto simp: filter_empty_conv mark_def)
  have before: "str_contains (a @ x # CHR ''-'' # b) ?T \<Longrightarrow> x = y" for a x b
    by (erule dash_before) (use dash in simp_all)
  have marks: "filter mark ?T = ''-''" using assms(1-3) by (simp add: mark_def)
  have "set (filter mark p) \<subseteq> {CHR ''-''}" using contains_marks [OF c] unfolding marks by simp
  with assms(6) have "p \<in> set (filter (\<lambda>p. set (filter mark p) \<subseteq> {CHR ''-''}) FORBIDDEN_TEXT_FRAGMENTS)"
    by (simp only: set_filter mem_Collect_eq)
  moreover have "filter (\<lambda>p. set (filter mark p) \<subseteq> {CHR ''-''}) FORBIDDEN_TEXT_FRAGMENTS =
      [[] @ CHR ''-'' # CHR ''-'' # ''---begin private key-----'',
       ''ss'' @ CHR ''h'' # CHR ''-'' # ''rsa '', ''ss'' @ CHR ''h'' # CHR ''-'' # ''ed25519 '',
       ''powershell'' @ CHR '' '' # CHR ''-'' # [], ''sh'' @ CHR '' '' # CHR ''-'' # ''c '',
       ''bash'' @ CHR '' '' # CHR ''-'' # ''c '']"
    by code_simp
  ultimately obtain a x b where "p = a @ x # CHR ''-'' # b" "x \<in> {CHR ''-'', CHR ''h'', CHR '' ''}"
    by (simp only: list.set insert_iff empty_iff) metis
  with c before assms(4,5) dash(3) show False by blast
qed

lemma argument_summary_clean:
  assumes "is_Symbol s"
  shows "short_sanitized (''Canonical one-byte '' @ spaced s @ '' operand in the audited ELF parser order.'')"
    (is "short_sanitized ?t")
proof -
  let ?A = "casefold ''Canonical on''"
  let ?B = "casefold (''byte '' @ spaced s @ '' operand in the audited ELF parser order.'')"
  have parts: "list_all text_char ''Canonical on''" "list_all text_char ''byte ''"
    "list_all text_char '' operand in the audited ELF parser order.''" by code_simp+
  have e: "casefold ''e-'' = ''e-''" by code_simp
  have "?t = ''Canonical on'' @ ''e-'' @ (''byte '' @ spaced s @ '' operand in the audited ELF parser order.'')"
    by simp
  then have "casefold ?t = ?A @ casefold ''e-'' @ ?B" by (simp only: casefold_append)
  then have split: "casefold ?t = ?A @ CHR ''e'' # CHR ''-'' # ?B" by (simp only: e append_Cons append_Nil)
  have noA: "filter mark ?A = []" and noB: "filter mark ?B = []"
    using parts spaced_text [OF assms]
    by (simp_all add: casefold_marks filter_empty_conv list_all_iff text_char_def del: casefold_append)
  have "\<not> mark CHR ''e''" by (simp add: mark_def)
  from one_dash_clean [OF noA noB this]
  have "\<not> list_ex (\<lambda>p. str_contains p (casefold ?t)) FORBIDDEN_TEXT_FRAGMENTS"
    unfolding split by (simp only: list_ex_iff) auto
  moreover have "is_stripped ?t" by (simp add: is_stripped_def is_space_def)
  moreover have "length (spaced s) \<le> 80" using assms by (simp add: spaced_def is_Symbol_def)
  moreover have "\<not> (CHR 0x0A \<in> set ?t \<or> CHR 0x0D \<in> set ?t \<or> CHR 0x00 \<in> set ?t)"
    using spaced_text [OF assms] by (auto simp: list_all_iff text_char_def)
  ultimately show ?thesis
    by (simp add: short_sanitized_def is_ShortText_def sanitized_text_def Let_def del: casefold_append)
qed

lemma valid_byte_argument: "is_Symbol name \<Longrightarrow> valid_argument_spec (byte_argument name)"
  using argument_summary_clean [of name]
  by (simp add: valid_argument_spec_def byte_argument_def len_between_def enforce_argument_shape_def is_OptionalSymbol_def)

section \<open>The operations table\<close>

definition ops_table :: "harness_operation list" where
  "ops_table =
     map (\<lambda>(sel, symbol). table_operation (int sel) symbol (ENCODER_OPERAND_NAMES ! sel))
       (enumerate 0 OPERATION_SYMBOLS)"

lemma operations_table_eq: "operations_table = Inr ops_table"
  unfolding operations_table_def ops_table_def
proof (rule traverse_total, clarify)
  fix sel symbol
  assume "(sel, symbol) \<in> set (enumerate 0 OPERATION_SYMBOLS)"
  then have "sel < 61" by (auto simp: in_set_enumerate_eq symbols_valid(3))
  then have "operand_names (int sel) = Inr (ENCODER_OPERAND_NAMES ! sel)" by (simp add: operand_names_Inr)
  then show "bindR (operand_names (int sel)) (\<lambda>names. Inr (table_operation (int sel) symbol names)) =
      Inr (table_operation (int sel) symbol (ENCODER_OPERAND_NAMES ! sel))" by simp
qed

lemma length_ops_table [simp]: "length ops_table = 61"
  by (simp add: ops_table_def symbols_valid(3))

lemma ops_table_nth:
  "i < 61 \<Longrightarrow> ops_table ! i = table_operation (int i) (OPERATION_SYMBOLS ! i) (ENCODER_OPERAND_NAMES ! i)"
  by (simp add: ops_table_def nth_enumerate_eq symbols_valid(3))

lemma table_operation_simps [simp]:
  "ho_symbol (table_operation s y ns) = y" "ho_selector (table_operation s y ns) = s"
  "ho_arguments (table_operation s y ns) = map byte_argument ns"
  by (simp_all add: table_operation_def)

lemma ops_table_symbols: "map ho_symbol ops_table = OPERATION_SYMBOLS"
  by (rule nth_equalityI) (simp_all add: symbols_valid(3) ops_table_nth)

lemma ops_table_selectors: "map ho_selector ops_table = map int [0..<61]"
  by (rule nth_equalityI) (simp_all add: ops_table_nth)

lemma ops_table_arguments:
  assumes "h \<in> set ops_table"
  shows "0 \<le> ho_selector h \<and> ho_selector h < 61 \<and>
    ho_arguments h = map byte_argument (ENCODER_OPERAND_NAMES ! nat (ho_selector h))"
proof -
  from assms obtain i where "i < 61" "h = ops_table ! i" by (auto simp: in_set_conv_nth)
  then show ?thesis by (simp add: ops_table_nth)
qed

lemma length_encoder_names: "length ENCODER_OPERAND_NAMES = 61"
  by code_simp

lemma table_names_known:
  "map (\<lambda>(p, _). p) PROFILES = map hp_profile_id profiles_table"
  "map (\<lambda>(s, _). s) FLAGS = map fs_symbol flags_table"
  by (simp_all add: profiles_table_def flags_table_def comp_def case_prod_unfold)

lemma table_ids_symbols:
  "list_all is_Symbol (map hp_profile_id profiles_table)" "list_all is_Symbol (map fs_symbol flags_table)"
  using profiles_valid(1) flags_valid(1)
  by (simp_all add: list_all_iff valid_profile_def valid_flag_spec_def)

lemma ops_table_valid: "list_all valid_operation ops_table"
proof (unfold list_all_length, intro allI impI)
  fix i assume "i < length ops_table"
  then have i: "i < 61" by simp
  let ?s = "OPERATION_SYMBOLS ! i" and ?ns = "ENCODER_OPERAND_NAMES ! i"
  have sym: "is_Symbol ?s" using symbols_valid(1,3) i by (simp add: list_all_length)
  have ns: "list_all is_Symbol ?ns" "length ?ns \<le> 16"
    using operand_symbols i length_encoder_names by (simp_all add: list_all_length)
  then have "list_all valid_argument_spec (map byte_argument ?ns)"
    by (simp add: list_all_iff valid_byte_argument)
  with sym ns(2) i operation_summary_clean [OF sym] table_ids_symbols expected_valid
    profiles_valid(4) flags_valid(3)
  show "valid_operation (ops_table ! i)"
    by (simp add: ops_table_nth valid_operation_def table_operation_def len_between_def LANES_def
        table_names_known)
qed

lemma op_references_known:
  "hc_profiles c = profiles_table \<Longrightarrow> hc_flags c = flags_table \<Longrightarrow> h \<in> set ops_table \<Longrightarrow>
     operation_references_known c h"
proof -
  assume c: "hc_profiles c = profiles_table" "hc_flags c = flags_table" and h: "h \<in> set ops_table"
  from h obtain i where "i < 61" "h = ops_table ! i" by (auto simp: in_set_conv_nth)
  then have "ho_allowed_profiles h = map hp_profile_id profiles_table"
    "ho_allowed_flags h = map fs_symbol flags_table"
    by (simp_all add: ops_table_nth table_operation_def table_names_known)
  with c ops_table_arguments [OF h] show ?thesis
    by (simp add: operation_references_known_def list_all_iff byte_argument_def)
qed

section \<open>Every contract built is valid\<close>

lemma lower_digit: "is_digit c \<Longrightarrow> lower_char c = c"
proof -
  have "\<forall>c \<in> set ''0123456789''. \<not> is_upper c" by code_simp
  then have "is_digit c \<Longrightarrow> \<not> is_upper c" unfolding is_digit_def by blast
  then show "is_digit c \<Longrightarrow> lower_char c = c" by (simp add: lower_char_def)
qed

lemma stamp_lower_tail:
  assumes "is_stamp s"
  shows "list_all is_tail_char (map lower_char s) \<and> length s = 16"
proof -
  have len: "length s = 16"
    using assms by (auto simp: is_stamp_def matches_template_def dest!: list_all2_lengthD)
  have "is_tail_char (lower_char c)" if "c \<in> set s" for c
  proof -
    from that obtain i where i: "i < 16" "c = s ! i" using len by (auto simp: in_set_conv_nth)
    have "\<forall>p \<in> set ''ddddddddTddddddZ''. p \<in> {CHR ''d'', CHR ''T'', CHR ''Z''}" by code_simp
    moreover have "''ddddddddTddddddZ'' ! i \<in> set ''ddddddddTddddddZ''" using i by (intro nth_mem) simp
    moreover have "if ''ddddddddTddddddZ'' ! i = CHR ''d'' then is_digit c else c = ''ddddddddTddddddZ'' ! i"
      using assms i by (simp add: is_stamp_def matches_template_def list_all2_conv_all_nth)
    moreover have "is_tail_char (lower_char CHR ''T'')" "is_tail_char (lower_char CHR ''Z'')" by code_simp+
    ultimately show ?thesis by (auto simp: lower_digit is_tail_char_def split: if_splits)
  qed
  with len show ?thesis by (simp add: list_all_iff)
qed

lemma contract_id_valid:
  assumes "is_stamp s"
  shows "is_Identifier (''harness:production.typed.'' @ map lower_char s)"
proof -
  have "is_lower CHR ''h'' \<and> list_all is_tail_char ''arness:production.typed.''" by code_simp
  with stamp_lower_tail [OF assms] show ?thesis
    by (simp add: is_Identifier_def is_identifier_text_def)
qed

lemma fixed_ids_valid:
  "is_Identifier ''verifier:codex.source_elf.audit.v1''" "is_Symbol ''sqpoll''"
  "''sqpoll'' \<notin> set (map hp_profile_id profiles_table)"
  by code_simp+

lemma contract_document_valid:
  assumes "is_stamp stamp" and "is_digest ev" and "is_digest src" and "valid_target_hashes hashes"
  shows "valid_contract (contract_document stamp (iso_seconds_z t) ev src hashes ops_table)"
proof -
  let ?c = "contract_document stamp (iso_seconds_z t) ev src hashes ops_table"
  have "list_all (operation_references_known ?c) ops_table"
    by (simp add: list_all_iff op_references_known contract_document_def)
  moreover have "\<not> list_ex (\<lambda>h. 61 \<le> ho_selector h) ops_table"
    using ops_table_arguments by (fastforce simp: list_ex_iff)
  moreover have "distinct (map ho_symbol ops_table)" "distinct (map ho_selector ops_table)"
    using symbols_valid(2) by (simp_all add: ops_table_symbols ops_table_selectors distinct_map)
  ultimately have "enforce_contract_references ?c"
    using profiles_valid(2,3) flags_valid(2) fixed_ids_valid(3)
    by (simp add: enforce_contract_references_def) (simp add: contract_document_def)
  then show ?thesis
    using assms contract_id_valid [OF assms(1)] is_Timestamp_iso_seconds_z fixed_ids_valid profiles_valid
      flags_valid notes_valid ops_table_valid
    by (simp add: valid_contract_def contract_document_def len_between_def)
qed

section \<open>How building can fail\<close>

definition snapshot_error :: "contract_error \<Rightarrow> bool" where
  "snapshot_error e \<longleftrightarrow> e = UnicodeError \<or> (\<exists>m. e = ContractBuildError m)"

lemma snapshot_error_simps [simp]: "snapshot_error (ContractBuildError m)" "snapshot_error UnicodeError"
  by (simp_all add: snapshot_error_def)

lemma digest_file_Inr: "digest_file d n = Inr h \<longleftrightarrow> (\<exists>b. read_bytes d n = Some b \<and> h = content_digest b)"
  by (auto simp: digest_file_def split: option.splits)

lemma digest_own_Inr: "digest_own f = Inr h \<longleftrightarrow> (\<exists>b. f = Some b \<and> h = content_digest b)"
  by (auto simp: digest_own_def split: option.splits)

lemma verified_file_Inr:
  "verified_file decode d n = Inr (data, h) \<Longrightarrow> \<exists>b. read_bytes d data = Some b \<and> h = content_digest b"
  by (auto simp: verified_file_def Let_def digest_file_Inr split: if_splits)

lemma select_source_stamp: "select_source d = Inr (s, c, stamp) \<Longrightarrow> is_stamp stamp"
  by (auto simp: select_source_def Let_def split: if_splits)

lemma fails_digest_file [fails_intros]: "fails_only snapshot_error (digest_file d n)"
  by (simp add: digest_file_def split: option.split)

lemma fails_digest_own [fails_intros]: "fails_only snapshot_error (digest_own f)"
  by (simp add: digest_own_def split: option.split)

lemma fails_require_file [fails_intros]: "fails_only snapshot_error (require_file d n)"
  by (simp add: require_file_def)

lemma fails_checksum [fails_intros]: "fails_only snapshot_error (checksum decode d n)"
  by (simp add: checksum_def split: option.split)

lemma fails_single [fails_intros]: "fails_only snapshot_error (single d p)"
  by (simp add: single_def split: list.split)

lemma fails_verified_file [fails_intros]: "fails_only snapshot_error (verified_file decode d n)"
  unfolding verified_file_def Let_def by (auto intro!: fails_intros)

lemma fails_digest_map [fails_intros]: "fails_only snapshot_error (digest_map d ns)"
  unfolding digest_map_def by (auto intro!: fails_intros)

lemma fails_select_source [fails_intros]: "fails_only snapshot_error (select_source d)"
  unfolding select_source_def Let_def by (auto intro!: fails_intros)

text \<open>The document assembled from whatever the files hold passes the wire class.\<close>

lemma document_accepted:
  assumes "is_stamp stamp" and "is_digest src" and "is_digest elf"
  shows "validate_contract (contract_document stamp (iso_seconds_z t) (content_digest x) src
      \<lparr>harness_hash = elf, compiler_hash = content_digest y, op_table_hash = op_table_digest ops_table,
       fleet_config_hash = content_digest z\<rparr> ops_table) =
    Inr (contract_document stamp (iso_seconds_z t) (content_digest x) src
      \<lparr>harness_hash = elf, compiler_hash = content_digest y, op_table_hash = op_table_digest ops_table,
       fleet_config_hash = content_digest z\<rparr> ops_table)"
  using assms contract_document_valid [OF assms(1) content_digest_is_digest assms(2)]
  by (simp add: validate_contract_def valid_target_hashes_def op_table_digest_def)

lemma finish_cases:
  assumes "is_stamp stamp" and "is_digest src" and "is_digest elf"
  obtains m where "finish_contract evid ops_table (content_digest cb) t stamp src elf = Inl (ContractBuildError m)"
    | ev fleet where "is_digest ev" "is_digest fleet"
      "finish_contract evid ops_table (content_digest cb) t stamp src elf =
         Inr (contract_document stamp (iso_seconds_z t) ev src
           \<lparr>harness_hash = elf, compiler_hash = content_digest cb,
            op_table_hash = op_table_digest ops_table, fleet_config_hash = fleet\<rparr> ops_table)"
proof (cases "map_of evid (''iou_native.'' @ stamp @ ''.target.sha256'')")
  case None
  then show thesis by (intro that(1)) (simp add: finish_contract_def)
next
  case (Some n)
  note native = this
  show thesis
  proof (cases "map_of evid (''iou_kasan.'' @ stamp @ ''.target.sha256'')")
    case None
    with native show thesis by (intro that(1)) (simp add: finish_contract_def)
  next
    case (Some k)
    with native show thesis
      by (intro that(2) [OF content_digest_is_digest content_digest_is_digest])
        (simp only: finish_contract_def prod.case option.case Let_def document_accepted [OF assms])
  qed
qed

lemma assemble_fails:
  assumes "is_stamp stamp" and "is_digest src" and "is_digest elf"
  shows "fails_only snapshot_error (assemble_contract d own t names stamp src elf)"
proof -
  have "fails_only snapshot_error (finish_contract evid ops_table (content_digest cb) t stamp src elf)"
    for evid cb
    by (rule finish_cases [OF assms, of evid cb t]) simp_all
  then show ?thesis
    unfolding assemble_contract_def operations_table_eq verify_audited_codec_ok
    by (intro fails_intros) (auto simp: digest_own_Inr)
qed

lemma assemble_result:
  assumes "is_stamp stamp" and "is_digest src" and "is_digest elf"
    and "assemble_contract d own t names stamp src elf = Inr c"
  obtains ev cb fleet where "file_compiler own = Some cb" "is_digest ev" "is_digest fleet"
    "c = contract_document stamp (iso_seconds_z t) ev src
       \<lparr>harness_hash = elf, compiler_hash = content_digest cb,
        op_table_hash = op_table_digest ops_table, fleet_config_hash = fleet\<rparr> ops_table"
proof -
  from assms(4) obtain evid cb where cb: "file_compiler own = Some cb"
    and fin: "finish_contract evid ops_table (content_digest cb) t stamp src elf = Inr c"
    by (auto simp: assemble_contract_def operations_table_eq verify_audited_codec_ok digest_own_Inr
        split: if_splits)
  from fin show thesis
    by (cases rule: finish_cases [OF assms(1-3), of evid cb t]) (use cb that in auto)
qed

lemma build_contract_result:
  assumes "build_contract decode d own t src elf = Inr c"
  obtains stamp ev cb fleet native kasan source b b' b'' where
    "is_stamp stamp" "is_digest src" "is_digest elf"
    "read_bytes d native = Some b" "content_digest b = elf"
    "read_bytes d kasan = Some b'" "content_digest b' = elf"
    "read_bytes d source = Some b''" "content_digest b'' = src"
    "file_compiler own = Some cb" "is_digest ev" "is_digest fleet"
    "c = contract_document stamp (iso_seconds_z t) ev src
       \<lparr>harness_hash = elf, compiler_hash = content_digest cb,
        op_table_hash = op_table_digest ops_table, fleet_config_hash = fleet\<rparr> ops_table"
proof -
  from assms obtain source check stamp nc kc nb native kb names b'' where
    sel: "select_source d = Inr (source, check, stamp)"
    and files: "read_bytes d source = Some b''" "content_digest b'' = src"
      "verified_file decode d nc = Inr (nb, elf)" "verified_file decode d kc = Inr (kb, elf)"
    and asm: "assemble_contract d own t names stamp src elf = Inr c"
    by (auto simp: build_contract_def digest_file_Inr split: if_splits)
  from verified_file_Inr [OF files(3)] verified_file_Inr [OF files(4)] obtain b b' where
    b: "read_bytes d nb = Some b" "elf = content_digest b" "read_bytes d kb = Some b'" "elf = content_digest b'"
    by blast
  have "is_digest src" "is_digest elf" using files(2) b by auto
  from assemble_result [OF select_source_stamp [OF sel] this asm]
  show thesis
    using that [OF select_source_stamp [OF sel] \<open>is_digest src\<close> \<open>is_digest elf\<close> b(1) b(2) [symmetric] b(3)
        b(4) [symmetric] files(1,2)]
    by blast
qed

section \<open>A sample snapshot\<close>

definition plain_text :: "bytes \<Rightarrow> string option" where
  "plain_text b = Some (map (\<lambda>w. char_of (uint w)) b)"

definition sample_files :: "(string \<times> bool) list" where
  "sample_files =
     [(''io_uring_harness_native.20260102T030405Z.c'', False),
      (''io_uring_harness_native.20260102T030405Z.sha256'', True),
      (''iou_native.20260102T030405Z.elf.sha256'', True),
      (''iou_native.20260102T030405Z.elf.bin'', False),
      (''iou_native.20260102T030405Z.elf.metadata.txt'', False),
      (''iou_native.20260102T030405Z.elf.main.objdump.txt'', False),
      (''iou_native.20260102T030405Z.target.sha256'', False),
      (''iou_native.20260102T030405Z.target.inventory.txt'', False),
      (''iou_kasan.20260102T030405Z.elf.sha256'', True),
      (''iou_kasan.20260102T030405Z.elf.bin'', False),
      (''iou_kasan.20260102T030405Z.elf.metadata.txt'', False),
      (''iou_kasan.20260102T030405Z.elf.main.objdump.txt'', False),
      (''iou_kasan.20260102T030405Z.target.sha256'', False),
      (''iou_kasan.20260102T030405Z.target.inventory.txt'', False)]"

text \<open>Every data file is empty; a checksum file holds the hex digest of the empty file.\<close>

definition sample_snapshot :: directory where
  "sample_snapshot =
     map (\<lambda>(name, check). (name, RegularFile (if check then ascii_bytes (sha256 []) else []))) sample_files"

definition sample_own :: implementation_files where
  "sample_own = \<lparr>file_contract = Some [], file_codec = Some [], file_compiler = Some []\<rparr>"

lemma sample_glob: "glob sample_snapshot p = sort (filter (glob_match p) (map fst sample_files))"
  by (simp add: glob_def sample_snapshot_def case_prod_unfold comp_def)

lemma hex_token: "is_hex64 s \<Longrightarrow> first_token s = Some s"
proof -
  have hex: "\<forall>c \<in> set ''0123456789abcdef''. \<not> is_space c \<and> \<not> is_upper c" by code_simp
  assume s: "is_hex64 s"
  then have "\<forall>c \<in> set s. is_hex c" by (simp add: is_hex64_def list_all_iff)
  then have all: "\<forall>c \<in> set s. \<not> is_space c \<and> \<not> is_upper c" using hex unfolding is_hex_def by blast
  from s have "s \<noteq> []" by (auto simp: is_hex64_def)
  with all have dw: "dropWhile is_space s = s" by (cases s) auto
  have tw: "takeWhile (\<lambda>c. \<not> is_space c) s = s" using all by (simp add: takeWhile_eq_all_conv)
  have "map lower_char s = s" using all by (simp add: lower_char_def map_idI)
  with \<open>s \<noteq> []\<close> show ?thesis unfolding first_token_def dw tw by (cases s) simp_all
qed

lemma sample_read:
  "(n, True) \<in> set sample_files \<Longrightarrow> read_bytes sample_snapshot n = Some (ascii_bytes (sha256 []))"
  "(n, False) \<in> set sample_files \<Longrightarrow> read_bytes sample_snapshot n = Some []"
proof -
  have d: "distinct (map fst sample_files)" by code_simp
  have "map_of sample_snapshot n = Some (RegularFile (if check then ascii_bytes (sha256 []) else []))"
    if "(n, check) \<in> set sample_files" for check
    using that d by (intro map_of_is_SomeI)
      (auto simp: sample_snapshot_def comp_def case_prod_unfold image_iff intro!: bexI [of _ "(n, check)"])
  then show "(n, True) \<in> set sample_files \<Longrightarrow> read_bytes sample_snapshot n = Some (ascii_bytes (sha256 []))"
    "(n, False) \<in> set sample_files \<Longrightarrow> read_bytes sample_snapshot n = Some []"
    by (auto simp: read_bytes_def)
qed

lemma sample_checksum:
  "(n, True) \<in> set sample_files \<Longrightarrow> checksum plain_text sample_snapshot n = Inr (content_digest [])"
  by (simp add: checksum_def sample_read plain_text_def decode_ascii_bytes hex_token is_hex64_sha256
      content_digest_def)

lemma sample_globs:
  "glob sample_snapshot ''io_uring_harness_native.*.c'' = [''io_uring_harness_native.20260102T030405Z.c'']"
  "glob sample_snapshot ''iou_native.20260102T030405Z.elf*.sha256'' = [''iou_native.20260102T030405Z.elf.sha256'']"
  "glob sample_snapshot ''iou_kasan.20260102T030405Z.elf*.sha256'' = [''iou_kasan.20260102T030405Z.elf.sha256'']"
  unfolding sample_glob by code_simp+

lemma sample_members:
  "(''io_uring_harness_native.20260102T030405Z.c'', False) \<in> set sample_files"
  "(''io_uring_harness_native.20260102T030405Z.sha256'', True) \<in> set sample_files"
  "(''iou_native.20260102T030405Z.elf.sha256'', True) \<in> set sample_files"
  "(''iou_native.20260102T030405Z.elf.bin'', False) \<in> set sample_files"
  "(''iou_kasan.20260102T030405Z.elf.sha256'', True) \<in> set sample_files"
  "(''iou_kasan.20260102T030405Z.elf.bin'', False) \<in> set sample_files"
  by code_simp+

lemma sample_names:
  "with_suffix ''.c'' ''.sha256'' ''io_uring_harness_native.20260102T030405Z.c'' =
     ''io_uring_harness_native.20260102T030405Z.sha256''"
  "removesuffix ''.c'' (removeprefix ''io_uring_harness_native.'' ''io_uring_harness_native.20260102T030405Z.c'') =
     ''20260102T030405Z''"
  "is_stamp ''20260102T030405Z''"
  "with_suffix ''.sha256'' ''.bin'' ''iou_native.20260102T030405Z.elf.sha256'' = ''iou_native.20260102T030405Z.elf.bin''"
  "with_suffix ''.sha256'' ''.bin'' ''iou_kasan.20260102T030405Z.elf.sha256'' = ''iou_kasan.20260102T030405Z.elf.bin''"
  by code_simp+

lemma sample_evidence:
  "list_all (\<lambda>n. map_of sample_files n \<noteq> None)
     (evidence_names ''io_uring_harness_native.20260102T030405Z.c'' ''io_uring_harness_native.20260102T030405Z.sha256''
       ''iou_native.20260102T030405Z.elf.bin'' ''iou_native.20260102T030405Z.elf.sha256''
       ''iou_kasan.20260102T030405Z.elf.bin'' ''iou_kasan.20260102T030405Z.elf.sha256'' ''20260102T030405Z'')"
  by code_simp

lemma sample_require: "map_of sample_files n \<noteq> None \<Longrightarrow> require_file sample_snapshot n = Inr n"
proof -
  assume "map_of sample_files n \<noteq> None"
  then obtain check where "(n, check) \<in> set sample_files" by (auto dest: map_of_SomeD)
  then show ?thesis by (cases check) (simp_all add: require_file_def sample_read)
qed

lemma sample_digest:
  "map_of sample_files n \<noteq> None \<Longrightarrow> \<exists>h. digest_file sample_snapshot n = Inr h"
proof -
  assume "map_of sample_files n \<noteq> None"
  then obtain check where "(n, check) \<in> set sample_files" by (auto dest: map_of_SomeD)
  then show ?thesis by (cases check) (simp_all add: digest_file_def sample_read)
qed

lemma map_of_dict_set: "map_of (dict_set kvs kv) = (map_of kvs)(fst kv \<mapsto> snd kv)"
  by (induction kvs kv rule: dict_set.induct) (auto simp: fun_eq_iff)

lemma sample_built:
  "\<exists>c. build_contract plain_text sample_snapshot sample_own 0 (content_digest []) (content_digest []) = Inr c"
proof -
  define names where "names =
    evidence_names ''io_uring_harness_native.20260102T030405Z.c'' ''io_uring_harness_native.20260102T030405Z.sha256''
       ''iou_native.20260102T030405Z.elf.bin'' ''iou_native.20260102T030405Z.elf.sha256''
       ''iou_kasan.20260102T030405Z.elf.bin'' ''iou_kasan.20260102T030405Z.elf.sha256'' ''20260102T030405Z''"
  define h where "h n = projr (digest_file sample_snapshot n)" for n
  have all: "n \<in> set names \<Longrightarrow> map_of sample_files n \<noteq> None" for n
    using sample_evidence unfolding names_def list_all_iff by blast
  have distinct: "distinct names" unfolding names_def by code_simp
  have targets: "''iou_native.'' @ ''20260102T030405Z'' @ ''.target.sha256'' \<in> set names"
    "''iou_kasan.'' @ ''20260102T030405Z'' @ ''.target.sha256'' \<in> set names"
    unfolding names_def by code_simp+
  have hash: "digest_file sample_snapshot n = Inr (h n)" if "n \<in> set names" for n
    using sample_digest [OF all [OF that]] by (auto simp: h_def)
  have req: "traverse (require_file sample_snapshot) names = Inr (map (\<lambda>n. n) names)"
    by (rule traverse_total) (rule sample_require [OF all])
  have "digest_map sample_snapshot names = Inr (dict_of_pairs (map (\<lambda>n. (n, h n)) names))"
    unfolding digest_map_def
    by (subst traverse_total [of _ _ "\<lambda>n. (n, h n)"]) (simp_all add: sample_require [OF all] hash)
  then have dig: "digest_map sample_snapshot names = Inr (map (\<lambda>n. (n, h n)) names)"
    using distinct by (simp add: dict_of_pairs_distinct comp_def)
  have target: "\<exists>x. map_of (dict_set (dict_set (map (\<lambda>n. (n, h n)) names) a) b) k = Some x"
    if "k \<in> set names" for a b k
    using that by (simp add: map_of_dict_set map_of_map_restrict)
  have "\<exists>c. assemble_contract sample_snapshot sample_own 0 names ''20260102T030405Z''
      (content_digest []) (content_digest []) = Inr c"
  proof -
    have "\<exists>c. finish_contract (dict_set (dict_set (map (\<lambda>n. (n, h n)) names) a) b) ops_table (content_digest [])
        0 ''20260102T030405Z'' (content_digest []) (content_digest []) = Inr c" for a b
      using target [OF targets(1), of a b] target [OF targets(2), of a b]
        document_accepted [OF sample_names(3) content_digest_is_digest content_digest_is_digest]
      by (auto simp: finish_contract_def Let_def simp del: append_Cons append_Nil)
    then show ?thesis
      by (simp add: assemble_contract_def req dig operations_table_eq verify_audited_codec_ok
          sample_own_def digest_own_def)
  qed
  moreover have "select_source sample_snapshot = Inr (''io_uring_harness_native.20260102T030405Z.c'',
      ''io_uring_harness_native.20260102T030405Z.sha256'', ''20260102T030405Z'')"
    by (simp add: select_source_def sample_globs sample_names require_file_def sample_read sample_members)
  moreover have "verified_file plain_text sample_snapshot ''iou_native.20260102T030405Z.elf.sha256'' =
      Inr (''iou_native.20260102T030405Z.elf.bin'', content_digest [])"
    "verified_file plain_text sample_snapshot ''iou_kasan.20260102T030405Z.elf.sha256'' =
      Inr (''iou_kasan.20260102T030405Z.elf.bin'', content_digest [])"
    using sample_members sample_checksum
    by (simp_all add: verified_file_def sample_names require_file_def sample_read digest_file_def)
  ultimately show ?thesis
    using sample_members sample_checksum sample_globs
    by (simp add: build_contract_def digest_file_def sample_read single_def flip: names_def)
qed

section \<open>Properties\<close>

text \<open>
  Building a contract fails only because of the snapshot: whatever the directory holds, the
  codec self test passes and the wire class accepts the document, so no snapshot that passes the
  integrity checks is turned away by the tables or by the validator of \<open>HarnessContract\<close>.
\<close>

lemma contract_build_failures:
  "fails_only snapshot_error (build_contract decode d own t src elf)"
proof -
  have "fails_only snapshot_error (assemble_contract d own t names stamp src (content_digest b))"
    if "is_stamp stamp" "is_digest src" for names stamp src b
    using assemble_fails [OF that content_digest_is_digest] .
  then show ?thesis
    unfolding build_contract_def
    by (intro fails_intros)
      (auto simp: digest_file_Inr dest!: select_source_stamp verified_file_Inr intro!: fails_intros)
qed

text \<open>
  A contract that is built is bound to the bytes of the snapshot and to the audited tables: it
  satisfies the wire class, both lanes of the snapshot hold an ELF with the supported digest, the
  source has the supported digest, the compiler digest is that of the compiler file, and the
  operations are the 61 of the audited grammar with the operand names of the codec's table.
\<close>

lemma contract_build_bound:
  assumes "build_contract decode d own t src elf = Inr c"
  shows "valid_contract c \<and> hc_environment c = PRODUCTION \<and> hc_verified c \<and>
    harness_hash (hc_target_hashes c) = elf \<and> hc_source_revision_hash c = src \<and>
    (\<exists>native kasan source b b' b''. read_bytes d native = Some b \<and> content_digest b = elf \<and>
       read_bytes d kasan = Some b' \<and> content_digest b' = elf \<and>
       read_bytes d source = Some b'' \<and> content_digest b'' = src) \<and>
    (\<exists>b. file_compiler own = Some b \<and> compiler_hash (hc_target_hashes c) = content_digest b) \<and>
    map ho_selector (hc_operations c) = map int [0..<61] \<and>
    (\<forall>h \<in> set (hc_operations c). operand_names (ho_selector h) = Inr (map as_name (ho_arguments h)))"
proof -
  have names: "operand_names (ho_selector h) = Inr (map as_name (ho_arguments h))" if "h \<in> set ops_table" for h
    using ops_table_arguments [OF that] by (simp add: operand_names_Inr comp_def byte_argument_def)
  from assms show ?thesis
  proof (rule build_contract_result)
    fix stamp ev cb fleet native kasan source b b' b''
    assume r: "is_stamp stamp" "is_digest src" "is_digest elf" "is_digest ev" "is_digest fleet"
      "read_bytes d native = Some b" "content_digest b = elf"
      "read_bytes d kasan = Some b'" "content_digest b' = elf"
      "read_bytes d source = Some b''" "content_digest b'' = src" "file_compiler own = Some cb"
      and c: "c = contract_document stamp (iso_seconds_z t) ev src
       \<lparr>harness_hash = elf, compiler_hash = content_digest cb,
        op_table_hash = op_table_digest ops_table, fleet_config_hash = fleet\<rparr> ops_table"
    have "valid_contract c"
      unfolding c using r by (intro contract_document_valid) (simp_all add: valid_target_hashes_def op_table_digest_def)
    moreover have "hc_environment c = PRODUCTION" "hc_verified c" "harness_hash (hc_target_hashes c) = elf"
      "hc_source_revision_hash c = src" "compiler_hash (hc_target_hashes c) = content_digest cb"
      "hc_operations c = ops_table"
      by (simp_all add: c contract_document_def)
    moreover have "\<exists>native kasan source b b' b''. read_bytes d native = Some b \<and> content_digest b = elf \<and>
       read_bytes d kasan = Some b' \<and> content_digest b' = elf \<and>
       read_bytes d source = Some b'' \<and> content_digest b'' = src"
      using r by blast
    ultimately show ?thesis using r(12) names ops_table_selectors by simp
  qed
qed

lemma contract_build_bound_witness:
  "\<exists>c. build_contract plain_text sample_snapshot sample_own 0 (content_digest []) (content_digest []) = Inr c \<and>
    valid_contract c \<and> harness_hash (hc_target_hashes c) = content_digest []"
proof -
  obtain c where c: "build_contract plain_text sample_snapshot sample_own 0 (content_digest []) (content_digest []) = Inr c"
    using sample_built by blast
  from contract_build_bound [OF c] c show ?thesis by blast
qed

end
