(* ===== verification/Compiler.thy ===== *)
theory Compiler
  imports Models Codec Contract
begin

unbundle bit_operations_syntax

text \<open>
  The compiler of \<open>src/iou_ai/compiler.py\<close> from typed programs to native bytes: the status gate, the
  translation \<open>_compile_native\<close> and \<open>compile_program\<close> with its independent decode and re-encode.  The
  bytes of the compiler's own file, whose digest the contract must carry, are an argument.  The
  proofs use the codec only through the interface \<open>byte_codec\<close>.
\<close>

section \<open>The compiler\<close>

datatype compile_error = CompilationBlocked string | CompileCodecError codec_error

record compiler_status =
  cs_enabled :: bool
  cs_reason :: string
  cs_compiler_hash :: string

record compiled_program =
  cp_program_id :: string
  cp_payload :: bytes
  cp_payload_hash :: string
  cp_operation_count :: int
  cp_compiler_hash :: string
  cp_harness_hash :: string

definition compiler_digest :: "bytes \<Rightarrow> string" where
  "compiler_digest file = content_digest file"

definition status_conditions :: "bytes \<Rightarrow> harness_contract \<Rightarrow> bool list" where
  "status_conditions file c =
     [hc_environment c = PRODUCTION, hc_verified c, \<not> hc_test_only c, hc_deterministic_compiler c,
      hc_round_trip_verified c, harness_hash (hc_target_hashes c) = AUDITED_HARNESS_HASH,
      compiler_hash (hc_target_hashes c) = compiler_digest file]"

definition compile_status :: "bytes \<Rightarrow> harness_contract option \<Rightarrow> compiler_status" where
  "compile_status file contract =
     (case contract of
        None \<Rightarrow>
          \<lparr>cs_enabled = False, cs_reason = ''an explicit hash-bound harness contract is required'',
           cs_compiler_hash = compiler_digest file\<rparr>
      | Some c \<Rightarrow>
          if \<not> list_all (\<lambda>b. b) (status_conditions file c) then
            \<lparr>cs_enabled = False,
             cs_reason = ''the contract is not a verified production contract for this exact compiler and audited harness ELF'',
             cs_compiler_hash = compiler_digest file\<rparr>
          else if \<not> is_ok verify_audited_codec then
            \<lparr>cs_enabled = False, cs_reason = ''the audited encoder/decoder proof failed'',
             cs_compiler_hash = compiler_digest file\<rparr>
          else
            \<lparr>cs_enabled = True, cs_reason = ''verified production compiler and codec are hash-bound'',
             cs_compiler_hash = compiler_digest file\<rparr>)"

definition integer_argument :: "symbolic_argument \<Rightarrow> compile_error + int" where
  "integer_argument a =
     (if sa_kind a \<noteq> ARG_INTEGER then Inl (CompilationBlocked ''not a byte-valued integer'')
      else if \<not> (0 \<le> integer_value a \<and> integer_value a \<le> 255) then
        Inl (CompilationBlocked ''outside the canonical byte range'')
      else Inr (integer_value a))"

definition is_byte_spec :: "argument_spec \<Rightarrow> bool" where
  "is_byte_spec s \<longleftrightarrow>
     as_kind s = HARG_INTEGER \<and> as_byte_width s = 1 \<and> as_minimum s = 0 \<and> as_maximum s = 255"

text \<open>The loop \<open>control |= value\<close> over the flags of a step.\<close>

fun flag_control :: "(string \<rightharpoonup> int) \<Rightarrow> string list \<Rightarrow> int \<Rightarrow> compile_error + int" where
  "flag_control flags [] control = Inr control"
| "flag_control flags (f # fs) control =
     (case flags f of
        None \<Rightarrow> Inl (CompilationBlocked ''step contains a non-canonical SQE flag'')
      | Some value \<Rightarrow>
          if value AND NOT 0x3F \<noteq> 0 then
            Inl (CompilationBlocked ''step contains a non-canonical SQE flag'')
          else flag_control flags fs (control OR value))"

definition compile_step ::
  "harness_contract \<Rightarrow> symbolic_step \<Rightarrow> compile_error + native_operation" where
  "compile_step c step =
     (case dict_by ho_symbol (hc_operations c) (st_operation step) of
        None \<Rightarrow> Inl (CompilationBlocked ''program references an unknown operation'')
      | Some opn \<Rightarrow>
          if ho_selector opn \<ge> hc_selector_modulus c then
            Inl (CompilationBlocked ''operation selector exceeds the contract modulus'')
          else
            bindR (wrapR CompileCodecError (operand_names (ho_selector opn))) (\<lambda>expected.
              if map as_name (ho_arguments opn) \<noteq> expected then
                Inl (CompilationBlocked ''operation arguments differ from the audited parser order'')
              else
                (let provided = dict_by sa_name (st_arguments step) in
                 if set (map sa_name (st_arguments step)) \<noteq> set expected then
                   Inl (CompilationBlocked ''operation arguments do not exactly match the audited grammar'')
                 else if \<not> list_all is_byte_spec (ho_arguments opn) then
                   Inl (CompilationBlocked ''operation contract contains a non-canonical operand specification'')
                 else
                   bindR (traverse (\<lambda>name. integer_argument (the (provided name))) expected)
                     (\<lambda>values.
                   bindR (flag_control (map_option fs_bit_value \<circ> dict_by fs_symbol (hc_flags c))
                       (st_flags step) 0)
                     (\<lambda>control.
                     Inr \<lparr>selector = ho_selector opn, operands = values, sqe_control = control\<rparr>)))))"

definition compile_native ::
  "planner_program \<Rightarrow> harness_contract \<Rightarrow> compile_error + native_program" where
  "compile_native p c =
     (case dict_by hp_profile_id (hc_profiles c) (pg_ring_profile_id p) of
        None \<Rightarrow> Inl (CompilationBlocked ''program references a non-canonical ring profile'')
      | Some profile \<Rightarrow>
          if hp_selector_value profile \<ge> 8 then
            Inl (CompilationBlocked ''program references a non-canonical ring profile'')
          else
            bindR (traverse (compile_step c) (pg_steps p)) (\<lambda>ops.
              Inr \<lparr>ring_selector = hp_selector_value profile, operations = ops\<rparr>))"

definition compile_program ::
  "bytes \<Rightarrow> planner_program \<Rightarrow> harness_contract \<Rightarrow> compile_error + compiled_program" where
  "compile_program file p c =
     (let st = compile_status file (Some c); h = harness_hash (hc_target_hashes c) in
      if \<not> cs_enabled st then Inl (CompilationBlocked (cs_reason st))
      else
        bindR (compile_native p c) (\<lambda>native.
        bindR (wrapR CompileCodecError (encode_program native h)) (\<lambda>payload.
        bindR (wrapR CompileCodecError (decode_program payload h)) (\<lambda>decoded.
          if decoded \<noteq> native then
            Inl (CompilationBlocked ''independent decoder changed the native program'')
          else
            bindR (wrapR CompileCodecError (encode_program decoded h)) (\<lambda>payload'.
              if payload' \<noteq> payload then
                Inl (CompilationBlocked ''encode-decode-encode byte equality failed'')
              else if int (length payload) > hc_input_max_bytes c then
                Inl (CompilationBlocked ''compiled payload exceeds the contract byte limit'')
              else
                Inr \<lparr>cp_program_id = pg_program_id p, cp_payload = payload,
                     cp_payload_hash = content_digest payload,
                     cp_operation_count = int (length (operations native)),
                     cp_compiler_hash = cs_compiler_hash st, cp_harness_hash = h\<rparr>)))))"

section \<open>Lemmas\<close>

lemma compiler_status_enabled:
  "cs_enabled (compile_status file (Some c)) \<longleftrightarrow>
     hc_environment c = PRODUCTION \<and> hc_verified c \<and> \<not> hc_test_only c \<and>
     hc_deterministic_compiler c \<and> hc_round_trip_verified c \<and>
     harness_hash (hc_target_hashes c) = AUDITED_HARNESS_HASH \<and>
     compiler_hash (hc_target_hashes c) = content_digest file"
  by (simp add: compile_status_def status_conditions_def verify_audited_codec_ok compiler_digest_def)

lemma compiler_status_hash [simp]: "cs_compiler_hash (compile_status file c) = content_digest file"
  by (simp add: compile_status_def compiler_digest_def split: option.split)

lemma integer_argument_Inr [simp]:
  "integer_argument a = Inr v \<longleftrightarrow> sa_kind a = ARG_INTEGER \<and> v = integer_value a \<and> is_byte v"
  by (auto simp: integer_argument_def is_byte_def)

text \<open>
  Past the translation only the byte limit of the contract can stop the compiler: the decode and
  the re-encode are forced by the codec's round trip.
\<close>

lemma compile_program_eq:
  "compile_program file p c =
     (if \<not> cs_enabled (compile_status file (Some c)) then
        Inl (CompilationBlocked (cs_reason (compile_status file (Some c))))
      else
        bindR (compile_native p c) (\<lambda>native.
        bindR (wrapR CompileCodecError (encode_program native (harness_hash (hc_target_hashes c)))) (\<lambda>payload.
          if int (length payload) > hc_input_max_bytes c then
            Inl (CompilationBlocked ''compiled payload exceeds the contract byte limit'')
          else
            Inr \<lparr>cp_program_id = pg_program_id p, cp_payload = payload,
                 cp_payload_hash = content_digest payload,
                 cp_operation_count = int (length (operations native)),
                 cp_compiler_hash = content_digest file,
                 cp_harness_hash = harness_hash (hc_target_hashes c)\<rparr>)))"
proof -
  let ?h = "harness_hash (hc_target_hashes c)"
  have "encode_program n ?h = Inr b \<Longrightarrow> decode_program b ?h = Inr n" for n b
    by (rule harness.redecode)
  then show ?thesis
    unfolding compile_program_def Let_def
    by (intro if_cong refl bindR_cong) (auto intro!: bindR_cong)
qed

section \<open>Flags\<close>

lemma low_bits: "v AND NOT 0x3F = 0 \<longleftrightarrow> 0 \<le> v \<and> v < (64::int)"
proof -
  have "v AND NOT (mask 6) = 0 \<longleftrightarrow> take_bit 6 v = v"
    by (auto simp: bit_eq_iff bit_simps)
  moreover have "mask 6 = (0x3F::int)" by (simp add: mask_eq_exp_minus_1)
  moreover have "take_bit 6 v = v \<longleftrightarrow> 0 \<le> v \<and> v < 64"
    using take_bit_int_eq_self_iff [of 6 v] by simp
  ultimately show ?thesis by simp
qed

lemmas low_bits_numeral = low_bits [simplified]

lemma or_low_bits: "0 \<le> a \<Longrightarrow> a < (64::int) \<Longrightarrow> 0 \<le> b \<Longrightarrow> b < 64 \<Longrightarrow> 0 \<le> a OR b \<and> a OR b < 64"
  using OR_upper [of a 6 b] by simp

lemma flag_control_Inr:
  assumes "flag_control flags fs control = Inr r"
  shows "(\<forall>f \<in> set fs. \<exists>v. flags f = Some v \<and> 0 \<le> v \<and> v < 64) \<and>
    (\<forall>i. bit r i \<longleftrightarrow> bit control i \<or> (\<exists>f \<in> set fs. \<exists>v. flags f = Some v \<and> bit v i)) \<and>
    (0 \<le> control \<and> control < 64 \<longrightarrow> 0 \<le> r \<and> r < 64)"
  using assms
proof (induction fs arbitrary: control)
  case (Cons f fs)
  from Cons.prems obtain v where v: "flags f = Some v" "0 \<le> v \<and> v < 64"
    and rest: "flag_control flags fs (control OR v) = Inr r"
    by (auto simp: low_bits_numeral split: option.splits if_splits)
  from Cons.IH [OF rest] v show ?case by (auto simp: bit_or_iff or_low_bits)
qed simp

lemma flag_control_total:
  assumes "\<forall>f \<in> set fs. \<exists>v. flags f = Some v \<and> 0 \<le> v \<and> v < 64"
  shows "\<exists>r. flag_control flags fs control = Inr r"
  using assms by (induction fs arbitrary: control) (auto simp: low_bits_numeral)

section \<open>What a compiled step is\<close>

text \<open>
  The native operation of a step, stated without the compiler: the selector the contract gives the
  operation, in parser order the value of the argument with each operand's name, and the union of
  the bits of the step's flags.
\<close>

definition translates :: "harness_contract \<Rightarrow> symbolic_step \<Rightarrow> native_operation \<Rightarrow> bool" where
  "translates c s n \<longleftrightarrow>
     (\<exists>h \<in> set (hc_operations c). ho_symbol h = st_operation s \<and> selector n = ho_selector h \<and>
        set (map sa_name (st_arguments s)) = set (map as_name (ho_arguments h)) \<and>
        list_all2 (\<lambda>spec v. \<exists>a \<in> set (st_arguments s). sa_name a = as_name spec \<and>
            sa_kind a = ARG_INTEGER \<and> integer_value a = v \<and> is_byte v) (ho_arguments h) (operands n)) \<and>
     (\<forall>i. bit (sqe_control n) i \<longleftrightarrow>
        (\<exists>f \<in> set (hc_flags c). fs_symbol f \<in> set (st_flags s) \<and> bit (fs_bit_value f) i))"

lemma compile_step_translates:
  assumes "compile_step c s = Inr n" and "valid_contract c"
  shows "translates c s n"
proof -
  from assms(1) obtain h where h: "dict_by ho_symbol (hc_operations c) (st_operation s) = Some h"
    and names: "set (map sa_name (st_arguments s)) = set (map as_name (ho_arguments h))"
    and vals: "traverse (\<lambda>name. integer_argument (the (dict_by sa_name (st_arguments s) name)))
        (map as_name (ho_arguments h)) = Inr (operands n)"
    and fl: "flag_control (map_option fs_bit_value \<circ> dict_by fs_symbol (hc_flags c)) (st_flags s) 0
        = Inr (sqe_control n)"
    and sel: "selector n = ho_selector h"
    by (auto simp: compile_step_def Let_def split: option.splits if_splits)
  have arg: "\<exists>a \<in> set (st_arguments s). sa_name a = as_name spec \<and> sa_kind a = ARG_INTEGER \<and>
      integer_value a = v \<and> is_byte v"
    if "spec \<in> set (ho_arguments h)" "integer_argument (the (dict_by sa_name (st_arguments s) (as_name spec))) = Inr v"
    for spec v
  proof -
    have "as_name spec \<in> sa_name ` set (st_arguments s)" using that(1) names by auto
    then obtain a where "dict_by sa_name (st_arguments s) (as_name spec) = Some a"
      by (cases "dict_by sa_name (st_arguments s) (as_name spec)") (auto simp: dict_by_None)
    with that(2) dict_by_Some [OF this] show ?thesis by auto
  qed
  have "list_all2 (\<lambda>spec v. \<exists>a \<in> set (st_arguments s). sa_name a = as_name spec \<and>
      sa_kind a = ARG_INTEGER \<and> integer_value a = v \<and> is_byte v) (ho_arguments h) (operands n)"
    using vals unfolding traverse_Inr_iff list_all2_map1
    by (rule list.rel_mono_strong) (use arg in blast)
  moreover have "bit (sqe_control n) i \<longleftrightarrow>
      (\<exists>f \<in> set (hc_flags c). fs_symbol f \<in> set (st_flags s) \<and> bit (fs_bit_value f) i)" for i
  proof -
    have d: "distinct (map fs_symbol (hc_flags c))"
      using assms(2) by (simp add: valid_contract_def enforce_contract_references_def)
    have "bit (sqe_control n) i \<longleftrightarrow>
        (\<exists>f \<in> set (st_flags s). \<exists>x. dict_by fs_symbol (hc_flags c) f = Some x \<and> bit (fs_bit_value x) i)"
      using flag_control_Inr [OF fl] by auto
    also have "\<dots> \<longleftrightarrow> (\<exists>f \<in> set (hc_flags c). fs_symbol f \<in> set (st_flags s) \<and> bit (fs_bit_value f) i)"
      using dict_by_distinct [OF d] by (auto dest!: dict_by_Some)
    finally show ?thesis .
  qed
  ultimately show ?thesis
    using dict_by_Some [OF h] names sel unfolding translates_def by blast
qed

lemma compile_native_Inr:
  "compile_native p c = Inr n \<longleftrightarrow>
     (\<exists>f. dict_by hp_profile_id (hc_profiles c) (pg_ring_profile_id p) = Some f \<and>
        hp_selector_value f < 8 \<and> ring_selector n = hp_selector_value f \<and>
        traverse (compile_step c) (pg_steps p) = Inr (operations n))"
  by (cases n) (auto simp: compile_native_def split: option.splits)

section \<open>What compiles\<close>

text \<open>A step the contract admits, in the terms of the checks above.\<close>

definition admitted_step :: "harness_contract \<Rightarrow> symbolic_step \<Rightarrow> bool" where
  "admitted_step c s \<longleftrightarrow>
     (\<exists>h. dict_by ho_symbol (hc_operations c) (st_operation s) = Some h \<and>
        ho_selector h < hc_selector_modulus c \<and>
        operand_names (ho_selector h) = Inr (map as_name (ho_arguments h)) \<and>
        set (map sa_name (st_arguments s)) = set (map as_name (ho_arguments h)) \<and>
        list_all is_byte_spec (ho_arguments h)) \<and>
     (\<forall>a \<in> set (st_arguments s). sa_kind a = ARG_INTEGER \<and> is_byte (integer_value a)) \<and>
     (\<forall>f \<in> set (st_flags s). \<exists>x. dict_by fs_symbol (hc_flags c) f = Some x \<and>
        0 \<le> fs_bit_value x \<and> fs_bit_value x < 64)"

lemma admitted_step_compiles:
  assumes "admitted_step c s"
  shows "\<exists>n. compile_step c s = Inr n \<and> canonical_op n"
proof -
  from assms obtain h where h: "dict_by ho_symbol (hc_operations c) (st_operation s) = Some h"
    "ho_selector h < hc_selector_modulus c" "operand_names (ho_selector h) = Inr (map as_name (ho_arguments h))"
    "set (map sa_name (st_arguments s)) = set (map as_name (ho_arguments h))" "list_all is_byte_spec (ho_arguments h)"
    unfolding admitted_step_def by blast
  let ?arg = "\<lambda>name. the (dict_by sa_name (st_arguments s) name)"
  have arg: "?arg name \<in> set (st_arguments s)" if "name \<in> set (map as_name (ho_arguments h))" for name
  proof -
    have "name \<in> sa_name ` set (st_arguments s)" using that h(4) by simp
    then obtain a where "dict_by sa_name (st_arguments s) name = Some a"
      by (cases "dict_by sa_name (st_arguments s) name") (auto simp: dict_by_None)
    with dict_by_Some [OF this] show ?thesis by simp
  qed
  have vals: "traverse (\<lambda>name. integer_argument (?arg name)) (map as_name (ho_arguments h)) =
      Inr (map (\<lambda>name. integer_value (?arg name)) (map as_name (ho_arguments h)))"
    by (rule traverse_total) (use assms arg in \<open>auto simp: admitted_step_def\<close>)
  have "\<forall>f \<in> set (st_flags s). \<exists>v. (map_option fs_bit_value \<circ> dict_by fs_symbol (hc_flags c)) f = Some v \<and>
      0 \<le> v \<and> v < 64"
    using assms unfolding admitted_step_def by fastforce
  from flag_control_total [OF this, of 0] obtain r where
    fl: "flag_control (map_option fs_bit_value \<circ> dict_by fs_symbol (hc_flags c)) (st_flags s) 0 = Inr r"
    by blast
  let ?n = "\<lparr>selector = ho_selector h,
    operands = map (\<lambda>name. integer_value (?arg name)) (map as_name (ho_arguments h)), sqe_control = r\<rparr>"
  have "compile_step c s = Inr ?n"
    using h vals fl by (simp add: compile_step_def Let_def)
  moreover have "canonical_op ?n"
    using h(3) flag_control_Inr [OF fl] assms arg
    by (auto simp: canonical_op_def operand_names_Inr is_byte_def list_all_iff admitted_step_def)
  ultimately show ?thesis by blast
qed

lemma admitted_program_compiles:
  assumes "cs_enabled (compile_status file (Some c))"
    and "dict_by hp_profile_id (hc_profiles c) (pg_ring_profile_id p) = Some f"
    and "0 \<le> hp_selector_value f" "hp_selector_value f < 8"
    and "\<forall>s \<in> set (pg_steps p). admitted_step c s"
    and "length (pg_steps p) \<le> 96" and "481 \<le> hc_input_max_bytes c"
  shows "\<exists>out. compile_program file p c = Inr out"
proof -
  from assms(5) have "\<forall>s \<in> set (pg_steps p). is_ok (compile_step c s)"
    using admitted_step_compiles unfolding is_ok_iff by blast
  then have "is_ok (traverse (compile_step c) (pg_steps p))" by (simp add: traverse_is_ok)
  then obtain ops where ops: "traverse (compile_step c) (pg_steps p) = Inr ops"
    by (auto simp: is_ok_iff)
  let ?n = "\<lparr>ring_selector = hp_selector_value f, operations = ops\<rparr>"
  have n: "compile_native p c = Inr ?n" using assms(2,4) ops by (simp add: compile_native_Inr)
  have "\<forall>x \<in> set ops. canonical_op x"
  proof
    fix x assume "x \<in> set ops"
    then obtain s where "s \<in> set (pg_steps p)" "compile_step c s = Inr x"
      using ops unfolding traverse_Inr_iff list_all2_conv_all_nth by (metis in_set_conv_nth)
    with assms(5) admitted_step_compiles show "canonical_op x" by fastforce
  qed
  then have canon: "canonical_program ?n"
    using assms(3,4,6) traverse_length [OF ops] by (simp add: canonical_program_def list_all_iff)
  have h: "harness_hash (hc_target_hashes c) = AUDITED_HARNESS_HASH"
    using assms(1) by (simp add: compiler_status_enabled)
  have "encode_program ?n AUDITED_HARNESS_HASH = Inr (program_bytes ?n)"
    using canon by (simp add: encode_program_Inr)
  moreover have "length (program_bytes ?n) \<le> 481" using length_program_bytes [OF canon] by simp
  ultimately show ?thesis
    using assms(1,7) n by (simp add: compile_program_eq h)
qed

section \<open>Under a built contract\<close>

text \<open>
  The contracts \<open>build_contract\<close> makes for the audited ELF and this compiler file.  No file with
  the audited digest can be written down here, so the property below is about the documents.
\<close>

definition authorising :: "bytes \<Rightarrow> harness_contract \<Rightarrow> bool" where
  "authorising file c \<longleftrightarrow>
     (\<exists>stamp t ev src fleet. is_stamp stamp \<and> is_digest src \<and> is_digest ev \<and> is_digest fleet \<and>
        c = contract_document stamp (iso_seconds_z t) ev src
          \<lparr>harness_hash = AUDITED_HARNESS_HASH, compiler_hash = content_digest file,
           op_table_hash = op_table_digest ops_table, fleet_config_hash = fleet\<rparr> ops_table)"

lemma built_is_authorising:
  assumes "build_contract decode d own t src AUDITED_HARNESS_HASH = Inr c"
    and "file_compiler own = Some file"
  shows "authorising file c"
  using assms(1)
proof (rule build_contract_result)
  fix stamp ev cb fleet
  assume "is_stamp stamp" "is_digest src" "is_digest ev" "is_digest fleet" "file_compiler own = Some cb"
    and "c = contract_document stamp (iso_seconds_z t) ev src
       \<lparr>harness_hash = AUDITED_HARNESS_HASH, compiler_hash = content_digest cb,
        op_table_hash = op_table_digest ops_table, fleet_config_hash = fleet\<rparr> ops_table"
  moreover from this assms(2) have "cb = file" by simp
  ultimately show ?thesis unfolding authorising_def by blast
qed

lemma is_digest_audited: "is_digest AUDITED_HARNESS_HASH"
  by code_simp

lemma authorising_enables:
  assumes "authorising file c"
  shows "cs_enabled (compile_status file (Some c)) \<and> valid_contract c \<and> hc_profiles c = profiles_table \<and>
    hc_flags c = flags_table \<and> hc_operations c = ops_table \<and> hc_selector_modulus c = 61 \<and>
    hc_input_max_bytes c = 2048"
proof -
  from assms obtain stamp t ev src fleet where
    r: "is_stamp stamp" "is_digest src" "is_digest ev" "is_digest fleet"
    and c: "c = contract_document stamp (iso_seconds_z t) ev src
       \<lparr>harness_hash = AUDITED_HARNESS_HASH, compiler_hash = content_digest file,
        op_table_hash = op_table_digest ops_table, fleet_config_hash = fleet\<rparr> ops_table"
    unfolding authorising_def by blast
  have "valid_contract c"
    unfolding c using r is_digest_audited
    by (intro contract_document_valid) (simp_all add: valid_target_hashes_def op_table_digest_def)
  then show ?thesis by (simp add: compiler_status_enabled c contract_document_def)
qed

lemma byte_argument_name [simp]: "as_name (byte_argument x) = x" "as_name \<circ> byte_argument = id"
  by (simp_all add: byte_argument_def fun_eq_iff)

lemma byte_argument_spec [simp]: "is_byte_spec (byte_argument x)"
  by (simp add: is_byte_spec_def byte_argument_def)

definition table_step :: "symbolic_step \<Rightarrow> bool" where
  "table_step s \<longleftrightarrow>
     (\<exists>i < 61. st_operation s = OPERATION_SYMBOLS ! i \<and>
        set (map sa_name (st_arguments s)) = set (ENCODER_OPERAND_NAMES ! i)) \<and>
     (\<forall>a \<in> set (st_arguments s). sa_kind a = ARG_INTEGER \<and> is_byte (integer_value a)) \<and>
     set (st_flags s) \<subseteq> set (map fs_symbol flags_table)"

lemma table_flags_low: "\<forall>x \<in> set flags_table. 0 \<le> fs_bit_value x \<and> fs_bit_value x < 64"
  by code_simp

lemma table_selectors_low: "\<forall>f \<in> set profiles_table. 0 \<le> hp_selector_value f \<and> hp_selector_value f < 8"
  by code_simp

lemma table_step_admitted:
  assumes "table_step s" and "hc_flags c = flags_table" "hc_operations c = ops_table" "hc_selector_modulus c = 61"
  shows "admitted_step c s"
proof -
  from assms(1) obtain i where i: "i < 61" "st_operation s = OPERATION_SYMBOLS ! i"
    "set (map sa_name (st_arguments s)) = set (ENCODER_OPERAND_NAMES ! i)" unfolding table_step_def by blast
  let ?h = "ops_table ! i"
  have "distinct (map ho_symbol ops_table)" by (simp add: ops_table_symbols symbols_valid(2))
  moreover have "?h \<in> set ops_table" using i(1) by simp
  ultimately have "dict_by ho_symbol ops_table (ho_symbol ?h) = Some ?h" by (rule dict_by_distinct)
  with i have "dict_by ho_symbol (hc_operations c) (st_operation s) = Some ?h"
    using assms(3) by (simp add: ops_table_nth)
  then have "\<exists>h. dict_by ho_symbol (hc_operations c) (st_operation s) = Some h \<and>
      ho_selector h < hc_selector_modulus c \<and> operand_names (ho_selector h) = Inr (map as_name (ho_arguments h)) \<and>
      set (map sa_name (st_arguments s)) = set (map as_name (ho_arguments h)) \<and> list_all is_byte_spec (ho_arguments h)"
    using i assms(4) by (intro exI [of _ ?h]) (simp add: ops_table_nth operand_names_Inr list_all_iff image_image)
  moreover have "\<exists>x. dict_by fs_symbol (hc_flags c) f = Some x \<and> 0 \<le> fs_bit_value x \<and> fs_bit_value x < 64"
    if "f \<in> set (st_flags s)" for f
  proof -
    have "f \<in> fs_symbol ` set flags_table" using that assms(1) by (auto simp: table_step_def)
    then obtain x where "dict_by fs_symbol flags_table f = Some x"
      by (cases "dict_by fs_symbol flags_table f") (auto simp: dict_by_None)
    with dict_by_Some [OF this] table_flags_low assms(2) show ?thesis by auto
  qed
  ultimately show ?thesis
    using assms(1) unfolding admitted_step_def table_step_def by blast
qed

lemma table_program_compiles:
  assumes "authorising file c"
    and "pg_ring_profile_id p \<in> set (map hp_profile_id profiles_table)"
    and "length (pg_steps p) \<le> 64" and "\<forall>s \<in> set (pg_steps p). table_step s"
  shows "\<exists>out. compile_program file p c = Inr out"
proof -
  note c = authorising_enables [OF assms(1)]
  from assms(2) obtain f where f: "dict_by hp_profile_id profiles_table (pg_ring_profile_id p) = Some f"
    by (cases "dict_by hp_profile_id profiles_table (pg_ring_profile_id p)") (auto simp: dict_by_None)
  show ?thesis
    by (rule admitted_program_compiles [of _ c p f])
      (use c f dict_by_Some [OF f] table_selectors_low table_step_admitted assms(3,4) in auto)
qed

lemma compiled_program_operations:
  assumes "compile_program file p c = Inr out" and "valid_contract c"
  shows "\<exists>native. decode_program (cp_payload out) AUDITED_HARNESS_HASH = Inr native \<and>
    list_all2 (translates c) (pg_steps p) (operations native) \<and>
    (\<exists>f \<in> set (hc_profiles c). hp_profile_id f = pg_ring_profile_id p \<and>
       ring_selector native = hp_selector_value f) \<and>
    cp_operation_count out = int (length (pg_steps p))"
proof -
  from assms(1) obtain n where en: "cs_enabled (compile_status file (Some c))"
    and nat: "compile_native p c = Inr n"
    and enc: "encode_program n (harness_hash (hc_target_hashes c)) = Inr (cp_payload out)"
    and out: "cp_operation_count out = int (length (operations n))"
    by (auto simp: compile_program_eq split: if_splits)
  have "decode_program (cp_payload out) AUDITED_HARNESS_HASH = Inr n"
    using harness.redecode [OF enc] en by (simp add: compiler_status_enabled)
  moreover from nat obtain f where f: "dict_by hp_profile_id (hc_profiles c) (pg_ring_profile_id p) = Some f"
    "ring_selector n = hp_selector_value f" "traverse (compile_step c) (pg_steps p) = Inr (operations n)"
    by (auto simp: compile_native_Inr)
  moreover have "list_all2 (translates c) (pg_steps p) (operations n)"
    using f(3) unfolding traverse_Inr_iff
    by (rule list_all2_mono) (rule compile_step_translates [OF _ assms(2)])
  ultimately show ?thesis
    using out dict_by_Some [OF f(1)] traverse_length [OF f(3)] by auto
qed

lemma compiled_program_record:
  assumes "compile_program file p c = Inr out"
  shows "cp_payload_hash out = content_digest (cp_payload out) \<and>
    int (length (cp_payload out)) \<le> hc_input_max_bytes c \<and>
    cp_compiler_hash out = content_digest file \<and> cp_harness_hash out = AUDITED_HARNESS_HASH"
  using assms by (auto simp: compile_program_eq compiler_status_enabled split: if_splits)

section \<open>Properties\<close>

text \<open>
  C5: What a compiled payload is: decoded by the independent decoder it gives one native operation
  for each step, in order, each translating its step (the contract's selector, the argument values
  in the parser's order, the union of the flags' bits) on the ring of the program's profile; the
  recorded digest, operation count and compiler digest are those of the payload, the program and
  the compiler.
\<close>

theorem compile_sound:
  assumes "compile_program file p c = Inr out" and "valid_contract c"
  shows "\<exists>native. decode_program (cp_payload out) AUDITED_HARNESS_HASH = Inr native \<and>
    list_all2 (translates c) (pg_steps p) (operations native) \<and>
    (\<exists>f \<in> set (hc_profiles c). hp_profile_id f = pg_ring_profile_id p \<and>
       ring_selector native = hp_selector_value f) \<and>
    cp_operation_count out = int (length (pg_steps p)) \<and>
    cp_payload_hash out = content_digest (cp_payload out) \<and>
    int (length (cp_payload out)) \<le> hc_input_max_bytes c \<and>
    cp_compiler_hash out = content_digest file \<and> cp_harness_hash out = AUDITED_HARNESS_HASH"
  using compiled_program_operations [OF assms] compiled_program_record [OF assms(1)] by blast

text \<open>
  The compiler's two run-time cross-checks never disagree: for every program and contract it
  fails neither because the independent decoder changed the program nor because re-encoding gave
  other bytes, nor with a codec error from the decoder.
\<close>

lemma compile_cross_checks_agree:
  "compile_program file p c \<noteq> Inl (CompilationBlocked ''independent decoder changed the native program'') \<and>
   compile_program file p c \<noteq> Inl (CompilationBlocked ''encode-decode-encode byte equality failed'')"
proof -
  let ?E = "\<lambda>e. e \<noteq> CompilationBlocked ''independent decoder changed the native program'' \<and>
    e \<noteq> CompilationBlocked ''encode-decode-encode byte equality failed''"
  have flags: "fails_only ?E (flag_control fl fs k)" for fl fs k
    by (induction fs arbitrary: k) (auto split: option.split)
  have wrapped: "fails_only ?E (wrapR CompileCodecError m)" for m :: "codec_error + 'a"
    by (cases m) simp_all
  have arg: "fails_only ?E (integer_argument a)" for a
    by (simp add: integer_argument_def)
  have step: "fails_only ?E (compile_step c s)" for s
    unfolding compile_step_def Let_def
    by (auto split: option.split intro!: fails_intros flags wrapped arg)
  have "fails_only ?E (compile_native p c)"
    unfolding compile_native_def by (auto split: option.split intro!: fails_intros step)
  moreover have "?E (CompilationBlocked (cs_reason (compile_status file (Some c))))"
    by (simp add: compile_status_def)
  ultimately have "fails_only ?E (compile_program file p c)"
    unfolding compile_program_eq by (auto intro!: fails_intros wrapped)
  then show ?thesis by (auto simp: fails_only_def)
qed

text \<open>
  Every contract document the builder makes for the audited ELF authorises its own compiler, and
  every program of table operations compiles under it: operands named as the audited grammar names
  them, byte-valued integers, known flags and a known ring profile are enough, whatever the order of
  the arguments and however many of the at most 64 steps there are.
\<close>

lemma authorised_programs_compile:
  assumes "authorising file c" and "valid_program p"
    and "pg_ring_profile_id p \<in> set (map hp_profile_id profiles_table)"
    and "\<forall>s \<in> set (pg_steps p). table_step s"
  shows "\<exists>out. compile_program file p c = Inr out"
proof -
  have "length (pg_steps p) \<le> 64" using assms(2) by (simp add: valid_program_def len_between_def)
  from table_program_compiles [OF assms(1,3) this assms(4)] show ?thesis .
qed

section \<open>Witnesses\<close>

definition sample_contract :: "bytes \<Rightarrow> harness_contract" where
  "sample_contract file =
     contract_document ''20260102T030405Z'' (iso_seconds_z 63800000000000000)
       (''sha256:'' @ replicate 64 CHR ''1'') (''sha256:'' @ replicate 64 CHR ''2'')
       \<lparr>harness_hash = AUDITED_HARNESS_HASH, compiler_hash = content_digest file,
        op_table_hash = op_table_digest ops_table, fleet_config_hash = ''sha256:'' @ replicate 64 CHR ''3''\<rparr>
       ops_table"

lemma sample_contract_authorising: "authorising file (sample_contract file)"
proof -
  have "is_stamp ''20260102T030405Z''" "is_digest (''sha256:'' @ replicate 64 CHR ''1'')"
    "is_digest (''sha256:'' @ replicate 64 CHR ''2'')" "is_digest (''sha256:'' @ replicate 64 CHR ''3'')"
    by code_simp+
  then show ?thesis unfolding authorising_def sample_contract_def by blast
qed

definition sample_program :: planner_program where
  "sample_program =
     \<lparr>pg_program_id = ''probe'', pg_objective = ''Exercise an asynchronous fsync.'',
      pg_lane = STABLE_COVERAGE, pg_ring_profile_id = ''plain'', pg_resources = [],
      pg_steps =
        [\<lparr>st_step_id = ''first'', st_ordinal = 0, st_operation = ''fsync'', st_ring_ref = ''ring'',
          st_arguments =
            [\<lparr>sa_name = ''datasync'', sa_kind = ARG_INTEGER, integer_value = 1, boolean_value = False,
              symbol_value = [], sa_resource_ref = []\<rparr>,
             \<lparr>sa_name = ''fd'', sa_kind = ARG_INTEGER, integer_value = 7, boolean_value = False,
              symbol_value = [], sa_resource_ref = []\<rparr>],
          st_flags = [''iosqe_async'', ''iosqe_io_link''], st_link_mode = LINK_LINK,
          st_expected = [''success'']\<rparr>],
      pg_perturbations = [], pg_requested_local_variants = 1,
      pg_expected_signals = [''New completion order.''], pg_safety_notes = []\<rparr>"

lemma sample_program_valid: "valid_program sample_program"
  by code_simp

lemma sample_program_table:
  "pg_ring_profile_id sample_program \<in> set (map hp_profile_id profiles_table)"
  "\<forall>s \<in> set (pg_steps sample_program). table_step s"
proof -
  show "pg_ring_profile_id sample_program \<in> set (map hp_profile_id profiles_table)" by code_simp
  have "OPERATION_SYMBOLS ! 5 = ''fsync''" "ENCODER_OPERAND_NAMES ! 5 = [''fd'', ''datasync'']"
    "{''iosqe_async'', ''iosqe_io_link''} \<subseteq> set (map fs_symbol flags_table)" by code_simp+
  then show "\<forall>s \<in> set (pg_steps sample_program). table_step s"
    by (auto simp: sample_program_def table_step_def is_byte_def intro!: exI [of _ 5])
qed

lemma authorised_programs_compile_witness:
  "\<exists>out. compile_program [] sample_program (sample_contract []) = Inr out"
  by (rule authorised_programs_compile [OF sample_contract_authorising sample_program_valid sample_program_table])

lemma compile_sound_witness:
  "\<exists>out native. compile_program [] sample_program (sample_contract []) = Inr out \<and>
     decode_program (cp_payload out) AUDITED_HARNESS_HASH = Inr native \<and>
     list_all2 (translates (sample_contract [])) (pg_steps sample_program) (operations native)"
proof -
  have "length (pg_steps sample_program) \<le> 64" by (simp add: sample_program_def)
  then obtain out where out: "compile_program [] sample_program (sample_contract []) = Inr out"
    using table_program_compiles [OF sample_contract_authorising sample_program_table(1) _ sample_program_table(2)]
    by blast
  have "valid_contract (sample_contract [])"
    using authorising_enables [OF sample_contract_authorising] by blast
  from compile_sound [OF out this] out show ?thesis by blast
qed

end
