(* ===== verification/Validator.thy ===== *)
theory Validator
  imports Compiler
begin

unbundle bit_operations_syntax

text \<open>
  The deterministic gates of \<open>src/iou_ai/validator.py\<close>.  A gate is the list of its calls of
  \<open>_Checks.require\<close>, in order, each with its check identifier, its condition and its message; no
  condition depends on an earlier one's outcome, so the report is a fold of \<open>require\<close> over the list.
\<close>

section \<open>Checks and reports\<close>

record checks =
  ck_passed :: "string list"
  ck_issues :: "(string \<times> string) list"

type_synonym check_call = "string \<times> bool \<times> string"

fun require :: "check_call \<Rightarrow> checks \<Rightarrow> checks" where
  "require (check_id, condition, message) c =
     (if condition then
        (if check_id \<notin> set (ck_passed c) then c\<lparr>ck_passed := ck_passed c @ [check_id]\<rparr> else c)
      else c\<lparr>ck_issues := ck_issues c @ [(check_id, message)]\<rparr>)"

definition report_of :: "check_call list \<Rightarrow> checks" where
  "report_of calls = fold require calls \<lparr>ck_passed = [], ck_issues = []\<rparr>"

definition report_valid :: "checks \<Rightarrow> bool" where
  "report_valid r \<longleftrightarrow> ck_issues r = []"

definition failed_check_ids :: "checks \<Rightarrow> string list" where
  "failed_check_ids r = map fst (ck_issues r)"

definition VALIDATOR_VERSION :: string where "VALIDATOR_VERSION = ''semantic-validator.v4''"

definition VALIDATOR_HASH :: string where
  "VALIDATOR_HASH = content_digest (ascii_bytes ''io-uring-ai-control semantic-validator.v4'')"

text \<open>\<open>_integer_argument\<close>: the first integer argument of that name.\<close>

definition step_integer :: "symbolic_step \<Rightarrow> string \<Rightarrow> int option" where
  "step_integer s name =
     map_option integer_value
       (find (\<lambda>a. sa_name a = name \<and> sa_kind a = ARG_INTEGER) (st_arguments s))"

datatype runtime_mode = MockMode | ShadowMode

definition contract_mode_ok :: "runtime_mode \<Rightarrow> harness_contract \<Rightarrow> bool" where
  "contract_mode_ok mode c \<longleftrightarrow>
     (mode = MockMode \<and> hc_environment c \<in> {MOCK, TEST}) \<or>
     (mode = ShadowMode \<and> hc_environment c = PRODUCTION \<and> \<not> hc_test_only c)"

section \<open>The run inputs\<close>

definition freshness_call :: "instant \<Rightarrow> instant \<Rightarrow> check_call" where
  "freshness_call current generated =
     (''preflight.telemetry-freshness'',
      current - hours 2 \<le> generated \<and> generated \<le> current + minutes 5,
      ''telemetry is stale or implausibly future-dated'')"

definition run_input_calls :: "bytes \<Rightarrow> telemetry_packet \<Rightarrow> harness_contract \<Rightarrow> runtime_mode \<Rightarrow> check_call list"
where
  "run_input_calls file t c mode =
     [(''preflight.packet-hash'',
        tp_packet_hash t = content_digest (canonical_json (dump_packet_body t)),
        ''telemetry packet hash does not match its canonical contents''),
      (''preflight.target-hashes'', tp_target_hashes t = hc_target_hashes c,
        ''telemetry and harness target hashes differ''),
      (''preflight.contract-mode'', contract_mode_ok mode c,
        ''harness contract is not authorized for this runtime mode''),
      (''preflight.planner-view'', hc_verified c,
        ''semantic planner view has not been independently verified'')] @
     (if hc_environment c = PRODUCTION \<and> hc_deterministic_compiler c then
        [(''preflight.compiler-authority'', cs_enabled (compile_status file (Some c)),
          ''production contract is not bound to this exact compiler and codec'')]
      else [])"

text \<open>None is the exception of a timestamp that is no date.\<close>

definition validate_run_inputs ::
  "bytes \<Rightarrow> telemetry_packet \<Rightarrow> harness_contract \<Rightarrow> runtime_mode \<Rightarrow> instant \<Rightarrow> checks option" where
  "validate_run_inputs file t c mode now =
     (if mode = ShadowMode then
        (case parse_timestamp (tp_generated_at t) of
           None \<Rightarrow> None
         | Some generated \<Rightarrow>
             Some (report_of (run_input_calls file t c mode @ [freshness_call now generated])))
      else Some (report_of (run_input_calls file t c mode)))"

section \<open>The proposal\<close>

definition cited_refs :: "planner_proposal \<Rightarrow> string list" where
  "cited_refs p =
     hy_evidence_refs (pr_hypothesis p) @ concat (map rp_evidence_refs (pr_research_priorities p))"

definition binding_calls ::
  "telemetry_packet \<Rightarrow> planner_proposal \<Rightarrow> harness_contract \<Rightarrow> runtime_mode \<Rightarrow> check_call list" where
  "binding_calls t p c mode =
     [(''binding.packet-id'', pr_packet_id p = tp_packet_id t,
        ''proposal packet_id does not match telemetry''),
      (''binding.target-hashes'',
        pr_target_hashes p = tp_target_hashes t \<and> tp_target_hashes t = hc_target_hashes c,
        ''telemetry, proposal, and harness target hashes differ''),
      (''contract.mode'', contract_mode_ok mode c,
        ''mock/test contract cannot authorize an external shadow run''),
      (''contract.planner-view'', hc_verified c,
        ''semantic harness planner view is not independently verified''),
      (''evidence.references'', set (cited_refs p) \<subseteq> set (map ev_ref (tp_evidence t)),
        ''proposal cites evidence absent from telemetry'')]"

definition abstention_calls :: "planner_proposal \<Rightarrow> check_call list" where
  "abstention_calls p =
     [(''proposal.abstention'',
        \<not> pr_analysis_only p \<and> pr_research_priorities p = [] \<and> pr_programs p = [],
        ''abstaining proposal contains analysis or programs'')]"

definition priority_calls :: "harness_contract \<Rightarrow> research_priority \<Rightarrow> check_call list" where
  "priority_calls c r =
     (let prefix = ''analysis.'' @ rp_id r;
          profiles = dict_by hp_profile_id (hc_profiles c);
          selected = map profiles (rp_ring_profile_ids r)
      in [(prefix @ ''.operations'',
            set (rp_operation_families r) \<subseteq> set (map ho_symbol (hc_operations c)),
            ''research priority references an unknown operation family''),
          (prefix @ ''.profiles'',
            list_all (\<lambda>x. x \<noteq> None) selected \<and>
              set (rp_ring_profile_ids r) \<inter> set (hc_forbidden_profiles c) = {},
            ''research priority references an unknown or forbidden profile''),
          (prefix @ ''.lanes'',
            list_all (\<lambda>x. case x of None \<Rightarrow> False
              | Some f \<Rightarrow> set (rp_preferred_lanes r) \<subseteq> set (hp_allowed_lanes f)) selected,
            ''research priority lane is not allowed by every selected profile'')])"

definition analysis_calls :: "harness_contract \<Rightarrow> planner_proposal \<Rightarrow> check_call list" where
  "analysis_calls c p =
     [(''analysis.priority-count'', pr_research_priorities p \<noteq> [] \<and> pr_programs p = [],
        ''analysis-only proposal must contain priorities and no programs'')] @
     concat (map (priority_calls c) (pr_research_priorities p))"

subsection \<open>Programs\<close>

definition resource_total :: "planner_program \<Rightarrow> string \<Rightarrow> int" where
  "resource_total g kind =
     sum_list (map rb_quantity (filter (\<lambda>b. rb_resource_kind b = kind) (pg_resources g)))"

text \<open>Each binding on its own, then the total of each kind.\<close>

definition resources_valid :: "harness_contract \<Rightarrow> planner_program \<Rightarrow> bool" where
  "resources_valid c g \<longleftrightarrow>
     (let specs = dict_by rs_resource_kind (hc_resources c) in
      list_all (\<lambda>b. case specs (rb_resource_kind b) of None \<Rightarrow> False
          | Some s \<Rightarrow> \<not> rb_quantity b > rs_max_instances s) (pg_resources g) \<and>
      list_all (\<lambda>kind. case specs kind of None \<Rightarrow> False
          | Some s \<Rightarrow> \<not> resource_total g kind > rs_max_instances s)
        (dedup (map rb_resource_kind (pg_resources g))))"

definition expected_link_flags :: "link_mode \<Rightarrow> string set" where
  "expected_link_flags m =
     (case m of
        LINK_NONE \<Rightarrow> {}
      | LINK_LINK \<Rightarrow> {''iosqe_io_link''}
      | LINK_HARD \<Rightarrow> {''iosqe_io_hardlink''}
      | LINK_DRAIN \<Rightarrow> {''iosqe_io_drain''})"

definition argument_ok :: "planner_program \<Rightarrow> symbolic_argument \<Rightarrow> argument_spec \<Rightarrow> bool" where
  "argument_ok g a e =
     (case as_kind e of
        HARG_INTEGER \<Rightarrow>
          sa_kind a = ARG_INTEGER \<and> as_minimum e \<le> integer_value a \<and> integer_value a \<le> as_maximum e
      | HARG_BOOLEAN \<Rightarrow> sa_kind a = ARG_BOOLEAN
      | HARG_ENUM \<Rightarrow> sa_kind a = ARG_SYMBOL \<and> symbol_value a \<in> set (as_enum_symbols e)
      | HARG_RESOURCE \<Rightarrow>
          sa_kind a = ARG_RESOURCE \<and>
          (case dict_by rb_resource_ref (pg_resources g) (sa_resource_ref a) of
             None \<Rightarrow> False
           | Some b \<Rightarrow> rb_resource_kind b = as_resource_kind e))"

definition args_valid :: "planner_program \<Rightarrow> symbolic_step \<Rightarrow> harness_operation \<Rightarrow> bool" where
  "args_valid g s h \<longleftrightarrow>
     (let proposed = dict_by sa_name (st_arguments s); expected = dict_by as_name (ho_arguments h)
      in set (map sa_name (st_arguments s)) = set (map as_name (ho_arguments h)) \<and>
         list_all (\<lambda>name. case (proposed name, expected name) of
             (Some a, Some e) \<Rightarrow> argument_ok g a e
           | _ \<Rightarrow> False) (map sa_name (st_arguments s)))"

definition step_prefix :: "planner_program \<Rightarrow> symbolic_step \<Rightarrow> string" where
  "step_prefix g s = ''program.'' @ pg_program_id g @ ''.step.'' @ st_step_id s"

definition step_calls :: "harness_contract \<Rightarrow> planner_program \<Rightarrow> symbolic_step \<Rightarrow> check_call list" where
  "step_calls c g s =
     (let pre = step_prefix g s; opn = dict_by ho_symbol (hc_operations c) (st_operation s) in
      [(pre @ ''.ring-ref'', st_ring_ref s = pg_ring_profile_id g,
         ''step ring_ref differs from its program ring profile''),
       (pre @ ''.operation'', opn \<noteq> None, ''unknown harness operation'')] @
      (case opn of
         None \<Rightarrow> []
       | Some h \<Rightarrow>
           [(pre @ ''.profile'', pg_ring_profile_id g \<in> set (ho_allowed_profiles h),
              ''operation is not permitted for this profile''),
            (pre @ ''.lane'', pg_lane g \<in> set (ho_allowed_lanes h),
              ''operation is not permitted in this lane''),
            (pre @ ''.flags'',
              set (st_flags s) \<subseteq> set (ho_allowed_flags h) \<and>
                set (st_flags s) \<subseteq> set (map fs_symbol (hc_flags c)),
              ''step contains an unknown or disallowed flag''),
            (pre @ ''.link-mode'',
              set (st_flags s) \<inter> {''iosqe_io_link'', ''iosqe_io_hardlink'', ''iosqe_io_drain''} =
                expected_link_flags (st_link_mode s),
              ''link_mode conflicts with the selected SQE link flags''),
            (pre @ ''.outcomes'', set (st_expected s) \<subseteq> set (ho_expected h),
              ''step expects a result class absent from the harness contract''),
            (pre @ ''.arguments'', args_valid g s h,
              ''operation arguments do not exactly match the typed harness contract'')]))"

subsection \<open>Production programs\<close>

definition reference_requirement :: "string \<Rightarrow> (string \<times> string \<times> int) option" where
  "reference_requirement opn =
     map_of [(''timeout_remove'', (''user_data'', ''timeout'', 8)),
             (''timeout_update'', (''user_data'', ''timeout'', 8)),
             (''poll_remove'', (''user_data'', ''poll_add'', 6)),
             (''poll_update'', (''old_user_data'', ''poll_add'', 6))] opn"

definition linked :: "symbolic_step \<Rightarrow> bool" where
  "linked s \<longleftrightarrow> st_link_mode s \<in> {LINK_LINK, LINK_HARD}"

definition control_sum :: "harness_contract \<Rightarrow> symbolic_step \<Rightarrow> int" where
  "control_sum c s =
     sum_list (map (\<lambda>f. case dict_by fs_symbol (hc_flags c) f of None \<Rightarrow> 0 | Some x \<Rightarrow> fs_bit_value x)
       (st_flags s))"

definition provides_group :: "int option \<Rightarrow> symbolic_step \<Rightarrow> bool" where
  "provides_group grp s \<longleftrightarrow> st_operation s = ''provide_buffers'' \<and> step_integer s ''buffer_group'' = grp"

definition native_step_calls ::
  "harness_contract \<Rightarrow> planner_program \<Rightarrow> nat \<Rightarrow> symbolic_step \<Rightarrow> check_call list" where
  "native_step_calls c g ordinal s =
     (let pre = step_prefix g s; prior = take ordinal (pg_steps g) in
      (if linked s then
         [(pre @ ''.native.link-successor'', ordinal + 1 < length (pg_steps g),
           ''a linked request must have a following request'')] else []) @
      (if st_link_mode s = LINK_DRAIN then
         [(pre @ ''.native.drain-predecessor'', ordinal > 0,
           ''a drain request must have prior work to drain'')] else []) @
      (if st_operation s = ''link_timeout'' then
         [(pre @ ''.native.link-timeout-predecessor'',
           ordinal > 0 \<and> linked (pg_steps g ! (ordinal - 1)),
           ''link_timeout must immediately follow a linked request'')] else []) @
      (case reference_requirement (st_operation s) of
         None \<Rightarrow> []
       | Some (argument_name, producer, expected_value) \<Rightarrow>
           [(pre @ ''.native.reference'',
             producer \<in> set (map st_operation prior) \<and> step_integer s argument_name = Some expected_value,
             ''request reference does not match a prior canonical producer'')]) @
      (if st_operation s = ''cancel'' then
         (let selectors = concat (map (\<lambda>i.
              case dict_by ho_symbol (hc_operations c) (st_operation i) of
                None \<Rightarrow> [] | Some h \<Rightarrow> [ho_selector h]) prior)
          in [(pre @ ''.native.cancel-reference'',
               selectors \<noteq> [] \<and>
               (case step_integer s ''user_data'' of None \<Rightarrow> False | Some v \<Rightarrow> v \<in> set selectors),
               ''cancel user_data must name a prior canonical operation selector'')]) else []) @
      (if ''iosqe_buffer_select'' \<in> set (st_flags s) then
         [(pre @ ''.native.buffer-provider'',
           list_ex (provides_group (Some (control_sum c s div 16))) prior,
           ''buffer selection requires a prior matching provide_buffers step'')] else []) @
      (if st_operation s = ''remove_buffers'' then
         [(pre @ ''.native.buffer-remove'',
           list_ex (provides_group (step_integer s ''buffer_group'')) prior,
           ''remove_buffers requires a prior matching provider'')] else []))"

definition native_calls :: "harness_contract \<Rightarrow> planner_program \<Rightarrow> check_call list" where
  "native_calls c g =
     (let prefix = ''program.'' @ pg_program_id g in
      [(prefix @ ''.native.base-only'',
         pg_requested_local_variants g = 1 \<and> pg_perturbations g = [],
         ''production v1 accepts one reviewed base program and no perturbations''),
       (prefix @ ''.native.no-fixed-file'',
         list_all (\<lambda>s. ''iosqe_fixed_file'' \<notin> set (st_flags s)) (pg_steps g),
         ''the current harness writes real descriptors before SQE fixed-file interpretation'')] @
      concat (map (\<lambda>(ordinal, s). native_step_calls c g ordinal s) (enumerate 0 (pg_steps g))) @
      (if pg_ring_profile_id g = ''disabled_until_register'' then
         (let first = pg_steps g ! 0 in
          [(prefix @ ''.native.enable-ring'',
            st_operation first = ''register_raw'' \<and>
            (case step_integer first ''register_opcode'' of None \<Rightarrow> False | Some v \<Rightarrow> v mod 34 = 12),
            ''the disabled ring must begin with IORING_REGISTER_ENABLE_RINGS'')])
       else []))"

definition program_calls :: "harness_contract \<Rightarrow> planner_program \<Rightarrow> check_call list" where
  "program_calls c g =
     (let prefix = ''program.'' @ pg_program_id g;
          profile = dict_by hp_profile_id (hc_profiles c) (pg_ring_profile_id g)
      in [(prefix @ ''.profile'',
            profile \<noteq> None \<and> pg_ring_profile_id g \<notin> set (hc_forbidden_profiles c),
            ''unknown or forbidden ring profile'')] @
         (case profile of
            None \<Rightarrow> []
          | Some f \<Rightarrow>
              [(prefix @ ''.profile-lane'', pg_lane g \<in> set (hp_allowed_lanes f),
                ''program lane is not allowed by ring profile'')]) @
         [(prefix @ ''.resources'', resources_valid c g,
            ''resource declaration is unknown or exceeds harness maximum''),
          (prefix @ ''.step-count'', int (length (pg_steps g)) \<le> hc_operation_max_count c,
            ''program exceeds harness operation maximum'')] @
         concat (map (step_calls c g) (pg_steps g)) @
         (if hc_environment c = PRODUCTION then native_calls c g else []))"

definition executable_calls :: "bytes \<Rightarrow> harness_contract \<Rightarrow> planner_proposal \<Rightarrow> check_call list" where
  "executable_calls file c p =
     [(''contract.program-gate'',
        hc_deterministic_compiler c \<and> hc_round_trip_verified c \<and>
        (hc_environment c \<noteq> PRODUCTION \<or> cs_enabled (compile_status file (Some c))),
        ''program proposals require a deterministic compiler and verified decoder round trip''),
      (''proposal.variant-bound'',
        sum_list (map pg_requested_local_variants (pr_programs p)) \<le> 64,
        ''proposal asks for more than 64 deterministic local variants'')] @
     concat (map (program_calls c) (pr_programs p))"

definition proposal_calls ::
  "bytes \<Rightarrow> telemetry_packet \<Rightarrow> planner_proposal \<Rightarrow> harness_contract \<Rightarrow> runtime_mode \<Rightarrow> check_call list"
where
  "proposal_calls file t p c mode =
     binding_calls t p c mode @
     (if pr_abstain p then abstention_calls p
      else if pr_analysis_only p then analysis_calls c p
      else executable_calls file c p)"

definition validate_proposal ::
  "bytes \<Rightarrow> telemetry_packet \<Rightarrow> planner_proposal \<Rightarrow> harness_contract \<Rightarrow> runtime_mode \<Rightarrow> checks" where
  "validate_proposal file t p c mode = report_of (proposal_calls file t p c mode)"

section \<open>The review\<close>

definition finding_target_ok :: "planner_proposal \<Rightarrow> review_finding \<Rightarrow> bool" where
  "finding_target_ok p f \<longleftrightarrow>
     (if rf_program_id f \<noteq> [] then
        (case dict_by pg_program_id (pr_programs p) (rf_program_id f) of
           None \<Rightarrow> False
         | Some g \<Rightarrow> rf_step_id f = [] \<or> rf_step_id f \<in> set (map st_step_id (pg_steps g)))
      else rf_step_id f = [])"

definition reviewer_calls ::
  "telemetry_packet \<Rightarrow> planner_proposal \<Rightarrow> reviewer_verdict \<Rightarrow> check_call list" where
  "reviewer_calls t p v =
     (let evidence = set (map ev_ref (tp_evidence t));
          review = set (rv_checked_evidence_refs v);
          finding = set (concat (map rf_evidence_refs (rv_findings v)))
      in [(''review.binding'',
            rv_packet_id v = tp_packet_id t \<and> rv_proposal_id v = pr_proposal_id p,
            ''review is not bound to this packet and proposal''),
          (''review.evidence'',
            review \<subseteq> evidence \<and> finding \<subseteq> evidence \<and> finding \<subseteq> review \<and> set (cited_refs p) \<subseteq> review,
            ''review omits proposal evidence or cites evidence absent from telemetry''),
          (''review.finding-targets'', list_all (finding_target_ok p) (rv_findings v),
            ''review finding references an unknown program or step''),
          (''review.acceptance'',
            rv_verdict v = ACCEPT \<and> safe_for_quarantine v \<and> rv_residual_risk v \<in> {RISK_LOW, RISK_MEDIUM} \<and>
            \<not> list_ex (\<lambda>f. rf_severity f \<in> {SEV_CRITICAL, SEV_HIGH}) (rv_findings v),
            ''independent reviewer did not accept with bounded residual risk and no severe findings'')])"

definition validate_reviewer ::
  "telemetry_packet \<Rightarrow> planner_proposal \<Rightarrow> reviewer_verdict \<Rightarrow> checks" where
  "validate_reviewer t p v = report_of (reviewer_calls t p v)"

text \<open>\<open>require_valid\<close>: a report with issues is raised as a \<open>SemanticValidationError\<close>.\<close>

definition require_valid :: "checks \<Rightarrow> checks + checks" where
  "require_valid r = (if report_valid r then Inr r else Inl r)"

section \<open>What a report says\<close>

lemma fold_require_issues:
  "ck_issues (fold require calls c) =
     ck_issues c @ map (\<lambda>(i, _, m). (i, m)) (filter (\<lambda>(_, b, _). \<not> b) calls)"
  by (induction calls arbitrary: c) (auto split: if_splits)

lemma require_passed:
  "set (ck_passed (require (i, b, m) c)) = set (ck_passed c) \<union> (if b then {i} else {})"
  by auto

lemma fold_require_passed:
  "set (ck_passed (fold require calls c)) = set (ck_passed c) \<union> {i. \<exists>m. (i, True, m) \<in> set calls}"
proof (induction calls arbitrary: c)
  case (Cons x calls)
  obtain i b m where x: "x = (i, b, m)" by (cases x) auto
  show ?case by (auto simp: x Cons.IH require_passed simp del: require.simps split: if_splits)
qed simp

lemma report_valid_iff: "report_valid (report_of calls) \<longleftrightarrow> (\<forall>(i, b, m) \<in> set calls. b)"
  by (auto simp: report_valid_def report_of_def fold_require_issues filter_empty_conv)

lemma report_valid_append:
  "report_valid (report_of (a @ b)) \<longleftrightarrow> report_valid (report_of a) \<and> report_valid (report_of b)"
  by (simp add: report_valid_iff ball_Un)

lemma report_valid_concat:
  "report_valid (report_of (concat (map f xs))) \<longleftrightarrow> (\<forall>x \<in> set xs. report_valid (report_of (f x)))"
  by (fastforce simp: report_valid_iff)

lemma report_valid_Cons: "report_valid (report_of ((i, b, m) # cs)) \<longleftrightarrow> b \<and> report_valid (report_of cs)"
  by (auto simp: report_valid_iff)

lemma report_valid_Nil: "report_valid (report_of [])"
  by (simp add: report_valid_iff)

lemma report_valid_if:
  "report_valid (report_of (if b then calls else [])) \<longleftrightarrow> (b \<longrightarrow> report_valid (report_of calls))"
  by (simp add: report_valid_Nil)

lemmas report_rules =
  report_valid_append report_valid_concat report_valid_Cons report_valid_Nil report_valid_if

section \<open>Accepted programs\<close>

text \<open>The program checks of a proposal that passed.\<close>

lemma passed_program:
  assumes "report_valid (validate_proposal file t p c mode)"
    and "\<not> pr_abstain p" and "\<not> pr_analysis_only p" and "g \<in> set (pr_programs p)"
  shows "report_valid (report_of (program_calls c g))"
  using assms by (simp add: validate_proposal_def proposal_calls_def executable_calls_def report_rules)

lemma passed_profile:
  "report_valid (report_of (program_calls c g)) \<Longrightarrow>
     \<exists>f. dict_by hp_profile_id (hc_profiles c) (pg_ring_profile_id g) = Some f \<and>
       pg_ring_profile_id g \<notin> set (hc_forbidden_profiles c) \<and> pg_lane g \<in> set (hp_allowed_lanes f)"
  by (auto simp: program_calls_def Let_def report_rules split: option.splits)

lemma passed_step:
  "report_valid (report_of (program_calls c g)) \<Longrightarrow> s \<in> set (pg_steps g) \<Longrightarrow>
     \<exists>h. dict_by ho_symbol (hc_operations c) (st_operation s) = Some h \<and>
       set (st_flags s) \<subseteq> set (ho_allowed_flags h) \<and>
       set (st_flags s) \<subseteq> set (map fs_symbol (hc_flags c)) \<and>
       set (st_flags s) \<inter> {''iosqe_io_link'', ''iosqe_io_hardlink'', ''iosqe_io_drain''} =
         expected_link_flags (st_link_mode s) \<and>
       args_valid g s h"
  by (auto simp: program_calls_def step_calls_def Let_def report_rules split: option.splits)

lemma passed_native:
  "report_valid (report_of (program_calls c g)) \<Longrightarrow> hc_environment c = PRODUCTION \<Longrightarrow>
     report_valid (report_of (native_calls c g))"
  by (simp add: program_calls_def Let_def report_rules)

lemma passed_native_step:
  assumes "report_valid (report_of (native_calls c g))" and "i < length (pg_steps g)"
  shows "report_valid (report_of (native_step_calls c g i (pg_steps g ! i)))"
proof -
  have "(i, pg_steps g ! i) \<in> set (enumerate 0 (pg_steps g))"
    using assms(2) by (simp add: in_set_enumerate_eq)
  with assms(1) show ?thesis by (fastforce simp: native_calls_def Let_def report_rules)
qed

lemma table_flag_symbols: "hc_flags c = flags_table \<Longrightarrow> map fs_symbol (hc_flags c) = map fs_symbol flags_table"
  by simp

text \<open>Under the audited tables an accepted step is a table step, so the compiler takes it.\<close>

lemma accepted_step_is_table_step:
  assumes "report_valid (report_of (program_calls c g))" and "s \<in> set (pg_steps g)"
    and "hc_operations c = ops_table" "hc_flags c = flags_table"
    and "distinct (map sa_name (st_arguments s))"
  shows "table_step s"
proof -
  from passed_step [OF assms(1,2)] obtain h where h: "dict_by ho_symbol ops_table (st_operation s) = Some h"
    and fl: "set (st_flags s) \<subseteq> set (map fs_symbol flags_table)" and av: "args_valid g s h"
    using assms(3,4) by auto
  from dict_by_Some [OF h] obtain i where i: "i < 61" "h = ops_table ! i" "st_operation s = OPERATION_SYMBOLS ! i"
    by (auto simp: in_set_conv_nth ops_table_nth)
  then have args: "ho_arguments h = map byte_argument (ENCODER_OPERAND_NAMES ! i)" by (simp add: ops_table_nth)
  have names: "set (map sa_name (st_arguments s)) = set (ENCODER_OPERAND_NAMES ! i)"
    using av by (auto simp: args_valid_def Let_def args image_image)
  have "sa_kind a = ARG_INTEGER \<and> is_byte (integer_value a)" if a: "a \<in> set (st_arguments s)" for a
  proof -
    have "dict_by sa_name (st_arguments s) (sa_name a) = Some a" using assms(5) a by (rule dict_by_distinct)
    then obtain e where e: "dict_by as_name (ho_arguments h) (sa_name a) = Some e" "argument_ok g a e"
      using av a by (fastforce simp: args_valid_def Let_def list_all_iff split: option.splits)
    from dict_by_Some [OF e(1)] args obtain n where "e = byte_argument n" by auto
    with e(2) show ?thesis by (simp add: argument_ok_def byte_argument_def is_byte_def)
  qed
  with i names fl show ?thesis unfolding table_step_def by blast
qed

section \<open>The control byte\<close>

text \<open>The validator adds the flag bits, the compiler joins them: under the audited table both agree.\<close>

definition flag_bits :: "string \<Rightarrow> int" where
  "flag_bits f = (case dict_by fs_symbol flags_table f of None \<Rightarrow> 0 | Some x \<Rightarrow> fs_bit_value x)"

lemma flag_bits_disjoint:
  assumes "f \<in> set (map fs_symbol flags_table)" "f' \<in> set (map fs_symbol flags_table)" "f \<noteq> f'"
  shows "flag_bits f AND flag_bits f' = 0"
proof -
  have "\<forall>f \<in> set (map fs_symbol flags_table). \<forall>f' \<in> set (map fs_symbol flags_table).
      f \<noteq> f' \<longrightarrow> flag_bits f AND flag_bits f' = 0" by code_simp
  with assms show ?thesis by blast
qed

lemma flag_bits_low: "f \<in> set (map fs_symbol flags_table) \<Longrightarrow> 0 \<le> flag_bits f \<and> flag_bits f < 64"
proof -
  have "\<forall>f \<in> set (map fs_symbol flags_table). 0 \<le> flag_bits f \<and> flag_bits f < 64" by code_simp
  then show "f \<in> set (map fs_symbol flags_table) \<Longrightarrow> 0 \<le> flag_bits f \<and> flag_bits f < 64" by blast
qed

lemma flag_control_sum:
  assumes "set fs \<subseteq> set (map fs_symbol flags_table)" and "distinct fs"
    and "\<forall>f \<in> set fs. acc AND flag_bits f = 0"
  shows "flag_control (map_option fs_bit_value \<circ> dict_by fs_symbol flags_table) fs acc =
    Inr (acc + sum_list (map flag_bits fs))"
  using assms
proof (induction fs arbitrary: acc)
  case (Cons f fs)
  have f: "f \<in> set (map fs_symbol flags_table)" using Cons.prems(1) by simp
  then obtain x where x: "dict_by fs_symbol flags_table f = Some x"
    by (cases "dict_by fs_symbol flags_table f") (auto simp: dict_by_None)
  then have v: "flag_bits f = fs_bit_value x" by (simp add: flag_bits_def)
  have low: "fs_bit_value x AND - 64 = 0" using flag_bits_low [OF f] v by (simp add: low_bits_numeral)
  have "acc AND flag_bits f = 0" using Cons.prems(3) by simp
  then have add: "acc OR fs_bit_value x = acc + flag_bits f"
    unfolding v by (subst disjunctive_add) (auto simp: bit_eq_iff bit_simps)
  have "(acc OR fs_bit_value x) AND flag_bits f' = 0" if f': "f' \<in> set fs" for f'
  proof -
    have "acc AND flag_bits f' = 0" "flag_bits f AND flag_bits f' = 0"
      using Cons.prems f' f flag_bits_disjoint [of f f'] by auto
    then show ?thesis by (simp add: v bit.conj_disj_distrib2)
  qed
  then have "flag_control (map_option fs_bit_value \<circ> dict_by fs_symbol flags_table) fs (acc OR fs_bit_value x) =
      Inr ((acc OR fs_bit_value x) + sum_list (map flag_bits fs))"
    using Cons.prems by (intro Cons.IH) auto
  then show ?case by (simp add: x low add comp_def add.assoc)
qed simp

lemma compiled_control_is_sum:
  assumes "compile_step c s = Inr n" and "hc_flags c = flags_table"
    and "set (st_flags s) \<subseteq> set (map fs_symbol flags_table)" and "distinct (st_flags s)"
  shows "sqe_control n = control_sum c s"
proof -
  have "flag_control (map_option fs_bit_value \<circ> dict_by fs_symbol flags_table) (st_flags s) 0 = Inr (sqe_control n)"
    using assms(1,2) by (auto simp: compile_step_def Let_def split: option.splits if_splits)
  moreover have "control_sum c s = sum_list (map flag_bits (st_flags s))"
    using assms(2) by (simp add: control_sum_def flag_bits_def [abs_def])
  ultimately show ?thesis using flag_control_sum [OF assms(3,4), of 0] by simp
qed

section \<open>Accepted proposals under the audited contracts\<close>

text \<open>What the model validation of a proposal gives for each of its programs.\<close>

lemma proposal_program:
  assumes "valid_proposal p" and "g \<in> set (pr_programs p)"
  shows "valid_program g"
  using assms by (auto simp: valid_proposal_def list_all_iff)

lemma program_step:
  assumes "valid_program g" and "s \<in> set (pg_steps g)"
  shows "valid_step s"
  using assms by (auto simp: valid_program_def list_all_iff)

lemma valid_step_distinct: "valid_step s \<Longrightarrow> distinct (map sa_name (st_arguments s)) \<and> distinct (st_flags s)"
  by (simp add: valid_step_def require_unique_argument_and_flag_names_def)

lemma accepted_program_compiles:
  assumes "authorising file c" and "valid_program g" and "report_valid (report_of (program_calls c g))"
  shows "\<exists>out. compile_program file g c = Inr out"
proof -
  note c = authorising_enables [OF assms(1)]
  from passed_profile [OF assms(3)] c obtain f where
    "dict_by hp_profile_id profiles_table (pg_ring_profile_id g) = Some f" by auto
  from dict_by_Some [OF this] have "pg_ring_profile_id g \<in> set (map hp_profile_id profiles_table)"
    unfolding set_map by (metis imageI)
  moreover have "\<forall>s \<in> set (pg_steps g). table_step s"
    using accepted_step_is_table_step [OF assms(3)] program_step [OF assms(2)] valid_step_distinct c by blast
  moreover have "length (pg_steps g) \<le> 64" using assms(2) by (simp add: valid_program_def len_between_def)
  ultimately show ?thesis by (intro table_program_compiles [OF assms(1)])
qed

text \<open>Of the six flag bits, 1 is the drain, 2 the link and 3 the hard link.\<close>

lemma link_bits:
  "\<forall>f \<in> set flags_table.
     (bit (fs_bit_value f) 1 \<longleftrightarrow> fs_symbol f = ''iosqe_io_drain'') \<and>
     (bit (fs_bit_value f) 2 \<longleftrightarrow> fs_symbol f = ''iosqe_io_link'') \<and>
     (bit (fs_bit_value f) 3 \<longleftrightarrow> fs_symbol f = ''iosqe_io_hardlink'')"
  "{''iosqe_io_link'', ''iosqe_io_hardlink'', ''iosqe_io_drain''} \<subseteq> fs_symbol ` set flags_table"
  by code_simp+

lemma flag_member:
  assumes "\<forall>f \<in> T. P f \<longleftrightarrow> key f = x" and "x \<in> key ` T"
  shows "(\<exists>f \<in> T. key f \<in> F \<and> P f) \<longleftrightarrow> x \<in> F"
  using assms by auto

lemma control_link_bits:
  assumes "translates c s n" and "hc_flags c = flags_table"
    and "set (st_flags s) \<inter> {''iosqe_io_link'', ''iosqe_io_hardlink'', ''iosqe_io_drain''} =
      expected_link_flags (st_link_mode s)"
  shows "(bit (sqe_control n) 1 \<longleftrightarrow> st_link_mode s = LINK_DRAIN) \<and>
    (bit (sqe_control n) 2 \<longleftrightarrow> st_link_mode s = LINK_LINK) \<and>
    (bit (sqe_control n) 3 \<longleftrightarrow> st_link_mode s = LINK_HARD)"
proof -
  have b: "bit (sqe_control n) i \<longleftrightarrow> x \<in> set (st_flags s)"
    if "\<forall>f \<in> set flags_table. bit (fs_bit_value f) i \<longleftrightarrow> fs_symbol f = x" "x \<in> fs_symbol ` set flags_table"
    for i x
    using flag_member [OF that] assms(1,2) by (simp add: translates_def)
  have "bit (sqe_control n) 1 \<longleftrightarrow> ''iosqe_io_drain'' \<in> set (st_flags s)"
    by (rule b) (use link_bits in \<open>blast+\<close>)
  moreover have "bit (sqe_control n) 2 \<longleftrightarrow> ''iosqe_io_link'' \<in> set (st_flags s)"
    by (rule b) (use link_bits in \<open>blast+\<close>)
  moreover have "bit (sqe_control n) 3 \<longleftrightarrow> ''iosqe_io_hardlink'' \<in> set (st_flags s)"
    by (rule b) (use link_bits in \<open>blast+\<close>)
  moreover have "x \<in> set (st_flags s) \<longleftrightarrow> x \<in> expected_link_flags (st_link_mode s)"
    if "x \<in> {''iosqe_io_link'', ''iosqe_io_hardlink'', ''iosqe_io_drain''}" for x
    using that assms(3) by blast
  ultimately show ?thesis by (cases "st_link_mode s") (simp_all add: expected_link_flags_def)
qed

lemma accepted_step_bits:
  assumes "report_valid (report_of (program_calls c g))" and "hc_flags c = flags_table"
    and "i < length (pg_steps g)" and "translates c (pg_steps g ! i) n"
  shows "(bit (sqe_control n) 1 \<longleftrightarrow> st_link_mode (pg_steps g ! i) = LINK_DRAIN) \<and>
    (bit (sqe_control n) 2 \<longleftrightarrow> st_link_mode (pg_steps g ! i) = LINK_LINK) \<and>
    (bit (sqe_control n) 3 \<longleftrightarrow> st_link_mode (pg_steps g ! i) = LINK_HARD)"
proof -
  from passed_step [OF assms(1) nth_mem [OF assms(3)]]
  have "set (st_flags (pg_steps g ! i)) \<inter> {''iosqe_io_link'', ''iosqe_io_hardlink'', ''iosqe_io_drain''} =
    expected_link_flags (st_link_mode (pg_steps g ! i))" by (elim exE conjE)
  from control_link_bits [OF assms(4,2) this] show ?thesis .
qed

section \<open>The record of a report\<close>

text \<open>\<open>_validation_record\<close> of \<open>pipeline.py\<close>; the model validation of the result is \<open>valid_validation_record\<close>.\<close>

definition validation_record_of :: "checks \<Rightarrow> validation_record" where
  "validation_record_of r =
     \<lparr>vr_validator_version = VALIDATOR_VERSION, vr_validator_hash = VALIDATOR_HASH,
      vr_passed = ck_passed r, vr_failed = failed_check_ids r\<rparr>"

lemma passed_of_valid:
  "report_valid (report_of calls) \<Longrightarrow> set (ck_passed (report_of calls)) = fst ` set calls"
proof -
  assume r: "report_valid (report_of calls)"
  have "set (ck_passed (report_of calls)) = {i. \<exists>m. (i, True, m) \<in> set calls}"
    by (simp add: report_of_def fold_require_passed)
  also have "\<dots> = fst ` set calls"
    using r unfolding report_valid_iff by force
  finally show ?thesis .
qed

lemma symbol_no_dot: "is_Symbol x \<Longrightarrow> CHR ''.'' \<notin> set x"
proof -
  have "\<not> is_lower CHR ''.''" "\<not> is_symbol_char CHR ''.''" by code_simp+
  then show "is_Symbol x \<Longrightarrow> CHR ''.'' \<notin> set x"
    unfolding is_Symbol_def list_all_iff by (cases x) auto
qed

lemma dot_split:
  assumes "CHR ''.'' \<notin> set x" "CHR ''.'' \<notin> set y" "x @ CHR ''.'' # a = y @ CHR ''.'' # b"
  shows "x = y \<and> a = b"
  using assms
proof (induction x arbitrary: y)
  case Nil
  then show ?case by (cases y) auto
next
  case (Cons d x)
  from Cons.prems obtain y' where y: "y = d # y'" by (cases y) auto
  with Cons.prems have "x = y' \<and> a = b" by (intro Cons.IH) simp_all
  with y show ?case by simp
qed

definition step_suffixes :: "string list" where
  "step_suffixes = [''ring-ref'', ''operation'', ''profile'', ''lane'', ''flags'', ''link-mode'', ''outcomes'', ''arguments'']"

lemma step_call_ids:
  assumes "dict_by ho_symbol (hc_operations c) (st_operation s) = Some h"
  shows "map fst (step_calls c g s) = map (\<lambda>x. step_prefix g s @ CHR ''.'' # x) step_suffixes"
  using assms by (simp add: step_calls_def step_suffixes_def Let_def)

lemma step_ids:
  assumes "report_valid (report_of (program_calls c g))" and "s \<in> set (pg_steps g)"
    and "x \<in> set step_suffixes"
  shows "step_prefix g s @ CHR ''.'' # x \<in> fst ` set (program_calls c g)"
proof -
  from passed_step [OF assms(1,2)] obtain h where
    h: "dict_by ho_symbol (hc_operations c) (st_operation s) = Some h" by (elim exE conjE)
  have "set (map fst (step_calls c g s)) = (\<lambda>x. step_prefix g s @ CHR ''.'' # x) ` set step_suffixes"
    unfolding step_call_ids [OF h] unfolding set_map ..
  then have "step_prefix g s @ CHR ''.'' # x \<in> set (map fst (step_calls c g s))"
    using assms(3) by (metis imageI)
  moreover have "set (step_calls c g s) \<subseteq> set (program_calls c g)"
    using assms(2) by (auto simp: program_calls_def Let_def)
  ultimately show ?thesis by auto
qed

definition fixed_ids :: "string list" where
  "fixed_ids = [''binding.packet-id'', ''binding.target-hashes'', ''contract.mode'',
     ''contract.planner-view'', ''evidence.references'', ''contract.program-gate'', ''proposal.variant-bound'']"

lemma fixed_call_ids:
  "map fst (binding_calls t p c mode @ take 2 (executable_calls file c p)) = fixed_ids"
  by (simp add: binding_calls_def executable_calls_def fixed_ids_def)

definition program_suffixes :: "harness_contract \<Rightarrow> string list" where
  "program_suffixes c =
     [''profile'', ''profile-lane'', ''resources'', ''step-count''] @
     (if hc_environment c = PRODUCTION then [''native.base-only'', ''native.no-fixed-file''] else [])"

lemma program_ids:
  assumes "report_valid (report_of (program_calls c g))" and "x \<in> set (program_suffixes c)"
  shows "''program.'' @ pg_program_id g @ CHR ''.'' # x \<in> fst ` set (program_calls c g)"
proof -
  let ?pre = "\<lambda>x. ''program.'' @ pg_program_id g @ CHR ''.'' # x"
  from passed_profile [OF assms(1)] obtain f where
    f: "dict_by hp_profile_id (hc_profiles c) (pg_ring_profile_id g) = Some f" by (elim exE conjE)
  have prefix: "?pre ` set xs \<subseteq> fst ` set calls"
    if "map fst (take n calls) = map ?pre xs" for n xs and calls :: "check_call list"
  proof -
    have "?pre ` set xs = fst ` set (take n calls)" using that by (metis set_map)
    then show ?thesis using image_mono [OF set_take_subset] by metis
  qed
  have "map fst (take 4 (program_calls c g)) = map ?pre [''profile'', ''profile-lane'', ''resources'', ''step-count'']"
    unfolding program_calls_def Let_def f by simp
  note base = prefix [OF this]
  show ?thesis
  proof (cases "hc_environment c = PRODUCTION")
    case True
    have "map fst (take 2 (native_calls c g)) = map ?pre [''native.base-only'', ''native.no-fixed-file'']"
      unfolding native_calls_def Let_def by simp
    from prefix [OF this] have "?pre ` set [''native.base-only'', ''native.no-fixed-file''] \<subseteq> fst ` set (native_calls c g)" .
    moreover have "set (native_calls c g) \<subseteq> set (program_calls c g)"
      using True by (auto simp: program_calls_def Let_def)
    ultimately have "?pre ` set [''native.base-only'', ''native.no-fixed-file''] \<subseteq> fst ` set (program_calls c g)"
      by (meson image_mono order_trans)
    with base show ?thesis using assms(2) True unfolding program_suffixes_def set_append if_P [OF True] by blast
  next
    case False
    with base assms(2) show ?thesis unfolding program_suffixes_def by (simp only: if_False append_Nil2) blast
  qed
qed

lemma many_passed:
  assumes "report_valid (validate_proposal file t p c mode)"
    and "\<not> pr_abstain p" and "\<not> pr_analysis_only p" and "g \<in> set (pr_programs p)" and "valid_program g"
  shows "8 * length (pg_steps g) + length (program_suffixes c) + 7 \<le>
    card (set (ck_passed (validate_proposal file t p c mode)))"
proof -
  let ?ids = "fst ` set (proposal_calls file t p c mode)"
  let ?pre = "\<lambda>x. ''program.'' @ pg_program_id g @ CHR ''.'' # x"
  let ?steps = "(\<lambda>(i, x). ''step.'' @ i @ CHR ''.'' # x) ` (set (map st_step_id (pg_steps g)) \<times> set step_suffixes)"
  let ?program = "?pre ` (?steps \<union> set (program_suffixes c))"
  have r: "report_valid (report_of (program_calls c g))"
    using assms(1-4) by (rule passed_program)
  have "fst ` set (program_calls c g) \<subseteq> ?ids"
    using assms(2-4) unfolding proposal_calls_def executable_calls_def by (intro image_mono) (simp, blast)
  moreover have "?program \<subseteq> fst ` set (program_calls c g)"
  proof
    fix y assume "y \<in> ?program"
    then consider i x where "i \<in> set (pg_steps g)" "x \<in> set step_suffixes" "y = ?pre (''step.'' @ st_step_id i @ CHR ''.'' # x)"
      | x where "x \<in> set (program_suffixes c)" "y = ?pre x" by fastforce
    then show "y \<in> fst ` set (program_calls c g)"
    proof cases
      case 1
      then show ?thesis using step_ids [OF r 1(1,2)] by (simp add: step_prefix_def)
    next
      case 2
      then show ?thesis using program_ids [OF r 2(1)] by simp
    qed
  qed
  moreover have "set fixed_ids \<subseteq> ?ids"
  proof -
    have "set (binding_calls t p c mode @ take 2 (executable_calls file c p)) \<subseteq> set (proposal_calls file t p c mode)"
      using assms(2,3) set_take_subset [of 2 "executable_calls file c p"] by (auto simp: proposal_calls_def)
    then have "fst ` set (binding_calls t p c mode @ take 2 (executable_calls file c p)) \<subseteq> ?ids"
      by (rule image_mono)
    then show ?thesis by (metis fixed_call_ids set_map)
  qed
  ultimately have sub: "?program \<union> set fixed_ids \<subseteq> ?ids" by blast
  have nodot: "\<forall>i \<in> set (map st_step_id (pg_steps g)). CHR ''.'' \<notin> set i"
    using program_step [OF assms(5)] symbol_no_dot by (auto simp: valid_step_def)
  have "inj_on (\<lambda>(i, x). ''step.'' @ i @ CHR ''.'' # x) (set (map st_step_id (pg_steps g)) \<times> set step_suffixes)"
  proof (rule inj_onI)
    fix u v
    assume u: "u \<in> set (map st_step_id (pg_steps g)) \<times> set step_suffixes"
      and v: "v \<in> set (map st_step_id (pg_steps g)) \<times> set step_suffixes"
      and eq: "(\<lambda>(i, x). ''step.'' @ i @ CHR ''.'' # x) u = (\<lambda>(i, x). ''step.'' @ i @ CHR ''.'' # x) v"
    obtain i x j y where uv: "u = (i, x)" "v = (j, y)" by (meson surj_pair)
    from eq have "i @ CHR ''.'' # x = j @ CHR ''.'' # y" unfolding uv prod.case same_append_eq .
    with nodot u v uv show "u = v" by (metis dot_split mem_Sigma_iff)
  qed
  then have "card ?steps = card (set (map st_step_id (pg_steps g)) \<times> set step_suffixes)"
    by (rule card_image)
  also have "\<dots> = length (pg_steps g) * 8"
  proof -
    have "distinct (map st_step_id (pg_steps g))"
      using assms(5) by (simp add: valid_program_def enforce_program_references_def)
    from distinct_card [OF this] have "card (set (map st_step_id (pg_steps g))) = length (pg_steps g)" by simp
    moreover have "card (set step_suffixes) = 8" by (simp add: step_suffixes_def)
    ultimately show ?thesis by (simp add: card_cartesian_product)
  qed
  finally have "card ?steps = length (pg_steps g) * 8" .
  moreover have "card (set (program_suffixes c)) = length (program_suffixes c)"
    by (rule distinct_card) (simp add: program_suffixes_def)
  moreover have "?steps \<inter> set (program_suffixes c) = {}"
  proof -
    have "\<forall>x \<in> set (program_suffixes c). take 5 x \<noteq> ''step.''" by (auto simp: program_suffixes_def)
    then show ?thesis by fastforce
  qed
  ultimately have "card (?steps \<union> set (program_suffixes c)) = length (pg_steps g) * 8 + length (program_suffixes c)"
    by (subst card_Un_disjoint) auto
  moreover have "card ?program = card (?steps \<union> set (program_suffixes c))"
    by (rule card_image) (simp add: inj_on_def)
  moreover have "card (set fixed_ids) = 7" by code_simp
  moreover have "?program \<inter> set fixed_ids = {}"
  proof -
    have "\<forall>x \<in> set fixed_ids. take 8 x \<noteq> ''program.''" by code_simp
    then show ?thesis by fastforce
  qed
  ultimately have "card (?program \<union> set fixed_ids) = length (pg_steps g) * 8 + length (program_suffixes c) + 7"
    by (subst card_Un_disjoint) auto
  moreover have "set (ck_passed (validate_proposal file t p c mode)) = ?ids"
    using assms(1) unfolding validate_proposal_def by (rule passed_of_valid)
  ultimately show ?thesis using card_mono [OF _ sub] by simp
qed

section \<open>The order of a production program\<close>

lemma accepted_native_order:
  assumes "report_valid (validate_proposal file t p c mode)" and "hc_environment c = PRODUCTION"
    and "\<not> pr_abstain p" and "\<not> pr_analysis_only p" and "g \<in> set (pr_programs p)"
    and "i < length (pg_steps g)"
  shows "linked (pg_steps g ! i) \<longrightarrow> i + 1 < length (pg_steps g)"
    and "st_link_mode (pg_steps g ! i) = LINK_DRAIN \<longrightarrow> 0 < i"
    and "st_operation (pg_steps g ! i) = ''link_timeout'' \<longrightarrow> 0 < i \<and> linked (pg_steps g ! (i - 1))"
    and "reference_requirement (st_operation (pg_steps g ! i)) = Some (arg, producer, v) \<longrightarrow>
      (\<exists>j < i. st_operation (pg_steps g ! j) = producer) \<and> step_integer (pg_steps g ! i) arg = Some v"
    and "st_operation (pg_steps g ! i) = ''remove_buffers'' \<longrightarrow>
      (\<exists>j < i. st_operation (pg_steps g ! j) = ''provide_buffers'' \<and>
        step_integer (pg_steps g ! j) ''buffer_group'' = step_integer (pg_steps g ! i) ''buffer_group'')"
proof -
  have n: "report_valid (report_of (native_step_calls c g i (pg_steps g ! i)))"
    using passed_native [OF passed_program [OF assms(1,3-5)] assms(2)] assms(6) by (rule passed_native_step)
  have prior: "(\<exists>s \<in> set (take i (pg_steps g)). P s) \<longleftrightarrow> (\<exists>j < i. P (pg_steps g ! j))" for P
    using nth_image [of i "pg_steps g"] assms(6) by (auto simp flip: nth_image)
  show "linked (pg_steps g ! i) \<longrightarrow> i + 1 < length (pg_steps g)"
    and "st_link_mode (pg_steps g ! i) = LINK_DRAIN \<longrightarrow> 0 < i"
    and "st_operation (pg_steps g ! i) = ''link_timeout'' \<longrightarrow> 0 < i \<and> linked (pg_steps g ! (i - 1))"
    using n by (simp_all add: native_step_calls_def Let_def report_rules)
  show "reference_requirement (st_operation (pg_steps g ! i)) = Some (arg, producer, v) \<longrightarrow>
      (\<exists>j < i. st_operation (pg_steps g ! j) = producer) \<and> step_integer (pg_steps g ! i) arg = Some v"
    using n prior [of "\<lambda>s. st_operation s = producer"]
    by (auto simp: native_step_calls_def Let_def report_rules)
  show "st_operation (pg_steps g ! i) = ''remove_buffers'' \<longrightarrow>
      (\<exists>j < i. st_operation (pg_steps g ! j) = ''provide_buffers'' \<and>
        step_integer (pg_steps g ! j) ''buffer_group'' = step_integer (pg_steps g ! i) ''buffer_group'')"
    using n prior [of "provides_group (step_integer (pg_steps g ! i) ''buffer_group'')"]
    by (simp add: native_step_calls_def Let_def report_rules list_ex_iff provides_group_def)
qed

section \<open>Properties\<close>

text \<open>
  C13: Whatever a contract built for the audited ELF lets through, compiles: every program of a
  proposal whose validation report has no issue is translated, without any error, by the compiler
  the contract is bound to.  So the gate before the review and the compiler after it agree.
\<close>

theorem validated_programs_compile:
  assumes "authorising file c" and "valid_proposal p"
    and "report_valid (validate_proposal file t p c mode)"
    and "\<not> pr_abstain p" and "\<not> pr_analysis_only p" and "g \<in> set (pr_programs p)"
  shows "\<exists>out. compile_program file g c = Inr out"
  by (rule accepted_program_compiles [OF assms(1) proposal_program [OF assms(2,6)]
        passed_program [OF assms(3-6)]])


text \<open>
  C26: The link structure reaches the payload.  In the bytes compiled from an accepted production
  program the control byte of each operation carries exactly the link mode of its step (bit 1 the
  drain, 2 the link, 3 the hard link) and its low six bits are the sum of the step's flag bits; so
  the last operation never links to a missing successor and the first never drains nothing.
\<close>

theorem payload_links:
  assumes "authorising file c" and "valid_proposal p"
    and "report_valid (validate_proposal file t p c mode)"
    and "\<not> pr_abstain p" and "\<not> pr_analysis_only p" and "g \<in> set (pr_programs p)"
    and "compile_program file g c = Inr out"
  shows "\<exists>native. decode_program (cp_payload out) AUDITED_HARNESS_HASH = Inr native \<and>
    length (operations native) = length (pg_steps g) \<and>
    (\<forall>i < length (pg_steps g).
       (bit (sqe_control (operations native ! i)) 1 \<longleftrightarrow> st_link_mode (pg_steps g ! i) = LINK_DRAIN) \<and>
       (bit (sqe_control (operations native ! i)) 2 \<longleftrightarrow> st_link_mode (pg_steps g ! i) = LINK_LINK) \<and>
       (bit (sqe_control (operations native ! i)) 3 \<longleftrightarrow> st_link_mode (pg_steps g ! i) = LINK_HARD)) \<and>
    \<not> bit (sqe_control (hd (operations native))) 1 \<and>
    \<not> bit (sqe_control (last (operations native))) 2 \<and> \<not> bit (sqe_control (last (operations native))) 3"
proof -
  note c = authorising_enables [OF assms(1)]
  note r = passed_program [OF assms(3-6)]
  from compiled_program_operations [OF assms(7)] c obtain native where
    n: "decode_program (cp_payload out) AUDITED_HARNESS_HASH = Inr native"
    and tr: "list_all2 (translates c) (pg_steps g) (operations native)" by blast
  have len: "length (operations native) = length (pg_steps g)" using tr by (simp add: list_all2_lengthD)
  have prod: "hc_environment c = PRODUCTION" using c by (simp add: compiler_status_enabled)
  have ne: "pg_steps g \<noteq> []"
    using proposal_program [OF assms(2,6)] by (auto simp: valid_program_def len_between_def)
  have ne': "operations native \<noteq> []" using ne len by auto
  have bits: "(bit (sqe_control (operations native ! i)) 1 \<longleftrightarrow> st_link_mode (pg_steps g ! i) = LINK_DRAIN) \<and>
      (bit (sqe_control (operations native ! i)) 2 \<longleftrightarrow> st_link_mode (pg_steps g ! i) = LINK_LINK) \<and>
      (bit (sqe_control (operations native ! i)) 3 \<longleftrightarrow> st_link_mode (pg_steps g ! i) = LINK_HARD)"
    if "i < length (pg_steps g)" for i
    using accepted_step_bits [OF r] c that list_all2_nthD [OF tr that] by simp
  note order = accepted_native_order(1,2) [OF assms(3) prod assms(4-6)]
  have "\<not> bit (sqe_control (hd (operations native))) 1"
    using bits [of 0] order(2) [of 0] ne ne' by (simp add: hd_conv_nth)
  moreover have "\<not> bit (sqe_control (last (operations native))) 2 \<and> \<not> bit (sqe_control (last (operations native))) 3"
    using bits [of "length (pg_steps g) - 1"] order(1) [of "length (pg_steps g) - 1"] ne ne' len
    by (simp add: last_conv_nth linked_def)
  ultimately show ?thesis using n len bits by blast
qed

text \<open>
  A validation record keeps at most 128 passed check identifiers, yet an accepted program of
  fifteen steps or more passes more checks than that: the report of a valid review then makes no
  valid \<open>ValidationRecord\<close>, and the envelope cannot be built although every gate was passed.
\<close>

lemma long_programs_have_no_record:
  assumes "valid_proposal p" and "report_valid (validate_proposal file t p c mode)"
    and "\<not> pr_abstain p" and "\<not> pr_analysis_only p" and "g \<in> set (pr_programs p)"
    and "15 \<le> length (pg_steps g)"
  shows "\<not> valid_validation_record (validation_record_of (validate_proposal file t p c mode))"
proof -
  have "4 \<le> length (program_suffixes c)" by (simp add: program_suffixes_def)
  with many_passed [OF assms(2-5) proposal_program [OF assms(1,5)]] assms(6)
  have "128 < card (set (ck_passed (validate_proposal file t p c mode)))" by linarith
  with card_length [of "ck_passed (validate_proposal file t p c mode)"]
  have "128 < length (ck_passed (validate_proposal file t p c mode))" by linarith
  then show ?thesis by (simp add: valid_validation_record_def validation_record_of_def len_between_def)
qed

section \<open>Witnesses\<close>

definition probe_step :: "string \<Rightarrow> int \<Rightarrow> string list \<Rightarrow> link_mode \<Rightarrow> symbolic_step" where
  "probe_step i n flags link =
     \<lparr>st_step_id = i, st_ordinal = n, st_operation = ''fsync'', st_ring_ref = ''plain'',
      st_arguments =
        [\<lparr>sa_name = ''datasync'', sa_kind = ARG_INTEGER, integer_value = 1, boolean_value = False,
          symbol_value = [], sa_resource_ref = []\<rparr>,
         \<lparr>sa_name = ''fd'', sa_kind = ARG_INTEGER, integer_value = 7, boolean_value = False,
          symbol_value = [], sa_resource_ref = []\<rparr>],
      st_flags = flags, st_link_mode = link, st_expected = [''success'']\<rparr>"

definition probe_program :: "symbolic_step list \<Rightarrow> planner_program" where
  "probe_program steps =
     \<lparr>pg_program_id = ''probe'', pg_objective = ''Exercise an asynchronous fsync.'',
      pg_lane = STABLE_COVERAGE, pg_ring_profile_id = ''plain'', pg_resources = [],
      pg_steps = steps, pg_perturbations = [], pg_requested_local_variants = 1,
      pg_expected_signals = [''New completion order.''], pg_safety_notes = []\<rparr>"

definition linked_steps :: "symbolic_step list" where
  "linked_steps =
     [probe_step ''first'' 0 [''iosqe_io_link'', ''iosqe_async''] LINK_LINK, probe_step ''second'' 1 [] LINK_NONE]"

definition long_steps :: "symbolic_step list" where
  "long_steps = map (\<lambda>n. probe_step (CHR ''s'' # replicate n CHR ''x'') (int n) [] LINK_NONE) [0..<16]"

definition probe_packet :: "target_hashes \<Rightarrow> telemetry_packet" where
  "probe_packet h = sample_packet\<lparr>tp_target_hashes := h\<rparr>"

definition probe_proposal :: "target_hashes \<Rightarrow> symbolic_step list \<Rightarrow> planner_proposal" where
  "probe_proposal h steps =
     \<lparr>pr_proposal_id = ''proposal-1'', pr_packet_id = ''packet-1'', pr_target_hashes = h,
      pr_hypothesis = \<lparr>hy_claim = ''Linked fsync requests may complete in a new order.'',
        hy_evidence_refs = [''evidence:coverage.1''], hy_expected_signal = ''New completion order.''\<rparr>,
      pr_abstain = False, pr_abstain_reason = [], pr_analysis_only = False,
      pr_research_priorities = [], pr_programs = [probe_program steps]\<rparr>"




text \<open>When a step of table operation \<open>i\<close> passes its checks.\<close>

lemma table_step_passes:
  assumes "hc_operations c = ops_table" "hc_flags c = flags_table"
    and "i < 61" "st_operation s = OPERATION_SYMBOLS ! i" "st_ring_ref s = pg_ring_profile_id g"
    and "pg_ring_profile_id g \<in> set (map fst PROFILES)" "pg_lane g \<in> set LANES"
    and "set (st_flags s) \<subseteq> set (map fst FLAGS)" "set (st_expected s) \<subseteq> set EXPECTED_RESULTS"
    and "set (st_flags s) \<inter> {''iosqe_io_link'', ''iosqe_io_hardlink'', ''iosqe_io_drain''} =
      expected_link_flags (st_link_mode s)"
    and "args_valid g s (table_operation (int i) (OPERATION_SYMBOLS ! i) (ENCODER_OPERAND_NAMES ! i))"
  shows "report_valid (report_of (step_calls c g s))"
proof -
  have "dict_by ho_symbol ops_table (ho_symbol (ops_table ! i)) = Some (ops_table ! i)"
    by (rule dict_by_distinct) (use assms(3) in \<open>simp_all add: ops_table_symbols symbols_valid(2)\<close>)
  then have op: "dict_by ho_symbol (hc_operations c) (st_operation s) =
      Some (table_operation (int i) (OPERATION_SYMBOLS ! i) (ENCODER_OPERAND_NAMES ! i))"
    using assms(1,3,4) by (simp add: ops_table_nth)
  have "map fst FLAGS = map fs_symbol flags_table" by (simp add: flags_table_def comp_def case_prod_unfold)
  then have fl: "set (st_flags s) \<subseteq> set (map fs_symbol (hc_flags c))" using assms(2,8) by argo
  have t: "ho_allowed_profiles (table_operation (int i) x y) = map fst PROFILES"
    "ho_allowed_flags (table_operation (int i) x y) = map fst FLAGS"
    "ho_allowed_lanes (table_operation (int i) x y) = LANES"
    "ho_expected (table_operation (int i) x y) = EXPECTED_RESULTS" for x y
    by (simp_all add: table_operation_def fst_def)
  show ?thesis
    unfolding step_calls_def Let_def op option.case report_rules t
    using assms(5-11) fl report_valid_Nil by (intro conjI) (assumption | simp)+
qed

lemma probe_args: "args_valid (probe_program steps) (probe_step i n fl lm)
    (table_operation 5 ''fsync'' [''fd'', ''datasync''])" by code_simp

lemma probe_step_passes:
  assumes "hc_operations c = ops_table" "hc_flags c = flags_table"
    and "(fl, lm) = ([], LINK_NONE) \<or> (fl, lm) = ([''iosqe_io_link'', ''iosqe_async''], LINK_LINK)"
  shows "report_valid (report_of (step_calls c (probe_program steps) (probe_step i n fl lm)))"
proof (rule table_step_passes [OF assms(1,2), of 5])
  have t: "OPERATION_SYMBOLS ! 5 = ''fsync''" "ENCODER_OPERAND_NAMES ! 5 = [''fd'', ''datasync'']" by code_simp+
  show "st_operation (probe_step i n fl lm) = OPERATION_SYMBOLS ! 5" unfolding t by (simp add: probe_step_def)
  show "args_valid (probe_program steps) (probe_step i n fl lm)
      (table_operation (int 5) (OPERATION_SYMBOLS ! 5) (ENCODER_OPERAND_NAMES ! 5))"
    unfolding t using probe_args by simp
  show "pg_ring_profile_id (probe_program steps) \<in> set (map fst PROFILES)" by code_simp
  show "pg_lane (probe_program steps) \<in> set LANES" by code_simp
  show "set (st_expected (probe_step i n fl lm)) \<subseteq> set EXPECTED_RESULTS" by code_simp
  have "{''iosqe_io_link'', ''iosqe_async''} \<subseteq> set (map fst FLAGS)" by code_simp
  then show "set (st_flags (probe_step i n fl lm)) \<subseteq> set (map fst FLAGS)"
    using assms(3) by (auto simp: probe_step_def simp del: set_map)
qed (use assms(3) in \<open>auto simp: probe_step_def probe_program_def expected_link_flags_def\<close>)

lemma report_valid_conditions: "report_valid (report_of calls) \<longleftrightarrow> list_all (\<lambda>(i, b, m). b) calls"
  by (simp add: report_valid_iff list_all_iff)

lemma probe_native:
  "report_valid (report_of (native_calls c (probe_program linked_steps)))"
  "report_valid (report_of (native_calls c (probe_program long_steps)))"
  unfolding report_valid_conditions by code_simp+

lemma program_callsI:
  assumes "dict_by hp_profile_id (hc_profiles c) (pg_ring_profile_id g) = Some f"
    and "pg_ring_profile_id g \<notin> set (hc_forbidden_profiles c)" "pg_lane g \<in> set (hp_allowed_lanes f)"
    and "resources_valid c g" "int (length (pg_steps g)) \<le> hc_operation_max_count c"
    and "\<forall>s \<in> set (pg_steps g). report_valid (report_of (step_calls c g s))"
    and "report_valid (report_of (native_calls c g))"
  shows "report_valid (report_of (program_calls c g))"
  using assms by (simp add: program_calls_def report_rules)

lemma probe_program_passes:
  assumes c: "hc_profiles c = profiles_table" "hc_operations c = ops_table" "hc_flags c = flags_table"
    "hc_forbidden_profiles c = [''sqpoll'']" "hc_operation_max_count c = 96"
    and steps: "steps = linked_steps \<or> steps = long_steps"
  shows "report_valid (report_of (program_calls c (probe_program steps)))"
proof -
  have g: "pg_ring_profile_id (probe_program steps) = ''plain''" "pg_lane (probe_program steps) = STABLE_COVERAGE"
    "pg_steps (probe_program steps) = steps" "pg_resources (probe_program steps) = []"
    by (simp_all add: probe_program_def)
  have "dict_by hp_profile_id profiles_table ''plain'' \<noteq> None \<and>
      STABLE_COVERAGE \<in> set (hp_allowed_lanes (the (dict_by hp_profile_id profiles_table ''plain'')))"
    by code_simp
  then obtain f where f: "dict_by hp_profile_id profiles_table ''plain'' = Some f" "STABLE_COVERAGE \<in> set (hp_allowed_lanes f)"
    by auto
  have "\<forall>x \<in> set steps. report_valid (report_of (step_calls c (probe_program steps) x))"
    using steps probe_step_passes [OF c(2,3)] by (auto simp: linked_steps_def long_steps_def)
  moreover have "report_valid (report_of (native_calls c (probe_program steps)))"
    using steps probe_native by blast
  moreover have "length steps \<le> 96" using steps by (auto simp: linked_steps_def long_steps_def)
  ultimately show ?thesis
    using f by (intro program_callsI [of _ _ f]) (simp_all add: c g resources_valid_def)
qed

lemma probe_program_valid: "valid_program (probe_program linked_steps)" "valid_program (probe_program long_steps)"
  by code_simp+

lemma probe_proposal_valid:
  assumes "valid_target_hashes h" and "steps = linked_steps \<or> steps = long_steps"
  shows "valid_proposal (probe_proposal h steps)"
proof -
  have "is_Identifier ''proposal-1'' \<and> is_Identifier ''packet-1'' \<and> valid_hypothesis (pr_hypothesis (probe_proposal h steps))"
    by code_simp
  then show ?thesis
    using assms probe_program_valid
    by (auto simp: valid_proposal_def probe_proposal_def len_between_def enforce_abstention_shape_def)
qed

text \<open>A proposal accepted under a contract built for the compiler file \<open>[]\<close>.\<close>

abbreviation probe_contract :: harness_contract where
  "probe_contract \<equiv> sample_contract []"

abbreviation probe_hashes :: target_hashes where
  "probe_hashes \<equiv> hc_target_hashes probe_contract"

lemma probe_contract_enabled:
  "authorising [] probe_contract" "cs_enabled (compile_status [] (Some probe_contract))"
  "hc_environment probe_contract = PRODUCTION" "hc_verified probe_contract" "\<not> hc_test_only probe_contract"
  "hc_deterministic_compiler probe_contract" "hc_round_trip_verified probe_contract"
  "valid_target_hashes probe_hashes"
proof -
  show a: "authorising [] probe_contract" by (rule sample_contract_authorising)
  from authorising_enables [OF a] have e: "cs_enabled (compile_status [] (Some probe_contract))"
    "valid_contract probe_contract" by blast+
  then show "cs_enabled (compile_status [] (Some probe_contract))"
    "hc_environment probe_contract = PRODUCTION" "hc_verified probe_contract" "\<not> hc_test_only probe_contract"
    "hc_deterministic_compiler probe_contract" "hc_round_trip_verified probe_contract"
    by (simp_all add: compiler_status_enabled)
  show "valid_target_hashes probe_hashes" using e(2) by (simp add: valid_contract_def)
qed

lemma probe_accepted:
  assumes "steps = linked_steps \<or> steps = long_steps"
  shows "report_valid (validate_proposal [] (probe_packet probe_hashes) (probe_proposal probe_hashes steps)
    probe_contract ShadowMode)"
proof -
  have "report_valid (report_of (program_calls probe_contract (probe_program steps)))"
    by (rule probe_program_passes) (use assms in \<open>simp_all add: sample_contract_def contract_document_def\<close>)
  moreover have "pg_requested_local_variants (probe_program steps) = 1" by (simp add: probe_program_def)
  ultimately show ?thesis
    using probe_contract_enabled
    by (simp add: validate_proposal_def proposal_calls_def binding_calls_def executable_calls_def report_rules
        contract_mode_ok_def cited_refs_def probe_packet_def probe_proposal_def sample_packet_def)
qed

lemma probe_proposal_simps:
  "\<not> pr_abstain (probe_proposal h steps)" "\<not> pr_analysis_only (probe_proposal h steps)"
  "probe_program steps \<in> set (pr_programs (probe_proposal h steps))"
  by (simp_all add: probe_proposal_def)

lemma probe_program_compiles:
  "\<exists>out. compile_program [] (probe_program linked_steps) probe_contract = Inr out"
  by (rule accepted_program_compiles [OF probe_contract_enabled(1) probe_program_valid(1)
        passed_program [OF probe_accepted [of linked_steps] probe_proposal_simps]]) simp

lemma validated_programs_compile_witness:
  "\<exists>out. compile_program [] (probe_program linked_steps) probe_contract = Inr out"
  by (rule validated_programs_compile [OF probe_contract_enabled(1) probe_proposal_valid
        probe_accepted probe_proposal_simps, OF probe_contract_enabled(8)]) simp_all


lemma payload_links_witness:
  "\<exists>out native. compile_program [] (probe_program linked_steps) probe_contract = Inr out \<and>
     decode_program (cp_payload out) AUDITED_HARNESS_HASH = Inr native \<and>
     bit (sqe_control (operations native ! 0)) 2 \<and> \<not> bit (sqe_control (last (operations native))) 2"
proof -
  obtain out where out: "compile_program [] (probe_program linked_steps) probe_contract = Inr out"
    using probe_program_compiles by blast
  have s: "pg_steps (probe_program linked_steps) = linked_steps" "length linked_steps = 2"
    "st_link_mode (linked_steps ! 0) = LINK_LINK"
    by (simp_all add: probe_program_def linked_steps_def probe_step_def)
  from payload_links [OF probe_contract_enabled(1) probe_proposal_valid [OF probe_contract_enabled(8)]
      probe_accepted probe_proposal_simps out] s
  obtain native where "decode_program (cp_payload out) AUDITED_HARNESS_HASH = Inr native"
    "bit (sqe_control (operations native ! 0)) 2" "\<not> bit (sqe_control (last (operations native))) 2"
    by auto
  with out show ?thesis by blast
qed

lemma long_programs_have_no_record_witness:
  "\<not> valid_validation_record (validation_record_of
     (validate_proposal [] (probe_packet probe_hashes) (probe_proposal probe_hashes long_steps) probe_contract ShadowMode))"
proof -
  have "15 \<le> length (pg_steps (probe_program long_steps))" by (simp add: probe_program_def long_steps_def)
  then show ?thesis
    by (rule long_programs_have_no_record [OF probe_proposal_valid [OF probe_contract_enabled(8)]
          probe_accepted probe_proposal_simps, rotated -1]) simp_all
qed

end
