(* ===== verification/Quarantine.thy ===== *)
theory Quarantine
  imports Store
begin

text \<open>
  The content-addressed quarantine of \<open>src/iou_ai/quarantine.py\<close>: \<open>put\<close>, \<open>get\<close> and
  \<open>iter_verified\<close> on a directory.  A root that does not exist and an empty one behave alike in all
  three and are both the empty directory.  Documents with floating-point numbers are not modelled:
  \<open>loads\<close> rejects them.
\<close>

datatype quarantine_error = QuarantineError string | QuarantineOSError

definition item_name :: "string \<Rightarrow> string" where
  "item_name digest = digest @ ''.json''"

definition quarantine_put ::
  "write_outcome \<Rightarrow> json \<Rightarrow> directory \<Rightarrow> quarantine_error + string \<times> directory" where
  "quarantine_put w envelope d =
     (let payload = canonical_json envelope;
          digest = sha256 payload;
          destination = item_name digest
      in if exists_name d destination then
           (case read_bytes d destination of
              None \<Rightarrow> Inl QuarantineOSError
            | Some existing \<Rightarrow>
                if existing \<noteq> payload then
                  Inl (QuarantineError ''digest collision or mutated quarantine item'')
                else Inr (digest, d))
         else if w = WriteFails then Inl QuarantineOSError
         else Inr (digest, create_file d destination payload))"

definition is_object :: "json \<Rightarrow> bool" where
  "is_object v \<longleftrightarrow> (case v of JObj _ \<Rightarrow> True | _ \<Rightarrow> False)"

text \<open>
  The size is tested on the file and again on what was read; both are the content here.  The
  digest, the decoding, the shape and the canonical form are checked in this order.
\<close>

definition quarantine_get :: "int \<Rightarrow> directory \<Rightarrow> string \<Rightarrow> quarantine_error + json" where
  "quarantine_get max_bytes d digest =
     (if \<not> is_hex64 digest then Inl (QuarantineError ''invalid quarantine digest'')
      else if max_bytes \<le> 0 then Inl (QuarantineError ''max_bytes must be positive'')
      else
        (case open_nofollow d (item_name digest) of
           None \<Rightarrow> Inl (QuarantineError ''quarantine object is unavailable'')
         | Some (RegularFile payload) \<Rightarrow>
             if int (length payload) > max_bytes then
               Inl (QuarantineError ''quarantine object exceeds the size limit'')
             else if sha256 payload \<noteq> digest then
               Inl (QuarantineError ''quarantine object digest mismatch'')
             else
               (case loads payload of
                  None \<Rightarrow> Inl (QuarantineError ''quarantine object is invalid JSON'')
                | Some value \<Rightarrow>
                    if \<not> is_object value then
                      Inl (QuarantineError ''quarantine object must be a JSON object'')
                    else if canonical_json value \<noteq> payload then
                      Inl (QuarantineError ''quarantine object is not canonical'')
                    else Inr value)
         | Some _ \<Rightarrow> Inl (QuarantineError ''quarantine object is not a regular file'')))"

text \<open>\<open>re.fullmatch(r"([0-9a-f]{64})\.json", name)\<close>\<close>

definition match_item :: "string \<Rightarrow> string option" where
  "match_item name =
     (if is_hex64 (take 64 name) \<and> drop 64 name = ''.json'' then Some (take 64 name) else None)"

text \<open>The generator: the pairs it yields, and the error that ends it, if one does.\<close>

fun iter_items ::
  "int \<Rightarrow> int \<Rightarrow> directory \<Rightarrow> int \<Rightarrow> string list \<Rightarrow> (string \<times> json) list \<times> quarantine_error option"
where
  "iter_items max_items max_bytes d count [] = ([], None)"
| "iter_items max_items max_bytes d count (name # names) =
     (case match_item name of
        None \<Rightarrow> iter_items max_items max_bytes d count names
      | Some digest \<Rightarrow>
          if count + 1 > max_items then
            ([], Some (QuarantineError ''quarantine item count exceeds the limit''))
          else
            (case quarantine_get max_bytes d digest of
               Inl e \<Rightarrow> ([], Some e)
             | Inr value \<Rightarrow>
                 (case iter_items max_items max_bytes d (count + 1) names of
                    (items, e) \<Rightarrow> ((digest, value) # items, e))))"

definition iter_verified ::
  "int \<Rightarrow> int \<Rightarrow> directory \<Rightarrow> (string \<times> json) list \<times> quarantine_error option" where
  "iter_verified max_items max_bytes d =
     (if max_items \<le> 0 then ([], Some (QuarantineError ''max_items must be positive''))
      else iter_items max_items max_bytes d 0 (sort (map fst d)))"

section \<open>Lemmas\<close>

lemma is_object_norm: "is_object (norm_json v) = is_object v"
  by (cases v) (simp_all add: is_object_def)

lemma quarantine_get_Inr [result_elims]:
  "quarantine_get m d k = Inr v \<longleftrightarrow>
     0 < m \<and> is_hex64 k \<and>
     (\<exists>payload. map_of d (item_name k) = Some (RegularFile payload) \<and> int (length payload) \<le> m \<and>
        sha256 payload = k \<and> loads payload = Some v \<and> is_object v \<and> canonical_json v = payload)"
  by (auto simp: quarantine_get_def open_nofollow_def split: option.splits node.splits)

lemma quarantine_put_Inr:
  "quarantine_put w v d = Inr (k, d') \<longleftrightarrow>
     k = sha256 (canonical_json v) \<and>
     (if exists_name d (item_name k) then read_bytes d (item_name k) = Some (canonical_json v) \<and> d' = d
      else w = WriteOk \<and> d' = create_file d (item_name k) (canonical_json v))"
  by (cases w) (auto simp: quarantine_put_def Let_def split: option.splits if_splits)

definition quarantine_storable :: "int \<Rightarrow> json \<Rightarrow> bool" where
  "quarantine_storable m v \<longleftrightarrow>
     0 < m \<and> wf_json v \<and> is_object v \<and> int (length (canonical_json v)) \<le> m"

lemma put_stores:
  assumes "quarantine_put w v d = Inr (k, d')" and "regular_only d"
  shows "map_of d' (item_name k) = Some (RegularFile (canonical_json v))"
proof (cases "exists_name d (item_name k)")
  case True
  with assms(1) have d': "d' = d" "read_bytes d (item_name k) = Some (canonical_json v)"
    by (auto simp: quarantine_put_Inr split: if_splits)
  from True obtain n where n: "map_of d (item_name k) = Some n" by (auto simp: exists_name_def)
  with regular_only_lookup [OF assms(2) n] d' show ?thesis by (auto simp: read_bytes_def)
next
  case False
  with assms(1) show ?thesis by (simp add: quarantine_put_Inr map_of_create_file)
qed

text \<open>The store keeps the contract of a content-addressed store, whatever the outcome of writes.\<close>

interpretation shadow: object_store "quarantine_put w" "quarantine_get m" norm_json
    "quarantine_storable m" "\<lambda>v. sha256 (canonical_json v)" for w m
proof
  fix v d k d'
  assume s: "quarantine_storable m v" "regular_only d" and put: "quarantine_put w v d = Inr (k, d')"
  from put_stores [OF put s(2)] s(1) put show "quarantine_get m d' k = Inr (norm_json v)"
    by (auto simp: quarantine_get_Inr quarantine_storable_def is_hex64_sha256 loads_canonical
        canonical_norm is_object_norm quarantine_put_Inr)
next
  fix v d k d'
  assume "quarantine_put w v d = Inr (k, d')"
  then show "map_of d \<subseteq>\<^sub>m map_of d'"
    by (auto simp: quarantine_put_Inr create_file_keeps split: if_splits)
  show "regular_only d \<Longrightarrow> regular_only d'"
    using \<open>quarantine_put w v d = Inr (k, d')\<close> by (auto simp: quarantine_put_Inr split: if_splits)
next
  fix d d' k v
  assume "map_of d \<subseteq>\<^sub>m map_of d'" "quarantine_get m d k = Inr v"
  then show "quarantine_get m d' k = Inr v"
    by (auto simp: quarantine_get_Inr map_le_def dom_def)
next
  fix d k v
  assume "quarantine_get m d k = Inr v"
  then show "sha256 (canonical_json v) = k" by (auto simp: quarantine_get_Inr)
qed

lemma match_item_Some: "match_item name = Some k \<longleftrightarrow> name = item_name k \<and> is_hex64 k"
proof -
  have "length k = 64" if "is_hex64 k" for k using that by (simp add: is_hex64_def)
  then show ?thesis
    by (auto simp: match_item_def item_name_def) (metis append_take_drop_id)
qed

lemma iter_items_ok:
  assumes "iter_items n m d c names = (items, None)"
  shows "map fst items = List.map_filter match_item names \<and>
    (\<forall>(k, v) \<in> set items. quarantine_get m d k = Inr v) \<and> c + int (length items) \<le> max n c"
  using assms
  by (induction n m d c names arbitrary: items rule: iter_items.induct)
    (fastforce simp: map_filter_simps split: option.splits if_splits sum.splits prod.splits)+

lemma iter_items_sound:
  assumes "iter_items n m d c names = (items, e)"
  shows "(\<forall>(k, v) \<in> set items. quarantine_get m d k = Inr v) \<and>
    (\<exists>rest. List.map_filter match_item names = map fst items @ rest) \<and> c + int (length items) \<le> max n c"
  using assms
  by (induction n m d c names arbitrary: items rule: iter_items.induct)
    (fastforce simp: map_filter_simps split: option.splits if_splits sum.splits prod.splits)+

section \<open>Properties\<close>

definition sample_envelope :: json where
  "sample_envelope = JObj [(''mode'', JStr ''shadow''), (''attempt'', JInt 1)]"

definition sample_quarantine :: directory where
  "sample_quarantine =
     [(item_name (sha256 (canonical_json sample_envelope)), RegularFile (canonical_json sample_envelope))]"

lemma sample_put:
  "quarantine_put WriteOk sample_envelope [] =
     Inr (sha256 (canonical_json sample_envelope), sample_quarantine)"
  by (simp add: quarantine_put_def Let_def exists_name_def create_file_def sample_quarantine_def)

lemma sample_storable: "quarantine_storable 2097152 sample_envelope"
proof -
  have "length (canonical_json sample_envelope) = 29" by code_simp
  then show ?thesis
    by (simp add: quarantine_storable_def) (simp add: sample_envelope_def is_object_def)
qed

text \<open>
  What an envelope was when it was stored is what every later read of its digest returns, with
  its keys in canonical order: no sequence of further writes, failed ones and repeated ones
  included, can change, hide or replace it.
\<close>

lemma quarantine_durable:
  assumes "quarantine_storable m v" and "regular_only d"
    and "quarantine_put w v d = Inr (k, d')"
    and "(\<lambda>x y. \<exists>w v k. quarantine_put w v x = Inr (k, y))\<^sup>*\<^sup>* d' d''"
  shows "quarantine_get m d'' k = Inr (norm_json v) \<and> k = sha256 (canonical_json v)"
proof -
  have "map_of d' \<subseteq>\<^sub>m map_of d''"
    using assms(4) by (induction rule: rtranclp_induct) (auto intro: map_le_trans shadow.put_keeps)
  from shadow.get_mono [OF this shadow.put_get [OF assms(1-3)]] assms(3)
  show ?thesis by (auto simp: quarantine_put_Inr)
qed

lemma quarantine_durable_witness:
  "quarantine_get 2097152 sample_quarantine (sha256 (canonical_json sample_envelope))
     = Inr (norm_json sample_envelope)"
  using quarantine_durable [OF sample_storable regular_only_Nil sample_put, of sample_quarantine] by simp

text \<open>
  C15: A read that returns is bound to its digest on every axis: the name is a plain file, no link,
  whose whole content is within the size limit, hashes to the digest and is exactly the canonical
  encoding of the JSON object returned; so one digest never yields two different documents from
  files with the same content.
\<close>

theorem quarantine_get_bound:
  assumes "quarantine_get m d k = Inr v"
  shows "map_of d (item_name k) = Some (RegularFile (canonical_json v)) \<and>
    sha256_json v = k \<and> is_hex64 k \<and> is_object v \<and> int (length (canonical_json v)) \<le> m"
  using assms by (auto simp: quarantine_get_Inr sha256_json_def)

lemma quarantine_get_bound_witness:
  "sha256_json (norm_json sample_envelope) = sha256 (canonical_json sample_envelope)"
proof -
  have "quarantine_get 2097152 sample_quarantine (sha256 (canonical_json sample_envelope))
      = Inr (norm_json sample_envelope)"
    using shadow.put_get [OF sample_storable regular_only_Nil sample_put] .
  from quarantine_get_bound [OF this] show ?thesis by simp
qed

text \<open>
  The verified listing yields, in the order of the names, one pair for each name of the form
  digest\<open>.json\<close>, each equal to what a read of that digest returns, and never more than the limit; it
  skips none: when it ends without an error the digests yielded are all those of the directory.
\<close>

lemma iter_verified_sound:
  assumes "iter_verified n m d = (items, e)"
  shows "(\<forall>(k, v) \<in> set items. quarantine_get m d k = Inr v) \<and>
    int (length items) \<le> max n 0 \<and>
    (\<exists>rest. List.map_filter match_item (sort (map fst d)) = map fst items @ rest \<and>
       (e = None \<longrightarrow> rest = []))"
proof (cases "n \<le> 0")
  case True
  with assms show ?thesis by (auto simp: iter_verified_def)
next
  case False
  with assms have it: "iter_items n m d 0 (sort (map fst d)) = (items, e)" by (simp add: iter_verified_def)
  show ?thesis
  proof (cases e)
    case None
    from iter_items_ok [OF it [unfolded None]] show ?thesis by auto
  next
    case (Some err)
    with iter_items_sound [OF it] show ?thesis by auto
  qed
qed

lemma iter_verified_sound_witness:
  "map fst (fst (iter_verified 1024 2097152 sample_quarantine)) =
     [sha256 (canonical_json sample_envelope)]"
proof -
  let ?k = "sha256 (canonical_json sample_envelope)"
  have m: "match_item (item_name ?k) = Some ?k"
    by (simp add: match_item_Some is_hex64_sha256)
  have get: "quarantine_get 2097152 sample_quarantine ?k = Inr (norm_json sample_envelope)"
    using shadow.put_get [OF sample_storable regular_only_Nil sample_put] .
  have "iter_verified 1024 2097152 sample_quarantine = ([(?k, norm_json sample_envelope)], None)"
    using m get by (simp add: iter_verified_def sample_quarantine_def)
  from iter_verified_sound [OF this] this m show ?thesis
    by (simp add: sample_quarantine_def map_filter_simps)
qed

end
