(* ===== verification/Wire.thy ===== *)
theory Wire
  imports Models "HOL-Library.Monad_Syntax"
begin

text \<open>
  \<open>model_validate_json\<close> on the strict models of \<open>src/iou_ai/models.py\<close>: the parsed JSON value is read
  field by field (\<open>extra="forbid"\<close>, no coercion) into the record, and the record must satisfy the
  model's validators.  One loader per model; it reads back what the model's dump rendered, whatever
  the order of the keys, so a valid document survives the round trip through its canonical bytes.
\<close>

section \<open>Reading values\<close>

type_synonym 'a loader = "json \<Rightarrow> 'a option"

fun load_str :: "string loader" where
  "load_str (JStr s) = Some s"
| "load_str _ = None"

fun load_int :: "int loader" where
  "load_int (JInt i) = Some i"
| "load_int _ = None"

fun load_bool :: "bool loader" where
  "load_bool (JBool b) = Some b"
| "load_bool _ = None"

fun load_list :: "'a loader \<Rightarrow> 'a list loader" where
  "load_list f (JList vs) = those (map f vs)"
| "load_list f _ = None"

fun load_nullable :: "'a loader \<Rightarrow> 'a option loader" where
  "load_nullable f JNull = Some None"
| "load_nullable f v = map_option Some (f v)"

text \<open>A literal field, and an enumeration read by the values of its members.\<close>

definition load_only :: "json \<Rightarrow> unit loader" where
  "load_only expected v = (if v = expected then Some () else None)"

definition load_enum :: "('a \<Rightarrow> string) \<Rightarrow> 'a list \<Rightarrow> 'a loader" where
  "load_enum wire_value xs v = Option.bind (load_str v) (\<lambda>s. find (\<lambda>x. wire_value x = s) xs)"

text \<open>The members of an object that has no undeclared key.\<close>

fun members :: "string list \<Rightarrow> json \<Rightarrow> (string \<rightharpoonup> json) option" where
  "members names (JObj kvs) =
     (if set (map fst kvs) \<subseteq> set names then Some (map_of kvs) else None)"
| "members names _ = None"

definition field :: "(string \<rightharpoonup> json) \<Rightarrow> string \<Rightarrow> 'a loader \<Rightarrow> 'a option" where
  "field m name f = Option.bind (m name) f"

definition field_or :: "'a \<Rightarrow> (string \<rightharpoonup> json) \<Rightarrow> string \<Rightarrow> 'a loader \<Rightarrow> 'a option" where
  "field_or absent m name f = (case m name of None \<Rightarrow> Some absent | Some v \<Rightarrow> f v)"

text \<open>
  \<open>Model.model_validate_json(payload)\<close>; None is the exception.
\<close>

definition model_validate_json :: "'a loader \<Rightarrow> ('a \<Rightarrow> bool) \<Rightarrow> bytes \<Rightarrow> 'a option" where
  "model_validate_json f valid payload =
     (case loads payload of
        None \<Rightarrow> None
      | Some v \<Rightarrow>
          (case f v of
             None \<Rightarrow> None
           | Some x \<Rightarrow> if valid x then Some x else None))"

section \<open>Reading what was rendered\<close>

lemma map_of_norm:
  assumes "distinct (map fst kvs)"
  shows "map_of (sort_key fst (map (\<lambda>(k, v). (k, norm_json v)) kvs)) k = map_option norm_json (map_of kvs k)"
proof -
  let ?n = "map (\<lambda>(k, v). (k, norm_json v)) kvs"
  have keys: "map fst ?n = map fst kvs" by (induction kvs) auto
  have d: "distinct (map fst ?n)" unfolding keys by (rule assms)
  moreover have "distinct (map fst (sort_key fst ?n))"
  proof -
    have "sort_key (\<lambda>x. x) (map fst ?n) = map fst (sort_key fst ?n)"
      using sort_key_map [of "\<lambda>x. x" fst ?n] unfolding comp_def .
    with d show ?thesis by (metis distinct_sort)
  qed
  ultimately have "map_of (sort_key fst ?n) = map_of ?n" by (intro map_of_inject_set [THEN iffD2]) simp_all
  then show ?thesis by (simp add: map_of_map)
qed

text \<open>The one rule for objects: reading the normal form of a rendered object by its keys.\<close>

lemma load_members:
  assumes "distinct (map fst kvs)" and "list_all (\<lambda>k. k \<in> set names) (map fst kvs)"
  shows "members names (norm_json (JObj kvs)) = Some (\<lambda>k. map_option norm_json (map_of kvs k))"
proof -
  have "set (map fst (sort_key fst (map (\<lambda>(k, v). (k, norm_json v)) kvs))) = set (map fst kvs)" by force
  moreover have "set (map fst kvs) \<subseteq> set names" using assms(2) unfolding list_all_iff by blast
  ultimately show ?thesis using assms(1) by (simp add: map_of_norm fun_eq_iff del: set_map)
qed

lemma load_list_map [simp]: "load_list f (JList (map g xs)) = those (map (\<lambda>x. f (g x)) xs)"
  by (simp add: comp_def)

lemma those_map_Some: "(\<And>x. x \<in> set xs \<Longrightarrow> f x = Some (g x)) \<Longrightarrow> those (map f xs) = Some (map g xs)"
  by (induction xs) auto

lemma those_map_id [simp]: "(\<And>x. f x = Some x) \<Longrightarrow> those (map f xs) = Some xs"
  using those_map_Some [of xs f id] by simp

lemma those_Some_list [simp]: "those (map Some xs) = Some xs"
  by simp

lemma load_only_same [simp]: "load_only v v = Some ()"
  by (simp add: load_only_def)

lemma load_nullable_optional [simp]:
  assumes "\<And>x. f (norm_json (g x)) = Some x" and "\<And>x. norm_json (g x) \<noteq> JNull"
  shows "load_nullable f (norm_json (dump_optional g y)) = Some y"
proof (cases y)
  case (Some x)
  have "load_nullable f v = map_option Some (f v)" if "v \<noteq> JNull" for v
    using that by (cases v) auto
  with Some assms show ?thesis by (simp add: dump_optional_def)
qed (simp add: dump_optional_def)

lemmas load_object = load_members field_def field_or_def comp_def

section \<open>Enumerations\<close>

definition load_lane :: "lane_kind loader" where
  "load_lane = load_enum lane_value [STABLE_COVERAGE, PROBABILISTIC_RACE]"

definition load_argument_kind :: "argument_kind loader" where
  "load_argument_kind = load_enum argument_kind_value [ARG_INTEGER, ARG_BOOLEAN, ARG_SYMBOL, ARG_RESOURCE]"

definition load_link :: "link_mode loader" where
  "load_link = load_enum link_value [LINK_NONE, LINK_LINK, LINK_HARD, LINK_DRAIN]"

definition load_verdict_kind :: "verdict_kind loader" where
  "load_verdict_kind = load_enum verdict_value [ACCEPT, REJECT, ESCALATE]"

definition load_severity :: "finding_severity loader" where
  "load_severity = load_enum severity_value [SEV_CRITICAL, SEV_HIGH, SEV_MEDIUM, SEV_LOW, SEV_INFO]"

definition load_category :: "finding_category loader" where
  "load_category = load_enum category_value [SEMANTIC, SAFETY, HARNESS_MISMATCH, EVIDENCE_GAP,
      PRIVACY, DETERMINISM, BUDGET, SCOPE]"

definition load_risk :: "residual_risk loader" where
  "load_risk = load_enum risk_value [RISK_LOW, RISK_MEDIUM, RISK_HIGH, RISK_CRITICAL]"

definition load_environment :: "harness_environment loader" where
  "load_environment = load_enum environment_value [PRODUCTION, MOCK, TEST]"

definition load_harness_argument :: "harness_argument_kind loader" where
  "load_harness_argument = load_enum harness_argument_value [HARG_INTEGER, HARG_BOOLEAN, HARG_ENUM, HARG_RESOURCE]"

definition load_byte_order :: "byte_order loader" where
  "load_byte_order = load_enum byte_order_value [LITTLE, BIG, NOT_APPLICABLE]"

definition load_lifetime :: "resource_lifetime loader" where
  "load_lifetime = load_enum lifetime_value [PROGRAM, STEP]"

definition load_role :: "provider_role loader" where
  "load_role = load_enum role_value [PLANNER, REVIEWER, AUDITOR]"

lemma load_enums [simp]:
  "load_lane (JStr (lane_value x0)) = Some x0"
  "load_argument_kind (JStr (argument_kind_value x1)) = Some x1"
  "load_link (JStr (link_value x2)) = Some x2"
  "load_verdict_kind (JStr (verdict_value x3)) = Some x3"
  "load_severity (JStr (severity_value x4)) = Some x4"
  "load_category (JStr (category_value x5)) = Some x5"
  "load_risk (JStr (risk_value x6)) = Some x6"
  "load_environment (JStr (environment_value x7)) = Some x7"
  "load_harness_argument (JStr (harness_argument_value x8)) = Some x8"
  "load_byte_order (JStr (byte_order_value x9)) = Some x9"
  "load_lifetime (JStr (lifetime_value x10)) = Some x10"
  "load_role (JStr (role_value x11)) = Some x11"
  by ((cases x0; simp add: load_lane_def load_enum_def),
    (cases x1; simp add: load_argument_kind_def load_enum_def),
    (cases x2; simp add: load_link_def load_enum_def),
    (cases x3; simp add: load_verdict_kind_def load_enum_def),
    (cases x4; simp add: load_severity_def load_enum_def),
    (cases x5; simp add: load_category_def load_enum_def),
    (cases x6; simp add: load_risk_def load_enum_def),
    (cases x7; simp add: load_environment_def load_enum_def),
    (cases x8; simp add: load_harness_argument_def load_enum_def),
    (cases x9; simp add: load_byte_order_def load_enum_def),
    (cases x10; simp add: load_lifetime_def load_enum_def),
    (cases x11; simp add: load_role_def load_enum_def))

section \<open>Models\<close>

definition load_target_hashes :: "target_hashes loader" where
  "load_target_hashes v =
     do {
              m \<leftarrow> members [''harness_hash'', ''compiler_hash'', ''op_table_hash'',
           ''fleet_config_hash''] v;
       a0 \<leftarrow> field m ''harness_hash'' load_str;
       a1 \<leftarrow> field m ''compiler_hash'' load_str;
       a2 \<leftarrow> field m ''op_table_hash'' load_str;
       a3 \<leftarrow> field m ''fleet_config_hash'' load_str;
       Some \<lparr>harness_hash = a0, compiler_hash = a1, op_table_hash = a2, fleet_config_hash = a3\<rparr>
     }"

lemma load_dump_target_hashes [simp]: "load_target_hashes (norm_json (dump_target_hashes x)) = Some x"
  unfolding load_target_hashes_def dump_target_hashes_def by (simp add: load_object)

definition load_hypothesis :: "hypothesis loader" where
  "load_hypothesis v =
     do {
       m \<leftarrow> members [''claim'', ''evidence_refs'', ''expected_signal''] v;
       a0 \<leftarrow> field m ''claim'' load_str;
       a1 \<leftarrow> field m ''evidence_refs'' (load_list load_str);
       a2 \<leftarrow> field m ''expected_signal'' load_str;
       Some \<lparr>hy_claim = a0, hy_evidence_refs = a1, hy_expected_signal = a2\<rparr>
     }"

lemma load_dump_hypothesis [simp]: "load_hypothesis (norm_json (dump_hypothesis x)) = Some x"
  unfolding load_hypothesis_def dump_hypothesis_def by (simp add: load_object)

definition load_research_priority :: "research_priority loader" where
  "load_research_priority v =
     do {
              m \<leftarrow> members [''priority_id'', ''rationale'', ''evidence_refs'',
           ''operation_families'', ''ring_profile_ids'', ''preferred_lanes'', ''expected_signal'',
           ''safety_notes''] v;
       a0 \<leftarrow> field m ''priority_id'' load_str;
       a1 \<leftarrow> field m ''rationale'' load_str;
       a2 \<leftarrow> field m ''evidence_refs'' (load_list load_str);
       a3 \<leftarrow> field m ''operation_families'' (load_list load_str);
       a4 \<leftarrow> field m ''ring_profile_ids'' (load_list load_str);
       a5 \<leftarrow> field m ''preferred_lanes'' (load_list load_lane);
       a6 \<leftarrow> field m ''expected_signal'' load_str;
       a7 \<leftarrow> field m ''safety_notes'' (load_list load_str);
              Some \<lparr>rp_id = a0, rp_rationale = a1, rp_evidence_refs = a2, rp_operation_families =
           a3, rp_ring_profile_ids = a4, rp_preferred_lanes = a5, rp_expected_signal = a6,
           rp_safety_notes = a7\<rparr>
     }"

lemma load_dump_research_priority [simp]: "load_research_priority (norm_json (dump_research_priority x))
    = Some x"
  unfolding load_research_priority_def dump_research_priority_def by (simp add: load_object)

definition load_argument :: "symbolic_argument loader" where
  "load_argument v =
     do {
              m \<leftarrow> members [''name'', ''kind'', ''integer_value'', ''boolean_value'',
           ''symbol_value'', ''resource_ref''] v;
       a0 \<leftarrow> field m ''name'' load_str;
       a1 \<leftarrow> field m ''kind'' load_argument_kind;
       a2 \<leftarrow> field m ''integer_value'' load_int;
       a3 \<leftarrow> field m ''boolean_value'' load_bool;
       a4 \<leftarrow> field m ''symbol_value'' load_str;
       a5 \<leftarrow> field m ''resource_ref'' load_str;
              Some \<lparr>sa_name = a0, sa_kind = a1, integer_value = a2, boolean_value = a3,
           symbol_value = a4, sa_resource_ref = a5\<rparr>
     }"

lemma load_dump_argument [simp]: "load_argument (norm_json (dump_argument x)) = Some x"
  unfolding load_argument_def dump_argument_def by (simp add: load_object)

definition load_resource_binding :: "resource_binding loader" where
  "load_resource_binding v =
     do {
       m \<leftarrow> members [''resource_ref'', ''resource_kind'', ''quantity''] v;
       a0 \<leftarrow> field m ''resource_ref'' load_str;
       a1 \<leftarrow> field m ''resource_kind'' load_str;
       a2 \<leftarrow> field m ''quantity'' load_int;
       Some \<lparr>rb_resource_ref = a0, rb_resource_kind = a1, rb_quantity = a2\<rparr>
     }"

lemma load_dump_resource_binding [simp]: "load_resource_binding (norm_json (dump_resource_binding x)) =
    Some x"
  unfolding load_resource_binding_def dump_resource_binding_def by (simp add: load_object)

definition load_step :: "symbolic_step loader" where
  "load_step v =
     do {
              m \<leftarrow> members [''step_id'', ''ordinal'', ''operation'', ''ring_ref'',
           ''arguments'', ''flags'', ''link_mode'', ''expected_result_classes''] v;
       a0 \<leftarrow> field m ''step_id'' load_str;
       a1 \<leftarrow> field m ''ordinal'' load_int;
       a2 \<leftarrow> field m ''operation'' load_str;
       a3 \<leftarrow> field m ''ring_ref'' load_str;
       a4 \<leftarrow> field m ''arguments'' (load_list load_argument);
       a5 \<leftarrow> field m ''flags'' (load_list load_str);
       a6 \<leftarrow> field m ''link_mode'' load_link;
       a7 \<leftarrow> field m ''expected_result_classes'' (load_list load_str);
              Some \<lparr>st_step_id = a0, st_ordinal = a1, st_operation = a2, st_ring_ref = a3,
           st_arguments = a4, st_flags = a5, st_link_mode = a6, st_expected = a7\<rparr>
     }"

lemma load_dump_step [simp]: "load_step (norm_json (dump_step x)) = Some x"
  unfolding load_step_def dump_step_def by (simp add: load_object)

definition load_perturbation :: "perturbation loader" where
  "load_perturbation v =
     do {
       m \<leftarrow> members [''kind'', ''target_step_id'', ''magnitude'', ''rationale''] v;
       a0 \<leftarrow> field m ''kind'' load_str;
       a1 \<leftarrow> field m ''target_step_id'' load_str;
       a2 \<leftarrow> field m ''magnitude'' load_int;
       a3 \<leftarrow> field m ''rationale'' load_str;
       Some \<lparr>pt_kind = a0, pt_target_step_id = a1, pt_magnitude = a2, pt_rationale = a3\<rparr>
     }"

lemma load_dump_perturbation [simp]: "load_perturbation (norm_json (dump_perturbation x)) = Some x"
  unfolding load_perturbation_def dump_perturbation_def by (simp add: load_object)

definition load_program :: "planner_program loader" where
  "load_program v =
     do {
              m \<leftarrow> members [''program_id'', ''objective'', ''lane'', ''ring_profile_id'',
           ''resources'', ''steps'', ''perturbations'', ''requested_local_variants'',
           ''expected_signals'', ''safety_notes''] v;
       a0 \<leftarrow> field m ''program_id'' load_str;
       a1 \<leftarrow> field m ''objective'' load_str;
       a2 \<leftarrow> field m ''lane'' load_lane;
       a3 \<leftarrow> field m ''ring_profile_id'' load_str;
       a4 \<leftarrow> field m ''resources'' (load_list load_resource_binding);
       a5 \<leftarrow> field m ''steps'' (load_list load_step);
       a6 \<leftarrow> field m ''perturbations'' (load_list load_perturbation);
       a7 \<leftarrow> field m ''requested_local_variants'' load_int;
       a8 \<leftarrow> field m ''expected_signals'' (load_list load_str);
       a9 \<leftarrow> field m ''safety_notes'' (load_list load_str);
              Some \<lparr>pg_program_id = a0, pg_objective = a1, pg_lane = a2, pg_ring_profile_id = a3,
           pg_resources = a4, pg_steps = a5, pg_perturbations = a6, pg_requested_local_variants = a7,
           pg_expected_signals = a8, pg_safety_notes = a9\<rparr>
     }"

lemma load_dump_program [simp]: "load_program (norm_json (dump_program x)) = Some x"
  unfolding load_program_def dump_program_def by (simp add: load_object)

definition load_proposal :: "planner_proposal loader" where
  "load_proposal v =
     do {
              m \<leftarrow> members [''schema_version'', ''proposal_id'', ''packet_id'',
           ''target_hashes'', ''hypothesis'', ''abstain'', ''abstain_reason'', ''analysis_only'',
           ''research_priorities'', ''programs''] v;
       field m ''schema_version'' (load_only (JStr ''planner-proposal.v1''));
       a1 \<leftarrow> field m ''proposal_id'' load_str;
       a2 \<leftarrow> field m ''packet_id'' load_str;
       a3 \<leftarrow> field m ''target_hashes'' load_target_hashes;
       a4 \<leftarrow> field m ''hypothesis'' load_hypothesis;
       a5 \<leftarrow> field m ''abstain'' load_bool;
       a6 \<leftarrow> field m ''abstain_reason'' load_str;
       a7 \<leftarrow> field m ''analysis_only'' load_bool;
       a8 \<leftarrow> field m ''research_priorities'' (load_list load_research_priority);
       a9 \<leftarrow> field m ''programs'' (load_list load_program);
              Some \<lparr>pr_proposal_id = a1, pr_packet_id = a2, pr_target_hashes = a3, pr_hypothesis =
           a4, pr_abstain = a5, pr_abstain_reason = a6, pr_analysis_only = a7, pr_research_priorities =
           a8, pr_programs = a9\<rparr>
     }"

lemma load_dump_proposal [simp]: "load_proposal (norm_json (dump_proposal x)) = Some x"
  unfolding load_proposal_def dump_proposal_def by (simp add: load_object)

definition load_finding :: "review_finding loader" where
  "load_finding v =
     do {
              m \<leftarrow> members [''finding_id'', ''severity'', ''category'', ''message'',
           ''evidence_refs'', ''program_id'', ''step_id''] v;
       a0 \<leftarrow> field m ''finding_id'' load_str;
       a1 \<leftarrow> field m ''severity'' load_severity;
       a2 \<leftarrow> field m ''category'' load_category;
       a3 \<leftarrow> field m ''message'' load_str;
       a4 \<leftarrow> field m ''evidence_refs'' (load_list load_str);
       a5 \<leftarrow> field m ''program_id'' load_str;
       a6 \<leftarrow> field m ''step_id'' load_str;
              Some \<lparr>rf_id = a0, rf_severity = a1, rf_category = a2, rf_message = a3,
           rf_evidence_refs = a4, rf_program_id = a5, rf_step_id = a6\<rparr>
     }"

lemma load_dump_finding [simp]: "load_finding (norm_json (dump_finding x)) = Some x"
  unfolding load_finding_def dump_finding_def by (simp add: load_object)

definition load_verdict :: "reviewer_verdict loader" where
  "load_verdict v =
     do {
              m \<leftarrow> members [''schema_version'', ''review_id'', ''proposal_id'', ''packet_id'',
           ''verdict'', ''summary'', ''findings'', ''checked_evidence_refs'', ''required_changes'',
           ''residual_risk'', ''safe_for_quarantine''] v;
       field m ''schema_version'' (load_only (JStr ''reviewer-verdict.v1''));
       a1 \<leftarrow> field m ''review_id'' load_str;
       a2 \<leftarrow> field m ''proposal_id'' load_str;
       a3 \<leftarrow> field m ''packet_id'' load_str;
       a4 \<leftarrow> field m ''verdict'' load_verdict_kind;
       a5 \<leftarrow> field m ''summary'' load_str;
       a6 \<leftarrow> field m ''findings'' (load_list load_finding);
       a7 \<leftarrow> field m ''checked_evidence_refs'' (load_list load_str);
       a8 \<leftarrow> field m ''required_changes'' (load_list load_str);
       a9 \<leftarrow> field m ''residual_risk'' load_risk;
       a10 \<leftarrow> field m ''safe_for_quarantine'' load_bool;
              Some \<lparr>rv_review_id = a1, rv_proposal_id = a2, rv_packet_id = a3, rv_verdict = a4,
           rv_summary = a5, rv_findings = a6, rv_checked_evidence_refs = a7, rv_required_changes = a8,
           rv_residual_risk = a9, safe_for_quarantine = a10\<rparr>
     }"

lemma load_dump_verdict [simp]: "load_verdict (norm_json (dump_verdict x)) = Some x"
  unfolding load_verdict_def dump_verdict_def by (simp add: load_object)

definition load_argument_spec :: "argument_spec loader" where
  "load_argument_spec v =
     do {
              m \<leftarrow> members [''name'', ''kind'', ''byte_width'', ''signed'', ''byte_order'',
           ''minimum_value'', ''maximum_value'', ''enum_symbols'', ''resource_kind'', ''summary''] v;
       a0 \<leftarrow> field m ''name'' load_str;
       a1 \<leftarrow> field m ''kind'' load_harness_argument;
       a2 \<leftarrow> field m ''byte_width'' load_int;
       a3 \<leftarrow> field m ''signed'' load_bool;
       a4 \<leftarrow> field m ''byte_order'' load_byte_order;
       a5 \<leftarrow> field m ''minimum_value'' load_int;
       a6 \<leftarrow> field m ''maximum_value'' load_int;
       a7 \<leftarrow> field m ''enum_symbols'' (load_list load_str);
       a8 \<leftarrow> field m ''resource_kind'' load_str;
       a9 \<leftarrow> field m ''summary'' load_str;
              Some \<lparr>as_name = a0, as_kind = a1, as_byte_width = a2, as_signed = a3, as_byte_order
           = a4, as_minimum = a5, as_maximum = a6, as_enum_symbols = a7, as_resource_kind = a8,
           as_summary = a9\<rparr>
     }"

lemma load_dump_argument_spec [simp]: "load_argument_spec (norm_json (dump_argument_spec x)) = Some x"
  unfolding load_argument_spec_def dump_argument_spec_def by (simp add: load_object)

definition load_profile :: "harness_profile loader" where
  "load_profile v =
     do {
              m \<leftarrow> members [''profile_id'', ''selector_value'', ''setup_flags'',
           ''allowed_lanes'', ''summary''] v;
       a0 \<leftarrow> field m ''profile_id'' load_str;
       a1 \<leftarrow> field m ''selector_value'' load_int;
       a2 \<leftarrow> field m ''setup_flags'' (load_list load_str);
       a3 \<leftarrow> field m ''allowed_lanes'' (load_list load_lane);
       a4 \<leftarrow> field m ''summary'' load_str;
              Some \<lparr>hp_profile_id = a0, hp_selector_value = a1, hp_setup_flags = a2,
           hp_allowed_lanes = a3, hp_summary = a4\<rparr>
     }"

lemma load_dump_profile [simp]: "load_profile (norm_json (dump_profile x)) = Some x"
  unfolding load_profile_def dump_profile_def by (simp add: load_object)

definition load_resource_spec :: "resource_spec loader" where
  "load_resource_spec v =
     do {
       m \<leftarrow> members [''resource_kind'', ''lifetime'', ''max_instances'', ''summary''] v;
       a0 \<leftarrow> field m ''resource_kind'' load_str;
       a1 \<leftarrow> field m ''lifetime'' load_lifetime;
       a2 \<leftarrow> field m ''max_instances'' load_int;
       a3 \<leftarrow> field m ''summary'' load_str;
       Some \<lparr>rs_resource_kind = a0, rs_lifetime = a1, rs_max_instances = a2, rs_summary = a3\<rparr>
     }"

lemma load_dump_resource_spec [simp]: "load_resource_spec (norm_json (dump_resource_spec x)) = Some x"
  unfolding load_resource_spec_def dump_resource_spec_def by (simp add: load_object)

definition load_flag_spec :: "flag_spec loader" where
  "load_flag_spec v =
     do {
       m \<leftarrow> members [''symbol'', ''bit_value'', ''summary''] v;
       a0 \<leftarrow> field m ''symbol'' load_str;
       a1 \<leftarrow> field m ''bit_value'' load_int;
       a2 \<leftarrow> field m ''summary'' load_str;
       Some \<lparr>fs_symbol = a0, fs_bit_value = a1, fs_summary = a2\<rparr>
     }"

lemma load_dump_flag_spec [simp]: "load_flag_spec (norm_json (dump_flag_spec x)) = Some x"
  unfolding load_flag_spec_def dump_flag_spec_def by (simp add: load_object)

definition load_operation :: "harness_operation loader" where
  "load_operation v =
     do {
              m \<leftarrow> members [''symbol'', ''selector_modulus_value'', ''arguments'',
           ''allowed_flags'', ''allowed_profiles'', ''allowed_lanes'', ''expected_result_classes'',
           ''summary''] v;
       a0 \<leftarrow> field m ''symbol'' load_str;
       a1 \<leftarrow> field m ''selector_modulus_value'' load_int;
       a2 \<leftarrow> field m ''arguments'' (load_list load_argument_spec);
       a3 \<leftarrow> field m ''allowed_flags'' (load_list load_str);
       a4 \<leftarrow> field m ''allowed_profiles'' (load_list load_str);
       a5 \<leftarrow> field m ''allowed_lanes'' (load_list load_lane);
       a6 \<leftarrow> field m ''expected_result_classes'' (load_list load_str);
       a7 \<leftarrow> field m ''summary'' load_str;
              Some \<lparr>ho_symbol = a0, ho_selector = a1, ho_arguments = a2, ho_allowed_flags = a3,
           ho_allowed_profiles = a4, ho_allowed_lanes = a5, ho_expected = a6, ho_summary = a7\<rparr>
     }"

lemma load_dump_operation [simp]: "load_operation (norm_json (dump_operation x)) = Some x"
  unfolding load_operation_def dump_operation_def by (simp add: load_object)

definition load_contract :: "harness_contract loader" where
  "load_contract v =
     do {
              m \<leftarrow> members [''schema_version'', ''contract_id'', ''generated_at'',
           ''environment'', ''verified'', ''test_only'', ''verified_by'', ''verification_evidence_hash'',
           ''source_revision_hash'', ''target_hashes'', ''input_max_bytes'', ''operation_max_count'',
           ''operation_selector_modulus'', ''deterministic_compiler'', ''decode_round_trip_verified'',
           ''profiles'', ''resources'', ''flags'', ''operations'', ''forbidden_profile_ids'', ''notes'']
           v;
       field m ''schema_version'' (load_only (JStr ''harness-contract.v1''));
       a1 \<leftarrow> field m ''contract_id'' load_str;
       a2 \<leftarrow> field m ''generated_at'' load_str;
       a3 \<leftarrow> field m ''environment'' load_environment;
       a4 \<leftarrow> field m ''verified'' load_bool;
       a5 \<leftarrow> field m ''test_only'' load_bool;
       a6 \<leftarrow> field m ''verified_by'' load_str;
       a7 \<leftarrow> field m ''verification_evidence_hash'' load_str;
       a8 \<leftarrow> field m ''source_revision_hash'' load_str;
       a9 \<leftarrow> field m ''target_hashes'' load_target_hashes;
       a10 \<leftarrow> field m ''input_max_bytes'' load_int;
       a11 \<leftarrow> field m ''operation_max_count'' load_int;
       a12 \<leftarrow> field m ''operation_selector_modulus'' load_int;
       a13 \<leftarrow> field m ''deterministic_compiler'' load_bool;
       a14 \<leftarrow> field m ''decode_round_trip_verified'' load_bool;
       a15 \<leftarrow> field m ''profiles'' (load_list load_profile);
       a16 \<leftarrow> field m ''resources'' (load_list load_resource_spec);
       a17 \<leftarrow> field m ''flags'' (load_list load_flag_spec);
       a18 \<leftarrow> field m ''operations'' (load_list load_operation);
       a19 \<leftarrow> field m ''forbidden_profile_ids'' (load_list load_str);
       a20 \<leftarrow> field m ''notes'' (load_list load_str);
              Some \<lparr>hc_contract_id = a1, hc_generated_at = a2, hc_environment = a3, hc_verified =
           a4, hc_test_only = a5, hc_verified_by = a6, hc_evidence_hash = a7, hc_source_revision_hash =
           a8, hc_target_hashes = a9, hc_input_max_bytes = a10, hc_operation_max_count = a11,
           hc_selector_modulus = a12, hc_deterministic_compiler = a13, hc_round_trip_verified = a14,
           hc_profiles = a15, hc_resources = a16, hc_flags = a17, hc_operations = a18,
           hc_forbidden_profiles = a19, hc_notes = a20\<rparr>
     }"

lemma load_dump_contract [simp]: "load_contract (norm_json (dump_contract x)) = Some x"
  unfolding load_contract_def dump_contract_def by (simp add: load_object)

lemma dump_verdict_object [simp]: "norm_json (dump_verdict v) \<noteq> JNull"
  by (simp add: dump_verdict_def)

definition load_validation_record :: "validation_record loader" where
  "load_validation_record v =
     do {
              m \<leftarrow> members [''validator_version'', ''validator_hash'', ''passed_check_ids'',
           ''failed_check_ids''] v;
       a0 \<leftarrow> field m ''validator_version'' load_str;
       a1 \<leftarrow> field m ''validator_hash'' load_str;
       a2 \<leftarrow> field m ''passed_check_ids'' (load_list load_str);
       a3 \<leftarrow> field m ''failed_check_ids'' (load_list load_str);
       Some \<lparr>vr_validator_version = a0, vr_validator_hash = a1, vr_passed = a2, vr_failed = a3\<rparr>
     }"

lemma load_dump_validation_record [simp]: "load_validation_record (norm_json (dump_validation_record x))
    = Some x"
  unfolding load_validation_record_def dump_validation_record_def by (simp add: load_object)

definition load_trace :: "provider_trace loader" where
  "load_trace v =
     do {
              m \<leftarrow> members [''role'', ''provider'', ''model'', ''response_id'',
           ''client_request_id'', ''input_tokens'', ''output_tokens'', ''reasoning_tokens'',
           ''cost_microusd''] v;
       a0 \<leftarrow> field m ''role'' load_role;
       a1 \<leftarrow> field m ''provider'' load_str;
       a2 \<leftarrow> field m ''model'' load_str;
       a3 \<leftarrow> field m ''response_id'' load_str;
       a4 \<leftarrow> field m ''client_request_id'' load_str;
       a5 \<leftarrow> field m ''input_tokens'' load_int;
       a6 \<leftarrow> field m ''output_tokens'' load_int;
       a7 \<leftarrow> field m ''reasoning_tokens'' load_int;
       a8 \<leftarrow> field m ''cost_microusd'' load_int;
              Some \<lparr>pt_role = a0, pt_provider = a1, pt_model = a2, pt_response_id = a3,
           pt_client_request_id = a4, pt_input_tokens = a5, pt_output_tokens = a6, pt_reasoning_tokens =
           a7, pt_cost_microusd = a8\<rparr>
     }"

lemma load_dump_trace [simp]: "load_trace (norm_json (dump_trace x)) = Some x"
  unfolding load_trace_def dump_trace_def by (simp add: load_object)

definition load_envelope :: "quarantine_envelope loader" where
  "load_envelope v =
     do {
              m \<leftarrow> members [''schema_version'', ''envelope_id'', ''created_at'',
           ''promotion_state'', ''human_approval_required'', ''isolated_canary_required'',
           ''telemetry_packet_hash'', ''proposal_hash'', ''reviewer_verdict_hash'',
           ''auditor_verdict_hash'', ''harness_contract_hash'', ''compiled_artifact_hashes'',
           ''target_hashes'', ''proposal'', ''reviewer_verdict'', ''auditor_verdict'', ''validations'',
           ''provider_traces''] v;
       field m ''schema_version'' (load_only (JStr ''quarantine-envelope.v1''));
       a1 \<leftarrow> field m ''envelope_id'' load_str;
       a2 \<leftarrow> field m ''created_at'' load_str;
       field m ''promotion_state'' (load_only (JStr ''quarantined''));
       field m ''human_approval_required'' (load_only (JBool True));
       field m ''isolated_canary_required'' (load_only (JBool True));
       a6 \<leftarrow> field m ''telemetry_packet_hash'' load_str;
       a7 \<leftarrow> field m ''proposal_hash'' load_str;
       a8 \<leftarrow> field m ''reviewer_verdict_hash'' load_str;
       a9 \<leftarrow> field m ''auditor_verdict_hash'' (load_nullable load_str);
       a10 \<leftarrow> field m ''harness_contract_hash'' load_str;
       a11 \<leftarrow> field m ''compiled_artifact_hashes'' (load_list load_str);
       a12 \<leftarrow> field m ''target_hashes'' load_target_hashes;
       a13 \<leftarrow> field m ''proposal'' load_proposal;
       a14 \<leftarrow> field m ''reviewer_verdict'' load_verdict;
       a15 \<leftarrow> field m ''auditor_verdict'' (load_nullable load_verdict);
       a16 \<leftarrow> field m ''validations'' (load_list load_validation_record);
       a17 \<leftarrow> field m ''provider_traces'' (load_list load_trace);
              Some \<lparr>qe_envelope_id = a1, qe_created_at = a2, qe_telemetry_packet_hash = a6,
           qe_proposal_hash = a7, qe_reviewer_verdict_hash = a8, qe_auditor_verdict_hash = a9,
           qe_harness_contract_hash = a10, qe_compiled_artifact_hashes = a11, qe_target_hashes = a12,
           qe_proposal = a13, qe_reviewer_verdict = a14, qe_auditor_verdict = a15, qe_validations = a16,
           qe_provider_traces = a17\<rparr>
     }"

lemma load_dump_envelope [simp]: "load_envelope (norm_json (dump_envelope x)) = Some x"
  unfolding load_envelope_def dump_envelope_def by (simp add: load_object)

section \<open>The round trip\<close>

lemma model_round_trip:
  assumes "f (norm_json (dump x)) = Some x" and "wf_json (dump x)" and "valid x"
  shows "model_validate_json f valid (canonical_json (dump x)) = Some x"
  using assms by (simp add: model_validate_json_def loads_canonical)

lemma model_validate_json_Some:
  "model_validate_json f valid payload = Some x \<longleftrightarrow> (\<exists>v. loads payload = Some v \<and> f v = Some x \<and> valid x)"
  by (auto simp: model_validate_json_def split: option.splits)

section \<open>The size of a document\<close>

text \<open>
  An upper bound on the length of the rendered text that needs no rendering; no character of an
  identifier is escaped, so a list of identifiers has a tighter one.
\<close>

fun is_identifier_value :: "json \<Rightarrow> bool" where
  "is_identifier_value (JStr s) = is_Identifier s"
| "is_identifier_value _ = False"

fun json_size :: "json \<Rightarrow> nat" where
  "json_size JNull = 4"
| "json_size (JBool b) = 5"
| "json_size (JInt i) = length (show_int i)"
| "json_size (JStr s) = 6 * length s + 2"
| "json_size (JList vs) =
     (if list_all is_identifier_value vs then 2 + 99 * length vs
      else 2 + sum_list (map (\<lambda>v. json_size v + 1) vs))"
| "json_size (JObj kvs) = 2 + sum_list (map (\<lambda>(k, v). 6 * length k + 4 + json_size v) kvs)"

lemma length_quote: "length (quote s) \<le> 6 * length s + 2"
proof -
  have "length (concat (map escape_char s)) \<le> 6 * length s"
    by (induction s) (auto simp: escape_char_def)
  then show ?thesis by (simp add: quote_def)
qed

lemma tail_char_plain: "is_tail_char c \<Longrightarrow> length (escape_char c) = 1"
proof -
  have "\<forall>c \<in> set ''abcdefghijklmnopqrstuvwxyz'' \<union> set ''0123456789'' \<union> set ''._:-''. length (escape_char c) = 1"
    by code_simp
  moreover assume "is_tail_char c"
  then have "c \<in> set ''abcdefghijklmnopqrstuvwxyz'' \<union> set ''0123456789'' \<union> set ''._:-''"
    unfolding is_tail_char_def is_lower_def is_digit_def Un_iff disj_assoc .
  ultimately show ?thesis by (rule bspec)
qed

lemma identifier_tail: "is_Identifier s \<Longrightarrow> list_all is_tail_char s"
  by (cases s) (auto simp: is_Identifier_def is_identifier_text_def is_tail_char_def)

lemma quote_identifier: "is_Identifier s \<Longrightarrow> length (quote s) \<le> 98"
proof -
  assume s: "is_Identifier s"
  have "list_all is_tail_char t \<Longrightarrow> length (concat (map escape_char t)) = length t" for t
    using tail_char_plain by (induction t) auto
  from this [OF identifier_tail [OF s]] s show ?thesis by (simp add: quote_def is_Identifier_def)
qed

lemma length_join: "length (join '','' xs) \<le> sum_list (map (\<lambda>x. length x + 1) xs)"
  by (induction "'',''" xs rule: join.induct) auto

lemma sum_list_sort: "sum_list (map f (sort_key g xs)) = (sum_list (map f xs) :: nat)"
proof -
  have "sum_list (map f (insort_key g x ys)) = f x + sum_list (map f ys)" for x ys
    by (induction ys) auto
  then show ?thesis by (induction xs) simp_all
qed

lemma render_size: "length (render v) \<le> json_size v"
proof (induction v)
  case (JList vs)
  have "length (join '','' (map render vs)) \<le> sum_list (map (\<lambda>v. length (render v) + 1) vs)"
    using length_join [of "map render vs"] by (simp add: comp_def)
  then have bound: "length (render (JList vs)) \<le> 2 + sum_list (map (\<lambda>v. length (render v) + 1) vs)" by simp
  show ?case
  proof (cases "list_all is_identifier_value vs")
    case True
    have "sum_list (map (\<lambda>v. length (render v) + 1) vs) \<le> sum_list (map (\<lambda>v. 99) vs)"
    proof (rule sum_list_mono)
      fix v assume "v \<in> set vs"
      with True have v: "is_identifier_value v" by (simp add: list_all_iff)
      show "length (render v) + 1 \<le> 99"
        by (cases v) (use v quote_identifier in auto)
    qed
    with bound True show ?thesis by (simp add: sum_list_triv)
  next
    case False
    have "sum_list (map (\<lambda>v. length (render v) + 1) vs) \<le> sum_list (map (\<lambda>v. json_size v + 1) vs)"
      using JList by (intro sum_list_mono) simp
    with bound False show ?thesis by simp
  qed
next
  case (JObj kvs)
  have m: "length (member_text (k, v)) + 1 \<le> 6 * length k + 4 + json_size v" if "(k, v) \<in> set kvs" for k v
  proof -
    have "length (render v) \<le> json_size v" by (rule JObj [OF that]) simp
    with length_quote [of k] show ?thesis by (simp add: member_text_pair)
  qed
  have "length (join '','' (map member_text (sort_key fst kvs))) \<le>
      sum_list (map (\<lambda>kv. length (member_text kv) + 1) (sort_key fst kvs))"
    using length_join [of "map member_text (sort_key fst kvs)"] by (simp add: comp_def)
  also have "\<dots> = sum_list (map (\<lambda>kv. length (member_text kv) + 1) kvs)" by (rule sum_list_sort)
  also have "\<dots> \<le> sum_list (map (\<lambda>(k, v). 6 * length k + 4 + json_size v) kvs)"
    using m by (intro sum_list_mono) auto
  finally show ?case by (simp add: render_JObj del: render.simps)
qed (use length_quote in auto)

lemma canonical_size: "length (canonical_json v) \<le> json_size v"
  using render_size [of v] by (simp add: canonical_json_def ascii_bytes_def)

lemma length_show_nat: "0 < k \<Longrightarrow> n < 10 ^ k \<Longrightarrow> length (show_nat n) \<le> k"
proof (induction n arbitrary: k rule: show_nat.induct)
  case (1 n)
  show ?case
  proof (cases "n < 10")
    case True
    then show ?thesis using 1(2) by (simp add: show_nat.simps)
  next
    case False
    then have "10 < (10 :: nat) ^ k \<or> 10 = (10 :: nat) ^ k" using 1(3) by linarith
    obtain j where k: "k = Suc j" using 1(2) by (cases k) auto
    have "0 < j" using False 1(3) k by (cases j) auto
    moreover have "n div 10 < 10 ^ j" using 1(3) k by (simp add: less_mult_imp_div_less mult.commute)
    ultimately have "length (show_nat (n div 10)) \<le> j" using 1(1) False by blast
    then show ?thesis using False k by (subst show_nat.simps) simp
  qed
qed

lemma show_int_size: "0 \<le> i \<Longrightarrow> i < 10 ^ k \<Longrightarrow> 0 < k \<Longrightarrow> length (show_int i) \<le> k"
proof -
  assume i: "0 \<le> i" "i < 10 ^ k" "0 < k"
  then have "nat i < 10 ^ k" by (simp add: nat_less_iff)
  with i show ?thesis using length_show_nat [of k "nat i"] by (simp add: show_int_def)
qed

lemma length_of_digest: "is_digest s \<Longrightarrow> length s = 71"
  by (auto simp: is_digest_def is_hex64_def)

end
