(* ===== verification/Feedback.thy ===== *)
theory Feedback
  imports Validator Quarantine Wire
begin

text \<open>
  The reviewer's feedback of \<open>src/iou_ai/feedback.py\<close>: the lossy record made of a verdict that passed
  its structural checks, the store of such records, and the bounded outcomes the next packet of
  telemetry is given of them.  A datetime is a \<open>pydatetime\<close>; a pydantic \<open>ValidationError\<close> is
  \<open>FeedbackInvalid\<close>.
\<close>

datatype feedback_error = FeedbackError string | FeedbackInvalid | FeedbackStorage quarantine_error

text \<open>\<open>sorted(set(xs))\<close>\<close>

definition sorted_set :: "'a::linorder list \<Rightarrow> 'a list" where
  "sorted_set xs = sort (remdups xs)"

lemma sorted_set_simps [simp]:
  "set (sorted_set xs) = set xs" "distinct (sorted_set xs)" "sorted (sorted_set xs)"
  by (simp_all add: sorted_set_def)

lemma sorted_set_id [simp]: "sorted xs \<Longrightarrow> distinct xs \<Longrightarrow> sorted_set xs = xs"
  by (simp add: sorted_set_def sorted_sort_id)

lemma sorted_set_idem [simp]: "sorted_set (sorted_set xs) = sorted_set xs"
  by simp

lemma length_sorted_set: "length (sorted_set xs) \<le> length xs"
  by (simp add: sorted_set_def)

section \<open>The record\<close>

record sanitized_finding =
  sf_category :: finding_category
  sf_severity :: finding_severity
  sf_evidence_refs :: "string list"

definition valid_sanitized :: "sanitized_finding \<Rightarrow> bool" where
  "valid_sanitized f \<longleftrightarrow>
     len_between 0 12 (sf_evidence_refs f) \<and> list_all is_EvidenceRef (sf_evidence_refs f) \<and>
     sf_evidence_refs f = sorted_set (sf_evidence_refs f)"

definition dump_sanitized :: "sanitized_finding \<Rightarrow> json" where
  "dump_sanitized f =
     JObj [(''category'', JStr (category_value (sf_category f))),
           (''severity'', JStr (severity_value (sf_severity f))),
           (''evidence_refs'', strs (sf_evidence_refs f))]"

definition finding_key :: "sanitized_finding \<Rightarrow> string \<times> string \<times> string list" where
  "finding_key f = (category_value (sf_category f), severity_value (sf_severity f), sf_evidence_refs f)"

definition finding_kind :: "sanitized_finding \<Rightarrow> string" where
  "finding_kind f = category_value (sf_category f) @ ''/'' @ severity_value (sf_severity f)"

definition record_summary ::
  "verdict_kind \<Rightarrow> residual_risk \<Rightarrow> sanitized_finding list \<Rightarrow> string list \<Rightarrow> string" where
  "record_summary verdict risk findings refs =
     (let pairs = sorted_set (map finding_kind findings);
          finding_text = (if pairs \<noteq> [] then join '','' pairs else ''none'')
      in ''Independent review verdict='' @ verdict_value verdict @ ''; residual_risk='' @ risk_value risk @
         ''; finding_kinds='' @ finding_text @ ''; evidence_ref_count='' @ show_nat (length refs) @ ''.'')"

record review_feedback =
  fb_created_at :: string
  fb_proposal_id :: string
  fb_packet_id :: string
  fb_proposal_hash :: string
  fb_packet_hash :: string
  fb_verdict_hash :: string
  fb_target_hashes :: target_hashes
  fb_verdict :: verdict_kind
  fb_residual_risk :: residual_risk
  fb_safe :: bool
  fb_findings :: "sanitized_finding list"
  fb_checked_refs :: "string list"
  fb_local_summary :: string

definition require_canonical_projection :: "review_feedback \<Rightarrow> bool" where
  "require_canonical_projection r \<longleftrightarrow>
     (let keys = map finding_key (fb_findings r) in keys = sorted_set keys) \<and>
     fb_checked_refs r = sorted_set (fb_checked_refs r) \<and>
     set (concat (map sf_evidence_refs (fb_findings r))) \<subseteq> set (fb_checked_refs r) \<and>
     (if fb_verdict r = ACCEPT then
        fb_safe r \<and> \<not> list_ex (\<lambda>f. sf_severity f \<in> {SEV_CRITICAL, SEV_HIGH}) (fb_findings r)
      else \<not> fb_safe r) \<and>
     fb_local_summary r =
       record_summary (fb_verdict r) (fb_residual_risk r) (fb_findings r) (fb_checked_refs r)"

definition valid_feedback :: "review_feedback \<Rightarrow> bool" where
  "valid_feedback r \<longleftrightarrow>
     is_Timestamp (fb_created_at r) \<and> is_Identifier (fb_proposal_id r) \<and>
     is_Identifier (fb_packet_id r) \<and> is_Digest (fb_proposal_hash r) \<and> is_Digest (fb_packet_hash r) \<and>
     is_Digest (fb_verdict_hash r) \<and> valid_target_hashes (fb_target_hashes r) \<and>
     len_between 0 32 (fb_findings r) \<and> list_all valid_sanitized (fb_findings r) \<and>
     len_between 0 24 (fb_checked_refs r) \<and> list_all is_EvidenceRef (fb_checked_refs r) \<and>
     len_between 1 1600 (fb_local_summary r) \<and> require_canonical_projection r"

definition dump_feedback :: "review_feedback \<Rightarrow> json" where
  "dump_feedback r =
     JObj [(''schema_version'', JStr ''review-feedback.v1''),
           (''trust'', JStr ''untrusted_model_review_sanitized''),
           (''created_at'', JStr (fb_created_at r)), (''proposal_id'', JStr (fb_proposal_id r)),
           (''packet_id'', JStr (fb_packet_id r)), (''proposal_hash'', JStr (fb_proposal_hash r)),
           (''packet_hash'', JStr (fb_packet_hash r)),
           (''reviewer_verdict_hash'', JStr (fb_verdict_hash r)),
           (''target_hashes'', dump_target_hashes (fb_target_hashes r)),
           (''verdict'', JStr (verdict_value (fb_verdict r))),
           (''residual_risk'', JStr (risk_value (fb_residual_risk r))),
           (''safe_for_quarantine'', JBool (fb_safe r)),
           (''findings'', JList (map dump_sanitized (fb_findings r))),
           (''checked_evidence_refs'', strs (fb_checked_refs r)),
           (''validation_basis'', JStr ''review.binding+review.evidence+review.finding-targets''),
           (''local_summary'', JStr (fb_local_summary r))]"

section \<open>Reading records\<close>

definition load_sanitized :: "sanitized_finding loader" where
  "load_sanitized v =
     do {
       m \<leftarrow> members [''category'', ''severity'', ''evidence_refs''] v;
       a0 \<leftarrow> field m ''category'' load_category;
       a1 \<leftarrow> field m ''severity'' load_severity;
       a2 \<leftarrow> field m ''evidence_refs'' (load_list load_str);
       Some \<lparr>sf_category = a0, sf_severity = a1, sf_evidence_refs = a2\<rparr>
     }"

lemma load_dump_sanitized [simp]: "load_sanitized (norm_json (dump_sanitized x)) = Some x"
  unfolding load_sanitized_def dump_sanitized_def by (simp add: load_object)

definition load_feedback :: "review_feedback loader" where
  "load_feedback v =
     do {
       m \<leftarrow> members [''schema_version'', ''trust'', ''created_at'', ''proposal_id'',
           ''packet_id'', ''proposal_hash'', ''packet_hash'', ''reviewer_verdict_hash'',
           ''target_hashes'', ''verdict'', ''residual_risk'', ''safe_for_quarantine'', ''findings'',
           ''checked_evidence_refs'', ''validation_basis'', ''local_summary''] v;
       field m ''schema_version'' (load_only (JStr ''review-feedback.v1''));
       field m ''trust'' (load_only (JStr ''untrusted_model_review_sanitized''));
       a2 \<leftarrow> field m ''created_at'' load_str;
       a3 \<leftarrow> field m ''proposal_id'' load_str;
       a4 \<leftarrow> field m ''packet_id'' load_str;
       a5 \<leftarrow> field m ''proposal_hash'' load_str;
       a6 \<leftarrow> field m ''packet_hash'' load_str;
       a7 \<leftarrow> field m ''reviewer_verdict_hash'' load_str;
       a8 \<leftarrow> field m ''target_hashes'' load_target_hashes;
       a9 \<leftarrow> field m ''verdict'' load_verdict_kind;
       a10 \<leftarrow> field m ''residual_risk'' load_risk;
       a11 \<leftarrow> field m ''safe_for_quarantine'' load_bool;
       a12 \<leftarrow> field m ''findings'' (load_list load_sanitized);
       a13 \<leftarrow> field m ''checked_evidence_refs'' (load_list load_str);
       field m ''validation_basis'' (load_only (JStr
           ''review.binding+review.evidence+review.finding-targets''));
       a15 \<leftarrow> field m ''local_summary'' load_str;
       Some \<lparr>fb_created_at = a2, fb_proposal_id = a3, fb_packet_id = a4, fb_proposal_hash
           = a5, fb_packet_hash = a6, fb_verdict_hash = a7, fb_target_hashes = a8, fb_verdict = a9,
           fb_residual_risk = a10, fb_safe = a11, fb_findings = a12, fb_checked_refs = a13,
           fb_local_summary = a15\<rparr>
     }"

lemma load_dump_feedback [simp]: "load_feedback (norm_json (dump_feedback x)) = Some x"
  unfolding load_feedback_def dump_feedback_def by (simp add: load_object)


section \<open>The projection\<close>

definition structural_review_checks :: "string list" where
  "structural_review_checks = [''review.binding'', ''review.evidence'', ''review.finding-targets'']"

definition non_structural_review_checks :: "string list" where
  "non_structural_review_checks = [''review.acceptance'']"

definition sanitize_finding :: "review_finding \<Rightarrow> sanitized_finding" where
  "sanitize_finding f =
     \<lparr>sf_category = rf_category f, sf_severity = rf_severity f,
      sf_evidence_refs = sorted_set (rf_evidence_refs f)\<rparr>"

definition sanitized :: "review_finding \<Rightarrow> feedback_error + sanitized_finding" where
  "sanitized f =
     (if valid_sanitized (sanitize_finding f) then Inr (sanitize_finding f) else Inl FeedbackInvalid)"

text \<open>\<open>[findings_by_key[key] for key in sorted(findings_by_key)]\<close>\<close>

definition findings_in_order :: "sanitized_finding list \<Rightarrow> sanitized_finding list" where
  "findings_in_order fs =
     map (\<lambda>k. the (dict_by finding_key fs k)) (sorted_set (map finding_key fs))"

definition projected ::
  "telemetry_packet \<Rightarrow> planner_proposal \<Rightarrow> reviewer_verdict \<Rightarrow> sanitized_finding list \<Rightarrow> instant \<Rightarrow> review_feedback"
where
  "projected t p v findings now =
     (let refs = sorted_set (rv_checked_evidence_refs v)
      in \<lparr>fb_created_at = iso_z now, fb_proposal_id = pr_proposal_id p, fb_packet_id = tp_packet_id t,
         fb_proposal_hash = json_digest (dump_proposal p), fb_packet_hash = tp_packet_hash t,
         fb_verdict_hash = json_digest (dump_verdict v), fb_target_hashes = tp_target_hashes t,
         fb_verdict = rv_verdict v, fb_residual_risk = rv_residual_risk v,
         fb_safe = safe_for_quarantine v, fb_findings = findings, fb_checked_refs = refs,
         fb_local_summary = record_summary (rv_verdict v) (rv_residual_risk v) findings refs\<rparr>)"

definition feedback_bindings ::
  "telemetry_packet \<Rightarrow> planner_proposal \<Rightarrow> reviewer_verdict \<Rightarrow> checks \<Rightarrow> (bool \<times> string) list" where
  "feedback_bindings t p v report =
     [(set structural_review_checks \<subseteq> set (ck_passed report),
        ''review feedback did not pass all structural checks''),
      (set (failed_check_ids report) - set non_structural_review_checks = {},
        ''review feedback has a non-acceptance validation failure''),
      (rv_packet_id v = tp_packet_id t \<and> rv_proposal_id v = pr_proposal_id p,
        ''review feedback binding is inconsistent''),
      (pr_packet_id p = tp_packet_id t \<and> pr_target_hashes p = tp_target_hashes t,
        ''proposal feedback binding is inconsistent'')]"

fun first_unmet :: "(bool \<times> string) list \<Rightarrow> string option" where
  "first_unmet [] = None"
| "first_unmet ((c, message) # cs) = (if c then first_unmet cs else Some message)"

definition build_review_feedback ::
  "telemetry_packet \<Rightarrow> planner_proposal \<Rightarrow> reviewer_verdict \<Rightarrow> checks \<Rightarrow> pydatetime
     \<Rightarrow> feedback_error + review_feedback" where
  "build_review_feedback t p v report now =
     (case first_unmet (feedback_bindings t p v report) of
        Some message \<Rightarrow> Inl (FeedbackError message)
      | None \<Rightarrow>
          bindR (traverse sanitized (rv_findings v)) (\<lambda>fs.
            case now of
              Naive \<Rightarrow> Inl (FeedbackError ''feedback timestamp must include a timezone'')
            | Aware i \<Rightarrow>
                (let r = projected t p v (findings_in_order fs) i
                 in if valid_feedback r then Inr r else Inl FeedbackInvalid)))"

section \<open>The store\<close>

definition MAX_FEEDBACK_BYTES :: int where "MAX_FEEDBACK_BYTES = 65536"

definition feedback_put ::
  "write_outcome \<Rightarrow> review_feedback \<Rightarrow> directory \<Rightarrow> feedback_error + string \<times> directory" where
  "feedback_put w r d = wrapR FeedbackStorage (quarantine_put w (dump_feedback r) d)"

definition feedback_item :: "string \<times> json \<Rightarrow> feedback_error + string \<times> review_feedback" where
  "feedback_item = (\<lambda>(digest, v).
     case model_validate_json load_feedback valid_feedback (canonical_json v) of
       None \<Rightarrow> Inl (FeedbackError ''feedback object failed strict validation'')
     | Some r \<Rightarrow> Inr (digest, r))"

definition feedback_verified ::
  "int \<Rightarrow> directory \<Rightarrow> feedback_error + (string \<times> review_feedback) list" where
  "feedback_verified max_items d =
     (case iter_verified max_items MAX_FEEDBACK_BYTES d of
        (items, failure) \<Rightarrow>
          bindR (traverse feedback_item items) (\<lambda>records.
            case failure of
              None \<Rightarrow> Inr records
            | Some _ \<Rightarrow> Inl (FeedbackError ''feedback object failed content verification'')))"

section \<open>The outcomes for the planner\<close>

definition more :: "nat \<Rightarrow> string" where
  "more omitted = ''+'' @ show_nat omitted @ ''_more''"

text \<open>The loop of \<open>_bounded_tokens\<close>: the tokens selected when it ends.\<close>

fun select_tokens :: "nat \<Rightarrow> string list \<Rightarrow> string list \<Rightarrow> string list" where
  "select_tokens character_limit selected [] = selected"
| "select_tokens character_limit selected (token # tokens) =
     (let omitted = length tokens;
          candidate = join '','' (selected @ [token]) @ (if omitted \<noteq> 0 then '','' @ more omitted else [])
      in if length candidate > character_limit then selected
         else select_tokens character_limit (selected @ [token]) tokens)"

definition bounded_tokens :: "nat \<Rightarrow> string list \<Rightarrow> string" where
  "bounded_tokens character_limit tokens =
     (if tokens = [] then ''none''
      else
        (let selected = select_tokens character_limit [] tokens;
             omitted = length tokens - length selected
         in if selected = [] then more omitted
            else join '','' selected @ (if omitted \<noteq> 0 then '','' @ more omitted else [])))"

definition outcome_summary :: "review_feedback \<Rightarrow> string" where
  "outcome_summary r =
     (let finding_tokens = sorted_set (map finding_kind (fb_findings r));
          refs = sorted_set (fb_checked_refs r @ concat (map sf_evidence_refs (fb_findings r)))
      in ''Claude review verdict='' @ verdict_value (fb_verdict r) @ ''; risk='' @
         risk_value (fb_residual_risk r) @ ''; findings='' @ bounded_tokens 72 finding_tokens @
         ''; refs='' @ bounded_tokens 72 refs @ ''.'')"

definition to_prior_proposal_outcome :: "review_feedback \<Rightarrow> feedback_error + prior_outcome" where
  "to_prior_proposal_outcome r =
     (if length (outcome_summary r) > 240 then
        Inl (FeedbackError ''local feedback summary exceeded its fixed bound'')
      else
        (let x = \<lparr>po_proposal_id = fb_proposal_id r,
               po_outcome = (if fb_verdict r = ACCEPT then NOT_RUN else REJECTED),
               po_executions = 0, po_paths_gained = 0, po_novel_outcomes = 0,
               po_summary = outcome_summary r\<rparr>
         in if valid_prior_outcome x then Inr x else Inl FeedbackInvalid))"

text \<open>
  Newest first, by creation and digest, both descending; the keys differ by their digests, so this is
  the reversed stable sort.  A creation time that is no date raises \<open>ValueError\<close>.
\<close>

definition created_key :: "string \<times> review_feedback \<Rightarrow> feedback_error + instant \<times> string \<times> review_feedback" where
  "created_key = (\<lambda>(digest, r).
     case parse_timestamp (fb_created_at r) of
       None \<Rightarrow> Inl FeedbackInvalid
     | Some i \<Rightarrow> Inr (i, digest, r))"

definition review_key :: "review_feedback \<Rightarrow> string \<times> string \<times> string" where
  "review_key r = (fb_proposal_id r, fb_proposal_hash r, fb_packet_hash r)"

fun select_newest ::
  "nat \<Rightarrow> (string \<times> string \<times> string) list \<Rightarrow> review_feedback list \<Rightarrow> review_feedback list" where
  "select_newest n seen [] = []"
| "select_newest n seen (r # rs) =
     (if review_key r \<in> set seen then select_newest n seen rs
      else if n \<le> 1 then [r]
      else r # select_newest (n - 1) (review_key r # seen) rs)"

definition load_prior_proposal_outcomes ::
  "directory \<Rightarrow> target_hashes \<Rightarrow> int \<Rightarrow> feedback_error + prior_outcome list" where
  "load_prior_proposal_outcomes d targets limit =
     (if \<not> (0 \<le> limit \<and> limit \<le> 12) then
        Inl (FeedbackError ''feedback outcome limit must be between 0 and 12'')
      else if limit = 0 then Inr []
      else
        bindR (feedback_verified 1024 d) (\<lambda>records.
          bindR (traverse created_key (filter (\<lambda>(digest, r). fb_target_hashes r = targets) records)) (\<lambda>keyed.
            traverse to_prior_proposal_outcome
              (select_newest (nat limit) []
                 (map (\<lambda>(i, digest, r). r) (rev (sort_key (\<lambda>(i, digest, r). (i, digest)) keyed)))))))"


section \<open>Lemmas\<close>

lemma first_unmet_None: "first_unmet cs = None \<longleftrightarrow> list_all fst cs"
  by (induction cs rule: first_unmet.induct) auto

lemma sorted_set_cong: "set xs = set ys \<Longrightarrow> sorted_set xs = sorted_set ys"
  unfolding sorted_set_def by (metis set_remdups sorted_list_of_set_sort_remdups sorted_list_of_set_sort_remdups)

lemma inj_category: "category_value a = category_value b \<Longrightarrow> a = b"
  by (cases a; cases b) simp_all

lemma inj_severity: "severity_value a = severity_value b \<Longrightarrow> a = b"
  by (cases a; cases b) simp_all

lemma finding_key_inject: "finding_key f = finding_key g \<longleftrightarrow> f = g"
  by (cases f; cases g) (auto simp: finding_key_def dest: inj_category inj_severity)

lemma dict_by_inj:
  assumes "inj key" and "x \<in> set xs"
  shows "dict_by key xs (key x) = Some x"
proof (cases "dict_by key xs (key x)")
  case None
  with assms(2) show ?thesis by (simp add: dict_by_None)
next
  case (Some y)
  with dict_by_Some [OF Some] assms(1) show ?thesis by (auto dest: injD)
qed

lemma inj_finding_key: "inj finding_key"
  by (simp add: inj_def finding_key_inject)

text \<open>The findings of a record: those projected, each once, in the order of their keys.\<close>

lemma findings_in_order_keys: "map finding_key (findings_in_order fs) = sorted_set (map finding_key fs)"
proof -
  have "finding_key (the (dict_by finding_key fs k)) = k" if "k \<in> set (map finding_key fs)" for k
    using that dict_by_inj [OF inj_finding_key] by fastforce
  then have "map (\<lambda>k. finding_key (the (dict_by finding_key fs k))) (sorted_set (map finding_key fs)) =
      map (\<lambda>k. k) (sorted_set (map finding_key fs))"
    by (intro map_cong) auto
  then show ?thesis by (simp add: findings_in_order_def comp_def)
qed

lemma set_findings_in_order [simp]: "set (findings_in_order fs) = set fs"
proof -
  have "finding_key ` set (findings_in_order fs) = finding_key ` set fs"
    using arg_cong [OF findings_in_order_keys [of fs], of set] by simp
  then show ?thesis by (simp add: inj_image_eq_iff inj_finding_key)
qed

lemma findings_in_order_cong: "set fs = set gs \<Longrightarrow> findings_in_order fs = findings_in_order gs"
proof -
  assume "set fs = set gs"
  then have "map finding_key (findings_in_order fs) = map finding_key (findings_in_order gs)"
    unfolding findings_in_order_keys by (intro sorted_set_cong) simp
  then show ?thesis using inj_finding_key by (simp add: inj_map_eq_map)
qed

lemma traverse_sanitized:
  "traverse sanitized fs =
     (if list_all (\<lambda>f. valid_sanitized (sanitize_finding f)) fs then Inr (map sanitize_finding fs)
      else Inl FeedbackInvalid)"
  by (induction fs) (auto simp: sanitized_def)

text \<open>Two reviews with the same projection: they differ in prose, identifiers of findings and order.\<close>

definition same_projection :: "reviewer_verdict \<Rightarrow> reviewer_verdict \<Rightarrow> bool" where
  "same_projection v w \<longleftrightarrow>
     rv_proposal_id v = rv_proposal_id w \<and> rv_packet_id v = rv_packet_id w \<and>
     rv_verdict v = rv_verdict w \<and> rv_residual_risk v = rv_residual_risk w \<and>
     safe_for_quarantine v = safe_for_quarantine w \<and>
     set (map sanitize_finding (rv_findings v)) = set (map sanitize_finding (rv_findings w)) \<and>
     set (rv_checked_evidence_refs v) = set (rv_checked_evidence_refs w)"

text \<open>Two proposals with the same projection: only identity and target count.\<close>

definition same_identity :: "planner_proposal \<Rightarrow> planner_proposal \<Rightarrow> bool" where
  "same_identity p q \<longleftrightarrow>
     pr_proposal_id p = pr_proposal_id q \<and> pr_packet_id p = pr_packet_id q \<and>
     pr_target_hashes p = pr_target_hashes q"

definition rehash :: "planner_proposal \<Rightarrow> reviewer_verdict \<Rightarrow> review_feedback \<Rightarrow> review_feedback" where
  "rehash p v r =
     r\<lparr>fb_proposal_hash := json_digest (dump_proposal p), fb_verdict_hash := json_digest (dump_verdict v)\<rparr>"

lemma canonical_rehash: "require_canonical_projection (rehash p v r) = require_canonical_projection r"
  by (simp add: rehash_def require_canonical_projection_def)

lemma valid_rehash: "valid_feedback r \<Longrightarrow> valid_feedback (rehash p v r)"
  unfolding valid_feedback_def canonical_rehash by (simp add: rehash_def)

lemma projected_same:
  assumes "same_projection v w" and "same_identity p q"
  shows "projected t p v fs i = rehash p v (projected t q w fs i)"
proof -
  have "sorted_set (rv_checked_evidence_refs v) = sorted_set (rv_checked_evidence_refs w)"
    using assms(1) by (intro sorted_set_cong) (simp add: same_projection_def)
  with assms show ?thesis
    by (simp add: projected_def rehash_def same_projection_def same_identity_def Let_def)
qed

lemma valid_projected_same:
  assumes "same_projection v w" and "same_identity p q"
  shows "valid_feedback (projected t p v fs i) = valid_feedback (projected t q w fs i)"
proof -
  have "rehash q w (rehash p v (projected t q w fs i)) = projected t q w fs i"
    by (simp add: rehash_def projected_def Let_def)
  with projected_same [OF assms, of t fs i] show ?thesis by (metis valid_rehash)
qed

lemma sanitized_same:
  assumes "same_projection v w"
  shows "list_all (\<lambda>f. valid_sanitized (sanitize_finding f)) (rv_findings v) =
      list_all (\<lambda>f. valid_sanitized (sanitize_finding f)) (rv_findings w)"
    and "findings_in_order (map sanitize_finding (rv_findings v)) =
      findings_in_order (map sanitize_finding (rv_findings w))"
proof -
  have s: "sanitize_finding ` set (rv_findings v) = sanitize_finding ` set (rv_findings w)"
    using assms by (simp add: same_projection_def)
  have "(\<forall>f \<in> A. valid_sanitized (sanitize_finding f)) = (\<forall>f \<in> B. valid_sanitized (sanitize_finding f))"
    if "sanitize_finding ` A = sanitize_finding ` B" for A B
    using that by (metis (no_types) image_iff)
  from this [OF s] show "list_all (\<lambda>f. valid_sanitized (sanitize_finding f)) (rv_findings v) =
      list_all (\<lambda>f. valid_sanitized (sanitize_finding f)) (rv_findings w)" by (simp add: list_all_iff)
  show "findings_in_order (map sanitize_finding (rv_findings v)) =
      findings_in_order (map sanitize_finding (rv_findings w))"
    using s by (intro findings_in_order_cong) simp
qed

lemma bindings_same:
  assumes "same_projection v w" and "same_identity p q"
  shows "feedback_bindings t p v report = feedback_bindings t q w report"
  using assms by (simp add: feedback_bindings_def same_projection_def same_identity_def)

text \<open>What a built record is: a valid projection of a review that passed its structural checks.\<close>

lemma build_review_feedback_Inr [result_elims]:
  "build_review_feedback t p v report now = Inr r \<longleftrightarrow>
     list_all fst (feedback_bindings t p v report) \<and>
     list_all (\<lambda>f. valid_sanitized (sanitize_finding f)) (rv_findings v) \<and>
     (\<exists>i. now = Aware i \<and> r = projected t p v (findings_in_order (map sanitize_finding (rv_findings v))) i) \<and>
     valid_feedback r"
  by (cases now; cases "first_unmet (feedback_bindings t p v report)")
    (auto simp: build_review_feedback_def traverse_sanitized Let_def first_unmet_None [symmetric])

section \<open>Properties\<close>


section \<open>Bounds\<close>

definition shown :: "string list \<Rightarrow> nat \<Rightarrow> string" where
  "shown selected omitted = join '','' selected @ (if omitted \<noteq> 0 then '','' @ more omitted else [])"

lemma select_tokens_shown:
  assumes "selected = [] \<or> length (shown selected (length tokens)) \<le> n"
  shows "\<exists>k \<le> length tokens. select_tokens n selected tokens = selected @ take k tokens \<and>
    (selected @ take k tokens = [] \<or> length (shown (selected @ take k tokens) (length tokens - k)) \<le> n)"
  using assms
proof (induction tokens arbitrary: selected)
  case Nil
  then show ?case by simp
next
  case (Cons x xs)
  show ?case
  proof (cases "length (shown (selected @ [x]) (length xs)) > n")
    case True
    then have "select_tokens n selected (x # xs) = selected" by (simp add: shown_def Let_def)
    with Cons.prems show ?thesis by (intro exI [of _ 0]) simp
  next
    case False
    then have step: "select_tokens n selected (x # xs) = select_tokens n (selected @ [x]) xs"
      by (simp add: shown_def Let_def)
    from False Cons.IH [of "selected @ [x]"] obtain k where "k \<le> length xs"
      "select_tokens n (selected @ [x]) xs = (selected @ [x]) @ take k xs"
      "length (shown ((selected @ [x]) @ take k xs) (length xs - k)) \<le> n" by auto
    with step show ?thesis by (intro exI [of _ "Suc k"]) simp
  qed
qed

text \<open>What is rendered fits the limit, unless not even one token fits: then it is the count alone.\<close>

lemma length_bounded_tokens:
  assumes "length tokens < 1000"
  shows "length (bounded_tokens n tokens) \<le> max n 9"
proof (cases "tokens = []")
  case True
  then show ?thesis by (simp add: bounded_tokens_def)
next
  case False
  from select_tokens_shown [of "[]" tokens n] obtain k where k: "k \<le> length tokens"
    "select_tokens n [] tokens = take k tokens"
    "take k tokens = [] \<or> length (shown (take k tokens) (length tokens - k)) \<le> n" by auto
  have "length (show_nat i) \<le> 3" if "i < 1000" for i using length_show_nat [of 3 i] that by simp
  then have m: "length (more i) \<le> 9" if "i < 1000" for i
    using that by (fastforce simp: more_def)
  have sel: "bounded_tokens n tokens =
      (if take k tokens = [] then more (length tokens) else shown (take k tokens) (length tokens - k))"
    using False k(1,2) by (auto simp: bounded_tokens_def Let_def shown_def)
  show ?thesis
  proof (cases "take k tokens = []")
    case True
    with sel m [OF assms] show ?thesis by simp
  next
    case False
    with sel k(3) show ?thesis by auto
  qed
qed

lemma kinds_of_verdict: "length (verdict_value v) \<le> 8" and kinds_of_risk: "length (risk_value k) \<le> 8"
  by (cases v; simp) (cases k; simp)

lemma refs_of_valid:
  assumes "valid_feedback r"
  shows "sorted_set (fb_checked_refs r @ concat (map sf_evidence_refs (fb_findings r))) = fb_checked_refs r"
proof -
  have "set (concat (map sf_evidence_refs (fb_findings r))) \<subseteq> set (fb_checked_refs r)"
    and s: "fb_checked_refs r = sorted_set (fb_checked_refs r)"
    using assms by (simp_all add: valid_feedback_def require_canonical_projection_def)
  then have "sorted_set (fb_checked_refs r @ concat (map sf_evidence_refs (fb_findings r))) =
      sorted_set (fb_checked_refs r)" by (intro sorted_set_cong) auto
  with s show ?thesis by simp
qed

text \<open>The comment of the source holds: no valid record makes a summary over the limit.\<close>

lemma outcome_summary_bound:
  assumes "valid_feedback r"
  shows "length (outcome_summary r) \<le> 240"
proof -
  let ?kinds = "sorted_set (map finding_kind (fb_findings r))"
  have "length ?kinds \<le> 32" "length (fb_checked_refs r) \<le> 24"
    using assms length_sorted_set [of "map finding_kind (fb_findings r)"]
    by (simp_all add: valid_feedback_def len_between_def)
  then have "length (bounded_tokens 72 ?kinds) \<le> 72" "length (bounded_tokens 72 (fb_checked_refs r)) \<le> 72"
    using length_bounded_tokens [of ?kinds 72] length_bounded_tokens [of "fb_checked_refs r" 72] by simp_all
  then show ?thesis
    using kinds_of_verdict [of "fb_verdict r"] kinds_of_risk [of "fb_residual_risk r"]
    by (simp add: outcome_summary_def Let_def refs_of_valid [OF assms])
qed

lemma to_prior_of_valid:
  "valid_feedback r \<Longrightarrow> to_prior_proposal_outcome r \<noteq> Inl (FeedbackError m)"
  using outcome_summary_bound [of r] by (simp add: to_prior_proposal_outcome_def Let_def)

lemma to_prior_Inr [result_elims]:
  "to_prior_proposal_outcome r = Inr x \<Longrightarrow> valid_prior_outcome x \<and> po_proposal_id x = fb_proposal_id r \<and>
     po_outcome x = (if fb_verdict r = ACCEPT then NOT_RUN else REJECTED) \<and>
     po_executions x = 0 \<and> po_summary x = outcome_summary r"
  by (auto simp: to_prior_proposal_outcome_def Let_def split: if_splits)

section \<open>The newest review of each proposal\<close>

definition feedback_stored :: "directory \<Rightarrow> string \<Rightarrow> review_feedback \<Rightarrow> bool" where
  "feedback_stored d k r \<longleftrightarrow> (\<exists>v. quarantine_get MAX_FEEDBACK_BYTES d k = Inr v \<and>
     model_validate_json load_feedback valid_feedback (canonical_json v) = Some r)"

lemma feedback_stored_unique: "feedback_stored d k r \<Longrightarrow> feedback_stored d k s \<Longrightarrow> r = s"
  by (auto simp: feedback_stored_def)

lemma feedback_item_Inr: "feedback_item x = Inr y \<longleftrightarrow>
    fst y = fst x \<and> model_validate_json load_feedback valid_feedback (canonical_json (snd x)) = Some (snd y)"
  by (cases x; cases y) (auto simp: feedback_item_def split: option.splits)

lemma traverse_set: "traverse f xs = Inr ys \<Longrightarrow> y \<in> set ys \<longleftrightarrow> (\<exists>x \<in> set xs. f x = Inr y)"
  by (induction xs arbitrary: ys) auto

text \<open>The verified listing is complete: it holds exactly the records stored in the directory.\<close>

lemma feedback_verified_set:
  assumes "feedback_verified n d = Inr records"
  shows "(k, r) \<in> set records \<longleftrightarrow> feedback_stored d k r"
proof -
  obtain items where it: "iter_verified n MAX_FEEDBACK_BYTES d = (items, None)"
    and tr: "traverse feedback_item items = Inr records"
    using assms by (auto simp: feedback_verified_def split: prod.splits option.splits)
  from it have iti: "iter_items n MAX_FEEDBACK_BYTES d 0 (sort (map fst d)) = (items, None)"
    by (simp add: iter_verified_def split: if_splits)
  note ok = iter_items_ok [OF iti]
  have item: "(k, v) \<in> set items \<longleftrightarrow> quarantine_get MAX_FEEDBACK_BYTES d k = Inr v" for k v
  proof
    assume get: "quarantine_get MAX_FEEDBACK_BYTES d k = Inr v"
    then obtain node where n: "map_of d (item_name k) = Some node" and h: "is_hex64 k"
      by (auto simp: quarantine_get_Inr)
    from map_of_SomeD [OF n] have "item_name k \<in> set (sort (map fst d))" by force
    moreover from h have "match_item (item_name k) = Some k" by (simp add: match_item_Some)
    ultimately have "k \<in> set (List.map_filter match_item (sort (map fst d)))"
      unfolding List.map_filter_def by force
    with ok have "k \<in> fst ` set items" by (metis list.set_map)
    then obtain u where "(k, u) \<in> set items" by auto
    moreover from this ok get have "u = v" by auto
    ultimately show "(k, v) \<in> set items" by simp
  qed (use ok in auto)
  have "(k, r) \<in> set records \<longleftrightarrow> (\<exists>v. (k, v) \<in> set items \<and>
      model_validate_json load_feedback valid_feedback (canonical_json v) = Some r)"
    unfolding traverse_set [OF tr] feedback_item_Inr by (metis fst_conv snd_conv surjective_pairing)
  then show ?thesis by (simp add: item feedback_stored_def)
qed

lemma select_newest_sound:
  "0 < n \<Longrightarrow> length (select_newest n seen rs) \<le> n \<and> distinct (map review_key (select_newest n seen rs)) \<and>
     set (map review_key (select_newest n seen rs)) \<inter> set seen = {} \<and>
     (\<forall>r \<in> set (select_newest n seen rs). \<exists>ys zs. rs = ys @ r # zs \<and> review_key r \<notin> review_key ` set ys)"
proof (induction n seen rs rule: select_newest.induct)
  case (1 n seen)
  then show ?case by simp
next
  case (2 n seen r rs)
  consider "review_key r \<in> set seen" | "review_key r \<notin> set seen" "n \<le> 1" | "review_key r \<notin> set seen" "1 < n"
    by fastforce
  then show ?case
  proof cases
    case 1
    with 2 have ih: "length (select_newest n seen rs) \<le> n" "distinct (map review_key (select_newest n seen rs))"
      "set (map review_key (select_newest n seen rs)) \<inter> set seen = {}"
      "\<forall>q \<in> set (select_newest n seen rs). \<exists>ys zs. rs = ys @ q # zs \<and> review_key q \<notin> review_key ` set ys"
      by simp_all
    have step: "select_newest n seen (r # rs) = select_newest n seen rs" using 1 by simp
    have "\<exists>ys zs. r # rs = ys @ q # zs \<and> review_key q \<notin> review_key ` set ys"
      if q: "q \<in> set (select_newest n seen rs)" for q
    proof -
      from q ih(4) obtain ys zs where "rs = ys @ q # zs" "review_key q \<notin> review_key ` set ys" by blast
      moreover have "review_key q \<noteq> review_key r" using q ih(3) 1 by auto
      ultimately have "r # rs = (r # ys) @ q # zs \<and> review_key q \<notin> review_key ` set (r # ys)" by simp
      then show ?thesis by blast
    qed
    with ih(1-3) step show ?thesis by simp
  next
    case 2
    then have "select_newest n seen (r # rs) = [r]" by simp
    with 2 \<open>0 < n\<close> show ?thesis by (auto intro: exI [of _ "[]"])
  next
    case 3
    let ?rest = "select_newest (n - 1) (review_key r # seen) rs"
    from 3 2 have ih: "length ?rest \<le> n - 1" "distinct (map review_key ?rest)"
      "set (map review_key ?rest) \<inter> set (review_key r # seen) = {}"
      "\<forall>q \<in> set ?rest. \<exists>ys zs. rs = ys @ q # zs \<and> review_key q \<notin> review_key ` set ys"
      by simp_all
    have step: "select_newest n seen (r # rs) = r # ?rest" using 3 by simp
    have "\<exists>ys zs. r # rs = ys @ q # zs \<and> review_key q \<notin> review_key ` set ys" if q: "q \<in> set ?rest" for q
    proof -
      from q ih(4) obtain ys zs where "rs = ys @ q # zs" "review_key q \<notin> review_key ` set ys" by blast
      have "review_key q \<in> set (map review_key ?rest)" using q by simp
      then have "review_key q \<noteq> review_key r" using ih(3) by fastforce
      moreover note \<open>rs = ys @ q # zs\<close> \<open>review_key q \<notin> review_key ` set ys\<close>
      ultimately have "r # rs = (r # ys) @ q # zs \<and> review_key q \<notin> review_key ` set (r # ys)" by simp
      then show ?thesis by blast
    qed
    moreover have "\<exists>ys zs. r # rs = ys @ r # zs \<and> review_key r \<notin> review_key ` set ys"
      by (metis append_Nil empty_iff image_empty list.set(1))
    ultimately show ?thesis using ih(1-3) 3 unfolding step by auto
  qed
qed

text \<open>What is taken from a list sorted downwards is the newest of its key.\<close>

lemma newest_of_key:
  fixes keyed :: "(instant \<times> string \<times> review_feedback) list"
  assumes r: "r \<in> set (select_newest n [] (map (\<lambda>(i, digest, r). r) (rev (sort_key (\<lambda>(i, digest, r). (i, digest)) keyed))))"
    and "0 < n" and other: "(j, k', r') \<in> set keyed" "review_key r' = review_key r"
  shows "\<exists>i k. (i, k, r) \<in> set keyed \<and> (j, k') \<le> (i, k)"
proof -
  let ?down = "rev (sort_key (\<lambda>(i, digest, r). (i, digest)) keyed)"
  from select_newest_sound [OF \<open>0 < n\<close>] r obtain ys zs
    where split: "map (\<lambda>(i, digest, r). r) ?down = ys @ r # zs" "review_key r \<notin> review_key ` set ys" by blast
  then obtain us m vs where d: "?down = us @ m # vs" "map (\<lambda>(i, digest, r). r) us = ys" "(\<lambda>(i, digest, r). r) m = r"
    by (auto simp: map_eq_append_conv)
  obtain i k where m: "m = (i, k, r)" using d(3) by (cases m) auto
  have "set ?down = set keyed" by simp
  then have "m \<in> set keyed" "(j, k', r') \<in> set us \<union> set (m # vs)" using d(1) other(1) by (metis UnCI in_set_conv_decomp, metis set_append)
  moreover have "(j, k', r') \<notin> set us"
  proof
    assume "(j, k', r') \<in> set us"
    then have "r' \<in> set ys" using d(2) by force
    with split(2) other(2) show False by (metis imageI)
  qed
  moreover have "sorted (map (\<lambda>(i, digest, r). (i, digest)) (rev (us @ m # vs)))"
    unfolding d(1) [symmetric] by simp
  then have "\<forall>x \<in> set vs. (\<lambda>(i, digest, r). (i, digest)) x \<le> (\<lambda>(i, digest, r). (i, digest)) m"
    by (simp add: sorted_append)
  ultimately show ?thesis using m by (intro exI [of _ i] exI [of _ k]) auto
qed

lemma created_key_Inr: "created_key x = Inr (i, k, r) \<longleftrightarrow> x = (k, r) \<and> parse_timestamp (fb_created_at r) = Some i"
  by (cases x) (auto simp: created_key_def split: option.splits)

text \<open>
  C40: What the planner is told of earlier reviews: at most as many outcomes as asked for, each the
  bounded projection of a verified record of this target, no two of the same proposal and packet,
  and each of the newest record there is of its proposal and packet: no record in the store, for
  this target, with the same key was created later.
\<close>

theorem planner_sees_newest_reviews:
  assumes "load_prior_proposal_outcomes d targets limit = Inr xs"
  shows "\<exists>rs. list_all2 (\<lambda>r x. to_prior_proposal_outcome r = Inr x) rs xs \<and>
    int (length xs) \<le> limit \<and> list_all valid_prior_outcome xs \<and> distinct (map review_key rs) \<and>
    (\<forall>r \<in> set rs. fb_target_hashes r = targets \<and> (\<exists>k. feedback_stored d k r) \<and>
      (\<forall>k' r'. feedback_stored d k' r' \<and> fb_target_hashes r' = targets \<and> review_key r' = review_key r \<longrightarrow>
        the (parse_timestamp (fb_created_at r')) \<le> the (parse_timestamp (fb_created_at r))))"
proof (cases "limit = 0")
  case True
  with assms show ?thesis by (intro exI [of _ "[]"]) (simp add: load_prior_proposal_outcomes_def)
next
  case False
  with assms have lim: "0 < limit" by (auto simp: load_prior_proposal_outcomes_def)
  then have n: "0 < nat limit" by simp
  define mine where "mine = filter (\<lambda>(digest :: string, r :: review_feedback). fb_target_hashes r = targets)"
  from assms False obtain records keyed where
    ver: "feedback_verified 1024 d = Inr records" and keys: "traverse created_key (mine records) = Inr keyed"
    and out: "traverse to_prior_proposal_outcome (select_newest (nat limit) []
      (map (\<lambda>(i, digest, r). r) (rev (sort_key (\<lambda>(i, digest, r). (i, digest)) keyed)))) = Inr xs"
    by (auto simp: load_prior_proposal_outcomes_def mine_def split: if_splits)
  let ?rs = "select_newest (nat limit) []
      (map (\<lambda>(i, digest, r). r) (rev (sort_key (\<lambda>(i, digest, r). (i, digest)) keyed)))"
  note sound = select_newest_sound [OF n, of "[]"
      "map (\<lambda>(i, digest, r). r) (rev (sort_key (\<lambda>(i, digest, r). (i, digest)) keyed))"]
  have mem: "(i, k, r) \<in> set keyed \<longleftrightarrow>
      feedback_stored d k r \<and> fb_target_hashes r = targets \<and> parse_timestamp (fb_created_at r) = Some i" for i k r
    unfolding traverse_set [OF keys]
    by (auto simp: mine_def feedback_verified_set [OF ver] created_key_Inr)
  have all2: "list_all2 (\<lambda>r x. to_prior_proposal_outcome r = Inr x) ?rs xs" using out by (simp add: traverse_Inr_iff)
  moreover have "int (length xs) \<le> limit" using sound n traverse_length [OF out] by linarith
  moreover have "list_all valid_prior_outcome xs"
    using all2 by (induction rule: list_all2_induct) (auto dest: to_prior_Inr)
  moreover have "distinct (map review_key ?rs)" using sound by blast
  moreover have "fb_target_hashes r = targets \<and> (\<exists>k. feedback_stored d k r)" if "r \<in> set ?rs" for r
  proof -
    from that sound have "r \<in> set (map (\<lambda>(i, digest, r). r)
        (rev (sort_key (\<lambda>(i, digest, r). (i, digest)) keyed)))" by (metis in_set_conv_decomp)
    then obtain i k where "(i, k, r) \<in> set keyed" by auto
    with mem show ?thesis by blast
  qed
  moreover have "the (parse_timestamp (fb_created_at r')) \<le> the (parse_timestamp (fb_created_at r))"
    if r: "r \<in> set ?rs" and other: "feedback_stored d k' r'" "fb_target_hashes r' = targets"
      "review_key r' = review_key r" for r k' r'
  proof -
    have "(k', r') \<in> set (mine records)" using other by (simp add: mine_def feedback_verified_set [OF ver])
    moreover have "\<forall>x \<in> set (mine records). is_ok (created_key x)"
      using keys traverse_is_ok [of created_key "mine records"] by simp
    ultimately have "is_ok (created_key (k', r'))" by blast
    then obtain j where "created_key (k', r') = Inr (j, k', r')"
      by (auto simp: created_key_def split: option.splits)
    then have "(j, k', r') \<in> set keyed" using mem other by (auto simp: created_key_def split: option.splits)
    from newest_of_key [OF r n this other(3)] obtain i k where "(i, k, r) \<in> set keyed" "(j, k') \<le> (i, k)" by blast
    with mem \<open>(j, k', r') \<in> set keyed\<close> show ?thesis by (auto simp: less_eq_prod_def)
  qed
  ultimately show ?thesis by blast
qed

section \<open>Concrete reviews\<close>

definition review_hashes :: target_hashes where
  "review_hashes = (let d = content_digest [] in
     \<lparr>harness_hash = d, compiler_hash = d, op_table_hash = d, fleet_config_hash = d\<rparr>)"

definition sample_verdict :: "string \<Rightarrow> reviewer_verdict" where
  "sample_verdict prose =
     \<lparr>rv_review_id = ''review-1'', rv_proposal_id = ''proposal-1'', rv_packet_id = ''packet-1'',
      rv_verdict = REJECT, rv_summary = prose,
      rv_findings = [\<lparr>rf_id = ''finding-1'', rf_severity = SEV_HIGH, rf_category = EVIDENCE_GAP,
        rf_message = prose, rf_evidence_refs = [''evidence:b'', ''evidence:a''], rf_program_id = [], rf_step_id = []\<rparr>],
      rv_checked_evidence_refs = [''evidence:b'', ''evidence:a''], rv_required_changes = [prose],
      rv_residual_risk = RISK_MEDIUM, safe_for_quarantine = False\<rparr>"

definition sample_report :: checks where
  "sample_report = \<lparr>ck_passed = structural_review_checks,
     ck_issues = [(''review.acceptance'', ''reviewer did not accept the proposal for quarantine'')]\<rparr>"

lemma sample_projection: "same_projection (sample_verdict prose) (sample_verdict other)"
  by (simp add: same_projection_def sample_verdict_def sanitize_finding_def)


definition sample_review :: review_feedback where
  "sample_review =
     \<lparr>fb_created_at = ''2026-01-02T03:04:05Z'', fb_proposal_id = ''proposal-1'', fb_packet_id = ''packet-1'',
      fb_proposal_hash = content_digest [], fb_packet_hash = content_digest [],
      fb_verdict_hash = content_digest [], fb_target_hashes = review_hashes, fb_verdict = REJECT,
      fb_residual_risk = RISK_MEDIUM, fb_safe = False,
      fb_findings = [\<lparr>sf_category = EVIDENCE_GAP, sf_severity = SEV_HIGH,
        sf_evidence_refs = [''evidence:a'', ''evidence:b'']\<rparr>],
      fb_checked_refs = [''evidence:a'', ''evidence:b''],
      fb_local_summary = ''Independent review verdict=reject; residual_risk=medium; finding_kinds=evidence_gap/high; evidence_ref_count=2.''\<rparr>"

definition sample_outcome :: prior_outcome where
  "sample_outcome =
     \<lparr>po_proposal_id = ''proposal-1'', po_outcome = REJECTED, po_executions = 0, po_paths_gained = 0,
      po_novel_outcomes = 0, po_summary = ''Claude review verdict=reject; risk=medium; findings=evidence_gap/high; refs=evidence:a,evidence:b.''\<rparr>"

definition sample_feedback_store :: directory where
  "sample_feedback_store =
     [(item_name (sha256 (canonical_json (dump_feedback sample_review))),
       RegularFile (canonical_json (dump_feedback sample_review)))]"

lemma sample_review_valid: "valid_feedback sample_review"
proof -
  have "is_Timestamp ''2026-01-02T03:04:05Z''" "is_Identifier ''proposal-1''" "is_Identifier ''packet-1''"
    "valid_sanitized \<lparr>sf_category = EVIDENCE_GAP, sf_severity = SEV_HIGH,
        sf_evidence_refs = [''evidence:a'', ''evidence:b'']\<rparr>"
    "list_all is_EvidenceRef [''evidence:a'', ''evidence:b'']"
    "sorted_set [''evidence:a'', ''evidence:b''] = [''evidence:a'', ''evidence:b'']"
    "record_summary REJECT RISK_MEDIUM [\<lparr>sf_category = EVIDENCE_GAP, sf_severity = SEV_HIGH,
        sf_evidence_refs = [''evidence:a'', ''evidence:b'']\<rparr>] [''evidence:a'', ''evidence:b''] =
      ''Independent review verdict=reject; residual_risk=medium; finding_kinds=evidence_gap/high; evidence_ref_count=2.''"
    by code_simp+
  then show ?thesis
    by (simp add: valid_feedback_def sample_review_def valid_target_hashes_def review_hashes_def Let_def
        len_between_def require_canonical_projection_def)
qed

lemma sample_review_outcome: "to_prior_proposal_outcome sample_review = Inr sample_outcome"
proof -
  have "sorted_set (map finding_kind (fb_findings sample_review)) = [''evidence_gap/high'']"
    by (simp add: sample_review_def finding_kind_def sorted_set_def)
  moreover have "bounded_tokens 72 [''evidence_gap/high''] = ''evidence_gap/high''"
    "bounded_tokens 72 [''evidence:a'', ''evidence:b''] = ''evidence:a,evidence:b''" by code_simp+
  ultimately have "outcome_summary sample_review = po_summary sample_outcome"
    using refs_of_valid [OF sample_review_valid]
    by (simp add: outcome_summary_def Let_def) (simp add: sample_review_def sample_outcome_def)
  moreover have "valid_prior_outcome sample_outcome" by code_simp
  ultimately show ?thesis
    by (simp add: to_prior_proposal_outcome_def sample_outcome_def sample_review_def Let_def)
qed

lemma sample_review_listed:
  "feedback_verified 1024 sample_feedback_store =
     Inr [(sha256 (canonical_json (dump_feedback sample_review)), sample_review)]"
proof -
  let ?v = "dump_feedback sample_review" let ?k = "sha256 (canonical_json ?v)"
  have wf: "wf_json ?v" by (simp add: dump_feedback_def dump_target_hashes_def dump_sanitized_def sample_review_def)
  have "json_size ?v \<le> 65536"
    by (simp add: dump_feedback_def dump_target_hashes_def dump_sanitized_def sample_review_def review_hashes_def Let_def)
  then have small: "int (length (canonical_json ?v)) \<le> 65536" using canonical_size [of ?v] by simp
  have get: "quarantine_get MAX_FEEDBACK_BYTES sample_feedback_store ?k = Inr (norm_json ?v)"
    using wf small by (simp add: quarantine_get_Inr sample_feedback_store_def MAX_FEEDBACK_BYTES_def
        is_hex64_sha256 loads_canonical is_object_norm) (simp add: is_object_def dump_feedback_def)
  have m: "match_item (item_name ?k) = Some ?k" by (simp add: match_item_Some is_hex64_sha256)
  have "iter_verified 1024 MAX_FEEDBACK_BYTES sample_feedback_store = ([(?k, norm_json ?v)], None)"
    using m get by (simp add: iter_verified_def sample_feedback_store_def)
  moreover have "feedback_item (?k, norm_json ?v) = Inr (?k, sample_review)"
    using model_round_trip [of load_feedback dump_feedback sample_review valid_feedback] wf sample_review_valid
    by (simp add: feedback_item_def)
  ultimately show ?thesis by (simp add: feedback_verified_def)
qed

lemma sample_review_loaded:
  "load_prior_proposal_outcomes sample_feedback_store review_hashes 12 = Inr [sample_outcome]"
proof -
  have "parse_timestamp ''2026-01-02T03:04:05Z'' \<noteq> None" by code_simp
  then obtain i where "parse_timestamp (fb_created_at sample_review) = Some i" by (auto simp: sample_review_def)
  moreover have "fb_target_hashes sample_review = review_hashes" by (simp add: sample_review_def)
  ultimately show ?thesis
    by (simp add: load_prior_proposal_outcomes_def sample_review_listed created_key_def sample_review_outcome)
qed

lemma planner_sees_newest_reviews_witness: "valid_prior_outcome sample_outcome"
  using planner_sees_newest_reviews [OF sample_review_loaded] by auto
end
