(* ===== verification/Artifacts.thy ===== *)
theory Artifacts
  imports Store Wire Compiler
begin

text \<open>
  The store of compiled artifacts, \<open>src/iou_ai/artifacts.py\<close>: manifests and payloads in two
  directories, both create-only.  A write that fails after the payload was stored leaves the payload
  there, so \<open>artifact_put\<close> returns the store beside its result.
\<close>

section \<open>Manifests\<close>

definition COMPILER_VERSION :: string where "COMPILER_VERSION = ''native-ir-compiler.v1''"

record artifact_manifest =
  am_artifact_id :: string
  am_program_id :: string
  am_proposal_digest :: string
  am_program_digest :: string
  am_contract_digest :: string
  am_payload_digest :: string
  am_payload_size :: int
  am_operation_count :: int
  am_compiler_hash :: string
  am_validator_version :: string
  am_validator_hash :: string
  am_target_hashes :: target_hashes

definition valid_manifest :: "artifact_manifest \<Rightarrow> bool" where
  "valid_manifest m \<longleftrightarrow>
     is_Identifier (am_artifact_id m) \<and> is_Identifier (am_program_id m) \<and>
     is_Digest (am_proposal_digest m) \<and> is_Digest (am_program_digest m) \<and>
     is_Digest (am_contract_digest m) \<and> is_Digest (am_payload_digest m) \<and>
     1 \<le> am_payload_size m \<and> am_payload_size m \<le> 2048 \<and>
     1 \<le> am_operation_count m \<and> am_operation_count m \<le> 96 \<and>
     is_Digest (am_compiler_hash m) \<and> is_Identifier (am_validator_version m) \<and>
     is_Digest (am_validator_hash m) \<and> valid_target_hashes (am_target_hashes m)"

definition dump_manifest :: "artifact_manifest \<Rightarrow> json" where
  "dump_manifest m =
     JObj [(''schema_version'', JStr ''compiled-artifact.v1''), (''artifact_id'', JStr (am_artifact_id m)),
           (''program_id'', JStr (am_program_id m)), (''proposal_digest'', JStr (am_proposal_digest m)),
           (''program_digest'', JStr (am_program_digest m)),
           (''harness_contract_digest'', JStr (am_contract_digest m)),
           (''payload_digest'', JStr (am_payload_digest m)),
           (''payload_size_bytes'', JInt (am_payload_size m)),
           (''operation_count'', JInt (am_operation_count m)),
           (''compiler_version'', JStr ''native-ir-compiler.v1''),
           (''compiler_hash'', JStr (am_compiler_hash m)),
           (''validator_version'', JStr (am_validator_version m)),
           (''validator_hash'', JStr (am_validator_hash m)),
           (''target_hashes'', dump_target_hashes (am_target_hashes m)),
           (''isolated_canary_required'', JBool True), (''live_promotion_authorized'', JBool False)]"

definition load_manifest :: "artifact_manifest loader" where
  "load_manifest v =
     do {
              m \<leftarrow> members [''schema_version'', ''artifact_id'', ''program_id'',
           ''proposal_digest'', ''program_digest'', ''harness_contract_digest'', ''payload_digest'',
           ''payload_size_bytes'', ''operation_count'', ''compiler_version'', ''compiler_hash'',
           ''validator_version'', ''validator_hash'', ''target_hashes'', ''isolated_canary_required'',
           ''live_promotion_authorized''] v;
       field_or () m ''schema_version'' (load_only (JStr ''compiled-artifact.v1''));
       a1 \<leftarrow> field m ''artifact_id'' load_str;
       a2 \<leftarrow> field m ''program_id'' load_str;
       a3 \<leftarrow> field m ''proposal_digest'' load_str;
       a4 \<leftarrow> field m ''program_digest'' load_str;
       a5 \<leftarrow> field m ''harness_contract_digest'' load_str;
       a6 \<leftarrow> field m ''payload_digest'' load_str;
       a7 \<leftarrow> field m ''payload_size_bytes'' load_int;
       a8 \<leftarrow> field m ''operation_count'' load_int;
       field_or () m ''compiler_version'' (load_only (JStr ''native-ir-compiler.v1''));
       a10 \<leftarrow> field m ''compiler_hash'' load_str;
       a11 \<leftarrow> field m ''validator_version'' load_str;
       a12 \<leftarrow> field m ''validator_hash'' load_str;
       a13 \<leftarrow> field m ''target_hashes'' load_target_hashes;
       field_or () m ''isolated_canary_required'' (load_only (JBool True));
       field_or () m ''live_promotion_authorized'' (load_only (JBool False));
              Some \<lparr>am_artifact_id = a1, am_program_id = a2, am_proposal_digest = a3,
           am_program_digest = a4, am_contract_digest = a5, am_payload_digest = a6, am_payload_size =
           a7, am_operation_count = a8, am_compiler_hash = a10, am_validator_version = a11,
           am_validator_hash = a12, am_target_hashes = a13\<rparr>
     }"

lemma load_dump_manifest [simp]: "load_manifest (norm_json (dump_manifest x)) = Some x"
  unfolding load_manifest_def dump_manifest_def by (simp add: load_object)

lemma wf_dump_manifest [simp]: "wf_json (dump_manifest m)"
  by (simp add: dump_manifest_def)

section \<open>The store\<close>

datatype artifact_error = ArtifactError string | ArtifactOSError | ArtifactValidationError

record artifact_store =
  as_payloads :: directory
  as_manifests :: directory

text \<open>\<open>_read_regular\<close> and \<open>_create_only\<close>.\<close>

fun read_message :: "read_failure \<Rightarrow> artifact_error" where
  "read_message Unavailable = ArtifactError ''artifact object is unavailable''"
| "read_message NotRegular = ArtifactError ''artifact object is not a regular file''"
| "read_message TooLarge = ArtifactError ''artifact object exceeds the size limit''"

definition artifact_read :: "int \<Rightarrow> directory \<Rightarrow> string \<Rightarrow> artifact_error + bytes" where
  "artifact_read m d name = wrapR read_message (read_bounded m d name)"

fun create_message :: "create_failure \<Rightarrow> artifact_error" where
  "create_message (ReadBack e) = read_message e"
| "create_message Mutated = ArtifactError ''artifact digest collision or mutation''"
| "create_message WriteError = ArtifactOSError"

definition artifact_create :: "write_outcome \<Rightarrow> directory \<Rightarrow> string \<Rightarrow> bytes \<Rightarrow> artifact_error + directory" where
  "artifact_create w d name payload = wrapR create_message (create_only w d name payload)"

definition payload_name :: "string \<Rightarrow> string" where
  "payload_name digest = removeprefix ''sha256:'' digest @ ''.bin''"

definition manifest_name :: "string \<Rightarrow> string" where
  "manifest_name digest = removeprefix ''sha256:'' digest @ ''.json''"

text \<open>What the pipeline binds an artifact to.\<close>

record artifact_binding =
  ab_proposal_digest :: string
  ab_program_digest :: string
  ab_contract_digest :: string
  ab_validator_version :: string
  ab_validator_hash :: string
  ab_target_hashes :: target_hashes

definition artifact_checks :: "compiled_program \<Rightarrow> artifact_binding \<Rightarrow> artifact_error + unit" where
  "artifact_checks compiled b =
     (let size = int (length (cp_payload compiled)) in
      if content_digest (cp_payload compiled) \<noteq> cp_payload_hash compiled then
        Inl (ArtifactError ''compiled payload digest changed before storage'')
      else if cp_harness_hash compiled \<noteq> harness_hash (ab_target_hashes b) then
        Inl (ArtifactError ''compiled payload targets a different harness'')
      else if cp_compiler_hash compiled \<noteq> compiler_hash (ab_target_hashes b) then
        Inl (ArtifactError ''compiled payload targets a different compiler'')
      else if \<not> (1 \<le> size \<and> size \<le> 2048) then
        Inl (ArtifactError ''compiled payload size is outside the harness bound'')
      else if \<not> (1 \<le> cp_operation_count compiled \<and> cp_operation_count compiled \<le> 96) then
        Inl (ArtifactError ''compiled operation count is outside the harness bound'')
      else Inr ())"

definition manifest_of :: "compiled_program \<Rightarrow> artifact_binding \<Rightarrow> artifact_manifest" where
  "manifest_of compiled b =
     \<lparr>am_artifact_id = ''artifact-'' @ last_chars 24 (cp_payload_hash compiled),
      am_program_id = cp_program_id compiled, am_proposal_digest = ab_proposal_digest b,
      am_program_digest = ab_program_digest b, am_contract_digest = ab_contract_digest b,
      am_payload_digest = cp_payload_hash compiled,
      am_payload_size = int (length (cp_payload compiled)),
      am_operation_count = cp_operation_count compiled, am_compiler_hash = cp_compiler_hash compiled,
      am_validator_version = ab_validator_version b, am_validator_hash = ab_validator_hash b,
      am_target_hashes = ab_target_hashes b\<rparr>"

definition manifest_digest :: "artifact_manifest \<Rightarrow> string" where
  "manifest_digest m = content_digest (canonical_json (dump_manifest m))"

definition store_manifest ::
  "write_outcome \<Rightarrow> artifact_manifest \<Rightarrow> directory \<Rightarrow> artifact_error + string \<times> directory" where
  "store_manifest w m d =
     bindR (artifact_create w d (manifest_name (manifest_digest m)) (canonical_json (dump_manifest m)))
       (\<lambda>d'. Inr (manifest_digest m, d'))"

text \<open>The two writes; \<open>w\<close> and \<open>w'\<close> are the outcomes of the payload's and the manifest's write.\<close>

definition artifact_put ::
  "write_outcome \<Rightarrow> write_outcome \<Rightarrow> compiled_program \<Rightarrow> artifact_binding \<Rightarrow> artifact_store
     \<Rightarrow> (artifact_error + string) \<times> artifact_store" where
  "artifact_put w w' compiled b st =
     (case artifact_checks compiled b of
        Inl e \<Rightarrow> (Inl e, st)
      | Inr _ \<Rightarrow>
          let m = manifest_of compiled b in
          if \<not> valid_manifest m then (Inl ArtifactValidationError, st)
          else
            (case artifact_create w (as_payloads st) (payload_name (cp_payload_hash compiled)) (cp_payload compiled) of
               Inl e \<Rightarrow> (Inl e, st)
             | Inr d \<Rightarrow>
                 (case store_manifest w' m (as_manifests st) of
                    Inl e \<Rightarrow> (Inl e, st\<lparr>as_payloads := d\<rparr>)
                  | Inr (digest, d') \<Rightarrow> (Inr digest, \<lparr>as_payloads = d, as_manifests = d'\<rparr>))))"

definition fetch_manifest :: "directory \<Rightarrow> string \<Rightarrow> artifact_error + artifact_manifest" where
  "fetch_manifest d digest =
     (if \<not> is_digest digest then Inl (ArtifactError ''invalid manifest digest'')
      else
        bindR (artifact_read 65536 d (manifest_name digest)) (\<lambda>payload.
          if content_digest payload \<noteq> digest then Inl (ArtifactError ''manifest digest mismatch'')
          else
            (case model_validate_json load_manifest valid_manifest payload of
               None \<Rightarrow> Inl (ArtifactError ''artifact manifest is invalid'')
             | Some m \<Rightarrow>
                 if canonical_json (dump_manifest m) \<noteq> payload then
                   Inl (ArtifactError ''artifact manifest is not canonical'')
                 else Inr m)))"

definition get_manifest :: "artifact_store \<Rightarrow> string \<Rightarrow> artifact_error + artifact_manifest" where
  "get_manifest st digest = fetch_manifest (as_manifests st) digest"

definition get_payload :: "artifact_store \<Rightarrow> artifact_manifest \<Rightarrow> artifact_error + bytes" where
  "get_payload st m =
     bindR (artifact_read 2048 (as_payloads st) (payload_name (am_payload_digest m))) (\<lambda>payload.
       if content_digest payload \<noteq> am_payload_digest m then Inl (ArtifactError ''payload digest mismatch'')
       else if int (length payload) \<noteq> am_payload_size m then
         Inl (ArtifactError ''payload size differs from the manifest'')
       else Inr payload)"

section \<open>What is read\<close>

lemma fetch_manifest_Inr:
  "fetch_manifest d k = Inr m \<longleftrightarrow>
     is_digest k \<and> manifest_digest m = k \<and> valid_manifest m \<and>
     map_of d (manifest_name k) = Some (RegularFile (canonical_json (dump_manifest m))) \<and>
     int (length (canonical_json (dump_manifest m))) \<le> 65536"
proof
  assume "fetch_manifest d k = Inr m"
  then show "is_digest k \<and> manifest_digest m = k \<and> valid_manifest m \<and>
     map_of d (manifest_name k) = Some (RegularFile (canonical_json (dump_manifest m))) \<and>
     int (length (canonical_json (dump_manifest m))) \<le> 65536"
    by (auto simp: fetch_manifest_def artifact_read_def manifest_digest_def model_validate_json_Some
        split: option.splits if_splits)
next
  assume r: "is_digest k \<and> manifest_digest m = k \<and> valid_manifest m \<and>
     map_of d (manifest_name k) = Some (RegularFile (canonical_json (dump_manifest m))) \<and>
     int (length (canonical_json (dump_manifest m))) \<le> 65536"
  then have "model_validate_json load_manifest valid_manifest (canonical_json (dump_manifest m)) = Some m"
    by (intro model_round_trip) simp_all
  moreover have "read_bounded 65536 d (manifest_name k) = Inr (canonical_json (dump_manifest m))"
    using r by simp
  ultimately show "fetch_manifest d k = Inr m"
    using r by (simp add: fetch_manifest_def artifact_read_def manifest_digest_def)
qed

lemma manifest_digest_is_digest: "is_digest (manifest_digest m)"
  by (simp add: manifest_digest_def content_digest_is_digest)

lemma manifest_bytes_bounded:
  assumes "valid_manifest m"
  shows "int (length (canonical_json (dump_manifest m))) \<le> 65536"
proof -
  have "length (canonical_json (dump_manifest m)) \<le> json_size (dump_manifest m)"
    by (rule canonical_size)
  also have "\<dots> \<le> 65536"
    using assms length_of_digest show_int_size [of "am_payload_size m" 4] show_int_size [of "am_operation_count m" 2]
    by (simp add: dump_manifest_def dump_target_hashes_def valid_manifest_def valid_target_hashes_def is_Identifier_def)
  finally show ?thesis by simp
qed

text \<open>The manifests are a content-addressed store: every valid manifest is storable.\<close>

interpretation manifests: object_store "store_manifest w" fetch_manifest "\<lambda>m. m" valid_manifest manifest_digest
  for w
proof
  fix m d k d'
  assume "valid_manifest m" "regular_only d" "store_manifest w m d = Inr (k, d')"
  then show "fetch_manifest d' k = Inr m"
    using manifest_bytes_bounded [of m]
    by (auto simp: store_manifest_def artifact_create_def fetch_manifest_Inr manifest_digest_is_digest
        dest!: create_only_Inr)
next
  fix m d k d'
  assume put: "store_manifest w m d = Inr (k, d')"
  then show "map_of d \<subseteq>\<^sub>m map_of d'"
    by (auto simp: store_manifest_def artifact_create_def dest: create_only_Inr)
  show "regular_only d \<Longrightarrow> regular_only d'"
    using put by (auto simp: store_manifest_def artifact_create_def dest: create_only_Inr)
next
  fix d d' k m
  assume "map_of d \<subseteq>\<^sub>m map_of d'" "fetch_manifest d k = Inr m"
  then show "fetch_manifest d' k = Inr m" by (auto simp: fetch_manifest_Inr map_le_def dom_def)
next
  fix d k m
  assume "fetch_manifest d k = Inr m"
  then show "manifest_digest m = k" by (simp add: fetch_manifest_Inr)
qed

section \<open>The life of a store\<close>

lemma artifact_create_Inr: "artifact_create w d n b = Inr d' \<longleftrightarrow> create_only w d n b = Inr d'"
  by (simp add: artifact_create_def)

lemma artifact_put_Inr:
  assumes "artifact_put w w' compiled b st = (Inr digest, st')"
  shows "artifact_checks compiled b = Inr () \<and> valid_manifest (manifest_of compiled b) \<and>
    digest = manifest_digest (manifest_of compiled b) \<and>
    create_only w (as_payloads st) (payload_name (cp_payload_hash compiled)) (cp_payload compiled) = Inr (as_payloads st') \<and>
    store_manifest w' (manifest_of compiled b) (as_manifests st) = Inr (digest, as_manifests st')"
  using assms
  by (auto simp: artifact_put_def Let_def artifact_create_Inr store_manifest_def split: sum.splits if_splits)

text \<open>No \<open>put\<close>, failed or not, changes or removes what the store holds.\<close>

lemma artifact_put_keeps:
  assumes "artifact_put w w' compiled b st = (r, st')"
  shows "map_of (as_payloads st) \<subseteq>\<^sub>m map_of (as_payloads st') \<and>
    map_of (as_manifests st) \<subseteq>\<^sub>m map_of (as_manifests st')"
  using assms manifests.put_keeps
  by (fastforce simp: artifact_put_def Let_def artifact_create_Inr dest: create_only_Inr
      split: sum.splits if_splits prod.splits)

inductive artifact_step :: "artifact_store \<Rightarrow> artifact_store \<Rightarrow> bool" where
  "artifact_put w w' compiled b st = (r, st') \<Longrightarrow> artifact_step st st'"

inductive_cases artifact_stepE: "artifact_step st st'"

lemma artifact_history_keeps:
  assumes "artifact_step\<^sup>*\<^sup>* st st'"
  shows "map_of (as_payloads st) \<subseteq>\<^sub>m map_of (as_payloads st') \<and>
    map_of (as_manifests st) \<subseteq>\<^sub>m map_of (as_manifests st')"
  using assms
proof (induction rule: rtranclp_induct)
  case (step x y)
  from step.hyps(2) show ?case
    by (elim artifact_stepE) (use step.IH artifact_put_keeps map_le_trans in blast)
qed simp

lemma get_payload_Inr:
  "get_payload st m = Inr b \<longleftrightarrow>
     map_of (as_payloads st) (payload_name (am_payload_digest m)) = Some (RegularFile b) \<and>
     int (length b) \<le> 2048 \<and> content_digest b = am_payload_digest m \<and> int (length b) = am_payload_size m"
  by (auto simp: get_payload_def artifact_read_def)

lemma stored_artifact_readable:
  assumes "artifact_put w w' compiled b st = (Inr digest, st')" and "regular_only (as_manifests st)"
  shows "get_manifest st' digest = Inr (manifest_of compiled b) \<and>
    get_payload st' (manifest_of compiled b) = Inr (cp_payload compiled)"
proof -
  note put = artifact_put_Inr [OF assms(1)]
  have "get_manifest st' digest = Inr (manifest_of compiled b)"
    using put assms(2) manifests.put_get unfolding get_manifest_def by blast
  moreover have "map_of (as_payloads st') (payload_name (cp_payload_hash compiled)) = Some (RegularFile (cp_payload compiled))"
    using put create_only_Inr by blast
  moreover have "int (length (cp_payload compiled)) \<le> 2048" "content_digest (cp_payload compiled) = cp_payload_hash compiled"
    using put by (auto simp: artifact_checks_def Let_def split: if_splits)
  ultimately show ?thesis by (simp add: get_payload_Inr manifest_of_def)
qed

text \<open>What is readable stays readable.\<close>

lemma readable_keeps:
  assumes "artifact_step\<^sup>*\<^sup>* st st'"
  shows "get_manifest st k = Inr m \<Longrightarrow> get_manifest st' k = Inr m"
    and "get_payload st m = Inr b \<Longrightarrow> get_payload st' m = Inr b"
  using artifact_history_keeps [OF assms] manifests.get_mono
  by (auto simp: get_manifest_def get_payload_Inr map_le_def dom_def)

section \<open>Properties\<close>

text \<open>
  C32: What the store accepted, every later reader gets: under the digest \<open>put\<close> returned there is the
  manifest with all its bindings, and under the manifest's digest exactly the compiled payload, in
  every state reached by further writes, those that fail half way included.
\<close>

theorem artifact_durable:
  assumes "artifact_put w w' compiled b st = (Inr digest, st')" and "regular_only (as_manifests st)"
    and "artifact_step\<^sup>*\<^sup>* st' st''"
  shows "get_manifest st'' digest = Inr (manifest_of compiled b) \<and>
    get_payload st'' (manifest_of compiled b) = Inr (cp_payload compiled)"
  using stored_artifact_readable [OF assms(1,2)] readable_keeps [OF assms(3)] by blast

definition sample_compiled :: compiled_program where
  "sample_compiled =
     \<lparr>cp_program_id = ''probe'', cp_payload = [1, 2, 3], cp_payload_hash = content_digest [1, 2, 3],
      cp_operation_count = 1, cp_compiler_hash = compiler_hash sample_hashes,
      cp_harness_hash = harness_hash sample_hashes\<rparr>"

definition sample_binding :: artifact_binding where
  "sample_binding =
     \<lparr>ab_proposal_digest = content_digest [1], ab_program_digest = content_digest [2],
      ab_contract_digest = content_digest [3], ab_validator_version = ''semantic-validator.v4'',
      ab_validator_hash = content_digest [4], ab_target_hashes = sample_hashes\<rparr>"

lemma is_hex_tail: "is_hex c \<Longrightarrow> is_tail_char c"
proof -
  have "\<forall>c \<in> set ''0123456789abcdef''. is_tail_char c" by code_simp
  moreover assume "is_hex c"
  then have "c \<in> set ''0123456789abcdef''" by (auto simp: is_hex_def is_digit_def)
  ultimately show ?thesis by blast
qed

lemma hex_identifier:
  assumes "is_identifier_text pre" "length pre \<le> 72" "list_all is_hex h" "length h \<le> 24"
  shows "is_Identifier (pre @ h)"
proof -
  have "list_all is_tail_char h" using assms(3) is_hex_tail unfolding list_all_iff by auto
  with assms(1,2,4) show ?thesis by (cases pre) (auto simp: is_Identifier_def is_identifier_text_def)
qed

lemma hex_tail_identifier:
  assumes "is_digest h" and "is_identifier_text pre" and "length pre \<le> 72"
  shows "is_Identifier (pre @ last_chars 24 h)"
proof -
  have "length h = 71" using assms(1) by (rule length_of_digest)
  then have "last_chars 24 h = last_chars 24 (drop 7 h)" by (simp add: last_chars_def)
  moreover have "list_all is_hex (drop 7 h)" using assms(1) by (simp add: is_digest_def is_hex64_def)
  then have "list_all is_hex (last_chars 24 (drop 7 h))"
    unfolding last_chars_def list_all_iff by (meson in_set_dropD)
  ultimately show ?thesis
    using assms(2,3) \<open>length h = 71\<close> by (intro hex_identifier) (simp_all add: last_chars_def)
qed

lemma artifact_id_valid:
  assumes "is_digest h"
  shows "is_Identifier (''artifact-'' @ last_chars 24 h)"
proof -
  have "is_identifier_text ''artifact-''" by code_simp
  then show ?thesis by (rule hex_tail_identifier [OF assms]) simp
qed

lemma sample_manifest_valid: "valid_manifest (manifest_of sample_compiled sample_binding)"
proof -
  have "is_Identifier ''probe''" "is_Identifier ''semantic-validator.v4''" "valid_target_hashes sample_hashes"
    "is_digest (compiler_hash sample_hashes)" by code_simp+
  then show ?thesis
    using artifact_id_valid [OF content_digest_is_digest, of "[1, 2, 3]"]
    by (simp add: valid_manifest_def manifest_of_def sample_compiled_def sample_binding_def
        content_digest_is_digest)
qed

lemma sample_artifact_put:
  "\<exists>digest st'. artifact_put WriteOk WriteOk sample_compiled sample_binding \<lparr>as_payloads = [], as_manifests = []\<rparr>
     = (Inr digest, st')"
proof -
  have "artifact_checks sample_compiled sample_binding = Inr ()"
    by (simp add: artifact_checks_def sample_compiled_def sample_binding_def)
  then show ?thesis
    using sample_manifest_valid
    by (simp add: artifact_put_def Let_def artifact_create_def store_manifest_def create_only_def exists_name_def)
qed

lemma artifact_durable_witness:
  "\<exists>digest st'. get_manifest st' digest = Inr (manifest_of sample_compiled sample_binding) \<and>
     get_payload st' (manifest_of sample_compiled sample_binding) = Inr [1, 2, 3]"
proof -
  from sample_artifact_put obtain digest st' where
    "artifact_put WriteOk WriteOk sample_compiled sample_binding \<lparr>as_payloads = [], as_manifests = []\<rparr> = (Inr digest, st')"
    by blast
  from artifact_durable [OF this, of st'] show ?thesis by (auto simp: sample_compiled_def)
qed

end
