(* ===== verification/Execution.thy ===== *)
theory Execution
  imports Artifacts Validator
begin

text \<open>
  The authority records between the canary and the live approval, \<open>src/iou_ai/execution.py\<close>: their
  validators, the two builders that cross-bind them, and the create-only stores that keep them.
\<close>

section \<open>Records\<close>

datatype worker_set = NATIVE_STABLE | KASAN_TRIAGE

fun worker_value :: "worker_set \<Rightarrow> string" where
  "worker_value NATIVE_STABLE = ''native_stable''"
| "worker_value KASAN_TRIAGE = ''kasan_triage''"

record promotion_scope =
  ps_campaign_id :: string
  ps_destination_id :: string
  ps_worker_set :: worker_set

definition destination_matches_workers :: "promotion_scope \<Rightarrow> bool" where
  "destination_matches_workers p \<longleftrightarrow>
     ps_destination_id p =
       (case ps_worker_set p of NATIVE_STABLE \<Rightarrow> ''native_ai_sync'' | KASAN_TRIAGE \<Rightarrow> ''kasan_ai_sync'')"

definition valid_scope :: "promotion_scope \<Rightarrow> bool" where
  "valid_scope p \<longleftrightarrow>
     is_Identifier (ps_campaign_id p) \<and> ps_destination_id p \<in> {''native_ai_sync'', ''kasan_ai_sync''} \<and>
     destination_matches_workers p"

definition dump_scope :: "promotion_scope \<Rightarrow> json" where
  "dump_scope p =
     JObj [(''schema_version'', JStr ''promotion-scope.v1''), (''campaign_id'', JStr (ps_campaign_id p)),
           (''destination_id'', JStr (ps_destination_id p)), (''worker_set'', JStr (worker_value (ps_worker_set p))),
           (''mode'', JStr ''afl_foreign_sync_seed''), (''max_artifacts'', JInt 1)]"

datatype canary_outcome = CANARY_PASSED | CANARY_REJECTED | CANARY_INFRASTRUCTURE_FAILURE

fun canary_outcome_value :: "canary_outcome \<Rightarrow> string" where
  "canary_outcome_value CANARY_PASSED = ''passed''"
| "canary_outcome_value CANARY_REJECTED = ''rejected''"
| "canary_outcome_value CANARY_INFRASTRUCTURE_FAILURE = ''infrastructure_failure''"

record canary_report =
  cr_report_id :: string
  cr_started_at :: string
  cr_finished_at :: string
  cr_envelope_digest :: string
  cr_validation_digest :: string
  cr_manifest_digest :: string
  cr_artifact_digest :: string
  cr_target_hashes :: target_hashes
  cr_runner_hash :: string
  cr_result_digest :: string
  cr_outcome :: canary_outcome
  cr_dry_runs :: int
  cr_executions :: int
  cr_timeout_seconds :: int
  cr_accepted :: bool
  cr_infrastructure_error :: bool
  cr_exit_code :: int
  cr_timed_out :: bool
  cr_signal :: int
  cr_fleet_before :: string
  cr_fleet_after :: string

text \<open>The interval, and the outcome the measurements force.\<close>

definition canary_interval_ok :: "canary_report \<Rightarrow> bool" where
  "canary_interval_ok r \<longleftrightarrow>
     (case (parse_timestamp (cr_started_at r), parse_timestamp (cr_finished_at r)) of
        (Some started, Some finished) \<Rightarrow> \<not> finished < started
      | _ \<Rightarrow> False)"

definition canary_passed :: "canary_report \<Rightarrow> bool" where
  "canary_passed r \<longleftrightarrow>
     1 \<le> cr_dry_runs r \<and> cr_dry_runs r \<le> cr_executions r \<and> cr_accepted r \<and>
     \<not> cr_infrastructure_error r \<and> cr_exit_code r = 0 \<and> \<not> cr_timed_out r \<and> cr_signal r = 0 \<and>
     cr_fleet_before r = cr_fleet_after r"

definition outcome_matches_measurements :: "canary_report \<Rightarrow> bool" where
  "outcome_matches_measurements r \<longleftrightarrow>
     canary_interval_ok r \<and>
     (cr_outcome r = CANARY_PASSED) = canary_passed r \<and>
     (cr_outcome r = CANARY_INFRASTRUCTURE_FAILURE) = cr_infrastructure_error r \<and>
     cr_fleet_before r = cr_fleet_after r"

definition valid_canary :: "canary_report \<Rightarrow> bool" where
  "valid_canary r \<longleftrightarrow>
     is_Identifier (cr_report_id r) \<and> is_Timestamp (cr_started_at r) \<and> is_Timestamp (cr_finished_at r) \<and>
     is_Digest (cr_envelope_digest r) \<and> is_Digest (cr_validation_digest r) \<and>
     is_Digest (cr_manifest_digest r) \<and> is_Digest (cr_artifact_digest r) \<and>
     valid_target_hashes (cr_target_hashes r) \<and> is_Digest (cr_runner_hash r) \<and>
     is_Digest (cr_result_digest r) \<and>
     0 \<le> cr_dry_runs r \<and> cr_dry_runs r \<le> 4 \<and> 0 \<le> cr_executions r \<and> cr_executions r \<le> 1000000 \<and>
     1 \<le> cr_timeout_seconds r \<and> cr_timeout_seconds r \<le> 120 \<and>
     - 255 \<le> cr_exit_code r \<and> cr_exit_code r \<le> 255 \<and> 0 \<le> cr_signal r \<and> cr_signal r \<le> 128 \<and>
     is_Digest (cr_fleet_before r) \<and> is_Digest (cr_fleet_after r) \<and> outcome_matches_measurements r"

definition dump_canary :: "canary_report \<Rightarrow> json" where
  "dump_canary r =
     JObj [(''schema_version'', JStr ''nyx-canary-report.v1''), (''report_id'', JStr (cr_report_id r)),
           (''started_at'', JStr (cr_started_at r)), (''finished_at'', JStr (cr_finished_at r)),
           (''envelope_digest'', JStr (cr_envelope_digest r)),
           (''validation_report_digest'', JStr (cr_validation_digest r)),
           (''artifact_manifest_digest'', JStr (cr_manifest_digest r)),
           (''artifact_digest'', JStr (cr_artifact_digest r)),
           (''target_hashes'', dump_target_hashes (cr_target_hashes r)),
           (''runner_hash'', JStr (cr_runner_hash r)), (''runner_result_digest'', JStr (cr_result_digest r)),
           (''outcome'', JStr (canary_outcome_value (cr_outcome r))),
           (''exact_seed_dry_runs'', JInt (cr_dry_runs r)), (''executions_total'', JInt (cr_executions r)),
           (''timeout_seconds'', JInt (cr_timeout_seconds r)), (''harness_accepted'', JBool (cr_accepted r)),
           (''infrastructure_error'', JBool (cr_infrastructure_error r)),
           (''runner_exit_code'', JInt (cr_exit_code r)), (''timed_out'', JBool (cr_timed_out r)),
           (''signal_number'', JInt (cr_signal r)), (''fleet_snapshot_before'', JStr (cr_fleet_before r)),
           (''fleet_snapshot_after'', JStr (cr_fleet_after r)), (''live_fleet_touched'', JBool False)]"

record validation_report =
  dv_report_id :: string
  dv_created_at :: string
  dv_envelope_digest :: string
  dv_manifest_digest :: string
  dv_artifact_digest :: string
  dv_artifact_size :: int
  dv_operation_count :: int
  dv_proposal_digest :: string
  dv_program_digest :: string
  dv_contract_digest :: string
  dv_target_hashes :: target_hashes
  dv_compiler_version :: string
  dv_compiler_hash :: string
  dv_validator_version :: string
  dv_validator_hash :: string
  dv_source_count :: int
  dv_passed :: "string list"
  dv_failed :: "string list"

definition checks_are_unique_and_target_bound :: "validation_report \<Rightarrow> bool" where
  "checks_are_unique_and_target_bound r \<longleftrightarrow>
     distinct (dv_passed r) \<and> dv_compiler_hash r = compiler_hash (dv_target_hashes r)"

definition valid_report :: "validation_report \<Rightarrow> bool" where
  "valid_report r \<longleftrightarrow>
     is_Identifier (dv_report_id r) \<and> is_Timestamp (dv_created_at r) \<and> is_Digest (dv_envelope_digest r) \<and>
     is_Digest (dv_manifest_digest r) \<and> is_Digest (dv_artifact_digest r) \<and>
     1 \<le> dv_artifact_size r \<and> dv_artifact_size r \<le> 2048 \<and>
     1 \<le> dv_operation_count r \<and> dv_operation_count r \<le> 96 \<and>
     is_Digest (dv_proposal_digest r) \<and> is_Digest (dv_program_digest r) \<and> is_Digest (dv_contract_digest r) \<and>
     valid_target_hashes (dv_target_hashes r) \<and> is_Identifier (dv_compiler_version r) \<and>
     is_Digest (dv_compiler_hash r) \<and> is_Identifier (dv_validator_version r) \<and>
     is_Digest (dv_validator_hash r) \<and> 1 \<le> dv_source_count r \<and> dv_source_count r \<le> 16 \<and>
     len_between 4 128 (dv_passed r) \<and> list_all is_Identifier (dv_passed r) \<and> dv_failed r = [] \<and>
     checks_are_unique_and_target_bound r"

definition dump_report :: "validation_report \<Rightarrow> json" where
  "dump_report r =
     JObj [(''schema_version'', JStr ''deterministic-validation-report.v1''),
           (''report_id'', JStr (dv_report_id r)), (''created_at'', JStr (dv_created_at r)),
           (''envelope_digest'', JStr (dv_envelope_digest r)),
           (''artifact_manifest_digest'', JStr (dv_manifest_digest r)),
           (''artifact_digest'', JStr (dv_artifact_digest r)),
           (''artifact_size_bytes'', JInt (dv_artifact_size r)),
           (''operation_count'', JInt (dv_operation_count r)),
           (''proposal_digest'', JStr (dv_proposal_digest r)), (''program_digest'', JStr (dv_program_digest r)),
           (''harness_contract_digest'', JStr (dv_contract_digest r)),
           (''target_hashes'', dump_target_hashes (dv_target_hashes r)),
           (''compiler_version'', JStr (dv_compiler_version r)), (''compiler_hash'', JStr (dv_compiler_hash r)),
           (''validator_version'', JStr (dv_validator_version r)),
           (''validator_hash'', JStr (dv_validator_hash r)),
           (''source_validation_count'', JInt (dv_source_count r)),
           (''passed_check_ids'', strs (dv_passed r)), (''failed_check_ids'', strs (dv_failed r)),
           (''decode_reencode_equal'', JBool True), (''valid'', JBool True),
           (''live_fleet_touched'', JBool False)]"

record execution_candidate =
  ec_candidate_id :: string
  ec_ready_at :: string
  ec_envelope_digest :: string
  ec_manifest_digest :: string
  ec_artifact_digest :: string
  ec_artifact_size :: int
  ec_validation_digest :: string
  ec_canary_digest :: string
  ec_target_hashes :: target_hashes
  ec_scope :: promotion_scope

definition valid_candidate :: "execution_candidate \<Rightarrow> bool" where
  "valid_candidate c \<longleftrightarrow>
     is_Identifier (ec_candidate_id c) \<and> is_Timestamp (ec_ready_at c) \<and> is_Digest (ec_envelope_digest c) \<and>
     is_Digest (ec_manifest_digest c) \<and> is_Digest (ec_artifact_digest c) \<and>
     1 \<le> ec_artifact_size c \<and> ec_artifact_size c \<le> 2048 \<and> is_Digest (ec_validation_digest c) \<and>
     is_Digest (ec_canary_digest c) \<and> valid_target_hashes (ec_target_hashes c) \<and> valid_scope (ec_scope c)"

definition dump_candidate :: "execution_candidate \<Rightarrow> json" where
  "dump_candidate c =
     JObj [(''schema_version'', JStr ''execution-candidate.v1''), (''candidate_id'', JStr (ec_candidate_id c)),
           (''ready_at'', JStr (ec_ready_at c)), (''envelope_digest'', JStr (ec_envelope_digest c)),
           (''artifact_manifest_digest'', JStr (ec_manifest_digest c)),
           (''artifact_digest'', JStr (ec_artifact_digest c)),
           (''artifact_size_bytes'', JInt (ec_artifact_size c)),
           (''validation_report_digest'', JStr (ec_validation_digest c)),
           (''canary_report_digest'', JStr (ec_canary_digest c)),
           (''target_hashes'', dump_target_hashes (ec_target_hashes c)),
           (''promotion_scope'', dump_scope (ec_scope c)), (''canary_outcome'', JStr ''passed''),
           (''human_execution_approval_required'', JBool True), (''live_promotion_authorized'', JBool False)]"

subsection \<open>Reading the records\<close>

definition load_worker :: "worker_set loader" where
  "load_worker = load_enum worker_value [NATIVE_STABLE, KASAN_TRIAGE]"

definition load_canary_outcome :: "canary_outcome loader" where
  "load_canary_outcome =
     load_enum canary_outcome_value [CANARY_PASSED, CANARY_REJECTED, CANARY_INFRASTRUCTURE_FAILURE]"

lemma load_execution_enums [simp]:
  "load_worker (JStr (worker_value w)) = Some w"
  "load_canary_outcome (JStr (canary_outcome_value k)) = Some k"
  by ((cases w; simp add: load_worker_def load_enum_def),
    (cases k; simp add: load_canary_outcome_def load_enum_def))

definition load_scope :: "promotion_scope loader" where
  "load_scope v =
     do {
              m \<leftarrow> members [''schema_version'', ''campaign_id'', ''destination_id'',
           ''worker_set'', ''mode'', ''max_artifacts''] v;
       field_or () m ''schema_version'' (load_only (JStr ''promotion-scope.v1''));
       a1 \<leftarrow> field m ''campaign_id'' load_str;
       a2 \<leftarrow> field m ''destination_id'' load_str;
       a3 \<leftarrow> field m ''worker_set'' load_worker;
       field_or () m ''mode'' (load_only (JStr ''afl_foreign_sync_seed''));
       field_or () m ''max_artifacts'' (load_only (JInt 1));
       Some \<lparr>ps_campaign_id = a1, ps_destination_id = a2, ps_worker_set = a3\<rparr>
     }"

lemma load_dump_scope [simp]: "load_scope (norm_json (dump_scope x)) = Some x"
  unfolding load_scope_def dump_scope_def by (simp add: load_object)

definition load_canary :: "canary_report loader" where
  "load_canary v =
     do {
              m \<leftarrow> members [''schema_version'', ''report_id'', ''started_at'',
           ''finished_at'', ''envelope_digest'', ''validation_report_digest'',
           ''artifact_manifest_digest'', ''artifact_digest'', ''target_hashes'', ''runner_hash'',
           ''runner_result_digest'', ''outcome'', ''exact_seed_dry_runs'', ''executions_total'',
           ''timeout_seconds'', ''harness_accepted'', ''infrastructure_error'', ''runner_exit_code'',
           ''timed_out'', ''signal_number'', ''fleet_snapshot_before'', ''fleet_snapshot_after'',
           ''live_fleet_touched''] v;
       field_or () m ''schema_version'' (load_only (JStr ''nyx-canary-report.v1''));
       a1 \<leftarrow> field m ''report_id'' load_str;
       a2 \<leftarrow> field m ''started_at'' load_str;
       a3 \<leftarrow> field m ''finished_at'' load_str;
       a4 \<leftarrow> field m ''envelope_digest'' load_str;
       a5 \<leftarrow> field m ''validation_report_digest'' load_str;
       a6 \<leftarrow> field m ''artifact_manifest_digest'' load_str;
       a7 \<leftarrow> field m ''artifact_digest'' load_str;
       a8 \<leftarrow> field m ''target_hashes'' load_target_hashes;
       a9 \<leftarrow> field m ''runner_hash'' load_str;
       a10 \<leftarrow> field m ''runner_result_digest'' load_str;
       a11 \<leftarrow> field m ''outcome'' load_canary_outcome;
       a12 \<leftarrow> field m ''exact_seed_dry_runs'' load_int;
       a13 \<leftarrow> field m ''executions_total'' load_int;
       a14 \<leftarrow> field m ''timeout_seconds'' load_int;
       a15 \<leftarrow> field m ''harness_accepted'' load_bool;
       a16 \<leftarrow> field m ''infrastructure_error'' load_bool;
       a17 \<leftarrow> field m ''runner_exit_code'' load_int;
       a18 \<leftarrow> field m ''timed_out'' load_bool;
       a19 \<leftarrow> field m ''signal_number'' load_int;
       a20 \<leftarrow> field m ''fleet_snapshot_before'' load_str;
       a21 \<leftarrow> field m ''fleet_snapshot_after'' load_str;
       field_or () m ''live_fleet_touched'' (load_only (JBool False));
              Some \<lparr>cr_report_id = a1, cr_started_at = a2, cr_finished_at = a3,
           cr_envelope_digest = a4, cr_validation_digest = a5, cr_manifest_digest = a6,
           cr_artifact_digest = a7, cr_target_hashes = a8, cr_runner_hash = a9, cr_result_digest = a10,
           cr_outcome = a11, cr_dry_runs = a12, cr_executions = a13, cr_timeout_seconds = a14,
           cr_accepted = a15, cr_infrastructure_error = a16, cr_exit_code = a17, cr_timed_out = a18,
           cr_signal = a19, cr_fleet_before = a20, cr_fleet_after = a21\<rparr>
     }"

lemma load_dump_canary [simp]: "load_canary (norm_json (dump_canary x)) = Some x"
  unfolding load_canary_def dump_canary_def by (simp add: load_object)

definition load_report :: "validation_report loader" where
  "load_report v =
     do {
              m \<leftarrow> members [''schema_version'', ''report_id'', ''created_at'',
           ''envelope_digest'', ''artifact_manifest_digest'', ''artifact_digest'',
           ''artifact_size_bytes'', ''operation_count'', ''proposal_digest'', ''program_digest'',
           ''harness_contract_digest'', ''target_hashes'', ''compiler_version'', ''compiler_hash'',
           ''validator_version'', ''validator_hash'', ''source_validation_count'', ''passed_check_ids'',
           ''failed_check_ids'', ''decode_reencode_equal'', ''valid'', ''live_fleet_touched''] v;
       field_or () m ''schema_version'' (load_only (JStr ''deterministic-validation-report.v1''));
       a1 \<leftarrow> field m ''report_id'' load_str;
       a2 \<leftarrow> field m ''created_at'' load_str;
       a3 \<leftarrow> field m ''envelope_digest'' load_str;
       a4 \<leftarrow> field m ''artifact_manifest_digest'' load_str;
       a5 \<leftarrow> field m ''artifact_digest'' load_str;
       a6 \<leftarrow> field m ''artifact_size_bytes'' load_int;
       a7 \<leftarrow> field m ''operation_count'' load_int;
       a8 \<leftarrow> field m ''proposal_digest'' load_str;
       a9 \<leftarrow> field m ''program_digest'' load_str;
       a10 \<leftarrow> field m ''harness_contract_digest'' load_str;
       a11 \<leftarrow> field m ''target_hashes'' load_target_hashes;
       a12 \<leftarrow> field m ''compiler_version'' load_str;
       a13 \<leftarrow> field m ''compiler_hash'' load_str;
       a14 \<leftarrow> field m ''validator_version'' load_str;
       a15 \<leftarrow> field m ''validator_hash'' load_str;
       a16 \<leftarrow> field m ''source_validation_count'' load_int;
       a17 \<leftarrow> field m ''passed_check_ids'' (load_list load_str);
       a18 \<leftarrow> field m ''failed_check_ids'' (load_list load_str);
       field_or () m ''decode_reencode_equal'' (load_only (JBool True));
       field_or () m ''valid'' (load_only (JBool True));
       field_or () m ''live_fleet_touched'' (load_only (JBool False));
              Some \<lparr>dv_report_id = a1, dv_created_at = a2, dv_envelope_digest = a3,
           dv_manifest_digest = a4, dv_artifact_digest = a5, dv_artifact_size = a6, dv_operation_count =
           a7, dv_proposal_digest = a8, dv_program_digest = a9, dv_contract_digest = a10,
           dv_target_hashes = a11, dv_compiler_version = a12, dv_compiler_hash = a13,
           dv_validator_version = a14, dv_validator_hash = a15, dv_source_count = a16, dv_passed = a17,
           dv_failed = a18\<rparr>
     }"

lemma load_dump_report [simp]: "load_report (norm_json (dump_report x)) = Some x"
  unfolding load_report_def dump_report_def by (simp add: load_object)

definition load_candidate :: "execution_candidate loader" where
  "load_candidate v =
     do {
              m \<leftarrow> members [''schema_version'', ''candidate_id'', ''ready_at'',
           ''envelope_digest'', ''artifact_manifest_digest'', ''artifact_digest'',
           ''artifact_size_bytes'', ''validation_report_digest'', ''canary_report_digest'',
           ''target_hashes'', ''promotion_scope'', ''canary_outcome'',
           ''human_execution_approval_required'', ''live_promotion_authorized''] v;
       field_or () m ''schema_version'' (load_only (JStr ''execution-candidate.v1''));
       a1 \<leftarrow> field m ''candidate_id'' load_str;
       a2 \<leftarrow> field m ''ready_at'' load_str;
       a3 \<leftarrow> field m ''envelope_digest'' load_str;
       a4 \<leftarrow> field m ''artifact_manifest_digest'' load_str;
       a5 \<leftarrow> field m ''artifact_digest'' load_str;
       a6 \<leftarrow> field m ''artifact_size_bytes'' load_int;
       a7 \<leftarrow> field m ''validation_report_digest'' load_str;
       a8 \<leftarrow> field m ''canary_report_digest'' load_str;
       a9 \<leftarrow> field m ''target_hashes'' load_target_hashes;
       a10 \<leftarrow> field m ''promotion_scope'' load_scope;
       field_or () m ''canary_outcome'' (load_only (JStr ''passed''));
       field_or () m ''human_execution_approval_required'' (load_only (JBool True));
       field_or () m ''live_promotion_authorized'' (load_only (JBool False));
              Some \<lparr>ec_candidate_id = a1, ec_ready_at = a2, ec_envelope_digest = a3,
           ec_manifest_digest = a4, ec_artifact_digest = a5, ec_artifact_size = a6, ec_validation_digest
           = a7, ec_canary_digest = a8, ec_target_hashes = a9, ec_scope = a10\<rparr>
     }"

lemma load_dump_candidate [simp]: "load_candidate (norm_json (dump_candidate x)) = Some x"
  unfolding load_candidate_def dump_candidate_def by (simp add: load_object)

lemma wf_execution_dumps [simp]:
  "wf_json (dump_scope p)" "wf_json (dump_canary r)" "wf_json (dump_report v)" "wf_json (dump_candidate c)"
  by (auto simp: dump_scope_def dump_canary_def dump_report_def dump_candidate_def list_all_iff)

section \<open>Building the records\<close>

datatype execution_error = ExecutionAuthorityError string | ExecutionValidationError | ExecutionOSError

text \<open>A sequence of \<open>if not condition: raise\<close>: the first condition that fails decides.\<close>

definition first_failure :: "(bool \<times> string) list \<Rightarrow> execution_error + unit" where
  "first_failure checks =
     (case find (\<lambda>(ok, _). \<not> ok) checks of
        None \<Rightarrow> Inr ()
      | Some (_, message) \<Rightarrow> Inl (ExecutionAuthorityError message))"

definition model_digest :: "('a \<Rightarrow> json) \<Rightarrow> 'a \<Rightarrow> string" where
  "model_digest dump x = content_digest (canonical_json (dump x))"

definition report_bindings ::
  "string \<Rightarrow> quarantine_envelope \<Rightarrow> string \<Rightarrow> artifact_manifest \<Rightarrow> bytes \<Rightarrow> (bool \<times> string) list" where
  "report_bindings envelope_digest e manifest_id m payload =
     [(envelope_digest = model_digest dump_envelope e, ''quarantine envelope digest mismatch''),
      (manifest_id = model_digest dump_manifest m, ''artifact manifest digest mismatch''),
      (manifest_id \<in> set (qe_compiled_artifact_hashes e), ''artifact manifest is absent from the envelope''),
      (content_digest payload = am_payload_digest m, ''artifact payload digest mismatch''),
      (int (length payload) = am_payload_size m, ''artifact payload size mismatch''),
      (am_proposal_digest m = qe_proposal_hash e, ''artifact proposal binding mismatch''),
      (am_contract_digest m = qe_harness_contract_hash e, ''artifact contract binding mismatch''),
      (am_target_hashes m = qe_target_hashes e, ''artifact target binding mismatch''),
      (am_compiler_hash m = compiler_hash (qe_target_hashes e), ''artifact compiler authority mismatch''),
      (model_digest dump_proposal (qe_proposal e) = qe_proposal_hash e, ''envelope proposal digest mismatch''),
      (model_digest dump_verdict (qe_reviewer_verdict e) = qe_reviewer_verdict_hash e,
        ''envelope reviewer digest mismatch''),
      (case qe_auditor_verdict e of None \<Rightarrow> True
         | Some a \<Rightarrow> Some (model_digest dump_verdict a) = qe_auditor_verdict_hash e,
        ''envelope auditor digest mismatch''),
      (\<not> list_ex (\<lambda>r. vr_failed r \<noteq> []) (qe_validations e), ''envelope contains a failed validation''),
      (list_ex (\<lambda>r. vr_validator_version r = am_validator_version m \<and> vr_validator_hash r = am_validator_hash m)
         (qe_validations e), ''artifact validator is absent from the envelope'')]"

definition AUTHORITY_CHECKS :: "string list" where
  "AUTHORITY_CHECKS =
     [''authority.envelope-digest'', ''authority.manifest-binding'', ''authority.payload-digest'',
      ''authority.target-binding'', ''codec.decode-reencode-equality'']"

text \<open>\<open>sorted\<close> of the set of identifiers.\<close>

definition report_checks :: "quarantine_envelope \<Rightarrow> string list" where
  "report_checks e = sort (dedup (concat (map vr_passed (qe_validations e)) @ AUTHORITY_CHECKS))"

definition build_validation_report ::
  "string \<Rightarrow> quarantine_envelope \<Rightarrow> string \<Rightarrow> artifact_manifest \<Rightarrow> bytes \<Rightarrow> string
     \<Rightarrow> execution_error + validation_report" where
  "build_validation_report envelope_digest e manifest_id m payload created_at =
     bindR (first_failure (report_bindings envelope_digest e manifest_id m payload)) (\<lambda>_.
     let h = harness_hash (am_target_hashes m) in
     case bindR (decode_program payload h) (\<lambda>decoded.
            bindR (encode_program decoded h) (\<lambda>again. Inr (decoded, again))) of
       Inl _ \<Rightarrow> Inl (ExecutionAuthorityError ''artifact failed independent codec validation'')
     | Inr (decoded, again) \<Rightarrow>
         if again \<noteq> payload then Inl (ExecutionAuthorityError ''artifact failed decode/re-encode equality'')
         else if int (length (operations decoded)) \<noteq> am_operation_count m then
           Inl (ExecutionAuthorityError ''artifact operation count mismatch'')
         else
           let r = \<lparr>dv_report_id = ''validation-'' @ last_chars 24 manifest_id, dv_created_at = created_at,
                dv_envelope_digest = envelope_digest, dv_manifest_digest = manifest_id,
                dv_artifact_digest = am_payload_digest m, dv_artifact_size = am_payload_size m,
                dv_operation_count = am_operation_count m, dv_proposal_digest = am_proposal_digest m,
                dv_program_digest = am_program_digest m, dv_contract_digest = am_contract_digest m,
                dv_target_hashes = am_target_hashes m, dv_compiler_version = COMPILER_VERSION,
                dv_compiler_hash = am_compiler_hash m, dv_validator_version = am_validator_version m,
                dv_validator_hash = am_validator_hash m, dv_source_count = int (length (qe_validations e)),
                dv_passed = report_checks e, dv_failed = []\<rparr>
           in if valid_report r then Inr r else Inl ExecutionValidationError)"

definition candidate_bindings ::
  "string \<Rightarrow> validation_report \<Rightarrow> string \<Rightarrow> canary_report \<Rightarrow> string \<Rightarrow> artifact_manifest \<Rightarrow> string set
     \<Rightarrow> (bool \<times> string) list" where
  "candidate_bindings validation_digest v canary_digest k manifest_id m allowed_runners =
     [(model_digest dump_report v = validation_digest, ''deterministic validation report digest mismatch''),
      (model_digest dump_canary k = canary_digest, ''canary report digest mismatch''),
      (model_digest dump_manifest m = manifest_id, ''candidate artifact manifest digest mismatch''),
      (validation_digest = cr_validation_digest k, ''canary is not bound to the validation report''),
      (cr_outcome k = CANARY_PASSED, ''canary did not pass''),
      (cr_runner_hash k \<in> allowed_runners, ''canary runner hash is not allowlisted''),
      (dv_envelope_digest v = cr_envelope_digest k \<and>
         dv_manifest_digest v = cr_manifest_digest k \<and> cr_manifest_digest k = manifest_id \<and>
         dv_artifact_digest v = cr_artifact_digest k \<and> cr_artifact_digest k = am_payload_digest m \<and>
         dv_artifact_size v = am_payload_size m \<and>
         dv_target_hashes v = cr_target_hashes k \<and> cr_target_hashes k = am_target_hashes m,
        ''canary authority bindings disagree'')]"

definition build_execution_candidate ::
  "string \<Rightarrow> validation_report \<Rightarrow> string \<Rightarrow> canary_report \<Rightarrow> string \<Rightarrow> artifact_manifest \<Rightarrow> promotion_scope
     \<Rightarrow> string \<Rightarrow> string set \<Rightarrow> execution_error + execution_candidate" where
  "build_execution_candidate validation_digest v canary_digest k manifest_id m scope ready_at allowed_runners =
     bindR (first_failure (candidate_bindings validation_digest v canary_digest k manifest_id m allowed_runners)) (\<lambda>_.
       let c = \<lparr>ec_candidate_id = ''candidate-'' @ last_chars 24 canary_digest, ec_ready_at = ready_at,
            ec_envelope_digest = dv_envelope_digest v, ec_manifest_digest = manifest_id,
            ec_artifact_digest = am_payload_digest m, ec_artifact_size = am_payload_size m,
            ec_validation_digest = validation_digest, ec_canary_digest = canary_digest,
            ec_target_hashes = am_target_hashes m, ec_scope = scope\<rparr>
       in if valid_candidate c then Inr c else Inl ExecutionValidationError)"

section \<open>The store\<close>

text \<open>\<open>_put\<close> and \<open>_get\<close> for one model, on the directory of that model.\<close>

fun authority_read_message :: "read_failure \<Rightarrow> execution_error" where
  "authority_read_message Unavailable = ExecutionAuthorityError ''authority object is unavailable''"
| "authority_read_message NotRegular = ExecutionAuthorityError ''authority object is not a bounded regular file''"
| "authority_read_message TooLarge = ExecutionAuthorityError ''authority object is not a bounded regular file''"

fun authority_create_message :: "create_failure \<Rightarrow> execution_error" where
  "authority_create_message (ReadBack e) = authority_read_message e"
| "authority_create_message Mutated = ExecutionAuthorityError ''authority digest collision or mutation''"
| "authority_create_message WriteError = ExecutionOSError"

definition authority_put ::
  "('a \<Rightarrow> json) \<Rightarrow> write_outcome \<Rightarrow> 'a \<Rightarrow> directory \<Rightarrow> execution_error + string \<times> directory" where
  "authority_put dump w x d =
     bindR (wrapR authority_create_message
         (create_only w d (removeprefix ''sha256:'' (model_digest dump x) @ ''.json'') (canonical_json (dump x))))
       (\<lambda>d'. Inr (model_digest dump x, d'))"

definition authority_get ::
  "'a loader \<Rightarrow> ('a \<Rightarrow> bool) \<Rightarrow> ('a \<Rightarrow> json) \<Rightarrow> directory \<Rightarrow> string \<Rightarrow> execution_error + 'a" where
  "authority_get f valid dump d digest =
     (if \<not> is_digest digest then Inl (ExecutionAuthorityError ''invalid authority digest'')
      else
        bindR (wrapR authority_read_message (read_bounded 65536 d (removeprefix ''sha256:'' digest @ ''.json'')))
          (\<lambda>payload.
          if int (length payload) > 65536 \<or> content_digest payload \<noteq> digest then
            Inl (ExecutionAuthorityError ''authority object digest mismatch'')
          else
            (case model_validate_json f valid payload of
               None \<Rightarrow> Inl (ExecutionAuthorityError ''authority object is invalid'')
             | Some x \<Rightarrow>
                 if canonical_json (dump x) \<noteq> payload then
                   Inl (ExecutionAuthorityError ''authority object is not canonical'')
                 else Inr x)))"

lemma first_failure_Inr: "first_failure cs = Inr x \<longleftrightarrow> list_all fst cs"
proof -
  have "find (\<lambda>(ok, _). \<not> ok) cs = None \<longleftrightarrow> list_all fst cs"
    by (auto simp: find_None_iff list_all_iff)
  then show ?thesis by (auto simp: first_failure_def split: option.split)
qed

lemma authority_get_Inr:
  assumes "\<And>x. f (norm_json (dump x)) = Some x" and "\<And>x. wf_json (dump x)"
  shows "authority_get f valid dump d k = Inr x \<longleftrightarrow>
    is_digest k \<and> model_digest dump x = k \<and> valid x \<and>
    map_of d (removeprefix ''sha256:'' k @ ''.json'') = Some (RegularFile (canonical_json (dump x))) \<and>
    int (length (canonical_json (dump x))) \<le> 65536"
proof
  assume "authority_get f valid dump d k = Inr x"
  then show "is_digest k \<and> model_digest dump x = k \<and> valid x \<and>
    map_of d (removeprefix ''sha256:'' k @ ''.json'') = Some (RegularFile (canonical_json (dump x))) \<and>
    int (length (canonical_json (dump x))) \<le> 65536"
    by (auto simp: authority_get_def model_digest_def model_validate_json_Some split: option.splits if_splits)
next
  assume r: "is_digest k \<and> model_digest dump x = k \<and> valid x \<and>
    map_of d (removeprefix ''sha256:'' k @ ''.json'') = Some (RegularFile (canonical_json (dump x))) \<and>
    int (length (canonical_json (dump x))) \<le> 65536"
  then have "model_validate_json f valid (canonical_json (dump x)) = Some x"
    using assms by (intro model_round_trip) simp_all
  moreover have "read_bounded 65536 d (removeprefix ''sha256:'' k @ ''.json'') = Inr (canonical_json (dump x))"
    using r by simp
  ultimately show "authority_get f valid dump d k = Inr x"
    using r by (simp add: authority_get_def model_digest_def)
qed

text \<open>
  Each of the three directories is a content-addressed store of the valid records of its model.
\<close>

lemma authority_store:
  assumes "\<And>x. f (norm_json (dump x)) = Some x" and "\<And>x. wf_json (dump x)"
    and "\<And>x. valid x \<Longrightarrow> int (length (canonical_json (dump x))) \<le> 65536"
  shows "object_store (authority_put dump w) (authority_get f valid dump) (\<lambda>x. x) valid (model_digest dump)"
proof
  fix x d k d'
  assume "valid x" "regular_only d" "authority_put dump w x d = Inr (k, d')"
  then show "authority_get f valid dump d' k = Inr x"
    using assms(3) by (auto simp: authority_put_def authority_get_Inr [OF assms(1,2)] model_digest_def
        content_digest_is_digest dest!: create_only_Inr)
next
  fix x d k d'
  assume put: "authority_put dump w x d = Inr (k, d')"
  then show "map_of d \<subseteq>\<^sub>m map_of d'"
    by (auto simp: authority_put_def dest: create_only_Inr)
  show "regular_only d \<Longrightarrow> regular_only d'"
    using put by (auto simp: authority_put_def dest: create_only_Inr)
next
  fix d d' k x
  assume "map_of d \<subseteq>\<^sub>m map_of d'" "authority_get f valid dump d k = Inr x"
  then show "authority_get f valid dump d' k = Inr x"
    by (auto simp: authority_get_Inr [OF assms(1,2)] map_le_def dom_def)
next
  fix d k x
  assume "authority_get f valid dump d k = Inr x"
  then show "model_digest dump x = k" by (simp add: authority_get_Inr [OF assms(1,2)])
qed

lemma int_size_256: "- 256 < i \<Longrightarrow> i < 256 \<Longrightarrow> length (show_int i) \<le> 4"
  using length_show_nat [of 3 "nat (- i)"] length_show_nat [of 3 "nat i"]
  by (auto simp: show_int_def nat_less_iff intro: le_trans)

lemma canary_bytes_bounded: "valid_canary r \<Longrightarrow> int (length (canonical_json (dump_canary r))) \<le> 65536"
proof -
  assume r: "valid_canary r"
  have "length (canonical_json (dump_canary r)) \<le> json_size (dump_canary r)" by (rule canonical_size)
  also have "\<dots> \<le> 65536"
  proof -
    have "length (canary_outcome_value (cr_outcome r)) \<le> 22" by (cases "cr_outcome r") simp_all
    moreover have "length (show_int (cr_dry_runs r)) \<le> 4" "length (show_int (cr_timeout_seconds r)) \<le> 4"
      "length (show_int (cr_exit_code r)) \<le> 4" "length (show_int (cr_signal r)) \<le> 4"
      using r by (auto simp: valid_canary_def intro!: int_size_256)
    moreover have "length (show_int (cr_executions r)) \<le> 7"
      using r by (intro show_int_size) (simp_all add: valid_canary_def)
    moreover have "length (cr_started_at r) \<le> 35" "length (cr_finished_at r) \<le> 35" "length (cr_report_id r) \<le> 96"
      using r by (simp_all add: valid_canary_def is_Timestamp_def is_Identifier_def)
    ultimately show ?thesis
      using r length_of_digest
      by (simp add: dump_canary_def dump_target_hashes_def valid_canary_def valid_target_hashes_def)
  qed
  finally show ?thesis by simp
qed

lemma report_bytes_bounded: "valid_report r \<Longrightarrow> int (length (canonical_json (dump_report r))) \<le> 65536"
proof -
  assume r: "valid_report r"
  have "length (canonical_json (dump_report r)) \<le> json_size (dump_report r)" by (rule canonical_size)
  also have "\<dots> \<le> 65536"
  proof -
    have "length (show_int (dv_artifact_size r)) \<le> 4" "length (show_int (dv_operation_count r)) \<le> 4"
      "length (show_int (dv_source_count r)) \<le> 4"
      using r by (auto simp: valid_report_def intro!: show_int_size)
    moreover have "list_all is_identifier_value (map JStr (dv_passed r))"
      using r by (simp add: valid_report_def list_all_iff)
    moreover have "length (dv_passed r) \<le> 128" "dv_failed r = []" "length (dv_created_at r) \<le> 35"
      "length (dv_report_id r) \<le> 96" "length (dv_compiler_version r) \<le> 96" "length (dv_validator_version r) \<le> 96"
      using r by (simp_all add: valid_report_def is_Timestamp_def is_Identifier_def len_between_def)
    ultimately show ?thesis
      using r length_of_digest
      by (simp add: dump_report_def dump_target_hashes_def valid_report_def valid_target_hashes_def)
  qed
  finally show ?thesis by simp
qed

lemma candidate_bytes_bounded: "valid_candidate c \<Longrightarrow> int (length (canonical_json (dump_candidate c))) \<le> 65536"
proof -
  assume c: "valid_candidate c"
  have "length (canonical_json (dump_candidate c)) \<le> json_size (dump_candidate c)" by (rule canonical_size)
  also have "\<dots> \<le> 65536"
  proof -
    have "length (show_int (ec_artifact_size c)) \<le> 4"
      using c by (intro show_int_size) (simp_all add: valid_candidate_def)
    moreover have "length (worker_value (ps_worker_set (ec_scope c))) \<le> 13" by (cases "ps_worker_set (ec_scope c)") simp_all
    moreover have "length (ps_destination_id (ec_scope c)) \<le> 14" "length (ps_campaign_id (ec_scope c)) \<le> 96"
      "length (ec_ready_at c) \<le> 35" "length (ec_candidate_id c) \<le> 96"
      using c by (auto simp: valid_candidate_def valid_scope_def is_Timestamp_def is_Identifier_def)
    moreover have "length (show_int 1) \<le> 1" by (rule show_int_size) simp_all
    ultimately show ?thesis
      using c length_of_digest
      by (simp add: dump_candidate_def dump_scope_def dump_target_hashes_def valid_candidate_def valid_target_hashes_def)
  qed
  finally show ?thesis by simp
qed

interpretation canary_reports: object_store "authority_put dump_canary w"
    "authority_get load_canary valid_canary dump_canary" "\<lambda>x. x" valid_canary "model_digest dump_canary" for w
  by (rule authority_store) (simp_all only: load_dump_canary wf_execution_dumps canary_bytes_bounded)

interpretation validation_reports: object_store "authority_put dump_report w"
    "authority_get load_report valid_report dump_report" "\<lambda>x. x" valid_report "model_digest dump_report" for w
  by (rule authority_store) (simp_all only: load_dump_report wf_execution_dumps report_bytes_bounded)

interpretation candidates: object_store "authority_put dump_candidate w"
    "authority_get load_candidate valid_candidate dump_candidate" "\<lambda>x. x" valid_candidate
    "model_digest dump_candidate" for w
  by (rule authority_store) (simp_all only: load_dump_candidate wf_execution_dumps candidate_bytes_bounded)

section \<open>From the compiler to the report\<close>

lemma report_checks_set: "set (report_checks e) = (\<Union>r \<in> set (qe_validations e). set (vr_passed r)) \<union> set AUTHORITY_CHECKS"
  by (auto simp: report_checks_def)

lemma report_checks_distinct: "distinct (report_checks e)"
  by (simp add: report_checks_def)

lemma report_checks_valid:
  assumes "valid_envelope e"
  shows "list_all is_Identifier (report_checks e) \<and> 5 \<le> length (report_checks e)"
proof -
  have a: "list_all is_Identifier AUTHORITY_CHECKS" "card (set AUTHORITY_CHECKS) = 5" by code_simp+
  have "length (report_checks e) = card (set (report_checks e))"
    using report_checks_distinct by (simp add: distinct_card)
  moreover have "card (set AUTHORITY_CHECKS) \<le> card (set (report_checks e))"
    by (rule card_mono) (simp_all add: report_checks_set)
  moreover have "\<forall>r \<in> set (qe_validations e). list_all is_Identifier (vr_passed r)"
    using assms by (auto simp: valid_envelope_def valid_validation_record_def list_all_iff)
  ultimately show ?thesis using a by (auto simp: list_all_iff report_checks_set)
qed

text \<open>The codec side of the report: a compiled payload decodes and encodes to itself.\<close>

lemma compiled_payload_recodes:
  assumes "compile_program file g c = Inr out"
  shows "\<exists>native. decode_program (cp_payload out) AUDITED_HARNESS_HASH = Inr native \<and>
    encode_program native AUDITED_HARNESS_HASH = Inr (cp_payload out) \<and>
    cp_operation_count out = int (length (operations native)) \<and> cp_harness_hash out = AUDITED_HARNESS_HASH"
proof -
  from assms obtain n where "cs_enabled (compile_status file (Some c))"
    and enc: "encode_program n (harness_hash (hc_target_hashes c)) = Inr (cp_payload out)"
    and "cp_operation_count out = int (length (operations n))" "cp_harness_hash out = harness_hash (hc_target_hashes c)"
    by (auto simp: compile_program_eq split: if_splits)
  then show ?thesis using harness.redecode [OF enc] by (auto simp: compiler_status_enabled)
qed

text \<open>The identifiers of a proposal's checks have one of four beginnings, none that of an authority check.\<close>

definition proposal_id :: "check_call \<Rightarrow> bool" where
  "proposal_id k \<longleftrightarrow> take 3 (fst k) \<in> {''bin'', ''con'', ''evi'', ''pro''}"

lemma proposal_id_simps [simp]:
  "proposal_id (''program.'' @ x, k)" "proposal_id (step_prefix g s @ x, k)"
  "proposal_id (''binding.packet-id'', k)" "proposal_id (''binding.target-hashes'', k)"
  "proposal_id (''contract.mode'', k)" "proposal_id (''contract.planner-view'', k)"
  "proposal_id (''evidence.references'', k)" "proposal_id (''contract.program-gate'', k)"
  "proposal_id (''proposal.variant-bound'', k)"
  by (simp_all add: proposal_id_def step_prefix_def)

lemma list_all_concat_map: "list_all P (concat (map f xs)) \<longleftrightarrow> (\<forall>x \<in> set xs. list_all P (f x))"
  by (auto simp: list_all_iff)

lemma list_all_when: "list_all P (if b then xs else []) \<longleftrightarrow> (b \<longrightarrow> list_all P xs)"
  by simp

lemma proposal_ids:
  "list_all proposal_id (step_calls c g s)" "list_all proposal_id (native_step_calls c g n s)"
  "list_all proposal_id (native_calls c g)" "list_all proposal_id (program_calls c g)"
  "list_all proposal_id (binding_calls t p c mode @ executable_calls file c p)"
proof -
  show step: "list_all proposal_id (step_calls c g s)" for g s
    by (simp add: step_calls_def Let_def split: option.split)
  show nat: "list_all proposal_id (native_step_calls c g n s)" for g n s
    by (auto simp: native_step_calls_def Let_def list_all_when split: option.split)
  have pre: "proposal_id ((''program.'' @ pg_program_id g) @ x, k)" for g x k by (simp add: proposal_id_def)
  show nats: "list_all proposal_id (native_calls c g)" for g
    using pre [of g] by (simp add: native_calls_def Let_def list_all_concat_map nat case_prod_unfold list_all_when)
  show prog: "list_all proposal_id (program_calls c g)" for g
    using pre [of g] nats
    by (simp add: program_calls_def Let_def list_all_concat_map step list_all_when split: option.split)
  show "list_all proposal_id (binding_calls t p c mode @ executable_calls file c p)"
    by (simp add: binding_calls_def executable_calls_def list_all_concat_map prog)
qed

lemma passed_not_authority:
  assumes "report_valid (validate_proposal file t p c mode)" and "\<not> pr_abstain p" "\<not> pr_analysis_only p"
    and "x \<in> set (ck_passed (validate_proposal file t p c mode))"
  shows "x \<notin> set AUTHORITY_CHECKS"
proof -
  have "x \<in> fst ` set (binding_calls t p c mode @ executable_calls file c p)"
    using assms passed_of_valid unfolding validate_proposal_def proposal_calls_def by auto
  then have "take 3 x \<in> {''bin'', ''con'', ''evi'', ''pro''}"
    using proposal_ids(5) [of t p c mode "file"] unfolding list_all_iff proposal_id_def by blast
  moreover have "\<forall>y \<in> set AUTHORITY_CHECKS. take 3 y \<notin> {''bin'', ''con'', ''evi'', ''pro''}" by code_simp
  ultimately show ?thesis by blast
qed

section \<open>Properties\<close>

text \<open>The report of an artifact the compiler made and the store kept.\<close>

lemma stored_artifact_report:
  assumes "compile_program file g c = Inr out"
    and "artifact_put w w' out b st = (Inr mid, st')" and "regular_only (as_manifests st)"
    and "valid_envelope e" and "mid \<in> set (qe_compiled_artifact_hashes e)"
    and "ab_proposal_digest b = qe_proposal_hash e" and "ab_contract_digest b = qe_harness_contract_hash e"
    and "ab_target_hashes b = qe_target_hashes e"
    and "qe_proposal_hash e = model_digest dump_proposal (qe_proposal e)"
    and "qe_reviewer_verdict_hash e = model_digest dump_verdict (qe_reviewer_verdict e)"
    and "\<forall>a. qe_auditor_verdict e = Some a \<longrightarrow> qe_auditor_verdict_hash e = Some (model_digest dump_verdict a)"
    and "\<exists>r \<in> set (qe_validations e). vr_validator_version r = ab_validator_version b \<and>
      vr_validator_hash r = ab_validator_hash b"
    and "length (report_checks e) \<le> 128" and "is_Timestamp created_at"
  shows "get_manifest st' mid = Inr (manifest_of out b) \<and> get_payload st' (manifest_of out b) = Inr (cp_payload out) \<and>
    (\<exists>r. build_validation_report (model_digest dump_envelope e) e mid (manifest_of out b) (cp_payload out) created_at = Inr r)"
proof -
  let ?m = "manifest_of out b"
  note put = artifact_put_Inr [OF assms(2)]
  have checks: "content_digest (cp_payload out) = cp_payload_hash out" "cp_harness_hash out = harness_hash (ab_target_hashes b)"
    "cp_compiler_hash out = compiler_hash (ab_target_hashes b)"
    using put by (auto simp: artifact_checks_def Let_def split: if_splits)
  have get: "get_manifest st' mid = Inr ?m" "get_payload st' ?m = Inr (cp_payload out)"
    using stored_artifact_readable [OF assms(2,3)] by blast+
  from compiled_payload_recodes [OF assms(1)] obtain n where n:
    "decode_program (cp_payload out) AUDITED_HARNESS_HASH = Inr n"
    "encode_program n AUDITED_HARNESS_HASH = Inr (cp_payload out)"
    "cp_operation_count out = int (length (operations n))" "cp_harness_hash out = AUDITED_HARNESS_HASH" by blast
  have ok: "first_failure (report_bindings (model_digest dump_envelope e) e mid ?m (cp_payload out)) = Inr ()"
    using assms put checks
    by (auto simp: first_failure_Inr report_bindings_def manifest_of_def manifest_digest_def model_digest_def
        list_ex_iff valid_envelope_def bind_related_artifacts_def split: option.splits)
  define r where "r = \<lparr>dv_report_id = ''validation-'' @ last_chars 24 mid, dv_created_at = created_at,
      dv_envelope_digest = model_digest dump_envelope e, dv_manifest_digest = mid,
      dv_artifact_digest = am_payload_digest ?m, dv_artifact_size = am_payload_size ?m,
      dv_operation_count = am_operation_count ?m, dv_proposal_digest = am_proposal_digest ?m,
      dv_program_digest = am_program_digest ?m, dv_contract_digest = am_contract_digest ?m,
      dv_target_hashes = am_target_hashes ?m, dv_compiler_version = COMPILER_VERSION,
      dv_compiler_hash = am_compiler_hash ?m, dv_validator_version = am_validator_version ?m,
      dv_validator_hash = am_validator_hash ?m, dv_source_count = int (length (qe_validations e)),
      dv_passed = report_checks e, dv_failed = []\<rparr>"
  have "valid_report r"
  proof -
    have mid: "is_digest mid" using put manifest_digest_is_digest by metis
    have "is_identifier_text ''validation-''" "is_Identifier COMPILER_VERSION" by code_simp+
    moreover have "is_Identifier (''validation-'' @ last_chars 24 mid)"
      by (rule hex_tail_identifier [OF mid]) (use calculation in simp_all)
    moreover have "1 \<le> length (qe_validations e)" "length (qe_validations e) \<le> 16"
      using assms(4) by (simp_all add: valid_envelope_def len_between_def)
    moreover have "valid_manifest ?m" using put by blast
    moreover have "am_compiler_hash ?m = compiler_hash (am_target_hashes ?m)"
      using checks(3) by (simp add: manifest_of_def)
    ultimately show ?thesis
      using mid report_checks_valid [OF assms(4)] report_checks_distinct assms(13,14)
      by (simp add: valid_report_def r_def valid_manifest_def checks_are_unique_and_target_bound_def len_between_def
          model_digest_def content_digest_is_digest)
  qed
  then have "build_validation_report (model_digest dump_envelope e) e mid ?m (cp_payload out) created_at = Inr r"
    unfolding build_validation_report_def ok
    using n checks(2) by (simp add: manifest_of_def r_def)
  with get show ?thesis by blast
qed

text \<open>
  Every artifact the pipeline stores can be taken to the canary: for a payload the compiler
  emitted and the store accepted, and an envelope that lists its manifest and carries the digests of
  its own parts, the manifest and payload read back from the store pass the independent
  revalidation, unless the envelope's checks are more than the report can list.
\<close>

lemma stored_artifacts_validate:
  assumes "compile_program file g c = Inr out"
    and "artifact_put w w' out b st = (Inr mid, st')" and "regular_only (as_manifests st)"
    and "valid_envelope e" and "mid \<in> set (qe_compiled_artifact_hashes e)"
    and "ab_proposal_digest b = qe_proposal_hash e" and "ab_contract_digest b = qe_harness_contract_hash e"
    and "ab_target_hashes b = qe_target_hashes e"
    and "qe_proposal_hash e = model_digest dump_proposal (qe_proposal e)"
    and "qe_reviewer_verdict_hash e = model_digest dump_verdict (qe_reviewer_verdict e)"
    and "\<forall>a. qe_auditor_verdict e = Some a \<longrightarrow> qe_auditor_verdict_hash e = Some (model_digest dump_verdict a)"
    and "\<exists>r \<in> set (qe_validations e). vr_validator_version r = ab_validator_version b \<and>
      vr_validator_hash r = ab_validator_hash b"
    and "length (report_checks e) \<le> 128" and "is_Timestamp created_at"
  shows "\<exists>m payload r. get_manifest st' mid = Inr m \<and> get_payload st' m = Inr payload \<and>
    build_validation_report (model_digest dump_envelope e) e mid m payload created_at = Inr r"
  using stored_artifact_report [OF assms] by blast

text \<open>
  C38: A report lists at most 128 checks, yet the checks of an accepted production program of
  fourteen steps and the five authority checks are more: for such a program an envelope can be
  built and quarantined, but its revalidation always fails, so it never reaches the canary.
\<close>

theorem long_programs_never_reach_canary:
  assumes "valid_proposal p" and "report_valid (validate_proposal file t p c mode)"
    and "\<not> pr_abstain p" and "\<not> pr_analysis_only p" and "g \<in> set (pr_programs p)"
    and "14 \<le> length (pg_steps g)" and "hc_environment c = PRODUCTION"
    and "validation_record_of (validate_proposal file t p c mode) \<in> set (qe_validations e)"
  shows "build_validation_report envelope_digest e mid m payload created_at \<noteq> Inr r"
proof
  assume "build_validation_report envelope_digest e mid m payload created_at = Inr r"
  then have "valid_report r" "dv_passed r = report_checks e"
    by (auto simp: build_validation_report_def Let_def split: sum.splits if_splits)
  then have "card (set (report_checks e)) \<le> 128"
    using report_checks_distinct by (simp add: valid_report_def len_between_def distinct_card)
  moreover have "128 < card (set (report_checks e))"
  proof -
    let ?p = "set (ck_passed (validate_proposal file t p c mode))"
    have "length (program_suffixes c) = 6" using assms(7) by (simp add: program_suffixes_def)
    with many_passed [OF assms(2-5) proposal_program [OF assms(1,5)]] assms(6)
    have "125 \<le> card ?p" by simp
    moreover have "?p \<inter> set AUTHORITY_CHECKS = {}"
      using passed_not_authority [OF assms(2-4)] by blast
    moreover have "card (set AUTHORITY_CHECKS) = 5" by code_simp
    ultimately have "130 \<le> card (?p \<union> set AUTHORITY_CHECKS)" by (subst card_Un_disjoint) auto
    moreover have "?p \<union> set AUTHORITY_CHECKS \<subseteq> set (report_checks e)"
      using assms(8) by (auto simp: report_checks_set validation_record_of_def)
    then have "card (?p \<union> set AUTHORITY_CHECKS) \<le> card (set (report_checks e))"
      by (rule card_mono [rotated]) simp
    ultimately show ?thesis by linarith
  qed
  ultimately show False by linarith
qed

lemma built_candidate:
  assumes "build_execution_candidate vd v kd k mid m scope ready_at allowed = Inr c"
    and "valid_canary k"
  shows "cr_runner_hash k \<in> allowed \<and> 1 \<le> cr_dry_runs k \<and> cr_dry_runs k \<le> cr_executions k \<and>
    cr_accepted k \<and> \<not> cr_infrastructure_error k \<and> cr_exit_code k = 0 \<and> \<not> cr_timed_out k \<and>
    cr_signal k = 0 \<and> cr_fleet_before k = cr_fleet_after k \<and>
    ec_validation_digest c = model_digest dump_report v \<and> cr_validation_digest k = model_digest dump_report v \<and>
    ec_canary_digest c = model_digest dump_canary k \<and>
    ec_manifest_digest c = model_digest dump_manifest m \<and> cr_manifest_digest k = ec_manifest_digest c \<and>
    ec_artifact_digest c = am_payload_digest m \<and> cr_artifact_digest k = ec_artifact_digest c \<and>
    dv_artifact_digest v = ec_artifact_digest c \<and> ec_artifact_size c = dv_artifact_size v \<and>
    ec_envelope_digest c = dv_envelope_digest v \<and> cr_envelope_digest k = ec_envelope_digest c \<and>
    ec_target_hashes c = cr_target_hashes k \<and> ec_target_hashes c = dv_target_hashes v \<and>
    ec_scope c = scope \<and> valid_candidate c"
  using assms
  by (auto simp: build_execution_candidate_def first_failure_Inr candidate_bindings_def Let_def
      valid_canary_def outcome_matches_measurements_def canary_passed_def split: if_splits)


section \<open>Witnesses\<close>

definition probe_verdict :: reviewer_verdict where
  "probe_verdict =
     \<lparr>rv_review_id = ''review-1'', rv_proposal_id = ''proposal-1'', rv_packet_id = ''packet-1'', rv_verdict = ACCEPT,
      rv_summary = ''The program is bounded and supported by the evidence.'', rv_findings = [],
      rv_checked_evidence_refs = [''evidence:coverage.1''], rv_required_changes = [],
      rv_residual_risk = RISK_LOW, safe_for_quarantine = True\<rparr>"

definition probe_trace :: "provider_role \<Rightarrow> provider_trace" where
  "probe_trace role =
     \<lparr>pt_role = role, pt_provider = ''openai'', pt_model = ''gpt-test'', pt_response_id = ''resp-1'',
      pt_client_request_id = ''request-1'', pt_input_tokens = 100, pt_output_tokens = 50,
      pt_reasoning_tokens = 0, pt_cost_microusd = 10\<rparr>"

abbreviation probe_plan :: planner_proposal where
  "probe_plan \<equiv> probe_proposal probe_hashes linked_steps"

definition probe_binding :: artifact_binding where
  "probe_binding =
     \<lparr>ab_proposal_digest = model_digest dump_proposal probe_plan,
      ab_program_digest = model_digest dump_program (probe_program linked_steps),
      ab_contract_digest = model_digest dump_contract probe_contract,
      ab_validator_version = VALIDATOR_VERSION, ab_validator_hash = VALIDATOR_HASH,
      ab_target_hashes = probe_hashes\<rparr>"

definition probe_envelope :: "string \<Rightarrow> quarantine_envelope" where
  "probe_envelope mid =
     \<lparr>qe_envelope_id = ''envelope-1'', qe_created_at = ''2026-01-02T03:04:05Z'',
      qe_telemetry_packet_hash = content_digest [1], qe_proposal_hash = model_digest dump_proposal probe_plan,
      qe_reviewer_verdict_hash = model_digest dump_verdict probe_verdict, qe_auditor_verdict_hash = None,
      qe_harness_contract_hash = model_digest dump_contract probe_contract, qe_compiled_artifact_hashes = [mid],
      qe_target_hashes = probe_hashes, qe_proposal = probe_plan, qe_reviewer_verdict = probe_verdict,
      qe_auditor_verdict = None,
      qe_validations = [\<lparr>vr_validator_version = VALIDATOR_VERSION, vr_validator_hash = VALIDATOR_HASH,
         vr_passed = [''binding.packet-id''], vr_failed = []\<rparr>],
      qe_provider_traces = [probe_trace PLANNER, probe_trace REVIEWER]\<rparr>"

lemma validator_constants: "is_Identifier VALIDATOR_VERSION" "is_digest VALIDATOR_HASH"
proof -
  show "is_Identifier VALIDATOR_VERSION" by code_simp
  show "is_digest VALIDATOR_HASH" by (simp add: VALIDATOR_HASH_def content_digest_is_digest)
qed

lemma probe_verdict_valid: "valid_verdict probe_verdict"
  by code_simp

lemma probe_envelope_valid: "is_digest mid \<Longrightarrow> valid_envelope (probe_envelope mid)"
proof -
  assume mid: "is_digest mid"
  have "is_Identifier ''envelope-1''" "is_Timestamp ''2026-01-02T03:04:05Z''"
    "list_all valid_trace [probe_trace PLANNER, probe_trace REVIEWER]" "is_Identifier ''binding.packet-id''"
    by code_simp+
  moreover have "valid_proposal probe_plan" using probe_contract_enabled(8) by (intro probe_proposal_valid) simp_all
  ultimately show ?thesis
    using mid validator_constants probe_contract_enabled(8) probe_verdict_valid
    by (simp add: valid_envelope_def probe_envelope_def bind_related_artifacts_def auditor_bound_def
        model_digest_def content_digest_is_digest len_between_def valid_validation_record_def)
      (simp add: probe_proposal_def probe_verdict_def probe_trace_def)
qed

lemma probe_artifact_put:
  obtains out mid st where "compile_program [] (probe_program linked_steps) probe_contract = Inr out"
    and "artifact_put WriteOk WriteOk out probe_binding \<lparr>as_payloads = [], as_manifests = []\<rparr> = (Inr mid, st)"
    and "is_digest mid"
proof -
  obtain out where out: "compile_program [] (probe_program linked_steps) probe_contract = Inr out"
    using probe_program_compiles by blast
  have vc: "valid_contract probe_contract" using authorising_enables [OF probe_contract_enabled(1)] by blast
  note rec = compiled_program_record [OF out]
  have count: "cp_operation_count out = 2"
    using compiled_program_operations [OF out vc] by (auto simp: probe_program_def linked_steps_def)
  have ne: "cp_payload out \<noteq> []"
    using compiled_payload_recodes [OF out] by (auto simp: decode_program_def)
  have size: "int (length (cp_payload out)) \<le> 2048"
    using rec authorising_enables [OF probe_contract_enabled(1)] by simp
  have h: "harness_hash probe_hashes = AUDITED_HARNESS_HASH" "compiler_hash probe_hashes = content_digest []"
    using probe_contract_enabled(2) by (simp_all add: compiler_status_enabled)
  have pid: "cp_program_id out = ''probe''"
    using out by (auto simp: compile_program_eq probe_program_def split: if_splits)
  have checks: "artifact_checks out probe_binding = Inr ()"
    using rec count ne size h by (cases "cp_payload out") (simp_all add: artifact_checks_def probe_binding_def)
  have "is_Identifier ''probe''" by code_simp
  moreover have "is_digest (cp_payload_hash out)" using rec by (simp add: content_digest_is_digest)
  ultimately have m: "valid_manifest (manifest_of out probe_binding)"
    using rec count ne size pid validator_constants probe_contract_enabled(8) artifact_id_valid [of "cp_payload_hash out"]
    by (cases "cp_payload out")
      (simp_all add: valid_manifest_def manifest_of_def probe_binding_def model_digest_def content_digest_is_digest)
  have "\<exists>mid st. artifact_put WriteOk WriteOk out probe_binding \<lparr>as_payloads = [], as_manifests = []\<rparr> = (Inr mid, st)"
    using checks m
    by (simp add: artifact_put_def Let_def artifact_create_def store_manifest_def create_only_def exists_name_def)
  then obtain mid st where put:
    "artifact_put WriteOk WriteOk out probe_binding \<lparr>as_payloads = [], as_manifests = []\<rparr> = (Inr mid, st)" by blast
  with artifact_put_Inr [OF put] manifest_digest_is_digest that [OF out put] show thesis by metis
qed

lemma stored_artifacts_validate_witness:
  "\<exists>st mid m payload r. get_manifest st mid = Inr m \<and> get_payload st m = Inr payload \<and>
    build_validation_report (model_digest dump_envelope (probe_envelope mid)) (probe_envelope mid) mid m payload
      ''2026-01-02T03:05:00Z'' = Inr r"
proof -
  obtain out mid st where out: "compile_program [] (probe_program linked_steps) probe_contract = Inr out"
    and put: "artifact_put WriteOk WriteOk out probe_binding \<lparr>as_payloads = [], as_manifests = []\<rparr> = (Inr mid, st)"
    and mid: "is_digest mid" by (rule probe_artifact_put)
  have "length (report_checks (probe_envelope mid)) = 6"
  proof -
    have "set (report_checks (probe_envelope mid)) = insert ''binding.packet-id'' (set AUTHORITY_CHECKS)"
      by (simp add: report_checks_set probe_envelope_def)
    moreover have "card (insert ''binding.packet-id'' (set AUTHORITY_CHECKS)) = 6" by code_simp
    ultimately show ?thesis using report_checks_distinct distinct_card by metis
  qed
  moreover have "is_Timestamp ''2026-01-02T03:05:00Z''" by code_simp
  ultimately show ?thesis
    using stored_artifacts_validate [OF out put _ probe_envelope_valid [OF mid],
        where created_at = "''2026-01-02T03:05:00Z''"]
    by (simp add: probe_envelope_def probe_binding_def) blast
qed

lemma long_programs_never_reach_canary_witness:
  "\<forall>ed mid m payload created_at r. build_validation_report ed ((probe_envelope mid)\<lparr>qe_validations := [validation_record_of
      (validate_proposal [] (probe_packet probe_hashes) (probe_proposal probe_hashes long_steps) probe_contract ShadowMode)]\<rparr>)
     mid m payload created_at \<noteq> Inr r"
  by (intro allI long_programs_never_reach_canary [OF probe_proposal_valid [OF probe_contract_enabled(8)]
        probe_accepted probe_proposal_simps _ probe_contract_enabled(3)])
    (simp_all add: probe_program_def long_steps_def)

definition probe_report :: validation_report where
  "probe_report =
     \<lparr>dv_report_id = ''validation-1'', dv_created_at = ''2026-01-02T03:05:00Z'',
      dv_envelope_digest = content_digest [1],
      dv_manifest_digest = model_digest dump_manifest (manifest_of sample_compiled sample_binding),
      dv_artifact_digest = content_digest [1, 2, 3], dv_artifact_size = 3, dv_operation_count = 1,
      dv_proposal_digest = content_digest [1], dv_program_digest = content_digest [2],
      dv_contract_digest = content_digest [3], dv_target_hashes = sample_hashes,
      dv_compiler_version = COMPILER_VERSION, dv_compiler_hash = compiler_hash sample_hashes,
      dv_validator_version = ''semantic-validator.v4'', dv_validator_hash = content_digest [4],
      dv_source_count = 1, dv_passed = AUTHORITY_CHECKS, dv_failed = []\<rparr>"

definition probe_canary :: canary_report where
  "probe_canary =
     \<lparr>cr_report_id = ''canary-1'', cr_started_at = ''2026-01-02T03:06:00Z'', cr_finished_at = ''2026-01-02T03:07:00Z'',
      cr_envelope_digest = content_digest [1], cr_validation_digest = model_digest dump_report probe_report,
      cr_manifest_digest = model_digest dump_manifest (manifest_of sample_compiled sample_binding),
      cr_artifact_digest = content_digest [1, 2, 3], cr_target_hashes = sample_hashes,
      cr_runner_hash = content_digest [5], cr_result_digest = content_digest [6], cr_outcome = CANARY_PASSED,
      cr_dry_runs = 1, cr_executions = 4, cr_timeout_seconds = 30, cr_accepted = True,
      cr_infrastructure_error = False, cr_exit_code = 0, cr_timed_out = False, cr_signal = 0,
      cr_fleet_before = content_digest [7], cr_fleet_after = content_digest [7]\<rparr>"

lemma probe_canary_valid: "valid_canary probe_canary"
proof -
  have "is_Identifier ''canary-1''" "is_Timestamp ''2026-01-02T03:06:00Z''" "is_Timestamp ''2026-01-02T03:07:00Z''"
    "valid_target_hashes sample_hashes"
    "case (parse_timestamp ''2026-01-02T03:06:00Z'', parse_timestamp ''2026-01-02T03:07:00Z'') of
       (Some started, Some finished) \<Rightarrow> \<not> finished < started | _ \<Rightarrow> False"
    by code_simp+
  then show ?thesis
    by (simp add: valid_canary_def probe_canary_def content_digest_is_digest model_digest_def
        outcome_matches_measurements_def canary_interval_ok_def canary_passed_def)
qed

definition probe_scope :: promotion_scope where
  "probe_scope = \<lparr>ps_campaign_id = ''campaign'', ps_destination_id = ''native_ai_sync'', ps_worker_set = NATIVE_STABLE\<rparr>"

lemma probe_candidate:
  "\<exists>c. build_execution_candidate (model_digest dump_report probe_report) probe_report
     (model_digest dump_canary probe_canary) probe_canary
     (model_digest dump_manifest (manifest_of sample_compiled sample_binding)) (manifest_of sample_compiled sample_binding)
     probe_scope ''2026-01-02T03:08:00Z'' {content_digest [5]} = Inr c"
proof -
  have "is_Timestamp ''2026-01-02T03:08:00Z''" "valid_target_hashes sample_hashes" "valid_scope probe_scope"
    "is_identifier_text ''candidate-''"
    by code_simp+
  moreover have "is_digest (model_digest dump_canary probe_canary)" by (simp add: model_digest_def content_digest_is_digest)
  moreover from this have "is_Identifier (''candidate-'' @ last_chars 24 (model_digest dump_canary probe_canary))"
    by (rule hex_tail_identifier) (use calculation in simp_all)
  ultimately show ?thesis
    by (simp add: build_execution_candidate_def first_failure_def candidate_bindings_def valid_candidate_def)
      (simp add: probe_report_def probe_canary_def manifest_of_def sample_compiled_def sample_binding_def
        model_digest_def content_digest_is_digest)
qed


end
