(* ===== verification/Pipeline.thy ===== *)
theory Pipeline
  imports Feedback Prompts Budget Artifacts Execution
begin

text \<open>
  The shadow pipeline of \<open>src/iou_ai/pipeline.py\<close>: pricing and ledger configuration, one paid call of
  a provider, the planner's fallbacks, and \<open>run\<close>, from the first check of the inputs to the envelope
  in the quarantine.  An operation is a function of the stores it is given and returns its result or
  exception with the stores it leaves.  A provider is a function from requests to what its single
  attempt did; every clock, identifier and write outcome of one dispatch is an argument.
\<close>

section \<open>Operations on the stores\<close>

record pipeline_state =
  ps_ledger :: table
  ps_feedback :: directory
  ps_artifacts :: artifact_store
  ps_quarantine :: directory
  ps_rejected :: "string option"

datatype provider_failure = Refused | HttpStatus int | OtherProviderError | Interrupted

datatype pipeline_error =
    PipelineError string
  | PipelineRejected string
  | LedgerError budget_error
  | ProviderFailed provider_failure
  | RequestInvalid
  | SemanticError checks
  | FeedbackFailed feedback_error
  | CompileFailed compile_error
  | ArtifactFailed artifact_error
  | EnvelopeInvalid
  | QuarantineFailed quarantine_error
  | TimestampInvalid

type_synonym 'a action = "pipeline_state \<Rightarrow> (pipeline_error + 'a) \<times> pipeline_state"

definition returnA :: "'a \<Rightarrow> 'a action" where
  "returnA x = (\<lambda>s. (Inr x, s))"

definition failA :: "pipeline_error \<Rightarrow> 'a action" where
  "failA e = (\<lambda>s. (Inl e, s))"

definition liftA :: "pipeline_error + 'a \<Rightarrow> 'a action" where
  "liftA r = (\<lambda>s. (r, s))"

definition bindA :: "'a action \<Rightarrow> ('a \<Rightarrow> 'b action) \<Rightarrow> 'b action" where
  "bindA m k = (\<lambda>s. case m s of (Inl e, s') \<Rightarrow> (Inl e, s') | (Inr x, s') \<Rightarrow> k x s')"

section \<open>Configuration\<close>

text \<open>A \<open>Decimal\<close> by its coefficient and exponent.\<close>

record decimal =
  coefficient :: int
  exponent :: int

text \<open>
  \<open>usd_to_microdollars\<close> of a finite \<open>Decimal\<close> whose product fits the 28 digits of the context, so that
  nothing is rounded but the last step.
\<close>

definition usd_to_microdollars :: "decimal \<Rightarrow> budget_error + int" where
  "usd_to_microdollars d =
     (if coefficient d < 0 then Inl (BudgetConfigurationError ''USD value must be finite and non-negative'')
      else
        (let e = exponent d + 6
         in Inr (if 0 \<le> e then coefficient d * 10 ^ nat e
                 else - (- coefficient d div 10 ^ nat (- e)))))"

text \<open>\<open>date.fromisoformat\<close> on \<open>YYYY-MM-DD\<close> and \<open>YYYYMMDD\<close>; the ISO week forms are read as invalid.\<close>

definition date_of_numbers :: "int \<Rightarrow> int \<Rightarrow> int \<Rightarrow> int option" where
  "date_of_numbers y m d =
     (if 1 \<le> y \<and> 1 \<le> m \<and> m \<le> 12 \<and> 1 \<le> d \<and> d \<le> days_in_month y m then Some (ymd2ord y m d) else None)"

definition date_fromisoformat :: "string \<Rightarrow> int option" where
  "date_fromisoformat s =
     (if matches_template ''dddd-dd-dd'' s then date_of_numbers (number_at s 0 4) (number_at s 5 2) (number_at s 8 2)
      else if matches_template ''dddddddd'' s then
        date_of_numbers (number_at s 0 4) (number_at s 4 2) (number_at s 6 2)
      else None)"

record provider_config =
  pc_name :: string
  pc_endpoint :: string
  pc_model :: string
  pc_credential_file :: string
  pc_monthly_call_limit :: int
  pc_max_input_tokens :: int
  pc_max_output_tokens :: int
  pc_input_usd :: decimal
  pc_output_usd :: decimal
  pc_pricing_version :: string
  pc_pricing_effective :: string
  pc_pricing_expires :: string
  pc_reasoning_effort :: string
  pc_request_timeout :: int

definition parse_date :: "string \<Rightarrow> string \<Rightarrow> pipeline_error + int" where
  "parse_date value_text name =
     (case date_fromisoformat value_text of
        None \<Rightarrow> Inl (PipelineError (''invalid '' @ name @ '' date in pricing configuration''))
      | Some d \<Rightarrow> Inr d)"

definition pricing_policy :: "provider_config \<Rightarrow> pipeline_error + pricing_policy" where
  "pricing_policy p =
     bindR (parse_date (pc_pricing_effective p) ''effective'') (\<lambda>from.
     bindR (parse_date (pc_pricing_expires p) ''expiry'') (\<lambda>until.
     wrapR LedgerError
       (bindR (usd_to_microdollars (pc_input_usd p)) (\<lambda>i.
        bindR (usd_to_microdollars (pc_output_usd p)) (\<lambda>out.
        post_init_policy
          \<lparr>pp_provider = pc_name p, pp_model = pc_model p, pp_version = pc_pricing_version p,
           effective_from = from, effective_until = Some until, input_rate = i, output_rate = out,
           cached_input_rate = None\<rparr>)))))"

record budget_settings =
  bs_hard_limit :: decimal
  bs_warnings :: "decimal list"
  bs_daily_limit :: "decimal option"

text \<open>A provider named twice keeps the last of its limits, at the place of the first.\<close>

definition build_ledger :: "budget_settings \<Rightarrow> provider_config list \<Rightarrow> pipeline_error + ledger_config" where
  "build_ledger b providers =
     wrapR LedgerError
       (bindR (usd_to_microdollars (bs_hard_limit b)) (\<lambda>hard.
        bindR (traverse usd_to_microdollars (bs_warnings b)) (\<lambda>warnings.
        bindR (case bs_daily_limit b of
                 None \<Rightarrow> Inr None
               | Some d \<Rightarrow> bindR (usd_to_microdollars d) (\<lambda>x. Inr (Some x))) (\<lambda>daily.
        init_ledger hard
          (dict_of_pairs (map (\<lambda>p. ((pc_name p, pc_model p), pc_monthly_call_limit p)) providers))
          warnings daily))))"

record pipeline_config =
  cf_ledger :: ledger_config
  cf_mode :: runtime_mode
  cf_max_packet_bytes :: int
  cf_max_response_bytes :: int
  cf_planner :: provider_config
  cf_fallbacks :: "provider_config list"
  cf_reviewer :: provider_config
  cf_auditor :: provider_config
  cf_auditor_enabled :: bool
  cf_auditor_present :: bool
  cf_sample_every :: int
  cf_compiler_file :: bytes
  cf_proposal_schema :: json
  cf_verdict_schema :: json

section \<open>Requests\<close>

text \<open>The length of the UTF-8 encoding.\<close>

definition utf8_length :: "string \<Rightarrow> int" where
  "utf8_length s = sum_list (map (\<lambda>c. if (of_char c :: nat) < 128 then 1 else 2) s)"

definition utf8_bytes :: "string \<Rightarrow> bytes" where
  "utf8_bytes s =
     concat (map (\<lambda>c. let n = of_char c :: int in
       if n < 128 then [word_of_int n] else [word_of_int (192 + n div 64), word_of_int (128 + n mod 64)]) s)"

definition dump_telemetry :: "telemetry_packet \<Rightarrow> json" where
  "dump_telemetry t =
     (case dump_packet_body t of
        JObj kvs \<Rightarrow> JObj (kvs @ [(''packet_hash'', JStr (tp_packet_hash t))])
      | v \<Rightarrow> v)"

definition request_key :: "string \<Rightarrow> provider_config \<Rightarrow> string \<Rightarrow> string \<Rightarrow> json \<Rightarrow> string" where
  "request_key role p system_prompt input_text schema =
     sha256 (canonical_json (JObj
       [(''role'', JStr role), (''provider'', JStr (pc_name p)), (''model'', JStr (pc_model p)),
        (''pricing'', JStr (pc_pricing_version p)),
        (''generation'', JObj
           [(''max_input_tokens'', JInt (pc_max_input_tokens p)),
            (''max_output_tokens'', JInt (pc_max_output_tokens p)),
            (''reasoning_effort'', JStr (pc_reasoning_effort p)),
            (''request_timeout_seconds'', JInt (pc_request_timeout p))]),
        (''prompt'', JStr system_prompt), (''input'', JStr input_text), (''schema'', schema)]))"

definition client_id :: "string \<Rightarrow> string \<Rightarrow> string" where
  "client_id role key = role @ ''-'' @ take 24 key"

definition principal_id :: "string \<Rightarrow> string" where
  "principal_id fleet_id = ''principal-'' @ take 32 (sha256 (utf8_bytes fleet_id))"

record provider_request =
  rq_system_prompt :: string
  rq_input_text :: string
  rq_json_schema :: json
  rq_schema_name :: string
  rq_client_request_id :: string
  rq_principal_id :: "string option"
  rq_schema_description :: string

definition valid_request :: "provider_request \<Rightarrow> bool" where
  "valid_request r \<longleftrightarrow>
     \<not> is_blank (rq_system_prompt r) \<and> \<not> is_blank (rq_input_text r) \<and> \<not> is_blank (rq_schema_name r) \<and>
     \<not> is_blank (rq_client_request_id r) \<and> \<not> is_blank (rq_schema_description r) \<and>
     is_object (rq_json_schema r) \<and> pred_option (\<lambda>p. \<not> is_blank p) (rq_principal_id r)"

record token_usage =
  tu_input_tokens :: int
  tu_output_tokens :: int
  tu_cached_input_tokens :: int
  tu_cache_creation_input_tokens :: int
  tu_reasoning_tokens :: int
  tu_total_tokens :: int

record provider_result =
  rs_provider :: string
  rs_model :: string
  rs_text :: string
  rs_response_id :: "string option"
  rs_provider_request_id :: "string option"
  rs_client_request_id :: string
  rs_status :: string
  rs_usage :: "token_usage option"

text \<open>\<open>ProviderHTTPError.retryable\<close>, and the failures that are a \<open>ProviderError\<close>.\<close>

definition retryable :: "int \<Rightarrow> bool" where
  "retryable status_code \<longleftrightarrow> status_code \<in> {408, 409, 429} \<or> status_code \<ge> 500"

fun is_provider_error :: "provider_failure \<Rightarrow> bool" where
  "is_provider_error Interrupted = False"
| "is_provider_error _ = True"

section \<open>One paid call\<close>

text \<open>What one dispatch meets outside the program: the two ledger operations and the provider.\<close>

record dispatch =
  dp_reserve :: budget_env
  dp_close :: budget_env
  dp_generate :: "provider_request \<Rightarrow> provider_failure + provider_result"

record provider_call =
  call_result :: provider_result
  call_settlement :: settlement

definition reserve_arguments :: "string \<Rightarrow> provider_config \<Rightarrow> pricing_policy \<Rightarrow> string \<Rightarrow> reserve_args" where
  "reserve_arguments role p policy key =
     \<lparr>ra_provider = pc_name p, ra_model = pc_model p, ra_request_key = key, ra_worst_case = PyNone,
      ra_policy = policy, ra_now = None,
      ra_details = Some [(''role'', JStr role), (''request_digest'', JStr key)]\<rparr>"

text \<open>
  A decline that produced no output is settled at zero; whatever may have cost something is
  abandoned, which charges the reserve.
\<close>

definition close_failed ::
  "budget_env \<Rightarrow> string \<Rightarrow> string \<Rightarrow> provider_failure \<Rightarrow> table \<Rightarrow> budget_error + settlement \<times> table" where
  "close_failed env role rid failure t =
     (let details = [(''role'', JStr role)];
          declined = settle env t rid (PyInt 0) (PyInt 0) (PyInt 0) None
            (Some (details @ [(''outcome'', JStr ''provider_declined'')]))
      in case failure of
           Refused \<Rightarrow> declined
         | HttpStatus status_code \<Rightarrow>
             if retryable status_code then
               abandon env t rid ''retryable provider HTTP error with uncertain state'' None (Some details)
             else declined
         | _ \<Rightarrow> abandon env t rid ''provider call failed or completion state was uncertain'' None (Some details))"

definition usage_object :: "(token_usage \<Rightarrow> int) \<Rightarrow> provider_result \<Rightarrow> py_object" where
  "usage_object f r = (case rs_usage r of None \<Rightarrow> PyNone | Some u \<Rightarrow> PyInt (f u))"

definition or_missing :: "string option \<Rightarrow> string" where
  "or_missing x = (case x of None \<Rightarrow> ''missing'' | Some s \<Rightarrow> if s = [] then ''missing'' else s)"

definition close_completed ::
  "budget_env \<Rightarrow> string \<Rightarrow> string \<Rightarrow> provider_result \<Rightarrow> table \<Rightarrow> budget_error + settlement \<times> table" where
  "close_completed env role rid r t =
     settle env t rid (usage_object tu_input_tokens r) (usage_object tu_output_tokens r)
       (usage_object tu_cached_input_tokens r) None
       (Some [(''role'', JStr role), (''response_id'', JStr (or_missing (rs_response_id r))),
              (''provider_request_id'', JStr (or_missing (rs_provider_request_id r)))])"

text \<open>The part of \<open>_call\<close> after the reservation.\<close>

definition dispatch_reserved ::
  "pipeline_config \<Rightarrow> dispatch \<Rightarrow> string \<Rightarrow> string \<Rightarrow> provider_request \<Rightarrow> table
     \<Rightarrow> (pipeline_error + provider_call) \<times> table" where
  "dispatch_reserved cfg dp role rid request t =
     (if \<not> valid_request request then (Inl RequestInvalid, t)
      else
        (case dp_generate dp request of
           Inl failure \<Rightarrow>
             (case close_failed (dp_close dp) role rid failure t of
                Inl e \<Rightarrow> (Inl (LedgerError e), t)
              | Inr (_, t') \<Rightarrow> (Inl (ProviderFailed failure), t'))
         | Inr result \<Rightarrow>
             (case close_completed (dp_close dp) role rid result t of
                Inl e \<Rightarrow> (Inl (LedgerError e), t)
              | Inr (settled, t') \<Rightarrow>
                  (if utf8_length (rs_text result) > cf_max_response_bytes cfg then
                     Inl (PipelineRejected ''provider output exceeds the local byte cap'')
                   else Inr \<lparr>call_result = result, call_settlement = settled\<rparr>, t'))))"

definition request_of ::
  "string \<Rightarrow> string \<Rightarrow> string \<Rightarrow> string \<Rightarrow> json \<Rightarrow> string \<Rightarrow> string \<Rightarrow> provider_request" where
  "request_of role key system_prompt input_text schema schema_name principal_name =
     \<lparr>rq_system_prompt = system_prompt, rq_input_text = input_text, rq_json_schema = schema,
      rq_schema_name = schema_name, rq_client_request_id = client_id role key,
      rq_principal_id = Some principal_name,
      rq_schema_description = ''Machine-readable output for the fuzzing controller.''\<rparr>"

definition call_on ::
  "pipeline_config \<Rightarrow> dispatch \<Rightarrow> string \<Rightarrow> provider_config \<Rightarrow> string \<Rightarrow> string \<Rightarrow> json \<Rightarrow> string \<Rightarrow> string
     \<Rightarrow> table \<Rightarrow> (pipeline_error + provider_call) \<times> table" where
  "call_on cfg dp role p system_prompt input_text schema schema_name principal_name t =
     (if utf8_length input_text > cf_max_packet_bytes cfg then
        (Inl (PipelineRejected ''sanitized request exceeds the local byte cap''), t)
      else
        (let key = request_key role p system_prompt input_text schema
         in case pricing_policy p of
              Inl e \<Rightarrow> (Inl e, t)
            | Inr policy \<Rightarrow>
                (case reserve_for_tokens (cf_ledger cfg) (dp_reserve dp) t (reserve_arguments role p policy key)
                        (PyInt (pc_max_input_tokens p)) (PyInt (pc_max_output_tokens p)) (PyInt 0) of
                   Inl e \<Rightarrow> (Inl (LedgerError e), t)
                 | Inr (r, t') \<Rightarrow>
                     dispatch_reserved cfg dp role (res_id r)
                       (request_of role key system_prompt input_text schema schema_name principal_name) t')))"

text \<open>\<open>_call\<close>: of the stores it touches only the ledger.\<close>

definition paid_call ::
  "pipeline_config \<Rightarrow> dispatch \<Rightarrow> string \<Rightarrow> provider_config \<Rightarrow> string \<Rightarrow> string \<Rightarrow> json \<Rightarrow> string \<Rightarrow> string
     \<Rightarrow> provider_call action" where
  "paid_call cfg dp role p system_prompt input_text schema schema_name principal_name =
     (\<lambda>s. case call_on cfg dp role p system_prompt input_text schema schema_name principal_name (ps_ledger s) of
        (r, t) \<Rightarrow> (r, s\<lparr>ps_ledger := t\<rparr>))"

section \<open>The planner's fallbacks\<close>

text \<open>What lets the loop go on to the next candidate.\<close>

fun advances :: "pipeline_error \<Rightarrow> bool" where
  "advances (ProviderFailed failure) = is_provider_error failure"
| "advances (LedgerError QuotaExceeded) = True"
| "advances _ = False"

text \<open>The loop; \<open>last_error\<close> is raised when no candidate is left.\<close>

fun try_candidates ::
  "pipeline_config \<Rightarrow> string \<Rightarrow> string \<Rightarrow> json \<Rightarrow> string \<Rightarrow> string \<Rightarrow> pipeline_error
     \<Rightarrow> (dispatch \<times> provider_config) list \<Rightarrow> provider_call action" where
  "try_candidates cfg system_prompt input_text schema schema_name principal_name last_error [] = failA last_error"
| "try_candidates cfg system_prompt input_text schema schema_name principal_name last_error ((dp, p) # candidates) =
     (\<lambda>s. case paid_call cfg dp ''planner'' p system_prompt input_text schema schema_name principal_name s of
        (Inr c, s') \<Rightarrow> (Inr c, s')
      | (Inl e, s') \<Rightarrow>
          if advances e then
            try_candidates cfg system_prompt input_text schema schema_name principal_name e candidates s'
          else (Inl e, s'))"

definition planner_candidates :: "pipeline_config \<Rightarrow> (nat \<Rightarrow> dispatch) \<Rightarrow> (dispatch \<times> provider_config) list" where
  "planner_candidates cfg dps =
     (let providers = cf_planner cfg # cf_fallbacks cfg in zip (map dps [0..<length providers]) providers)"

definition call_planner ::
  "pipeline_config \<Rightarrow> (nat \<Rightarrow> dispatch) \<Rightarrow> string \<Rightarrow> string \<Rightarrow> json \<Rightarrow> string \<Rightarrow> string \<Rightarrow> provider_call action" where
  "call_planner cfg dps system_prompt input_text schema schema_name principal_name =
     try_candidates cfg system_prompt input_text schema schema_name principal_name
       (PipelineRejected ''no planner provider is configured'')
       (planner_candidates cfg dps)"

section \<open>Reading a model's answer\<close>

text \<open>
  \<open>_parse_model\<close>: the diagnostics of a refused document (the fields and kinds of its errors) are not
  modelled; a document that is a JSON object but no such model is written to the debugging file.
\<close>

definition parse_model ::
  "write_outcome \<Rightarrow> 'a loader \<Rightarrow> ('a \<Rightarrow> bool) \<Rightarrow> string \<Rightarrow> provider_call \<Rightarrow> 'a action" where
  "parse_model w f valid label c =
     (\<lambda>s. case loads_text (rs_text (call_result c)) of
        None \<Rightarrow> (Inl (PipelineRejected (label @ '' failed strict local validation (invalid_json)'')), s)
      | Some v \<Rightarrow>
          if \<not> is_object v then
            (Inl (PipelineRejected (label @ '' failed strict local validation (root:not_object)'')), s)
          else
            (case Option.bind (f v) (\<lambda>x. if valid x then Some x else None) of
               Some x \<Rightarrow> (Inr x, s)
             | None \<Rightarrow>
                 (Inl (PipelineRejected (label @ '' failed strict local validation'')),
                  if w = WriteOk then s\<lparr>ps_rejected := Some (take 65536 (rs_text (call_result c)))\<rparr> else s)))"

definition trace_of :: "provider_role \<Rightarrow> provider_call \<Rightarrow> pipeline_error + provider_trace" where
  "trace_of role c =
     (let r = call_result c in
      case rs_response_id r of
        None \<Rightarrow> Inl (PipelineRejected ''provider omitted the response identifier'')
      | Some response_id \<Rightarrow>
          (let count = (\<lambda>f. case rs_usage r of None \<Rightarrow> 0 | Some u \<Rightarrow> f u);
               t = \<lparr>pt_role = role, pt_provider = rs_provider r, pt_model = rs_model r,
                 pt_response_id = response_id, pt_client_request_id = rs_client_request_id r,
                 pt_input_tokens = count tu_input_tokens, pt_output_tokens = count tu_output_tokens,
                 pt_reasoning_tokens = count tu_reasoning_tokens,
                 pt_cost_microusd = charged_microdollars (call_settlement c)\<rparr>
           in if valid_trace t then Inr t
              else Inl (PipelineRejected ''provider trace failed strict local validation'')))"

section \<open>The run\<close>

record run_env =
  re_planners :: "nat \<Rightarrow> dispatch"
  re_reviewer :: dispatch
  re_auditor :: dispatch
  re_validated_at :: instant
  re_feedback_at :: instant
  re_feedback_write :: write_outcome
  re_artifact_writes :: "nat \<Rightarrow> write_outcome \<times> write_outcome"
  re_enveloped_at :: instant
  re_quarantine_write :: write_outcome
  re_debug_writes :: "provider_role \<Rightarrow> write_outcome"

datatype run_outcome = Abstained string | Quarantined string

definition require_report :: "checks \<Rightarrow> checks action" where
  "require_report r = liftA (wrapR SemanticError (require_valid r))"

definition check_inputs :: "pipeline_config \<Rightarrow> run_env \<Rightarrow> telemetry_packet \<Rightarrow> harness_contract \<Rightarrow> checks action" where
  "check_inputs cfg env t c =
     (case validate_run_inputs (cf_compiler_file cfg) t c (cf_mode cfg) (re_validated_at env) of
        None \<Rightarrow> failA TimestampInvalid
      | Some r \<Rightarrow> require_report r)"

definition propose ::
  "pipeline_config \<Rightarrow> run_env \<Rightarrow> telemetry_packet \<Rightarrow> harness_contract
     \<Rightarrow> (provider_call \<times> planner_proposal \<times> checks) action" where
  "propose cfg env t c =
     bindA (call_planner cfg (re_planners env) PLANNER_INSTRUCTIONS
         (planner_input (render (dump_telemetry t)) (render (dump_contract c)))
         (strict_json_schema (cf_proposal_schema cfg)) ''io_uring_fuzz_plan_v1'' (principal_id (tp_fleet_id t)))
       (\<lambda>call.
     bindA (parse_model (re_debug_writes env PLANNER) load_proposal valid_proposal ''planner proposal'' call)
       (\<lambda>p.
     bindA (require_report (validate_proposal (cf_compiler_file cfg) t p c (cf_mode cfg))) (\<lambda>report.
     returnA (call, p, report))))"

definition validation_text :: "checks \<Rightarrow> string" where
  "validation_text r =
     render (JObj [(''valid'', JBool (report_valid r)), (''passed_check_ids'', strs (ck_passed r)),
       (''failed_check_ids'', strs (failed_check_ids r))])"

definition store_feedback ::
  "run_env \<Rightarrow> telemetry_packet \<Rightarrow> planner_proposal \<Rightarrow> reviewer_verdict \<Rightarrow> checks \<Rightarrow> unit action" where
  "store_feedback env t p v report =
     (\<lambda>s. case bindR (build_review_feedback t p v report (Aware (re_feedback_at env)))
            (\<lambda>r. feedback_put (re_feedback_write env) r (ps_feedback s)) of
        Inl e \<Rightarrow> (Inl (FeedbackFailed e), s)
      | Inr (_, d) \<Rightarrow> (Inr (), s\<lparr>ps_feedback := d\<rparr>))"

definition review ::
  "pipeline_config \<Rightarrow> run_env \<Rightarrow> telemetry_packet \<Rightarrow> harness_contract \<Rightarrow> planner_proposal \<Rightarrow> checks
     \<Rightarrow> (provider_call \<times> reviewer_verdict \<times> checks) action" where
  "review cfg env t c p proposal_report =
     bindA (paid_call cfg (re_reviewer env) ''reviewer'' (cf_reviewer cfg) REVIEWER_SYSTEM
         (reviewer_input (render (dump_telemetry t)) (render (dump_contract c)) (render (dump_proposal p))
           (validation_text proposal_report))
         (strict_json_schema (cf_verdict_schema cfg)) ''io_uring_fuzz_review_v1'' (principal_id (tp_fleet_id t)))
       (\<lambda>call.
     bindA (parse_model (re_debug_writes env REVIEWER) load_verdict valid_verdict ''reviewer verdict'' call)
       (\<lambda>v.
     let report = validate_reviewer t p v in
     bindA (store_feedback env t p v report) (\<lambda>_.
     bindA (require_report report) (\<lambda>_.
     returnA (call, v, report)))))"

text \<open>The first eight digits of the proposal's digest decide about the audit.\<close>

definition digest_number :: "string \<Rightarrow> int" where
  "digest_number digest =
     foldl (\<lambda>a c. 16 * a + (case hex_value c of None \<Rightarrow> 0 | Some n \<Rightarrow> int n)) 0
       (take 8 (removeprefix ''sha256:'' digest))"

definition audit_due :: "pipeline_config \<Rightarrow> string \<Rightarrow> bool" where
  "audit_due cfg proposal_digest \<longleftrightarrow>
     cf_auditor_enabled cfg \<and> cf_auditor_present cfg \<and> digest_number proposal_digest mod cf_sample_every cfg = 0"

text \<open>The audit verdict with its report and trace, when one is due.\<close>

definition audit ::
  "pipeline_config \<Rightarrow> run_env \<Rightarrow> telemetry_packet \<Rightarrow> harness_contract \<Rightarrow> planner_proposal \<Rightarrow> reviewer_verdict
     \<Rightarrow> (reviewer_verdict \<times> checks \<times> provider_trace) option action" where
  "audit cfg env t c p v =
     (if \<not> audit_due cfg (json_digest (dump_proposal p)) then returnA None
      else
        bindA (paid_call cfg (re_auditor env) ''auditor'' (cf_auditor cfg) AUDITOR_SYSTEM
            (reviewer_input (render (dump_telemetry t)) (render (dump_contract c)) (render (dump_proposal p))
              (render (dump_verdict v)))
            (strict_json_schema (cf_verdict_schema cfg)) ''io_uring_fuzz_audit_v1'' (principal_id (tp_fleet_id t)))
          (\<lambda>call.
        bindA (parse_model (re_debug_writes env AUDITOR) load_verdict valid_verdict ''auditor verdict'' call)
          (\<lambda>a.
        bindA (require_report (validate_reviewer t p a)) (\<lambda>report.
        bindA (liftA (trace_of AUDITOR call)) (\<lambda>trace.
        returnA (Some (a, report, trace)))))))"

section \<open>Artifacts and the envelope\<close>

definition STORAGE_FAILED :: pipeline_error where
  "STORAGE_FAILED = PipelineRejected ''deterministic artifact compilation or storage failed''"

text \<open>\<open>except (CompilationBlocked, ArtifactError, OSError)\<close>: the codec's and pydantic's errors pass.\<close>

fun compile_failure :: "compile_error \<Rightarrow> pipeline_error" where
  "compile_failure (CompilationBlocked _) = STORAGE_FAILED"
| "compile_failure e = CompileFailed e"

fun artifact_failure :: "artifact_error \<Rightarrow> pipeline_error" where
  "artifact_failure ArtifactValidationError = ArtifactFailed ArtifactValidationError"
| "artifact_failure _ = STORAGE_FAILED"

definition binding_for :: "planner_proposal \<Rightarrow> harness_contract \<Rightarrow> planner_program \<Rightarrow> artifact_binding" where
  "binding_for p c g =
     \<lparr>ab_proposal_digest = json_digest (dump_proposal p), ab_program_digest = json_digest (dump_program g),
      ab_contract_digest = json_digest (dump_contract c), ab_validator_version = VALIDATOR_VERSION,
      ab_validator_hash = VALIDATOR_HASH, ab_target_hashes = hc_target_hashes c\<rparr>"

definition store_program ::
  "bytes \<Rightarrow> write_outcome \<times> write_outcome \<Rightarrow> planner_proposal \<Rightarrow> harness_contract \<Rightarrow> planner_program
     \<Rightarrow> string action" where
  "store_program file w p c g =
     (\<lambda>s. case compile_program file g c of
        Inl e \<Rightarrow> (Inl (compile_failure e), s)
      | Inr compiled \<Rightarrow>
          (case artifact_put (fst w) (snd w) compiled (binding_for p c g) (ps_artifacts s) of
             (Inl e, st) \<Rightarrow> (Inl (artifact_failure e), s\<lparr>ps_artifacts := st\<rparr>)
           | (Inr digest, st) \<Rightarrow> (Inr digest, s\<lparr>ps_artifacts := st\<rparr>)))"

fun store_programs ::
  "bytes \<Rightarrow> (nat \<Rightarrow> write_outcome \<times> write_outcome) \<Rightarrow> planner_proposal \<Rightarrow> harness_contract \<Rightarrow> nat
     \<Rightarrow> planner_program list \<Rightarrow> string list action" where
  "store_programs file ws p c i [] = returnA []"
| "store_programs file ws p c i (g # gs) =
     bindA (store_program file (ws i) p c g) (\<lambda>digest.
     bindA (store_programs file ws p c (Suc i) gs) (\<lambda>digests.
     returnA (digest # digests)))"

definition store_artifacts ::
  "pipeline_config \<Rightarrow> run_env \<Rightarrow> planner_proposal \<Rightarrow> harness_contract \<Rightarrow> string list action" where
  "store_artifacts cfg env p c =
     (if pr_programs p \<noteq> [] \<and> hc_environment c = PRODUCTION then
        store_programs (cf_compiler_file cfg) (re_artifact_writes env) p c 0 (pr_programs p)
      else returnA [])"

text \<open>The audit as it appears in the envelope: verdict, digest, validation and trace.\<close>

definition envelope_for ::
  "telemetry_packet \<Rightarrow> harness_contract \<Rightarrow> instant \<Rightarrow> planner_proposal \<Rightarrow> reviewer_verdict
     \<Rightarrow> (reviewer_verdict \<times> checks \<times> provider_trace) option \<Rightarrow> checks list \<Rightarrow> provider_trace list
     \<Rightarrow> string list \<Rightarrow> quarantine_envelope" where
  "envelope_for t c now p v a reports traces artifacts =
     (let proposal_digest = json_digest (dump_proposal p)
      in \<lparr>qe_envelope_id = ''env-'' @ last_chars 24 proposal_digest, qe_created_at = iso_z now,
         qe_telemetry_packet_hash = json_digest (dump_telemetry t), qe_proposal_hash = proposal_digest,
         qe_reviewer_verdict_hash = json_digest (dump_verdict v),
         qe_auditor_verdict_hash = map_option (\<lambda>(w, _). json_digest (dump_verdict w)) a,
         qe_harness_contract_hash = json_digest (dump_contract c), qe_compiled_artifact_hashes = artifacts,
         qe_target_hashes = tp_target_hashes t, qe_proposal = p, qe_reviewer_verdict = v,
         qe_auditor_verdict = map_option fst a,
         qe_validations = map validation_record_of
           (reports @ (case a of None \<Rightarrow> [] | Some (_, report, _) \<Rightarrow> [report])),
         qe_provider_traces = traces @ (case a of None \<Rightarrow> [] | Some (_, _, trace) \<Rightarrow> [trace])\<rparr>)"

definition store_envelope :: "run_env \<Rightarrow> quarantine_envelope \<Rightarrow> run_outcome action" where
  "store_envelope env e =
     (\<lambda>s. if \<not> valid_envelope e then (Inl EnvelopeInvalid, s)
      else
        (case quarantine_put (re_quarantine_write env) (dump_envelope e) (ps_quarantine s) of
           Inl x \<Rightarrow> (Inl (QuarantineFailed x), s)
         | Inr (digest, d) \<Rightarrow> (Inr (Quarantined digest), s\<lparr>ps_quarantine := d\<rparr>)))"

text \<open>What follows an accepted review.\<close>

definition quarantine_reviewed ::
  "pipeline_config \<Rightarrow> run_env \<Rightarrow> telemetry_packet \<Rightarrow> harness_contract \<Rightarrow> provider_call \<Rightarrow> planner_proposal \<Rightarrow> checks
     \<Rightarrow> provider_call \<Rightarrow> reviewer_verdict \<Rightarrow> checks \<Rightarrow> run_outcome action" where
  "quarantine_reviewed cfg env t c planner_call p proposal_report reviewer_call v review_report =
     bindA (liftA (trace_of PLANNER planner_call)) (\<lambda>planner_trace.
     bindA (liftA (trace_of REVIEWER reviewer_call)) (\<lambda>reviewer_trace.
     bindA (audit cfg env t c p v) (\<lambda>a.
     bindA (store_artifacts cfg env p c) (\<lambda>artifacts.
     store_envelope env (envelope_for t c (re_enveloped_at env) p v a [proposal_report, review_report]
       [planner_trace, reviewer_trace] artifacts)))))"

definition run :: "pipeline_config \<Rightarrow> run_env \<Rightarrow> telemetry_packet \<Rightarrow> harness_contract \<Rightarrow> run_outcome action" where
  "run cfg env t c =
     bindA (check_inputs cfg env t c) (\<lambda>_.
     bindA (propose cfg env t c) (\<lambda>(planner_call, p, proposal_report).
     if pr_abstain p then returnA (Abstained (pr_abstain_reason p))
     else
       bindA (review cfg env t c p proposal_report) (\<lambda>(reviewer_call, v, review_report).
       quarantine_reviewed cfg env t c planner_call p proposal_report reviewer_call v review_report)))"

end
