(* ===== verification/Spending.thy ===== *)
theory Spending
  imports Pipeline
begin

text \<open>
  The money side of a run.  Each paid call appends to the ledger a reservation and the row that closes
  it, or nothing; so a run that returns or raises, wherever it does, leaves no reservation of its own
  open, makes a bounded number of calls, and is a history of the ledger, whose caps it inherits.
\<close>

section \<open>Closing what was reserved\<close>

text \<open>Closing the reservation just made succeeds when the identifiers are new.\<close>

lemma policy_of_reserve_row:
  assumes "post_init_policy p = Inr p" and "ra_policy a = p" and "ra_provider a = pp_provider p"
    and "ra_model a = pp_model p"
  shows "\<exists>q. policy_from_row (reserve_row eid rid i a amt d) = Inr q"
  using assms
  by (auto simp: policy_from_row_def reserve_row_def post_init_policy_def cached_rate_def
      require_nonnegative_int_def split: if_splits option.splits)

lemma ceil_rate_nonneg: "0 \<le> a \<Longrightarrow> 0 \<le> r \<Longrightarrow> 0 \<le> ceil_rate a r"
  by (simp add: ceil_rate_def TOKENS_PER_MILLION_def Let_def pos_imp_zdiv_nonneg_iff)

lemma quote_nonneg: "quote_usage p i out c = Inr n \<Longrightarrow> 0 \<le> input_rate p \<Longrightarrow> 0 \<le> output_rate p \<Longrightarrow> 0 \<le> cached_rate p \<Longrightarrow> 0 \<le> n"
  by (auto simp: quote_usage_def Let_def intro!: add_nonneg_nonneg ceil_rate_nonneg)

lemma close_fresh:
  assumes t: "t = t0 @ [reserve_row eid rid i a amt d]" and "rid \<noteq> []" and "rid \<notin> set (map reservation_id t0)"
    and "post_init_policy (ra_policy a) = Inr (ra_policy a)"
    and "ra_provider a = pp_provider (ra_policy a)" "ra_model a = pp_model (ra_policy a)" "0 \<le> amt"
    and "fresh_event_id env \<notin> set (map event_id t)" and kind: "kind \<noteq> Reserve"
  shows "\<exists>s u. close_reservation env t rid kind x y z None details = Inr (s, t @ [u]) \<and> is_terminal u \<and>
    reservation_id u = rid \<and> event_id u = fresh_event_id env \<and> month_key u = month_string i \<and>
    0 \<le> charged_microdollars s \<and> (\<not> valid_usage x y z \<longrightarrow> charged_microdollars s = amt)"
proof -
  let ?r = "reserve_row eid rid i a amt d"
  have none: "terminals_of t rid = []"
    using fresh_no_terminals [OF assms(3)] by (simp add: t terminals_of_append)
  have "filter (\<lambda>r. is_reserve r \<and> reservation_id r = rid) t0 = []"
    using assms(3) by (auto simp: filter_empty_conv)
  then have act: "active_reservation t rid = Inr ?r"
    using none by (simp add: active_reservation_def t)
  obtain q where q: "policy_from_row ?r = Inr q"
    using policy_of_reserve_row [OF assms(4) refl assms(5,6)] by blast
  have rates: "0 \<le> row_input_rate ?r" "0 \<le> row_output_rate ?r" "0 \<le> row_cached_rate ?r"
    "input_rate q = row_input_rate ?r" "output_rate q = row_output_rate ?r" "cached_rate q = row_cached_rate ?r"
    using assms(4) q
    by (auto simp: policy_from_row_def post_init_policy_def reserve_row_def cached_rate_def
        require_nonnegative_int_def split: if_splits option.splits)
  have quoted: "\<exists>n. quote_usage q x y z = Inr n \<and> 0 \<le> n" if "valid_usage x y z"
  proof -
    from that obtain a b c where "x = PyInt a" "y = PyInt b" "z = PyInt c" "0 \<le> a" "0 \<le> b" "0 \<le> c" "c \<le> a"
      by (auto simp: valid_usage_def split: py_object.splits)
    then have "quote_usage q x y z = Inr (ceil_rate (a - c) (input_rate q) + ceil_rate c (cached_rate q) +
        ceil_rate b (output_rate q))"
      by (simp add: quote_usage_def require_nonnegative_int_def)
    with quote_nonneg [OF this] rates show ?thesis by simp
  qed
  define charge where "charge =
    (if kind = Settle \<and> valid_usage x y z then bindR (policy_from_row ?r) (\<lambda>p. quote_usage p x y z) else Inr (amount ?r))"
  have "\<exists>n. charge = Inr n \<and> 0 \<le> n"
    using quoted assms(7) by (auto simp: charge_def q)
  then obtain n where n: "charge = Inr n" "0 \<le> n" by blast
  then have unread: "\<not> valid_usage x y z \<longrightarrow> n = amt" by (auto simp: charge_def reserve_row_def)
  define u where "u = terminal_row (fresh_event_id env) kind (clock env) ?r n (kind = Settle \<and> valid_usage x y z) x y z
      (json_details details)"
  have k: "is_terminal u" "\<not> is_reserve u" "reservation_id u = rid" "event_id u = fresh_event_id env"
    using terminal_row_kind [OF kind] by (simp_all add: u_def)
  have month: "month_key u = month_string i" by (simp add: u_def terminal_row_def reserve_row_def)
  have "\<forall>v \<in> set t. \<not> (is_terminal v \<and> reservation_id v = rid)"
    using none by (auto simp: terminals_of_def filter_empty_conv)
  then have "insert_event t u = Inr (t @ [u])"
    using n(2) rates(1-3) assms(8) k by (auto simp: insert_event_Inr u_def)
  then show ?thesis
    using assms(2) act n k month unread
    by (auto simp: close_reservation_def normalize_now_def Let_def charge_def [symmetric] u_def [symmetric])
qed

section \<open>What a call may add to the ledger\<close>

definition dispatch_events :: "dispatch \<Rightarrow> string list" where
  "dispatch_events dp = [fresh_event_id (dp_reserve dp), fresh_event_id (dp_close dp)]"

definition dispatch_reservation :: "dispatch \<Rightarrow> string" where
  "dispatch_reservation dp = fresh_reservation_id (dp_reserve dp)"

text \<open>The identifiers \<open>uuid4\<close> draws for these dispatches differ from each other and from those in use.\<close>

definition fresh_dispatches :: "dispatch list \<Rightarrow> table \<Rightarrow> bool" where
  "fresh_dispatches dps t \<longleftrightarrow>
     distinct (concat (map dispatch_events dps)) \<and> distinct (map dispatch_reservation dps) \<and>
     set (concat (map dispatch_events dps)) \<inter> set (map event_id t) = {} \<and>
     set (map dispatch_reservation dps) \<inter> set (map reservation_id t) = {} \<and>
     [] \<notin> set (map dispatch_reservation dps)"

text \<open>The rows added: those of a history of the ledger, every reservation among them closed.\<close>

definition spent :: "ledger_config \<Rightarrow> dispatch list \<Rightarrow> table \<Rightarrow> table \<Rightarrow> bool" where
  "spent L dps t t' \<longleftrightarrow>
     (\<exists>us. t' = t @ us \<and> set (map event_id us) \<subseteq> set (concat (map dispatch_events dps)) \<and>
        set (map reservation_id us) \<subseteq> set (map dispatch_reservation dps) \<and>
        (\<forall>r \<in> set us. is_reserve r \<longrightarrow> terminals_of us (reservation_id r) \<noteq> []) \<and>
        length (filter is_reserve us) \<le> length dps) \<and>
     ledger_history L t t'"

lemma spent_refl [simp]: "spent L dps t t"
  by (simp add: spent_def)

lemma spent_trans:
  assumes "spent L A t t'" and "spent L B t' t''"
  shows "spent L (A @ B) t t''"
proof -
  from assms(1) obtain us where us: "t' = t @ us" "set (map event_id us) \<subseteq> set (concat (map dispatch_events A))"
    "set (map reservation_id us) \<subseteq> set (map dispatch_reservation A)"
    "\<forall>r \<in> set us. is_reserve r \<longrightarrow> terminals_of us (reservation_id r) \<noteq> []"
    "length (filter is_reserve us) \<le> length A" "ledger_history L t t'" unfolding spent_def by blast
  from assms(2) obtain vs where vs: "t'' = t' @ vs" "set (map event_id vs) \<subseteq> set (concat (map dispatch_events B))"
    "set (map reservation_id vs) \<subseteq> set (map dispatch_reservation B)"
    "\<forall>r \<in> set vs. is_reserve r \<longrightarrow> terminals_of vs (reservation_id r) \<noteq> []"
    "length (filter is_reserve vs) \<le> length B" "ledger_history L t' t''" unfolding spent_def by blast
  have "t'' = t @ (us @ vs)" using us(1) vs(1) by simp
  moreover have "set (map event_id (us @ vs)) \<subseteq> set (concat (map dispatch_events (A @ B)))"
    using us(2) vs(2) by auto
  moreover have "set (map reservation_id (us @ vs)) \<subseteq> set (map dispatch_reservation (A @ B))"
    using us(3) vs(3) by auto
  moreover have "\<forall>r \<in> set (us @ vs). is_reserve r \<longrightarrow> terminals_of (us @ vs) (reservation_id r) \<noteq> []"
    using us(4) vs(4) by (auto simp: terminals_of_append)
  moreover have "length (filter is_reserve (us @ vs)) \<le> length (A @ B)" using us(5) vs(5) by simp
  moreover have "ledger_history L t t''" using us(6) vs(6) by (rule rtranclp_trans)
  ultimately show ?thesis unfolding spent_def by blast
qed

lemma fresh_append:
  assumes "fresh_dispatches (A @ B) t"
  shows "fresh_dispatches A t" and "spent L A t t' \<Longrightarrow> fresh_dispatches B t'"
proof -
  show "fresh_dispatches A t" using assms by (auto simp: fresh_dispatches_def)
  assume "spent L A t t'"
  then obtain us where us: "t' = t @ us" "set (map event_id us) \<subseteq> set (concat (map dispatch_events A))"
    "set (map reservation_id us) \<subseteq> set (map dispatch_reservation A)" unfolding spent_def by blast
  have ev: "set (concat (map dispatch_events A)) \<inter> set (concat (map dispatch_events B)) = {}"
    and rs: "set (map dispatch_reservation A) \<inter> set (map dispatch_reservation B) = {}"
    using assms by (auto simp: fresh_dispatches_def)
  have old: "set (concat (map dispatch_events B)) \<inter> set (map event_id t) = {}"
    "set (map dispatch_reservation B) \<inter> set (map reservation_id t) = {}"
    using assms by (auto simp: fresh_dispatches_def)
  have "set (map event_id t') = set (map event_id t) \<union> set (map event_id us)"
    "set (map reservation_id t') = set (map reservation_id t) \<union> set (map reservation_id us)"
    using us(1) by simp_all
  then have "set (concat (map dispatch_events B)) \<inter> set (map event_id t') = {}"
    and "set (map dispatch_reservation B) \<inter> set (map reservation_id t') = {}"
    using old ev rs us(2,3) by blast+
  then show "fresh_dispatches B t'" using assms by (auto simp: fresh_dispatches_def)
qed

section \<open>One call\<close>

text \<open>A request the provider class accepts, whatever its key.\<close>

definition fit_request :: "string \<Rightarrow> string \<Rightarrow> string \<Rightarrow> json \<Rightarrow> string \<Rightarrow> string \<Rightarrow> bool" where
  "fit_request role system_prompt input_text schema schema_name principal_name \<longleftrightarrow>
     \<not> is_blank role \<and> \<not> is_blank system_prompt \<and> \<not> is_blank input_text \<and> is_object schema \<and>
     \<not> is_blank schema_name \<and> \<not> is_blank principal_name"

lemma fit_request_valid:
  "fit_request role system_prompt input_text schema schema_name principal_name \<Longrightarrow>
     valid_request (request_of role key system_prompt input_text schema schema_name principal_name)"
  by (simp add: fit_request_def valid_request_def request_of_def client_id_def is_blank_def) (simp add: is_space_def)

text \<open>The two ways a dispatch closes its reservation.\<close>

definition closer :: "budget_env \<Rightarrow> string \<Rightarrow> (table \<Rightarrow> budget_error + settlement \<times> table) \<Rightarrow> bool" where
  "closer env rid f \<longleftrightarrow>
     (\<exists>x y z d. f = (\<lambda>t. settle env t rid x y z None (Some d))) \<or>
     (\<exists>reason d. \<not> is_blank reason \<and> length reason \<le> 500 \<and> f = (\<lambda>t. abandon env t rid reason None (Some d)))"

lemma closer_completed: "closer env rid (close_completed env role rid r)"
  unfolding closer_def close_completed_def by (rule disjI1) blast

lemma closer_failed: "closer env rid (close_failed env role rid failure)"
proof -
  have "\<not> is_blank ''retryable provider HTTP error with uncertain state'' \<and>
      length ''retryable provider HTTP error with uncertain state'' \<le> 500"
    "\<not> is_blank ''provider call failed or completion state was uncertain'' \<and>
      length ''provider call failed or completion state was uncertain'' \<le> 500" by code_simp+
  note ab = this
  have declined: "closer env rid (\<lambda>t. settle env t rid x y z None (Some d))" for x y z d
    unfolding closer_def by blast
  have abandoned: "closer env rid (\<lambda>t. abandon env t rid reason None (Some d))"
    if "\<not> is_blank reason \<and> length reason \<le> 500" for reason d
    using that unfolding closer_def by blast
  show ?thesis
  proof (cases failure)
    case (HttpStatus n)
    then show ?thesis
      unfolding close_failed_def Let_def
      by (cases "retryable n") (simp_all only: provider_failure.case if_True if_False abandoned [OF ab(1)] declined)
  next
    case Refused
    then show ?thesis
      unfolding close_failed_def Let_def by (simp only: provider_failure.case declined)
  next
    case OtherProviderError
    then show ?thesis
      unfolding close_failed_def Let_def by (simp only: provider_failure.case abandoned [OF ab(2)])
  next
    case Interrupted
    then show ?thesis
      unfolding close_failed_def Let_def by (simp only: provider_failure.case abandoned [OF ab(2)])
  qed
qed

lemma closer_kind:
  "closer env rid f \<Longrightarrow> \<exists>kind x y z d. kind \<noteq> Reserve \<and> f = (\<lambda>t. close_reservation env t rid kind x y z None (Some d))"
  unfolding closer_def by (fastforce simp: settle_def abandon_def Let_def fun_eq_iff)

lemma closer_step: "closer env rid f \<Longrightarrow> f t = Inr (s, t') \<Longrightarrow> ledger_step L t t'"
  unfolding closer_def by (auto intro: ledger_step.settles ledger_step.abandons)

lemma post_init_policy_same: "post_init_policy p = Inr q \<Longrightarrow> q = p"
  by (auto simp: post_init_policy_def split: if_splits option.splits)

lemma pricing_policy_Inr:
  "pricing_policy p = Inr policy \<Longrightarrow>
     post_init_policy policy = Inr policy \<and> pp_provider policy = pc_name p \<and> pp_model policy = pc_model p"
  by (auto simp: pricing_policy_def dest: post_init_policy_same)

text \<open>A reservation that is closed by either of them is what was spent, and closing it succeeds.\<close>

lemma spent_pair:
  assumes res: "reserve L (dp_reserve dp) t a = Inr (res, t1)" and fresh: "fresh_dispatches [dp] t"
    and pol: "post_init_policy (ra_policy a) = Inr (ra_policy a)"
    and own: "ra_provider a = pp_provider (ra_policy a)" "ra_model a = pp_model (ra_policy a)"
    and cl: "closer (dp_close dp) (res_id res) f"
  shows "\<exists>s t2. f t1 = Inr (s, t2) \<and> spent L [dp] t t2"
proof -
  let ?rid = "fresh_reservation_id (dp_reserve dp)"
  from res obtain instant amt where row: "t1 = t @ [reserve_row (fresh_event_id (dp_reserve dp)) ?rid instant a amt
      (json_details (ra_details a))]" "res_id res = ?rid" "0 \<le> amt"
    by (rule reserve_appends) blast
  let ?row = "reserve_row (fresh_event_id (dp_reserve dp)) ?rid instant a amt (json_details (ra_details a))"
  obtain kind x y z d where kind: "kind \<noteq> Reserve"
    and f: "f = (\<lambda>t. close_reservation (dp_close dp) t ?rid kind x y z None (Some d))"
    using closer_kind [OF cl] row(2) by metis
  have new: "?rid \<noteq> []" "?rid \<notin> set (map reservation_id t)" "fresh_event_id (dp_close dp) \<notin> set (map event_id t1)"
    using fresh row(1) by (auto simp: fresh_dispatches_def dispatch_reservation_def dispatch_events_def)
  obtain s u where u: "f t1 = Inr (s, t1 @ [u])" "is_terminal u" "reservation_id u = ?rid"
    "event_id u = fresh_event_id (dp_close dp)"
    using close_fresh [OF row(1) new(1,2) pol own row(3) new(3) kind] unfolding f by blast
  have "ledger_step L t t1" using res new(2) by (rule ledger_step.reserves)
  moreover have "ledger_step L t1 (t1 @ [u])" using cl u(1) by (rule closer_step)
  ultimately have "ledger_history L t (t1 @ [u])" by simp
  moreover have "\<not> is_reserve u" using u(2) reserve_not_terminal by blast
  ultimately have "spent L [dp] t (t1 @ [u])"
    using u(2-4) row(1)
    by (auto simp: spent_def dispatch_events_def dispatch_reservation_def terminals_of_def intro!: exI [of _ "[?row, u]"])
  with u(1) show ?thesis by blast
qed

lemma dispatch_spends:
  assumes "valid_request request" and "\<And>f. closer (dp_close dp) rid f \<Longrightarrow> \<exists>s t2. f t1 = Inr (s, t2) \<and> spent L [dp] t t2"
  shows "spent L [dp] t (snd (dispatch_reserved cfg dp role rid request t1))"
proof (cases "dp_generate dp request")
  case (Inl failure)
  from assms(2) [OF closer_failed] obtain s t2 where "close_failed (dp_close dp) role rid failure t1 = Inr (s, t2)"
    "spent L [dp] t t2" by blast
  with Inl assms(1) show ?thesis by (simp add: dispatch_reserved_def)
next
  case (Inr result)
  from assms(2) [OF closer_completed] obtain s t2 where "close_completed (dp_close dp) role rid result t1 = Inr (s, t2)"
    "spent L [dp] t t2" by blast
  with Inr assms(1) show ?thesis by (simp add: dispatch_reserved_def)
qed

lemma call_spends:
  assumes "fresh_dispatches [dp] t" and "fit_request role system_prompt input_text schema schema_name principal_name"
  shows "spent (cf_ledger cfg) [dp] t
    (snd (call_on cfg dp role p system_prompt input_text schema schema_name principal_name t))"
proof -
  let ?key = "request_key role p system_prompt input_text schema"
  show ?thesis
  proof (cases "utf8_length input_text > cf_max_packet_bytes cfg")
    case True
    then show ?thesis by (simp add: call_on_def)
  next
    case small: False
    show ?thesis
    proof (cases "pricing_policy p")
      case (Inl e)
      with small show ?thesis by (simp add: call_on_def Let_def)
    next
      case (Inr policy)
      note pol = pricing_policy_Inr [OF Inr]
      show ?thesis
      proof (cases "reserve_for_tokens (cf_ledger cfg) (dp_reserve dp) t (reserve_arguments role p policy ?key)
                        (PyInt (pc_max_input_tokens p)) (PyInt (pc_max_output_tokens p)) (PyInt 0)")
        case (Inl e)
        with small Inr show ?thesis by (simp add: call_on_def Let_def)
      next
        case reserved: (Inr x)
        obtain r t1 where x: "x = (r, t1)" by fastforce
        from reserved x obtain a where a: "reserve (cf_ledger cfg) (dp_reserve dp) t a = Inr (r, t1)"
          "ra_policy a = policy" "ra_provider a = pc_name p" "ra_model a = pc_model p"
          by (auto simp: reserve_for_tokens_def reserve_arguments_def)
        have "\<exists>s t2. f t1 = Inr (s, t2) \<and> spent (cf_ledger cfg) [dp] t t2"
          if "closer (dp_close dp) (res_id r) f" for f
          using spent_pair [OF a(1) assms(1) _ _ _ that] pol a(2-4) by simp
        from dispatch_spends [OF fit_request_valid [OF assms(2)] this] small Inr reserved x show ?thesis
          by (simp add: call_on_def Let_def)
      qed
    qed
  qed
qed

section \<open>Actions\<close>

text \<open>An action that spends at most what the given dispatches allow, in every state fresh for them.\<close>

definition spending :: "ledger_config \<Rightarrow> dispatch list \<Rightarrow> 'a action \<Rightarrow> bool" where
  "spending L dps m \<longleftrightarrow>
     (\<forall>s. fresh_dispatches dps (ps_ledger s) \<longrightarrow> spent L dps (ps_ledger s) (ps_ledger (snd (m s))))"

named_theorems spending_intros

lemma spendingD: "spending L dps m \<Longrightarrow> fresh_dispatches dps (ps_ledger s) \<Longrightarrow>
    spent L dps (ps_ledger s) (ps_ledger (snd (m s)))"
  by (simp add: spending_def)

lemma spending_bind:
  assumes "spending L A m" and "\<And>x. spending L B (k x)"
  shows "spending L (A @ B) (bindA m k)"
  unfolding spending_def
proof (intro allI impI)
  fix s :: pipeline_state assume f: "fresh_dispatches (A @ B) (ps_ledger s)"
  obtain r s' where m: "m s = (r, s')" by fastforce
  with spendingD [OF assms(1) fresh_append(1) [OF f]] have A: "spent L A (ps_ledger s) (ps_ledger s')" by simp
  show "spent L (A @ B) (ps_ledger s) (ps_ledger (snd (bindA m k s)))"
  proof (cases r)
    case (Inl e)
    with m spent_trans [OF A spent_refl] show ?thesis by (simp add: bindA_def)
  next
    case (Inr x)
    with m spent_trans [OF A spendingD [OF assms(2) fresh_append(2) [OF f A]]] show ?thesis
      by (simp add: bindA_def)
  qed
qed

text \<open>An action that leaves the ledger alone may stand anywhere.\<close>

definition thrifty :: "'a action \<Rightarrow> bool" where
  "thrifty m \<longleftrightarrow> (\<forall>s. ps_ledger (snd (m s)) = ps_ledger s)"

lemma thrifty_spending: "thrifty m \<Longrightarrow> spending L dps m"
  by (simp add: thrifty_def spending_def)

lemma thrifty_bind_spending:
  assumes "thrifty m" and "\<And>x. spending L B (k x)"
  shows "spending L B (bindA m k)"
  using spending_bind [of L "[]" m B k] thrifty_spending [OF assms(1)] assms(2) by simp

lemma thrifty_bind: "thrifty m \<Longrightarrow> (\<And>x. thrifty (k x)) \<Longrightarrow> thrifty (bindA m k)"
  unfolding thrifty_def bindA_def by (auto split: prod.splits sum.splits) (metis snd_conv)+

lemma thrifty_simple: "thrifty (returnA x)" "thrifty (failA e)" "thrifty (liftA r)" "thrifty (require_report report)"
  by (simp_all add: thrifty_def returnA_def failA_def liftA_def require_report_def)

lemma thrifty_steps:
  "thrifty (check_inputs cfg env t c)" "thrifty (parse_model w f valid label call)"
  "thrifty (store_feedback env t p v report)" "thrifty (store_program file ws p c g)" "thrifty (store_envelope env e)"
  by (auto simp: check_inputs_def thrifty_simple split: option.split)
    (auto simp: thrifty_def parse_model_def store_feedback_def store_program_def store_envelope_def
      split: option.splits sum.splits prod.splits)

lemma thrifty_programs: "thrifty (store_programs file ws p c i gs)"
  by (induction gs arbitrary: i) (auto intro!: thrifty_bind simp: thrifty_simple thrifty_steps)

lemma thrifty_artifacts: "thrifty (store_artifacts cfg env p c)"
  by (simp add: store_artifacts_def thrifty_programs thrifty_simple)

lemma paid_call_spending:
  assumes "fit_request role system_prompt input_text schema schema_name principal_name"
  shows "spending (cf_ledger cfg) [dp] (paid_call cfg dp role p system_prompt input_text schema schema_name principal_name)"
  using call_spends [OF _ assms] by (auto simp: spending_def paid_call_def split: prod.split) (metis snd_conv)

lemma try_candidates_spending:
  assumes "fit_request ''planner'' system_prompt input_text schema schema_name principal_name"
  shows "spending (cf_ledger cfg) (map fst candidates)
    (try_candidates cfg system_prompt input_text schema schema_name principal_name e candidates)"
proof (induction candidates arbitrary: e)
  case Nil
  then show ?case by (simp add: thrifty_spending thrifty_simple)
next
  case (Cons x candidates)
  obtain dp p where x: "x = (dp, p)" by fastforce
  show ?case
    unfolding spending_def
  proof (intro allI impI)
    fix s :: pipeline_state assume f: "fresh_dispatches (map fst (x # candidates)) (ps_ledger s)"
    then have f': "fresh_dispatches ([dp] @ map fst candidates) (ps_ledger s)" by (simp add: x)
    obtain r s' where m: "paid_call cfg dp ''planner'' p system_prompt input_text schema schema_name principal_name s = (r, s')"
      by fastforce
    from spendingD [OF paid_call_spending [OF assms] fresh_append(1) [OF f']] m
    have A: "spent (cf_ledger cfg) [dp] (ps_ledger s) (ps_ledger s')" by (metis snd_conv)
    have B: "spent (cf_ledger cfg) (map fst candidates) (ps_ledger s') (ps_ledger (snd
        (try_candidates cfg system_prompt input_text schema schema_name principal_name e' candidates s')))" for e'
      using spendingD [OF Cons.IH fresh_append(2) [OF f' A]] .
    have "spent (cf_ledger cfg) ([dp] @ map fst candidates) (ps_ledger s) (ps_ledger (snd
        (try_candidates cfg system_prompt input_text schema schema_name principal_name e (x # candidates) s)))"
      using m spent_trans [OF A B] spent_trans [OF A spent_refl] by (simp add: x split: sum.split)
    then show "spent (cf_ledger cfg) (map fst (x # candidates)) (ps_ledger s) (ps_ledger (snd
        (try_candidates cfg system_prompt input_text schema schema_name principal_name e (x # candidates) s)))"
      by (simp add: x)
  qed
qed

section \<open>A run\<close>

lemma not_blank_Cons: "\<not> is_space c \<Longrightarrow> \<not> is_blank (c # s)"
  by (simp add: is_blank_def)

lemma not_blank_block: "\<not> is_space c \<Longrightarrow> \<not> is_blank (text_block ((c # l) # ls))"
  by (simp add: text_block_def not_blank_Cons)

lemma instructions_not_blank:
  "\<not> is_blank PLANNER_INSTRUCTIONS" "\<not> is_blank REVIEWER_SYSTEM" "\<not> is_blank AUDITOR_SYSTEM"
  unfolding PLANNER_INSTRUCTIONS_def REVIEWER_SYSTEM_def AUDITOR_SYSTEM_def
  by (rule not_blank_block, simp add: is_space_def)+

lemma inputs_not_blank: "\<not> is_blank (planner_input a b)" "\<not> is_blank (reviewer_input a b c d)"
  by (simp_all add: planner_input_def reviewer_input_def tagged_def not_blank_Cons is_space_def)

lemma strict_schema_object: "is_object schema \<Longrightarrow> is_object (strict_json_schema schema)"
  by (cases schema) (auto simp: strict_json_schema_def is_object_def Let_def split: option.split json.split)

lemma fit_planner:
  "is_object schema \<Longrightarrow> fit_request ''planner'' PLANNER_INSTRUCTIONS (planner_input a b) (strict_json_schema schema)
     ''io_uring_fuzz_plan_v1'' (principal_id x)"
  by (simp add: fit_request_def instructions_not_blank inputs_not_blank strict_schema_object principal_id_def
      not_blank_Cons is_space_def)

lemma fit_reviewer:
  "is_object schema \<Longrightarrow> fit_request ''reviewer'' REVIEWER_SYSTEM (reviewer_input a b c d) (strict_json_schema schema)
     ''io_uring_fuzz_review_v1'' (principal_id x)"
  by (simp add: fit_request_def instructions_not_blank inputs_not_blank strict_schema_object principal_id_def
      not_blank_Cons is_space_def)

lemma fit_auditor:
  "is_object schema \<Longrightarrow> fit_request ''auditor'' AUDITOR_SYSTEM (reviewer_input a b c d) (strict_json_schema schema)
     ''io_uring_fuzz_audit_v1'' (principal_id x)"
  by (simp add: fit_request_def instructions_not_blank inputs_not_blank strict_schema_object principal_id_def
      not_blank_Cons is_space_def)

text \<open>The dispatches a run may make: one per planner candidate, one for each reviewer.\<close>

definition planner_dispatches :: "pipeline_config \<Rightarrow> run_env \<Rightarrow> dispatch list" where
  "planner_dispatches cfg env = map fst (planner_candidates cfg (re_planners env))"

definition run_dispatches :: "pipeline_config \<Rightarrow> run_env \<Rightarrow> dispatch list" where
  "run_dispatches cfg env = planner_dispatches cfg env @ [re_reviewer env, re_auditor env]"

lemma length_run_dispatches: "length (run_dispatches cfg env) = length (cf_fallbacks cfg) + 3"
  by (simp add: run_dispatches_def planner_dispatches_def planner_candidates_def Let_def)

lemma thrifty_spend: "thrifty m \<Longrightarrow> spending L [] m"
  by (rule thrifty_spending)

lemma spending_last: "spending L A m \<Longrightarrow> (\<And>x. thrifty (k x)) \<Longrightarrow> spending L A (bindA m k)"
  using spending_bind [of L A m "[]" k] thrifty_spending by auto

lemma propose_spending:
  assumes "is_object (cf_proposal_schema cfg)"
  shows "spending (cf_ledger cfg) (planner_dispatches cfg env) (propose cfg env t c)"
  unfolding propose_def call_planner_def planner_dispatches_def
  by (intro spending_last try_candidates_spending fit_planner assms thrifty_bind thrifty_steps thrifty_simple)

lemma review_spending:
  assumes "is_object (cf_verdict_schema cfg)"
  shows "spending (cf_ledger cfg) [re_reviewer env] (review cfg env t c p report)"
  unfolding review_def Let_def
  by (intro spending_last paid_call_spending fit_reviewer fit_auditor assms thrifty_bind thrifty_steps thrifty_simple)

lemma audit_spending:
  assumes "is_object (cf_verdict_schema cfg)"
  shows "spending (cf_ledger cfg) [re_auditor env] (audit cfg env t c p v)"
proof (cases "audit_due cfg (json_digest (dump_proposal p))")
  case True
  then show ?thesis
    unfolding audit_def if_not_P [OF not_not [THEN iffD2, OF True]]
    by (intro spending_last paid_call_spending fit_reviewer fit_auditor assms thrifty_bind thrifty_steps thrifty_simple)
next
  case False
  then show ?thesis unfolding audit_def by (simp add: thrifty_spending thrifty_simple)
qed

lemma quarantine_reviewed_spending:
  assumes "is_object (cf_verdict_schema cfg)"
  shows "spending (cf_ledger cfg) [re_auditor env] (quarantine_reviewed cfg env t c pc p r1 rc v r2)"
  unfolding quarantine_reviewed_def
  by (intro thrifty_bind_spending spending_last audit_spending assms thrifty_bind thrifty_artifacts thrifty_steps
      thrifty_simple)

lemma run_spending:
  assumes "is_object (cf_proposal_schema cfg)" and "is_object (cf_verdict_schema cfg)"
  shows "spending (cf_ledger cfg) (run_dispatches cfg env) (run cfg env t c)"
proof -
  have reviewed: "spending (cf_ledger cfg) [re_reviewer env, re_auditor env]
      (if pr_abstain p then returnA (Abstained (pr_abstain_reason p))
       else bindA (review cfg env t c p report) (\<lambda>(rc, v, r2). quarantine_reviewed cfg env t c pc p report rc v r2))"
    for pc p report
  proof (cases "pr_abstain p")
    case True
    then show ?thesis by (simp add: thrifty_spending thrifty_simple)
  next
    case False
    have "spending (cf_ledger cfg) ([re_reviewer env] @ [re_auditor env])
        (bindA (review cfg env t c p report) (\<lambda>(rc, v, r2). quarantine_reviewed cfg env t c pc p report rc v r2))"
      by (intro spending_bind review_spending assms) (auto intro: quarantine_reviewed_spending assms split: prod.split)
    with False show ?thesis by simp
  qed
  show ?thesis
    unfolding run_def run_dispatches_def
    by (intro thrifty_bind_spending [OF thrifty_steps(1)] spending_bind [OF propose_spending [OF assms(1)]])
      (simp only: split_paired_all prod.case, rule reviewed)
qed


definition sample_provider :: provider_config where
  "sample_provider =
     \<lparr>pc_name = ''moonshot'', pc_endpoint = ''https://moonshot.example'', pc_model = ''kimi'',
      pc_credential_file = ''key'', pc_monthly_call_limit = 2, pc_max_input_tokens = 1000,
      pc_max_output_tokens = 500, pc_input_usd = \<lparr>coefficient = 6, exponent = - 1\<rparr>,
      pc_output_usd = \<lparr>coefficient = 25, exponent = - 1\<rparr>, pc_pricing_version = ''v1'',
      pc_pricing_effective = ''2026-01-01'', pc_pricing_expires = ''2026-12-31'',
      pc_reasoning_effort = ''high'', pc_request_timeout = 60\<rparr>"

definition sample_pipeline :: pipeline_config where
  "sample_pipeline =
     \<lparr>cf_ledger = sample_config, cf_mode = ShadowMode, cf_max_packet_bytes = 65536,
      cf_max_response_bytes = 65536, cf_planner = sample_provider, cf_fallbacks = [sample_provider],
      cf_reviewer = sample_provider, cf_auditor = sample_provider, cf_auditor_enabled = True,
      cf_auditor_present = True, cf_sample_every = 1, cf_compiler_file = [],
      cf_proposal_schema = JObj [(''type'', JStr ''object'')],
      cf_verdict_schema = JObj [(''type'', JStr ''object'')]\<rparr>"

text \<open>Providers that are interrupted, refuse, or time out.\<close>

definition sample_dispatch :: "string \<Rightarrow> provider_failure \<Rightarrow> dispatch" where
  "sample_dispatch k failure =
     \<lparr>dp_reserve = sample_env k, dp_close = sample_env (''c'' @ k), dp_generate = (\<lambda>_. Inl failure)\<rparr>"

definition sample_run_env :: run_env where
  "sample_run_env =
     \<lparr>re_planners = (\<lambda>n. sample_dispatch (replicate n CHR ''p'') Refused),
      re_reviewer = sample_dispatch ''r'' OtherProviderError, re_auditor = sample_dispatch ''a'' Interrupted,
      re_validated_at = 63900000000000000, re_feedback_at = 63900000000000000, re_feedback_write = WriteOk,
      re_artifact_writes = (\<lambda>_. (WriteOk, WriteOk)), re_enveloped_at = 63900000000000000,
      re_quarantine_write = WriteOk, re_debug_writes = (\<lambda>_. WriteOk)\<rparr>"

definition sample_stores :: pipeline_state where
  "sample_stores =
     \<lparr>ps_ledger = snd sample_settled, ps_feedback = [], ps_artifacts = \<lparr>as_payloads = [], as_manifests = []\<rparr>, ps_quarantine = [],
      ps_rejected = None\<rparr>"


section \<open>What a failed call costs\<close>

definition declined :: "provider_failure \<Rightarrow> bool" where
  "declined failure \<longleftrightarrow> failure = Refused \<or> (\<exists>n. failure = HttpStatus n \<and> \<not> retryable n)"

lemma close_charge:
  assumes "close_reservation env t rid kind x y z now d = Inr (s, t')"
  shows "kind \<noteq> Settle \<Longrightarrow> charged_microdollars s = set_reserved s"
    and "kind = Settle \<Longrightarrow> x = PyInt 0 \<Longrightarrow> y = PyInt 0 \<Longrightarrow> z = PyInt 0 \<Longrightarrow> charged_microdollars s = 0"
  using assms
  by (auto simp: close_reservation_def Let_def valid_usage_def quote_usage_def require_nonnegative_int_def ceil_rate_def
      TOKENS_PER_MILLION_def
      split: if_splits)

text \<open>
  C17: A failed call costs what its failure says: a refusal, and an HTTP error that is not worth a
  retry, are free; anything that leaves the provider's state open, an interruption included, is
  charged the whole reservation.
\<close>

theorem failed_call_charge:
  assumes "close_failed env role rid failure t = Inr (s, t')"
  shows "charged_microdollars s = (if declined failure then 0 else set_reserved s)"
proof (cases failure)
  case (HttpStatus n)
  with assms show ?thesis
    by (cases "retryable n") (auto simp: close_failed_def Let_def settle_def abandon_def declined_def dest: close_charge
        split: if_splits)
qed (use assms in \<open>auto simp: close_failed_def Let_def settle_def abandon_def declined_def dest: close_charge
        split: if_splits\<close>)

lemma failed_call_charge_witness:
  "\<exists>s t'. close_failed (sample_env ''2'') ''planner'' ''r1'' OtherProviderError (snd sample_reserved) = Inr (s, t') \<and>
     charged_microdollars s = set_reserved s"
proof -
  have "is_ok (close_failed (sample_env ''2'') ''planner'' ''r1'' OtherProviderError (snd sample_reserved))" by code_simp
  then obtain s t' where c: "close_failed (sample_env ''2'') ''planner'' ''r1'' OtherProviderError (snd sample_reserved) = Inr (s, t')"
    by (auto simp: is_ok_iff)
  from failed_call_charge [OF c] c show ?thesis by (auto simp: declined_def)
qed

end
