(* ===== verification/Canary.thy ===== *)
theory Canary
  imports Execution
begin

text \<open>
  The isolated canary, \<open>src/iou_ai/canary.py\<close>: the runner's measurement, the outcome, the report.
  What the call observes is an argument of \<open>run_canary\<close>: the bytes of the runner file (None when it
  cannot be read), the two clock readings, the two fleet snapshots and the runner's result.
  \<open>json.loads\<close> is an argument too, \<open>json_loads\<close>, giving the kinds of value the code tells apart: its
  input is whatever the runner printed, floating-point numbers and Unicode included.
\<close>

datatype measured = MInt int | MBool bool | MOther

datatype document = NotJson | NotObject | Members "string \<rightharpoonup> measured"

record runner_result =
  rr_stdout :: bytes
  rr_exit_code :: int
  rr_timed_out :: bool

record canary_binding =
  cb_envelope_digest :: string
  cb_validation_digest :: string
  cb_manifest_digest :: string
  cb_artifact_digest :: string
  cb_target_hashes :: target_hashes

record canary_config =
  cc_runner_command :: "string list"
  cc_timeout_seconds :: int
  cc_dry_runs :: int

datatype canary_error = CanaryRunError string | CanaryValidationError

definition check_config :: "canary_config \<Rightarrow> canary_error + unit" where
  "check_config c =
     (if cc_runner_command c = [] then Inl (CanaryRunError ''canary runner command is empty'')
      else if \<not> (1 \<le> cc_timeout_seconds c \<and> cc_timeout_seconds c \<le> 120) then
        Inl (CanaryRunError ''canary timeout must be 1..120 seconds'')
      else if \<not> (1 \<le> cc_dry_runs c \<and> cc_dry_runs c \<le> 4) then
        Inl (CanaryRunError ''canary dry-run count must be 1..4'')
      else Inr ())"

fun canary_timestamp :: "pydatetime \<Rightarrow> canary_error + string" where
  "canary_timestamp Naive = Inl (CanaryRunError ''canary time must be timezone-aware'')"
| "canary_timestamp (Aware t) = Inr (iso_seconds_z t)"

fun runner_hash_of :: "bytes option \<Rightarrow> canary_error + string" where
  "runner_hash_of None = Inl (CanaryRunError ''canary runner is unavailable'')"
| "runner_hash_of (Some b) = Inr (content_digest b)"

text \<open>
  The default fleet probe: \<open>pgrep\<close> lists the process identifiers of a pattern, already split.
\<close>

definition fleet_entries :: "(string \<Rightarrow> string list) \<Rightarrow> string list" where
  "fleet_entries pgrep =
     concat (map (\<lambda>pattern. map (\<lambda>pid. pattern @ '':'' @ pid) (sort (pgrep pattern)))
       [''afl-fuzz'', ''qemu-system-x86''])"

definition fleet_pid_snapshot :: "(string \<Rightarrow> string list) \<Rightarrow> string" where
  "fleet_pid_snapshot pgrep =
     (let entries = join ''|'' (sort (fleet_entries pgrep))
      in content_digest (ascii_bytes (if entries = [] then ''empty'' else entries)))"

section \<open>The measurement\<close>

definition failed_measurement :: "bool \<Rightarrow> string \<rightharpoonup> measured" where
  "failed_measurement timed_out =
     [''executions_total'' \<mapsto> MInt 0, ''harness_accepted'' \<mapsto> MBool False, ''timed_out'' \<mapsto> MBool timed_out,
      ''signal_number'' \<mapsto> MInt 0, ''infrastructure_error'' \<mapsto> MBool True]"

definition parse_measurement :: "(bytes \<Rightarrow> document) \<Rightarrow> runner_result \<Rightarrow> string \<rightharpoonup> measured" where
  "parse_measurement json_loads result =
     (if rr_timed_out result then failed_measurement True
      else
        (case (if rr_stdout result = [] then NotJson else json_loads (rr_stdout result)) of
           NotJson \<Rightarrow> failed_measurement False
         | NotObject \<Rightarrow> failed_measurement False
         | Members m \<Rightarrow> m))"

text \<open>
  \<open>json.dumps(measurement, sort_keys=True)\<close>, which is only used when the runner printed nothing;
  the measurement is then one of the two failed ones.
\<close>

definition failed_measurement_text :: "bool \<Rightarrow> string" where
  "failed_measurement_text timed_out =
     [DQ] @ ''executions_total'' @ [DQ] @ '': 0, '' @ [DQ] @ ''harness_accepted'' @ [DQ] @ '': false, '' @
     [DQ] @ ''infrastructure_error'' @ [DQ] @ '': true, '' @ [DQ] @ ''signal_number'' @ [DQ] @ '': 0, '' @
     [DQ] @ ''timed_out'' @ [DQ] @ '': '' @ (if timed_out then ''true'' else ''false'')"

definition result_digest :: "runner_result \<Rightarrow> string" where
  "result_digest result =
     content_digest
       (if rr_stdout result \<noteq> [] then rr_stdout result
        else ascii_bytes (''{'' @ failed_measurement_text (rr_timed_out result) @ ''}''))"

definition coerce_int :: "measured option \<Rightarrow> int \<Rightarrow> int \<Rightarrow> int option" where
  "coerce_int value low high =
     (case value of
        Some (MInt i) \<Rightarrow> if low \<le> i \<and> i \<le> high then Some i else None
      | _ \<Rightarrow> None)"

fun coerce_bool :: "measured option \<Rightarrow> bool option" where
  "coerce_bool (Some (MBool b)) = Some b"
| "coerce_bool _ = None"

record measurement =
  me_executions :: int
  me_signal :: int
  me_accepted :: bool
  me_timed_out :: bool
  me_infrastructure_error :: bool

definition malformed_measurement :: measurement where
  "malformed_measurement =
     \<lparr>me_executions = 0, me_signal = 0, me_accepted = False, me_timed_out = False, me_infrastructure_error = True\<rparr>"

definition coerce_measurement :: "(string \<rightharpoonup> measured) \<Rightarrow> measurement" where
  "coerce_measurement m =
     (case (coerce_int (m ''executions_total'') 0 1000000, coerce_int (m ''signal_number'') 0 128,
            coerce_bool (m ''harness_accepted''), coerce_bool (m ''timed_out''),
            coerce_bool (m ''infrastructure_error'')) of
        (Some executions, Some signal, Some accepted, Some timed_out, Some infrastructure) \<Rightarrow>
          \<lparr>me_executions = executions, me_signal = signal, me_accepted = accepted, me_timed_out = timed_out,
           me_infrastructure_error = infrastructure\<rparr>
      | _ \<Rightarrow> malformed_measurement)"

definition measure_run :: "(bytes \<Rightarrow> document) \<Rightarrow> runner_result \<Rightarrow> measurement" where
  "measure_run json_loads result = coerce_measurement (parse_measurement json_loads result)"

section \<open>The report\<close>

definition run_passed :: "canary_config \<Rightarrow> runner_result \<Rightarrow> measurement \<Rightarrow> bool" where
  "run_passed config result m \<longleftrightarrow>
     1 \<le> cc_dry_runs config \<and> cc_dry_runs config \<le> me_executions m \<and> me_accepted m \<and>
     \<not> me_infrastructure_error m \<and> rr_exit_code result = 0 \<and> \<not> me_timed_out m \<and> me_signal m = 0"

definition run_outcome :: "canary_config \<Rightarrow> runner_result \<Rightarrow> measurement \<Rightarrow> canary_outcome" where
  "run_outcome config result m =
     (if me_infrastructure_error m then CANARY_INFRASTRUCTURE_FAILURE
      else if run_passed config result m then CANARY_PASSED
      else CANARY_REJECTED)"

definition run_report_id :: "runner_result \<Rightarrow> canary_binding \<Rightarrow> string" where
  "run_report_id result binding =
     ''canary-'' @ take 24 (sha256 (ascii_bytes (result_digest result @ cb_artifact_digest binding)))"

definition run_report ::
  "canary_binding \<Rightarrow> canary_config \<Rightarrow> string \<Rightarrow> string \<Rightarrow> string \<Rightarrow> runner_result \<Rightarrow> measurement \<Rightarrow>
   string \<Rightarrow> string \<Rightarrow> canary_report" where
  "run_report binding config runner_hash started_at finished_at result m before after =
     \<lparr>cr_report_id = run_report_id result binding, cr_started_at = started_at, cr_finished_at = finished_at,
      cr_envelope_digest = cb_envelope_digest binding, cr_validation_digest = cb_validation_digest binding,
      cr_manifest_digest = cb_manifest_digest binding, cr_artifact_digest = cb_artifact_digest binding,
      cr_target_hashes = cb_target_hashes binding, cr_runner_hash = runner_hash,
      cr_result_digest = result_digest result, cr_outcome = run_outcome config result m,
      cr_dry_runs = cc_dry_runs config, cr_executions = me_executions m,
      cr_timeout_seconds = cc_timeout_seconds config, cr_accepted = me_accepted m,
      cr_infrastructure_error = me_infrastructure_error m,
      cr_exit_code = max (- 255) (min 255 (rr_exit_code result)), cr_timed_out = me_timed_out m,
      cr_signal = me_signal m, cr_fleet_before = before, cr_fleet_after = after\<rparr>"

definition run_canary ::
  "(bytes \<Rightarrow> document) \<Rightarrow> canary_binding \<Rightarrow> canary_config \<Rightarrow> bytes option \<Rightarrow> pydatetime \<Rightarrow> string \<Rightarrow>
   runner_result \<Rightarrow> string \<Rightarrow> pydatetime \<Rightarrow> canary_error + canary_report" where
  "run_canary json_loads binding config runner started before result after finished =
     bindR (runner_hash_of runner) (\<lambda>runner_hash.
     let m = measure_run json_loads result in
     if before \<noteq> after then
       Inl (CanaryRunError ''canary disturbed the live fleet worker set; refusing to emit a report'')
     else
       bindR (canary_timestamp started) (\<lambda>started_at.
       bindR (canary_timestamp finished) (\<lambda>finished_at.
       let r = run_report binding config runner_hash started_at finished_at result m before after
       in if valid_canary r then Inr r else Inl CanaryValidationError)))"

section \<open>What a report says\<close>

text \<open>A run the canary may pass: the runner ended by itself with code 0 and printed a clean measurement.\<close>

definition clean_run :: "(bytes \<Rightarrow> document) \<Rightarrow> canary_config \<Rightarrow> runner_result \<Rightarrow> bool" where
  "clean_run json_loads config result \<longleftrightarrow>
     \<not> rr_timed_out result \<and> rr_exit_code result = 0 \<and> rr_stdout result \<noteq> [] \<and>
     (\<exists>m executions. json_loads (rr_stdout result) = Members m \<and>
        m ''executions_total'' = Some (MInt executions) \<and> 1 \<le> cc_dry_runs config \<and>
        cc_dry_runs config \<le> executions \<and> executions \<le> 1000000 \<and>
        m ''harness_accepted'' = Some (MBool True) \<and> m ''timed_out'' = Some (MBool False) \<and>
        m ''signal_number'' = Some (MInt 0) \<and> m ''infrastructure_error'' = Some (MBool False))"

lemma coerce_int_Some: "coerce_int v low high = Some i \<longleftrightarrow> v = Some (MInt i) \<and> low \<le> i \<and> i \<le> high"
  by (auto simp: coerce_int_def split: option.splits measured.splits if_splits)

lemma coerce_int_MInt [simp]:
  "coerce_int (Some (MInt i)) low high = (if low \<le> i \<and> i \<le> high then Some i else None)"
  by (simp add: coerce_int_def)

lemma coerce_bool_Some: "coerce_bool v = Some b \<longleftrightarrow> v = Some (MBool b)"
  by (cases v rule: coerce_bool.cases) auto

text \<open>A measurement without an infrastructure error was read from an object the runner printed.\<close>

lemma measured_run:
  assumes "\<not> me_infrastructure_error (measure_run json_loads result)"
  shows "\<exists>m executions. \<not> rr_timed_out result \<and> rr_stdout result \<noteq> [] \<and>
    json_loads (rr_stdout result) = Members m \<and> m ''executions_total'' = Some (MInt executions) \<and>
    0 \<le> executions \<and> executions \<le> 1000000 \<and> me_executions (measure_run json_loads result) = executions \<and>
    m ''harness_accepted'' = Some (MBool (me_accepted (measure_run json_loads result))) \<and>
    m ''timed_out'' = Some (MBool (me_timed_out (measure_run json_loads result))) \<and>
    m ''signal_number'' = Some (MInt (me_signal (measure_run json_loads result))) \<and>
    m ''infrastructure_error'' = Some (MBool False)"
  using assms unfolding measure_run_def
  by (auto simp: coerce_measurement_def parse_measurement_def failed_measurement_def malformed_measurement_def
      coerce_int_Some coerce_bool_Some split: option.splits document.splits if_splits)

lemma measure_run_bounds:
  "0 \<le> me_executions (measure_run json_loads result)" "me_executions (measure_run json_loads result) \<le> 1000000"
  "0 \<le> me_signal (measure_run json_loads result)" "me_signal (measure_run json_loads result) \<le> 128"
  unfolding measure_run_def coerce_measurement_def malformed_measurement_def
  by (auto simp: coerce_int_Some split: option.splits)

lemma run_passed_clean:
  "run_passed config result (measure_run json_loads result) \<longleftrightarrow> clean_run json_loads config result"
proof
  assume p: "run_passed config result (measure_run json_loads result)"
  then have "\<not> me_infrastructure_error (measure_run json_loads result)" by (simp add: run_passed_def)
  from measured_run [OF this] p show "clean_run json_loads config result"
    by (auto simp: run_passed_def clean_run_def)
next
  assume "clean_run json_loads config result"
  then show "run_passed config result (measure_run json_loads result)"
    by (auto simp: run_passed_def clean_run_def measure_run_def parse_measurement_def coerce_measurement_def coerce_int_def)
qed

text \<open>
  C23: Whatever the runner does, the clock reads and the probe sees, a report is emitted only if it
  is valid and stamped with the binding, and it says \<open>passed\<close> exactly for a clean run: the runner
  ended in time with exit code 0 and printed one object whose counts and flags are all as required.
\<close>

theorem canary_passes_clean_runs:
  assumes "run_canary json_loads binding config runner started before result after finished = Inr r"
  shows "valid_canary r \<and> before = after \<and> (cr_outcome r = CANARY_PASSED \<longleftrightarrow> clean_run json_loads config result) \<and>
    cr_artifact_digest r = cb_artifact_digest binding \<and> cr_manifest_digest r = cb_manifest_digest binding \<and>
    cr_validation_digest r = cb_validation_digest binding \<and> cr_envelope_digest r = cb_envelope_digest binding \<and>
    (\<exists>b. runner = Some b \<and> cr_runner_hash r = content_digest b)"
proof -
  have "run_outcome config result (measure_run json_loads result) = CANARY_PASSED \<longleftrightarrow> clean_run json_loads config result"
    using run_passed_clean [of config result json_loads] by (auto simp: run_outcome_def run_passed_def)
  moreover obtain b where "runner = Some b" using assms by (cases runner) (auto simp: run_canary_def)
  ultimately show ?thesis using assms by (auto simp: run_canary_def run_report_def Let_def split: if_splits)
qed

lemma run_interval:
  assumes "0 \<le> s" "s \<le> f" "f < 3652059 * usec_per_day"
    and "cr_started_at r = iso_seconds_z s" "cr_finished_at r = iso_seconds_z f"
  shows "canary_interval_ok r"
proof -
  have "s - s mod 1000000 \<le> f - f mod 1000000"
    using assms(2) by (simp add: minus_mod_eq_div_mult zdiv_mono1)
  then show ?thesis
    using assms timestamp_reads [of s] timestamp_reads [of f] by (simp add: canary_interval_ok_def)
qed

lemma report_id_identifier: "is_Identifier (run_report_id result binding)"
proof -
  have "is_hex64 (sha256 m)" for m by (rule is_hex64_sha256)
  then have "list_all is_hex (take 24 (sha256 m))" for m
    unfolding is_hex64_def list_all_iff by (meson in_set_takeD)
  moreover have "is_identifier_text ''canary-''" by code_simp
  ultimately show ?thesis unfolding run_report_id_def by (intro hex_identifier) simp_all
qed

text \<open>Every measurement makes a valid report.\<close>

lemma run_report_valid:
  assumes "check_config config = Inr ()" and "0 \<le> s" "s \<le> f" "f < 3652059 * usec_per_day"
    and "is_digest (cb_envelope_digest binding)" "is_digest (cb_validation_digest binding)"
    and "is_digest (cb_manifest_digest binding)" "is_digest (cb_artifact_digest binding)"
    and "valid_target_hashes (cb_target_hashes binding)" and "is_digest snapshot" and "is_digest runner_hash"
  shows "valid_canary (run_report binding config runner_hash (iso_seconds_z s) (iso_seconds_z f) result
    (measure_run json_loads result) snapshot snapshot)" (is "valid_canary ?r")
proof -
  have c: "cc_dry_runs config \<le> 4" "1 \<le> cc_dry_runs config" "1 \<le> cc_timeout_seconds config"
    "cc_timeout_seconds config \<le> 120"
    using assms(1) by (auto simp: check_config_def split: if_splits)
  have clamp: "- 255 \<le> max (- 255) (min 255 x)" "max (- 255) (min 255 x) \<le> 255"
    "max (- 255) (min 255 x) = 0 \<longleftrightarrow> x = 0" for x :: int by auto
  have "outcome_matches_measurements ?r"
    using run_interval [OF assms(2-4), of ?r] c clamp
    by (simp add: outcome_matches_measurements_def run_report_def canary_passed_def run_outcome_def run_passed_def)
  then show ?thesis
    using assms(5-) c clamp measure_run_bounds report_id_identifier is_Timestamp_iso_seconds_z
    by (simp add: valid_canary_def) (simp add: run_report_def content_digest_is_digest result_digest_def)
qed

text \<open>
  A canary run over an undisturbed fleet always yields a report: whatever the runner printed,
  however it ended, the report built from it passes its own validation.
\<close>

lemma canary_always_reports:
  assumes "check_config config = Inr ()" and "0 \<le> s" "s \<le> f" "f < 3652059 * usec_per_day"
    and "is_digest (cb_envelope_digest binding)" "is_digest (cb_validation_digest binding)"
    and "is_digest (cb_manifest_digest binding)" "is_digest (cb_artifact_digest binding)"
    and "valid_target_hashes (cb_target_hashes binding)" and "is_digest snapshot"
  shows "\<exists>r. run_canary json_loads binding config (Some runner) (Aware s) snapshot result snapshot (Aware f) = Inr r"
  using run_report_valid [OF assms content_digest_is_digest] by (simp add: run_canary_def)

section \<open>Witnesses\<close>

definition probe_run_binding :: canary_binding where
  "probe_run_binding =
     \<lparr>cb_envelope_digest = content_digest [1], cb_validation_digest = content_digest [2],
      cb_manifest_digest = content_digest [3], cb_artifact_digest = content_digest [4],
      cb_target_hashes = sample_hashes\<rparr>"

definition probe_config :: canary_config where
  "probe_config = \<lparr>cc_runner_command = [''run-canary''], cc_timeout_seconds = 30, cc_dry_runs = 1\<rparr>"

definition clean_measurement :: "string \<rightharpoonup> measured" where
  "clean_measurement =
     [''executions_total'' \<mapsto> MInt 4, ''harness_accepted'' \<mapsto> MBool True, ''timed_out'' \<mapsto> MBool False,
      ''signal_number'' \<mapsto> MInt 0, ''infrastructure_error'' \<mapsto> MBool False]"

definition probe_result :: runner_result where
  "probe_result = \<lparr>rr_stdout = [1], rr_exit_code = 0, rr_timed_out = False\<rparr>"

lemma probe_run_ready:
  "check_config probe_config = Inr ()" "is_digest (cb_envelope_digest probe_run_binding)"
  "is_digest (cb_validation_digest probe_run_binding)" "is_digest (cb_manifest_digest probe_run_binding)"
  "is_digest (cb_artifact_digest probe_run_binding)" "valid_target_hashes (cb_target_hashes probe_run_binding)"
proof -
  have "valid_target_hashes sample_hashes" by code_simp
  then show "check_config probe_config = Inr ()" "is_digest (cb_envelope_digest probe_run_binding)"
    "is_digest (cb_validation_digest probe_run_binding)" "is_digest (cb_manifest_digest probe_run_binding)"
    "is_digest (cb_artifact_digest probe_run_binding)" "valid_target_hashes (cb_target_hashes probe_run_binding)"
    by (simp_all add: check_config_def probe_config_def probe_run_binding_def content_digest_is_digest)
qed

lemma canary_passes_clean_runs_witness:
  "\<exists>r :: canary_report. cr_outcome r = CANARY_PASSED \<and> cr_artifact_digest r = content_digest [4] \<and>
    run_canary (\<lambda>_. Members clean_measurement) probe_run_binding probe_config (Some [7]) (Aware 0) (content_digest [5])
      probe_result (content_digest [5]) (Aware 1) = Inr r"
proof -
  have "valid_canary (run_report probe_run_binding probe_config (content_digest [7]) (iso_seconds_z 0) (iso_seconds_z 1)
      probe_result (measure_run (\<lambda>_. Members clean_measurement) probe_result) (content_digest [5]) (content_digest [5]))"
    by (rule run_report_valid [OF probe_run_ready(1) _ _ _ probe_run_ready(2-6) content_digest_is_digest
        content_digest_is_digest]) (simp_all add: usec_per_day_def)
  then obtain r where r: "run_canary (\<lambda>_. Members clean_measurement) probe_run_binding probe_config (Some [7]) (Aware 0)
      (content_digest [5]) probe_result (content_digest [5]) (Aware 1) = Inr r"
    by (simp add: run_canary_def)
  have "clean_run (\<lambda>_. Members clean_measurement) probe_config probe_result"
    by (simp add: clean_run_def probe_config_def probe_result_def clean_measurement_def)
  with r canary_passes_clean_runs [OF r] show ?thesis by (auto simp: probe_run_binding_def)
qed

lemma canary_always_reports_witness:
  "\<exists>r. run_canary (\<lambda>_. NotJson) probe_run_binding probe_config (Some [7]) (Aware 0) (content_digest [5])
      \<lparr>rr_stdout = [255], rr_exit_code = 300, rr_timed_out = False\<rparr> (content_digest [5]) (Aware 1) = Inr r"
  by (rule canary_always_reports [OF probe_run_ready(1) _ _ _ probe_run_ready(2-6) content_digest_is_digest])
    (simp_all add: usec_per_day_def)

end
