(* ===== verification/CanaryService.thy ===== *)
theory CanaryService
  imports Canary Quarantine
begin

text \<open>
  The bridge from quarantined artifacts to execution candidates, \<open>src/iou_ai/canary_service.py\<close>.
  An operation returns its result or exception together with the authority store it leaves, because
  what an earlier artifact stored stays when a later one raises.  What the outside does during one
  artifact (clock, runner, fleet, scratch directory, writes) is one \<open>canary_env\<close>.
\<close>

record authority_store =
  au_validations :: directory
  au_reports :: directory
  au_candidates :: directory

text \<open>\<open>get_validation\<close>, \<open>get_report\<close> and \<open>get_candidate\<close> of the store.\<close>

definition get_validation :: "authority_store \<Rightarrow> string \<Rightarrow> execution_error + validation_report" where
  "get_validation au = authority_get load_report valid_report dump_report (au_validations au)"

definition get_report :: "authority_store \<Rightarrow> string \<Rightarrow> execution_error + canary_report" where
  "get_report au = authority_get load_canary valid_canary dump_canary (au_reports au)"

definition get_candidate :: "authority_store \<Rightarrow> string \<Rightarrow> execution_error + execution_candidate" where
  "get_candidate au = authority_get load_candidate valid_candidate dump_candidate (au_candidates au)"

record canary_bridge =
  br_quarantine :: directory
  br_artifacts :: artifact_store
  br_config :: canary_config
  br_scope :: promotion_scope
  br_allowed_runners :: "string list"

record canary_env =
  ce_created_at :: string
  ce_validation_write :: write_outcome
  ce_scratch_ok :: bool
  ce_runner :: "bytes option"
  ce_started :: pydatetime
  ce_fleet_before :: string
  ce_result :: runner_result
  ce_fleet_after :: string
  ce_finished :: pydatetime
  ce_report_write :: write_outcome
  ce_ready_at :: string
  ce_candidate_write :: write_outcome

datatype service_error =
    CanaryServiceError string
  | ServiceOSError
  | ServiceArtifactError artifact_error
  | ServiceExecutionError execution_error
  | ServiceCanaryError canary_error

record service_result =
  sr_envelope_digest :: string
  sr_manifest_digest :: string
  sr_outcome :: string
  sr_canary_digest :: string
  sr_candidate_digest :: "string option"
  sr_detail :: string

definition bridge_ready :: "canary_bridge \<Rightarrow> service_error + unit" where
  "bridge_ready b =
     (if br_allowed_runners b = [] then Inl (CanaryServiceError ''allowed_runner_hashes must not be empty'')
      else Inr ())"

definition rejected_result :: "string \<Rightarrow> string \<Rightarrow> string \<Rightarrow> canary_outcome \<Rightarrow> service_result" where
  "rejected_result envelope_digest mid canary_digest outcome =
     \<lparr>sr_envelope_digest = envelope_digest, sr_manifest_digest = mid,
      sr_outcome = (if outcome = CANARY_INFRASTRUCTURE_FAILURE then ''infrastructure_failure'' else ''rejected''),
      sr_canary_digest = canary_digest, sr_candidate_digest = None,
      sr_detail = ''canary '' @ canary_outcome_value outcome @ ''; artifact not promoted''\<rparr>"

definition ready_result :: "string \<Rightarrow> string \<Rightarrow> string \<Rightarrow> string \<Rightarrow> service_result" where
  "ready_result envelope_digest mid canary_digest candidate_digest =
     \<lparr>sr_envelope_digest = envelope_digest, sr_manifest_digest = mid, sr_outcome = ''candidate_ready'',
      sr_canary_digest = canary_digest, sr_candidate_digest = Some candidate_digest,
      sr_detail = ''canary passed; execution candidate awaiting human approval''\<rparr>"

text \<open>What follows a stored canary report.\<close>

definition finish_artifact ::
  "canary_bridge \<Rightarrow> canary_env \<Rightarrow> string \<Rightarrow> string \<Rightarrow> artifact_manifest \<Rightarrow> string \<Rightarrow> validation_report \<Rightarrow>
   string \<Rightarrow> canary_report \<Rightarrow> authority_store \<Rightarrow> (service_error + service_result) \<times> authority_store" where
  "finish_artifact b env envelope_digest mid m vd v kd k au =
     (if cr_outcome k \<noteq> CANARY_PASSED then (Inr (rejected_result envelope_digest mid kd (cr_outcome k)), au)
      else
        (case build_execution_candidate vd v kd k mid m (br_scope b) (ce_ready_at env) (set (br_allowed_runners b)) of
           Inl x \<Rightarrow> (Inl (ServiceExecutionError x), au)
         | Inr c \<Rightarrow>
             (case authority_put dump_candidate (ce_candidate_write env) c (au_candidates au) of
                Inl x \<Rightarrow> (Inl (ServiceExecutionError x), au)
              | Inr (cd, d) \<Rightarrow>
                  (Inr (ready_result envelope_digest mid kd cd), au\<lparr>au_candidates := d\<rparr>))))"

definition binding_of :: "string \<Rightarrow> string \<Rightarrow> string \<Rightarrow> artifact_manifest \<Rightarrow> canary_binding" where
  "binding_of envelope_digest vd mid m =
     \<lparr>cb_envelope_digest = envelope_digest, cb_validation_digest = vd, cb_manifest_digest = mid,
      cb_artifact_digest = am_payload_digest m, cb_target_hashes = am_target_hashes m\<rparr>"

definition canary_artifact ::
  "(bytes \<Rightarrow> document) \<Rightarrow> canary_bridge \<Rightarrow> canary_env \<Rightarrow> string \<Rightarrow> string \<Rightarrow> artifact_manifest \<Rightarrow>
   string \<Rightarrow> validation_report \<Rightarrow> authority_store \<Rightarrow> (service_error + service_result) \<times> authority_store" where
  "canary_artifact json_loads b env envelope_digest mid m vd v au =
     (if \<not> ce_scratch_ok env then (Inl ServiceOSError, au)
      else
        (case run_canary json_loads (binding_of envelope_digest vd mid m) (br_config b) (ce_runner env)
             (ce_started env) (ce_fleet_before env) (ce_result env) (ce_fleet_after env) (ce_finished env) of
           Inl x \<Rightarrow> (Inl (ServiceCanaryError x), au)
         | Inr k \<Rightarrow>
             (case authority_put dump_canary (ce_report_write env) k (au_reports au) of
                Inl x \<Rightarrow> (Inl (ServiceExecutionError x), au)
              | Inr (kd, d) \<Rightarrow>
                  finish_artifact b env envelope_digest mid m vd v kd k (au\<lparr>au_reports := d\<rparr>))))"

definition process_artifact ::
  "(bytes \<Rightarrow> document) \<Rightarrow> canary_bridge \<Rightarrow> canary_env \<Rightarrow> string \<Rightarrow> quarantine_envelope \<Rightarrow> string \<Rightarrow>
   authority_store \<Rightarrow> (service_error + service_result) \<times> authority_store" where
  "process_artifact json_loads b env envelope_digest e mid au =
     (case get_manifest (br_artifacts b) mid of
        Inl x \<Rightarrow> (Inl (ServiceArtifactError x), au)
      | Inr m \<Rightarrow>
          (case get_payload (br_artifacts b) m of
             Inl x \<Rightarrow> (Inl (ServiceArtifactError x), au)
           | Inr payload \<Rightarrow>
               (case build_validation_report envelope_digest e mid m payload (ce_created_at env) of
                  Inl x \<Rightarrow> (Inl (ServiceExecutionError x), au)
                | Inr v \<Rightarrow>
                    (case authority_put dump_report (ce_validation_write env) v (au_validations au) of
                       Inl x \<Rightarrow> (Inl (ServiceExecutionError x), au)
                     | Inr (vd, d) \<Rightarrow>
                         canary_artifact json_loads b env envelope_digest mid m vd v (au\<lparr>au_validations := d\<rparr>)))))"

text \<open>The artifacts of an envelope in order; the first exception ends the call.\<close>

fun process_artifacts ::
  "(bytes \<Rightarrow> document) \<Rightarrow> canary_bridge \<Rightarrow> (nat \<Rightarrow> canary_env) \<Rightarrow> string \<Rightarrow> quarantine_envelope \<Rightarrow> nat \<Rightarrow>
   string list \<Rightarrow> authority_store \<Rightarrow> (service_error + service_result list) \<times> authority_store" where
  "process_artifacts json_loads b env envelope_digest e i [] au = (Inr [], au)"
| "process_artifacts json_loads b env envelope_digest e i (mid # mids) au =
     (case process_artifact json_loads b (env i) envelope_digest e mid au of
        (Inl x, au') \<Rightarrow> (Inl x, au')
      | (Inr r, au') \<Rightarrow>
          (case process_artifacts json_loads b env envelope_digest e (Suc i) mids au' of
             (Inl x, au'') \<Rightarrow> (Inl x, au'')
           | (Inr rs, au'') \<Rightarrow> (Inr (r # rs), au'')))"

definition process_envelope ::
  "(bytes \<Rightarrow> document) \<Rightarrow> canary_bridge \<Rightarrow> (nat \<Rightarrow> canary_env) \<Rightarrow> string \<Rightarrow>
   authority_store \<Rightarrow> (service_error + service_result list) \<times> authority_store" where
  "process_envelope json_loads b env envelope_hex au =
     (case quarantine_get 2097152 (br_quarantine b) envelope_hex of
        Inl (QuarantineError message) \<Rightarrow>
          (Inl (CanaryServiceError (''quarantine envelope unavailable: '' @ message)), au)
      | Inl QuarantineOSError \<Rightarrow> (Inl ServiceOSError, au)
      | Inr raw \<Rightarrow>
          (case model_validate_json load_envelope valid_envelope (canonical_json raw) of
             None \<Rightarrow> (Inl (CanaryServiceError ''quarantine envelope is invalid''), au)
           | Some e \<Rightarrow>
               process_artifacts json_loads b env (''sha256:'' @ envelope_hex) e 0 (qe_compiled_artifact_hashes e) au))"


section \<open>Every candidate is earned\<close>

lemma authority_put_Inr:
  "authority_put dump w x d = Inr (k, d') \<longleftrightarrow>
     k = model_digest dump x \<and>
     create_only w d (removeprefix ''sha256:'' k @ ''.json'') (canonical_json (dump x)) = Inr d'"
  by (auto simp: authority_put_def)

lemma create_only_other:
  "create_only w d name b = Inr d' \<Longrightarrow> name' \<noteq> name \<Longrightarrow> map_of d' name' = map_of d name'"
  by (auto simp: create_only_def map_of_create_file split: if_splits)

text \<open>An object readable after a \<open>put\<close> was readable before it, or is the one stored.\<close>

lemma authority_put_new:
  assumes load: "\<And>x. f (norm_json (dump x)) = Some x" "\<And>x. wf_json (dump x)"
    and put: "authority_put dump w x d = Inr (k, d')"
    and get: "authority_get f valid dump d' k' = Inr y"
  shows "authority_get f valid dump d k' = Inr y \<or> k' = k \<and> y = x"
proof (cases "removeprefix ''sha256:'' k' = removeprefix ''sha256:'' k")
  case True
  note put' = put [unfolded authority_put_Inr]
  have "canonical_json (dump y) = canonical_json (dump x)"
    using get create_only_Inr [of w d "removeprefix ''sha256:'' k @ ''.json''"] put' True
    by (auto simp: authority_get_Inr [OF load])
  then have "norm_json (dump y) = norm_json (dump x)" using load(2) by (simp add: canonical_json_inject)
  then have "y = x" by (metis load(1) option.inject)
  with get put' show ?thesis by (auto simp: authority_get_Inr [OF load])
next
  case False
  with put create_only_other have "map_of d' (removeprefix ''sha256:'' k' @ ''.json'') =
      map_of d (removeprefix ''sha256:'' k' @ ''.json'')"
    unfolding authority_put_Inr by blast
  with get show ?thesis by (simp add: authority_get_Inr [OF load])
qed


text \<open>
  The evidence a candidate rests on, in the same store: the validation report and the canary report
  it names are readable, the canary passed under an allowed runner, and all three agree on the
  artifact, its manifest, the envelope and the target.
\<close>

definition earned_candidate :: "string set \<Rightarrow> authority_store \<Rightarrow> execution_candidate \<Rightarrow> bool" where
  "earned_candidate allowed au c \<longleftrightarrow>
     (\<exists>v r. get_validation au (ec_validation_digest c) = Inr v \<and> get_report au (ec_canary_digest c) = Inr r \<and>
        canary_passed r \<and> cr_runner_hash r \<in> allowed \<and> cr_validation_digest r = ec_validation_digest c \<and>
        dv_artifact_digest v = ec_artifact_digest c \<and> cr_artifact_digest r = ec_artifact_digest c \<and>
        dv_artifact_size v = ec_artifact_size c \<and> cr_manifest_digest r = ec_manifest_digest c \<and>
        dv_envelope_digest v = ec_envelope_digest c \<and> cr_envelope_digest r = ec_envelope_digest c \<and>
        dv_target_hashes v = ec_target_hashes c \<and> cr_target_hashes r = ec_target_hashes c)"

definition authority_inv :: "string set \<Rightarrow> authority_store \<Rightarrow> bool" where
  "authority_inv allowed au \<longleftrightarrow>
     regular_only (au_validations au) \<and> regular_only (au_reports au) \<and> regular_only (au_candidates au) \<and>
     (\<forall>k c. get_candidate au k = Inr c \<longrightarrow> earned_candidate allowed au c)"

lemma earned_mono:
  assumes "earned_candidate allowed au c" and "map_of (au_validations au) \<subseteq>\<^sub>m map_of (au_validations au')"
    and "map_of (au_reports au) \<subseteq>\<^sub>m map_of (au_reports au')"
  shows "earned_candidate allowed au' c"
  using assms(1) validation_reports.get_mono [OF assms(2)] canary_reports.get_mono [OF assms(3)]
  unfolding earned_candidate_def get_validation_def get_report_def by blast

lemma put_validation_inv:
  assumes "authority_inv allowed au" "authority_put dump_report w v (au_validations au) = Inr (vd, d)" "valid_report v"
  shows "authority_inv allowed (au\<lparr>au_validations := d\<rparr>)" "get_validation (au\<lparr>au_validations := d\<rparr>) vd = Inr v"
proof -
  note mono = validation_reports.put_keeps [OF assms(2)] and reg = validation_reports.put_regular [OF assms(2)]
  show "authority_inv allowed (au\<lparr>au_validations := d\<rparr>)"
    using assms(1) mono reg earned_mono [of allowed au _ "au\<lparr>au_validations := d\<rparr>"]
    by (auto simp: authority_inv_def get_candidate_def)
  show "get_validation (au\<lparr>au_validations := d\<rparr>) vd = Inr v"
    using validation_reports.put_get [OF assms(3) _ assms(2)] assms(1)
    by (simp add: get_validation_def authority_inv_def)
qed

lemma put_report_inv:
  assumes "authority_inv allowed au" "authority_put dump_canary w r (au_reports au) = Inr (kd, d)" "valid_canary r"
  shows "authority_inv allowed (au\<lparr>au_reports := d\<rparr>)" "get_report (au\<lparr>au_reports := d\<rparr>) kd = Inr r"
    "get_validation (au\<lparr>au_reports := d\<rparr>) = get_validation au"
proof -
  note mono = canary_reports.put_keeps [OF assms(2)] and reg = canary_reports.put_regular [OF assms(2)]
  show "authority_inv allowed (au\<lparr>au_reports := d\<rparr>)"
    using assms(1) mono reg earned_mono [of allowed au _ "au\<lparr>au_reports := d\<rparr>"]
    by (auto simp: authority_inv_def get_candidate_def)
  show "get_report (au\<lparr>au_reports := d\<rparr>) kd = Inr r"
    using canary_reports.put_get [OF assms(3) _ assms(2)] assms(1) by (simp add: get_report_def authority_inv_def)
  show "get_validation (au\<lparr>au_reports := d\<rparr>) = get_validation au" by (simp add: get_validation_def)
qed

lemma put_candidate_inv:
  assumes "authority_inv allowed au" "authority_put dump_candidate w c (au_candidates au) = Inr (cd, d)"
    and "earned_candidate allowed au c"
  shows "authority_inv allowed (au\<lparr>au_candidates := d\<rparr>)"
proof -
  have earned: "earned_candidate allowed (au\<lparr>au_candidates := d\<rparr>) x" if "earned_candidate allowed au x" for x
    using that by (simp add: earned_candidate_def get_validation_def get_report_def)
  have "earned_candidate allowed au x" if "get_candidate (au\<lparr>au_candidates := d\<rparr>) k = Inr x" for k x
    using authority_put_new [OF load_dump_candidate wf_execution_dumps(4) assms(2), of valid_candidate k x] that assms(1,3)
    by (auto simp: get_candidate_def authority_inv_def)
  then show ?thesis
    using earned assms(1) candidates.put_regular [OF assms(2)] by (auto simp: authority_inv_def)
qed

lemma finish_artifact_inv:
  assumes "authority_inv allowed au" "set (br_allowed_runners b) \<subseteq> allowed"
    and "get_validation au vd = Inr v" "get_report au kd = Inr k"
    and "finish_artifact b env envelope_digest mid m vd v kd k au = (res, au')"
  shows "authority_inv allowed au'"
proof -
  have v: "model_digest dump_report v = vd" using assms(3) validation_reports.get_key by (simp add: get_validation_def)
  have k: "model_digest dump_canary k = kd" "valid_canary k"
    using assms(4) by (auto simp: get_report_def authority_get_Inr [OF load_dump_canary wf_execution_dumps(2)])
  show ?thesis
  proof (cases "build_execution_candidate vd v kd k mid m (br_scope b) (ce_ready_at env) (set (br_allowed_runners b))")
    case (Inl x)
    with assms show ?thesis by (auto simp: finish_artifact_def split: if_splits)
  next
    case (Inr c)
    note built = built_candidate [OF this k(2)]
    then have "canary_passed k" by (simp add: canary_passed_def)
    then have "earned_candidate allowed au c"
      unfolding earned_candidate_def using built v k(1) assms(2-4) by (intro exI [of _ v] exI [of _ k]) auto
    with Inr assms put_candidate_inv show ?thesis
      by (auto simp: finish_artifact_def split: if_splits sum.splits)
  qed
qed


lemma run_canary_valid: "run_canary json_loads binding config runner s before result after f = Inr r \<Longrightarrow> valid_canary r"
  by (auto simp: run_canary_def Let_def split: if_splits)

lemma validation_valid: "build_validation_report envelope_digest e mid m payload created_at = Inr v \<Longrightarrow> valid_report v"
  by (auto simp: build_validation_report_def Let_def split: sum.splits if_splits)

lemma canary_artifact_inv:
  assumes "authority_inv allowed au" "set (br_allowed_runners b) \<subseteq> allowed" "get_validation au vd = Inr v"
    and "canary_artifact json_loads b env envelope_digest mid m vd v au = (res, au')"
  shows "authority_inv allowed au'"
proof -
  have "authority_inv allowed x"
    if "run_canary json_loads (binding_of envelope_digest vd mid m) (br_config b) (ce_runner env) (ce_started env)
        (ce_fleet_before env) (ce_result env) (ce_fleet_after env) (ce_finished env) = Inr k"
      and put: "authority_put dump_canary (ce_report_write env) k (au_reports au) = Inr (kd, d)"
      and "finish_artifact b env envelope_digest mid m vd v kd k (au\<lparr>au_reports := d\<rparr>) = (res, x)" for k kd d x
    using finish_artifact_inv [OF put_report_inv(1) assms(2) _ put_report_inv(2) that(3)]
      put_report_inv(3) [OF assms(1) put run_canary_valid [OF that(1)]] assms(1,3) put run_canary_valid [OF that(1)]
    by simp
  with assms show ?thesis
    by (auto simp: canary_artifact_def split: if_splits sum.splits)
qed

lemma process_artifact_inv:
  assumes "authority_inv allowed au" "set (br_allowed_runners b) \<subseteq> allowed"
    and "process_artifact json_loads b env envelope_digest e mid au = (res, au')"
  shows "authority_inv allowed au'"
proof -
  have "authority_inv allowed x"
    if "build_validation_report envelope_digest e mid m payload (ce_created_at env) = Inr v"
      and put: "authority_put dump_report (ce_validation_write env) v (au_validations au) = Inr (vd, d)"
      and "canary_artifact json_loads b env envelope_digest mid m vd v (au\<lparr>au_validations := d\<rparr>) = (res, x)"
    for m payload v vd d x
    by (rule canary_artifact_inv [OF put_validation_inv(1) assms(2) put_validation_inv(2) that(3)])
      (rule assms(1) put validation_valid [OF that(1)])+
  with assms show ?thesis
    by (auto simp: process_artifact_def split: sum.splits)
qed

lemma process_artifacts_inv:
  "authority_inv allowed au \<Longrightarrow> set (br_allowed_runners b) \<subseteq> allowed \<Longrightarrow>
    process_artifacts json_loads b env envelope_digest e i mids au = (res, au') \<Longrightarrow> authority_inv allowed au'"
proof (induction mids arbitrary: i au res)
  case (Cons mid mids)
  obtain r x where r: "process_artifact json_loads b (env i) envelope_digest e mid au = (r, x)" by fastforce
  note x = process_artifact_inv [OF Cons.prems(1,2) r]
  show ?case
    using Cons.prems(3) r x Cons.IH [OF x Cons.prems(2)] by (auto split: sum.splits prod.splits)
qed simp

lemma process_envelope_inv:
  assumes "authority_inv allowed au" "set (br_allowed_runners b) \<subseteq> allowed"
    and "process_envelope json_loads b env envelope_hex au = (res, au')"
  shows "authority_inv allowed au'"
  using assms process_artifacts_inv [OF assms(1,2)]
  by (auto simp: process_envelope_def split: sum.splits option.splits quarantine_error.splits)

text \<open>
  A run of the bridge: any number of envelopes, processed by bridges whose allowlists lie within
  \<open>allowed\<close>, each call ending with results or with an exception.
\<close>

inductive bridge_step :: "string set \<Rightarrow> authority_store \<Rightarrow> authority_store \<Rightarrow> bool" for allowed where
  "set (br_allowed_runners b) \<subseteq> allowed \<Longrightarrow> process_envelope json_loads b env envelope_hex au = (res, au') \<Longrightarrow>
     bridge_step allowed au au'"

inductive_cases bridge_stepE: "bridge_step allowed au au'"

definition empty_authority :: authority_store where
  "empty_authority = \<lparr>au_validations = [], au_reports = [], au_candidates = []\<rparr>"

lemma authority_inv_empty: "authority_inv allowed empty_authority"
  by (simp add: authority_inv_def empty_authority_def get_candidate_def authority_get_Inr)

lemma bridge_history_inv:
  assumes "(bridge_step allowed)\<^sup>*\<^sup>* empty_authority au"
  shows "authority_inv allowed au"
  using assms by (induction rule: rtranclp_induct) (auto elim!: bridge_stepE intro: authority_inv_empty process_envelope_inv)



section \<open>An authentic artifact with a clean run becomes a candidate\<close>

lemma validation_fields:
  "build_validation_report envelope_digest e mid m payload created_at = Inr v \<Longrightarrow>
    dv_envelope_digest v = envelope_digest \<and> dv_manifest_digest v = mid \<and>
    dv_artifact_digest v = am_payload_digest m \<and> dv_artifact_size v = am_payload_size m \<and>
    dv_target_hashes v = am_target_hashes m"
  by (auto simp: build_validation_report_def Let_def split: sum.splits if_splits)

lemma fresh_put: "\<exists>d. authority_put dump WriteOk x [] = Inr (model_digest dump x, d)"
  by (simp add: authority_put_Inr create_only_def exists_name_def)

text \<open>An environment in which nothing fails and the runner reports a clean run.\<close>

definition clean_env :: "(bytes \<Rightarrow> document) \<Rightarrow> canary_bridge \<Rightarrow> canary_env \<Rightarrow> bool" where
  "clean_env json_loads b env \<longleftrightarrow>
     ce_scratch_ok env \<and> ce_validation_write env = WriteOk \<and> ce_report_write env = WriteOk \<and>
     ce_candidate_write env = WriteOk \<and> is_Timestamp (ce_created_at env) \<and> is_Timestamp (ce_ready_at env) \<and>
     clean_run json_loads (br_config b) (ce_result env) \<and>
     is_digest (ce_fleet_before env) \<and> ce_fleet_after env = ce_fleet_before env \<and>
     (case ce_runner env of Some runner \<Rightarrow> content_digest runner \<in> set (br_allowed_runners b) | None \<Rightarrow> False) \<and>
     (case (ce_started env, ce_finished env) of
        (Aware s, Aware f) \<Rightarrow> 0 \<le> s \<and> s \<le> f \<and> f < 3652059 * usec_per_day | _ \<Rightarrow> False)"

lemma clean_canary:
  assumes "clean_env json_loads b env" and "check_config (br_config b) = Inr ()"
    and "is_digest envelope_digest" "is_digest vd" "is_digest mid" "valid_manifest m"
  shows "\<exists>k. run_canary json_loads (binding_of envelope_digest vd mid m) (br_config b) (ce_runner env) (ce_started env)
      (ce_fleet_before env) (ce_result env) (ce_fleet_after env) (ce_finished env) = Inr k \<and>
    cr_outcome k = CANARY_PASSED \<and> cr_runner_hash k \<in> set (br_allowed_runners b) \<and>
    cr_envelope_digest k = envelope_digest \<and> cr_validation_digest k = vd \<and> cr_manifest_digest k = mid \<and>
    cr_artifact_digest k = am_payload_digest m \<and> cr_target_hashes k = am_target_hashes m"
proof -
  obtain runner s f where env: "ce_runner env = Some runner" "content_digest runner \<in> set (br_allowed_runners b)"
    "ce_started env = Aware s" "ce_finished env = Aware f" "0 \<le> s" "s \<le> f" "f < 3652059 * usec_per_day"
    using assms(1) by (auto simp: clean_env_def split: option.splits pydatetime.splits)
  have clean: "clean_run json_loads (br_config b) (ce_result env)" "is_digest (ce_fleet_before env)"
    "ce_fleet_after env = ce_fleet_before env"
    using assms(1) by (simp_all add: clean_env_def)
  let ?b = "binding_of envelope_digest vd mid m"
  let ?k = "run_report ?b (br_config b) (content_digest runner) (iso_seconds_z s) (iso_seconds_z f) (ce_result env)
    (measure_run json_loads (ce_result env)) (ce_fleet_before env) (ce_fleet_before env)"
  have "valid_canary ?k"
    by (rule run_report_valid [OF assms(2) env(5-7)])
      (use assms(3-6) clean(2) in \<open>simp_all add: binding_of_def valid_manifest_def content_digest_is_digest\<close>)
  then have "run_canary json_loads ?b (br_config b) (ce_runner env) (ce_started env) (ce_fleet_before env)
      (ce_result env) (ce_fleet_after env) (ce_finished env) = Inr ?k"
    by (simp add: run_canary_def env clean(3))
  moreover have "cr_outcome ?k = CANARY_PASSED"
    using clean(1) run_passed_clean [of "br_config b" "ce_result env" json_loads]
    by (simp add: run_report_def run_outcome_def run_passed_def)
  ultimately show ?thesis using env(2) by (auto simp: run_report_def binding_of_def)
qed

lemma clean_candidate:
  assumes "valid_manifest m" "is_digest mid" "mid = model_digest dump_manifest m" "valid_scope scope" "is_Timestamp ready_at"
    and "vd = model_digest dump_report v" "kd = model_digest dump_canary k" "is_digest ed"
    and "dv_envelope_digest v = ed" "dv_manifest_digest v = mid" "dv_artifact_digest v = am_payload_digest m"
      "dv_artifact_size v = am_payload_size m" "dv_target_hashes v = am_target_hashes m"
    and "cr_outcome k = CANARY_PASSED" "cr_runner_hash k \<in> allowed" "cr_envelope_digest k = ed"
      "cr_validation_digest k = vd" "cr_manifest_digest k = mid" "cr_artifact_digest k = am_payload_digest m"
      "cr_target_hashes k = am_target_hashes m"
  shows "\<exists>c. build_execution_candidate vd v kd k mid m scope ready_at allowed = Inr c \<and> valid_candidate c \<and>
    ec_envelope_digest c = ed \<and> ec_manifest_digest c = mid \<and> ec_artifact_digest c = am_payload_digest m \<and>
    ec_canary_digest c = kd"
proof -
  have kd: "is_digest kd" using assms(7) by (simp add: model_digest_def content_digest_is_digest)
  have "is_identifier_text ''candidate-''" by code_simp
  from hex_tail_identifier [OF kd this] have "is_Identifier (''candidate-'' @ last_chars 24 kd)" by simp
  then show ?thesis
    using assms kd
    by (simp add: build_execution_candidate_def first_failure_Inr candidate_bindings_def valid_candidate_def
        valid_manifest_def first_failure_def model_digest_def content_digest_is_digest)
qed


lemma clean_process:
  assumes "clean_env json_loads b env" and "check_config (br_config b) = Inr ()" and "valid_scope (br_scope b)"
    and "get_manifest (br_artifacts b) mid = Inr m" "get_payload (br_artifacts b) m = Inr payload"
    and "build_validation_report ed e mid m payload (ce_created_at env) = Inr v"
    and "valid_manifest m" "is_digest mid" "mid = model_digest dump_manifest m" "is_digest ed"
  shows "\<exists>r au cd c. process_artifact json_loads b env ed e mid empty_authority = (Inr r, au) \<and>
    sr_outcome r = ''candidate_ready'' \<and> sr_candidate_digest r = Some cd \<and> get_candidate au cd = Inr c \<and>
    ec_envelope_digest c = ed \<and> ec_manifest_digest c = mid \<and> ec_artifact_digest c = am_payload_digest m"
proof -
  let ?vd = "model_digest dump_report v"
  have vd: "is_digest ?vd" by (simp add: model_digest_def content_digest_is_digest)
  note v = validation_fields [OF assms(6)]
  have w: "ce_validation_write env = WriteOk" "ce_report_write env = WriteOk" "ce_candidate_write env = WriteOk"
    "ce_scratch_ok env" using assms(1) by (simp_all add: clean_env_def)
  obtain d1 where d1: "authority_put dump_report (ce_validation_write env) v [] = Inr (?vd, d1)"
    using fresh_put [of dump_report v] unfolding w by blast
  from clean_canary [OF assms(1,2,10) vd assms(8,7)] obtain k where
    k: "run_canary json_loads (binding_of ed ?vd mid m) (br_config b) (ce_runner env) (ce_started env)
      (ce_fleet_before env) (ce_result env) (ce_fleet_after env) (ce_finished env) = Inr k"
      "cr_outcome k = CANARY_PASSED" "cr_runner_hash k \<in> set (br_allowed_runners b)" "cr_envelope_digest k = ed"
      "cr_validation_digest k = ?vd" "cr_manifest_digest k = mid" "cr_artifact_digest k = am_payload_digest m"
      "cr_target_hashes k = am_target_hashes m" by blast
  let ?kd = "model_digest dump_canary k"
  obtain d2 where d2: "authority_put dump_canary (ce_report_write env) k [] = Inr (?kd, d2)"
    using fresh_put [of dump_canary k] unfolding w by blast
  have "is_Timestamp (ce_ready_at env)" using assms(1) by (simp add: clean_env_def)
  from clean_candidate [OF assms(7-9,3) this refl refl assms(10) _ _ _ _ _ k(2-8)] v obtain c where
    c: "build_execution_candidate ?vd v ?kd k mid m (br_scope b) (ce_ready_at env) (set (br_allowed_runners b)) = Inr c"
      "valid_candidate c" "ec_envelope_digest c = ed" "ec_manifest_digest c = mid"
      "ec_artifact_digest c = am_payload_digest m" by blast
  let ?cd = "model_digest dump_candidate c"
  obtain d3 where d3: "authority_put dump_candidate WriteOk c [] = Inr (?cd, d3)"
    using fresh_put [of dump_candidate c] by blast
  let ?au = "\<lparr>au_validations = d1, au_reports = d2, au_candidates = d3\<rparr>"
  have "process_artifact json_loads b env ed e mid empty_authority = (Inr (ready_result ed mid ?kd ?cd), ?au)"
    using k(1,2) d1 [unfolded w] d2 [unfolded w] d3 c(1)
    by (simp add: process_artifact_def assms(4-6) w empty_authority_def canary_artifact_def finish_artifact_def)
  moreover have "get_candidate ?au ?cd = Inr c"
    using candidates.put_get [OF c(2) regular_only_Nil d3] by (simp add: get_candidate_def)
  ultimately show ?thesis using c(3-5) by (intro exI [of _ "ready_result ed mid ?kd ?cd"]) (auto simp: ready_result_def)
qed

text \<open>
  The path from the compiler to the promoter's door: a program that compiles and is stored, whose envelope
  is quarantined with its bindings, becomes an execution candidate when the bridge processes the
  envelope and the runner reports a clean run.
\<close>

lemma clean_artifact_candidate:
  assumes "compile_program file g c = Inr out"
    and "artifact_put w w' out ab st = (Inr mid, st')" and "regular_only (as_manifests st)"
    and "valid_envelope e" and "qe_compiled_artifact_hashes e = [mid]"
    and "ab_proposal_digest ab = qe_proposal_hash e" and "ab_contract_digest ab = qe_harness_contract_hash e"
    and "ab_target_hashes ab = qe_target_hashes e"
    and "qe_proposal_hash e = model_digest dump_proposal (qe_proposal e)"
    and "qe_reviewer_verdict_hash e = model_digest dump_verdict (qe_reviewer_verdict e)"
    and "\<forall>a. qe_auditor_verdict e = Some a \<longrightarrow> qe_auditor_verdict_hash e = Some (model_digest dump_verdict a)"
    and "\<exists>r \<in> set (qe_validations e). vr_validator_version r = ab_validator_version ab \<and>
      vr_validator_hash r = ab_validator_hash ab"
    and "length (report_checks e) \<le> 128"
    and "quarantine_put wq (dump_envelope e) q = Inr (hex, br_quarantine b)" and "regular_only q"
    and "length (canonical_json (dump_envelope e)) \<le> 2097152"
    and "artifact_step\<^sup>*\<^sup>* st' (br_artifacts b)" and "check_config (br_config b) = Inr ()" and "valid_scope (br_scope b)"
    and "clean_env json_loads b (env 0)"
  shows "\<exists>r au cd k. process_envelope json_loads b env hex empty_authority = (Inr [r], au) \<and>
    sr_outcome r = ''candidate_ready'' \<and> sr_candidate_digest r = Some cd \<and> get_candidate au cd = Inr k \<and>
    ec_envelope_digest k = ''sha256:'' @ hex \<and> ec_artifact_digest k = cp_payload_hash out"
proof -
  let ?m = "manifest_of out ab"
  have created: "is_Timestamp (ce_created_at (env 0))" using assms(20) by (simp add: clean_env_def)
  have mem: "mid \<in> set (qe_compiled_artifact_hashes e)" using assms(5) by simp
  from stored_artifact_report [OF assms(1-4) mem assms(6-13) created]
  obtain v where stored: "get_manifest st' mid = Inr ?m" "get_payload st' ?m = Inr (cp_payload out)"
    and v: "build_validation_report (model_digest dump_envelope e) e mid ?m (cp_payload out) (ce_created_at (env 0)) = Inr v"
    by blast
  note put = artifact_put_Inr [OF assms(2)]
  have mid: "mid = model_digest dump_manifest ?m" "valid_manifest ?m" "is_digest mid"
    using put manifest_digest_is_digest by (auto simp: manifest_digest_def model_digest_def)
  have hex: "''sha256:'' @ hex = model_digest dump_envelope e"
    using assms(14) by (auto simp: quarantine_put_Inr model_digest_def content_digest_def)
  have ed: "is_digest (model_digest dump_envelope e)" by (simp add: model_digest_def content_digest_is_digest)
  have "is_object (dump_envelope e)" by (simp add: dump_envelope_def is_object_def)
  then have "quarantine_storable 2097152 (dump_envelope e)" using assms(16) by (simp add: quarantine_storable_def)
  then have get: "quarantine_get 2097152 (br_quarantine b) hex = Inr (norm_json (dump_envelope e))"
    using shadow.put_get assms(14,15) by blast
  have load: "model_validate_json load_envelope valid_envelope (canonical_json (norm_json (dump_envelope e))) = Some e"
    using assms(4) by (simp add: model_round_trip)
  from clean_process [OF assms(20,18,19) _ _ v mid(2,3,1) ed] readable_keeps [OF assms(17)] stored
  obtain r au cd k where r: "process_artifact json_loads b (env 0) (model_digest dump_envelope e) e mid empty_authority = (Inr r, au)"
    "sr_outcome r = ''candidate_ready''" "sr_candidate_digest r = Some cd" "get_candidate au cd = Inr k"
    "ec_envelope_digest k = model_digest dump_envelope e" "ec_artifact_digest k = am_payload_digest ?m" by auto
  have "process_envelope json_loads b env hex empty_authority = (Inr [r], au)"
    unfolding process_envelope_def get using load r(1) [folded hex] by (simp add: assms(5))
  then show ?thesis using r(2-6) hex by (auto simp: manifest_of_def)
qed

section \<open>Witnesses\<close>

lemma hashes_size: "valid_target_hashes h \<Longrightarrow> json_size (dump_target_hashes h) \<le> 2400"
  using length_of_digest by (simp add: valid_target_hashes_def dump_target_hashes_def)

lemma probe_envelope_size:
  assumes mid: "is_digest mid"
  shows "length (canonical_json (dump_envelope (probe_envelope mid))) \<le> 2097152"
proof -
  have parts: "json_size (dump_program (probe_program linked_steps)) \<le> 20000"
    "json_size (dump_hypothesis (pr_hypothesis (probe_proposal h linked_steps))) \<le> 2000"
    "json_size (dump_verdict probe_verdict) \<le> 4000" "json_size (dump_trace (probe_trace PLANNER)) \<le> 2000"
    "json_size (dump_trace (probe_trace REVIEWER)) \<le> 2000" for h by code_simp+
  have h: "json_size (dump_target_hashes probe_hashes) \<le> 2400"
    using hashes_size probe_contract_enabled(8) .
  have digests: "length mid = 71" "length VALIDATOR_HASH = 71" using mid length_of_digest validator_constants(2) by blast+
  have version: "length VALIDATOR_VERSION \<le> 96" using validator_constants(1) by (simp add: is_Identifier_def)
  have "json_size (dump_proposal probe_plan) \<le> 30000"
    using parts(1,2) h by (simp add: dump_proposal_def) (simp add: probe_proposal_def)
  moreover have "json_size (dump_validation_record \<lparr>vr_validator_version = VALIDATOR_VERSION, vr_validator_hash = VALIDATOR_HASH,
         vr_passed = [''binding.packet-id''], vr_failed = []\<rparr>) \<le> 3000"
    using digests version by (simp add: dump_validation_record_def)
  moreover have "json_size (dump_optional JStr None) = 4" "json_size (dump_optional dump_verdict None) = 4"
    by (simp_all add: dump_optional_def)
  ultimately have "json_size (dump_envelope (probe_envelope mid)) \<le> 2097152"
    using parts(3-5) h digests by (simp add: dump_envelope_def probe_envelope_def model_digest_def)
  with canonical_size show ?thesis by (rule order_trans)
qed

definition probe_env :: canary_env where
  "probe_env =
     \<lparr>ce_created_at = ''2026-01-02T03:05:00Z'', ce_validation_write = WriteOk, ce_scratch_ok = True,
      ce_runner = Some [7], ce_started = Aware 0, ce_fleet_before = content_digest [5], ce_result = probe_result,
      ce_fleet_after = content_digest [5], ce_finished = Aware 1, ce_report_write = WriteOk,
      ce_ready_at = ''2026-01-02T03:08:00Z'', ce_candidate_write = WriteOk\<rparr>"

definition probe_bridge :: "directory \<Rightarrow> artifact_store \<Rightarrow> canary_bridge" where
  "probe_bridge q st =
     \<lparr>br_quarantine = q, br_artifacts = st, br_config = probe_config, br_scope = probe_scope,
      br_allowed_runners = [content_digest [7]]\<rparr>"

lemma probe_env_clean: "clean_env (\<lambda>_. Members clean_measurement) (probe_bridge q st) probe_env"
proof -
  have "is_Timestamp ''2026-01-02T03:05:00Z''" "is_Timestamp ''2026-01-02T03:08:00Z''" by code_simp+
  then show ?thesis
    by (simp add: clean_env_def probe_env_def probe_bridge_def content_digest_is_digest usec_per_day_def clean_run_def
        probe_config_def probe_result_def clean_measurement_def)
qed

lemma probe_envelope_checks: "length (report_checks (probe_envelope mid)) = 6"
proof -
  have "set (report_checks (probe_envelope mid)) = insert ''binding.packet-id'' (set AUTHORITY_CHECKS)"
    by (simp add: report_checks_set probe_envelope_def)
  moreover have "card (insert ''binding.packet-id'' (set AUTHORITY_CHECKS)) = 6" by code_simp
  ultimately show ?thesis using report_checks_distinct distinct_card by metis
qed

lemma probe_scope_valid: "valid_scope probe_scope"
  by code_simp

lemma probe_bridge_run:
  "\<exists>q st hex r au cd k. process_envelope (\<lambda>_. Members clean_measurement) (probe_bridge q st) (\<lambda>_. probe_env) hex empty_authority = (Inr [r], au) \<and>
    sr_candidate_digest r = Some cd \<and> get_candidate au cd = Inr k \<and> ec_envelope_digest k = ''sha256:'' @ hex"
proof -
  obtain out mid st where out: "compile_program [] (probe_program linked_steps) probe_contract = Inr out"
    and put: "artifact_put WriteOk WriteOk out probe_binding \<lparr>as_payloads = [], as_manifests = []\<rparr> = (Inr mid, st)"
    and mid: "is_digest mid" by (rule probe_artifact_put)
  obtain hex q where q: "quarantine_put WriteOk (dump_envelope (probe_envelope mid)) [] = Inr (hex, q)"
    by (simp add: quarantine_put_def Let_def exists_name_def)
  show ?thesis
    using clean_artifact_candidate [OF out put _ probe_envelope_valid [OF mid], where b = "probe_bridge q st"
        and q = "[]" and wq = WriteOk and hex = hex and env = "\<lambda>_. probe_env" and json_loads = "\<lambda>_. Members clean_measurement"]
      q probe_envelope_size [OF mid] probe_env_clean [of q st] probe_run_ready(1) probe_scope_valid probe_envelope_checks [of mid]
    by (simp add: probe_envelope_def probe_binding_def probe_bridge_def) blast
qed


end
