(* ===== verification/Acceptance.thy ===== *)
theory Acceptance
  imports Spending CanaryService
begin

text \<open>
  What a run that quarantined something has established, and what becomes of it.  The stages of
  \<open>run\<close> change one store each; the envelope is written last, after the proposal and the verdicts
  passed their checks and every program was compiled and stored, and what was written is what the
  canary service needs to take an artifact further.
\<close>

section \<open>Reading a successful action backwards\<close>

lemma bindA_Inr: "bindA m k s = (Inr y, s') \<longleftrightarrow> (\<exists>x s1. m s = (Inr x, s1) \<and> k x s1 = (Inr y, s'))"
  by (auto simp: bindA_def split: prod.splits sum.splits)

lemma returnA_Inr: "returnA x s = (Inr y, s') \<longleftrightarrow> y = x \<and> s' = s"
  by (auto simp: returnA_def)

lemma liftA_Inr: "liftA r s = (Inr y, s') \<longleftrightarrow> r = Inr y \<and> s' = s"
  by (auto simp: liftA_def)

lemma failA_Inr: "failA e s \<noteq> (Inr y, s')"
  by (simp add: failA_def)

lemma require_report_Inr: "require_report r s = (Inr y, s') \<longleftrightarrow> y = r \<and> s' = s \<and> report_valid r"
  by (auto simp: require_report_def liftA_Inr require_valid_def)

lemmas actions_Inr = bindA_Inr returnA_Inr liftA_Inr failA_Inr require_report_Inr

lemma parse_model_Inr: "parse_model w f valid label call s = (Inr x, s') \<Longrightarrow> valid x \<and> s' = s"
  by (auto simp: parse_model_def Option.bind_eq_Some_conv split: option.splits if_splits)

section \<open>Which stage writes which store\<close>

text \<open>An action that writes neither artifacts nor the quarantine.\<close>

definition inert :: "'a action \<Rightarrow> bool" where
  "inert m \<longleftrightarrow> (\<forall>s. ps_artifacts (snd (m s)) = ps_artifacts s \<and> ps_quarantine (snd (m s)) = ps_quarantine s)"

lemma inertD: "inert m \<Longrightarrow> m s = (r, s') \<Longrightarrow> ps_artifacts s' = ps_artifacts s \<and> ps_quarantine s' = ps_quarantine s"
  unfolding inert_def by (metis snd_conv)

lemma inert_bind: "inert m \<Longrightarrow> (\<And>x. inert (k x)) \<Longrightarrow> inert (bindA m k)"
  unfolding inert_def bindA_def by (auto split: prod.splits sum.splits) (metis snd_conv)+

lemma inert_simple: "inert (returnA x)" "inert (failA e)" "inert (liftA r)" "inert (require_report report)"
  by (simp_all add: inert_def returnA_def failA_def liftA_def require_report_def)

lemma inert_steps:
  "inert (check_inputs cfg env t c)" "inert (parse_model w f valid label call)"
  "inert (store_feedback env t p v report)"
  "inert (paid_call cfg dp role q system_prompt input_text schema schema_name principal_name)"
  by (auto simp: check_inputs_def inert_simple split: option.split)
    (auto simp: inert_def parse_model_def store_feedback_def paid_call_def split: option.splits sum.splits prod.splits)

lemma inert_candidates: "inert (try_candidates cfg system_prompt input_text schema schema_name principal_name e cs)"
proof (induction cs arbitrary: e)
  case Nil
  then show ?case by (simp add: inert_simple)
next
  case (Cons x cs)
  obtain dp p where x: "x = (dp, p)" by fastforce
  show ?case
    unfolding inert_def
  proof
    fix s :: pipeline_state
    obtain r s' where m: "paid_call cfg dp ''planner'' p system_prompt input_text schema schema_name principal_name s = (r, s')"
      by fastforce
    with inertD [OF inert_steps(4) m] Cons.IH show "ps_artifacts (snd (try_candidates cfg system_prompt input_text schema
          schema_name principal_name e (x # cs) s)) = ps_artifacts s \<and>
        ps_quarantine (snd (try_candidates cfg system_prompt input_text schema
          schema_name principal_name e (x # cs) s)) = ps_quarantine s"
      by (auto simp: x inert_def split: sum.split)
  qed
qed

lemma inert_stages:
  "inert (propose cfg env t c)" "inert (review cfg env t c p report)" "inert (audit cfg env t c p v)"
  by (auto simp: propose_def call_planner_def review_def audit_def Let_def
      intro!: inert_bind inert_candidates inert_steps inert_simple)

text \<open>An action that writes to the quarantine only by ending the run with an envelope in it.\<close>

definition outcome_guarded :: "run_outcome action \<Rightarrow> bool" where
  "outcome_guarded m \<longleftrightarrow>
     (\<forall>s. ps_quarantine (snd (m s)) = ps_quarantine s \<or> (\<exists>digest. fst (m s) = Inr (Quarantined digest)))"

definition keeps_quarantine :: "'a action \<Rightarrow> bool" where
  "keeps_quarantine m \<longleftrightarrow> (\<forall>s. ps_quarantine (snd (m s)) = ps_quarantine s)"

lemma inert_keeps: "inert m \<Longrightarrow> keeps_quarantine m"
  by (simp add: inert_def keeps_quarantine_def)

lemma keeps_guarded: "keeps_quarantine m \<Longrightarrow> outcome_guarded m"
  by (simp add: keeps_quarantine_def outcome_guarded_def)

lemma keeps_bind: "keeps_quarantine m \<Longrightarrow> (\<And>x. keeps_quarantine (k x)) \<Longrightarrow> keeps_quarantine (bindA m k)"
  unfolding keeps_quarantine_def bindA_def by (auto split: prod.splits sum.splits) (metis snd_conv)+

lemma guarded_bind: "keeps_quarantine m \<Longrightarrow> (\<And>x. outcome_guarded (k x)) \<Longrightarrow> outcome_guarded (bindA m k)"
  unfolding keeps_quarantine_def outcome_guarded_def bindA_def
  by (auto split: prod.splits sum.splits) (metis fst_conv snd_conv)+

lemma store_programs_keeps: "keeps_quarantine (store_programs file ws p c i gs)"
proof (induction gs arbitrary: i)
  case (Cons g gs)
  have "keeps_quarantine (store_program file w p c g)" for w
    by (auto simp: keeps_quarantine_def store_program_def split: sum.split prod.split)
  with Cons show ?case
    by (simp only: store_programs.simps) (intro keeps_bind inert_keeps [OF inert_simple(1)])
qed (simp add: inert_keeps inert_simple)

lemma store_artifacts_keeps: "keeps_quarantine (store_artifacts cfg env p c)"
  by (simp add: store_artifacts_def store_programs_keeps inert_keeps inert_simple)

lemma store_envelope_guarded: "outcome_guarded (store_envelope env e)"
  by (auto simp: outcome_guarded_def store_envelope_def split: sum.split prod.split)

lemma quarantine_reviewed_guarded: "outcome_guarded (quarantine_reviewed cfg env t c pc p r1 rc v r2)"
  unfolding quarantine_reviewed_def
  by (intro guarded_bind inert_keeps [OF inert_simple(3)] inert_keeps [OF inert_stages(3)] store_artifacts_keeps
      store_envelope_guarded)

lemma run_guarded: "outcome_guarded (run cfg env t c)"
proof -
  have "outcome_guarded (if pr_abstain p then returnA (Abstained (pr_abstain_reason p))
      else bindA (review cfg env t c p r1) (\<lambda>(rc, v, r2). quarantine_reviewed cfg env t c pc p r1 rc v r2))" for pc p r1
    using guarded_bind [OF inert_keeps [OF inert_stages(2)]] quarantine_reviewed_guarded
    by (simp add: keeps_guarded inert_keeps inert_simple split_beta)
  then show ?thesis
    unfolding run_def
    by (intro guarded_bind inert_keeps [OF inert_steps(1)] inert_keeps [OF inert_stages(1)])
      (simp only: split_paired_all prod.case)
qed

section \<open>What an accepted run has established\<close>

text \<open>The audit ran exactly when it was due, and then accepted.\<close>

lemma audit_Inr:
  assumes "audit cfg env t c p v s = (Inr a, s')"
  shows "(a = None \<longleftrightarrow> \<not> audit_due cfg (json_digest (dump_proposal p))) \<and>
    (\<forall>w report trace. a = Some (w, report, trace) \<longrightarrow>
       valid_verdict w \<and> report = validate_reviewer t p w \<and> report_valid report \<and> valid_trace trace)"
  using assms
  by (auto simp: audit_def actions_Inr trace_of_def Let_def dest!: parse_model_Inr split: if_splits option.splits)

text \<open>Each digest is that of a program the compiler emitted and the store took.\<close>

definition stored_program ::
  "bytes \<Rightarrow> planner_proposal \<Rightarrow> harness_contract \<Rightarrow> artifact_store \<Rightarrow> planner_program \<Rightarrow> string \<Rightarrow> bool" where
  "stored_program file p c final g digest \<longleftrightarrow>
     (\<exists>out w w' st st'. compile_program file g c = Inr out \<and>
        artifact_put w w' out (binding_for p c g) st = (Inr digest, st') \<and> regular_only (as_manifests st) \<and>
        artifact_step\<^sup>*\<^sup>* st' final)"

lemma put_regular: "artifact_put w w' out b st = (r, st') \<Longrightarrow> regular_only (as_manifests st) \<Longrightarrow> regular_only (as_manifests st')"
  by (auto simp: artifact_put_def Let_def dest: manifests.put_regular split: sum.splits if_splits prod.splits)

lemma store_programs_stored:
  assumes "store_programs file ws p c i gs s = (Inr ds, s')" and "regular_only (as_manifests (ps_artifacts s))"
  shows "artifact_step\<^sup>*\<^sup>* (ps_artifacts s) (ps_artifacts s') \<and>
    list_all2 (stored_program file p c (ps_artifacts s')) gs ds"
  using assms
proof (induction gs arbitrary: i s ds)
  case Nil
  then show ?case by (simp add: returnA_Inr)
next
  case (Cons g gs)
  from Cons.prems(1) obtain d s1 ds' where one: "store_program file (ws i) p c g s = (Inr d, s1)"
    and rest: "store_programs file ws p c (Suc i) gs s1 = (Inr ds', s')" and ds: "ds = d # ds'"
    by (auto simp: actions_Inr)
  from one obtain out where out: "compile_program file g c = Inr out"
    and put: "artifact_put (fst (ws i)) (snd (ws i)) out (binding_for p c g) (ps_artifacts s) = (Inr d, ps_artifacts s1)"
    by (auto simp: store_program_def split: sum.splits prod.splits)
  have step: "artifact_step (ps_artifacts s) (ps_artifacts s1)" using put by (rule artifact_step.intros)
  note IH = Cons.IH [OF rest put_regular [OF put Cons.prems(2)]]
  with out put Cons.prems(2) have "stored_program file p c (ps_artifacts s') g d"
    unfolding stored_program_def by blast
  with IH step ds show ?case by (auto intro: converse_rtranclp_into_rtranclp)
qed

text \<open>The stages of a run that ended in the quarantine.\<close>

lemma run_quarantined:
  assumes "run cfg env t c s = (Inr (Quarantined d), s')"
  obtains p v a traces artifacts report s1 s2 where
    "validate_run_inputs (cf_compiler_file cfg) t c (cf_mode cfg) (re_validated_at env) = Some report" "report_valid report"
    "valid_proposal p" "\<not> pr_abstain p"
    "report_valid (validate_proposal (cf_compiler_file cfg) t p c (cf_mode cfg))"
    "valid_verdict v" "report_valid (validate_reviewer t p v)"
    "a = None \<longleftrightarrow> \<not> audit_due cfg (json_digest (dump_proposal p))"
    "\<And>w r trace. a = Some (w, r, trace) \<Longrightarrow> valid_verdict w \<and> r = validate_reviewer t p w \<and> report_valid r"
    "store_artifacts cfg env p c s1 = (Inr artifacts, s2)"
    "ps_artifacts s1 = ps_artifacts s" "ps_quarantine s2 = ps_quarantine s" "ps_artifacts s' = ps_artifacts s2"
    "valid_envelope (envelope_for t c (re_enveloped_at env) p v a
       [validate_proposal (cf_compiler_file cfg) t p c (cf_mode cfg), validate_reviewer t p v] traces artifacts)"
    "quarantine_put (re_quarantine_write env) (dump_envelope (envelope_for t c (re_enveloped_at env) p v a
       [validate_proposal (cf_compiler_file cfg) t p c (cf_mode cfg), validate_reviewer t p v] traces artifacts))
       (ps_quarantine s) = Inr (d, ps_quarantine s')"
proof -
  let ?file = "cf_compiler_file cfg" and ?mode = "cf_mode cfg"
  from assms obtain r0 sa pc p r1 sb where
    inputs: "check_inputs cfg env t c s = (Inr r0, sa)" and
    proposed: "propose cfg env t c sa = (Inr (pc, p, r1), sb)" and
    rest: "(if pr_abstain p then returnA (Abstained (pr_abstain_reason p))
       else bindA (review cfg env t c p r1) (\<lambda>(rc, v, r2). quarantine_reviewed cfg env t c pc p r1 rc v r2)) sb
       = (Inr (Quarantined d), s')"
    by (auto simp: run_def bindA_Inr)
  have abstain: "\<not> pr_abstain p" using rest by (auto simp: returnA_Inr split: if_splits)
  with rest obtain rc v r2 sc where reviewed: "review cfg env t c p r1 sb = (Inr (rc, v, r2), sc)"
    and last: "quarantine_reviewed cfg env t c pc p r1 rc v r2 sc = (Inr (Quarantined d), s')"
    by (auto simp: bindA_Inr)
  from last obtain pt rt a s1 artifacts s2 where
    audited: "audit cfg env t c p v sc = (Inr a, s1)" and
    stored: "store_artifacts cfg env p c s1 = (Inr artifacts, s2)" and
    put: "store_envelope env (envelope_for t c (re_enveloped_at env) p v a [r1, r2] [pt, rt] artifacts) s2
       = (Inr (Quarantined d), s')"
    by (auto simp: quarantine_reviewed_def actions_Inr)
  from inputs obtain report where
    "validate_run_inputs ?file t c ?mode (re_validated_at env) = Some report" "report_valid report" "sa = s"
    by (auto simp: check_inputs_def actions_Inr split: option.splits)
  moreover from proposed have "valid_proposal p" "r1 = validate_proposal ?file t p c ?mode" "report_valid r1"
    by (auto simp: propose_def actions_Inr dest!: parse_model_Inr)
  moreover from reviewed have "valid_verdict v" "r2 = validate_reviewer t p v" "report_valid r2"
    by (auto simp: review_def Let_def actions_Inr dest!: parse_model_Inr)
  moreover have "ps_artifacts s1 = ps_artifacts s" "ps_quarantine s1 = ps_quarantine s"
    using inertD [OF inert_steps(1) inputs] inertD [OF inert_stages(1) proposed] inertD [OF inert_stages(2) reviewed]
      inertD [OF inert_stages(3) audited] by simp_all
  moreover have "ps_quarantine s2 = ps_quarantine s1"
    using store_artifacts_keeps stored unfolding keeps_quarantine_def by (metis snd_conv)
  moreover note put [unfolded store_envelope_def] audit_Inr [OF audited] abstain stored
  ultimately show thesis
    by (intro that [of report p v a s1 artifacts s2 "[pt, rt]"]) (auto split: if_splits sum.splits prod.splits)
qed

lemma run_artifacts_stored:
  assumes "store_artifacts cfg env p c s1 = (Inr artifacts, s2)" and "regular_only (as_manifests (ps_artifacts s1))"
    and "hc_environment c = PRODUCTION"
  shows "list_all2 (stored_program (cf_compiler_file cfg) p c (ps_artifacts s2)) (pr_programs p) artifacts"
  using assms store_programs_stored [of "cf_compiler_file cfg" "re_artifact_writes env" p c 0 "pr_programs p" s1 artifacts s2]
  by (auto simp: store_artifacts_def returnA_Inr split: if_splits)

text \<open>The parts an envelope of \<open>run\<close> carries are bound by their digests.\<close>

lemma envelope_parts:
  fixes t c now p v a r1 r2 traces artifacts
  defines "e \<equiv> envelope_for t c now p v a [r1, r2] traces artifacts"
  shows "qe_proposal e = p" "qe_reviewer_verdict e = v" "qe_compiled_artifact_hashes e = artifacts"
    "qe_target_hashes e = tp_target_hashes t"
    "qe_proposal_hash e = model_digest dump_proposal p" "qe_reviewer_verdict_hash e = model_digest dump_verdict v"
    "qe_harness_contract_hash e = model_digest dump_contract c"
    "qe_auditor_verdict e = map_option fst a"
    "qe_auditor_verdict e = Some w \<Longrightarrow> qe_auditor_verdict_hash e = Some (model_digest dump_verdict w)"
    "validation_record_of r1 \<in> set (qe_validations e)"
  by (auto simp: e_def envelope_for_def Let_def json_digest_def model_digest_def)

lemma inputs_targets:
  assumes "validate_run_inputs file t c mode now = Some report" and "report_valid report"
  shows "tp_target_hashes t = hc_target_hashes c"
proof -
  have "\<forall>(i, ok, m) \<in> set (run_input_calls file t c mode). ok"
    using assms by (auto simp: validate_run_inputs_def report_valid_iff split: if_splits option.splits)
  then show ?thesis by (auto simp: run_input_calls_def)
qed

end
