(* ===== verification/ShadowRun.thy ===== *)
theory ShadowRun
  imports Acceptance
begin

text \<open>
  The composition of the pipeline with what comes after it, and a concrete run that goes all the
  way: a planner and a reviewer that answer with a valid proposal and an accepting verdict, and the
  envelope that ends up in the quarantine.
\<close>

section \<open>A clean run\<close>

lemma parse_model_reads:
  assumes "rs_text (call_result call) = render (dump x)" and "wf_json (dump x)" and "is_object (dump x)"
    and "f (norm_json (dump x)) = Some x" and "valid x"
  shows "parse_model w f valid label call s = (Inr x, s)"
  using assms by (simp add: parse_model_def loads_text_render is_object_norm)

lemma dumped_objects: "is_object (dump_proposal p)" "is_object (dump_verdict v)" "is_object (dump_envelope e)"
  by (simp_all add: is_object_def dump_proposal_def dump_verdict_def dump_envelope_def)

lemma propose_clean:
  assumes "call_on cfg (re_planners env 0) ''planner'' (cf_planner cfg) PLANNER_INSTRUCTIONS
      (planner_input (render (dump_telemetry t)) (render (dump_contract c)))
      (strict_json_schema (cf_proposal_schema cfg)) ''io_uring_fuzz_plan_v1'' (principal_id (tp_fleet_id t))
      (ps_ledger s) = (Inr pc, t1)"
    and "rs_text (call_result pc) = render (dump_proposal p)" and "valid_proposal p"
    and "report_valid (validate_proposal (cf_compiler_file cfg) t p c (cf_mode cfg))"
  shows "propose cfg env t c s =
    (Inr (pc, p, validate_proposal (cf_compiler_file cfg) t p c (cf_mode cfg)), s\<lparr>ps_ledger := t1\<rparr>)"
proof -
  have "call_planner cfg (re_planners env) PLANNER_INSTRUCTIONS
      (planner_input (render (dump_telemetry t)) (render (dump_contract c)))
      (strict_json_schema (cf_proposal_schema cfg)) ''io_uring_fuzz_plan_v1'' (principal_id (tp_fleet_id t)) s =
      (Inr pc, s\<lparr>ps_ledger := t1\<rparr>)"
    using assms(1) by (simp add: call_planner_def planner_candidates_def Let_def paid_call_def upt_conv_Cons del: upt_Suc)
  moreover have "parse_model w load_proposal valid_proposal label pc s' = (Inr p, s')" for w label s'
    using assms(2,3) by (intro parse_model_reads [where dump = dump_proposal]) (simp_all add: dumped_objects)
  ultimately show ?thesis
    using assms(4) by (simp add: propose_def bindA_def returnA_def require_report_def liftA_def require_valid_def)
qed

lemma review_clean:
  assumes "call_on cfg (re_reviewer env) ''reviewer'' (cf_reviewer cfg) REVIEWER_SYSTEM
      (reviewer_input (render (dump_telemetry t)) (render (dump_contract c)) (render (dump_proposal p))
        (validation_text r1))
      (strict_json_schema (cf_verdict_schema cfg)) ''io_uring_fuzz_review_v1'' (principal_id (tp_fleet_id t))
      (ps_ledger s) = (Inr rc, t2)"
    and "rs_text (call_result rc) = render (dump_verdict v)" and "valid_verdict v"
    and "report_valid (validate_reviewer t p v)"
    and "build_review_feedback t p v (validate_reviewer t p v) (Aware (re_feedback_at env)) = Inr fb"
    and "feedback_put (re_feedback_write env) fb (ps_feedback s) = Inr (k, d)"
  shows "review cfg env t c p r1 s =
    (Inr (rc, v, validate_reviewer t p v), s\<lparr>ps_ledger := t2, ps_feedback := d\<rparr>)"
proof -
  have "parse_model w load_verdict valid_verdict label rc s' = (Inr v, s')" for w label s'
    using assms(2,3) by (intro parse_model_reads [where dump = dump_verdict]) (simp_all add: dumped_objects)
  then show ?thesis
    using assms(1,4-6)
    by (simp add: review_def Let_def bindA_def returnA_def require_report_def liftA_def require_valid_def
        paid_call_def store_feedback_def)
qed

lemma run_completes:
  assumes inputs: "validate_run_inputs (cf_compiler_file cfg) t c (cf_mode cfg) (re_validated_at env) = Some r0"
      "report_valid r0"
    and proposed: "propose cfg env t c s = (Inr (pc, p, r1), s1)" "\<not> pr_abstain p"
    and reviewed: "review cfg env t c p r1 s1 = (Inr (rc, v, r2), s2)"
    and traces: "trace_of PLANNER pc = Inr pt" "trace_of REVIEWER rc = Inr rt"
    and audit: "\<not> audit_due cfg (json_digest (dump_proposal p))"
    and program: "pr_programs p = [g]" "hc_environment c = PRODUCTION"
      "compile_program (cf_compiler_file cfg) g c = Inr out"
      "artifact_put (fst (re_artifact_writes env 0)) (snd (re_artifact_writes env 0)) out (binding_for p c g)
         (ps_artifacts s2) = (Inr mid, st)"
    and envelope: "valid_envelope (envelope_for t c (re_enveloped_at env) p v None [r1, r2] [pt, rt] [mid])"
      "quarantine_put (re_quarantine_write env)
         (dump_envelope (envelope_for t c (re_enveloped_at env) p v None [r1, r2] [pt, rt] [mid])) (ps_quarantine s2)
         = Inr (d, q)"
  shows "run cfg env t c s = (Inr (Quarantined d), s2\<lparr>ps_artifacts := st, ps_quarantine := q\<rparr>)"
  using assms
  by (simp add: run_def quarantine_reviewed_def bindA_def returnA_def liftA_def check_inputs_def require_report_def
      require_valid_def audit_def store_artifacts_def store_program_def store_envelope_def)

section \<open>From a run to a candidate\<close>

text \<open>The envelope a run left is the one found under the digest it returned.\<close>

lemma stored_envelope_is:
  assumes "quarantine_put w (dump_envelope e0) q = Inr (d, q')" and "regular_only q"
    and "quarantine_get m q' d = Inr (norm_json (dump_envelope e))"
  shows "e = e0"
proof -
  have "canonical_json (dump_envelope e) = canonical_json (dump_envelope e0)"
    using assms(3) put_stores [OF assms(1,2)] by (auto simp: quarantine_get_Inr)
  then have "norm_json (dump_envelope e) = norm_json (dump_envelope e0)"
    using loads_canonical [OF wf_dump_envelope [of e]] loads_canonical [OF wf_dump_envelope [of e0]] by simp
  then have "Some e = Some e0" by (metis load_dump_envelope)
  then show ?thesis by simp
qed

text \<open>The programs of an accepted run, compiled and stored, under the manifests its envelope lists.\<close>

lemma run_establishes:
  assumes "run cfg env t c s = (Inr (Quarantined d), s')" and "regular_only (as_manifests (ps_artifacts s))"
  obtains e where
    "valid_envelope e"
    "quarantine_put (re_quarantine_write env) (dump_envelope e) (ps_quarantine s) = Inr (d, ps_quarantine s')"
    "qe_target_hashes e = tp_target_hashes t" "tp_target_hashes t = hc_target_hashes c"
    "\<not> pr_abstain (qe_proposal e)"
    "report_valid (validate_proposal (cf_compiler_file cfg) t (qe_proposal e) c (cf_mode cfg))"
    "report_valid (validate_reviewer t (qe_proposal e) (qe_reviewer_verdict e))"
    "qe_auditor_verdict e \<noteq> None \<longleftrightarrow> audit_due cfg (qe_proposal_hash e)"
    "\<And>w. qe_auditor_verdict e = Some w \<Longrightarrow> report_valid (validate_reviewer t (qe_proposal e) w)"
    "hc_environment c = PRODUCTION \<Longrightarrow>
       list_all2 (stored_program (cf_compiler_file cfg) (qe_proposal e) c (ps_artifacts s'))
         (pr_programs (qe_proposal e)) (qe_compiled_artifact_hashes e)"
    "qe_proposal_hash e = model_digest dump_proposal (qe_proposal e)"
    "qe_reviewer_verdict_hash e = model_digest dump_verdict (qe_reviewer_verdict e)"
    "qe_harness_contract_hash e = model_digest dump_contract c"
    "\<And>w. qe_auditor_verdict e = Some w \<Longrightarrow> qe_auditor_verdict_hash e = Some (model_digest dump_verdict w)"
    "validation_record_of (validate_proposal (cf_compiler_file cfg) t (qe_proposal e) c (cf_mode cfg)) \<in> set (qe_validations e)"
proof (rule run_quarantined [OF assms(1)])
  fix p v a traces artifacts report s1 s2
  let ?r1 = "validate_proposal (cf_compiler_file cfg) t p c (cf_mode cfg)"
  let ?e = "envelope_for t c (re_enveloped_at env) p v a [?r1, validate_reviewer t p v] traces artifacts"
  note parts = envelope_parts [where t = t and c = c and now = "re_enveloped_at env" and p = p and v = v and a = a
    and ?r1.0 = ?r1 and ?r2.0 = "validate_reviewer t p v" and traces = traces and artifacts = artifacts]
  assume run: "validate_run_inputs (cf_compiler_file cfg) t c (cf_mode cfg) (re_validated_at env) = Some report" "report_valid report"
    "\<not> pr_abstain p" "report_valid ?r1" "report_valid (validate_reviewer t p v)"
    "a = None \<longleftrightarrow> \<not> audit_due cfg (json_digest (dump_proposal p))"
    "\<And>w r trace. a = Some (w, r, trace) \<Longrightarrow> valid_verdict w \<and> r = validate_reviewer t p w \<and> report_valid r"
    "store_artifacts cfg env p c s1 = (Inr artifacts, s2)" "ps_artifacts s1 = ps_artifacts s" "ps_artifacts s' = ps_artifacts s2"
    "valid_envelope ?e" "quarantine_put (re_quarantine_write env) (dump_envelope ?e) (ps_quarantine s) = Inr (d, ps_quarantine s')"
  have stored: "list_all2 (stored_program (cf_compiler_file cfg) p c (ps_artifacts s')) (pr_programs p) artifacts"
    if "hc_environment c = PRODUCTION"
    using run_artifacts_stored [OF run(8)] assms(2) that run(9,10) by simp
  show thesis
  proof (rule that [of ?e])
    show "qe_auditor_verdict ?e \<noteq> None \<longleftrightarrow> audit_due cfg (qe_proposal_hash ?e)"
      using run(6) by (simp add: parts(5,8) json_digest_def model_digest_def)
    show "report_valid (validate_reviewer t (qe_proposal ?e) w)" if "qe_auditor_verdict ?e = Some w" for w
      using that run(7) unfolding parts(1,8) by auto
    show "qe_auditor_verdict_hash ?e = Some (model_digest dump_verdict w)" if "qe_auditor_verdict ?e = Some w" for w
      using that by (rule parts(9))
  qed (use run stored inputs_targets [OF run(1,2)] parts(10) in \<open>simp_all add: parts(1-7)\<close>)
qed

lemma run_candidate:
  assumes run: "run cfg env t c s = (Inr (Quarantined d), s')"
    and stores: "regular_only (as_manifests (ps_artifacts s))" "regular_only (ps_quarantine s)"
    and "hc_environment c = PRODUCTION"
    and found: "quarantine_get 2097152 (ps_quarantine s') d = Inr (norm_json (dump_envelope e))"
    and one: "qe_compiled_artifact_hashes e = [mid]" and "length (report_checks e) \<le> 128"
    and bridge: "br_quarantine b = ps_quarantine s'" "br_artifacts b = ps_artifacts s'"
      "check_config (br_config b) = Inr ()" "valid_scope (br_scope b)" "clean_env json_loads b (env' 0)"
  shows "\<exists>r au cd k g out. process_envelope json_loads b env' d empty_authority = (Inr [r], au) \<and>
    sr_outcome r = ''candidate_ready'' \<and> sr_candidate_digest r = Some cd \<and> get_candidate au cd = Inr k \<and>
    ec_envelope_digest k = ''sha256:'' @ d \<and> pr_programs (qe_proposal e) = [g] \<and>
    compile_program (cf_compiler_file cfg) g c = Inr out \<and> ec_artifact_digest k = cp_payload_hash out"
proof (rule run_establishes [OF run stores(1)])
  fix e0
  assume e: "valid_envelope e0" "quarantine_put (re_quarantine_write env) (dump_envelope e0) (ps_quarantine s) = Inr (d, ps_quarantine s')"
    "qe_target_hashes e0 = tp_target_hashes t" "tp_target_hashes t = hc_target_hashes c"
    "hc_environment c = PRODUCTION \<Longrightarrow> list_all2 (stored_program (cf_compiler_file cfg) (qe_proposal e0) c (ps_artifacts s'))
       (pr_programs (qe_proposal e0)) (qe_compiled_artifact_hashes e0)"
    "qe_proposal_hash e0 = model_digest dump_proposal (qe_proposal e0)"
    "qe_reviewer_verdict_hash e0 = model_digest dump_verdict (qe_reviewer_verdict e0)"
    "qe_harness_contract_hash e0 = model_digest dump_contract c"
    "\<And>w. qe_auditor_verdict e0 = Some w \<Longrightarrow> qe_auditor_verdict_hash e0 = Some (model_digest dump_verdict w)"
    "validation_record_of (validate_proposal (cf_compiler_file cfg) t (qe_proposal e0) c (cf_mode cfg)) \<in> set (qe_validations e0)"
  have same: "e0 = e" using stored_envelope_is [OF e(2) stores(2) found] by simp
  from e(5) [OF assms(4)] one same obtain g where g: "pr_programs (qe_proposal e) = [g]"
    "stored_program (cf_compiler_file cfg) (qe_proposal e) c (ps_artifacts s') g mid"
    by (auto simp: list_all2_Cons2)
  then obtain out w w' st st' where out: "compile_program (cf_compiler_file cfg) g c = Inr out"
    and put: "artifact_put w w' out (binding_for (qe_proposal e) c g) st = (Inr mid, st')"
    and reg: "regular_only (as_manifests st)" and later: "artifact_step\<^sup>*\<^sup>* st' (ps_artifacts s')"
    unfolding stored_program_def by blast
  have size: "length (canonical_json (dump_envelope e)) \<le> 2097152"
    using found put_stores [OF e(2) stores(2)] same by (auto simp: quarantine_get_Inr)
  let ?b = "binding_for (qe_proposal e) c g"
  have bound: "ab_proposal_digest ?b = qe_proposal_hash e" "ab_contract_digest ?b = qe_harness_contract_hash e"
    "ab_target_hashes ?b = qe_target_hashes e"
    using e(3,4,6,8) same by (simp_all add: binding_for_def json_digest_def model_digest_def)
  have validator: "\<exists>r \<in> set (qe_validations e). vr_validator_version r = ab_validator_version ?b \<and>
      vr_validator_hash r = ab_validator_hash ?b"
    using e(10) same by (intro bexI) (simp_all add: binding_for_def validation_record_of_def)
  have auditor: "\<forall>w. qe_auditor_verdict e = Some w \<longrightarrow> qe_auditor_verdict_hash e = Some (model_digest dump_verdict w)"
    using e(9) same by blast
  from clean_artifact_candidate [OF out put reg e(1) [unfolded same] one bound e(6,7) [unfolded same] auditor validator
      assms(7) e(2) [unfolded same, folded bridge(1)] stores(2) size later [folded bridge(2)] bridge(3,4), where env = env' and json_loads = json_loads]
    bridge(5) out g(1)
  show ?thesis by blast
qed

section \<open>A call that completes\<close>

text \<open>The first reservation of a month goes through when it fits the limit by itself.\<close>

lemma reserve_first_of_month:
  assumes "validate_identity (ra_provider a) (ra_model a) (ra_request_key a) = Inr ()"
    and "ra_worst_case a = PyInt amt" "0 \<le> amt" "amt \<le> hard_limit L" "daily_limit L = None"
    and "pp_provider (ra_policy a) = ra_provider a" "pp_model (ra_policy a) = ra_model a"
    and "ra_now a = None" "is_effective (ra_policy a) (date_of (clock env))"
    and "map_of (quotas L) (ra_provider a, ra_model a) = Some q" "0 < q"
    and "switch_before env = SwitchAbsent" "switch_locked env = SwitchAbsent"
    and "\<forall>r \<in> set t. month_key r \<noteq> month_string (clock env)" and "fresh_event_id env \<notin> set (map event_id t)"
    and "0 \<le> input_rate (ra_policy a)" "0 \<le> output_rate (ra_policy a)" "0 \<le> cached_rate (ra_policy a)"
  shows "\<exists>r. reserve L env t a = Inr (r, t @ [reserve_row (fresh_event_id env) (fresh_reservation_id env) (clock env) a amt
      (json_details (ra_details a))]) \<and> res_id r = fresh_reservation_id env"
proof -
  have none: "filter (\<lambda>r. is_reserve r \<and> month_key r = month_string (clock env) \<and> P r) t = []" for P
    using assms(14) by (auto simp: filter_empty_conv)
  have spent: "spend_parts t (month_string (clock env)) = (0, 0)"
    using none [of "\<lambda>_. True"] by (simp add: spend_parts_def left_join_def)
  have count: "call_count t (month_string (clock env)) (ra_provider a) (ra_model a) = 0"
    using none by (simp add: call_count_def)
  have "insert_event t (reserve_row (fresh_event_id env) (fresh_reservation_id env) (clock env) a amt
      (json_details (ra_details a))) = Inr (t @ [reserve_row (fresh_event_id env) (fresh_reservation_id env) (clock env) a amt
      (json_details (ra_details a))])"
    using assms(3,14-18) by (auto simp: insert_event_Inr) (auto simp: reserve_row_def)
  then have "reserve_locked L env t a (clock env) amt q (json_details (ra_details a)) =
      Inr (t @ [reserve_row (fresh_event_id env) (fresh_reservation_id env) (clock env) a amt (json_details (ra_details a))])"
    using assms(4,5,11,13) none
    by (simp add: reserve_locked_def assert_calls_enabled_def Let_def spent count)
  then show ?thesis
    using assms(1-3,6-10,12)
    by (simp add: reserve_def require_nonnegative_int_def normalize_now_def quota_for_def assert_calls_enabled_def)
qed

lemma call_completes:
  fixes role p system_prompt input_text schema schema_name principal_name
  defines "key \<equiv> request_key role p system_prompt input_text schema"
  assumes "utf8_length input_text \<le> cf_max_packet_bytes cfg" and pol: "pricing_policy p = Inr policy"
    and quote: "quote_usage policy (PyInt (pc_max_input_tokens p)) (PyInt (pc_max_output_tokens p)) (PyInt 0) = Inr amt" "0 \<le> amt"
    and limit: "amt \<le> hard_limit (cf_ledger cfg)" "daily_limit (cf_ledger cfg) = None"
    and effective: "is_effective policy (date_of (clock (dp_reserve dp)))"
    and quota: "map_of (quotas (cf_ledger cfg)) (pc_name p, pc_model p) = Some q" "0 < q"
    and names: "\<not> is_blank (pc_name p)" "length (pc_name p) \<le> 100" "\<not> is_blank (pc_model p)" "length (pc_model p) \<le> 200"
    and switches: "switch_before (dp_reserve dp) = SwitchAbsent" "switch_locked (dp_reserve dp) = SwitchAbsent"
    and months: "\<forall>r \<in> set t. month_key r \<noteq> month_string (clock (dp_reserve dp))"
    and ids: "fresh_event_id (dp_reserve dp) \<notin> set (map event_id t)" "fresh_reservation_id (dp_reserve dp) \<noteq> []"
      "fresh_reservation_id (dp_reserve dp) \<notin> set (map reservation_id t)"
      "fresh_event_id (dp_close dp) \<notin> insert (fresh_event_id (dp_reserve dp)) (set (map event_id t))"
    and rates: "0 \<le> input_rate policy" "0 \<le> output_rate policy" "0 \<le> cached_rate policy"
    and fit: "fit_request role system_prompt input_text schema schema_name principal_name"
    and answer: "\<And>request. dp_generate dp request = Inr result" "utf8_length (rs_text result) \<le> cf_max_response_bytes cfg"
  shows "\<exists>settled r u. call_on cfg dp role p system_prompt input_text schema schema_name principal_name t =
      (Inr \<lparr>call_result = result, call_settlement = settled\<rparr>, t @ [r, u]) \<and> 0 \<le> charged_microdollars settled \<and>
    (rs_usage result = None \<longrightarrow> charged_microdollars settled = amt) \<and>
    event_id r = fresh_event_id (dp_reserve dp) \<and> reservation_id r = fresh_reservation_id (dp_reserve dp) \<and>
    month_key r = month_string (clock (dp_reserve dp)) \<and> event_id u = fresh_event_id (dp_close dp) \<and>
    reservation_id u = fresh_reservation_id (dp_reserve dp) \<and> month_key u = month_string (clock (dp_reserve dp))"
proof -
  let ?a = "(reserve_arguments role p policy key)\<lparr>ra_worst_case := PyInt amt\<rparr>"
  let ?row = "reserve_row (fresh_event_id (dp_reserve dp)) (fresh_reservation_id (dp_reserve dp)) (clock (dp_reserve dp)) ?a amt
      (json_details (ra_details ?a))"
  note policy = pricing_policy_Inr [OF pol]
  have hex: "is_hex64 key" by (simp add: key_def request_key_def is_hex64_sha256)
  then have "\<not> is_blank key" "length key = 64"
    by (cases key; auto simp: is_hex64_def is_blank_def is_hex_def is_digit_def is_space_def)+
  then have "validate_identity (pc_name p) (pc_model p) key = Inr ()"
    using names by (simp add: validate_identity_def)
  then obtain r where res: "reserve (cf_ledger cfg) (dp_reserve dp) t ?a = Inr (r, t @ [?row])"
      "res_id r = fresh_reservation_id (dp_reserve dp)"
    using reserve_first_of_month [of ?a amt "cf_ledger cfg" "dp_reserve dp" q t] quote(2) limit effective quota switches months
      ids(1) rates policy
    by (auto simp: reserve_arguments_def)
  have "fresh_event_id (dp_close dp) \<notin> set (map event_id (t @ [?row]))" using ids(4) by (simp add: reserve_row_def)
  from close_fresh [OF refl ids(2,3) _ _ _ quote(2) this, of Settle "usage_object tu_input_tokens result"
      "usage_object tu_output_tokens result" "usage_object tu_cached_input_tokens result" "Some _"] policy
  obtain settled u where u: "close_completed (dp_close dp) role (res_id r) result (t @ [?row]) = Inr (settled, t @ [?row] @ [u])"
    "reservation_id u = fresh_reservation_id (dp_reserve dp)" "event_id u = fresh_event_id (dp_close dp)"
    "month_key u = month_string (clock (dp_reserve dp))" "0 \<le> charged_microdollars settled"
    "rs_usage result = None \<longrightarrow> charged_microdollars settled = amt"
    by (fastforce simp: close_completed_def settle_def res(2) reserve_arguments_def usage_object_def valid_usage_def)
  have "call_on cfg dp role p system_prompt input_text schema schema_name principal_name t =
      (Inr \<lparr>call_result = result, call_settlement = settled\<rparr>, t @ [?row, u])"
    using assms(2) pol quote(1) res u(1) answer fit_request_valid [OF fit]
    by (simp add: call_on_def Let_def reserve_for_tokens_def dispatch_reserved_def key_def reserve_arguments_def)
  with u(2-6) show ?thesis by (auto simp: reserve_row_def)
qed

section \<open>A run of two calls, across a month's end\<close>

definition probe_run_packet :: telemetry_packet where
  "probe_run_packet =
     (let t = (probe_packet probe_hashes)\<lparr>tp_generated_at := ''2026-01-31T23:30:00Z''\<rparr>
      in t\<lparr>tp_packet_hash := content_digest (canonical_json (dump_packet_body t))\<rparr>)"

definition probe_answer :: "string \<Rightarrow> provider_result" where
  "probe_answer x =
     \<lparr>rs_provider = ''moonshot'', rs_model = ''kimi'', rs_text = x, rs_response_id = Some ''resp-1'',
      rs_provider_request_id = None, rs_client_request_id = ''request-1'', rs_status = ''completed'', rs_usage = None\<rparr>"

definition probe_call_env :: "string \<Rightarrow> instant \<Rightarrow> budget_env" where
  "probe_call_env k now =
     \<lparr>clock = now, switch_before = SwitchAbsent, switch_locked = SwitchAbsent,
      fresh_reservation_id = ''r'' @ k, fresh_event_id = ''e'' @ k\<rparr>"

definition probe_dispatch :: "string \<Rightarrow> instant \<Rightarrow> string \<Rightarrow> dispatch" where
  "probe_dispatch k now x =
     \<lparr>dp_reserve = probe_call_env k now, dp_close = probe_call_env (''c'' @ k) (now + 1000000),
      dp_generate = (\<lambda>_. Inr (probe_answer x))\<rparr>"

definition probe_run_env :: run_env where
  "probe_run_env =
     \<lparr>re_planners = (\<lambda>_. probe_dispatch ''1'' 63905500790000000 (render (dump_proposal probe_plan))),
      re_reviewer = probe_dispatch ''2'' 63905500810000000 (render (dump_verdict probe_verdict)),
      re_auditor = sample_dispatch ''3'' Interrupted,
      re_validated_at = 63905500780000000, re_feedback_at = 63905500820000000, re_feedback_write = WriteOk,
      re_artifact_writes = (\<lambda>_. (WriteOk, WriteOk)), re_enveloped_at = 63905500820000000,
      re_quarantine_write = WriteOk, re_debug_writes = (\<lambda>_. WriteOk)\<rparr>"

abbreviation probe_checks :: checks where
  "probe_checks \<equiv> validate_proposal [] probe_run_packet probe_plan probe_contract ShadowMode"

abbreviation probe_planner_text :: string where
  "probe_planner_text \<equiv> planner_input (render (dump_telemetry probe_run_packet)) (render (dump_contract probe_contract))"

abbreviation probe_reviewer_text :: string where
  "probe_reviewer_text \<equiv> reviewer_input (render (dump_telemetry probe_run_packet)) (render (dump_contract probe_contract))
     (render (dump_proposal probe_plan)) (validation_text probe_checks)"

text \<open>Limits that just admit the texts of this run.\<close>

definition probe_pipeline :: pipeline_config where
  "probe_pipeline =
     \<lparr>cf_ledger = \<lparr>hard_limit = 1000000, quotas = [((''moonshot'', ''kimi''), 2)], warning_thresholds = [],
        daily_limit = None\<rparr>,
      cf_mode = ShadowMode, cf_max_packet_bytes = max (utf8_length probe_planner_text) (utf8_length probe_reviewer_text),
      cf_max_response_bytes = max (utf8_length (render (dump_proposal probe_plan))) (utf8_length (render (dump_verdict probe_verdict))),
      cf_planner = sample_provider, cf_fallbacks = [], cf_reviewer = sample_provider, cf_auditor = sample_provider,
      cf_auditor_enabled = False, cf_auditor_present = True, cf_sample_every = 1, cf_compiler_file = [],
      cf_proposal_schema = JObj [(''type'', JStr ''object'')], cf_verdict_schema = JObj [(''type'', JStr ''object'')]\<rparr>"

definition empty_stores :: pipeline_state where
  "empty_stores =
     \<lparr>ps_ledger = [], ps_feedback = [], ps_artifacts = \<lparr>as_payloads = [], as_manifests = []\<rparr>, ps_quarantine = [],
      ps_rejected = None\<rparr>"

lemma probe_run_packet_fields:
  "tp_packet_id probe_run_packet = ''packet-1''" "tp_target_hashes probe_run_packet = probe_hashes"
  "tp_evidence probe_run_packet = tp_evidence sample_packet" "tp_generated_at probe_run_packet = ''2026-01-31T23:30:00Z''"
  "tp_packet_hash probe_run_packet = content_digest (canonical_json (dump_packet_body probe_run_packet))"
  by (simp_all add: probe_run_packet_def Let_def probe_packet_def sample_packet_def dump_packet_body_def)

lemma probe_run_accepted: "report_valid probe_checks"
proof -
  have "proposal_calls [] probe_run_packet probe_plan probe_contract ShadowMode =
      proposal_calls [] (probe_packet probe_hashes) probe_plan probe_contract ShadowMode"
    by (simp add: proposal_calls_def binding_calls_def probe_run_packet_def Let_def)
  then show ?thesis using probe_accepted [of linked_steps] by (simp add: validate_proposal_def)
qed

lemma probe_run_reviewed: "report_valid (validate_reviewer probe_run_packet probe_plan probe_verdict)"
  by (simp add: validate_reviewer_def reviewer_calls_def report_valid_iff probe_run_packet_fields Let_def)
    (simp add: probe_verdict_def probe_proposal_def sample_packet_def cited_refs_def)

lemma probe_run_inputs:
  "\<exists>r. validate_run_inputs [] probe_run_packet probe_contract ShadowMode 63905500780000000 = Some r \<and> report_valid r"
proof -
  have "parse_timestamp ''2026-01-31T23:30:00Z'' = Some 63905499000000000" by code_simp
  then show ?thesis
    using probe_contract_enabled
    by (simp add: validate_run_inputs_def probe_run_packet_fields report_valid_append report_valid_iff run_input_calls_def
        contract_mode_ok_def freshness_call_def hours_def minutes_def)
qed

definition probe_policy :: pricing_policy where
  "probe_policy =
     \<lparr>pp_provider = ''moonshot'', pp_model = ''kimi'', pp_version = ''v1'', effective_from = 739617,
      effective_until = Some 739981, input_rate = 600000, output_rate = 2500000, cached_input_rate = None\<rparr>"

lemma probe_pricing: "pricing_policy sample_provider = Inr probe_policy"
  by code_simp

lemma probe_call:
  assumes "now = 63905500790000000 \<or> now = 63905500810000000"
    and "fit_request role system_prompt input_text schema schema_name principal_name"
    and "utf8_length input_text \<le> cf_max_packet_bytes probe_pipeline" "utf8_length x \<le> cf_max_response_bytes probe_pipeline"
    and "\<forall>r \<in> set t. month_key r \<noteq> month_string now"
    and "''e'' @ k \<notin> set (map event_id t)" "''ec'' @ k \<notin> insert (''e'' @ k) (set (map event_id t))"
      "''r'' @ k \<notin> set (map reservation_id t)"
  shows "\<exists>settled r u. call_on probe_pipeline (probe_dispatch k now x) role sample_provider system_prompt input_text schema
      schema_name principal_name t =
      (Inr \<lparr>call_result = probe_answer x, call_settlement = settled\<rparr>, t @ [r, u]) \<and> charged_microdollars settled = 1850 \<and>
    event_id r = ''e'' @ k \<and> reservation_id r = ''r'' @ k \<and> month_key r = month_string now \<and>
    event_id u = ''ec'' @ k \<and> reservation_id u = ''r'' @ k \<and> month_key u = month_string now"
proof -
  have quote: "quote_usage probe_policy (PyInt (pc_max_input_tokens sample_provider)) (PyInt (pc_max_output_tokens sample_provider))
      (PyInt 0) = Inr 1850" by code_simp
  have eff: "is_effective probe_policy (date_of now)" using assms(1) by (elim disjE) (simp only:, code_simp)+
  have fields: "hard_limit (cf_ledger probe_pipeline) = 1000000" "daily_limit (cf_ledger probe_pipeline) = None"
    "quotas (cf_ledger probe_pipeline) = [((''moonshot'', ''kimi''), 2)]" "pc_name sample_provider = ''moonshot''"
    "pc_model sample_provider = ''kimi''" "\<not> is_blank ''moonshot''" "\<not> is_blank ''kimi''" "rs_text (probe_answer x) = x"
    "rs_usage (probe_answer x) = None"
    by (simp_all add: probe_pipeline_def sample_provider_def probe_answer_def is_blank_def is_space_def)
  have "0 \<le> cached_rate probe_policy" by code_simp
  with call_completes [OF assms(3) probe_pricing quote, of "probe_dispatch k now x" 2 t role system_prompt schema
      schema_name principal_name "probe_answer x"] eff assms(2,4-)
    fields
  show ?thesis
    by (simp add: probe_dispatch_def probe_call_env_def probe_policy_def) blast
qed

lemma length_passed: "length (ck_passed (fold require calls c)) \<le> length (ck_passed c) + length calls"
proof (induction calls arbitrary: c)
  case (Cons x calls)
  obtain i b m where x: "x = (i, b, m)" by (rule prod_cases3)
  have "length (ck_passed (require x c)) \<le> Suc (length (ck_passed c))" by (simp add: x)
  with Cons [of "require x c"] show ?case by simp
qed simp

lemma length_report_passed: "length (ck_passed (report_of calls)) \<le> length calls"
  using length_passed [of calls "\<lparr>ck_passed = [], ck_issues = []\<rparr>"] by (simp add: report_of_def)

lemma accepted_record:
  assumes "report_valid (report_of calls)" and "calls \<noteq> []" and "length calls \<le> 128"
    and "list_all (\<lambda>c. is_Identifier (fst c)) calls"
  shows "valid_validation_record (validation_record_of (report_of calls))"
proof -
  have "set (ck_passed (report_of calls)) = fst ` set calls" using assms(1) by (rule passed_of_valid)
  moreover from this assms(2) have "ck_passed (report_of calls) \<noteq> []" by auto
  ultimately show ?thesis
    using assms length_report_passed [of calls] validator_constants
    by (auto simp: valid_validation_record_def validation_record_of_def len_between_def list_all_iff
        report_valid_def failed_check_ids_def Suc_le_eq)
qed

text \<open>The identifiers of the checks of the two-step program.\<close>

definition probe_call_ids :: "string list" where
  "probe_call_ids =
     fixed_ids @ map (\<lambda>x. ''program.probe.'' @ x) [''profile'', ''profile-lane'', ''resources'', ''step-count''] @
     map (\<lambda>x. ''program.probe.step.first.'' @ x) step_suffixes @ map (\<lambda>x. ''program.probe.step.second.'' @ x) step_suffixes @
     [''program.probe.native.base-only'', ''program.probe.native.no-fixed-file'', ''program.probe.step.first.native.link-successor'']"

lemma probe_calls_named: "map fst (proposal_calls [] probe_run_packet probe_plan probe_contract ShadowMode) = probe_call_ids"
proof -
  let ?g = "probe_program linked_steps"
  have valid: "report_valid (report_of (program_calls probe_contract ?g))"
    using passed_program [OF probe_accepted [of linked_steps] probe_proposal_simps] by simp
  obtain f where f: "dict_by hp_profile_id (hc_profiles probe_contract) ''plain'' = Some f"
    using passed_profile [OF valid] by (auto simp: probe_program_def)
  have steps: "pg_steps ?g = linked_steps" "pg_program_id ?g = ''probe''" "pg_ring_profile_id ?g = ''plain''"
    by (simp_all add: probe_program_def)
  have "map fst (step_calls probe_contract ?g s) = map (\<lambda>x. step_prefix ?g s @ CHR ''.'' # x) step_suffixes"
    if s: "s \<in> set linked_steps" for s
  proof -
    from passed_step [OF valid, unfolded steps, OF s] obtain h where
      "dict_by ho_symbol (hc_operations probe_contract) (st_operation s) = Some h" by (elim exE conjE)
    then show ?thesis by (rule step_call_ids)
  qed
  then have "map fst (concat (map (step_calls probe_contract ?g) linked_steps)) =
      concat (map (\<lambda>s. map (\<lambda>x. step_prefix ?g s @ CHR ''.'' # x) step_suffixes) linked_steps)"
    by (simp add: map_concat comp_def cong: map_cong)
  moreover have "map fst (native_calls probe_contract ?g) =
      [''program.probe.native.base-only'', ''program.probe.native.no-fixed-file'', ''program.probe.step.first.native.link-successor'']"
    unfolding native_calls_def Let_def steps linked_steps_def
    by (simp add: native_step_calls_def Let_def probe_program_def probe_step_def linked_def reference_requirement_def
        step_prefix_def)
  ultimately have program: "map fst (program_calls probe_contract ?g) =
      map (\<lambda>x. ''program.probe.'' @ x) [''profile'', ''profile-lane'', ''resources'', ''step-count''] @
      concat (map (\<lambda>s. map (\<lambda>x. step_prefix ?g s @ CHR ''.'' # x) step_suffixes) linked_steps) @
      [''program.probe.native.base-only'', ''program.probe.native.no-fixed-file'', ''program.probe.step.first.native.link-successor'']"
    using probe_contract_enabled(3) unfolding program_calls_def Let_def steps f by simp
  have "pr_programs probe_plan = [?g]" "\<not> pr_abstain probe_plan" "\<not> pr_analysis_only probe_plan"
    by (simp_all add: probe_proposal_def)
  then have "map fst (proposal_calls [] probe_run_packet probe_plan probe_contract ShadowMode) =
      fixed_ids @ map fst (program_calls probe_contract ?g)"
    by (simp add: proposal_calls_def executable_calls_def binding_calls_def fixed_ids_def)
  then show ?thesis
    unfolding program by (simp add: probe_call_ids_def linked_steps_def probe_step_def step_prefix_def probe_program_def)
qed

lemma probe_records:
  "valid_validation_record (validation_record_of probe_checks)"
  "valid_validation_record (validation_record_of (validate_reviewer probe_run_packet probe_plan probe_verdict))"
proof -
  have "list_all is_Identifier probe_call_ids" "length probe_call_ids \<le> 128" "probe_call_ids \<noteq> []" by code_simp+
  then have "list_all (\<lambda>c. is_Identifier (fst c)) (proposal_calls [] probe_run_packet probe_plan probe_contract ShadowMode)"
    "length (proposal_calls [] probe_run_packet probe_plan probe_contract ShadowMode) \<le> 128"
    "proposal_calls [] probe_run_packet probe_plan probe_contract ShadowMode \<noteq> []"
    unfolding probe_calls_named [symmetric] by (simp_all add: list_all_iff)
  with probe_run_accepted show "valid_validation_record (validation_record_of probe_checks)"
    unfolding validate_proposal_def by (intro accepted_record)
  have "list_all is_Identifier [''review.binding'', ''review.evidence'', ''review.finding-targets'', ''review.acceptance'']"
    by code_simp
  with probe_run_reviewed
  show "valid_validation_record (validation_record_of (validate_reviewer probe_run_packet probe_plan probe_verdict))"
    unfolding validate_reviewer_def by (intro accepted_record) (simp_all add: reviewer_calls_def Let_def)
qed

lemma probe_feedback:
  "\<exists>fb k d. build_review_feedback probe_run_packet probe_plan probe_verdict
       (validate_reviewer probe_run_packet probe_plan probe_verdict) (Aware 63905500820000000) = Inr fb \<and>
     feedback_put WriteOk fb [] = Inr (k, d)"
proof -
  let ?r = "validate_reviewer probe_run_packet probe_plan probe_verdict"
  let ?fb = "projected probe_run_packet probe_plan probe_verdict [] 63905500820000000"
  have passed: "set (ck_passed ?r) = {''review.binding'', ''review.evidence'', ''review.finding-targets'', ''review.acceptance''}"
    using passed_of_valid [OF probe_run_reviewed [unfolded validate_reviewer_def]]
    by (simp add: validate_reviewer_def reviewer_calls_def Let_def)
  have "failed_check_ids ?r = []" using probe_run_reviewed by (simp add: report_valid_def failed_check_ids_def)
  then have bound: "first_unmet (feedback_bindings probe_run_packet probe_plan probe_verdict ?r) = None"
    by (simp add: feedback_bindings_def passed structural_review_checks_def probe_run_packet_fields)
      (simp add: probe_verdict_def probe_proposal_def)
  have "is_Timestamp (iso_z 63905500820000000)" "is_Identifier ''proposal-1''" "is_Identifier ''packet-1''"
    "list_all is_EvidenceRef [''evidence:coverage.1'']" "sorted_set [''evidence:coverage.1''] = [''evidence:coverage.1'']"
    "1 \<le> length (record_summary ACCEPT RISK_LOW [] [''evidence:coverage.1'']) \<and>
     length (record_summary ACCEPT RISK_LOW [] [''evidence:coverage.1'']) \<le> 1600"
    by code_simp+
  then have valid: "valid_feedback ?fb"
    using probe_contract_enabled(8)
    by (simp add: valid_feedback_def projected_def probe_run_packet_fields require_canonical_projection_def Let_def
        len_between_def content_digest_is_digest)
      (simp add: probe_verdict_def probe_proposal_def)
  have "build_review_feedback probe_run_packet probe_plan probe_verdict ?r (Aware 63905500820000000) = Inr ?fb"
    using bound valid by (simp add: build_review_feedback_def findings_in_order_def probe_verdict_def)
  moreover have "\<exists>k d. feedback_put WriteOk ?fb [] = Inr (k, d)"
    by (simp add: feedback_put_def quarantine_put_def Let_def exists_name_def)
  ultimately show ?thesis by blast
qed

lemma probe_artifact:
  obtains out mid st where "compile_program [] (probe_program linked_steps) probe_contract = Inr out"
    and "artifact_put WriteOk WriteOk out (binding_for probe_plan probe_contract (probe_program linked_steps))
      \<lparr>as_payloads = [], as_manifests = []\<rparr> = (Inr mid, st)"
    and "is_digest mid"
proof (rule probe_artifact_put)
  fix out mid st
  assume out: "compile_program [] (probe_program linked_steps) probe_contract = Inr out"
    "artifact_put WriteOk WriteOk out probe_binding \<lparr>as_payloads = [], as_manifests = []\<rparr> = (Inr mid, st)" "is_digest mid"
  have "binding_for probe_plan probe_contract (probe_program linked_steps) = probe_binding"
    by (simp add: binding_for_def probe_binding_def model_digest_def json_digest_def)
  with out that show thesis by simp
qed

abbreviation probe_review :: checks where
  "probe_review \<equiv> validate_reviewer probe_run_packet probe_plan probe_verdict"

definition paid_trace :: "provider_role \<Rightarrow> int \<Rightarrow> provider_trace" where
  "paid_trace role cost =
     \<lparr>pt_role = role, pt_provider = ''moonshot'', pt_model = ''kimi'', pt_response_id = ''resp-1'',
      pt_client_request_id = ''request-1'', pt_input_tokens = 0, pt_output_tokens = 0, pt_reasoning_tokens = 0,
      pt_cost_microusd = cost\<rparr>"

lemma paid_trace_valid: "0 \<le> cost \<Longrightarrow> valid_trace (paid_trace role cost)"
proof -
  have "is_Symbol ''moonshot''" "is_Identifier ''kimi''" "is_ProviderResponseId ''resp-1''" "is_Identifier ''request-1''"
    by code_simp+
  then show "0 \<le> cost \<Longrightarrow> valid_trace (paid_trace role cost)" by (simp add: valid_trace_def paid_trace_def)
qed

lemma trace_of_answer:
  "0 \<le> charged_microdollars settled \<Longrightarrow>
    trace_of role \<lparr>call_result = probe_answer x, call_settlement = settled\<rparr> =
      Inr (paid_trace role (charged_microdollars settled))"
  using paid_trace_valid [of "charged_microdollars settled" role]
  by (simp add: trace_of_def probe_answer_def paid_trace_def)

abbreviation probe_quarantined :: "int \<Rightarrow> int \<Rightarrow> string \<Rightarrow> quarantine_envelope" where
  "probe_quarantined x y mid \<equiv> envelope_for probe_run_packet probe_contract 63905500820000000 probe_plan probe_verdict None
     [probe_checks, probe_review] [paid_trace PLANNER x, paid_trace REVIEWER y] [mid]"

lemma probe_quarantined_valid:
  assumes "is_digest mid" and "0 \<le> x" and "0 \<le> y"
  shows "valid_envelope (probe_quarantined x y mid)"
proof -
  have "is_identifier_text ''env-''" by code_simp
  then have "is_Identifier (''env-'' @ last_chars 24 (json_digest (dump_proposal probe_plan)))"
    by (intro hex_tail_identifier) simp_all
  moreover have "is_Timestamp (iso_z 63905500820000000)" by code_simp
  moreover have "valid_proposal probe_plan" using probe_contract_enabled(8) by (intro probe_proposal_valid) simp_all
  moreover have "failed_check_ids probe_checks = []" "failed_check_ids probe_review = []"
    using probe_run_accepted probe_run_reviewed by (simp_all add: report_valid_def failed_check_ids_def)
  ultimately show ?thesis
    using assms paid_trace_valid [of x PLANNER] paid_trace_valid [of y REVIEWER] probe_records probe_contract_enabled(8) probe_verdict_valid
    by (simp add: valid_envelope_def envelope_for_def Let_def bind_related_artifacts_def auditor_bound_def len_between_def
        probe_run_packet_fields)
      (simp add: probe_proposal_def probe_verdict_def paid_trace_def validation_record_of_def)
qed

lemma probe_fits:
  "fit_request ''planner'' PLANNER_INSTRUCTIONS probe_planner_text (strict_json_schema (cf_proposal_schema probe_pipeline))
     ''io_uring_fuzz_plan_v1'' (principal_id x)"
  "fit_request ''reviewer'' REVIEWER_SYSTEM probe_reviewer_text (strict_json_schema (cf_verdict_schema probe_pipeline))
     ''io_uring_fuzz_review_v1'' (principal_id x)"
  by (simp_all add: fit_planner fit_reviewer probe_pipeline_def is_object_def)

lemma probe_pipeline_fields:
  "cf_compiler_file probe_pipeline = []" "cf_mode probe_pipeline = ShadowMode"
  "cf_planner probe_pipeline = sample_provider" "cf_reviewer probe_pipeline = sample_provider"
  "\<not> audit_due probe_pipeline k"
  by (simp_all add: probe_pipeline_def audit_due_def)

lemma probe_run_env_fields:
  "re_planners probe_run_env 0 = probe_dispatch ''1'' 63905500790000000 (render (dump_proposal probe_plan))"
  "re_reviewer probe_run_env = probe_dispatch ''2'' 63905500810000000 (render (dump_verdict probe_verdict))"
  "re_validated_at probe_run_env = 63905500780000000" "re_feedback_at probe_run_env = 63905500820000000"
  "re_feedback_write probe_run_env = WriteOk" "re_artifact_writes probe_run_env = (\<lambda>_. (WriteOk, WriteOk))"
  "re_enveloped_at probe_run_env = 63905500820000000" "re_quarantine_write probe_run_env = WriteOk"
  by (simp_all add: probe_run_env_def)

text \<open>The planner answers in January, the reviewer in February, and the run is quarantined.\<close>

lemma probe_run_quarantines:
  obtains d s' mid st where
    "run probe_pipeline probe_run_env probe_run_packet probe_contract empty_stores = (Inr (Quarantined d), s')"
    "quarantine_put WriteOk (dump_envelope (probe_quarantined 1850 1850 mid)) [] = Inr (d, ps_quarantine s')"
    "is_digest mid"
proof -
  have jan: "month_string 63905500790000000 = ''2026-01''" and feb: "month_string 63905500810000000 = ''2026-02''"
    by code_simp+
  have texts: "utf8_length probe_planner_text \<le> cf_max_packet_bytes probe_pipeline"
    "utf8_length probe_reviewer_text \<le> cf_max_packet_bytes probe_pipeline"
    "utf8_length (render (dump_proposal probe_plan)) \<le> cf_max_response_bytes probe_pipeline"
    "utf8_length (render (dump_verdict probe_verdict)) \<le> cf_max_response_bytes probe_pipeline"
    by (simp_all add: probe_pipeline_def)
  from probe_call [OF _ probe_fits(1) [of "tp_fleet_id probe_run_packet"] texts(1,3), of 63905500790000000 "[]" "''1''"]
  obtain sp r u where plan: "call_on probe_pipeline (probe_dispatch ''1'' 63905500790000000 (render (dump_proposal probe_plan)))
      ''planner'' sample_provider PLANNER_INSTRUCTIONS probe_planner_text
      (strict_json_schema (cf_proposal_schema probe_pipeline)) ''io_uring_fuzz_plan_v1'' (principal_id (tp_fleet_id probe_run_packet)) []
      = (Inr \<lparr>call_result = probe_answer (render (dump_proposal probe_plan)), call_settlement = sp\<rparr>, [r, u])"
    and sp: "charged_microdollars sp = 1850"
    and rows: "event_id r = ''e1''" "reservation_id r = ''r1''" "month_key r = ''2026-01''" "event_id u = ''ec1''"
      "reservation_id u = ''r1''" "month_key u = ''2026-01''"
    by (auto simp: jan)
  from probe_call [OF _ probe_fits(2) [of "tp_fleet_id probe_run_packet"] texts(2,4), of 63905500810000000 "[r, u]" "''2''"]
  obtain sr w z where judge: "call_on probe_pipeline (probe_dispatch ''2'' 63905500810000000 (render (dump_verdict probe_verdict)))
      ''reviewer'' sample_provider REVIEWER_SYSTEM probe_reviewer_text
      (strict_json_schema (cf_verdict_schema probe_pipeline)) ''io_uring_fuzz_review_v1'' (principal_id (tp_fleet_id probe_run_packet)) [r, u]
      = (Inr \<lparr>call_result = probe_answer (render (dump_verdict probe_verdict)), call_settlement = sr\<rparr>, [r, u] @ [w, z])"
    and sr: "charged_microdollars sr = 1850"
    by (auto simp: feb rows)
  let ?pc = "\<lparr>call_result = probe_answer (render (dump_proposal probe_plan)), call_settlement = sp\<rparr>"
  let ?rc = "\<lparr>call_result = probe_answer (render (dump_verdict probe_verdict)), call_settlement = sr\<rparr>"
  have answered: "rs_text (probe_answer x) = x" for x by (simp add: probe_answer_def)
  have plan_ok: "valid_proposal probe_plan" using probe_contract_enabled(8) by (intro probe_proposal_valid) simp_all
  have proposed: "propose probe_pipeline probe_run_env probe_run_packet probe_contract empty_stores =
      (Inr (?pc, probe_plan, probe_checks), empty_stores\<lparr>ps_ledger := [r, u]\<rparr>)"
    using propose_clean [of probe_pipeline probe_run_env probe_run_packet probe_contract empty_stores ?pc "[r, u]" probe_plan]
      plan plan_ok probe_run_accepted
    by (simp add: probe_pipeline_fields probe_run_env_fields answered empty_stores_def)
  obtain fb k fd where fb: "build_review_feedback probe_run_packet probe_plan probe_verdict probe_review (Aware 63905500820000000) = Inr fb"
    "feedback_put WriteOk fb [] = Inr (k, fd)" using probe_feedback by blast
  let ?s = "empty_stores\<lparr>ps_ledger := [r, u] @ [w, z], ps_feedback := fd\<rparr>"
  have reviewed: "review probe_pipeline probe_run_env probe_run_packet probe_contract probe_plan probe_checks
      (empty_stores\<lparr>ps_ledger := [r, u]\<rparr>) = (Inr (?rc, probe_verdict, probe_review), ?s)"
    using review_clean [of probe_pipeline probe_run_env probe_run_packet probe_contract probe_plan probe_checks
        "empty_stores\<lparr>ps_ledger := [r, u]\<rparr>" ?rc "[r, u] @ [w, z]" probe_verdict fb k fd]
      judge fb probe_verdict_valid probe_run_reviewed
    by (simp add: probe_pipeline_fields probe_run_env_fields answered empty_stores_def)
  obtain out mid st where stored: "compile_program [] (probe_program linked_steps) probe_contract = Inr out"
    "artifact_put WriteOk WriteOk out (binding_for probe_plan probe_contract (probe_program linked_steps))
      \<lparr>as_payloads = [], as_manifests = []\<rparr> = (Inr mid, st)" "is_digest mid" by (rule probe_artifact)
  obtain d q where put: "quarantine_put WriteOk (dump_envelope (probe_quarantined 1850 1850 mid)) [] = Inr (d, q)"
    by (simp add: quarantine_put_def Let_def exists_name_def)
  obtain r0 where inputs: "validate_run_inputs [] probe_run_packet probe_contract ShadowMode 63905500780000000 = Some r0"
    "report_valid r0" using probe_run_inputs by blast
  have program: "pr_programs probe_plan = [probe_program linked_steps]" "\<not> pr_abstain probe_plan"
    by (simp_all add: probe_proposal_def)
  have traces: "trace_of PLANNER ?pc = Inr (paid_trace PLANNER 1850)" "trace_of REVIEWER ?rc = Inr (paid_trace REVIEWER 1850)"
    using trace_of_answer [of sp PLANNER] trace_of_answer [of sr REVIEWER] sp sr by simp_all
  have "run probe_pipeline probe_run_env probe_run_packet probe_contract empty_stores =
      (Inr (Quarantined d), ?s\<lparr>ps_artifacts := st, ps_quarantine := q\<rparr>)"
    using run_completes [OF _ inputs(2) proposed program(2) reviewed traces _ program(1) probe_contract_enabled(3), of out mid st d q]
      inputs(1) stored put probe_quarantined_valid [OF stored(3), of 1850 1850]
    by (simp add: probe_pipeline_fields probe_run_env_fields empty_stores_def)
  with put stored(3) show thesis by (intro that [of d _ mid]) auto
qed

lemma passed_in_order:
  assumes "\<forall>(i, b, m) \<in> set calls. b" and "distinct (map fst calls)" and "set (map fst calls) \<inter> set (ck_passed c) = {}"
  shows "ck_passed (fold require calls c) = ck_passed c @ map fst calls"
  using assms
proof (induction calls arbitrary: c)
  case (Cons x calls)
  obtain i b m where x: "x = (i, b, m)" by (rule prod_cases3)
  with Cons.prems have "b" "i \<notin> set (ck_passed c)" by auto
  with Cons.IH [of "require x c"] Cons.prems x show ?case by auto
qed simp

lemma accepted_passed: "report_valid (report_of calls) \<Longrightarrow> distinct (map fst calls) \<Longrightarrow> ck_passed (report_of calls) = map fst calls"
  unfolding report_valid_iff by (simp add: report_of_def passed_in_order)

lemma probe_passed:
  "ck_passed probe_checks = probe_call_ids"
  "ck_passed probe_review = [''review.binding'', ''review.evidence'', ''review.finding-targets'', ''review.acceptance'']"
proof -
  have "distinct probe_call_ids" by code_simp
  then show "ck_passed probe_checks = probe_call_ids"
    using accepted_passed [OF probe_run_accepted [unfolded validate_proposal_def]]
    by (simp add: validate_proposal_def probe_calls_named)
  show "ck_passed probe_review = [''review.binding'', ''review.evidence'', ''review.finding-targets'', ''review.acceptance'']"
    using accepted_passed [OF probe_run_reviewed [unfolded validate_reviewer_def]]
    by (simp add: validate_reviewer_def reviewer_calls_def Let_def)
qed

lemma length_dedup_le: "length (dedup xs) \<le> length xs"
  by (metis card_length distinct_card distinct_dedup set_dedup)

lemma probe_quarantined_checks: "length (report_checks (probe_quarantined x y mid)) \<le> 128"
proof -
  have "length probe_call_ids + 9 \<le> 128" by code_simp
  moreover have "length AUTHORITY_CHECKS = 5" by code_simp
  moreover have "length (concat (map vr_passed (qe_validations (probe_quarantined x y mid)))) = length probe_call_ids + 4"
    by (simp add: envelope_for_def Let_def validation_record_of_def probe_passed)
  ultimately show ?thesis
    using length_dedup_le [of "concat (map vr_passed (qe_validations (probe_quarantined x y mid))) @ AUTHORITY_CHECKS"]
    by (simp add: report_checks_def)
qed

lemma probe_quarantined_size:
  assumes mid: "is_digest mid"
  shows "length (canonical_json (dump_envelope (probe_quarantined 1850 1850 mid))) \<le> 2097152"
proof -
  have parts: "json_size (dump_program (probe_program linked_steps)) \<le> 20000"
    "json_size (dump_hypothesis (pr_hypothesis (probe_proposal h linked_steps))) \<le> 2000"
    "json_size (dump_verdict probe_verdict) \<le> 4000" "json_size (dump_trace (paid_trace PLANNER 1850)) \<le> 2000"
    "json_size (dump_trace (paid_trace REVIEWER 1850)) \<le> 2000" "json_size (strs probe_call_ids) \<le> 20000"
    "json_size (strs [''review.binding'', ''review.evidence'', ''review.finding-targets'', ''review.acceptance'']) \<le> 2000"
    "length (iso_z 63905500820000000) \<le> 40" for h by code_simp+
  have h: "json_size (dump_target_hashes probe_hashes) \<le> 2400"
    using hashes_size probe_contract_enabled(8) .
  have digests: "length mid = 71" "length VALIDATOR_HASH = 71" "length (json_digest v) = 71" for v
    using mid length_of_digest validator_constants(2) json_digest_is_digest by blast+
  have version: "length VALIDATOR_VERSION \<le> 96" using validator_constants(1) by (simp add: is_Identifier_def)
  have plan: "json_size (dump_proposal probe_plan) \<le> 30000"
    using parts(1,2) h by (simp add: dump_proposal_def) (simp add: probe_proposal_def)
  have failed: "failed_check_ids probe_checks = []" "failed_check_ids probe_review = []"
    using probe_run_accepted probe_run_reviewed by (simp_all add: report_valid_def failed_check_ids_def)
  have records: "json_size (dump_validation_record (validation_record_of probe_checks)) \<le> 22000"
    "json_size (dump_validation_record (validation_record_of probe_review)) \<le> 22000"
    using digests version parts(6,7) by (simp_all add: dump_validation_record_def validation_record_of_def probe_passed failed)
  have "json_size (dump_optional JStr None) = 4" "json_size (dump_optional dump_verdict None) = 4"
    by (simp_all add: dump_optional_def)
  then have "json_size (dump_envelope (probe_quarantined 1850 1850 mid)) \<le> 2097152"
    using parts(3-5,8) h digests plan records
    by (simp add: dump_envelope_def envelope_for_def Let_def probe_run_packet_fields)
  with canonical_size show ?thesis by (rule order_trans)
qed

section \<open>Properties\<close>

text \<open>
  C3: A run that ends in the quarantine has earned it: the inputs were bound to one target, the
  proposal was valid in this packet and contract and no abstention, an independent review accepted it
  without severe findings, an audit accepted it exactly when its digest called for one, the envelope
  written is valid and carries that very proposal and those verdicts, and under a production contract
  every program of the proposal was compiled and is in the artifact store, in order, under the
  digests the envelope lists.
\<close>

theorem quarantined_after_review:
  assumes "run cfg env t c s = (Inr (Quarantined d), s')" and "regular_only (as_manifests (ps_artifacts s))"
  shows "\<exists>e. valid_envelope e \<and>
    quarantine_put (re_quarantine_write env) (dump_envelope e) (ps_quarantine s) = Inr (d, ps_quarantine s') \<and>
    qe_target_hashes e = tp_target_hashes t \<and> tp_target_hashes t = hc_target_hashes c \<and>
    \<not> pr_abstain (qe_proposal e) \<and>
    report_valid (validate_proposal (cf_compiler_file cfg) t (qe_proposal e) c (cf_mode cfg)) \<and>
    report_valid (validate_reviewer t (qe_proposal e) (qe_reviewer_verdict e)) \<and>
    rv_verdict (qe_reviewer_verdict e) = ACCEPT \<and> safe_for_quarantine (qe_reviewer_verdict e) \<and>
    (qe_auditor_verdict e \<noteq> None \<longleftrightarrow> audit_due cfg (qe_proposal_hash e)) \<and>
    (\<forall>w. qe_auditor_verdict e = Some w \<longrightarrow> report_valid (validate_reviewer t (qe_proposal e) w)) \<and>
    (hc_environment c = PRODUCTION \<longrightarrow>
       list_all2 (stored_program (cf_compiler_file cfg) (qe_proposal e) c (ps_artifacts s'))
         (pr_programs (qe_proposal e)) (qe_compiled_artifact_hashes e))"
proof (rule run_establishes [OF assms])
  fix e
  assume e: "valid_envelope e"
    "quarantine_put (re_quarantine_write env) (dump_envelope e) (ps_quarantine s) = Inr (d, ps_quarantine s')"
    "qe_target_hashes e = tp_target_hashes t" "tp_target_hashes t = hc_target_hashes c"
    "\<not> pr_abstain (qe_proposal e)"
    "report_valid (validate_proposal (cf_compiler_file cfg) t (qe_proposal e) c (cf_mode cfg))"
    "report_valid (validate_reviewer t (qe_proposal e) (qe_reviewer_verdict e))"
    "qe_auditor_verdict e \<noteq> None \<longleftrightarrow> audit_due cfg (qe_proposal_hash e)"
    "\<And>w. qe_auditor_verdict e = Some w \<Longrightarrow> report_valid (validate_reviewer t (qe_proposal e) w)"
    "hc_environment c = PRODUCTION \<Longrightarrow> list_all2 (stored_program (cf_compiler_file cfg) (qe_proposal e) c (ps_artifacts s'))
       (pr_programs (qe_proposal e)) (qe_compiled_artifact_hashes e)"
  from e(7) have "rv_verdict (qe_reviewer_verdict e) = ACCEPT \<and> safe_for_quarantine (qe_reviewer_verdict e)"
    by (auto simp: validate_reviewer_def reviewer_calls_def report_valid_iff Let_def)
  with e show ?thesis by (intro exI [of _ e]) blast
qed

lemma quarantined_after_review_witness:
  "\<exists>e d q. valid_envelope e \<and> quarantine_put WriteOk (dump_envelope e) [] = Inr (d, q) \<and>
     rv_verdict (qe_reviewer_verdict e) = ACCEPT \<and> qe_target_hashes e = probe_hashes"
proof (rule probe_run_quarantines)
  fix d s' mid
  assume run: "run probe_pipeline probe_run_env probe_run_packet probe_contract empty_stores = (Inr (Quarantined d), s')"
  from quarantined_after_review [OF run] obtain e where
    "valid_envelope e" "quarantine_put (re_quarantine_write probe_run_env) (dump_envelope e) (ps_quarantine empty_stores) = Inr (d, ps_quarantine s')"
    "qe_target_hashes e = tp_target_hashes probe_run_packet" "rv_verdict (qe_reviewer_verdict e) = ACCEPT"
    by (auto simp: empty_stores_def)
  then show ?thesis by (auto simp: probe_run_env_fields probe_run_packet_fields empty_stores_def)
qed

text \<open>
  C16: Nothing else reaches the quarantine: whenever a run abstains, is rejected or fails, at whatever
  step, the quarantine is what it was before.
\<close>

theorem other_runs_keep_the_quarantine:
  "ps_quarantine (snd (run cfg env t c s)) = ps_quarantine s \<or> (\<exists>d. fst (run cfg env t c s) = Inr (Quarantined d))"
  using run_guarded unfolding outcome_guarded_def by blast



end
