(* ===== verification/EventModels.thy ===== *)
theory EventModels
  imports Execution
begin

text \<open>
  The redacted events of \<open>src/iou_ai/events.py\<close>: the two approval challenges and their binding
  digests, the six event kinds with their validators, and the strict reader of the discriminated
  union (\<open>parse_event\<close>).
\<close>

definition is_Nonce256 :: "string \<Rightarrow> bool" where
  "is_Nonce256 s \<longleftrightarrow> is_hex64 s"

definition BASE32 :: string where "BASE32 = ''ABCDEFGHIJKLMNOPQRSTUVWXYZ234567''"

definition is_HumanCode :: "string \<Rightarrow> bool" where
  "is_HumanCode s \<longleftrightarrow> length s = 8 \<and> list_all (\<lambda>c. c \<in> set BASE32) s"

definition is_Month :: "string \<Rightarrow> bool" where
  "is_Month s \<longleftrightarrow> matches_template ''dddd-dd'' s \<and>
     (let m = drop 5 s in m \<in> set [''01'', ''02'', ''03'', ''04'', ''05'', ''06'', ''07'', ''08'', ''09'', ''10'', ''11'', ''12''])"

section \<open>Challenges\<close>

text \<open>The allowed actions are a constant of each class; they are rendered but not stored.\<close>

record challenge =
  ch_nonce :: string
  ch_human_code :: string
  ch_expires_at :: string
  ch_binding_digest :: string

definition valid_challenge :: "challenge \<Rightarrow> bool" where
  "valid_challenge c \<longleftrightarrow>
     is_Nonce256 (ch_nonce c) \<and> is_HumanCode (ch_human_code c) \<and> is_Timestamp (ch_expires_at c) \<and>
     is_digest (ch_binding_digest c)"

definition dump_approval :: "challenge \<Rightarrow> json" where
  "dump_approval c =
     JObj [(''nonce'', JStr (ch_nonce c)), (''human_code'', JStr (ch_human_code c)),
           (''expires_at'', JStr (ch_expires_at c)), (''binding_digest'', JStr (ch_binding_digest c)),
           (''allowed_actions'', strs [''approve_for_offline_validation'', ''deny''])]"

definition dump_execution_approval :: "challenge \<Rightarrow> json" where
  "dump_execution_approval c =
     JObj [(''nonce'', JStr (ch_nonce c)), (''human_code'', JStr (ch_human_code c)),
           (''expires_at'', JStr (ch_expires_at c)), (''binding_digest'', JStr (ch_binding_digest c)),
           (''allowed_actions'', strs [''approve_for_live_execution'', ''deny''])]"

definition approval_binding_digest :: "string \<Rightarrow> target_hashes \<Rightarrow> string \<Rightarrow> string \<Rightarrow> string \<Rightarrow> string" where
  "approval_binding_digest envelope_digest hashes nonce code expires_at =
     json_digest
       (JObj [(''envelope_digest'', JStr envelope_digest), (''expires_at'', JStr expires_at),
              (''human_code'', JStr code), (''nonce'', JStr nonce),
              (''target_hashes'', dump_target_hashes hashes)])"

definition execution_approval_binding_digest ::
  "string \<Rightarrow> string \<Rightarrow> string \<Rightarrow> string \<Rightarrow> int \<Rightarrow> string \<Rightarrow> string \<Rightarrow> target_hashes \<Rightarrow> promotion_scope \<Rightarrow>
   string \<Rightarrow> string \<Rightarrow> string \<Rightarrow> string" where
  "execution_approval_binding_digest candidate_digest envelope_digest manifest_id artifact_digest artifact_size
       validation_digest canary_digest hashes scope nonce code expires_at =
     json_digest
       (JObj [(''binding_version'', JStr ''execution-approval-binding.v1''), (''event_kind'', JStr ''execution_ready''),
              (''positive_action'', JStr ''approve_for_live_execution''),
              (''candidate_digest'', JStr candidate_digest), (''envelope_digest'', JStr envelope_digest),
              (''artifact_manifest_digest'', JStr manifest_id), (''artifact_digest'', JStr artifact_digest),
              (''artifact_size_bytes'', JInt artifact_size), (''validation_report_digest'', JStr validation_digest),
              (''canary_report_digest'', JStr canary_digest), (''target_hashes'', dump_target_hashes hashes),
              (''promotion_scope'', dump_scope scope), (''nonce'', JStr nonce), (''human_code'', JStr code),
              (''expires_at'', JStr expires_at)])"

section \<open>Events\<close>

record quarantined_event =
  qv_created_at :: string
  qv_envelope_digest :: string
  qv_proposal_hash :: string
  qv_target_hashes :: target_hashes
  qv_approval :: challenge

definition challenge_binds_event :: "quarantined_event \<Rightarrow> bool" where
  "challenge_binds_event e \<longleftrightarrow>
     ch_binding_digest (qv_approval e) =
       approval_binding_digest (qv_envelope_digest e) (qv_target_hashes e) (ch_nonce (qv_approval e))
         (ch_human_code (qv_approval e)) (ch_expires_at (qv_approval e))"

definition valid_quarantined :: "quarantined_event \<Rightarrow> bool" where
  "valid_quarantined e \<longleftrightarrow>
     is_Timestamp (qv_created_at e) \<and> is_digest (qv_envelope_digest e) \<and> is_digest (qv_proposal_hash e) \<and>
     valid_target_hashes (qv_target_hashes e) \<and> valid_challenge (qv_approval e) \<and> challenge_binds_event e"

definition dump_quarantined :: "quarantined_event \<Rightarrow> json" where
  "dump_quarantined e =
     JObj [(''schema_version'', JStr ''redacted-event.v1''), (''created_at'', JStr (qv_created_at e)),
           (''event_kind'', JStr ''proposal_quarantined''), (''severity'', JStr ''action_required''),
           (''envelope_digest'', JStr (qv_envelope_digest e)), (''proposal_hash'', JStr (qv_proposal_hash e)),
           (''target_hashes'', dump_target_hashes (qv_target_hashes e)), (''approval'', dump_approval (qv_approval e))]"

record ready_event =
  rd_created_at :: string
  rd_candidate_digest :: string
  rd_envelope_digest :: string
  rd_manifest_digest :: string
  rd_artifact_digest :: string
  rd_artifact_size :: int
  rd_validation_digest :: string
  rd_canary_digest :: string
  rd_target_hashes :: target_hashes
  rd_scope :: promotion_scope
  rd_approval :: challenge

definition challenge_binds_execution :: "ready_event \<Rightarrow> bool" where
  "challenge_binds_execution e \<longleftrightarrow>
     ch_binding_digest (rd_approval e) =
       execution_approval_binding_digest (rd_candidate_digest e) (rd_envelope_digest e) (rd_manifest_digest e)
         (rd_artifact_digest e) (rd_artifact_size e) (rd_validation_digest e) (rd_canary_digest e)
         (rd_target_hashes e) (rd_scope e) (ch_nonce (rd_approval e)) (ch_human_code (rd_approval e))
         (ch_expires_at (rd_approval e))"

definition valid_ready :: "ready_event \<Rightarrow> bool" where
  "valid_ready e \<longleftrightarrow>
     is_Timestamp (rd_created_at e) \<and> is_digest (rd_candidate_digest e) \<and> is_digest (rd_envelope_digest e) \<and>
     is_digest (rd_manifest_digest e) \<and> is_digest (rd_artifact_digest e) \<and>
     1 \<le> rd_artifact_size e \<and> rd_artifact_size e \<le> 2048 \<and> is_digest (rd_validation_digest e) \<and>
     is_digest (rd_canary_digest e) \<and> valid_target_hashes (rd_target_hashes e) \<and> valid_scope (rd_scope e) \<and>
     valid_challenge (rd_approval e) \<and> challenge_binds_execution e"

definition dump_ready :: "ready_event \<Rightarrow> json" where
  "dump_ready e =
     JObj [(''schema_version'', JStr ''redacted-event.v2''), (''event_kind'', JStr ''execution_ready''),
           (''created_at'', JStr (rd_created_at e)), (''severity'', JStr ''action_required''),
           (''candidate_digest'', JStr (rd_candidate_digest e)), (''envelope_digest'', JStr (rd_envelope_digest e)),
           (''artifact_manifest_digest'', JStr (rd_manifest_digest e)),
           (''artifact_digest'', JStr (rd_artifact_digest e)), (''artifact_size_bytes'', JInt (rd_artifact_size e)),
           (''validation_report_digest'', JStr (rd_validation_digest e)),
           (''canary_report_digest'', JStr (rd_canary_digest e)),
           (''target_hashes'', dump_target_hashes (rd_target_hashes e)), (''promotion_scope'', dump_scope (rd_scope e)),
           (''approval'', dump_execution_approval (rd_approval e))]"

datatype budget_severity = SEVERITY_WARNING | SEVERITY_CRITICAL

fun budget_severity_value :: "budget_severity \<Rightarrow> string" where
  "budget_severity_value SEVERITY_WARNING = ''warning''"
| "budget_severity_value SEVERITY_CRITICAL = ''critical''"

record budget_event =
  bt_created_at :: string
  bt_severity :: budget_severity
  bt_month :: string
  bt_threshold :: int
  bt_effective_spend :: int
  bt_hard_limit :: int
  bt_remaining :: int

definition amounts_are_consistent :: "budget_event \<Rightarrow> bool" where
  "amounts_are_consistent e \<longleftrightarrow>
     bt_threshold e < bt_hard_limit e \<and> bt_threshold e \<le> bt_effective_spend e \<and>
     bt_remaining e = max 0 (bt_hard_limit e - bt_effective_spend e)"

definition valid_budget_event :: "budget_event \<Rightarrow> bool" where
  "valid_budget_event e \<longleftrightarrow>
     is_Timestamp (bt_created_at e) \<and> is_Month (bt_month e) \<and> 0 \<le> bt_threshold e \<and> 0 \<le> bt_effective_spend e \<and>
     1 \<le> bt_hard_limit e \<and> 0 \<le> bt_remaining e \<and> amounts_are_consistent e"

definition dump_budget_event :: "budget_event \<Rightarrow> json" where
  "dump_budget_event e =
     JObj [(''schema_version'', JStr ''redacted-event.v1''), (''created_at'', JStr (bt_created_at e)),
           (''event_kind'', JStr ''budget_threshold''), (''severity'', JStr (budget_severity_value (bt_severity e))),
           (''month'', JStr (bt_month e)), (''threshold_microdollars'', JInt (bt_threshold e)),
           (''effective_spend_microdollars'', JInt (bt_effective_spend e)),
           (''hard_limit_microdollars'', JInt (bt_hard_limit e)), (''remaining_microdollars'', JInt (bt_remaining e))]"

text \<open>The crash and the hang counter events have the same fields.\<close>

record counter_event =
  cn_created_at :: string
  cn_campaign_id :: string
  cn_packet_digest :: string
  cn_target_hashes :: target_hashes
  cn_previous :: int
  cn_current :: int
  cn_increase :: int

definition delta_is_exact :: "counter_event \<Rightarrow> bool" where
  "delta_is_exact e \<longleftrightarrow> cn_previous e < cn_current e \<and> cn_increase e = cn_current e - cn_previous e"

definition valid_counter :: "counter_event \<Rightarrow> bool" where
  "valid_counter e \<longleftrightarrow>
     is_Timestamp (cn_created_at e) \<and> is_Identifier (cn_campaign_id e) \<and> is_digest (cn_packet_digest e) \<and>
     valid_target_hashes (cn_target_hashes e) \<and> 0 \<le> cn_previous e \<and> 1 \<le> cn_current e \<and> 1 \<le> cn_increase e \<and>
     delta_is_exact e"

definition dump_crash_counter :: "counter_event \<Rightarrow> json" where
  "dump_crash_counter e =
     JObj [(''schema_version'', JStr ''redacted-event.v1''), (''created_at'', JStr (cn_created_at e)),
           (''severity'', JStr ''attention''), (''campaign_id'', JStr (cn_campaign_id e)),
           (''telemetry_packet_digest'', JStr (cn_packet_digest e)),
           (''target_hashes'', dump_target_hashes (cn_target_hashes e)), (''previous_count'', JInt (cn_previous e)),
           (''current_count'', JInt (cn_current e)), (''increase'', JInt (cn_increase e)),
           (''event_kind'', JStr ''crash_counter_increase'')]"

definition dump_hang_counter :: "counter_event \<Rightarrow> json" where
  "dump_hang_counter e =
     JObj [(''schema_version'', JStr ''redacted-event.v1''), (''created_at'', JStr (cn_created_at e)),
           (''severity'', JStr ''attention''), (''campaign_id'', JStr (cn_campaign_id e)),
           (''telemetry_packet_digest'', JStr (cn_packet_digest e)),
           (''target_hashes'', dump_target_hashes (cn_target_hashes e)), (''previous_count'', JInt (cn_previous e)),
           (''current_count'', JInt (cn_current e)), (''increase'', JInt (cn_increase e)),
           (''event_kind'', JStr ''hang_counter_increase'')]"

datatype bug_class =
    KASAN_USE_AFTER_FREE | KASAN_OUT_OF_BOUNDS | KASAN_DOUBLE_FREE | KERNEL_NULL_DEREFERENCE
  | KERNEL_GENERAL_PROTECTION_FAULT | KERNEL_OOPS_OTHER | HARNESS_EXIT | BUG_TIMEOUT | BUG_UNKNOWN

fun bug_class_value :: "bug_class \<Rightarrow> string" where
  "bug_class_value KASAN_USE_AFTER_FREE = ''kasan_use_after_free''"
| "bug_class_value KASAN_OUT_OF_BOUNDS = ''kasan_out_of_bounds''"
| "bug_class_value KASAN_DOUBLE_FREE = ''kasan_double_free''"
| "bug_class_value KERNEL_NULL_DEREFERENCE = ''kernel_null_dereference''"
| "bug_class_value KERNEL_GENERAL_PROTECTION_FAULT = ''kernel_general_protection_fault''"
| "bug_class_value KERNEL_OOPS_OTHER = ''kernel_oops_other''"
| "bug_class_value HARNESS_EXIT = ''harness_exit''"
| "bug_class_value BUG_TIMEOUT = ''timeout''"
| "bug_class_value BUG_UNKNOWN = ''unknown''"

datatype triage_severity = TRIAGE_ATTENTION | TRIAGE_URGENT

fun triage_severity_value :: "triage_severity \<Rightarrow> string" where
  "triage_severity_value TRIAGE_ATTENTION = ''attention''"
| "triage_severity_value TRIAGE_URGENT = ''urgent''"

record triage_event =
  tr_created_at :: string
  tr_severity :: triage_severity
  tr_campaign_id :: string
  tr_packet_digest :: string
  tr_target_hashes :: target_hashes
  tr_signature :: string
  tr_bug_class :: bug_class
  tr_reproductions :: int
  tr_kernel_context :: bool
  tr_high_value :: bool

definition triage_qualifies :: "triage_event \<Rightarrow> bool" where
  "triage_qualifies e \<longleftrightarrow>
     2 \<le> tr_reproductions e \<and> tr_kernel_context e \<and>
     tr_bug_class e \<in> set [KASAN_USE_AFTER_FREE, KASAN_OUT_OF_BOUNDS, KASAN_DOUBLE_FREE]"

definition valid_triage :: "triage_event \<Rightarrow> bool" where
  "valid_triage e \<longleftrightarrow>
     is_Timestamp (tr_created_at e) \<and> is_Identifier (tr_campaign_id e) \<and> is_digest (tr_packet_digest e) \<and>
     valid_target_hashes (tr_target_hashes e) \<and> is_digest (tr_signature e) \<and>
     1 \<le> tr_reproductions e \<and> tr_reproductions e \<le> 16 \<and> tr_high_value e = triage_qualifies e \<and>
     (tr_severity e = TRIAGE_URGENT) = tr_high_value e"

definition dump_triage :: "triage_event \<Rightarrow> json" where
  "dump_triage e =
     JObj [(''schema_version'', JStr ''redacted-event.v1''), (''created_at'', JStr (tr_created_at e)),
           (''event_kind'', JStr ''crash_triage''), (''severity'', JStr (triage_severity_value (tr_severity e))),
           (''campaign_id'', JStr (tr_campaign_id e)), (''telemetry_packet_digest'', JStr (tr_packet_digest e)),
           (''target_hashes'', dump_target_hashes (tr_target_hashes e)), (''stack_signature'', JStr (tr_signature e)),
           (''bug_class'', JStr (bug_class_value (tr_bug_class e))), (''reproductions'', JInt (tr_reproductions e)),
           (''kernel_context_confirmed'', JBool (tr_kernel_context e)),
           (''potential_high_value'', JBool (tr_high_value e))]"

datatype event =
    ProposalQuarantined quarantined_event
  | ExecutionReady ready_event
  | BudgetThreshold budget_event
  | CrashCounter counter_event
  | HangCounter counter_event
  | CrashTriage triage_event

fun valid_event :: "event \<Rightarrow> bool" where
  "valid_event (ProposalQuarantined e) = valid_quarantined e"
| "valid_event (ExecutionReady e) = valid_ready e"
| "valid_event (BudgetThreshold e) = valid_budget_event e"
| "valid_event (CrashCounter e) = valid_counter e"
| "valid_event (HangCounter e) = valid_counter e"
| "valid_event (CrashTriage e) = valid_triage e"

fun dump_event :: "event \<Rightarrow> json" where
  "dump_event (ProposalQuarantined e) = dump_quarantined e"
| "dump_event (ExecutionReady e) = dump_ready e"
| "dump_event (BudgetThreshold e) = dump_budget_event e"
| "dump_event (CrashCounter e) = dump_crash_counter e"
| "dump_event (HangCounter e) = dump_hang_counter e"
| "dump_event (CrashTriage e) = dump_triage e"

section \<open>Reading events\<close>

definition load_budget_severity :: "budget_severity loader" where
  "load_budget_severity = load_enum budget_severity_value [SEVERITY_WARNING, SEVERITY_CRITICAL]"

definition load_triage_severity :: "triage_severity loader" where
  "load_triage_severity = load_enum triage_severity_value [TRIAGE_ATTENTION, TRIAGE_URGENT]"

definition load_bug_class :: "bug_class loader" where
  "load_bug_class = load_enum bug_class_value
     [KASAN_USE_AFTER_FREE, KASAN_OUT_OF_BOUNDS, KASAN_DOUBLE_FREE, KERNEL_NULL_DEREFERENCE,
      KERNEL_GENERAL_PROTECTION_FAULT, KERNEL_OOPS_OTHER, HARNESS_EXIT, BUG_TIMEOUT, BUG_UNKNOWN]"

lemma load_event_enums [simp]:
  "load_budget_severity (JStr (budget_severity_value s)) = Some s"
  "load_triage_severity (JStr (triage_severity_value t)) = Some t"
  "load_bug_class (JStr (bug_class_value b)) = Some b"
  by ((cases s; simp add: load_budget_severity_def load_enum_def),
    (cases t; simp add: load_triage_severity_def load_enum_def),
    (cases b; simp add: load_bug_class_def load_enum_def))

definition load_approval :: "challenge loader" where
  "load_approval v =
     do {
       m \<leftarrow> members [''nonce'', ''human_code'', ''expires_at'', ''binding_digest'',
           ''allowed_actions''] v;
       a0 \<leftarrow> field m ''nonce'' load_str;
       a1 \<leftarrow> field m ''human_code'' load_str;
       a2 \<leftarrow> field m ''expires_at'' load_str;
       a3 \<leftarrow> field m ''binding_digest'' load_str;
       field_or () m ''allowed_actions'' (load_only (strs [''approve_for_offline_validation'', ''deny'']));
       Some \<lparr>ch_nonce = a0, ch_human_code = a1, ch_expires_at = a2, ch_binding_digest = a3\<rparr>
     }"

lemma load_dump_approval [simp]: "load_approval (norm_json (dump_approval x)) = Some x"
  unfolding load_approval_def dump_approval_def by (simp add: load_object)

definition load_execution_approval :: "challenge loader" where
  "load_execution_approval v =
     do {
       m \<leftarrow> members [''nonce'', ''human_code'', ''expires_at'', ''binding_digest'',
           ''allowed_actions''] v;
       a0 \<leftarrow> field m ''nonce'' load_str;
       a1 \<leftarrow> field m ''human_code'' load_str;
       a2 \<leftarrow> field m ''expires_at'' load_str;
       a3 \<leftarrow> field m ''binding_digest'' load_str;
       field_or () m ''allowed_actions'' (load_only (strs [''approve_for_live_execution'', ''deny'']));
       Some \<lparr>ch_nonce = a0, ch_human_code = a1, ch_expires_at = a2, ch_binding_digest = a3\<rparr>
     }"

lemma load_dump_execution_approval [simp]: "load_execution_approval (norm_json (dump_execution_approval
    x)) = Some x"
  unfolding load_execution_approval_def dump_execution_approval_def by (simp add: load_object)

definition load_quarantined :: "quarantined_event loader" where
  "load_quarantined v =
     do {
       m \<leftarrow> members [''schema_version'', ''created_at'', ''event_kind'', ''severity'',
           ''envelope_digest'', ''proposal_hash'', ''target_hashes'', ''approval''] v;
       field_or () m ''schema_version'' (load_only (JStr ''redacted-event.v1''));
       a1 \<leftarrow> field m ''created_at'' load_str;
       field_or () m ''event_kind'' (load_only (JStr ''proposal_quarantined''));
       field_or () m ''severity'' (load_only (JStr ''action_required''));
       a4 \<leftarrow> field m ''envelope_digest'' load_str;
       a5 \<leftarrow> field m ''proposal_hash'' load_str;
       a6 \<leftarrow> field m ''target_hashes'' load_target_hashes;
       a7 \<leftarrow> field m ''approval'' load_approval;
       Some \<lparr>qv_created_at = a1, qv_envelope_digest = a4, qv_proposal_hash = a5,
           qv_target_hashes = a6, qv_approval = a7\<rparr>
     }"

lemma load_dump_quarantined [simp]: "load_quarantined (norm_json (dump_quarantined x)) = Some x"
  unfolding load_quarantined_def dump_quarantined_def by (simp add: load_object)

definition load_ready :: "ready_event loader" where
  "load_ready v =
     do {
       m \<leftarrow> members [''schema_version'', ''event_kind'', ''created_at'', ''severity'',
           ''candidate_digest'', ''envelope_digest'', ''artifact_manifest_digest'', ''artifact_digest'',
           ''artifact_size_bytes'', ''validation_report_digest'', ''canary_report_digest'',
           ''target_hashes'', ''promotion_scope'', ''approval''] v;
       field_or () m ''schema_version'' (load_only (JStr ''redacted-event.v2''));
       field_or () m ''event_kind'' (load_only (JStr ''execution_ready''));
       a2 \<leftarrow> field m ''created_at'' load_str;
       field_or () m ''severity'' (load_only (JStr ''action_required''));
       a4 \<leftarrow> field m ''candidate_digest'' load_str;
       a5 \<leftarrow> field m ''envelope_digest'' load_str;
       a6 \<leftarrow> field m ''artifact_manifest_digest'' load_str;
       a7 \<leftarrow> field m ''artifact_digest'' load_str;
       a8 \<leftarrow> field m ''artifact_size_bytes'' load_int;
       a9 \<leftarrow> field m ''validation_report_digest'' load_str;
       a10 \<leftarrow> field m ''canary_report_digest'' load_str;
       a11 \<leftarrow> field m ''target_hashes'' load_target_hashes;
       a12 \<leftarrow> field m ''promotion_scope'' load_scope;
       a13 \<leftarrow> field m ''approval'' load_execution_approval;
       Some \<lparr>rd_created_at = a2, rd_candidate_digest = a4, rd_envelope_digest = a5,
           rd_manifest_digest = a6, rd_artifact_digest = a7, rd_artifact_size = a8, rd_validation_digest
           = a9, rd_canary_digest = a10, rd_target_hashes = a11, rd_scope = a12, rd_approval =
           a13\<rparr>
     }"

lemma load_dump_ready [simp]: "load_ready (norm_json (dump_ready x)) = Some x"
  unfolding load_ready_def dump_ready_def by (simp add: load_object)

definition load_budget_event :: "budget_event loader" where
  "load_budget_event v =
     do {
       m \<leftarrow> members [''schema_version'', ''created_at'', ''event_kind'', ''severity'',
           ''month'', ''threshold_microdollars'', ''effective_spend_microdollars'',
           ''hard_limit_microdollars'', ''remaining_microdollars''] v;
       field_or () m ''schema_version'' (load_only (JStr ''redacted-event.v1''));
       a1 \<leftarrow> field m ''created_at'' load_str;
       field_or () m ''event_kind'' (load_only (JStr ''budget_threshold''));
       a3 \<leftarrow> field m ''severity'' load_budget_severity;
       a4 \<leftarrow> field m ''month'' load_str;
       a5 \<leftarrow> field m ''threshold_microdollars'' load_int;
       a6 \<leftarrow> field m ''effective_spend_microdollars'' load_int;
       a7 \<leftarrow> field m ''hard_limit_microdollars'' load_int;
       a8 \<leftarrow> field m ''remaining_microdollars'' load_int;
       Some \<lparr>bt_created_at = a1, bt_severity = a3, bt_month = a4, bt_threshold = a5,
           bt_effective_spend = a6, bt_hard_limit = a7, bt_remaining = a8\<rparr>
     }"

lemma load_dump_budget_event [simp]: "load_budget_event (norm_json (dump_budget_event x)) = Some x"
  unfolding load_budget_event_def dump_budget_event_def by (simp add: load_object)

definition load_crash_counter :: "counter_event loader" where
  "load_crash_counter v =
     do {
       m \<leftarrow> members [''schema_version'', ''created_at'', ''severity'', ''campaign_id'',
           ''telemetry_packet_digest'', ''target_hashes'', ''previous_count'', ''current_count'',
           ''increase'', ''event_kind''] v;
       field_or () m ''schema_version'' (load_only (JStr ''redacted-event.v1''));
       a1 \<leftarrow> field m ''created_at'' load_str;
       field_or () m ''severity'' (load_only (JStr ''attention''));
       a3 \<leftarrow> field m ''campaign_id'' load_str;
       a4 \<leftarrow> field m ''telemetry_packet_digest'' load_str;
       a5 \<leftarrow> field m ''target_hashes'' load_target_hashes;
       a6 \<leftarrow> field m ''previous_count'' load_int;
       a7 \<leftarrow> field m ''current_count'' load_int;
       a8 \<leftarrow> field m ''increase'' load_int;
       field_or () m ''event_kind'' (load_only (JStr ''crash_counter_increase''));
       Some \<lparr>cn_created_at = a1, cn_campaign_id = a3, cn_packet_digest = a4,
           cn_target_hashes = a5, cn_previous = a6, cn_current = a7, cn_increase = a8\<rparr>
     }"

lemma load_dump_crash_counter [simp]: "load_crash_counter (norm_json (dump_crash_counter x)) = Some x"
  unfolding load_crash_counter_def dump_crash_counter_def by (simp add: load_object)

definition load_hang_counter :: "counter_event loader" where
  "load_hang_counter v =
     do {
       m \<leftarrow> members [''schema_version'', ''created_at'', ''severity'', ''campaign_id'',
           ''telemetry_packet_digest'', ''target_hashes'', ''previous_count'', ''current_count'',
           ''increase'', ''event_kind''] v;
       field_or () m ''schema_version'' (load_only (JStr ''redacted-event.v1''));
       a1 \<leftarrow> field m ''created_at'' load_str;
       field_or () m ''severity'' (load_only (JStr ''attention''));
       a3 \<leftarrow> field m ''campaign_id'' load_str;
       a4 \<leftarrow> field m ''telemetry_packet_digest'' load_str;
       a5 \<leftarrow> field m ''target_hashes'' load_target_hashes;
       a6 \<leftarrow> field m ''previous_count'' load_int;
       a7 \<leftarrow> field m ''current_count'' load_int;
       a8 \<leftarrow> field m ''increase'' load_int;
       field_or () m ''event_kind'' (load_only (JStr ''hang_counter_increase''));
       Some \<lparr>cn_created_at = a1, cn_campaign_id = a3, cn_packet_digest = a4,
           cn_target_hashes = a5, cn_previous = a6, cn_current = a7, cn_increase = a8\<rparr>
     }"

lemma load_dump_hang_counter [simp]: "load_hang_counter (norm_json (dump_hang_counter x)) = Some x"
  unfolding load_hang_counter_def dump_hang_counter_def by (simp add: load_object)

definition load_triage :: "triage_event loader" where
  "load_triage v =
     do {
       m \<leftarrow> members [''schema_version'', ''created_at'', ''event_kind'', ''severity'',
           ''campaign_id'', ''telemetry_packet_digest'', ''target_hashes'', ''stack_signature'',
           ''bug_class'', ''reproductions'', ''kernel_context_confirmed'', ''potential_high_value''] v;
       field_or () m ''schema_version'' (load_only (JStr ''redacted-event.v1''));
       a1 \<leftarrow> field m ''created_at'' load_str;
       field_or () m ''event_kind'' (load_only (JStr ''crash_triage''));
       a3 \<leftarrow> field m ''severity'' load_triage_severity;
       a4 \<leftarrow> field m ''campaign_id'' load_str;
       a5 \<leftarrow> field m ''telemetry_packet_digest'' load_str;
       a6 \<leftarrow> field m ''target_hashes'' load_target_hashes;
       a7 \<leftarrow> field m ''stack_signature'' load_str;
       a8 \<leftarrow> field m ''bug_class'' load_bug_class;
       a9 \<leftarrow> field m ''reproductions'' load_int;
       a10 \<leftarrow> field m ''kernel_context_confirmed'' load_bool;
       a11 \<leftarrow> field m ''potential_high_value'' load_bool;
       Some \<lparr>tr_created_at = a1, tr_severity = a3, tr_campaign_id = a4, tr_packet_digest =
           a5, tr_target_hashes = a6, tr_signature = a7, tr_bug_class = a8, tr_reproductions = a9,
           tr_kernel_context = a10, tr_high_value = a11\<rparr>
     }"

lemma load_dump_triage [simp]: "load_triage (norm_json (dump_triage x)) = Some x"
  unfolding load_triage_def dump_triage_def by (simp add: load_object)


text \<open>The union is read by its \<open>event_kind\<close>, which must be present.\<close>

fun event_kind :: "json \<Rightarrow> string option" where
  "event_kind (JObj kvs) = (case map_of kvs ''event_kind'' of Some (JStr k) \<Rightarrow> Some k | _ \<Rightarrow> None)"
| "event_kind _ = None"

definition load_event :: "event loader" where
  "load_event v =
     (case event_kind v of
        None \<Rightarrow> None
      | Some k \<Rightarrow>
          (if k = ''proposal_quarantined'' then map_option ProposalQuarantined (load_quarantined v)
           else if k = ''execution_ready'' then map_option ExecutionReady (load_ready v)
           else if k = ''budget_threshold'' then map_option BudgetThreshold (load_budget_event v)
           else if k = ''crash_counter_increase'' then map_option CrashCounter (load_crash_counter v)
           else if k = ''hang_counter_increase'' then map_option HangCounter (load_hang_counter v)
           else if k = ''crash_triage'' then map_option CrashTriage (load_triage v)
           else None))"

definition parse_event :: "bytes \<Rightarrow> event option" where
  "parse_event payload = model_validate_json load_event valid_event payload"

lemma wf_dump_event [simp]: "wf_json (dump_event e)"
  by (cases e)
    (simp_all add: dump_quarantined_def dump_approval_def dump_ready_def dump_execution_approval_def dump_budget_event_def
      dump_crash_counter_def dump_hang_counter_def dump_triage_def list_all_iff)

lemma event_kind_dump:
  "event_kind (norm_json (dump_quarantined q)) = Some ''proposal_quarantined''"
  "event_kind (norm_json (dump_ready r)) = Some ''execution_ready''"
  "event_kind (norm_json (dump_budget_event b)) = Some ''budget_threshold''"
  "event_kind (norm_json (dump_crash_counter c)) = Some ''crash_counter_increase''"
  "event_kind (norm_json (dump_hang_counter c)) = Some ''hang_counter_increase''"
  "event_kind (norm_json (dump_triage t)) = Some ''crash_triage''"
  by (simp_all add: dump_quarantined_def dump_ready_def dump_budget_event_def dump_crash_counter_def dump_hang_counter_def
      dump_triage_def map_of_norm)

lemma load_dump_event [simp]: "load_event (norm_json (dump_event e)) = Some e"
  by (cases e) (simp_all add: load_event_def event_kind_dump)

lemma parse_dump_event: "valid_event e \<Longrightarrow> parse_event (canonical_json (dump_event e)) = Some e"
  by (simp add: parse_event_def model_round_trip)

end
