(* ===== verification/Events.thy ===== *)
theory Events
  imports EventModels Quarantine Budget "HOL-Library.Multiset"
begin

text \<open>
  The outbox and the four projections of \<open>src/iou_ai/events.py\<close>.  The outbox is its directory; a
  projection returns its events or the exception, with the outbox it leaves.  Exceptions are their
  classes: \<open>EventProjectionError\<close> carries no text here.  The nonce source, the outcome of each write
  and the clock that the budget and counter projections read for each event are functions of how many
  events the call has emitted before.
\<close>

datatype event_error = EventProjectionError | EventValidationError | EventOSError | EventOverflowError

definition read_content_addressed :: "directory \<Rightarrow> string \<Rightarrow> event_error + string \<times> bytes" where
  "read_content_addressed d name =
     (case match_item name of
        None \<Rightarrow> Inl EventProjectionError
      | Some digest \<Rightarrow>
          (case read_bounded 2097152 d name of
             Inl _ \<Rightarrow> Inl EventProjectionError
           | Inr payload \<Rightarrow>
               if sha256 payload \<noteq> digest then Inl EventProjectionError
               else
                 (case loads payload of
                    None \<Rightarrow> Inl EventProjectionError
                  | Some v \<Rightarrow>
                      if canonical_json v \<noteq> payload then Inl EventProjectionError
                      else Inr (digest, payload))))"

fun event_time :: "pydatetime \<Rightarrow> event_error + instant" where
  "event_time Naive = Inl EventProjectionError"
| "event_time (Aware t) = Inr t"

section \<open>Challenges\<close>

definition bytes_hex :: "bytes \<Rightarrow> string" where
  "bytes_hex b = concat (map (\<lambda>w. hex_digits 2 (uint w)) b)"

definition hex_number :: "string \<Rightarrow> nat" where
  "hex_number s = foldl (\<lambda>n c. 16 * n + the (hex_value c)) 0 s"

definition b32encode_5 :: "nat \<Rightarrow> string" where
  "b32encode_5 n = map (\<lambda>i. BASE32 ! (n div 32 ^ i mod 32)) [7, 6, 5, 4, 3, 2, 1, 0]"

text \<open>
  The first five bytes of the digest are its first ten hex digits; \<open>bytes.fromhex(nonce)\<close> is the
  raw nonce.
\<close>

definition human_code_of :: "string \<Rightarrow> bytes \<Rightarrow> string" where
  "human_code_of envelope_digest raw =
     b32encode_5 (hex_number (take 10 (sha256 (raw @ ascii_bytes envelope_digest))))"

definition new_challenge :: "string \<Rightarrow> target_hashes \<Rightarrow> bytes \<Rightarrow> string \<Rightarrow> event_error + challenge" where
  "new_challenge envelope_digest hashes raw expires_at =
     (if length raw \<noteq> 32 then Inl EventProjectionError
      else
        let nonce = bytes_hex raw; code = human_code_of envelope_digest raw;
            c = \<lparr>ch_nonce = nonce, ch_human_code = code, ch_expires_at = expires_at,
                 ch_binding_digest = approval_binding_digest envelope_digest hashes nonce code expires_at\<rparr>
        in if valid_challenge c then Inr c else Inl EventValidationError)"

definition new_execution_challenge ::
  "execution_candidate \<Rightarrow> string \<Rightarrow> bytes \<Rightarrow> string \<Rightarrow> event_error + challenge" where
  "new_execution_challenge k candidate_digest raw expires_at =
     (if length raw \<noteq> 32 then Inl EventProjectionError
      else
        let nonce = bytes_hex raw; code = human_code_of candidate_digest raw;
            c = \<lparr>ch_nonce = nonce, ch_human_code = code, ch_expires_at = expires_at,
                 ch_binding_digest =
                   execution_approval_binding_digest candidate_digest (ec_envelope_digest k) (ec_manifest_digest k)
                     (ec_artifact_digest k) (ec_artifact_size k) (ec_validation_digest k) (ec_canary_digest k)
                     (ec_target_hashes k) (ec_scope k) nonce code expires_at\<rparr>
        in if valid_challenge c then Inr c else Inl EventValidationError)"

definition challenge_has_expired :: "challenge \<Rightarrow> instant \<Rightarrow> event_error + bool" where
  "challenge_has_expired c current =
     (case parse_timestamp (ch_expires_at c) of
        None \<Rightarrow> Inl EventProjectionError
      | Some expiry \<Rightarrow> Inr (expiry \<le> current))"

text \<open>No challenge yet, or exactly one that has expired.\<close>

definition challenge_due :: "challenge list \<Rightarrow> instant \<Rightarrow> event_error + bool" where
  "challenge_due prior current =
     (case prior of
        [] \<Rightarrow> Inr True
      | [c] \<Rightarrow> challenge_has_expired c current
      | _ \<Rightarrow> Inr False)"

section \<open>The outbox\<close>

definition event_payload :: "event \<Rightarrow> bytes" where
  "event_payload e = canonical_json (dump_event e)"

definition event_digest :: "event \<Rightarrow> string" where
  "event_digest e = sha256 (event_payload e)"

definition event_name :: "event \<Rightarrow> string" where
  "event_name e = event_digest e @ ''.json''"

definition outbox_put :: "write_outcome \<Rightarrow> event \<Rightarrow> directory \<Rightarrow> event_error + string \<times> directory" where
  "outbox_put w e d =
     (if parse_event (event_payload e) = None then Inl EventProjectionError
      else if exists_name d (event_name e) then
        bindR (read_content_addressed d (event_name e)) (\<lambda>(_, existing).
          if parse_event existing = None \<or> existing \<noteq> event_payload e then Inl EventProjectionError
          else Inr (event_digest e, d))
      else if w = WriteFails then Inl EventOSError
      else Inr (event_digest e, create_file d (event_name e) (event_payload e)))"

definition read_event :: "directory \<Rightarrow> string \<Rightarrow> event_error + event" where
  "read_event d name =
     bindR (read_content_addressed d name) (\<lambda>(_, payload).
       case parse_event payload of None \<Rightarrow> Inl EventProjectionError | Some e \<Rightarrow> Inr e)"

definition json_names :: "directory \<Rightarrow> string list" where
  "json_names d = sort (filter (\<lambda>name. last_chars 5 name = ''.json'') (map fst d))"

definition outbox_events :: "directory \<Rightarrow> event_error + event list" where
  "outbox_events d = traverse (read_event d) (json_names d)"

section \<open>Projections\<close>

text \<open>
  The loop every projection runs over its items: \<open>build\<close> decides from the events seen so far whether
  an item gets an event, the event is put in the outbox, and it counts as seen from then on.
\<close>

fun project_loop ::
  "(nat \<Rightarrow> event list \<Rightarrow> 'i \<Rightarrow> event_error + event option) \<Rightarrow> (nat \<Rightarrow> write_outcome) \<Rightarrow> nat \<Rightarrow> event list \<Rightarrow>
   'i list \<Rightarrow> directory \<Rightarrow> (event_error + event list) \<times> directory" where
  "project_loop build writes i seen [] d = (Inr [], d)"
| "project_loop build writes i seen (x # xs) d =
     (case build i seen x of
        Inl err \<Rightarrow> (Inl err, d)
      | Inr None \<Rightarrow> project_loop build writes i seen xs d
      | Inr (Some e) \<Rightarrow>
          (case outbox_put (writes i) e d of
             Inl err \<Rightarrow> (Inl err, d)
           | Inr (_, d') \<Rightarrow>
               (case project_loop build writes (Suc i) (seen @ [e]) xs d' of
                  (Inl err, d'') \<Rightarrow> (Inl err, d'')
                | (Inr es, d'') \<Rightarrow> (Inr (e # es), d''))))"

definition decision_times :: "pydatetime \<Rightarrow> int \<Rightarrow> event_error + instant \<times> string \<times> string" where
  "decision_times created_time ttl =
     (if \<not> (minutes 5 \<le> ttl \<and> ttl \<le> hours 48) then Inl EventProjectionError
      else
        bindR (event_time created_time) (\<lambda>current.
          if current + ttl \<ge> 3652059 * usec_per_day then Inl EventOverflowError
          else Inr (current, iso_seconds_z current, iso_seconds_z (current + ttl))))"

fun quarantined_challenge :: "string \<Rightarrow> event \<Rightarrow> challenge option" where
  "quarantined_challenge g (ProposalQuarantined e) = (if qv_envelope_digest e = g then Some (qv_approval e) else None)"
| "quarantined_challenge g _ = None"

definition emit_quarantined ::
  "instant \<Rightarrow> string \<Rightarrow> string \<Rightarrow> bytes \<Rightarrow> event list \<Rightarrow> string \<Rightarrow> quarantine_envelope \<Rightarrow> event_error + event option"
where
  "emit_quarantined current created expires raw seen envelope_digest envelope =
     (if qe_compiled_artifact_hashes envelope \<noteq> [] then Inr None
      else
        bindR (challenge_due (List.map_filter (quarantined_challenge envelope_digest) seen) current) (\<lambda>due.
          if \<not> due then Inr None
          else
            bindR (new_challenge envelope_digest (qe_target_hashes envelope) raw expires) (\<lambda>approval.
              let e = \<lparr>qv_created_at = created, qv_envelope_digest = envelope_digest,
                   qv_proposal_hash = qe_proposal_hash envelope, qv_target_hashes = qe_target_hashes envelope,
                   qv_approval = approval\<rparr>
              in if valid_quarantined e then Inr (Some (ProposalQuarantined e)) else Inl EventValidationError)))"

definition build_quarantined ::
  "directory \<Rightarrow> instant \<Rightarrow> string \<Rightarrow> string \<Rightarrow> (nat \<Rightarrow> bytes) \<Rightarrow> nat \<Rightarrow> event list \<Rightarrow> string \<Rightarrow> event_error + event option"
where
  "build_quarantined q current created expires nonces i seen name =
     bindR (read_content_addressed q name) (\<lambda>(raw_digest, payload).
       case model_validate_json load_envelope valid_envelope payload of
         None \<Rightarrow> Inl EventProjectionError
       | Some envelope \<Rightarrow>
           emit_quarantined current created expires (nonces i) seen (''sha256:'' @ raw_digest) envelope)"

definition project_quarantine ::
  "directory option \<Rightarrow> pydatetime \<Rightarrow> (nat \<Rightarrow> bytes) \<Rightarrow> int \<Rightarrow> (nat \<Rightarrow> write_outcome) \<Rightarrow> directory \<Rightarrow>
   (event_error + event list) \<times> directory" where
  "project_quarantine root created_time nonces ttl writes d =
     (case root of
        None \<Rightarrow> (Inr [], d)
      | Some q \<Rightarrow>
          (case decision_times created_time ttl of
             Inl err \<Rightarrow> (Inl err, d)
           | Inr (current, created, expires) \<Rightarrow>
               (case outbox_events d of
                  Inl err \<Rightarrow> (Inl err, d)
                | Inr seen \<Rightarrow>
                    project_loop (build_quarantined q current created expires nonces) writes 0 seen (json_names q) d)))"

fun ready_challenge :: "string \<Rightarrow> event \<Rightarrow> challenge option" where
  "ready_challenge g (ExecutionReady e) = (if rd_candidate_digest e = g then Some (rd_approval e) else None)"
| "ready_challenge g _ = None"

definition emit_ready ::
  "instant \<Rightarrow> string \<Rightarrow> string \<Rightarrow> bytes \<Rightarrow> event list \<Rightarrow> string \<Rightarrow> execution_candidate \<Rightarrow> event_error + event option"
where
  "emit_ready current created expires raw seen candidate_digest k =
     bindR (challenge_due (List.map_filter (ready_challenge candidate_digest) seen) current) (\<lambda>due.
       if \<not> due then Inr None
       else
         bindR (new_execution_challenge k candidate_digest raw expires) (\<lambda>approval.
           let e = \<lparr>rd_created_at = created, rd_candidate_digest = candidate_digest,
                rd_envelope_digest = ec_envelope_digest k, rd_manifest_digest = ec_manifest_digest k,
                rd_artifact_digest = ec_artifact_digest k, rd_artifact_size = ec_artifact_size k,
                rd_validation_digest = ec_validation_digest k, rd_canary_digest = ec_canary_digest k,
                rd_target_hashes = ec_target_hashes k, rd_scope = ec_scope k, rd_approval = approval\<rparr>
           in if valid_ready e then Inr (Some (ExecutionReady e)) else Inl EventValidationError))"

definition build_ready ::
  "directory \<Rightarrow> instant \<Rightarrow> string \<Rightarrow> string \<Rightarrow> (nat \<Rightarrow> bytes) \<Rightarrow> nat \<Rightarrow> event list \<Rightarrow> string \<Rightarrow> event_error + event option"
where
  "build_ready q current created expires nonces i seen name =
     bindR (read_content_addressed q name) (\<lambda>(raw_digest, payload).
       case model_validate_json load_candidate valid_candidate payload of
         None \<Rightarrow> Inl EventProjectionError
       | Some k \<Rightarrow> emit_ready current created expires (nonces i) seen (''sha256:'' @ raw_digest) k)"

definition project_execution_ready ::
  "directory option \<Rightarrow> pydatetime \<Rightarrow> (nat \<Rightarrow> bytes) \<Rightarrow> int \<Rightarrow> (nat \<Rightarrow> write_outcome) \<Rightarrow> directory \<Rightarrow>
   (event_error + event list) \<times> directory" where
  "project_execution_ready root created_time nonces ttl writes d =
     (case root of
        None \<Rightarrow> (Inr [], d)
      | Some q \<Rightarrow>
          (case decision_times created_time ttl of
             Inl err \<Rightarrow> (Inl err, d)
           | Inr (current, created, expires) \<Rightarrow>
               (case outbox_events d of
                  Inl err \<Rightarrow> (Inl err, d)
                | Inr seen \<Rightarrow>
                    project_loop (build_ready q current created expires nonces) writes 0 seen (json_names q) d)))"


definition budget_key :: "string \<Rightarrow> int \<Rightarrow> event \<Rightarrow> bool" where
  "budget_key month threshold e =
     (case e of BudgetThreshold b \<Rightarrow> bt_month b = month \<and> bt_threshold b = threshold | _ \<Rightarrow> False)"

definition build_budget :: "budget_status \<Rightarrow> (nat \<Rightarrow> pydatetime) \<Rightarrow> nat \<Rightarrow> event list \<Rightarrow> int \<Rightarrow> event_error + event option" where
  "build_budget st read_clock i seen threshold =
     (if list_ex (budget_key (st_month st) threshold) seen then Inr None
      else
        bindR (event_time (read_clock i)) (\<lambda>current.
          let e = \<lparr>bt_created_at = iso_seconds_z current,
                bt_severity = (if st_level st = LevelCritical \<or> st_level st = LevelExhausted then SEVERITY_CRITICAL
                  else SEVERITY_WARNING),
                bt_month = st_month st, bt_threshold = threshold, bt_effective_spend = st_effective st,
                bt_hard_limit = st_hard_limit st, bt_remaining = st_remaining st\<rparr>
          in if valid_budget_event e then Inr (Some (BudgetThreshold e)) else Inl EventValidationError))"

definition project_budget_status ::
  "budget_status \<Rightarrow> (nat \<Rightarrow> pydatetime) \<Rightarrow> (nat \<Rightarrow> write_outcome) \<Rightarrow> directory \<Rightarrow> (event_error + event list) \<times> directory" where
  "project_budget_status st read_clock writes d =
     (case outbox_events d of
        Inl err \<Rightarrow> (Inl err, d)
      | Inr seen \<Rightarrow> project_loop (build_budget st read_clock) writes 0 seen (sort (remdups (st_crossed st))) d)"

record counter_snapshot =
  cs_campaign_id :: string
  cs_packet_digest :: string
  cs_target_hashes :: target_hashes
  cs_crash_count :: int
  cs_hang_count :: int

definition crash_key :: "string \<Rightarrow> string \<Rightarrow> event \<Rightarrow> bool" where
  "crash_key campaign packet e =
     (case e of CrashCounter c \<Rightarrow> cn_campaign_id c = campaign \<and> cn_packet_digest c = packet | _ \<Rightarrow> False)"

definition hang_key :: "string \<Rightarrow> string \<Rightarrow> event \<Rightarrow> bool" where
  "hang_key campaign packet e =
     (case e of HangCounter c \<Rightarrow> cn_campaign_id c = campaign \<and> cn_packet_digest c = packet | _ \<Rightarrow> False)"

text \<open>The two specifications of the loop: True for crashes, False for hangs.\<close>

definition build_counter ::
  "counter_snapshot \<Rightarrow> (nat \<Rightarrow> pydatetime) \<Rightarrow> nat \<Rightarrow> event list \<Rightarrow> bool \<times> int \<times> int \<Rightarrow> event_error + event option" where
  "build_counter current read_clock i seen spec =
     (case spec of (crash, old, new) \<Rightarrow>
        let key = (if crash then crash_key else hang_key) (cs_campaign_id current) (cs_packet_digest current) in
        if new \<le> old then Inr None
        else if list_ex key seen then Inr None
        else
          bindR (event_time (read_clock i)) (\<lambda>now.
            let e = \<lparr>cn_created_at = iso_seconds_z now, cn_campaign_id = cs_campaign_id current,
                  cn_packet_digest = cs_packet_digest current, cn_target_hashes = cs_target_hashes current,
                  cn_previous = old, cn_current = new, cn_increase = new - old\<rparr>
            in if valid_counter e then Inr (Some ((if crash then CrashCounter else HangCounter) e))
               else Inl EventValidationError))"

definition snapshot_resets :: "counter_snapshot \<Rightarrow> counter_snapshot \<Rightarrow> bool" where
  "snapshot_resets previous current \<longleftrightarrow>
     cs_campaign_id previous \<noteq> cs_campaign_id current \<or> cs_target_hashes previous \<noteq> cs_target_hashes current \<or>
     cs_crash_count current < cs_crash_count previous \<or> cs_hang_count current < cs_hang_count previous"

definition project_counter_snapshot ::
  "counter_snapshot option \<Rightarrow> counter_snapshot \<Rightarrow> (nat \<Rightarrow> pydatetime) \<Rightarrow> (nat \<Rightarrow> write_outcome) \<Rightarrow> directory \<Rightarrow>
   (event_error + event list) \<times> directory" where
  "project_counter_snapshot previous current read_clock writes d =
     (case previous of
        None \<Rightarrow> (Inr [], d)
      | Some p \<Rightarrow>
          (if snapshot_resets p current then (Inr [], d)
           else
             (case outbox_events d of
                Inl err \<Rightarrow> (Inl err, d)
              | Inr seen \<Rightarrow>
                  project_loop (build_counter current read_clock) writes 0 seen
                    [(True, cs_crash_count p, cs_crash_count current), (False, cs_hang_count p, cs_hang_count current)] d)))"

section \<open>Fixed messages\<close>

definition format_usd :: "int \<Rightarrow> event_error + string" where
  "format_usd microdollars =
     (if microdollars < 0 then Inl EventProjectionError
      else
        let cents = (microdollars + 5000) div 10000
        in Inr (show_int (cents div 100) @ ''.'' @ pad_digits 2 (cents mod 100)))"

definition short_digest :: "string \<Rightarrow> string" where
  "short_digest d = take 12 (removeprefix ''sha256:'' d)"

definition counter_text :: "string \<Rightarrow> counter_event \<Rightarrow> string \<Rightarrow> string" where
  "counter_text kind e tail =
     ''IOU-AI '' @ kind @ '' COUNTER ALERT: campaign '' @ cn_campaign_id e @ '' increased by '' @ show_int (cn_increase e) @
     '' ('' @ show_int (cn_previous e) @ '' to '' @ show_int (cn_current e) @ '').'' @ tail"

fun render_fixed_message :: "event \<Rightarrow> event_error + string" where
  "render_fixed_message (ProposalQuarantined e) =
     Inr (''IOU-AI APPROVAL: GPT plan passed Claude and local checks. Ref '' @ short_digest (qv_envelope_digest e) @
       ''. Reply APPROVE '' @ ch_human_code (qv_approval e) @ '' or DENY '' @ ch_human_code (qv_approval e) @
       '' by '' @ ch_expires_at (qv_approval e) @ ''. Offline validation only; AFL/Nyx fleet unchanged.'')"
| "render_fixed_message (ExecutionReady e) =
     Inr (''IOU-AI LIVE EXECUTION APPROVAL: exact artifact '' @ short_digest (rd_artifact_digest e) @ '' ('' @
       show_int (rd_artifact_size e) @ '' bytes) passed GPT planning, Claude review, deterministic checks, '' @
       ''byte round-trip, and isolated Nyx canary. Scope='' @ ps_destination_id (rd_scope e) @
       ''; one artifact. Reply EXECUTE '' @ ch_human_code (rd_approval e) @ '' or DENY '' @
       ch_human_code (rd_approval e) @ '' by '' @ ch_expires_at (rd_approval e) @ ''.'')"
| "render_fixed_message (BudgetThreshold e) =
     bindR (format_usd (bt_threshold e)) (\<lambda>threshold.
     bindR (format_usd (bt_remaining e)) (\<lambda>remaining.
     bindR (format_usd (bt_hard_limit e)) (\<lambda>limit.
       Inr (''IOU-AI BUDGET: monthly spend crossed $'' @ threshold @ ''; $'' @ remaining @ '' remains of $'' @ limit @ ''.''))))"
| "render_fixed_message (CrashCounter e) =
     Inr (counter_text ''CRASH'' e '' Untriaged; impact and bounty status are not yet established.'')"
| "render_fixed_message (HangCounter e) = Inr (counter_text ''HANG'' e '' Untriaged.'')"
| "render_fixed_message (CrashTriage e) =
     Inr (if tr_high_value e then
         ''POTENTIAL HIGH-VALUE SECURITY IMPACT - PRESERVE/REPRODUCE NOW. Class='' @ bug_class_value (tr_bug_class e) @
         ''; reproductions='' @ show_int (tr_reproductions e) @ ''; signature='' @ short_digest (tr_signature e) @
         ''. Not a confirmed bounty.''
       else
         ''IOU-AI SECURITY TRIAGE: class='' @ bug_class_value (tr_bug_class e) @ ''; reproductions='' @
         show_int (tr_reproductions e) @ ''; signature='' @ short_digest (tr_signature e) @
         ''; high-value criteria not met.'')"


section \<open>What the outbox holds\<close>

text \<open>The events of the files, in the order of their creation.\<close>

definition stored :: "directory \<Rightarrow> event list" where
  "stored d = List.map_filter (\<lambda>(_, node). case node of RegularFile b \<Rightarrow> parse_event b | _ \<Rightarrow> None) d"

definition outbox_inv :: "directory \<Rightarrow> bool" where
  "outbox_inv d \<longleftrightarrow>
     distinct (map fst d) \<and>
     (\<forall>(name, node) \<in> set d. \<exists>e. valid_event e \<and> node = RegularFile (event_payload e) \<and> name = event_name e)"

abbreviation occurrences :: "(event \<Rightarrow> bool) \<Rightarrow> event list \<Rightarrow> nat" where
  "occurrences P es \<equiv> length (filter P es)"

lemma parse_event_payload: "parse_event (event_payload e) = (if valid_event e then Some e else None)"
  by (simp add: parse_event_def model_validate_json_def loads_canonical event_payload_def)

lemma exists_name_iff: "exists_name d name \<longleftrightarrow> name \<in> set (map fst d)"
  by (simp add: exists_name_def map_of_eq_None_iff)

lemma outbox_put_Inr:
  assumes "outbox_put w e d = Inr (k, d')"
  shows "valid_event e" "k = event_digest e"
    "d' = d \<or> event_name e \<notin> set (map fst d) \<and> d' = d @ [(event_name e, RegularFile (event_payload e))]"
proof -
  show "valid_event e" using assms unfolding outbox_put_def parse_event_payload by (cases "valid_event e") simp_all
  then have put: "(if exists_name d (event_name e) then
      bindR (read_content_addressed d (event_name e)) (\<lambda>(_, existing).
          if parse_event existing = None \<or> existing \<noteq> event_payload e then Inl EventProjectionError
          else Inr (event_digest e, d))
      else if w = WriteFails then Inl EventOSError
      else Inr (event_digest e, create_file d (event_name e) (event_payload e))) = Inr (k, d')"
    using assms unfolding outbox_put_def parse_event_payload by simp
  show "k = event_digest e"
    using put by (auto split: if_splits)
  show "d' = d \<or> event_name e \<notin> set (map fst d) \<and> d' = d @ [(event_name e, RegularFile (event_payload e))]"
    using put unfolding exists_name_iff create_file_def by (auto split: if_splits)
qed

lemma outbox_put_inv:
  assumes "outbox_put w e d = Inr (k, d')" "outbox_inv d"
  shows "outbox_inv d'" "stored d' = stored d \<or> stored d' = stored d @ [e]"
proof -
  note valid = outbox_put_Inr(1) [OF assms(1)]
  from outbox_put_Inr(3) [OF assms(1)] consider (old) "d' = d"
    | (new) "event_name e \<notin> set (map fst d)" "d' = d @ [(event_name e, RegularFile (event_payload e))]" by blast
  then have "outbox_inv d' \<and> (stored d' = stored d \<or> stored d' = stored d @ [e])"
  proof cases
    case new
    have "stored d' = stored d @ [e]" unfolding new(2) stored_def map_filter_def by (simp add: parse_event_payload valid)
    moreover have "outbox_inv d'" using assms(2) new(1) valid unfolding outbox_inv_def new(2) by auto
    ultimately show ?thesis by blast
  qed (use assms(2) in blast)
  then show "outbox_inv d'" "stored d' = stored d \<or> stored d' = stored d @ [e]" by blast+
qed

lemma stored_read:
  assumes "outbox_inv d" "(name, node) \<in> set d" "read_event d name = Inr e"
  shows "node = RegularFile (event_payload e) \<and> valid_event e"
proof -
  have "map_of d name = Some node" using assms(1,2) by (simp add: outbox_inv_def)
  moreover obtain x where "valid_event x" "node = RegularFile (event_payload x)"
    using assms(1,2) by (auto simp: outbox_inv_def)
  ultimately show ?thesis
    using assms(3)
    by (auto simp: read_event_def read_content_addressed_def parse_event_payload split: option.splits sum.splits if_splits)
qed

lemma json_names_inv: "outbox_inv d \<Longrightarrow> json_names d = sort (map fst d)"
proof -
  assume "outbox_inv d"
  then have "\<forall>name \<in> set (map fst d). last_chars 5 name = ''.json''"
    by (auto simp: outbox_inv_def last_chars_def event_name_def)
  then have "filter (\<lambda>name. last_chars 5 name = ''.json'') (map fst d) = map fst d" by (rule filter_True)
  then show ?thesis by (simp only: json_names_def)
qed

lemma map_filter_all_Some: "(\<And>x. x \<in> set xs \<Longrightarrow> f x = Some (h x)) \<Longrightarrow> List.map_filter f xs = map h xs"
  by (induction xs) (simp_all add: List.map_filter_simps)

text \<open>When the outbox can be listed, the list has exactly the stored events.\<close>

lemma outbox_events_stored:
  assumes "outbox_inv d" "outbox_events d = Inr es"
  shows "mset es = mset (stored d)" "list_all valid_event es"
proof -
  have all2: "list_all2 (\<lambda>name e. read_event d name = Inr e) (sort (map fst d)) es"
    using assms(2) by (simp add: outbox_events_def traverse_Inr_iff json_names_inv [OF assms(1)])
  define g where "g name = (case read_event d name of Inr e \<Rightarrow> e)" for name
  have es: "es = map g (sort (map fst d))"
    using all2 by (auto simp: list_all2_conv_all_nth g_def intro!: nth_equalityI)
  have ok: "\<exists>e. read_event d name = Inr e" if "name \<in> set (map fst d)" for name
  proof -
    from that have "name \<in> set (sort (map fst d))" by simp
    then obtain i where "i < length (sort (map fst d))" "sort (map fst d) ! i = name" unfolding in_set_conv_nth by blast
    with list_all2_nthD [OF all2 this(1)] show ?thesis by auto
  qed
  have "(case node of RegularFile b \<Rightarrow> parse_event b | _ \<Rightarrow> None) = Some (g name) \<and> valid_event (g name)"
    if "(name, node) \<in> set d" for name node
  proof -
    from that have "name \<in> set (map fst d)" by force
    with ok obtain e where e: "read_event d name = Inr e" by blast
    from stored_read [OF assms(1) that e] e show ?thesis by (simp add: g_def parse_event_payload)
  qed
  note node = this
  have "stored d = map (\<lambda>(name, node). g name) d"
    unfolding stored_def by (rule map_filter_all_Some) (use node in auto)
  then have "stored d = map g (map fst d)" by (simp add: case_prod_unfold comp_def)
  then show "mset es = mset (stored d)" by (simp add: es multiset.map_comp)
  have "valid_event (g name)" if "name \<in> set (map fst d)" for name using that node by fastforce
  then show "list_all valid_event es" by (auto simp: es list_all_iff)
qed


section \<open>How often an event is emitted\<close>

lemma occurrences_mset: "occurrences P es = size (filter_mset P (mset es))"
  by (metis mset_filter size_mset)

text \<open>
  One induction for every projection: when \<open>build\<close> gives an event with property \<open>P\<close> only while fewer
  than \<open>n\<close> of the events seen have it, no run leaves more than \<open>n\<close> of them in the outbox, wherever
  it stops.
\<close>

lemma project_loop_bound:
  assumes "\<And>i seen x e. build i seen x = Inr (Some e) \<Longrightarrow> P e \<Longrightarrow> occurrences P seen < n"
  shows "project_loop build writes i seen xs d = (r, d') \<Longrightarrow> outbox_inv d \<Longrightarrow> mset (stored d) \<subseteq># mset seen \<Longrightarrow>
    occurrences P (stored d) \<le> n \<Longrightarrow> outbox_inv d' \<and> occurrences P (stored d') \<le> n \<and> set (stored d) \<subseteq> set (stored d')"
proof (induction xs arbitrary: i seen d r)
  case (Cons x xs)
  show ?case
  proof (cases "build i seen x")
    case (Inl err)
    with Cons.prems show ?thesis by auto
  next
    case (Inr oe)
    show ?thesis
    proof (cases oe)
      case None
      with Inr Cons.prems Cons.IH show ?thesis by simp
    next
      case (Some e)
      show ?thesis
      proof (cases "outbox_put (writes i) e d")
        case (Inl err)
        with Inr Some Cons.prems show ?thesis by auto
      next
        case put: (Inr kd)
        obtain k d1 where kd: "kd = (k, d1)" by fastforce
        note put1 = outbox_put_inv [OF put [unfolded kd] Cons.prems(2)]
        have sub: "mset (stored d1) \<subseteq># mset (seen @ [e])"
          using put1(2) Cons.prems(3) by (auto intro: subset_mset.order_trans subset_mset.add_increasing2)
        have "occurrences P seen < n" if "P e" using assms [OF _ that] Inr Some by blast
        moreover have "occurrences P (stored d) \<le> occurrences P seen"
          unfolding occurrences_mset using Cons.prems(3) by (intro size_mset_mono multiset_filter_mono)
        ultimately have "occurrences P (stored d1) \<le> n" using put1(2) Cons.prems(4) by (cases "P e") auto
        moreover obtain r' where "project_loop build writes (Suc i) (seen @ [e]) xs d1 = (r', d')"
          using Cons.prems(1) Inr Some put kd by (auto split: prod.splits sum.splits)
        ultimately have "outbox_inv d' \<and> occurrences P (stored d') \<le> n \<and> set (stored d1) \<subseteq> set (stored d')"
          using Cons.IH put1(1) sub by blast
        then show ?thesis using put1(2) by auto
      qed
    qed
  qed
qed simp


text \<open>What may be emitted, by kind: a challenge at most once more than its first, the others once.\<close>

abbreviation asks_offline :: "string \<Rightarrow> event \<Rightarrow> bool" where
  "asks_offline g e \<equiv> quarantined_challenge g e \<noteq> None"

abbreviation asks_execution :: "string \<Rightarrow> event \<Rightarrow> bool" where
  "asks_execution g e \<equiv> ready_challenge g e \<noteq> None"

lemma length_map_filter: "length (List.map_filter f xs) = length (filter (\<lambda>x. f x \<noteq> None) xs)"
  by (induction xs) (auto simp: List.map_filter_simps split: option.splits)

lemma challenge_due_prior: "challenge_due prior current = Inr True \<Longrightarrow> length prior < 2"
  by (auto simp: challenge_due_def split: list.splits)

lemma due_bound:
  assumes "challenge_due (List.map_filter f seen) current = Inr True"
  shows "occurrences (\<lambda>e. f e \<noteq> None) seen < 2"
  using challenge_due_prior [OF assms] by (simp add: length_map_filter)

lemma emit_quarantined_Some:
  assumes "emit_quarantined current created expires raw seen g envelope = Inr (Some e)"
  obtains approval where
    "challenge_due (List.map_filter (quarantined_challenge g) seen) current = Inr True"
    "new_challenge g (qe_target_hashes envelope) raw expires = Inr approval"
    "qe_compiled_artifact_hashes envelope = []"
    "e = ProposalQuarantined \<lparr>qv_created_at = created, qv_envelope_digest = g,
       qv_proposal_hash = qe_proposal_hash envelope, qv_target_hashes = qe_target_hashes envelope, qv_approval = approval\<rparr>"
    "valid_event e"
  using assms by (auto simp: emit_quarantined_def Let_def split: if_splits)

lemma build_quarantined_item:
  assumes "build_quarantined q current created expires nonces i seen name = Inr (Some e)"
  obtains raw_digest payload envelope where
    "read_content_addressed q name = Inr (raw_digest, payload)"
    "model_validate_json load_envelope valid_envelope payload = Some envelope"
    "emit_quarantined current created expires (nonces i) seen (''sha256:'' @ raw_digest) envelope = Inr (Some e)"
  using assms unfolding build_quarantined_def bindR_eq_Inr by (auto split: option.splits)

lemma build_quarantined_Some:
  assumes "build_quarantined q current created expires nonces i seen name = Inr (Some e)"
  shows "\<exists>x. e = ProposalQuarantined x \<and> valid_quarantined x \<and> occurrences (asks_offline (qv_envelope_digest x)) seen < 2"
proof -
  from assms obtain g envelope where "emit_quarantined current created expires (nonces i) seen g envelope = Inr (Some e)"
    by (rule build_quarantined_item)
  then obtain x where "e = ProposalQuarantined x" "valid_event e" "qv_envelope_digest x = g"
      "challenge_due (List.map_filter (quarantined_challenge g) seen) current = Inr True"
    by (elim emit_quarantined_Some) auto
  with due_bound [of "quarantined_challenge g" seen current] show ?thesis by auto
qed

lemma emit_ready_Some:
  assumes "emit_ready current created expires raw seen g k = Inr (Some e)"
  obtains approval where
    "challenge_due (List.map_filter (ready_challenge g) seen) current = Inr True"
    "new_execution_challenge k g raw expires = Inr approval"
    "e = ExecutionReady \<lparr>rd_created_at = created, rd_candidate_digest = g,
       rd_envelope_digest = ec_envelope_digest k, rd_manifest_digest = ec_manifest_digest k,
       rd_artifact_digest = ec_artifact_digest k, rd_artifact_size = ec_artifact_size k,
       rd_validation_digest = ec_validation_digest k, rd_canary_digest = ec_canary_digest k,
       rd_target_hashes = ec_target_hashes k, rd_scope = ec_scope k, rd_approval = approval\<rparr>"
    "valid_event e"
  using assms by (auto simp: emit_ready_def Let_def split: if_splits)

lemma build_ready_item:
  assumes "build_ready q current created expires nonces i seen name = Inr (Some e)"
  obtains raw_digest payload k where
    "read_content_addressed q name = Inr (raw_digest, payload)"
    "model_validate_json load_candidate valid_candidate payload = Some k"
    "emit_ready current created expires (nonces i) seen (''sha256:'' @ raw_digest) k = Inr (Some e)"
  using assms unfolding build_ready_def bindR_eq_Inr by (auto split: option.splits)

lemma build_ready_Some:
  assumes "build_ready q current created expires nonces i seen name = Inr (Some e)"
  shows "\<exists>x. e = ExecutionReady x \<and> valid_ready x \<and> occurrences (asks_execution (rd_candidate_digest x)) seen < 2"
proof -
  from assms obtain g k where "emit_ready current created expires (nonces i) seen g k = Inr (Some e)"
    by (rule build_ready_item)
  then obtain x where "e = ExecutionReady x" "valid_event e" "rd_candidate_digest x = g"
      "challenge_due (List.map_filter (ready_challenge g) seen) current = Inr True"
    by (elim emit_ready_Some) auto
  with due_bound [of "ready_challenge g" seen current] show ?thesis by auto
qed

lemma not_list_ex: "\<not> list_ex P xs \<Longrightarrow> occurrences P xs < 1"
  by (auto simp: list_ex_iff filter_empty_conv)

lemma build_budget_Some:
  assumes "build_budget st read_clock i seen threshold = Inr (Some e)"
  shows "\<exists>x. e = BudgetThreshold x \<and> occurrences (budget_key (bt_month x) (bt_threshold x)) seen < 1"
  using assms not_list_ex by (auto simp: build_budget_def Let_def split: if_splits)

lemma build_counter_Some:
  assumes "build_counter current read_clock i seen spec = Inr (Some e)"
  shows "\<exists>x. e = CrashCounter x \<and> occurrences (crash_key (cn_campaign_id x) (cn_packet_digest x)) seen < 1 \<or>
    e = HangCounter x \<and> occurrences (hang_key (cn_campaign_id x) (cn_packet_digest x)) seen < 1"
  using assms not_list_ex by (auto simp: build_counter_def Let_def split: if_splits prod.splits)

inductive emission_limit :: "(event \<Rightarrow> bool) \<Rightarrow> nat \<Rightarrow> bool" where
  offline: "emission_limit (asks_offline g) 2"
| execution: "emission_limit (asks_execution g) 2"
| budget: "emission_limit (budget_key m t) 1"
| crash: "emission_limit (crash_key c p) 1"
| hang: "emission_limit (hang_key c p) 1"

definition emission_bounds :: "directory \<Rightarrow> bool" where
  "emission_bounds d \<longleftrightarrow> (\<forall>P n. emission_limit P n \<longrightarrow> occurrences P (stored d) \<le> n)"

text \<open>The rule every \<open>build\<close> follows.\<close>

definition respects_bounds :: "(nat \<Rightarrow> event list \<Rightarrow> 'i \<Rightarrow> event_error + event option) \<Rightarrow> bool" where
  "respects_bounds build \<longleftrightarrow>
     (\<forall>i seen x e P n. build i seen x = Inr (Some e) \<longrightarrow> emission_limit P n \<longrightarrow> P e \<longrightarrow> occurrences P seen < n)"

lemma build_quarantined_respects: "respects_bounds (build_quarantined q current created expires nonces)"
  unfolding respects_bounds_def
  by (auto dest!: build_quarantined_Some elim!: emission_limit.cases
      simp: budget_key_def crash_key_def hang_key_def split: if_splits)

lemma build_ready_respects: "respects_bounds (build_ready q current created expires nonces)"
  unfolding respects_bounds_def
  by (auto dest!: build_ready_Some elim!: emission_limit.cases
      simp: budget_key_def crash_key_def hang_key_def split: if_splits)

lemma build_budget_respects: "respects_bounds (build_budget st read_clock)"
  unfolding respects_bounds_def
  by (auto dest!: build_budget_Some elim!: emission_limit.cases
      simp: budget_key_def [of _ _ "BudgetThreshold _"] crash_key_def hang_key_def)

lemma build_counter_respects: "respects_bounds (build_counter snapshot read_clock)"
  unfolding respects_bounds_def
  by (auto dest!: build_counter_Some elim!: emission_limit.cases
      simp: budget_key_def crash_key_def [of _ _ "CrashCounter _"] crash_key_def [of _ _ "HangCounter _"]
        hang_key_def [of _ _ "CrashCounter _"] hang_key_def [of _ _ "HangCounter _"])

lemma project_loop_inv:
  assumes "respects_bounds build" "project_loop build writes i seen xs d = (r, d')" "outbox_inv d" "emission_bounds d"
    and "outbox_events d = Inr seen"
  shows "outbox_inv d' \<and> emission_bounds d' \<and> set (stored d) \<subseteq> set (stored d')"
proof -
  have sub: "mset (stored d) \<subseteq># mset seen" using outbox_events_stored(1) [OF assms(3,5)] by simp
  have bound: "outbox_inv d' \<and> occurrences P (stored d') \<le> n \<and> set (stored d) \<subseteq> set (stored d')"
    if "\<And>i seen x e. build i seen x = Inr (Some e) \<Longrightarrow> P e \<Longrightarrow> occurrences P seen < n" "occurrences P (stored d) \<le> n" for P n
    by (rule project_loop_bound [OF that(1) assms(2,3) sub that(2)])
  have "occurrences P (stored d') \<le> n" if "emission_limit P n" for P n
    by (rule bound [THEN conjunct2, THEN conjunct1])
      (use assms(1,4) that in \<open>unfold respects_bounds_def emission_bounds_def, blast+\<close>)
  with bound [of "\<lambda>_. False" 0] show ?thesis unfolding emission_bounds_def by simp
qed

text \<open>Each of the four calls, with any arguments and any outcome of its writes.\<close>

inductive outbox_step :: "directory \<Rightarrow> directory \<Rightarrow> bool" where
  quarantine: "project_quarantine root created_time nonces ttl writes d = (r, d') \<Longrightarrow> outbox_step d d'"
| execution: "project_execution_ready root created_time nonces ttl writes d = (r, d') \<Longrightarrow> outbox_step d d'"
| budget: "project_budget_status st read_clock writes d = (r, d') \<Longrightarrow> outbox_step d d'"
| counters: "project_counter_snapshot previous snapshot read_clock writes d = (r, d') \<Longrightarrow> outbox_step d d'"

abbreviation reachable_outbox :: "directory \<Rightarrow> bool" where
  "reachable_outbox d \<equiv> outbox_step\<^sup>*\<^sup>* [] d"

lemma listed_loop_inv:
  assumes "(case outbox_events d of Inl err \<Rightarrow> (Inl err, d) | Inr seen \<Rightarrow> project_loop build writes 0 seen xs d) = (r, d')"
    and "respects_bounds build" "outbox_inv d" "emission_bounds d"
  shows "outbox_inv d' \<and> emission_bounds d' \<and> set (stored d) \<subseteq> set (stored d')"
proof (cases "outbox_events d")
  case (Inl err)
  with assms show ?thesis by simp
next
  case (Inr seen)
  with assms(1) have "project_loop build writes 0 seen xs d = (r, d')" by simp
  from project_loop_inv [OF assms(2) this assms(3,4) Inr] show ?thesis .
qed

lemma outbox_step_inv:
  assumes "outbox_step d d'" "outbox_inv d" "emission_bounds d"
  shows "outbox_inv d' \<and> emission_bounds d' \<and> set (stored d) \<subseteq> set (stored d')"
  using assms(1)
proof cases
  case (quarantine root created_time nonces ttl writes r)
  show ?thesis
  proof (cases "\<exists>q current created expires. root = Some q \<and> decision_times created_time ttl = Inr (current, created, expires)")
    case True
    then obtain q current created expires
      where args: "root = Some q" "decision_times created_time ttl = Inr (current, created, expires)" by blast
    have "(case outbox_events d of Inl err \<Rightarrow> (Inl err, d)
      | Inr seen \<Rightarrow> project_loop (build_quarantined q current created expires nonces) writes 0 seen (json_names q) d) = (r, d')"
      using quarantine args by (simp add: project_quarantine_def)
    from listed_loop_inv [OF this build_quarantined_respects assms(2,3)] show ?thesis .
  next
    case False
    with quarantine assms(2,3) show ?thesis by (auto simp: project_quarantine_def split: option.splits sum.splits)
  qed
next
  case (execution root created_time nonces ttl writes r)
  show ?thesis
  proof (cases "\<exists>q current created expires. root = Some q \<and> decision_times created_time ttl = Inr (current, created, expires)")
    case True
    then obtain q current created expires
      where args: "root = Some q" "decision_times created_time ttl = Inr (current, created, expires)" by blast
    have "(case outbox_events d of Inl err \<Rightarrow> (Inl err, d)
      | Inr seen \<Rightarrow> project_loop (build_ready q current created expires nonces) writes 0 seen (json_names q) d) = (r, d')"
      using execution args by (simp add: project_execution_ready_def)
    from listed_loop_inv [OF this build_ready_respects assms(2,3)] show ?thesis .
  next
    case False
    with execution assms(2,3) show ?thesis
      by (auto simp: project_execution_ready_def split: option.splits sum.splits)
  qed
next
  case budget
  then show ?thesis
    using listed_loop_inv [OF _ build_budget_respects assms(2,3)] unfolding project_budget_status_def by blast
next
  case (counters previous snapshot read_clock writes r)
  show ?thesis
  proof (cases "\<exists>p. previous = Some p \<and> \<not> snapshot_resets p snapshot")
    case True
    then obtain p where p: "previous = Some p" "\<not> snapshot_resets p snapshot" by blast
    from counters [unfolded p(1) project_counter_snapshot_def, simplified p(2) option.case if_False]
    show ?thesis by (rule listed_loop_inv [OF _ build_counter_respects assms(2,3)])
  next
    case False
    with counters assms(2,3) show ?thesis by (auto simp: project_counter_snapshot_def split: option.splits)
  qed
qed

lemma reachable_outbox_inv: "reachable_outbox d \<Longrightarrow> outbox_inv d \<and> emission_bounds d"
proof (induction rule: rtranclp_induct)
  case base
  show ?case by (simp add: outbox_inv_def emission_bounds_def stored_def List.map_filter_simps)
next
  case (step d d')
  then show ?case using outbox_step_inv by blast
qed

lemma listed_bound:
  assumes "reachable_outbox d" "outbox_events d = Inr es" "emission_limit P n"
  shows "occurrences P es \<le> n"
  using reachable_outbox_inv [OF assms(1)] outbox_events_stored(1) [OF _ assms(2)] assms(3)
  by (simp add: occurrences_mset emission_bounds_def)

text \<open>
  C24: Notifications are bounded.  Whatever sequence of projections, with whatever inputs, clocks,
  nonces and write failures, led to an outbox: the events it lists are valid, ask at most twice about
  one envelope and at most twice about one candidate, and report each monthly threshold and each crash
  or hang increase of a packet at most once.
\<close>

theorem notifications_are_bounded:
  assumes "reachable_outbox d" "outbox_events d = Inr es"
  shows "list_all valid_event es \<and> occurrences (asks_offline g) es \<le> 2 \<and> occurrences (asks_execution g) es \<le> 2 \<and>
    occurrences (budget_key m t) es \<le> 1 \<and> occurrences (crash_key c p) es \<le> 1 \<and> occurrences (hang_key c p) es \<le> 1"
  using listed_bound [OF assms] emission_limit.intros outbox_events_stored(2) [OF _ assms(2)] reachable_outbox_inv [OF assms(1)]
  by simp

text \<open>A status with one threshold crossed, and the outbox its projection leaves.\<close>

definition sample_status :: budget_status where
  "sample_status =
     \<lparr>st_month = ''2026-07'', st_hard_limit = 100, st_charged = 60, st_active_reserved = 0,
      st_effective = 60, st_remaining = 40, st_level = LevelWarning, st_crossed = [50],
      st_call_counts = []\<rparr>"

definition sample_event :: event where
  "sample_event =
     BudgetThreshold
       \<lparr>bt_created_at = iso_seconds_z 63919101600000000, bt_severity = SEVERITY_WARNING, bt_month = ''2026-07'',
        bt_threshold = 50, bt_effective_spend = 60, bt_hard_limit = 100, bt_remaining = 40\<rparr>"

lemma sample_event_valid: "valid_event sample_event"
  unfolding sample_event_def by code_simp

lemma sample_event_size: "length (event_payload sample_event) \<le> 2097152"
proof -
  have "length (event_payload sample_event) \<le> json_size (dump_event sample_event)"
    unfolding event_payload_def by (rule canonical_size)
  also have "\<dots> \<le> 2000" unfolding sample_event_def by code_simp
  finally show ?thesis by simp
qed

text \<open>An event put in an empty outbox is listed.\<close>

lemma event_name_item: "event_name e = item_name (event_digest e)"
  by (simp add: event_name_def item_name_def)

lemma outbox_put_empty:
  "valid_event e \<Longrightarrow> outbox_put WriteOk e [] = Inr (event_digest e, [(event_name e, RegularFile (event_payload e))])"
  by (simp add: outbox_put_def parse_event_payload exists_name_def create_file_def)

lemma read_event_single:
  assumes "valid_event e" "length (event_payload e) \<le> 2097152"
  shows "outbox_events [(event_name e, RegularFile (event_payload e))] = Inr [e]"
proof -
  let ?d = "[(event_name e, RegularFile (event_payload e))]"
  have rb: "read_bounded 2097152 ?d (event_name e) = Inr (event_payload e)"
    using assms(2) by (simp add: read_bounded_def open_nofollow_def)
  have ld: "loads (event_payload e) = Some (norm_json (dump_event e))"
    by (simp add: event_payload_def loads_canonical)
  have mi: "match_item (event_name e) = Some (sha256 (event_payload e))"
    unfolding event_name_item by (simp add: match_item_Some event_digest_def is_hex64_sha256)
  have cn: "canonical_json (norm_json (dump_event e)) = event_payload e" by (simp add: event_payload_def)
  have "read_content_addressed ?d (event_name e) = Inr (sha256 (event_payload e), event_payload e)"
    by (simp only: read_content_addressed_def rb ld mi cn option.case sum.case HOL.simp_thms if_False)
  then have "read_event ?d (event_name e) = Inr e"
    using assms(1) by (simp add: read_event_def parse_event_payload)
  moreover have "last_chars 5 (event_name e) = ''.json''"
    unfolding event_name_def by (subst last_chars_append) (simp_all add: last_chars_def)
  ultimately show ?thesis by (simp add: outbox_events_def json_names_def)
qed

lemma notifications_are_bounded_witness:
  "\<exists>d. reachable_outbox d \<and> outbox_events d = Inr [sample_event] \<and>
    occurrences (budget_key ''2026-07'' 50) [sample_event] = 1"
proof -
  let ?d = "[(event_name sample_event, RegularFile (event_payload sample_event))]"
  have built: "build_budget sample_status (\<lambda>_. Aware 63919101600000000) 0 [] 50 = Inr (Some sample_event)"
    using sample_event_valid by (simp add: build_budget_def sample_status_def sample_event_def)
  have "st_crossed sample_status = [50]" by (simp add: sample_status_def)
  then have "project_budget_status sample_status (\<lambda>_. Aware 63919101600000000) (\<lambda>_. WriteOk) [] = (Inr [sample_event], ?d)"
    using built outbox_put_empty [OF sample_event_valid]
    by (simp add: project_budget_status_def outbox_events_def json_names_def)
  then have "reachable_outbox ?d" by (blast intro: outbox_step.budget)
  moreover have listed: "outbox_events ?d = Inr [sample_event]"
    by (rule read_event_single [OF sample_event_valid sample_event_size])
  ultimately have "occurrences (budget_key ''2026-07'' 50) [sample_event] \<le> 1"
    using notifications_are_bounded by blast
  moreover have "budget_key ''2026-07'' 50 sample_event" by (simp add: budget_key_def sample_event_def)
  ultimately show ?thesis using \<open>reachable_outbox ?d\<close> listed by auto
qed

end
