(* ===== verification/Decisions.thy ===== *)
theory Decisions
  imports Events
begin

text \<open>
  Signed decisions, \<open>src/iou_ai/decisions.py\<close>: the two decision documents, their HMAC, and the
  archive that imports one terminal decision per approval event.  The archive is its directory.  The
  clock, the outbox and the outcome of the write are arguments of an import.
\<close>

datatype decision_error =
    DecisionError string
  | DecisionProjectionError event_error
  | DecisionOSError
  | DecisionOverflowError

section \<open>The documents\<close>

text \<open>
  \<open>HumanDecision\<close> and \<open>ExecutionDecision\<close> share the fields of \<open>decision_fields\<close>; the second adds the
  exact artifact.  A field of a \<open>Literal\<close> type is its string.
\<close>

record decision_fields =
  df_signer_id :: string
  df_channel :: string
  df_event_digest :: string
  df_envelope_digest :: string
  df_target_hashes :: target_hashes
  df_binding_digest :: string
  df_nonce :: string
  df_human_code :: string
  df_sender_binding :: string
  df_action :: string
  df_reason_code :: string
  df_issued_at :: string
  df_expires_at :: string

record artifact_fields =
  af_candidate_digest :: string
  af_manifest_digest :: string
  af_artifact_digest :: string
  af_artifact_size :: int
  af_validation_digest :: string
  af_canary_digest :: string
  af_scope :: promotion_scope

datatype decision =
    HumanDecision decision_fields
  | ExecutionDecision decision_fields artifact_fields

fun decision_common :: "decision \<Rightarrow> decision_fields" where
  "decision_common (HumanDecision f) = f"
| "decision_common (ExecutionDecision f _) = f"

record signed_decision =
  sd_decision :: decision
  sd_signature :: string

definition valid_decision_fields :: "decision_fields \<Rightarrow> bool" where
  "valid_decision_fields f \<longleftrightarrow>
     df_channel f \<in> {''sms'', ''telegram'', ''operator''} \<and> is_digest (df_event_digest f) \<and>
     is_digest (df_envelope_digest f) \<and> valid_target_hashes (df_target_hashes f) \<and> is_digest (df_binding_digest f) \<and>
     is_Nonce256 (df_nonce f) \<and> is_HumanCode (df_human_code f) \<and> is_digest (df_sender_binding f) \<and>
     is_Timestamp (df_issued_at f) \<and> is_Timestamp (df_expires_at f)"

definition valid_artifact_fields :: "artifact_fields \<Rightarrow> bool" where
  "valid_artifact_fields a \<longleftrightarrow>
     is_digest (af_candidate_digest a) \<and> is_digest (af_manifest_digest a) \<and> is_digest (af_artifact_digest a) \<and>
     1 \<le> af_artifact_size a \<and> af_artifact_size a \<le> 2048 \<and> is_digest (af_validation_digest a) \<and>
     is_digest (af_canary_digest a) \<and> valid_scope (af_scope a)"

fun valid_decision :: "decision \<Rightarrow> bool" where
  "valid_decision (HumanDecision f) \<longleftrightarrow>
     valid_decision_fields f \<and>
     df_signer_id f \<in> {''relay:sms-v1'', ''relay:telegram-v1'', ''operator:local-v1''} \<and>
     df_action f \<in> {''approve_for_offline_validation'', ''deny''} \<and>
     df_reason_code f \<in> {''operator_approved'', ''operator_denied''}"
| "valid_decision (ExecutionDecision f a) \<longleftrightarrow>
     valid_decision_fields f \<and> valid_artifact_fields a \<and>
     df_signer_id f \<in> {''relay:sms-v1'', ''relay:telegram-v1'', ''operator:local-v1'', ''operator:auto-v1''} \<and>
     df_action f \<in> {''approve_for_live_execution'', ''deny''} \<and>
     df_reason_code f \<in> {''operator_approved_live_execution'', ''operator_denied''}"

definition valid_signed :: "signed_decision \<Rightarrow> bool" where
  "valid_signed s \<longleftrightarrow> valid_decision (sd_decision s) \<and> is_hex64 (sd_signature s)"

definition dump_human_decision :: "decision_fields \<Rightarrow> json" where
  "dump_human_decision f =
     JObj [(''schema_version'', JStr ''human-decision.v1''), (''signer_id'', JStr (df_signer_id f)),
           (''channel'', JStr (df_channel f)), (''event_digest'', JStr (df_event_digest f)),
           (''envelope_digest'', JStr (df_envelope_digest f)), (''target_hashes'', dump_target_hashes (df_target_hashes f)),
           (''approval_binding_digest'', JStr (df_binding_digest f)), (''decision_nonce'', JStr (df_nonce f)),
           (''human_code'', JStr (df_human_code f)), (''sender_binding'', JStr (df_sender_binding f)),
           (''action'', JStr (df_action f)), (''reason_code'', JStr (df_reason_code f)),
           (''issued_at'', JStr (df_issued_at f)), (''expires_at'', JStr (df_expires_at f))]"

definition dump_execution_decision :: "decision_fields \<Rightarrow> artifact_fields \<Rightarrow> json" where
  "dump_execution_decision f a =
     JObj [(''schema_version'', JStr ''human-decision.v2''), (''signer_id'', JStr (df_signer_id f)),
           (''channel'', JStr (df_channel f)), (''event_digest'', JStr (df_event_digest f)),
           (''candidate_digest'', JStr (af_candidate_digest a)), (''envelope_digest'', JStr (df_envelope_digest f)),
           (''artifact_manifest_digest'', JStr (af_manifest_digest a)), (''artifact_digest'', JStr (af_artifact_digest a)),
           (''artifact_size_bytes'', JInt (af_artifact_size a)),
           (''validation_report_digest'', JStr (af_validation_digest a)),
           (''canary_report_digest'', JStr (af_canary_digest a)),
           (''target_hashes'', dump_target_hashes (df_target_hashes f)), (''promotion_scope'', dump_scope (af_scope a)),
           (''approval_binding_digest'', JStr (df_binding_digest f)), (''decision_nonce'', JStr (df_nonce f)),
           (''human_code'', JStr (df_human_code f)), (''sender_binding'', JStr (df_sender_binding f)),
           (''action'', JStr (df_action f)), (''reason_code'', JStr (df_reason_code f)),
           (''issued_at'', JStr (df_issued_at f)), (''expires_at'', JStr (df_expires_at f))]"

fun dump_decision :: "decision \<Rightarrow> json" where
  "dump_decision (HumanDecision f) = dump_human_decision f"
| "dump_decision (ExecutionDecision f a) = dump_execution_decision f a"

definition dump_signed :: "signed_decision \<Rightarrow> json" where
  "dump_signed s =
     JObj [(''decision'', dump_decision (sd_decision s)), (''signature_hmac_sha256'', JStr (sd_signature s))]"

definition load_human_decision :: "decision_fields loader" where
  "load_human_decision v =
     do {
       m \<leftarrow> members [''schema_version'', ''signer_id'', ''channel'', ''event_digest'', ''envelope_digest'',
           ''target_hashes'', ''approval_binding_digest'', ''decision_nonce'', ''human_code'', ''sender_binding'',
           ''action'', ''reason_code'', ''issued_at'', ''expires_at''] v;
       field_or () m ''schema_version'' (load_only (JStr ''human-decision.v1''));
       signer \<leftarrow> field_or ''relay:sms-v1'' m ''signer_id'' load_str;
       channel \<leftarrow> field_or ''sms'' m ''channel'' load_str;
       event \<leftarrow> field m ''event_digest'' load_str;
       envelope \<leftarrow> field m ''envelope_digest'' load_str;
       hashes \<leftarrow> field m ''target_hashes'' load_target_hashes;
       binding \<leftarrow> field m ''approval_binding_digest'' load_str;
       nonce \<leftarrow> field m ''decision_nonce'' load_str;
       code \<leftarrow> field m ''human_code'' load_str;
       sender \<leftarrow> field m ''sender_binding'' load_str;
       action \<leftarrow> field m ''action'' load_str;
       reason \<leftarrow> field m ''reason_code'' load_str;
       issued \<leftarrow> field m ''issued_at'' load_str;
       expires \<leftarrow> field m ''expires_at'' load_str;
       Some \<lparr>df_signer_id = signer, df_channel = channel, df_event_digest = event, df_envelope_digest = envelope,
           df_target_hashes = hashes, df_binding_digest = binding, df_nonce = nonce, df_human_code = code,
           df_sender_binding = sender, df_action = action, df_reason_code = reason, df_issued_at = issued,
           df_expires_at = expires\<rparr>
     }"

definition load_execution_decision :: "(decision_fields \<times> artifact_fields) loader" where
  "load_execution_decision v =
     do {
       m \<leftarrow> members [''schema_version'', ''signer_id'', ''channel'', ''event_digest'', ''candidate_digest'',
           ''envelope_digest'', ''artifact_manifest_digest'', ''artifact_digest'', ''artifact_size_bytes'',
           ''validation_report_digest'', ''canary_report_digest'', ''target_hashes'', ''promotion_scope'',
           ''approval_binding_digest'', ''decision_nonce'', ''human_code'', ''sender_binding'', ''action'',
           ''reason_code'', ''issued_at'', ''expires_at''] v;
       field_or () m ''schema_version'' (load_only (JStr ''human-decision.v2''));
       signer \<leftarrow> field_or ''relay:sms-v1'' m ''signer_id'' load_str;
       channel \<leftarrow> field_or ''sms'' m ''channel'' load_str;
       event \<leftarrow> field m ''event_digest'' load_str;
       candidate \<leftarrow> field m ''candidate_digest'' load_str;
       envelope \<leftarrow> field m ''envelope_digest'' load_str;
       manifest \<leftarrow> field m ''artifact_manifest_digest'' load_str;
       artifact \<leftarrow> field m ''artifact_digest'' load_str;
       bytes \<leftarrow> field m ''artifact_size_bytes'' load_int;
       validation \<leftarrow> field m ''validation_report_digest'' load_str;
       canary \<leftarrow> field m ''canary_report_digest'' load_str;
       hashes \<leftarrow> field m ''target_hashes'' load_target_hashes;
       scope \<leftarrow> field m ''promotion_scope'' load_scope;
       binding \<leftarrow> field m ''approval_binding_digest'' load_str;
       nonce \<leftarrow> field m ''decision_nonce'' load_str;
       code \<leftarrow> field m ''human_code'' load_str;
       sender \<leftarrow> field m ''sender_binding'' load_str;
       action \<leftarrow> field m ''action'' load_str;
       reason \<leftarrow> field m ''reason_code'' load_str;
       issued \<leftarrow> field m ''issued_at'' load_str;
       expires \<leftarrow> field m ''expires_at'' load_str;
       Some (\<lparr>df_signer_id = signer, df_channel = channel, df_event_digest = event, df_envelope_digest = envelope,
           df_target_hashes = hashes, df_binding_digest = binding, df_nonce = nonce, df_human_code = code,
           df_sender_binding = sender, df_action = action, df_reason_code = reason, df_issued_at = issued,
           df_expires_at = expires\<rparr>,
         \<lparr>af_candidate_digest = candidate, af_manifest_digest = manifest, af_artifact_digest = artifact,
           af_artifact_size = bytes, af_validation_digest = validation, af_canary_digest = canary, af_scope = scope\<rparr>)
     }"

text \<open>The union is read by its \<open>schema_version\<close>, which must be present.\<close>

fun schema_version :: "json \<Rightarrow> string option" where
  "schema_version (JObj kvs) = (case map_of kvs ''schema_version'' of Some (JStr k) \<Rightarrow> Some k | _ \<Rightarrow> None)"
| "schema_version _ = None"

definition load_decision :: "decision loader" where
  "load_decision v =
     (case schema_version v of
        None \<Rightarrow> None
      | Some k \<Rightarrow>
          (if k = ''human-decision.v1'' then map_option HumanDecision (load_human_decision v)
           else if k = ''human-decision.v2'' then map_option (\<lambda>(f, a). ExecutionDecision f a) (load_execution_decision v)
           else None))"

definition load_signed :: "signed_decision loader" where
  "load_signed v =
     do {
       m \<leftarrow> members [''decision'', ''signature_hmac_sha256''] v;
       decision \<leftarrow> field m ''decision'' load_decision;
       signature \<leftarrow> field m ''signature_hmac_sha256'' load_str;
       Some \<lparr>sd_decision = decision, sd_signature = signature\<rparr>
     }"

lemma wf_dump_signed [simp]: "wf_json (dump_signed s)"
  by (cases "sd_decision s")
    (simp_all add: dump_signed_def dump_human_decision_def dump_execution_decision_def list_all_iff)

lemma schema_version_dump:
  "schema_version (norm_json (dump_human_decision f)) = Some ''human-decision.v1''"
  "schema_version (norm_json (dump_execution_decision f a)) = Some ''human-decision.v2''"
  by (simp_all add: dump_human_decision_def dump_execution_decision_def map_of_norm)

lemma load_dump_human_decision [simp]: "load_human_decision (norm_json (dump_human_decision f)) = Some f"
  unfolding load_human_decision_def dump_human_decision_def by (simp add: load_object)

lemma load_dump_execution_decision [simp]:
  "load_execution_decision (norm_json (dump_execution_decision f a)) = Some (f, a)"
  unfolding load_execution_decision_def dump_execution_decision_def by (simp add: load_object)

lemma load_dump_decision [simp]: "load_decision (norm_json (dump_decision x)) = Some x"
  by (cases x) (simp_all add: load_decision_def schema_version_dump)

lemma load_dump_signed [simp]: "load_signed (norm_json (dump_signed s)) = Some s"
  unfolding load_signed_def dump_signed_def by (simp add: load_object)

section \<open>Signatures\<close>

text \<open>\<open>hmac.new(key, message, hashlib.sha256).hexdigest()\<close> (RFC 2104, blocks of 64 bytes).\<close>

fun unhex :: "string \<Rightarrow> bytes" where
  "unhex (a # b # s) = word_of_nat (16 * the (hex_value a) + the (hex_value b)) # unhex s"
| "unhex _ = []"

definition hmac_key :: "bytes \<Rightarrow> bytes" where
  "hmac_key k = (let k' = (if length k > 64 then unhex (sha256 k) else k) in k' @ replicate (64 - length k') 0)"

definition hmac_sha256 :: "bytes \<Rightarrow> bytes \<Rightarrow> string" where
  "hmac_sha256 k message =
     (let k' = hmac_key k
      in sha256 (map (\<lambda>b. b XOR 0x5c) k' @ unhex (sha256 (map (\<lambda>b. b XOR 0x36) k' @ message))))"

definition check_key :: "bytes \<Rightarrow> decision_error + bytes" where
  "check_key secret =
     (if length secret < 32 then Inl (DecisionError ''decision verification key must contain at least 32 bytes'')
      else Inr secret)"

definition decision_signature :: "decision \<Rightarrow> bytes \<Rightarrow> decision_error + string" where
  "decision_signature x secret =
     bindR (check_key secret) (\<lambda>k. Inr (hmac_sha256 k (canonical_json (dump_decision x))))"

definition sign_decision :: "decision \<Rightarrow> bytes \<Rightarrow> decision_error + signed_decision" where
  "sign_decision x secret =
     bindR (decision_signature x secret) (\<lambda>signature. Inr \<lparr>sd_decision = x, sd_signature = signature\<rparr>)"

definition verify_signature :: "signed_decision \<Rightarrow> bytes \<Rightarrow> decision_error + unit" where
  "verify_signature s secret =
     bindR (decision_signature (sd_decision s) secret) (\<lambda>expected.
       if expected \<noteq> sd_signature s then Inl (DecisionError ''decision signature is invalid'') else Inr ())"

definition parse_time :: "string \<Rightarrow> decision_error + instant" where
  "parse_time s =
     (case parse_timestamp s of
        None \<Rightarrow> Inl (DecisionError ''decision timestamp is invalid'')
      | Some t \<Rightarrow> Inr t)"

section \<open>The archive\<close>

definition signed_payload :: "signed_decision \<Rightarrow> bytes" where
  "signed_payload s = canonical_json (dump_signed s)"

definition decision_file_digest :: "signed_decision \<Rightarrow> string" where
  "decision_file_digest s = sha256 (signed_payload s)"

definition approval_event_digest :: "event \<Rightarrow> string" where
  "approval_event_digest e = ''sha256:'' @ event_digest e"

fun is_approval_event :: "event \<Rightarrow> bool" where
  "is_approval_event (ProposalQuarantined _) = True"
| "is_approval_event (ExecutionReady _) = True"
| "is_approval_event _ = False"

definition find_event :: "directory \<Rightarrow> string \<Rightarrow> decision_error + event" where
  "find_event outbox digest =
     bindR (wrapR DecisionProjectionError (outbox_events outbox)) (\<lambda>events.
       case find (\<lambda>e. is_approval_event e \<and> approval_event_digest e = digest) events of
         None \<Rightarrow> Inl (DecisionError ''decision references an unknown approval event'')
       | Some e \<Rightarrow> Inr e)"

fun read_regular_message :: "read_failure \<Rightarrow> decision_error" where
  "read_regular_message Unavailable = DecisionError ''decision archive item is unavailable''"
| "read_regular_message _ = DecisionError ''decision archive item is not a bounded regular file''"

definition read_regular :: "directory \<Rightarrow> string \<Rightarrow> decision_error + bytes" where
  "read_regular d name = wrapR read_regular_message (read_bounded 65536 d name)"

definition read_record :: "bytes \<Rightarrow> directory \<Rightarrow> string \<Rightarrow> decision_error + signed_decision \<times> string" where
  "read_record secret d name =
     bindR (read_regular d name) (\<lambda>payload.
       if match_item name \<noteq> Some (sha256 payload) then
         Inl (DecisionError ''decision archive item digest mismatch'')
       else
         (case model_validate_json load_signed valid_signed payload of
            None \<Rightarrow> Inl (DecisionError ''decision archive item is invalid'')
          | Some s \<Rightarrow>
              if signed_payload s \<noteq> payload then Inl (DecisionError ''decision archive item is not canonical'')
              else bindR (verify_signature s secret) (\<lambda>_. Inr (s, name))))"

text \<open>Names that are not items are skipped.\<close>

definition read_archive :: "bytes \<Rightarrow> directory \<Rightarrow> decision_error + (signed_decision \<times> string) list" where
  "read_archive secret d =
     traverse (read_record secret d) (filter (\<lambda>name. match_item name \<noteq> None) (sort (map fst d)))"

definition verified_decisions :: "bytes \<Rightarrow> directory \<Rightarrow> decision_error + signed_decision list" where
  "verified_decisions secret d = bindR (read_archive secret d) (\<lambda>records. Inr (map fst records))"

section \<open>Importing\<close>

text \<open>The conditions of \<open>import_signed\<close> in their order, each with the message of its exception.\<close>

definition common_bindings :: "decision_fields \<Rightarrow> string \<Rightarrow> target_hashes \<Rightarrow> challenge \<Rightarrow> (bool \<times> string) list" where
  "common_bindings f envelope hashes approval =
     [(df_envelope_digest f = envelope, ''decision envelope digest does not match the event''),
      (df_target_hashes f = hashes, ''decision target hashes do not match the event''),
      (df_binding_digest f = ch_binding_digest approval, ''decision approval binding does not match the event''),
      (df_nonce f = ch_nonce approval, ''decision nonce does not match the event''),
      (df_human_code f = ch_human_code approval, ''decision code does not match the event''),
      (df_expires_at f = ch_expires_at approval, ''decision expiration does not match the event'')]"

definition artifact_bound :: "artifact_fields \<Rightarrow> ready_event \<Rightarrow> bool" where
  "artifact_bound a e \<longleftrightarrow>
     af_candidate_digest a = rd_candidate_digest e \<and> af_manifest_digest a = rd_manifest_digest e \<and>
     af_artifact_digest a = rd_artifact_digest e \<and> af_artifact_size a = rd_artifact_size e \<and>
     af_validation_digest a = rd_validation_digest e \<and> af_canary_digest a = rd_canary_digest e \<and>
     af_scope a = rd_scope e"

fun event_bindings :: "decision \<Rightarrow> event \<Rightarrow> (bool \<times> string) list" where
  "event_bindings (HumanDecision f) (ProposalQuarantined e) =
     common_bindings f (qv_envelope_digest e) (qv_target_hashes e) (qv_approval e) @
     [(df_reason_code f =
         (if df_action f = ''approve_for_offline_validation'' then ''operator_approved'' else ''operator_denied''),
       ''decision reason does not match its action'')]"
| "event_bindings (ExecutionDecision f a) (ExecutionReady e) =
     common_bindings f (rd_envelope_digest e) (rd_target_hashes e) (rd_approval e) @
     [(artifact_bound a e, ''execution decision differs from the exact canaried artifact''),
      (df_reason_code f =
         (if df_action f = ''approve_for_live_execution'' then ''operator_approved_live_execution'' else ''operator_denied''),
       ''decision reason does not match its action'')]"
| "event_bindings (ExecutionDecision _ _) (ProposalQuarantined _) =
     [(False, ''execution decision cannot authorize an offline event'')]"
| "event_bindings (HumanDecision _) _ = [(False, ''offline decision cannot authorize an execution event'')]"
| "event_bindings (ExecutionDecision _ _) _ = [(False, ''decision references an unknown approval event'')]"

definition check_all :: "(bool \<times> string) list \<Rightarrow> decision_error + unit" where
  "check_all checks =
     (case find (\<lambda>(ok, _). \<not> ok) checks of
        None \<Rightarrow> Inr ()
      | Some (_, message) \<Rightarrow> Inl (DecisionError message))"

fun event_created_at :: "event \<Rightarrow> string" where
  "event_created_at (ProposalQuarantined e) = qv_created_at e"
| "event_created_at (ExecutionReady e) = rd_created_at e"
| "event_created_at (BudgetThreshold e) = bt_created_at e"
| "event_created_at (CrashCounter e) = cn_created_at e"
| "event_created_at (HangCounter e) = cn_created_at e"
| "event_created_at (CrashTriage e) = tr_created_at e"

definition check_fresh :: "decision_fields \<Rightarrow> string \<Rightarrow> instant \<Rightarrow> decision_error + unit" where
  "check_fresh f created_text current =
     bindR (parse_time (df_issued_at f)) (\<lambda>issued.
     bindR (parse_time (df_expires_at f)) (\<lambda>expires.
     bindR (parse_time created_text) (\<lambda>created.
       if issued < created then Inl (DecisionError ''decision issue time is outside the accepted window'')
       else if current + minutes 5 \<ge> 3652059 * usec_per_day then Inl DecisionOverflowError
       else if issued > current + minutes 5 then
         Inl (DecisionError ''decision issue time is outside the accepted window'')
       else if current > expires \<or> issued > expires then Inl (DecisionError ''decision has expired'')
       else Inr ())))"

definition write_decision :: "write_outcome \<Rightarrow> directory \<Rightarrow> signed_decision \<Rightarrow> decision_error + string \<times> directory" where
  "write_decision w d s =
     (let digest = decision_file_digest s; name = item_name digest in
      if exists_name d name then
        bindR (read_regular d name) (\<lambda>existing.
          if existing = signed_payload s then Inr (digest, d)
          else Inl (DecisionError ''decision digest collision''))
      else if w = WriteFails then Inl DecisionOSError
      else Inr (digest, create_file d name (signed_payload s)))"

definition decides :: "string \<Rightarrow> signed_decision \<Rightarrow> bool" where
  "decides digest s \<longleftrightarrow> df_event_digest (decision_common (sd_decision s)) = digest"

definition import_signed ::
  "bytes \<Rightarrow> directory \<Rightarrow> write_outcome \<Rightarrow> instant \<Rightarrow> signed_decision \<Rightarrow> directory \<Rightarrow> decision_error + string \<times> directory"
where
  "import_signed secret outbox w current s d =
     bindR (verify_signature s secret) (\<lambda>_.
       let f = decision_common (sd_decision s) in
       bindR (read_archive secret d) (\<lambda>records.
         case find (decides (df_event_digest f) \<circ> fst) records of
           Some (existing, _) \<Rightarrow>
             if signed_payload existing = signed_payload s then Inr (decision_file_digest s, d)
             else Inl (DecisionError ''proposal event already has a terminal decision'')
         | None \<Rightarrow>
             bindR (find_event outbox (df_event_digest f)) (\<lambda>event.
             bindR (check_all (event_bindings (sd_decision s) event)) (\<lambda>_.
             bindR (check_fresh f (event_created_at event) current) (\<lambda>_.
               write_decision w d s)))))"

section \<open>What the archive holds\<close>

abbreviation decided_event :: "signed_decision \<Rightarrow> string" where
  "decided_event s \<equiv> df_event_digest (decision_common (sd_decision s))"

definition authentic :: "bytes \<Rightarrow> signed_decision \<Rightarrow> bool" where
  "authentic secret s \<longleftrightarrow> valid_signed s \<and> verify_signature s secret = Inr ()"

abbreviation decision_name :: "signed_decision \<Rightarrow> string" where
  "decision_name s \<equiv> item_name (decision_file_digest s)"

definition archive_of :: "signed_decision list \<Rightarrow> directory" where
  "archive_of ss = map (\<lambda>s. (decision_name s, RegularFile (signed_payload s))) ss"

definition archive_inv :: "bytes \<Rightarrow> signed_decision list \<Rightarrow> bool" where
  "archive_inv secret ss \<longleftrightarrow>
     list_all (authentic secret) ss \<and> distinct (map decision_name ss) \<and> distinct (map decided_event ss)"

lemma parse_signed_payload:
  "model_validate_json load_signed valid_signed (signed_payload s) = (if valid_signed s then Some s else None)"
  by (simp add: model_validate_json_def signed_payload_def loads_canonical)

lemma signed_payload_inject [simp]: "signed_payload s = signed_payload t \<longleftrightarrow> s = t"
proof
  assume "signed_payload s = signed_payload t"
  then have "norm_json (dump_signed s) = norm_json (dump_signed t)"
    unfolding signed_payload_def by (intro canonical_json_inject) simp_all
  then have "load_signed (norm_json (dump_signed s)) = load_signed (norm_json (dump_signed t))" by simp
  then show "s = t" by simp
qed simp

lemma decision_hashes_size: "valid_target_hashes h \<Longrightarrow> json_size (dump_target_hashes h) \<le> 2400"
  using length_of_digest by (simp add: valid_target_hashes_def dump_target_hashes_def)

lemma decision_field_sizes:
  assumes "valid_decision x" "f = decision_common x"
  shows "length (df_signer_id f) \<le> 18" "length (df_action f) \<le> 30" "length (df_reason_code f) \<le> 33"
    "length (df_channel f) \<le> 8" "length (df_event_digest f) = 71" "length (df_envelope_digest f) = 71"
    "length (df_binding_digest f) = 71" "length (df_sender_binding f) = 71" "length (df_nonce f) = 64"
    "length (df_human_code f) = 8" "length (df_issued_at f) \<le> 35" "length (df_expires_at f) \<le> 35"
    "json_size (dump_target_hashes (df_target_hashes f)) \<le> 2400"
proof -
  show "length (df_signer_id f) \<le> 18" "length (df_action f) \<le> 30" "length (df_reason_code f) \<le> 33"
    using assms by (cases x; auto)+
  have f: "valid_decision_fields f" using assms by (cases x) simp_all
  then show "length (df_channel f) \<le> 8" by (auto simp: valid_decision_fields_def)
  from f show "length (df_event_digest f) = 71" "length (df_envelope_digest f) = 71"
    "length (df_binding_digest f) = 71" "length (df_sender_binding f) = 71" "length (df_nonce f) = 64"
    "length (df_human_code f) = 8" "length (df_issued_at f) \<le> 35" "length (df_expires_at f) \<le> 35"
    "json_size (dump_target_hashes (df_target_hashes f)) \<le> 2400"
    by (simp_all add: valid_decision_fields_def length_of_digest is_Nonce256_def is_hex64_def is_HumanCode_def
        is_Timestamp_def decision_hashes_size)
qed

lemma signed_bytes_bounded: "valid_signed s \<Longrightarrow> length (signed_payload s) \<le> 65536"
proof -
  assume s: "valid_signed s"
  note common = decision_field_sizes [OF s [unfolded valid_signed_def, THEN conjunct1]]
  have "length (signed_payload s) \<le> json_size (dump_signed s)" unfolding signed_payload_def by (rule canonical_size)
  also have "\<dots> \<le> 65536"
  proof (cases "sd_decision s")
    case (HumanDecision f)
    with s common [of f] show ?thesis
      by (simp add: dump_signed_def dump_human_decision_def valid_signed_def is_hex64_def)
  next
    case (ExecutionDecision f a)
    have a: "valid_artifact_fields a" using s ExecutionDecision by (simp add: valid_signed_def)
    then have "length (af_candidate_digest a) = 71" "length (af_manifest_digest a) = 71" "length (af_artifact_digest a) = 71"
      "length (af_validation_digest a) = 71" "length (af_canary_digest a) = 71" "length (show_int (af_artifact_size a)) \<le> 4"
      by (auto simp: valid_artifact_fields_def length_of_digest intro!: show_int_size)
    moreover have "length (worker_value (ps_worker_set (af_scope a))) \<le> 13" by (cases "ps_worker_set (af_scope a)") simp_all
    moreover have "length (ps_destination_id (af_scope a)) \<le> 14" "length (ps_campaign_id (af_scope a)) \<le> 96"
      using a by (auto simp: valid_artifact_fields_def valid_scope_def is_Identifier_def)
    moreover have "length (show_int 1) \<le> 1" by (rule show_int_size) simp_all
    moreover have "length (sd_signature s) = 64" using s by (simp add: valid_signed_def is_hex64_def)
    ultimately show ?thesis
      using ExecutionDecision common [of f]
      by (simp add: dump_signed_def dump_execution_decision_def dump_scope_def)
  qed
  finally show ?thesis .
qed

lemma read_record_archived:
  assumes "authentic secret s" "map_of d (decision_name s) = Some (RegularFile (signed_payload s))"
  shows "read_record secret d (decision_name s) = Inr (s, decision_name s)"
proof -
  have rb: "read_bounded 65536 d (decision_name s) = Inr (signed_payload s)"
    using assms signed_bytes_bounded [of s] by (simp add: authentic_def)
  have mi: "match_item (decision_name s) = Some (sha256 (signed_payload s))"
    unfolding decision_file_digest_def match_item_Some by (simp add: is_hex64_sha256)
  show ?thesis
    using assms(1) by (simp add: read_record_def read_regular_def rb mi parse_signed_payload authentic_def)
qed

text \<open>The archive can be read in every state, and lists what was imported.\<close>

lemma read_archive_of:
  assumes "archive_inv secret ss"
  obtains records where "read_archive secret (archive_of ss) = Inr records" "set (map fst records) = set ss"
    "distinct (map decided_event (map fst records))" "\<forall>(s, name) \<in> set records. name = decision_name s"
proof -
  note inv = assms [unfolded archive_inv_def]
  define pick where "pick = the_inv_into (set ss) decision_name"
  have inj: "inj_on decision_name (set ss)" using inv by (simp add: distinct_map)
  have pick: "pick (decision_name s) = s" if "s \<in> set ss" for s unfolding pick_def by (rule the_inv_into_f_f [OF inj that])
  have names: "map fst (archive_of ss) = map decision_name ss" by (simp add: archive_of_def)
  have item: "match_item (decision_name s) \<noteq> None" for s
    using match_item_Some [of "decision_name s" "decision_file_digest s"]
    by (simp add: decision_file_digest_def is_hex64_sha256)
  have node: "map_of (archive_of ss) (decision_name s) = Some (RegularFile (signed_payload s))" if "s \<in> set ss" for s
  proof (rule map_of_is_SomeI)
    show "distinct (map fst (archive_of ss))" unfolding names using inv by blast
    show "(decision_name s, RegularFile (signed_payload s)) \<in> set (archive_of ss)" using that by (simp add: archive_of_def)
  qed
  let ?names = "sort (map decision_name ss)"
  let ?records = "map (\<lambda>name. (pick name, name)) ?names"
  have "filter (\<lambda>name. match_item name \<noteq> None) ?names = ?names"
    by (rule filter_True) (use item in auto)
  then have "read_archive secret (archive_of ss) = traverse (read_record secret (archive_of ss)) ?names"
    by (simp only: read_archive_def names)
  also have "\<dots> = Inr ?records"
  proof (rule traverse_total)
    fix name assume "name \<in> set ?names"
    then obtain s where s: "s \<in> set ss" "name = decision_name s" by auto
    from s inv have "authentic secret s" by (simp add: list_all_iff)
    from read_record_archived [OF this node [OF s(1)]] show "read_record secret (archive_of ss) name = Inr (pick name, name)"
      using s pick by simp
  qed
  finally have "read_archive secret (archive_of ss) = Inr ?records" .
  moreover have "mset (map fst ?records) = mset ss"
  proof -
    have "mset (map fst ?records) = mset (map pick (map decision_name ss))" by (simp add: multiset.map_comp comp_def)
    also have "map pick (map decision_name ss) = ss" using pick by (simp add: map_idI)
    finally show ?thesis .
  qed
  moreover from this have "set (map fst ?records) = set ss" by (rule mset_eq_setD)
  moreover have "distinct (map decided_event (map fst ?records))"
  proof -
    have "mset (map decided_event (map fst ?records)) = mset (map decided_event ss)"
      using \<open>mset (map fst ?records) = mset ss\<close> unfolding mset_map by (rule arg_cong)
    then show ?thesis using inv mset_eq_imp_distinct_iff by blast
  qed
  moreover have "\<forall>(s, name) \<in> set ?records. name = decision_name s" using pick by auto
  ultimately show thesis using that by blast
qed

section \<open>Imports\<close>

lemma check_all_Inr: "check_all cs = Inr x \<longleftrightarrow> list_all fst cs"
proof -
  have "find (\<lambda>(ok, _). \<not> ok) cs = None \<longleftrightarrow> list_all fst cs" by (auto simp: find_None_iff list_all_iff)
  then show ?thesis by (auto simp: check_all_def split: option.split)
qed

lemma find_SomeD: "find P xs = Some x \<Longrightarrow> x \<in> set xs \<and> P x"
  by (induction xs) (auto split: if_splits)

text \<open>A decision whose event has one already is settled by it; the outbox and the clock play no part.\<close>

lemma import_decided:
  assumes "archive_inv secret ss" "authentic secret s" "x \<in> set ss" "decided_event x = decided_event s"
  shows "import_signed secret outbox w current s (archive_of ss) =
    (if x = s then Inr (decision_file_digest s, archive_of ss)
     else Inl (DecisionError ''proposal event already has a terminal decision''))"
proof -
  obtain records where r: "read_archive secret (archive_of ss) = Inr records" "set (map fst records) = set ss"
    "distinct (map decided_event (map fst records))" "\<forall>(s, name) \<in> set records. name = decision_name s"
    by (rule read_archive_of [OF assms(1)])
  have "x \<in> fst ` set records" using r(2) assms(3) unfolding set_map by blast
  then obtain r where "r \<in> set records" "fst r = x" by blast
  moreover from this(2) have "(decides (decided_event s) \<circ> fst) r" using assms(4) by (simp add: decides_def)
  ultimately have "find (decides (decided_event s) \<circ> fst) records \<noteq> None" unfolding find_None_iff by blast
  then obtain y name where y: "find (decides (decided_event s) \<circ> fst) records = Some (y, name)" by auto
  from find_SomeD [OF y] have "(y, name) \<in> set records" "decided_event y = decided_event s" by (simp_all add: decides_def)
  moreover from this(1) have "y \<in> set (map fst records)" by force
  moreover have "x \<in> set (map fst records)" using r(2) assms(3) by simp
  ultimately have "y = x" using r(3) assms(4) unfolding distinct_map by (metis inj_onD)
  with y r(1) assms(2) show ?thesis by (simp add: import_signed_def authentic_def Let_def)
qed

lemma import_undecided:
  assumes "archive_inv secret ss" "import_signed secret outbox w current s (archive_of ss) = Inr (k, d')"
    "decided_event s \<notin> decided_event ` set ss"
  obtains event where "find_event outbox (decided_event s) = Inr event" "list_all fst (event_bindings (sd_decision s) event)"
    "check_fresh (decision_common (sd_decision s)) (event_created_at event) current = Inr ()"
    "write_decision w (archive_of ss) s = Inr (k, d')"
proof -
  obtain records where r: "read_archive secret (archive_of ss) = Inr records" "set (map fst records) = set ss"
    "distinct (map decided_event (map fst records))" "\<forall>(s, name) \<in> set records. name = decision_name s"
    by (rule read_archive_of [OF assms(1)])
  have other: "\<not> (decides (decided_event s) \<circ> fst) r" if "r \<in> set records" for r
  proof -
    have "fst r \<in> set ss" using that r(2) unfolding set_map by blast
    with assms(3) have "decided_event (fst r) \<noteq> decided_event s" by (metis imageI)
    then show ?thesis by (simp add: decides_def)
  qed
  then have "find (decides (decided_event s) \<circ> fst) records = None" unfolding find_None_iff by blast
  with assms(2) r(1) have "\<exists>event. find_event outbox (decided_event s) = Inr event \<and>
      check_all (event_bindings (sd_decision s) event) = Inr () \<and>
      check_fresh (decision_common (sd_decision s)) (event_created_at event) current = Inr () \<and>
      write_decision w (archive_of ss) s = Inr (k, d')"
    by (auto simp: import_signed_def Let_def)
  then show thesis using that unfolding check_all_Inr by blast
qed

text \<open>One import either leaves the archive alone or appends the decision, whose event had none.\<close>

lemma import_archives:
  assumes "archive_inv secret ss" "valid_signed s" "import_signed secret outbox w current s (archive_of ss) = Inr (k, d')"
  shows "k = decision_file_digest s \<and>
    (s \<in> set ss \<and> d' = archive_of ss \<or> d' = archive_of (ss @ [s]) \<and> archive_inv secret (ss @ [s]) \<and>
      decided_event s \<notin> decided_event ` set ss)"
proof -
  have auth: "authentic secret s" using assms(2,3) by (auto simp: authentic_def import_signed_def)
  show ?thesis
  proof (cases "decided_event s \<in> decided_event ` set ss")
    case True
    then obtain x where "x \<in> set ss" "decided_event x = decided_event s" by force
    with import_decided [OF assms(1) auth this] assms(3) show ?thesis by (auto split: if_splits)
  next
    case False
    obtain event where wr: "write_decision w (archive_of ss) s = Inr (k, d')"
      by (rule import_undecided [OF assms(1,3) False])
    have no_file: "\<not> exists_name (archive_of ss) (decision_name s)"
    proof
      assume "exists_name (archive_of ss) (decision_name s)"
      with wr obtain node where "map_of (archive_of ss) (decision_name s) = Some (RegularFile (signed_payload s))"
        by (auto simp: write_decision_def Let_def read_regular_def split: if_splits)
      then have "(decision_name s, RegularFile (signed_payload s)) \<in> set (archive_of ss)" by (rule map_of_SomeD)
      with False show False by (auto simp: archive_of_def)
    qed
    with wr have "k = decision_file_digest s" "d' = archive_of (ss @ [s])"
      by (auto simp: write_decision_def Let_def create_file_def archive_of_def split: if_splits)
    moreover have "decision_name s \<notin> set (map decision_name ss)"
      using no_file by (auto simp: exists_name_def map_of_eq_None_iff archive_of_def image_image)
    ultimately show ?thesis using assms(1) auth False by (auto simp: archive_inv_def)
  qed
qed

text \<open>The archive's life: imports that returned; one that raised leaves it as it was.\<close>

inductive import_step :: "bytes \<Rightarrow> directory \<Rightarrow> directory \<Rightarrow> bool" for secret where
  "valid_signed s \<Longrightarrow> import_signed secret outbox w current s d = Inr (k, d') \<Longrightarrow> import_step secret d d'"

inductive_cases import_stepE: "import_step secret d d'"

lemma archive_history:
  assumes "(import_step secret)\<^sup>*\<^sup>* [] d"
  obtains ss where "d = archive_of ss" "archive_inv secret ss"
proof -
  from assms have "\<exists>ss. d = archive_of ss \<and> archive_inv secret ss"
  proof (induction rule: rtranclp_induct)
    case base
    show ?case by (rule exI [of _ "[]"]) (simp add: archive_of_def archive_inv_def)
  next
    case (step d d')
    then obtain ss where "d = archive_of ss" "archive_inv secret ss" by blast
    moreover from step.hyps(2) obtain s outbox w current k where "valid_signed s" "import_signed secret outbox w current s d = Inr (k, d')"
      by (elim import_stepE)
    ultimately show ?case using import_archives [of secret ss s outbox w current k d'] by blast
  qed
  with that show thesis by blast
qed

lemma archive_extends:
  assumes "(import_step secret)\<^sup>*\<^sup>* (archive_of ss) d" "archive_inv secret ss"
  obtains ss' where "d = archive_of ss'" "archive_inv secret ss'" "set ss \<subseteq> set ss'"
proof -
  from assms(1) have "\<exists>ss'. d = archive_of ss' \<and> archive_inv secret ss' \<and> set ss \<subseteq> set ss'"
  proof (induction rule: rtranclp_induct)
    case base
    show ?case using assms(2) by blast
  next
    case (step d d')
    then obtain ss' where ss': "d = archive_of ss'" "archive_inv secret ss'" "set ss \<subseteq> set ss'" by blast
    from step.hyps(2) obtain s outbox w current k
      where "valid_signed s" "import_signed secret outbox w current s d = Inr (k, d')" by (elim import_stepE)
    with ss' import_archives [of secret ss' s outbox w current k d'] have "d' = archive_of ss' \<or>
        d' = archive_of (ss' @ [s]) \<and> archive_inv secret (ss' @ [s])" by blast
    with ss' show ?case by (metis UnCI set_append subsetI subset_iff)
  qed
  with that show thesis by blast
qed

lemma import_authentic:
  "valid_signed s \<Longrightarrow> import_signed secret outbox w current s d = Inr r \<Longrightarrow> authentic secret s"
  by (cases r) (auto simp: authentic_def import_signed_def)

lemma final_decision:
  assumes "(import_step secret)\<^sup>*\<^sup>* [] d" "valid_signed s" "import_signed secret outbox w current s d = Inr (k, d')"
    and "(import_step secret)\<^sup>*\<^sup>* d' d''" "authentic secret t" "decided_event t = decided_event s"
  shows "import_signed secret outbox' w' current' t d'' =
    (if t = s then Inr (k, d'') else Inl (DecisionError ''proposal event already has a terminal decision''))"
proof -
  obtain ss where ss: "d = archive_of ss" "archive_inv secret ss" by (rule archive_history [OF assms(1)])
  note r = import_archives [OF ss(2) assms(2) assms(3) [unfolded ss(1)]]
  then obtain ss' where ss': "d' = archive_of ss'" "archive_inv secret ss'" "s \<in> set ss'"
    using ss by (metis in_set_conv_decomp)
  obtain ss'' where "d'' = archive_of ss''" "archive_inv secret ss''" "set ss' \<subseteq> set ss''"
    by (rule archive_extends [OF assms(4) [unfolded ss'(1)] ss'(2)])
  with import_decided [of secret ss'' t s outbox' w' current'] assms(5,6) ss'(3) r show ?thesis by auto
qed

text \<open>What makes a decision one about an event: the same fields, and a reason that fits its action.\<close>

definition common_bound :: "decision_fields \<Rightarrow> string \<Rightarrow> target_hashes \<Rightarrow> challenge \<Rightarrow> bool" where
  "common_bound f envelope hashes approval \<longleftrightarrow>
     df_envelope_digest f = envelope \<and> df_target_hashes f = hashes \<and> df_binding_digest f = ch_binding_digest approval \<and>
     df_nonce f = ch_nonce approval \<and> df_human_code f = ch_human_code approval \<and>
     df_expires_at f = ch_expires_at approval"

fun decision_binds :: "decision \<Rightarrow> event \<Rightarrow> bool" where
  "decision_binds (HumanDecision f) (ProposalQuarantined e) \<longleftrightarrow>
     common_bound f (qv_envelope_digest e) (qv_target_hashes e) (qv_approval e) \<and>
     (df_action f = ''approve_for_offline_validation'') = (df_reason_code f = ''operator_approved'')"
| "decision_binds (ExecutionDecision f a) (ExecutionReady e) \<longleftrightarrow>
     common_bound f (rd_envelope_digest e) (rd_target_hashes e) (rd_approval e) \<and> artifact_bound a e \<and>
     (df_action f = ''approve_for_live_execution'') = (df_reason_code f = ''operator_approved_live_execution'')"
| "decision_binds _ _ \<longleftrightarrow> False"

lemma event_bindings_bind: "list_all fst (event_bindings x e) \<Longrightarrow> decision_binds x e"
  by (cases "(x, e)" rule: event_bindings.cases) (auto simp: common_bindings_def common_bound_def split: if_splits)

lemma check_fresh_Inr:
  "check_fresh f created_text current = Inr r \<longleftrightarrow>
     (\<exists>issued expires created. parse_timestamp (df_issued_at f) = Some issued \<and>
       parse_timestamp (df_expires_at f) = Some expires \<and> parse_timestamp created_text = Some created \<and>
       created \<le> issued \<and> issued \<le> current + minutes 5 \<and> current + minutes 5 < 3652059 * usec_per_day \<and>
       current \<le> expires \<and> issued \<le> expires)"
  by (auto simp: check_fresh_def parse_time_def not_less not_le split: option.splits if_splits)

lemma new_import:
  assumes "(import_step secret)\<^sup>*\<^sup>* [] d" "valid_signed s" "import_signed secret outbox w current s d = Inr (k, d')" "d' \<noteq> d"
  obtains event events where "outbox_events outbox = Inr events" "event \<in> set events"
    "approval_event_digest event = decided_event s" "decision_binds (sd_decision s) event"
    "check_fresh (decision_common (sd_decision s)) (event_created_at event) current = Inr ()"
proof -
  obtain ss where ss: "d = archive_of ss" "archive_inv secret ss" by (rule archive_history [OF assms(1)])
  from import_archives [OF ss(2) assms(2) assms(3) [unfolded ss(1)]] assms(4) ss(1)
  have "decided_event s \<notin> decided_event ` set ss" by blast
  then obtain event where event: "find_event outbox (decided_event s) = Inr event"
    "list_all fst (event_bindings (sd_decision s) event)"
    "check_fresh (decision_common (sd_decision s)) (event_created_at event) current = Inr ()"
    "write_decision w (archive_of ss) s = Inr (k, d')"
    by (rule import_undecided [OF ss(2) assms(3) [unfolded ss(1)]])
  from event(1) obtain events where "outbox_events outbox = Inr events"
    "find (\<lambda>e. is_approval_event e \<and> approval_event_digest e = decided_event s) events = Some event"
    by (auto simp: find_event_def split: option.splits)
  with find_SomeD [OF this(2)] event_bindings_bind [OF event(2)] event(3) that show thesis by blast
qed

section \<open>Properties\<close>

text \<open>
  C8: One terminal decision per event.  After any sequence of imports, with whatever outboxes, clocks
  and write failures, the archive can be read; every record in it is a valid decision with a correct
  signature under its content's name; and no two records decide the same event.
\<close>

theorem one_decision_per_event:
  assumes "(import_step secret)\<^sup>*\<^sup>* [] d"
  shows "\<exists>records. read_archive secret d = Inr records \<and> distinct (map decided_event (map fst records)) \<and>
    list_all (\<lambda>(s, name). authentic secret s \<and> name = decision_name s) records"
proof -
  obtain ss where ss: "d = archive_of ss" "archive_inv secret ss" by (rule archive_history [OF assms])
  obtain records where r: "read_archive secret (archive_of ss) = Inr records" "set (map fst records) = set ss"
    "distinct (map decided_event (map fst records))" "\<forall>(s, name) \<in> set records. name = decision_name s"
    by (rule read_archive_of [OF ss(2)])
  have "authentic secret (fst x)" if "x \<in> set records" for x
    using that r(2) ss(2) unfolding set_map archive_inv_def list_all_iff by blast
  with r(1,3,4) ss(1) show ?thesis by (auto simp: list_all_iff)
qed

text \<open>
  C27: A recorded decision is final.  In every later state of the archive, whatever the clock and the
  outbox have become, delivering the recorded decision again succeeds and changes nothing, and every
  other authentic decision about the same event is refused as conflicting.
\<close>

theorem recorded_decision_is_final:
  assumes "(import_step secret)\<^sup>*\<^sup>* [] d" "valid_signed s" "import_signed secret outbox w current s d = Inr (k, d')"
    and "(import_step secret)\<^sup>*\<^sup>* d' d''" "authentic secret t" "decided_event t = decided_event s"
  shows "import_signed secret outbox' w' current' t d'' =
    (if t = s then Inr (k, d'') else Inl (DecisionError ''proposal event already has a terminal decision''))"
  using assms by (rule final_decision)

text \<open>
  C9: An import that adds a record found its approval event in the outbox: same envelope, target,
  binding digest, nonce, code and expiry (and the exact candidate, artifact, reports and scope for a
  live execution), a reason that fits the action, and it was issued after the event, at most five
  minutes ahead of the clock, and not after the expiry.
\<close>

theorem imported_decision_is_bound:
  assumes "(import_step secret)\<^sup>*\<^sup>* [] d" "valid_signed s" "import_signed secret outbox w current s d = Inr (k, d')" "d' \<noteq> d"
  shows "\<exists>events event issued expires created. outbox_events outbox = Inr events \<and> event \<in> set events \<and>
    approval_event_digest event = decided_event s \<and> decision_binds (sd_decision s) event \<and>
    parse_timestamp (df_issued_at (decision_common (sd_decision s))) = Some issued \<and>
    parse_timestamp (df_expires_at (decision_common (sd_decision s))) = Some expires \<and>
    parse_timestamp (event_created_at event) = Some created \<and>
    created \<le> issued \<and> issued \<le> current + minutes 5 \<and> issued \<le> expires \<and> current \<le> expires"
  using new_import [OF assms] unfolding check_fresh_Inr by metis

section \<open>Witnesses\<close>

definition sample_challenge :: challenge where
  "sample_challenge =
     \<lparr>ch_nonce = sha256 [], ch_human_code = ''ABCDEFGH'', ch_expires_at = ''2026-07-01T00:30:00Z'',
      ch_binding_digest =
        approval_binding_digest (content_digest [1]) sample_hashes (sha256 []) ''ABCDEFGH'' ''2026-07-01T00:30:00Z''\<rparr>"

definition sample_request :: quarantined_event where
  "sample_request =
     \<lparr>qv_created_at = ''2026-07-01T00:00:00Z'', qv_envelope_digest = content_digest [1],
      qv_proposal_hash = content_digest [2], qv_target_hashes = sample_hashes, qv_approval = sample_challenge\<rparr>"

definition sample_outbox :: directory where
  "sample_outbox =
     [(event_name (ProposalQuarantined sample_request), RegularFile (event_payload (ProposalQuarantined sample_request)))]"

definition sample_secret :: bytes where "sample_secret = replicate 32 7"

definition sample_fields :: "string \<Rightarrow> string \<Rightarrow> decision_fields" where
  "sample_fields action reason =
     \<lparr>df_signer_id = ''operator:local-v1'', df_channel = ''operator'',
      df_event_digest = approval_event_digest (ProposalQuarantined sample_request),
      df_envelope_digest = content_digest [1], df_target_hashes = sample_hashes,
      df_binding_digest = ch_binding_digest sample_challenge, df_nonce = sha256 [], df_human_code = ''ABCDEFGH'',
      df_sender_binding = content_digest [9], df_action = action, df_reason_code = reason,
      df_issued_at = ''2026-07-01T00:10:00Z'', df_expires_at = ''2026-07-01T00:30:00Z''\<rparr>"

definition signed_sample :: "string \<Rightarrow> string \<Rightarrow> signed_decision" where
  "signed_sample action reason =
     (let x = HumanDecision (sample_fields action reason)
      in \<lparr>sd_decision = x, sd_signature = hmac_sha256 sample_secret (canonical_json (dump_decision x))\<rparr>)"

abbreviation sample_approval :: signed_decision where
  "sample_approval \<equiv> signed_sample ''approve_for_offline_validation'' ''operator_approved''"

abbreviation sample_denial :: signed_decision where
  "sample_denial \<equiv> signed_sample ''deny'' ''operator_denied''"

lemma sample_times:
  "parse_timestamp ''2026-07-01T00:00:00Z'' = Some 63918460800000000"
  "parse_timestamp ''2026-07-01T00:10:00Z'' = Some 63918461400000000"
  "parse_timestamp ''2026-07-01T00:30:00Z'' = Some 63918462600000000"
  "is_Timestamp ''2026-07-01T00:00:00Z''" "is_Timestamp ''2026-07-01T00:10:00Z''" "is_Timestamp ''2026-07-01T00:30:00Z''"
  "is_HumanCode ''ABCDEFGH''" "valid_target_hashes sample_hashes"
  by code_simp+

lemma approval_event_is_digest: "is_digest (approval_event_digest e)"
  using content_digest_is_digest [of "event_payload e"]
  by (simp only: approval_event_digest_def event_digest_def content_digest_def)

lemma sample_binding_is_digest: "is_digest (ch_binding_digest sample_challenge)"
  by (simp add: sample_challenge_def approval_binding_digest_def json_digest_is_digest)

lemma sample_request_valid: "valid_event (ProposalQuarantined sample_request)"
  using sample_times sample_binding_is_digest
  by (simp add: valid_quarantined_def sample_request_def valid_challenge_def challenge_binds_event_def is_Nonce256_def
      is_hex64_sha256) (simp add: sample_challenge_def is_hex64_sha256)

lemma sample_outbox_events: "outbox_events sample_outbox = Inr [ProposalQuarantined sample_request]"
  unfolding sample_outbox_def
proof (rule read_event_single [OF sample_request_valid])
  have "length (event_payload (ProposalQuarantined sample_request)) \<le> json_size (dump_quarantined sample_request)"
    unfolding event_payload_def dump_event.simps by (rule canonical_size)
  also have "\<dots> \<le> 10000"
  proof -
    have "length (ch_binding_digest sample_challenge) = 71" using sample_binding_is_digest by (rule length_of_digest)
    moreover have "length (sha256 []) = 64" using is_hex64_sha256 [of "[]"] by (simp add: is_hex64_def)
    moreover have "json_size (dump_target_hashes sample_hashes) \<le> 2400"
      using sample_times by (intro decision_hashes_size)
    ultimately show ?thesis
      by (simp add: dump_quarantined_def dump_approval_def sample_request_def) (simp add: sample_challenge_def)
  qed
  finally show "length (event_payload (ProposalQuarantined sample_request)) \<le> 2097152" by simp
qed

lemma sample_signed_authentic: "authentic sample_secret sample_approval" "authentic sample_secret sample_denial"
proof -
  have "valid_decision_fields (sample_fields action reason)" for action reason
    using sample_times sample_binding_is_digest
    by (simp add: valid_decision_fields_def sample_fields_def approval_event_is_digest is_Nonce256_def is_hex64_sha256)
  then have "valid_decision (HumanDecision (sample_fields action reason))"
    if "action \<in> {''approve_for_offline_validation'', ''deny''}" "reason \<in> {''operator_approved'', ''operator_denied''}"
    for action reason using that by (simp add: sample_fields_def)
  then show "authentic sample_secret sample_approval" "authentic sample_secret sample_denial"
    by (simp_all add: authentic_def valid_signed_def signed_sample_def Let_def hmac_sha256_def is_hex64_sha256
        verify_signature_def decision_signature_def check_key_def sample_secret_def)
qed

lemma sample_import:
  "import_signed sample_secret sample_outbox WriteOk 63918461500000000 sample_approval [] =
    Inr (decision_file_digest sample_approval, archive_of [sample_approval])"
proof -
  let ?e = "ProposalQuarantined sample_request"
  have verified: "verify_signature sample_approval sample_secret = Inr ()" "verify_signature sample_approval sample_secret = Inr x" for x
    using sample_signed_authentic(1) by (simp_all add: authentic_def)
  have decided: "decided_event sample_approval = approval_event_digest ?e"
    by (simp add: signed_sample_def Let_def sample_fields_def)
  have found: "find_event sample_outbox (decided_event sample_approval) = Inr ?e"
    unfolding decided find_event_def sample_outbox_events by simp
  have bound: "check_all (event_bindings (sd_decision sample_approval) ?e) = Inr ()"
    unfolding check_all_Inr
    by (simp add: signed_sample_def Let_def sample_fields_def common_bindings_def)
      (simp add: sample_request_def sample_challenge_def)
  have fresh: "check_fresh (decision_common (sd_decision sample_approval)) (event_created_at ?e) 63918461500000000 = Inr ()"
    using sample_times
    by (simp add: check_fresh_Inr signed_sample_def Let_def sample_fields_def sample_request_def usec_per_day_def minutes_def)
  have archive: "read_archive sample_secret [] = Inr []" by (simp add: read_archive_def)
  have "write_decision WriteOk [] sample_approval = Inr (decision_file_digest sample_approval, archive_of [sample_approval])"
    by (simp add: write_decision_def Let_def exists_name_def create_file_def archive_of_def)
  then show ?thesis
    by (simp add: import_signed_def Let_def verified archive found bound fresh [unfolded event_created_at.simps])
qed

lemma sample_reachable: "(import_step sample_secret)\<^sup>*\<^sup>* [] (archive_of [sample_approval])"
  using import_step.intros [OF _ sample_import] sample_signed_authentic(1) by (blast intro: r_into_rtranclp dest: authentic_def [THEN iffD1])

lemma one_decision_per_event_witness:
  "\<exists>records. read_archive sample_secret (archive_of [sample_approval]) = Inr records \<and>
    distinct (map decided_event (map fst records))"
  using one_decision_per_event [OF sample_reachable] by blast

lemma recorded_decision_is_final_witness:
  "import_signed sample_secret [] WriteFails 99999999999999999 sample_approval (archive_of [sample_approval]) =
    Inr (decision_file_digest sample_approval, archive_of [sample_approval]) \<and>
   import_signed sample_secret [] WriteFails 63918461500000000 sample_denial (archive_of [sample_approval]) =
    Inl (DecisionError ''proposal event already has a terminal decision'')"
proof -
  have v: "valid_signed sample_approval" using sample_signed_authentic(1) by (simp add: authentic_def)
  note final = recorded_decision_is_final [OF rtranclp.rtrancl_refl v sample_import rtranclp.rtrancl_refl]
  have "decided_event sample_denial = decided_event sample_approval" "sample_denial \<noteq> sample_approval"
    by (simp_all add: signed_sample_def Let_def sample_fields_def)
  with final [OF sample_signed_authentic(1)] final [OF sample_signed_authentic(2)] show ?thesis by simp
qed

lemma imported_decision_is_bound_witness:
  "decision_binds (sd_decision sample_approval) (ProposalQuarantined sample_request)"
proof -
  have v: "valid_signed sample_approval" using sample_signed_authentic(1) by (simp add: authentic_def)
  have "archive_of [sample_approval] \<noteq> []" by (simp add: archive_of_def)
  from imported_decision_is_bound [OF rtranclp.rtrancl_refl v sample_import this]
  show ?thesis by (auto simp: sample_outbox_events)
qed

end
