(* ===== verification/Promoter.thy ===== *)
theory Promoter
  imports Decisions CanaryService
begin

text \<open>
  Publication into the fleet's inboxes, \<open>src/iou_ai/promoter.py\<close>.  The state is the directory of
  receipts and the inbox of every destination; \<open>promote\<close> returns its receipt or its exception together
  with the state it leaves.  The other stores are read only here; the clock, the target probe, the
  looks at the lock file, the status of the directories and the outcomes of the writes are arguments.
\<close>

datatype promotion_error =
    PromotionError string
  | PromotionDecisionError decision_error
  | PromotionExecutionError execution_error
  | PromotionArtifactError artifact_error
  | PromotionValidationError
  | PromotionOSError

section \<open>Destinations\<close>

text \<open>A resolved absolute path is the list of its components.\<close>

record path =
  pa_absolute :: bool
  pa_resolved :: "string list"

record destination_spec =
  ds_destination_id :: string
  ds_campaign_id :: string
  ds_worker_set :: worker_set
  ds_inbox :: path
  ds_allowed_root :: path
  ds_allowed_runners :: "string set"

definition strictly_below :: "string list \<Rightarrow> string list \<Rightarrow> bool" where
  "strictly_below root p \<longleftrightarrow> take (length root) p = root \<and> p \<noteq> root"

definition worker_destination :: "worker_set \<Rightarrow> string" where
  "worker_destination w = (case w of NATIVE_STABLE \<Rightarrow> ''native_ai_sync'' | KASAN_TRIAGE \<Rightarrow> ''kasan_ai_sync'')"

definition destination_checks :: "destination_spec \<Rightarrow> (bool \<times> string) list" where
  "destination_checks s =
     [(ds_destination_id s = worker_destination (ds_worker_set s), ''destination identifier differs from worker set''),
      (ds_campaign_id s \<noteq> [] \<and> length (ds_campaign_id s) \<le> 96, ''destination campaign identifier is invalid''),
      (pa_absolute (ds_inbox s) \<and> pa_absolute (ds_allowed_root s), ''promotion destination paths must be absolute''),
      (strictly_below (pa_resolved (ds_allowed_root s)) (pa_resolved (ds_inbox s)),
        ''promotion inbox escapes its static allowlist root''),
      (ds_allowed_runners s \<noteq> {} \<and> (\<forall>r \<in> ds_allowed_runners s. is_digest r),
        ''destination runner allowlist is invalid'')]"

definition check_promotion :: "(bool \<times> string) list \<Rightarrow> promotion_error + unit" where
  "check_promotion checks =
     (case find (\<lambda>(ok, _). \<not> ok) checks of
        None \<Rightarrow> Inr ()
      | Some (_, message) \<Rightarrow> Inl (PromotionError message))"

definition make_destination :: "destination_spec \<Rightarrow> promotion_error + destination_spec" where
  "make_destination s = bindR (check_promotion (destination_checks s)) (\<lambda>_. Inr s)"

definition scope_of :: "destination_spec \<Rightarrow> promotion_scope" where
  "scope_of s =
     \<lparr>ps_campaign_id = ds_campaign_id s, ps_destination_id = ds_destination_id s, ps_worker_set = ds_worker_set s\<rparr>"

section \<open>Receipts\<close>

record promotion_receipt =
  rc_candidate_digest :: string
  rc_decision_digest :: string
  rc_event_digest :: string
  rc_envelope_digest :: string
  rc_manifest_digest :: string
  rc_artifact_digest :: string
  rc_validation_digest :: string
  rc_canary_digest :: string
  rc_target_hashes :: target_hashes
  rc_destination_id :: string
  rc_entry_id :: string
  rc_promoted_at :: string

definition valid_receipt :: "promotion_receipt \<Rightarrow> bool" where
  "valid_receipt r \<longleftrightarrow>
     valid_target_hashes (rc_target_hashes r) \<and> rc_destination_id r \<in> {''native_ai_sync'', ''kasan_ai_sync''} \<and>
     is_Timestamp (rc_promoted_at r)"

definition dump_receipt :: "promotion_receipt \<Rightarrow> json" where
  "dump_receipt r =
     JObj [(''schema_version'', JStr ''promotion-receipt.v1''), (''candidate_digest'', JStr (rc_candidate_digest r)),
           (''decision_digest'', JStr (rc_decision_digest r)), (''event_digest'', JStr (rc_event_digest r)),
           (''envelope_digest'', JStr (rc_envelope_digest r)), (''artifact_manifest_digest'', JStr (rc_manifest_digest r)),
           (''artifact_digest'', JStr (rc_artifact_digest r)),
           (''validation_report_digest'', JStr (rc_validation_digest r)),
           (''canary_report_digest'', JStr (rc_canary_digest r)),
           (''target_hashes'', dump_target_hashes (rc_target_hashes r)), (''destination_id'', JStr (rc_destination_id r)),
           (''destination_entry_id'', JStr (rc_entry_id r)), (''promoted_at'', JStr (rc_promoted_at r))]"

definition load_receipt :: "promotion_receipt loader" where
  "load_receipt v =
     do {
       m \<leftarrow> members [''schema_version'', ''candidate_digest'', ''decision_digest'',
           ''event_digest'', ''envelope_digest'', ''artifact_manifest_digest'', ''artifact_digest'',
           ''validation_report_digest'', ''canary_report_digest'', ''target_hashes'',
           ''destination_id'', ''destination_entry_id'', ''promoted_at''] v;
       field_or () m ''schema_version'' (load_only (JStr ''promotion-receipt.v1''));
       a1 \<leftarrow> field m ''candidate_digest'' load_str;
       a2 \<leftarrow> field m ''decision_digest'' load_str;
       a3 \<leftarrow> field m ''event_digest'' load_str;
       a4 \<leftarrow> field m ''envelope_digest'' load_str;
       a5 \<leftarrow> field m ''artifact_manifest_digest'' load_str;
       a6 \<leftarrow> field m ''artifact_digest'' load_str;
       a7 \<leftarrow> field m ''validation_report_digest'' load_str;
       a8 \<leftarrow> field m ''canary_report_digest'' load_str;
       a9 \<leftarrow> field m ''target_hashes'' load_target_hashes;
       a10 \<leftarrow> field m ''destination_id'' load_str;
       a11 \<leftarrow> field m ''destination_entry_id'' load_str;
       a12 \<leftarrow> field m ''promoted_at'' load_str;
       Some \<lparr>rc_candidate_digest = a1, rc_decision_digest = a2, rc_event_digest = a3,
           rc_envelope_digest = a4, rc_manifest_digest = a5, rc_artifact_digest = a6,
           rc_validation_digest = a7, rc_canary_digest = a8, rc_target_hashes = a9, rc_destination_id =
           a10, rc_entry_id = a11, rc_promoted_at = a12\<rparr>
     }"

lemma load_dump_receipt [simp]: "load_receipt (norm_json (dump_receipt x)) = Some x"
  unfolding load_receipt_def dump_receipt_def by (simp add: load_object)


lemma wf_dump_receipt [simp]: "wf_json (dump_receipt r)"
  by (simp add: dump_receipt_def list_all_iff)

section \<open>The lock and the directories\<close>

datatype dir_status = DirPlain | DirMissing | DirOther

definition require_plain_directory :: "dir_status \<Rightarrow> promotion_error + unit" where
  "require_plain_directory look =
     (case look of
        DirPlain \<Rightarrow> Inr ()
      | DirMissing \<Rightarrow> Inl (PromotionError ''promotion directory is unavailable'')
      | DirOther \<Rightarrow> Inl (PromotionError ''promotion directory is not a plain directory''))"

text \<open>What opening the lock file finds: it is created, or it exists and is stale or not.\<close>

datatype lock_look = LockFree | LockHeld bool

definition acquire_lock :: "lock_look \<Rightarrow> lock_look \<Rightarrow> promotion_error + unit" where
  "acquire_lock first second =
     (case first of
        LockFree \<Rightarrow> Inr ()
      | LockHeld stale \<Rightarrow>
          if stale \<and> second = LockFree then Inr ()
          else Inl (PromotionError ''another promoter holds the publication lock''))"

record promotion_state =
  pm_receipts :: directory
  pm_inboxes :: "string list \<Rightarrow> directory"

fun promotion_read_message :: "read_failure \<Rightarrow> promotion_error" where
  "promotion_read_message Unavailable = PromotionError ''promotion object is unavailable''"
| "promotion_read_message _ = PromotionError ''promotion object is not a bounded regular file''"

definition read_promotion :: "int \<Rightarrow> directory \<Rightarrow> string \<Rightarrow> promotion_error + bytes" where
  "read_promotion max_bytes d name = wrapR promotion_read_message (read_bounded max_bytes d name)"

definition receipt_payload :: "promotion_receipt \<Rightarrow> bytes" where
  "receipt_payload r = canonical_json (dump_receipt r)"

definition receipt_name :: "string \<Rightarrow> string" where
  "receipt_name candidate_digest = item_name (removeprefix ''sha256:'' candidate_digest)"

definition read_receipt :: "directory \<Rightarrow> string \<Rightarrow> promotion_error + promotion_receipt" where
  "read_receipt d name =
     bindR (read_promotion 65536 d name) (\<lambda>payload.
       case model_validate_json load_receipt valid_receipt payload of
         None \<Rightarrow> Inl (PromotionError ''promotion receipt is invalid'')
       | Some r \<Rightarrow>
           if receipt_payload r \<noteq> payload then Inl (PromotionError ''promotion receipt is not canonical'')
           else if name \<noteq> receipt_name (rc_candidate_digest r) then
             Inl (PromotionError ''promotion receipt filename is not candidate-bound'')
           else Inr r)"

definition receipts_of :: "directory \<Rightarrow> promotion_error + promotion_receipt list" where
  "receipts_of d = traverse (read_receipt d) (filter (\<lambda>name. match_item name \<noteq> None) (sort (map fst d)))"

text \<open>The first receipt that concerns the candidate, or its artifact at the destination, decides.\<close>

fun scan_receipts :: "string \<Rightarrow> string \<Rightarrow> string \<Rightarrow> promotion_receipt list \<Rightarrow> promotion_error + promotion_receipt option" where
  "scan_receipts candidate_digest dest artifact_digest [] = Inr None"
| "scan_receipts candidate_digest dest artifact_digest (r # rs) =
     (if rc_candidate_digest r = candidate_digest then Inr (Some r)
      else if rc_destination_id r = dest \<and> rc_artifact_digest r = artifact_digest then
        Inl (PromotionError ''artifact was already published under another candidate'')
      else scan_receipts candidate_digest dest artifact_digest rs)"

section \<open>Publishing\<close>

text \<open>
  The temporary file is removed on every path, so only the visible name is part of the state;
  \<open>WriteFails\<close> stands for any failure before it is linked.
\<close>

definition seed_name :: "string \<Rightarrow> string" where
  "seed_name digest = ''artifact-'' @ removeprefix ''sha256:'' digest @ ''.seed''"

definition entry_id_of :: "string \<Rightarrow> string" where
  "entry_id_of digest = ''seed-'' @ take 24 (removeprefix ''sha256:'' digest)"

definition verify_published :: "directory \<Rightarrow> string \<Rightarrow> bytes \<Rightarrow> string \<Rightarrow> promotion_error + unit" where
  "verify_published d name payload message =
     bindR (read_promotion 2048 d name) (\<lambda>found.
       if found \<noteq> payload then Inl (PromotionError message) else Inr ())"

definition publish ::
  "dir_status \<Rightarrow> dir_status \<Rightarrow> write_outcome \<Rightarrow> bytes \<Rightarrow> string \<Rightarrow> directory \<Rightarrow> (promotion_error + string) \<times> directory"
where
  "publish root_look inbox_look w payload digest d =
     (let name = seed_name digest in
      case bindR (require_plain_directory root_look) (\<lambda>_. require_plain_directory inbox_look) of
        Inl e \<Rightarrow> (Inl e, d)
      | Inr _ \<Rightarrow>
          if w = WriteFails then (Inl PromotionOSError, d)
          else
            (case (if exists_name d name then
                     bindR (verify_published d name payload ''promotion destination contains wrong bytes'') (\<lambda>_. Inr d)
                   else Inr (create_file d name payload)) of
               Inl e \<Rightarrow> (Inl e, d)
             | Inr d' \<Rightarrow>
                 (bindR (verify_published d' name payload ''published artifact verification failed'')
                    (\<lambda>_. Inr (entry_id_of digest)), d')))"

text \<open>A receipt whose write fails is not unlinked: what had been written stays.\<close>

datatype receipt_outcome = ReceiptOk | ReceiptNotOpened | ReceiptPartial nat

definition write_receipt ::
  "receipt_outcome \<Rightarrow> string \<Rightarrow> promotion_receipt \<Rightarrow> directory \<Rightarrow> (promotion_error + promotion_receipt) \<times> directory"
where
  "write_receipt w candidate_digest r d =
     (let name = receipt_name candidate_digest in
      if exists_name d name then
        (bindR (read_promotion 65536 d name) (\<lambda>existing.
           if existing \<noteq> receipt_payload r then Inl (PromotionError ''promotion receipt collision'') else Inr r), d)
      else
        (case w of
           ReceiptOk \<Rightarrow> (Inr r, create_file d name (receipt_payload r))
         | ReceiptNotOpened \<Rightarrow> (Inl PromotionOSError, d)
         | ReceiptPartial n \<Rightarrow> (Inl PromotionOSError, create_file d name (take n (receipt_payload r)))))"

section \<open>Promoting\<close>

record promotion_env =
  pe_secret :: bytes
  pe_archive :: directory
  pe_outbox :: directory
  pe_quarantine :: directory
  pe_artifacts :: artifact_store
  pe_authority :: authority_store
  pe_destinations :: "(string \<times> destination_spec) list"
  pe_now :: instant
  pe_probe :: "promotion_error + target_hashes"
  pe_probe_locked :: "promotion_error + target_hashes"
  pe_receipts_look :: dir_status
  pe_lock_first :: lock_look
  pe_lock_second :: lock_look
  pe_root_look :: dir_status
  pe_inbox_look :: dir_status
  pe_publish_write :: write_outcome
  pe_receipt_write :: receipt_outcome

definition promoter_ready :: "(string \<times> destination_spec) list \<Rightarrow> promotion_error + unit" where
  "promoter_ready destinations =
     (if fst ` set destinations \<noteq> (ds_destination_id \<circ> snd) ` set destinations then
        Inl (PromotionError ''promotion destination allowlist is inconsistent'')
      else Inr ())"

definition execution_about :: "string \<Rightarrow> signed_decision \<Rightarrow> bool" where
  "execution_about candidate_digest s =
     (case sd_decision s of
        HumanDecision _ \<Rightarrow> False
      | ExecutionDecision _ a \<Rightarrow> af_candidate_digest a = candidate_digest)"

definition decision_for_candidate :: "signed_decision list \<Rightarrow> string \<Rightarrow> promotion_error + signed_decision" where
  "decision_for_candidate decisions candidate_digest =
     (case filter (execution_about candidate_digest) decisions of
        [s] \<Rightarrow> Inr s
      | _ \<Rightarrow> Inl (PromotionError ''candidate does not have one signed execution decision''))"

text \<open>
  The decision was just read from the archive, so \<open>import_signed\<close> writes nothing; its result is used
  only to see whether it raised.
\<close>

definition reimport :: "promotion_env \<Rightarrow> signed_decision \<Rightarrow> promotion_error + unit" where
  "reimport env s =
     (case import_signed (pe_secret env) (pe_outbox env) WriteOk (pe_now env) s (pe_archive env) of
        Inl (DecisionError _) \<Rightarrow> Inl (PromotionError ''execution decision is not currently valid'')
      | Inl e \<Rightarrow> Inl (PromotionDecisionError e)
      | Inr _ \<Rightarrow> Inr ())"

definition require_approval ::
  "promotion_env \<Rightarrow> signed_decision \<Rightarrow> promotion_error + signed_decision \<times> decision_fields \<times> artifact_fields" where
  "require_approval env s =
     (case sd_decision s of
        HumanDecision _ \<Rightarrow> Inl (PromotionError ''offline decision cannot authorize promotion'')
      | ExecutionDecision f a \<Rightarrow>
          if df_action f \<noteq> ''approve_for_live_execution'' \<or> df_reason_code f \<noteq> ''operator_approved_live_execution'' then
            Inl (PromotionError ''execution candidate was not approved'')
          else
            bindR (wrapR PromotionDecisionError (find_event (pe_outbox env) (df_event_digest f))) (\<lambda>e.
              case e of
                ExecutionReady _ \<Rightarrow> Inr (s, f, a)
              | _ \<Rightarrow> Inl (PromotionError ''execution decision references the wrong event version'')))"

definition approved_decision ::
  "promotion_env \<Rightarrow> string \<Rightarrow> promotion_error + signed_decision \<times> decision_fields \<times> artifact_fields" where
  "approved_decision env candidate_digest =
     bindR (wrapR PromotionDecisionError (verified_decisions (pe_secret env) (pe_archive env))) (\<lambda>decisions.
     bindR (decision_for_candidate decisions candidate_digest) (\<lambda>s.
     bindR (reimport env s) (\<lambda>_. require_approval env s)))"

definition candidate_matches_decision :: "execution_candidate \<Rightarrow> decision_fields \<Rightarrow> artifact_fields \<Rightarrow> bool" where
  "candidate_matches_decision c f a \<longleftrightarrow>
     ec_envelope_digest c = df_envelope_digest f \<and> ec_manifest_digest c = af_manifest_digest a \<and>
     ec_artifact_digest c = af_artifact_digest a \<and> ec_artifact_size c = af_artifact_size a \<and>
     ec_validation_digest c = af_validation_digest a \<and> ec_canary_digest c = af_canary_digest a \<and>
     ec_target_hashes c = df_target_hashes f \<and> ec_scope c = af_scope a"

definition read_envelope :: "directory \<Rightarrow> string \<Rightarrow> promotion_error + quarantine_envelope" where
  "read_envelope q envelope_digest =
     (case quarantine_get 2097152 q (removeprefix ''sha256:'' envelope_digest) of
        Inl _ \<Rightarrow> Inl (PromotionError ''quarantine envelope is invalid'')
      | Inr v \<Rightarrow>
          (case model_validate_json load_envelope valid_envelope (canonical_json v) of
             None \<Rightarrow> Inl (PromotionError ''quarantine envelope is invalid'')
           | Some e \<Rightarrow> Inr e))"

definition check_probe :: "promotion_error + target_hashes \<Rightarrow> target_hashes \<Rightarrow> string \<Rightarrow> promotion_error + unit" where
  "check_probe probe hashes message =
     bindR probe (\<lambda>current. if current \<noteq> hashes then Inl (PromotionError message) else Inr ())"

text \<open>The authority objects are read again, and the reports rebuilt and compared with them.\<close>

definition recheck ::
  "promotion_env \<Rightarrow> execution_candidate \<Rightarrow> validation_report \<Rightarrow> canary_report \<Rightarrow> artifact_manifest \<Rightarrow> bytes \<Rightarrow>
   quarantine_envelope \<Rightarrow> promotion_error + destination_spec" where
  "recheck env c v k m payload envelope =
     bindR (wrapR PromotionExecutionError
         (build_validation_report (ec_envelope_digest c) envelope (ec_manifest_digest c) m payload (dv_created_at v)))
       (\<lambda>rebuilt_validation.
       if rebuilt_validation \<noteq> v then
         Inl (PromotionError ''stored deterministic validation cannot be reproduced'')
       else
         (case map_of (pe_destinations env) (ps_destination_id (ec_scope c)) of
            None \<Rightarrow> Inl (PromotionError ''promotion destination is not allowlisted'')
          | Some spec \<Rightarrow>
              if \<not> valid_scope (scope_of spec) then Inl PromotionValidationError
              else if ec_scope c \<noteq> scope_of spec then
                Inl (PromotionError ''signed scope differs from root-owned destination policy'')
              else
                bindR (wrapR PromotionExecutionError
                    (build_execution_candidate (ec_validation_digest c) v (ec_canary_digest c) k
                      (ec_manifest_digest c) m (scope_of spec) (ec_ready_at c) (ds_allowed_runners spec)))
                  (\<lambda>rebuilt_candidate.
                  if rebuilt_candidate \<noteq> c then
                    Inl (PromotionError ''stored execution candidate cannot be reproduced'')
                  else
                    bindR (check_probe (pe_probe env) (ec_target_hashes c) ''current target authority has drifted'')
                      (\<lambda>_. Inr spec))))"

definition reproduce ::
  "promotion_env \<Rightarrow> string \<Rightarrow> decision_fields \<Rightarrow> artifact_fields \<Rightarrow>
   promotion_error + execution_candidate \<times> bytes \<times> destination_spec" where
  "reproduce env candidate_digest f a =
     bindR (wrapR PromotionExecutionError (get_candidate (pe_authority env) candidate_digest)) (\<lambda>c.
       if \<not> candidate_matches_decision c f a then
         Inl (PromotionError ''candidate differs from the signed execution decision'')
       else
         bindR (wrapR PromotionExecutionError (get_validation (pe_authority env) (ec_validation_digest c))) (\<lambda>v.
         bindR (wrapR PromotionExecutionError (get_report (pe_authority env) (ec_canary_digest c))) (\<lambda>k.
         bindR (wrapR PromotionArtifactError (get_manifest (pe_artifacts env) (ec_manifest_digest c))) (\<lambda>m.
         bindR (wrapR PromotionArtifactError (get_payload (pe_artifacts env) m)) (\<lambda>payload.
         bindR (read_envelope (pe_quarantine env) (ec_envelope_digest c)) (\<lambda>envelope.
         bindR (recheck env c v k m payload envelope) (\<lambda>spec. Inr (c, payload, spec))))))))"

definition receipt_for ::
  "string \<Rightarrow> signed_decision \<Rightarrow> execution_candidate \<Rightarrow> destination_spec \<Rightarrow> string \<Rightarrow> instant \<Rightarrow> promotion_receipt" where
  "receipt_for candidate_digest s c spec entry_id current =
     \<lparr>rc_candidate_digest = candidate_digest, rc_decision_digest = content_digest (signed_payload s),
      rc_event_digest = decided_event s, rc_envelope_digest = ec_envelope_digest c,
      rc_manifest_digest = ec_manifest_digest c, rc_artifact_digest = ec_artifact_digest c,
      rc_validation_digest = ec_validation_digest c, rc_canary_digest = ec_canary_digest c,
      rc_target_hashes = ec_target_hashes c, rc_destination_id = ds_destination_id spec, rc_entry_id = entry_id,
      rc_promoted_at = iso_seconds_z current\<rparr>"

definition promote_locked ::
  "promotion_env \<Rightarrow> string \<Rightarrow> signed_decision \<Rightarrow> execution_candidate \<Rightarrow> bytes \<Rightarrow> destination_spec \<Rightarrow>
   promotion_state \<Rightarrow> (promotion_error + promotion_receipt) \<times> promotion_state" where
  "promote_locked env candidate_digest s c payload spec st =
     (let inbox = pa_resolved (ds_inbox spec) in
      case bindR (receipts_of (pm_receipts st)) (scan_receipts candidate_digest (ds_destination_id spec) (ec_artifact_digest c)) of
        Inl e \<Rightarrow> (Inl e, st)
      | Inr (Some r) \<Rightarrow> (Inr r, st)
      | Inr None \<Rightarrow>
          (case check_probe (pe_probe_locked env) (ec_target_hashes c) ''current target authority drifted during promotion'' of
             Inl e \<Rightarrow> (Inl e, st)
           | Inr _ \<Rightarrow>
               (case publish (pe_root_look env) (pe_inbox_look env) (pe_publish_write env) payload (ec_artifact_digest c)
                       (pm_inboxes st inbox) of
                  (published, d) \<Rightarrow>
                    (let st' = st\<lparr>pm_inboxes := (pm_inboxes st)(inbox := d)\<rparr> in
                     case published of
                       Inl e \<Rightarrow> (Inl e, st')
                     | Inr entry_id \<Rightarrow>
                         (let r = receipt_for candidate_digest s c spec entry_id (pe_now env) in
                          if \<not> valid_receipt r then (Inl PromotionValidationError, st')
                          else
                            (case write_receipt (pe_receipt_write env) candidate_digest r (pm_receipts st) of
                               (result, receipts) \<Rightarrow> (result, st'\<lparr>pm_receipts := receipts\<rparr>)))))))"

definition promote ::
  "promotion_env \<Rightarrow> string \<Rightarrow> promotion_state \<Rightarrow> (promotion_error + promotion_receipt) \<times> promotion_state" where
  "promote env candidate_digest st =
     (case bindR (approved_decision env candidate_digest) (\<lambda>(s, f, a).
             bindR (reproduce env candidate_digest f a) (\<lambda>(c, payload, spec).
             bindR (require_plain_directory (pe_receipts_look env)) (\<lambda>_.
             bindR (acquire_lock (pe_lock_first env) (pe_lock_second env)) (\<lambda>_. Inr (s, c, payload, spec))))) of
        Inl e \<Rightarrow> (Inl e, st)
      | Inr (s, c, payload, spec) \<Rightarrow> promote_locked env candidate_digest s c payload spec st)"

definition load_current_target_contract :: "directory \<Rightarrow> string \<Rightarrow> promotion_error + target_hashes" where
  "load_current_target_contract d name =
     bindR (read_promotion 2097152 d name) (\<lambda>payload.
       case model_validate_json load_contract valid_contract payload of
         None \<Rightarrow> Inl (PromotionError ''current target contract is invalid'')
       | Some c \<Rightarrow>
           if canonical_json (dump_contract c) \<noteq> payload then
             Inl (PromotionError ''current target contract is not canonical'')
           else Inr (hc_target_hashes c))"

section \<open>What a promotion rests on\<close>

text \<open>
  The authority behind a publication, all of it read at the time: one archived, correctly signed
  approval of live execution about this candidate; the candidate it names, with its reports; a canary
  that passed under a runner the destination allows; a scope equal to the destination's; a target that
  has not drifted; and the candidate's own bytes, which the audited decoder accepts.
\<close>

definition publishable :: "promotion_env \<Rightarrow> string \<Rightarrow> execution_candidate \<Rightarrow> bytes \<Rightarrow> destination_spec \<Rightarrow> bool" where
  "publishable env candidate_digest c payload spec \<longleftrightarrow>
     (\<exists>decisions s f a. verified_decisions (pe_secret env) (pe_archive env) = Inr decisions \<and> s \<in> set decisions \<and>
        sd_decision s = ExecutionDecision f a \<and> af_candidate_digest a = candidate_digest \<and>
        df_action f = ''approve_for_live_execution'' \<and> candidate_matches_decision c f a) \<and>
     get_candidate (pe_authority env) candidate_digest = Inr c \<and>
     (\<exists>v. get_validation (pe_authority env) (ec_validation_digest c) = Inr v \<and>
        dv_artifact_digest v = ec_artifact_digest c \<and> dv_envelope_digest v = ec_envelope_digest c) \<and>
     (\<exists>k. get_report (pe_authority env) (ec_canary_digest c) = Inr k \<and> canary_passed k \<and>
        cr_runner_hash k \<in> ds_allowed_runners spec \<and> cr_artifact_digest k = ec_artifact_digest c) \<and>
     map_of (pe_destinations env) (ps_destination_id (ec_scope c)) = Some spec \<and> ec_scope c = scope_of spec \<and>
     pe_probe env = Inr (ec_target_hashes c) \<and>
     content_digest payload = ec_artifact_digest c \<and> int (length payload) = ec_artifact_size c \<and>
     is_ok (decode_program payload (harness_hash (ec_target_hashes c)))"

lemma decision_for_candidate_Inr:
  "decision_for_candidate ds k = Inr s \<Longrightarrow> s \<in> set ds \<and> execution_about k s"
proof -
  assume "decision_for_candidate ds k = Inr s"
  then have "filter (execution_about k) ds = [s]" by (auto simp: decision_for_candidate_def split: list.splits)
  then have "s \<in> set (filter (execution_about k) ds)" by simp
  then show ?thesis by simp
qed

lemma execution_ready_case:
  "(case e of ExecutionReady _ \<Rightarrow> Inr y | _ \<Rightarrow> Inl err) = Inr z \<longleftrightarrow> (\<exists>x. e = ExecutionReady x) \<and> z = y"
  by (cases e) auto

lemma approved_decision_Inr:
  assumes "approved_decision env k = Inr (s, f, a)"
  shows "\<exists>decisions. verified_decisions (pe_secret env) (pe_archive env) = Inr decisions \<and> s \<in> set decisions \<and>
    sd_decision s = ExecutionDecision f a \<and> af_candidate_digest a = k \<and> df_action f = ''approve_for_live_execution''"
proof -
  from assms obtain decisions x where decisions: "verified_decisions (pe_secret env) (pe_archive env) = Inr decisions"
    "decision_for_candidate decisions k = Inr x" and approval: "require_approval env x = Inr (s, f, a)"
    unfolding approved_decision_def bindR_eq_Inr wrapR_eq_Inr by blast
  from approval have x: "x = s" "sd_decision s = ExecutionDecision f a" "df_action f = ''approve_for_live_execution''"
    by (auto simp: require_approval_def execution_ready_case split: decision.splits)
  from decision_for_candidate_Inr [OF decisions(2) [unfolded x(1)]] x(2,3) decisions(1) show ?thesis
    by (auto simp: execution_about_def)
qed

lemma check_probe_Inr: "check_probe probe hashes message = Inr r \<longleftrightarrow> probe = Inr hashes"
  by (auto simp: check_probe_def split: if_splits)

lemma fetched_payload_Inr:
  "get_payload st m = Inr payload \<Longrightarrow> content_digest payload = am_payload_digest m \<and> int (length payload) = am_payload_size m"
  by (auto simp: get_payload_def split: if_splits)

lemma validated_payload_decodes:
  "build_validation_report envelope_digest e mid m payload created_at_text = Inr v \<Longrightarrow>
    is_ok (decode_program payload (harness_hash (am_target_hashes m)))"
  by (auto simp: build_validation_report_def Let_def is_ok_iff split: sum.splits if_splits)

lemma case_option_eq_Inr:
  "(case opt of None \<Rightarrow> Inl e | Some x \<Rightarrow> g x) = Inr y \<longleftrightarrow> (\<exists>x. opt = Some x \<and> g x = Inr y)"
  by (cases opt) simp_all

lemma recheck_Inr:
  assumes "recheck env c v r m payload e = Inr spec"
  shows "build_validation_report (ec_envelope_digest c) e (ec_manifest_digest c) m payload (dv_created_at v) = Inr v"
    "map_of (pe_destinations env) (ps_destination_id (ec_scope c)) = Some spec" "ec_scope c = scope_of spec"
    "build_execution_candidate (ec_validation_digest c) v (ec_canary_digest c) r (ec_manifest_digest c) m (scope_of spec)
       (ec_ready_at c) (ds_allowed_runners spec) = Inr c"
    "pe_probe env = Inr (ec_target_hashes c)"
  using assms by (auto simp: recheck_def check_probe_Inr case_option_eq_Inr)

lemma reproduce_Inr:
  assumes "reproduce env k f a = Inr (c, payload, spec)"
  obtains v r m e where "get_candidate (pe_authority env) k = Inr c" "candidate_matches_decision c f a"
    "get_validation (pe_authority env) (ec_validation_digest c) = Inr v"
    "get_report (pe_authority env) (ec_canary_digest c) = Inr r"
    "get_payload (pe_artifacts env) m = Inr payload" "recheck env c v r m payload e = Inr spec"
  using assms unfolding reproduce_def by auto

lemma candidate_outcome:
  "build_execution_candidate vd v kd k mid m scope ready_at allowed = Inr c \<Longrightarrow> cr_outcome k = CANARY_PASSED"
  by (auto simp: build_execution_candidate_def first_failure_Inr candidate_bindings_def)

lemma reproduced_publishable:
  assumes "approved_decision env k = Inr (s, f, a)" "reproduce env k f a = Inr (c, payload, spec)"
  shows "publishable env k c payload spec"
proof -
  from assms(2) obtain v r m e where c: "get_candidate (pe_authority env) k = Inr c" "candidate_matches_decision c f a"
    "get_validation (pe_authority env) (ec_validation_digest c) = Inr v"
    "get_report (pe_authority env) (ec_canary_digest c) = Inr r"
    "get_payload (pe_artifacts env) m = Inr payload" and checks: "recheck env c v r m payload e = Inr spec"
    by (rule reproduce_Inr)
  note x = recheck_Inr [OF checks]
  have "valid_canary r" using c(4) by (simp add: get_report_def authority_get_Inr)
  note built = built_candidate [OF x(4) this]
  have "cr_outcome r = CANARY_PASSED" by (rule candidate_outcome [OF x(4)])
  with \<open>valid_canary r\<close> have passed: "canary_passed r" by (simp add: valid_canary_def outcome_matches_measurements_def)
  note fields = validation_fields [OF x(1)]
  have "ec_target_hashes c = dv_target_hashes v" "dv_target_hashes v = am_target_hashes m"
    "ec_artifact_digest c = am_payload_digest m" "ec_artifact_size c = dv_artifact_size v"
    "dv_artifact_size v = am_payload_size m"
    using built fields by blast+
  then have h: "ec_target_hashes c = am_target_hashes m" and artifact: "ec_artifact_digest c = am_payload_digest m"
    "ec_artifact_size c = am_payload_size m" by simp_all
  obtain decisions where approved: "verified_decisions (pe_secret env) (pe_archive env) = Inr decisions" "s \<in> set decisions"
    "sd_decision s = ExecutionDecision f a" "af_candidate_digest a = k" "df_action f = ''approve_for_live_execution''"
    using approved_decision_Inr [OF assms(1)] by blast
  have bytes: "content_digest payload = ec_artifact_digest c" "int (length payload) = ec_artifact_size c"
    using fetched_payload_Inr [OF c(5)] artifact by simp_all
  have reports: "dv_artifact_digest v = ec_artifact_digest c" "dv_envelope_digest v = ec_envelope_digest c"
    "cr_runner_hash r \<in> ds_allowed_runners spec" "cr_artifact_digest r = ec_artifact_digest c"
    by (insert built, elim conjE; (assumption | erule sym))+
  have decodes: "is_ok (decode_program payload (harness_hash (ec_target_hashes c)))"
    unfolding h by (rule validated_payload_decodes [OF x(1)])
  show ?thesis
    unfolding publishable_def using approved c x(2,3,5) bytes reports passed decodes by blast
qed

lemma publish_result:
  "publish root_look inbox_look w payload digest d = (r, d') \<Longrightarrow>
    d' = d \<or> \<not> exists_name d (seed_name digest) \<and> d' = create_file d (seed_name digest) payload"
  by (auto simp: publish_def Let_def split: sum.splits if_splits)

lemma promote_locked_inboxes:
  assumes "promote_locked env k s c payload spec st = (result, st')" "pm_inboxes st' \<noteq> pm_inboxes st"
  shows "pe_probe_locked env = Inr (ec_target_hashes c) \<and>
    \<not> exists_name (pm_inboxes st (pa_resolved (ds_inbox spec))) (seed_name (ec_artifact_digest c)) \<and>
    pm_inboxes st' = (pm_inboxes st)(pa_resolved (ds_inbox spec) :=
      create_file (pm_inboxes st (pa_resolved (ds_inbox spec))) (seed_name (ec_artifact_digest c)) payload)"
proof -
  let ?inbox = "pa_resolved (ds_inbox spec)"
  obtain r d where pub: "publish (pe_root_look env) (pe_inbox_look env) (pe_publish_write env) payload (ec_artifact_digest c)
      (pm_inboxes st ?inbox) = (r, d)" by fastforce
  have "pe_probe_locked env = Inr (ec_target_hashes c)" "pm_inboxes st' = (pm_inboxes st)(?inbox := d)"
    using assms pub
    by (auto simp: promote_locked_def Let_def check_probe_Inr split: sum.splits option.splits prod.splits if_splits)
  moreover from this assms(2) have "d \<noteq> pm_inboxes st ?inbox" by auto
  ultimately show ?thesis using publish_result [OF pub] by blast
qed

text \<open>What a promotion does to the receipts: nothing, or one new file with all or a part of a receipt.\<close>

lemma write_receipt_result:
  assumes "write_receipt w k r d = (result, d')"
  shows "d' = d \<and> (\<forall>x. result = Inr x \<longrightarrow> x = r \<and> read_promotion 65536 d (receipt_name k) = Inr (receipt_payload r)) \<or>
    \<not> exists_name d (receipt_name k) \<and>
    (d' = create_file d (receipt_name k) (receipt_payload r) \<and> result = Inr r \<or>
     (\<exists>n. w = ReceiptPartial n \<and> d' = create_file d (receipt_name k) (take n (receipt_payload r)) \<and>
       result = Inl PromotionOSError))"
  using assms by (auto simp: write_receipt_def Let_def split: receipt_outcome.splits if_splits)

lemma promote_locked_receipts:
  assumes "promote_locked env k s c payload spec st = (result, st')"
  obtains (unchanged) "pm_receipts st' = pm_receipts st" "\<And>r. result \<noteq> Inr r"
  | (existing) rs r where "st' = st" "result = Inr r" "receipts_of (pm_receipts st) = Inr rs"
      "scan_receipts k (ds_destination_id spec) (ec_artifact_digest c) rs = Inr (Some r)"
  | (written) rs entry_id r where "receipts_of (pm_receipts st) = Inr rs"
      "scan_receipts k (ds_destination_id spec) (ec_artifact_digest c) rs = Inr None"
      "r = receipt_for k s c spec entry_id (pe_now env)" "valid_receipt r"
      "write_receipt (pe_receipt_write env) k r (pm_receipts st) = (result, pm_receipts st')"
  using assms that
  by (auto simp: promote_locked_def Let_def split: sum.splits option.splits prod.splits if_splits)

lemma promote_result:
  assumes "promote env k st = (result, st')"
  obtains (refused) e where "result = Inl e" "st' = st"
  | (locked) s c payload spec where "publishable env k c payload spec"
      "promote_locked env k s c payload spec st = (result, st')"
proof (cases "bindR (approved_decision env k) (\<lambda>(s, f, a).
             bindR (reproduce env k f a) (\<lambda>(c, payload, spec).
             bindR (require_plain_directory (pe_receipts_look env)) (\<lambda>_.
             bindR (acquire_lock (pe_lock_first env) (pe_lock_second env)) (\<lambda>_. Inr (s, c, payload, spec)))))")
  case (Inl e)
  with assms show thesis by (intro refused [of e]) (simp_all add: promote_def)
next
  case (Inr x)
  obtain s c payload spec where x: "x = (s, c, payload, spec)" by (cases x) auto
  with Inr obtain f a where "approved_decision env k = Inr (s, f, a)" "reproduce env k f a = Inr (c, payload, spec)" by auto
  then have "publishable env k c payload spec" by (rule reproduced_publishable)
  moreover have "promote_locked env k s c payload spec st = (result, st')"
    using assms unfolding promote_def Inr x by simp
  ultimately show thesis by (rule locked)
qed

lemma publishable_digests:
  assumes "publishable env k c payload spec"
  shows "is_digest k"
  using assms by (simp add: publishable_def get_candidate_def authority_get_Inr)

section \<open>The receipts\<close>

abbreviation published_entry :: "promotion_receipt \<Rightarrow> string \<times> string" where
  "published_entry r \<equiv> (rc_destination_id r, rc_artifact_digest r)"

definition receipt_file :: "promotion_receipt \<Rightarrow> string \<times> node" where
  "receipt_file r = (receipt_name (rc_candidate_digest r), RegularFile (receipt_payload r))"

definition receipt_log :: "promotion_receipt list \<Rightarrow> bool" where
  "receipt_log rs \<longleftrightarrow>
     list_all valid_receipt rs \<and> list_all (\<lambda>r. is_digest (rc_candidate_digest r)) rs \<and>
     distinct (map rc_candidate_digest rs) \<and> distinct (map published_entry rs)"

lemma digest_prefix: "is_digest k \<Longrightarrow> k = ''sha256:'' @ drop 7 k"
  by (metis append_take_drop_id is_digest_def)

lemma removeprefix_digest: "is_digest k \<Longrightarrow> removeprefix ''sha256:'' k = drop 7 k"
  using digest_prefix [of k] removeprefix_append by metis

lemma receipt_name_item: "is_digest k \<Longrightarrow> match_item (receipt_name k) = Some (drop 7 k)"
  unfolding receipt_name_def match_item_Some by (simp add: removeprefix_digest is_digest_def)

lemma receipt_name_inject: "is_digest k \<Longrightarrow> is_digest l \<Longrightarrow> receipt_name k = receipt_name l \<longleftrightarrow> k = l"
  by (metis digest_prefix option.inject receipt_name_item)

lemma parse_receipt_payload:
  "model_validate_json load_receipt valid_receipt (receipt_payload r) = (if valid_receipt r then Some r else None)"
  by (simp add: model_validate_json_def receipt_payload_def loads_canonical)

text \<open>The keyed files of a directory, read in the order of their names, are what they hold.\<close>

lemma traverse_sorted_names:
  assumes "distinct (map key xs)" "\<And>x y. x \<in> set xs \<Longrightarrow> f (key x) = Inr y \<Longrightarrow> y = x"
    and "traverse f (sort (map key xs)) = Inr ys"
  shows "mset ys = mset xs"
proof -
  define pick where "pick = the_inv_into (set xs) key"
  have inj: "inj_on key (set xs)" using assms(1) by (simp add: distinct_map)
  have pick: "pick (key x) = x" if "x \<in> set xs" for x unfolding pick_def by (rule the_inv_into_f_f [OF inj that])
  from assms(3) have all2: "list_all2 (\<lambda>name y. f name = Inr y) (sort (map key xs)) ys" by (simp add: traverse_Inr_iff)
  have "ys = map pick (sort (map key xs))"
  proof (rule nth_equalityI)
    show "length ys = length (map pick (sort (map key xs)))" using list_all2_lengthD [OF all2] by simp
    fix i assume i: "i < length ys"
    then have n: "i < length (sort (map key xs))" using list_all2_lengthD [OF all2] by simp
    then have "sort (map key xs) ! i \<in> set (map key xs)" by (metis nth_mem set_sort)
    then obtain x where x: "x \<in> set xs" "sort (map key xs) ! i = key x" by auto
    with list_all2_nthD [OF all2 n] assms(2) have "ys ! i = x" by metis
    with x pick n show "ys ! i = map pick (sort (map key xs)) ! i" by simp
  qed
  then have "mset ys = mset (map pick (map key xs))" by (simp add: multiset.map_comp)
  also have "map pick (map key xs) = xs" using pick by (simp add: map_idI)
  finally show ?thesis .
qed

lemma receipt_log_names:
  assumes "receipt_log rs"
  shows "distinct (map (\<lambda>r. receipt_name (rc_candidate_digest r)) rs)"
    "filter (\<lambda>name. match_item name \<noteq> None) (sort (map (\<lambda>r. receipt_name (rc_candidate_digest r)) rs)) =
      sort (map (\<lambda>r. receipt_name (rc_candidate_digest r)) rs)"
proof -
  have digest: "is_digest (rc_candidate_digest r)" if "r \<in> set rs" for r
    using assms that by (simp add: receipt_log_def list_all_iff)
  have "inj_on rc_candidate_digest (set rs)" "distinct rs"
    using assms unfolding receipt_log_def distinct_map by blast+
  moreover have "inj_on receipt_name (rc_candidate_digest ` set rs)"
    using digest by (auto intro!: inj_onI simp: receipt_name_inject)
  ultimately show "distinct (map (\<lambda>r. receipt_name (rc_candidate_digest r)) rs)"
    using comp_inj_on [of rc_candidate_digest "set rs" receipt_name] by (simp add: distinct_map comp_def)
  show "filter (\<lambda>name. match_item name \<noteq> None) (sort (map (\<lambda>r. receipt_name (rc_candidate_digest r)) rs)) =
      sort (map (\<lambda>r. receipt_name (rc_candidate_digest r)) rs)"
    by (rule filter_True) (use digest receipt_name_item in auto)
qed

lemma read_receipt_Inr:
  "read_receipt d name = Inr r \<Longrightarrow>
    map_of d name = Some (RegularFile (receipt_payload r)) \<and> name = receipt_name (rc_candidate_digest r) \<and> valid_receipt r"
  by (auto simp: read_receipt_def read_promotion_def model_validate_json_Some split: option.splits)

lemma receipt_payload_inject: "receipt_payload r = receipt_payload r' \<Longrightarrow> r = r'"
proof -
  assume "receipt_payload r = receipt_payload r'"
  then have "norm_json (dump_receipt r) = norm_json (dump_receipt r')"
    unfolding receipt_payload_def by (intro canonical_json_inject) simp_all
  then have "load_receipt (norm_json (dump_receipt r)) = load_receipt (norm_json (dump_receipt r'))" by simp
  then show "r = r'" by simp
qed

lemma receipts_listed:
  assumes "receipt_log rs" "receipts_of (map receipt_file rs) = Inr rs'"
  shows "mset rs' = mset rs"
proof (rule traverse_sorted_names)
  let ?name = "\<lambda>r. receipt_name (rc_candidate_digest r)"
  have names: "map fst (map receipt_file rs) = map ?name rs" by (simp add: receipt_file_def)
  note log = receipt_log_names [OF assms(1)]
  show "distinct (map ?name rs)" by (rule log(1))
  show "traverse (read_receipt (map receipt_file rs)) (sort (map ?name rs)) = Inr rs'"
    using assms(2) unfolding receipts_of_def names log(2) .
  fix x y
  assume x: "x \<in> set rs" and y: "read_receipt (map receipt_file rs) (?name x) = Inr y"
  have "map_of (map receipt_file rs) (?name x) = Some (RegularFile (receipt_payload x))"
  proof (rule map_of_is_SomeI)
    show "distinct (map fst (map receipt_file rs))" unfolding names by (rule log(1))
    show "(?name x, RegularFile (receipt_payload x)) \<in> set (map receipt_file rs)" using x by (auto simp: receipt_file_def)
  qed
  with read_receipt_Inr [OF y] show "y = x" using receipt_payload_inject by auto
qed

text \<open>
  A truncated receipt is no receipt: its bytes are a proper prefix of an object, so they are not the
  canonical form of anything, and listing the receipts fails.
\<close>

definition truncated_receipt :: "string \<Rightarrow> node \<Rightarrow> bool" where
  "truncated_receipt name node \<longleftrightarrow>
     (\<exists>r n. is_digest (rc_candidate_digest r) \<and> name = receipt_name (rc_candidate_digest r) \<and>
        n < length (receipt_payload r) \<and> node = RegularFile (take n (receipt_payload r)))"

lemma truncated_unreadable:
  assumes "truncated_receipt name node" "map_of d name = Some node"
  shows "\<exists>e. receipts_of d = Inl e"
proof -
  from assms(1) obtain r n where r: "is_digest (rc_candidate_digest r)" "name = receipt_name (rc_candidate_digest r)"
    "n < length (receipt_payload r)" "node = RegularFile (take n (receipt_payload r))"
    by (auto simp: truncated_receipt_def)
  have no: "read_receipt d name \<noteq> Inr x" for x
  proof
    assume "read_receipt d name = Inr x"
    with read_receipt_Inr [OF this] assms(2) r(4) have "take n (receipt_payload r) = receipt_payload x" by simp
    then have "receipt_payload r = receipt_payload x @ drop n (receipt_payload r)" by (metis append_take_drop_id)
    then have "drop n (receipt_payload r) = []"
      using canonical_prefix_free [of _ _ "drop n (receipt_payload r)"] wf_dump_receipt [of r] wf_dump_receipt [of x]
      unfolding receipt_payload_def dump_receipt_def by blast
    with r(3) show False by simp
  qed
  have "name \<in> set (filter (\<lambda>name. match_item name \<noteq> None) (sort (map fst d)))"
    using assms(2) receipt_name_item [OF r(1)] r(2) by (auto dest!: map_of_SomeD intro: rev_image_eqI)
  moreover have "\<not> is_ok (read_receipt d name)" using no by (auto simp: is_ok_iff)
  ultimately have "\<not> is_ok (receipts_of d)" unfolding receipts_of_def traverse_is_ok by blast
  then show ?thesis by (cases "receipts_of d") (simp_all add: is_ok_iff)
qed

definition promotion_inv :: "promotion_receipt list \<Rightarrow> directory \<Rightarrow> bool" where
  "promotion_inv rs d \<longleftrightarrow>
     receipt_log rs \<and>
     (d = map receipt_file rs \<or>
      (\<exists>name node. d = map receipt_file rs @ [(name, node)] \<and> truncated_receipt name node \<and>
         name \<notin> fst ` receipt_file ` set rs))"

lemma inv_readable:
  assumes "promotion_inv rs d" "receipts_of d = Inr rs'"
  shows "d = map receipt_file rs" "mset rs' = mset rs"
proof -
  show d: "d = map receipt_file rs"
  proof (rule ccontr)
    assume "d \<noteq> map receipt_file rs"
    with assms(1) obtain name node where x: "d = map receipt_file rs @ [(name, node)]" "truncated_receipt name node"
      "name \<notin> fst ` receipt_file ` set rs" by (auto simp: promotion_inv_def)
    have "map_of (map receipt_file rs) name = None" unfolding map_of_eq_None_iff set_map by (rule x(3))
    then have "map_of d name = Some node" unfolding x(1) by (simp add: map_add_def)
    from truncated_unreadable [OF x(2) this] assms(2) show False by simp
  qed
  with assms receipts_listed show "mset rs' = mset rs" by (auto simp: promotion_inv_def)
qed

lemma scan_None:
  "scan_receipts k dest artifact rs = Inr None \<longleftrightarrow>
    k \<notin> rc_candidate_digest ` set rs \<and> (dest, artifact) \<notin> published_entry ` set rs"
  by (induction rs) auto

lemma scan_Some:
  "scan_receipts k dest artifact rs = Inr (Some r) \<Longrightarrow> r \<in> set rs \<and> rc_candidate_digest r = k"
  by (induction rs) (auto split: if_splits)

text \<open>The receipts a promotion leaves: the same list, or one more; or the same and a truncated file.\<close>

lemma promote_receipts:
  assumes "promotion_inv rs (pm_receipts st)" "promote env k st = (result, st')"
  obtains rs' where "promotion_inv rs' (pm_receipts st')" "set rs \<subseteq> set rs'"
    "\<And>r. result = Inr r \<Longrightarrow> r \<in> set rs' \<and> rc_candidate_digest r = k \<and> pm_receipts st' = map receipt_file rs'"
  using assms(2)
proof (cases rule: promote_result)
  case (refused e)
  with assms(1) that show thesis by blast
next
  case (locked s c payload spec)
  note digest = publishable_digests [OF locked(1)]
  from locked(2) show thesis
  proof (cases rule: promote_locked_receipts)
    case unchanged
    with assms(1) that show thesis by auto
  next
    case (existing rs0 r)
    note listed = inv_readable [OF assms(1) existing(3)]
    have "r \<in> set rs" "rc_candidate_digest r = k" using scan_Some [OF existing(4)] mset_eq_setD [OF listed(2)] by auto
    with assms(1) existing listed(1) that show thesis by auto
  next
    case (written rs0 entry_id r)
    note listed = inv_readable [OF assms(1) written(1)]
    have r: "rc_candidate_digest r = k" "published_entry r = (ds_destination_id spec, ec_artifact_digest c)"
      by (simp_all add: written(3) receipt_for_def)
    have fresh: "k \<notin> rc_candidate_digest ` set rs" "published_entry r \<notin> published_entry ` set rs"
      using written(2) mset_eq_setD [OF listed(2)] unfolding scan_None r(2) by simp_all
    have log: "receipt_log rs" using assms(1) by (simp add: promotion_inv_def)
    with fresh r(1) digest written(4) have log': "receipt_log (rs @ [r])" by (simp add: receipt_log_def)
    have "receipt_name k \<notin> fst ` receipt_file ` set rs"
    proof
      assume "receipt_name k \<in> fst ` receipt_file ` set rs"
      then obtain x where "x \<in> set rs" "receipt_name (rc_candidate_digest x) = receipt_name k"
        by (auto simp: receipt_file_def)
      with log digest have "rc_candidate_digest x = k"
        by (simp add: receipt_log_def list_all_iff receipt_name_inject)
      with fresh(1) \<open>x \<in> set rs\<close> show False by blast
    qed
    moreover have "exists_name (pm_receipts st) name \<longleftrightarrow> name \<in> fst ` receipt_file ` set rs" for name
      unfolding listed(1) exists_name_iff set_map ..
    ultimately have unused: "\<not> exists_name (pm_receipts st) (receipt_name k)" "receipt_name k \<notin> fst ` receipt_file ` set rs"
      by blast+
    have full: "create_file (pm_receipts st) (receipt_name k) (receipt_payload r) = map receipt_file (rs @ [r])"
      by (simp add: listed(1) create_file_def receipt_file_def r(1))
    have lost: "map_of (pm_receipts st) (receipt_name k) = None" using unused(1) by (simp add: exists_name_def)
    from write_receipt_result [OF written(5)] lost consider (same) "pm_receipts st' = pm_receipts st" "\<And>x. result \<noteq> Inr x"
      | (whole) "pm_receipts st' = map receipt_file (rs @ [r])" "result = Inr r"
      | (part) n where "pm_receipts st' = create_file (pm_receipts st) (receipt_name k) (take n (receipt_payload r))"
          "result = Inl PromotionOSError"
      unfolding full read_promotion_def by auto
    then show thesis
    proof cases
      case same
      with assms(1) that show thesis by auto
    next
      case whole
      show thesis
        by (rule that [of "rs @ [r]"]) (use whole log' r(1) in \<open>auto simp: promotion_inv_def\<close>)
    next
      case (part n)
      show thesis
      proof (cases "n < length (receipt_payload r)")
        case True
        with digest r(1) have "truncated_receipt (receipt_name k) (RegularFile (take n (receipt_payload r)))"
          by (auto simp: truncated_receipt_def)
        with part unused(2) log listed(1) have "promotion_inv rs (pm_receipts st')"
          by (auto simp: promotion_inv_def create_file_def)
        with part that show thesis by auto
      next
        case False
        with part full log' have "promotion_inv (rs @ [r]) (pm_receipts st')" by (simp add: promotion_inv_def)
        then show thesis by (rule that) (use part in auto)
      qed
    qed
  qed
qed

text \<open>A life of the promoter: any promotions, of any candidates, in any environments.\<close>

inductive promotion_step :: "promotion_state \<Rightarrow> promotion_state \<Rightarrow> bool" where
  "promote env k st = (result, st') \<Longrightarrow> promotion_step st st'"

inductive_cases promotion_stepE: "promotion_step st st'"

lemma promotions_extend:
  assumes "promotion_step\<^sup>*\<^sup>* st st'" "promotion_inv rs (pm_receipts st)"
  obtains rs' where "promotion_inv rs' (pm_receipts st')" "set rs \<subseteq> set rs'"
proof -
  from assms(1) have "\<exists>rs'. promotion_inv rs' (pm_receipts st') \<and> set rs \<subseteq> set rs'"
  proof (induction rule: rtranclp_induct)
    case base
    show ?case using assms(2) by blast
  next
    case (step st' st'')
    then obtain rs' where rs': "promotion_inv rs' (pm_receipts st')" "set rs \<subseteq> set rs'" by blast
    from step.hyps(2) obtain env k result where "promote env k st' = (result, st'')" by (elim promotion_stepE)
    then obtain rs'' where "promotion_inv rs'' (pm_receipts st'')" "set rs' \<subseteq> set rs''"
      by (rule promote_receipts [OF rs'(1)])
    with rs'(2) show ?case by blast
  qed
  with that show thesis by blast
qed

lemma promotion_inv_Nil: "promotion_inv [] []"
  by (simp add: promotion_inv_def receipt_log_def)

section \<open>A second promotion\<close>

lemma promoted_again:
  assumes "promotion_inv rs (pm_receipts st)" "r \<in> set rs" "promote env (rc_candidate_digest r) st = (result, st')"
  shows "st' = st \<and> (\<forall>x. result = Inr x \<longrightarrow> x = r)"
  using assms(3)
proof (cases rule: promote_result)
  case (locked s c payload spec)
  show ?thesis
  proof (cases "receipts_of (pm_receipts st)")
    case (Inl e)
    with locked(2) show ?thesis by (auto simp: promote_locked_def)
  next
    case (Inr rs')
    note listed = inv_readable [OF assms(1) Inr]
    have r: "r \<in> set rs'" using assms(2) mset_eq_setD [OF listed(2)] by simp
    have "mset (map rc_candidate_digest rs') = mset (map rc_candidate_digest rs)" using listed(2) by simp
    moreover have "distinct (map rc_candidate_digest rs)" using assms(1) by (simp add: promotion_inv_def receipt_log_def)
    ultimately have "inj_on rc_candidate_digest (set rs')" by (metis distinct_map mset_eq_imp_distinct_iff)
    then have unique: "x = r" if "x \<in> set rs'" "rc_candidate_digest x = rc_candidate_digest r" for x
      using that r by (auto dest: inj_onD)
    have "scan_receipts (rc_candidate_digest r) (ds_destination_id spec) (ec_artifact_digest c) rs' \<noteq> Inr None"
      unfolding scan_None using r by blast
    then consider e where "scan_receipts (rc_candidate_digest r) (ds_destination_id spec) (ec_artifact_digest c) rs' = Inl e"
      | x where "scan_receipts (rc_candidate_digest r) (ds_destination_id spec) (ec_artifact_digest c) rs' = Inr (Some x)"
      by (metis not_None_eq sum.exhaust)
    then show ?thesis
    proof cases
      case 1
      with locked(2) Inr show ?thesis by (auto simp: promote_locked_def)
    next
      case (2 x)
      with locked(2) Inr unique scan_Some [OF 2] show ?thesis by (auto simp: promote_locked_def)
    qed
  qed
qed simp

end
