(* ===== verification/Release.thy ===== *)
theory Release
  imports Promoter
begin

text \<open>
  The way from a canaried candidate into an inbox, end to end: when its evidence is stored, its
  approval is archived and nothing has drifted, \<open>promote\<close> publishes it.  The second half builds one
  such world from the models of the compiler, the canary runner, the outbox and the decision archive;
  it is the witness of the promoter's properties.
\<close>

text \<open>What \<open>recheck\<close> and \<open>reproduce\<close> need to find in the stores.\<close>

definition evidence ::
  "promotion_env \<Rightarrow> string \<Rightarrow> execution_candidate \<Rightarrow> bytes \<Rightarrow> destination_spec \<Rightarrow> bool" where
  "evidence env k c payload spec \<longleftrightarrow>
     get_candidate (pe_authority env) k = Inr c \<and>
     (\<exists>v r m e. get_validation (pe_authority env) (ec_validation_digest c) = Inr v \<and>
        get_report (pe_authority env) (ec_canary_digest c) = Inr r \<and>
        get_manifest (pe_artifacts env) (ec_manifest_digest c) = Inr m \<and>
        get_payload (pe_artifacts env) m = Inr payload \<and>
        read_envelope (pe_quarantine env) (ec_envelope_digest c) = Inr e \<and>
        build_validation_report (ec_envelope_digest c) e (ec_manifest_digest c) m payload (dv_created_at v) = Inr v \<and>
        build_execution_candidate (ec_validation_digest c) v (ec_canary_digest c) r (ec_manifest_digest c) m
          (scope_of spec) (ec_ready_at c) (ds_allowed_runners spec) = Inr c) \<and>
     map_of (pe_destinations env) (ps_destination_id (ec_scope c)) = Some spec"

text \<open>An archived approval of exactly this candidate, whose event is in the outbox.\<close>

definition approval ::
  "promotion_env \<Rightarrow> string \<Rightarrow> execution_candidate \<Rightarrow> signed_decision list \<Rightarrow> signed_decision \<Rightarrow> bool" where
  "approval env k c ss s \<longleftrightarrow>
     archive_inv (pe_secret env) ss \<and> pe_archive env = archive_of ss \<and> s \<in> set ss \<and>
     (\<forall>t \<in> set ss. execution_about k t \<longrightarrow> t = s) \<and>
     (\<exists>f a e. sd_decision s = ExecutionDecision f a \<and> af_candidate_digest a = k \<and>
        df_action f = ''approve_for_live_execution'' \<and> df_reason_code f = ''operator_approved_live_execution'' \<and>
        candidate_matches_decision c f a \<and> find_event (pe_outbox env) (df_event_digest f) = Inr (ExecutionReady e))"

text \<open>Nothing is in the way: no drift, no other promoter, plain directories, and the artifact's write succeeds.\<close>

definition undisturbed :: "promotion_env \<Rightarrow> execution_candidate \<Rightarrow> bool" where
  "undisturbed env c \<longleftrightarrow>
     pe_probe env = Inr (ec_target_hashes c) \<and> pe_probe_locked env = Inr (ec_target_hashes c) \<and>
     pe_receipts_look env = DirPlain \<and> pe_lock_first env = LockFree \<and> pe_root_look env = DirPlain \<and>
     pe_inbox_look env = DirPlain \<and> pe_publish_write env = WriteOk"

lemma filter_unique: "x \<in> set xs \<Longrightarrow> distinct xs \<Longrightarrow> P x \<Longrightarrow> (\<And>y. y \<in> set xs \<Longrightarrow> P y \<Longrightarrow> y = x) \<Longrightarrow> filter P xs = [x]"
proof (induction xs)
  case (Cons y ys)
  show ?case
  proof (cases "y = x")
    case True
    have "\<not> P z" if "z \<in> set ys" for z
    proof
      assume "P z"
      with Cons.prems(4) [of z] that have "z = x" by simp
      with that True Cons.prems(2) show False by simp
    qed
    then have "filter P ys = []" by (simp add: filter_empty_conv)
    with True Cons.prems(3) show ?thesis by simp
  next
    case False
    have "filter P ys = [x]"
    proof (rule Cons.IH)
      show "x \<in> set ys" using Cons.prems(1) False by simp
      show "distinct ys" using Cons.prems(2) by simp
      show "P x" by (rule Cons.prems(3))
      show "z = x" if "z \<in> set ys" "P z" for z using Cons.prems(4) [of z] that by simp
    qed
    moreover have "\<not> P y" using Cons.prems(4) [of y] False by fastforce
    ultimately show ?thesis by simp
  qed
qed simp

lemma approval_found:
  assumes "approval env k c ss s"
  shows "\<exists>f a. approved_decision env k = Inr (s, f, a) \<and> candidate_matches_decision c f a"
proof -
  note A = assms [unfolded approval_def]
  obtain f a e where s: "sd_decision s = ExecutionDecision f a" "af_candidate_digest a = k"
    "df_action f = ''approve_for_live_execution''" "df_reason_code f = ''operator_approved_live_execution''"
    "candidate_matches_decision c f a" "find_event (pe_outbox env) (df_event_digest f) = Inr (ExecutionReady e)"
    using A by blast
  have inv: "archive_inv (pe_secret env) ss" and s_in: "s \<in> set ss" using A by blast+
  obtain records where r: "read_archive (pe_secret env) (archive_of ss) = Inr records" "set (map fst records) = set ss"
    "distinct (map decided_event (map fst records))" "\<forall>(s, name) \<in> set records. name = decision_name s"
    by (rule read_archive_of [OF inv])
  have "filter (execution_about k) (map fst records) = [s]"
  proof (rule filter_unique)
    show "s \<in> set (map fst records)" using s_in r(2) by blast
    show "distinct (map fst records)" using r(3) unfolding distinct_map by blast
    show "execution_about k s" by (simp add: execution_about_def s(1,2))
    show "y = s" if "y \<in> set (map fst records)" "execution_about k y" for y using that r(2) A by blast
  qed
  then have "decision_for_candidate (map fst records) k = Inr s" by (simp add: decision_for_candidate_def)
  moreover have "verified_decisions (pe_secret env) (pe_archive env) = Inr (map fst records)"
    using A r(1) by (simp add: verified_decisions_def)
  moreover have "reimport env s = Inr ()"
  proof -
    have "authentic (pe_secret env) s" using inv s_in by (simp add: archive_inv_def list_all_iff)
    from import_decided [OF inv this s_in refl] show ?thesis using A by (simp add: reimport_def)
  qed
  moreover have "require_approval env s = Inr (s, f, a)" by (simp add: require_approval_def s(1,3,4,6))
  ultimately have "approved_decision env k = Inr (s, f, a)" by (simp add: approved_decision_def)
  with s(5) show ?thesis by blast
qed

lemma evidence_reproduces:
  assumes "evidence env k c payload spec" "undisturbed env c" "candidate_matches_decision c f a"
  shows "reproduce env k f a = Inr (c, payload, spec)"
proof -
  obtain v r m e where x: "get_validation (pe_authority env) (ec_validation_digest c) = Inr v"
    "get_report (pe_authority env) (ec_canary_digest c) = Inr r"
    "get_manifest (pe_artifacts env) (ec_manifest_digest c) = Inr m" "get_payload (pe_artifacts env) m = Inr payload"
    "read_envelope (pe_quarantine env) (ec_envelope_digest c) = Inr e"
    and v: "build_validation_report (ec_envelope_digest c) e (ec_manifest_digest c) m payload (dv_created_at v) = Inr v"
    and b: "build_execution_candidate (ec_validation_digest c) v (ec_canary_digest c) r (ec_manifest_digest c) m
      (scope_of spec) (ec_ready_at c) (ds_allowed_runners spec) = Inr c"
    using assms(1) unfolding evidence_def by blast
  have c: "get_candidate (pe_authority env) k = Inr c" "map_of (pe_destinations env) (ps_destination_id (ec_scope c)) = Some spec"
    using assms(1) unfolding evidence_def by blast+
  have "valid_canary r" using x(2) by (simp add: get_report_def authority_get_Inr)
  note built = built_candidate [OF b this]
  have scope: "ec_scope c = scope_of spec" "valid_scope (scope_of spec)"
    using built by (metis valid_candidate_def)+
  note dest = c(2) [unfolded scope(1)]
  have probe: "check_probe (pe_probe env) (ec_target_hashes c) message = Inr ()" for message
    using assms(2) by (simp add: check_probe_def undisturbed_def)
  have "recheck env c v r m payload e = Inr spec"
    unfolding recheck_def v by (simp add: scope dest b probe)
  then show ?thesis using c(1) x assms(3) by (simp add: reproduce_def)
qed

section \<open>Property\<close>

definition destination_inbox :: "promotion_state \<Rightarrow> destination_spec \<Rightarrow> directory" where
  "destination_inbox st spec = pm_inboxes st (pa_resolved (ds_inbox spec))"

lemma publication:
  assumes "evidence env k c payload spec" "approval env k c ss s" "undisturbed env c"
    and "receipts_of (pm_receipts st) = Inr rs" "k \<notin> rc_candidate_digest ` set rs"
    and "(ds_destination_id spec, ec_artifact_digest c) \<notin> published_entry ` set rs"
    and "\<not> exists_name (destination_inbox st spec) (seed_name (ec_artifact_digest c))"
    and "write_receipt (pe_receipt_write env) k (receipt_for k s c spec (entry_id_of (ec_artifact_digest c)) (pe_now env))
      (pm_receipts st) = (result, receipts)"
  shows "promote env k st =
    (result, st\<lparr>pm_receipts := receipts,
        pm_inboxes := (pm_inboxes st)(pa_resolved (ds_inbox spec) :=
          create_file (destination_inbox st spec) (seed_name (ec_artifact_digest c)) payload)\<rparr>)"
proof -
  let ?d = "destination_inbox st spec" and ?name = "seed_name (ec_artifact_digest c)"
  let ?r = "receipt_for k s c spec (entry_id_of (ec_artifact_digest c)) (pe_now env)"
  obtain f a where fa: "approved_decision env k = Inr (s, f, a)" "candidate_matches_decision c f a"
    using approval_found [OF assms(2)] by blast
  have rep: "reproduce env k f a = Inr (c, payload, spec)" by (rule evidence_reproduces [OF assms(1,3) fa(2)])
  have pub: "publishable env k c payload spec" by (rule reproduced_publishable [OF fa(1) rep])
  have c: "valid_candidate c" using assms(1) by (simp add: evidence_def get_candidate_def authority_get_Inr)
  have scope: "ec_scope c = scope_of spec" "int (length payload) = ec_artifact_size c"
    using pub unfolding publishable_def by blast+
  have size: "int (length payload) \<le> 2048" using c scope(2) by (simp add: valid_candidate_def)
  have free: "pe_receipts_look env = DirPlain" "pe_lock_first env = LockFree" "pe_root_look env = DirPlain"
    "pe_inbox_look env = DirPlain" "pe_publish_write env = WriteOk"
    using assms(3) by (simp_all add: undisturbed_def)
  have "verify_published (create_file ?d ?name payload) ?name payload message = Inr ()" for message
    using assms(7) size by (simp add: verify_published_def read_promotion_def map_of_create_file)
  then have published: "publish DirPlain DirPlain WriteOk payload (ec_artifact_digest c) ?d =
      (Inr (entry_id_of (ec_artifact_digest c)), create_file ?d ?name payload)"
    using assms(7) by (simp add: publish_def Let_def require_plain_directory_def)
  have "valid_scope (scope_of spec)" "valid_target_hashes (ec_target_hashes c)"
    using c unfolding valid_candidate_def scope(1) by blast+
  then have receipt: "valid_receipt ?r"
    by (simp add: valid_receipt_def receipt_for_def is_Timestamp_iso_seconds_z valid_scope_def scope_of_def)
  have scan: "scan_receipts k (ds_destination_id spec) (ec_artifact_digest c) rs = Inr None"
    unfolding scan_None using assms(5,6) by blast
  have probe: "check_probe (pe_probe_locked env) (ec_target_hashes c) message = Inr ()" for message
    using assms(3) by (simp add: check_probe_def undisturbed_def)
  have "promote_locked env k s c payload spec st = (result,
      st\<lparr>pm_receipts := receipts,
        pm_inboxes := (pm_inboxes st)(pa_resolved (ds_inbox spec) := create_file ?d ?name payload)\<rparr>)"
    using published receipt assms(8)
    by (simp add: promote_locked_def Let_def assms(4) scan probe free destination_inbox_def)
  then show ?thesis
    by (simp add: promote_def fa(1) rep free require_plain_directory_def acquire_lock_def)
qed

text \<open>
  C1: Nothing reaches the fleet unapproved.  Whenever a promotion changes an inbox, whatever else
  happened and however it ended, it added one new file, the candidate's own bytes under their digest,
  to the inbox of the destination in the signed scope; and all of the authority behind it held then:
  the signed approval of live execution of exactly this candidate, reproducible reports, a canary that
  passed under a runner the destination allows, and a target that had not drifted, seen twice.
\<close>

theorem fleet_receives_only_approved:
  assumes "promote env k st = (result, st')" "pm_inboxes st' \<noteq> pm_inboxes st"
  shows "\<exists>c payload spec. publishable env k c payload spec \<and> pe_probe_locked env = Inr (ec_target_hashes c) \<and>
    \<not> exists_name (pm_inboxes st (pa_resolved (ds_inbox spec))) (seed_name (ec_artifact_digest c)) \<and>
    pm_inboxes st' = (pm_inboxes st)(pa_resolved (ds_inbox spec) :=
      create_file (pm_inboxes st (pa_resolved (ds_inbox spec))) (seed_name (ec_artifact_digest c)) payload)"
  using assms(1)
proof (cases rule: promote_result)
  case refused
  with assms(2) show ?thesis by simp
next
  case (locked s c payload spec)
  with promote_locked_inboxes [OF locked(2) assms(2)] show ?thesis by blast
qed

text \<open>
  One receipt per candidate and one publication per artifact and destination.  In every state
  that promotions reach from an empty receipt directory, if the receipts can be listed then no two are
  for the same candidate and no two are for the same artifact at the same destination.
\<close>

lemma receipts_are_unique:
  assumes "promotion_step\<^sup>*\<^sup>* st st'" "pm_receipts st = []" "receipts_of (pm_receipts st') = Inr rs"
  shows "distinct (map rc_candidate_digest rs) \<and> distinct (map published_entry rs)"
proof -
  obtain rs' where inv: "promotion_inv rs' (pm_receipts st')"
    using promotions_extend [OF assms(1)] promotion_inv_Nil assms(2) by metis
  have "mset rs = mset rs'" by (rule inv_readable(2) [OF inv assms(3)])
  then have "mset (map rc_candidate_digest rs) = mset (map rc_candidate_digest rs')"
    "mset (map published_entry rs) = mset (map published_entry rs')" by simp_all
  with inv show ?thesis unfolding promotion_inv_def receipt_log_def by (metis mset_eq_imp_distinct_iff)
qed

text \<open>
  C30: A promotion happens once.  After a promotion of a candidate returned its receipt, and whatever
  promotions followed, promoting the candidate again either raises or returns that same receipt, and
  it changes nothing.
\<close>

theorem promoted_once:
  assumes "promotion_step\<^sup>*\<^sup>* st0 st" "pm_receipts st0 = []" "promote env k st = (Inr r, st')"
    and "promotion_step\<^sup>*\<^sup>* st' st''" "promote env' k st'' = (result, st3)"
  shows "st3 = st'' \<and> (\<forall>x. result = Inr x \<longrightarrow> x = r)"
proof -
  obtain rs where rs: "promotion_inv rs (pm_receipts st)"
    using promotions_extend [OF assms(1)] promotion_inv_Nil assms(2) by metis
  obtain rs' where rs': "promotion_inv rs' (pm_receipts st')" "r \<in> set rs'" "rc_candidate_digest r = k"
    using promote_receipts [OF rs assms(3)] by blast
  obtain rs'' where "promotion_inv rs'' (pm_receipts st'')" "set rs' \<subseteq> set rs''"
    by (rule promotions_extend [OF assms(4) rs'(1)])
  with promoted_again [of rs'' st'' r env' result st3] rs'(2,3) assms(5) show ?thesis by blast
qed

text \<open>
  C31: A receipt that is only partly written is not removed, and it ends all publication: from then
  on every promotion, of any candidate and in any environment, raises and changes nothing.
\<close>

theorem truncated_receipt_blocks:
  assumes "promote env k st = (result, st')" "pm_receipts st' = pm_receipts st @ [(name, node)]"
    and "truncated_receipt name node" "\<not> exists_name (pm_receipts st) name"
    and "promotion_step\<^sup>*\<^sup>* st' st''" "promote env' k' st'' = (result', st3)"
  shows "st'' = st' \<and> st3 = st' \<and> (\<exists>e. result' = Inl e)"
proof -
  have "map_of (pm_receipts st') name = Some node"
    using assms(2,4) by (simp add: exists_name_def map_add_def)
  then obtain e where e: "receipts_of (pm_receipts st') = Inl e" using truncated_unreadable [OF assms(3)] by blast
  have blocked: "s = st' \<and> (\<exists>e. res = Inl e)" if "promote env k st' = (res, s)" for env k res s
    using that
  proof (cases rule: promote_result)
    case (locked s0 c payload spec)
    with e show ?thesis by (auto simp: promote_locked_def)
  qed simp
  have "st'' = st'" using assms(5)
  proof (induction rule: rtranclp_induct)
    case (step y z)
    then show ?case using blocked by (auto elim: promotion_stepE)
  qed simp
  with blocked assms(6) show ?thesis by blast
qed

text \<open>
  C10: An approved candidate gets out.  When a candidate's evidence is in the stores, the archive holds
  one decision about it and it approves live execution, the approval event is in the outbox, no earlier
  receipt concerns the candidate or its artifact, the target has not drifted and nothing disturbs the
  directories and writes, then \<open>promote\<close> returns a receipt for it, the receipt is on disk, and the inbox of its
  destination holds the candidate's bytes under their digest.
\<close>

theorem approved_candidate_is_published:
  assumes "evidence env k c payload spec" "approval env k c ss s" "undisturbed env c"
    and "receipts_of (pm_receipts st) = Inr rs" "k \<notin> rc_candidate_digest ` set rs"
    and "(ds_destination_id spec, ec_artifact_digest c) \<notin> published_entry ` set rs"
    and "\<not> exists_name (pm_receipts st) (receipt_name k)"
    and "\<not> exists_name (destination_inbox st spec) (seed_name (ec_artifact_digest c))"
    and "pe_receipt_write env = ReceiptOk"
  shows "\<exists>r st'. promote env k st = (Inr r, st') \<and> rc_candidate_digest r = k \<and>
    rc_decision_digest r = content_digest (signed_payload s) \<and>
    map_of (pm_receipts st') (receipt_name k) = Some (RegularFile (receipt_payload r)) \<and>
    map_of (destination_inbox st' spec) (seed_name (ec_artifact_digest c)) = Some (RegularFile payload)"
proof -
  let ?r = "receipt_for k s c spec (entry_id_of (ec_artifact_digest c)) (pe_now env)"
  have "write_receipt (pe_receipt_write env) k ?r (pm_receipts st) =
      (Inr ?r, create_file (pm_receipts st) (receipt_name k) (receipt_payload ?r))"
    using assms(7,9) by (simp add: write_receipt_def Let_def)
  from publication [OF assms(1-6,8) this] assms(7,8) show ?thesis
    by (simp add: receipt_for_def map_of_create_file destination_inbox_def)
qed

section \<open>A world with one approved candidate\<close>

definition probe_destination :: destination_spec where
  "probe_destination =
     \<lparr>ds_destination_id = ''native_ai_sync'', ds_campaign_id = ''campaign'', ds_worker_set = NATIVE_STABLE,
      ds_inbox = \<lparr>pa_absolute = True, pa_resolved = [''srv'', ''fleet'', ''ai'']\<rparr>,
      ds_allowed_root = \<lparr>pa_absolute = True, pa_resolved = [''srv'', ''fleet'']\<rparr>,
      ds_allowed_runners = {content_digest [7]}\<rparr>"

lemma probe_destination_made: "make_destination probe_destination = Inr probe_destination"
  by (simp add: make_destination_def check_promotion_def destination_checks_def probe_destination_def
      worker_destination_def strictly_below_def)

lemma probe_destination_scope: "scope_of probe_destination = probe_scope"
  by (simp add: scope_of_def probe_destination_def probe_scope_def)

lemma candidate_fields:
  "build_execution_candidate vd v kd r mid m scope ready_at allowed = Inr c \<Longrightarrow>
    ec_validation_digest c = vd \<and> ec_canary_digest c = kd \<and> ec_manifest_digest c = mid \<and>
    ec_envelope_digest c = dv_envelope_digest v \<and> ec_ready_at c = ready_at \<and> ec_scope c = scope"
  by (auto simp: build_execution_candidate_def Let_def split: if_splits)

lemma validation_created:
  "build_validation_report ed e mid m payload created_text = Inr v \<Longrightarrow> dv_created_at v = created_text \<and> valid_report v"
  by (auto simp: build_validation_report_def Let_def split: sum.splits if_splits)

text \<open>The candidate and everything it rests on, from the compiler's output to the canary report.\<close>

lemma probe_evidence:
  obtains au st q k c payload where
    "\<And>env. pe_authority env = au \<Longrightarrow> pe_artifacts env = st \<Longrightarrow> pe_quarantine env = q \<Longrightarrow>
      pe_destinations env = [(''native_ai_sync'', probe_destination)] \<Longrightarrow> evidence env k c payload probe_destination"
    "valid_candidate c" "k = model_digest dump_candidate c"
proof -
  obtain out mid st where out: "compile_program [] (probe_program linked_steps) probe_contract = Inr out"
    and put: "artifact_put WriteOk WriteOk out probe_binding \<lparr>as_payloads = [], as_manifests = []\<rparr> = (Inr mid, st)"
    and mid: "is_digest mid" by (rule probe_artifact_put)
  let ?e = "probe_envelope mid" and ?m = "manifest_of out probe_binding" and ?created = "''2026-01-02T03:05:00Z''"
  have created: "is_Timestamp ?created" "is_Timestamp ''2026-01-02T03:08:00Z''" by code_simp+
  have "regular_only (as_manifests \<lparr>as_payloads = [], as_manifests = []\<rparr>)" by simp
  from stored_artifact_report [OF out put this probe_envelope_valid [OF mid], where created_at = ?created]
  obtain v where stored: "get_manifest st mid = Inr ?m" "get_payload st ?m = Inr (cp_payload out)"
    and v: "build_validation_report (model_digest dump_envelope ?e) ?e mid ?m (cp_payload out) ?created = Inr v"
    using created probe_envelope_checks [of mid] by (simp add: probe_envelope_def probe_binding_def) blast
  obtain hex q where q: "quarantine_put WriteOk (dump_envelope ?e) [] = Inr (hex, q)"
    by (simp add: quarantine_put_def Let_def exists_name_def)
  let ?ed = "model_digest dump_envelope ?e"
  have hex: "removeprefix ''sha256:'' ?ed = hex"
    using q by (auto simp: quarantine_put_Inr model_digest_def)
  have "is_object (dump_envelope ?e)" by (simp add: dump_envelope_def is_object_def)
  then have "quarantine_storable 2097152 (dump_envelope ?e)"
    using probe_envelope_size [OF mid] by (simp add: quarantine_storable_def)
  then have "quarantine_get 2097152 q hex = Inr (norm_json (dump_envelope ?e))" using shadow.put_get q regular_only_Nil by blast
  then have envelope: "read_envelope q ?ed = Inr ?e"
    using probe_envelope_valid [OF mid] by (simp add: read_envelope_def hex model_round_trip)
  note put' = artifact_put_Inr [OF put]
  have m: "mid = model_digest dump_manifest ?m" "valid_manifest ?m"
    using put' by (auto simp: manifest_digest_def model_digest_def)
  have digests: "is_digest ?ed" "is_digest (model_digest dump_report v)" by (simp_all add: model_digest_def)
  let ?b = "probe_bridge q st"
  obtain r where r: "run_canary (\<lambda>_. Members clean_measurement) (binding_of ?ed (model_digest dump_report v) mid ?m)
      (br_config ?b) (ce_runner probe_env) (ce_started probe_env) (ce_fleet_before probe_env) (ce_result probe_env)
      (ce_fleet_after probe_env) (ce_finished probe_env) = Inr r"
    "cr_outcome r = CANARY_PASSED" "cr_runner_hash r \<in> set (br_allowed_runners ?b)" "cr_envelope_digest r = ?ed"
    "cr_validation_digest r = model_digest dump_report v" "cr_manifest_digest r = mid"
    "cr_artifact_digest r = am_payload_digest ?m" "cr_target_hashes r = am_target_hashes ?m"
    using clean_canary [OF probe_env_clean [of q st] _ digests mid m(2)] probe_run_ready(1) by (auto simp: probe_bridge_def)
  have runner: "cr_runner_hash r \<in> ds_allowed_runners probe_destination"
    using r(3) by (simp add: probe_bridge_def probe_destination_def)
  note fields = validation_fields [OF v]
  obtain c where c: "build_execution_candidate (model_digest dump_report v) v (model_digest dump_canary r) r mid ?m
      probe_scope ''2026-01-02T03:08:00Z'' (ds_allowed_runners probe_destination) = Inr c" "valid_candidate c"
    using clean_candidate [OF m(2) mid m(1) probe_scope_valid created(2) refl refl digests(1) _ _ _ _ _ r(2) runner r(4-8)] fields
    by blast
  note cf = candidate_fields [OF c(1)]
  have rv: "valid_canary r" using r(1) by (rule run_canary_valid)
  note vv = validation_created [OF v]
  obtain d1 d2 d3 where d: "authority_put dump_report WriteOk v [] = Inr (model_digest dump_report v, d1)"
    "authority_put dump_canary WriteOk r [] = Inr (model_digest dump_canary r, d2)"
    "authority_put dump_candidate WriteOk c [] = Inr (model_digest dump_candidate c, d3)"
    using fresh_put [of dump_report v] fresh_put [of dump_canary r] fresh_put [of dump_candidate c] by blast
  let ?au = "\<lparr>au_validations = d1, au_reports = d2, au_candidates = d3\<rparr>"
  have au: "get_validation ?au (model_digest dump_report v) = Inr v" "get_report ?au (model_digest dump_canary r) = Inr r"
    "get_candidate ?au (model_digest dump_candidate c) = Inr c"
    using validation_reports.put_get [OF conjunct2 [OF vv] regular_only_Nil d(1)] canary_reports.put_get [OF rv regular_only_Nil d(2)]
      candidates.put_get [OF c(2) regular_only_Nil d(3)]
    by (simp_all add: get_validation_def get_report_def get_candidate_def)
  have ed: "ec_envelope_digest c = ?ed" using cf fields by simp
  show thesis
  proof (rule that [of ?au st q "model_digest dump_candidate c" c "cp_payload out"])
    fix env :: promotion_env
    assume env: "pe_authority env = ?au" "pe_artifacts env = st" "pe_quarantine env = q"
      "pe_destinations env = [(''native_ai_sync'', probe_destination)]"
    have built: "build_validation_report (ec_envelope_digest c) ?e (ec_manifest_digest c) ?m (cp_payload out) (dv_created_at v) = Inr v"
      "build_execution_candidate (ec_validation_digest c) v (ec_canary_digest c) r (ec_manifest_digest c) ?m
        (scope_of probe_destination) (ec_ready_at c) (ds_allowed_runners probe_destination) = Inr c"
      using v c(1) cf vv ed by (simp_all add: probe_destination_scope)
    have "map_of (pe_destinations env) (ps_destination_id (ec_scope c)) = Some probe_destination"
      using cf by (simp add: env(4) probe_scope_def)
    with built au stored envelope cf ed show "evidence env (model_digest dump_candidate c) c (cp_payload out) probe_destination"
      unfolding evidence_def env by metis
  qed (use c(2) in simp_all)
qed

text \<open>Its approval event, and the operator's signed approval of it.\<close>

definition probe_challenge :: "string \<Rightarrow> execution_candidate \<Rightarrow> challenge" where
  "probe_challenge k c =
     \<lparr>ch_nonce = sha256 [], ch_human_code = ''ABCDEFGH'', ch_expires_at = ''2026-07-01T00:30:00Z'',
      ch_binding_digest =
        execution_approval_binding_digest k (ec_envelope_digest c) (ec_manifest_digest c) (ec_artifact_digest c)
          (ec_artifact_size c) (ec_validation_digest c) (ec_canary_digest c) (ec_target_hashes c) (ec_scope c)
          (sha256 []) ''ABCDEFGH'' ''2026-07-01T00:30:00Z''\<rparr>"

definition probe_ready :: "string \<Rightarrow> execution_candidate \<Rightarrow> ready_event" where
  "probe_ready k c =
     \<lparr>rd_created_at = ''2026-07-01T00:00:00Z'', rd_candidate_digest = k, rd_envelope_digest = ec_envelope_digest c,
      rd_manifest_digest = ec_manifest_digest c, rd_artifact_digest = ec_artifact_digest c,
      rd_artifact_size = ec_artifact_size c, rd_validation_digest = ec_validation_digest c,
      rd_canary_digest = ec_canary_digest c, rd_target_hashes = ec_target_hashes c, rd_scope = ec_scope c,
      rd_approval = probe_challenge k c\<rparr>"

definition probe_fields :: "string \<Rightarrow> execution_candidate \<Rightarrow> decision_fields" where
  "probe_fields k c =
     \<lparr>df_signer_id = ''operator:local-v1'', df_channel = ''operator'',
      df_event_digest = approval_event_digest (ExecutionReady (probe_ready k c)),
      df_envelope_digest = ec_envelope_digest c, df_target_hashes = ec_target_hashes c,
      df_binding_digest = ch_binding_digest (probe_challenge k c), df_nonce = sha256 [], df_human_code = ''ABCDEFGH'',
      df_sender_binding = content_digest [9], df_action = ''approve_for_live_execution'',
      df_reason_code = ''operator_approved_live_execution'', df_issued_at = ''2026-07-01T00:10:00Z'',
      df_expires_at = ''2026-07-01T00:30:00Z''\<rparr>"

definition probe_artifact :: "string \<Rightarrow> execution_candidate \<Rightarrow> artifact_fields" where
  "probe_artifact k c =
     \<lparr>af_candidate_digest = k, af_manifest_digest = ec_manifest_digest c, af_artifact_digest = ec_artifact_digest c,
      af_artifact_size = ec_artifact_size c, af_validation_digest = ec_validation_digest c,
      af_canary_digest = ec_canary_digest c, af_scope = ec_scope c\<rparr>"

definition probe_signed :: "string \<Rightarrow> execution_candidate \<Rightarrow> signed_decision" where
  "probe_signed k c =
     (let x = ExecutionDecision (probe_fields k c) (probe_artifact k c)
      in \<lparr>sd_decision = x, sd_signature = hmac_sha256 sample_secret (canonical_json (dump_decision x))\<rparr>)"

lemma probe_binding_digest: "is_digest (ch_binding_digest (probe_challenge k c))"
  by (simp add: probe_challenge_def execution_approval_binding_digest_def json_digest_is_digest)

lemma probe_ready_valid:
  assumes "valid_candidate c" "is_digest k"
  shows "valid_event (ExecutionReady (probe_ready k c))"
proof -
  have "valid_challenge (probe_challenge k c)"
    using sample_times probe_binding_digest [of k c]
    by (simp add: valid_challenge_def is_Nonce256_def) (simp add: probe_challenge_def is_hex64_sha256)
  moreover have "challenge_binds_execution (probe_ready k c)"
    by (simp add: challenge_binds_execution_def probe_ready_def) (simp add: probe_challenge_def)
  ultimately show ?thesis
    using assms sample_times by (simp add: valid_ready_def probe_ready_def valid_candidate_def)
qed

lemma probe_ready_size:
  assumes "valid_candidate c" "is_digest k"
  shows "length (event_payload (ExecutionReady (probe_ready k c))) \<le> 2097152"
proof -
  have "length (event_payload (ExecutionReady (probe_ready k c))) \<le> json_size (dump_ready (probe_ready k c))"
    unfolding event_payload_def dump_event.simps by (rule canonical_size)
  also have "\<dots> \<le> 20000"
  proof -
    have "length (ch_binding_digest (probe_challenge k c)) = 71" using probe_binding_digest by (rule length_of_digest)
    moreover have "length (sha256 []) = 64" using is_hex64_sha256 [of "[]"] by (simp add: is_hex64_def)
    moreover have "json_size (dump_target_hashes (ec_target_hashes c)) \<le> 2400"
      using assms(1) by (intro decision_hashes_size) (simp add: valid_candidate_def)
    moreover have "length (show_int (ec_artifact_size c)) \<le> 4"
      using assms(1) by (intro show_int_size) (simp_all add: valid_candidate_def)
    moreover have "length (worker_value (ps_worker_set (ec_scope c))) \<le> 13"
      by (cases "ps_worker_set (ec_scope c)") simp_all
    moreover have "length (ps_destination_id (ec_scope c)) \<le> 14" "length (ps_campaign_id (ec_scope c)) \<le> 96"
      using assms(1) by (auto simp: valid_candidate_def valid_scope_def is_Identifier_def)
    moreover have "length (show_int 1) \<le> 1" by (rule show_int_size) simp_all
    moreover have "length k = 71" "length (ec_envelope_digest c) = 71" "length (ec_manifest_digest c) = 71"
      "length (ec_artifact_digest c) = 71" "length (ec_validation_digest c) = 71" "length (ec_canary_digest c) = 71"
      using assms by (simp_all add: valid_candidate_def length_of_digest)
    ultimately show ?thesis
      by (simp add: dump_ready_def dump_execution_approval_def dump_scope_def probe_ready_def) (simp add: probe_challenge_def)
  qed
  finally show ?thesis by simp
qed

lemma probe_signed_authentic:
  assumes "valid_candidate c" "is_digest k"
  shows "authentic sample_secret (probe_signed k c)"
proof -
  have "valid_decision_fields (probe_fields k c)"
    using assms sample_times probe_binding_digest
    by (simp add: valid_decision_fields_def probe_fields_def approval_event_is_digest is_Nonce256_def is_hex64_sha256
        valid_candidate_def)
  moreover have "valid_artifact_fields (probe_artifact k c)"
    using assms by (simp add: valid_artifact_fields_def probe_artifact_def valid_candidate_def)
  ultimately have "valid_decision (ExecutionDecision (probe_fields k c) (probe_artifact k c))"
    by (simp add: probe_fields_def)
  then show ?thesis
    by (simp add: authentic_def valid_signed_def probe_signed_def Let_def hmac_sha256_def is_hex64_sha256
        verify_signature_def decision_signature_def check_key_def sample_secret_def)
qed

lemma probe_approval:
  assumes "valid_candidate c" "is_digest k"
    and "pe_secret env = sample_secret" "pe_archive env = archive_of [probe_signed k c]"
    and "pe_outbox env = [(event_name (ExecutionReady (probe_ready k c)),
      RegularFile (event_payload (ExecutionReady (probe_ready k c))))]"
  shows "approval env k c [probe_signed k c] (probe_signed k c)"
proof -
  let ?e = "ExecutionReady (probe_ready k c)"
  have decision: "sd_decision (probe_signed k c) = ExecutionDecision (probe_fields k c) (probe_artifact k c)"
    by (simp add: probe_signed_def Let_def)
  have inv: "archive_inv (pe_secret env) [probe_signed k c]"
    using probe_signed_authentic [OF assms(1,2)] by (simp add: archive_inv_def assms(3))
  have "outbox_events (pe_outbox env) = Inr [?e]"
    unfolding assms(5) by (rule read_event_single [OF probe_ready_valid [OF assms(1,2)] probe_ready_size [OF assms(1,2)]])
  then have "find_event (pe_outbox env) (df_event_digest (probe_fields k c)) = Inr ?e"
    by (simp add: find_event_def) (simp add: probe_fields_def)
  moreover have "candidate_matches_decision c (probe_fields k c) (probe_artifact k c)"
    by (simp add: candidate_matches_decision_def probe_fields_def probe_artifact_def)
  ultimately show ?thesis
    using inv decision by (auto simp: approval_def assms(4) probe_fields_def probe_artifact_def)
qed

definition probe_promotion ::
  "authority_store \<Rightarrow> artifact_store \<Rightarrow> directory \<Rightarrow> string \<Rightarrow> execution_candidate \<Rightarrow> receipt_outcome \<Rightarrow> promotion_env" where
  "probe_promotion au st q k c w =
     \<lparr>pe_secret = sample_secret, pe_archive = archive_of [probe_signed k c],
      pe_outbox = [(event_name (ExecutionReady (probe_ready k c)),
        RegularFile (event_payload (ExecutionReady (probe_ready k c))))],
      pe_quarantine = q, pe_artifacts = st, pe_authority = au,
      pe_destinations = [(''native_ai_sync'', probe_destination)], pe_now = 63918461500000000,
      pe_probe = Inr (ec_target_hashes c), pe_probe_locked = Inr (ec_target_hashes c), pe_receipts_look = DirPlain,
      pe_lock_first = LockFree, pe_lock_second = LockFree, pe_root_look = DirPlain, pe_inbox_look = DirPlain,
      pe_publish_write = WriteOk, pe_receipt_write = w\<rparr>"

definition probe_state :: promotion_state where
  "probe_state = \<lparr>pm_receipts = [], pm_inboxes = \<lambda>_. []\<rparr>"

lemma probe_world:
  obtains env k c payload s where "\<And>w. evidence (env w) k c payload probe_destination" "\<And>w. approval (env w) k c [s] s"
    "\<And>w. undisturbed (env w) c" "\<And>w. pe_receipt_write (env w) = w"
proof -
  obtain au st q k c payload where e: "\<And>env. pe_authority env = au \<Longrightarrow> pe_artifacts env = st \<Longrightarrow> pe_quarantine env = q \<Longrightarrow>
      pe_destinations env = [(''native_ai_sync'', probe_destination)] \<Longrightarrow> evidence env k c payload probe_destination"
    and c: "valid_candidate c" "k = model_digest dump_candidate c" by (rule probe_evidence) blast
  have k: "is_digest k" by (simp add: c(2) model_digest_def)
  show thesis
  proof (rule that [of "probe_promotion au st q k c" k c payload "probe_signed k c"])
    show "evidence (probe_promotion au st q k c w) k c payload probe_destination" for w
      by (rule e) (simp_all add: probe_promotion_def)
    show "approval (probe_promotion au st q k c w) k c [probe_signed k c] (probe_signed k c)" for w
      by (rule probe_approval [OF c(1) k]) (simp_all add: probe_promotion_def)
    show "undisturbed (probe_promotion au st q k c w) c" "pe_receipt_write (probe_promotion au st q k c w) = w" for w
      by (simp_all add: undisturbed_def probe_promotion_def)
  qed
qed

lemma probe_state_empty:
  "receipts_of (pm_receipts probe_state) = Inr []" "\<not> exists_name (pm_receipts probe_state) name"
  "\<not> exists_name (destination_inbox probe_state spec) name" "pm_receipts probe_state = []"
  by (simp_all add: receipts_of_def probe_state_def exists_name_def destination_inbox_def)

lemma receipt_size:
  assumes "valid_candidate c" "is_digest k" "is_digest (decided_event s)"
  shows "int (length (receipt_payload (receipt_for k s c probe_destination (entry_id_of (ec_artifact_digest c)) current))) \<le> 65536"
proof -
  let ?r = "receipt_for k s c probe_destination (entry_id_of (ec_artifact_digest c)) current"
  have "length (receipt_payload ?r) \<le> json_size (dump_receipt ?r)" unfolding receipt_payload_def by (rule canonical_size)
  also have "\<dots> \<le> 65536"
  proof -
    have "json_size (dump_target_hashes (ec_target_hashes c)) \<le> 2400"
      using assms(1) by (intro decision_hashes_size) (simp add: valid_candidate_def)
    moreover have "length (entry_id_of (ec_artifact_digest c)) \<le> 29" by (simp add: entry_id_of_def)
    moreover have "length (iso_seconds_z current) \<le> 35" using is_Timestamp_iso_seconds_z [of current] by (simp add: is_Timestamp_def)
    moreover have "length (ds_destination_id probe_destination) \<le> 14" by (simp add: probe_destination_def)
    moreover have "length k = 71" "length (decided_event s) = 71" "length (ec_envelope_digest c) = 71"
      "length (ec_manifest_digest c) = 71" "length (ec_artifact_digest c) = 71" "length (ec_validation_digest c) = 71"
      "length (ec_canary_digest c) = 71"
      using assms by (simp_all add: valid_candidate_def length_of_digest)
    ultimately show ?thesis by (simp add: dump_receipt_def receipt_for_def)
  qed
  finally show ?thesis by simp
qed

lemma single_receipt_listed:
  assumes "valid_receipt r" "is_digest (rc_candidate_digest r)" "int (length (receipt_payload r)) \<le> 65536"
  shows "receipts_of [receipt_file r] = Inr [r]"
proof -
  let ?name = "receipt_name (rc_candidate_digest r)"
  have rb: "read_bounded 65536 [(?name, RegularFile (receipt_payload r))] ?name = Inr (receipt_payload r)"
    using assms(3) by simp
  have "read_receipt [(?name, RegularFile (receipt_payload r))] ?name = Inr r"
    using assms(1) by (simp add: read_receipt_def read_promotion_def rb parse_receipt_payload)
  then show ?thesis using receipt_name_item [OF assms(2)] by (simp add: receipts_of_def receipt_file_def)
qed

text \<open>The promotion of the world's candidate, once with a clean and once with a failing receipt write.\<close>

lemma probe_promoted:
  obtains env k r st' st'' where "promote (env ReceiptOk) k probe_state = (Inr r, st')" "pm_inboxes st' \<noteq> pm_inboxes probe_state"
    "promote (env (ReceiptPartial 0)) k probe_state = (Inl PromotionOSError, st'')"
    "pm_receipts st'' = [(receipt_name k, RegularFile [])]" "is_digest k" "rc_candidate_digest r = k"
    "receipts_of (pm_receipts st') = Inr [r]"
proof -
  obtain env k c payload s where w: "\<And>w. evidence (env w) k c payload probe_destination" "\<And>w. approval (env w) k c [s] s"
    "\<And>w. undisturbed (env w) c" "\<And>w. pe_receipt_write (env w) = w" by (rule probe_world) blast
  let ?r = "\<lambda>w. receipt_for k s c probe_destination (entry_id_of (ec_artifact_digest c)) (pe_now (env w))"
  have good: "write_receipt (pe_receipt_write (env ReceiptOk)) k (?r ReceiptOk) (pm_receipts probe_state) =
      (Inr (?r ReceiptOk), [(receipt_name k, RegularFile (receipt_payload (?r ReceiptOk)))])"
    using probe_state_empty by (simp add: w(4) write_receipt_def Let_def create_file_def)
  have bad: "write_receipt (pe_receipt_write (env (ReceiptPartial 0))) k (?r (ReceiptPartial 0)) (pm_receipts probe_state) =
      (Inl PromotionOSError, [(receipt_name k, RegularFile [])])"
    using probe_state_empty by (simp add: w(4) write_receipt_def Let_def create_file_def)
  note run = publication [OF w(1-3) probe_state_empty(1) _ _ probe_state_empty(3)]
  have k: "is_digest k" and c: "valid_candidate c" using w(1) by (auto simp: evidence_def get_candidate_def authority_get_Inr)
  have "authentic (pe_secret (env ReceiptOk)) s" using w(2) by (simp add: approval_def archive_inv_def)
  then have s: "is_digest (decided_event s)"
    by (cases "sd_decision s") (simp_all add: authentic_def valid_signed_def valid_decision_fields_def)
  have "valid_receipt (?r ReceiptOk)"
    using c by (simp add: valid_receipt_def receipt_for_def is_Timestamp_iso_seconds_z probe_destination_def valid_candidate_def)
  with k have "receipts_of [receipt_file (?r ReceiptOk)] = Inr [?r ReceiptOk]"
    by (intro single_receipt_listed receipt_size [OF c k s]) (simp_all add: receipt_for_def)
  then have listed: "receipts_of [(receipt_name k, RegularFile (receipt_payload (?r ReceiptOk)))] = Inr [?r ReceiptOk]"
    by (simp add: receipt_file_def receipt_for_def)
  show thesis
    by (rule that [OF run [OF _ _ good] _ run [OF _ _ bad]])
      (auto simp: k listed [unfolded receipt_for_def] receipt_for_def [of k] probe_state_def destination_inbox_def create_file_def fun_eq_iff)
qed

lemma approved_candidate_is_published_witness:
  "\<exists>env k r st' payload name. promote env k probe_state = (Inr r, st') \<and> rc_candidate_digest r = k \<and>
    map_of (destination_inbox st' probe_destination) name = Some (RegularFile payload)"
proof -
  obtain env k c payload s where w: "\<And>w. evidence (env w) k c payload probe_destination" "\<And>w. approval (env w) k c [s] s"
    "\<And>w. undisturbed (env w) c" "\<And>w. pe_receipt_write (env w) = w" by (rule probe_world) blast
  from approved_candidate_is_published [OF w(1-3) probe_state_empty(1) _ _ probe_state_empty(2,3) w(4)]
  show ?thesis by simp blast
qed

lemma fleet_receives_only_approved_witness:
  "\<exists>env k c payload spec. publishable env k c payload spec \<and> pe_probe_locked env = Inr (ec_target_hashes c)"
proof -
  obtain env k r st' st'' where p: "promote (env ReceiptOk) k probe_state = (Inr r, st')" "pm_inboxes st' \<noteq> pm_inboxes probe_state"
    by (rule probe_promoted) blast
  from fleet_receives_only_approved [OF this] show ?thesis by blast
qed

lemma receipts_are_unique_witness:
  "\<exists>st' r. promotion_step\<^sup>*\<^sup>* probe_state st' \<and> receipts_of (pm_receipts st') = Inr [r] \<and> distinct (map published_entry [r])"
proof -
  obtain env k r st' where p: "promote (env ReceiptOk) k probe_state = (Inr r, st')" "receipts_of (pm_receipts st') = Inr [r]"
    by (rule probe_promoted) blast
  have "promotion_step\<^sup>*\<^sup>* probe_state st'" using promotion_step.intros [OF p(1)] by blast
  with receipts_are_unique [OF this probe_state_empty(4) p(2)] p(2) show ?thesis by blast
qed

lemma promoted_once_witness:
  "\<exists>env k r st'. promote env k probe_state = (Inr r, st') \<and> snd (promote env k st') = st'"
proof -
  obtain env k r st' where p: "promote (env ReceiptOk) k probe_state = (Inr r, st')" by (rule probe_promoted) blast
  obtain result st3 where again: "promote (env ReceiptOk) k st' = (result, st3)" by fastforce
  from promoted_once [OF rtranclp.rtrancl_refl probe_state_empty(4) p rtranclp.rtrancl_refl again] again
  have "snd (promote (env ReceiptOk) k st') = st'" by simp
  with p show ?thesis by blast
qed

lemma truncated_receipt_blocks_witness:
  "\<exists>env k st'. promote env k probe_state = (Inl PromotionOSError, st') \<and>
    (\<forall>env' k'. snd (promote env' k' st') = st' \<and> \<not> is_ok (fst (promote env' k' st')))"
proof -
  obtain env k st' and r :: promotion_receipt where p: "promote (env (ReceiptPartial 0)) k probe_state = (Inl PromotionOSError, st')"
    "pm_receipts st' = [(receipt_name k, RegularFile [])]" "is_digest k" "rc_candidate_digest r = k"
    by (rule probe_promoted) blast
  have "0 < length (receipt_payload r)"
    by (simp add: receipt_payload_def canonical_json_def ascii_bytes_def dump_receipt_def render_JObj del: render.simps)
  then have t: "truncated_receipt (receipt_name k) (RegularFile [])"
    using p(3,4) by (force simp: truncated_receipt_def)
  have st': "pm_receipts st' = pm_receipts probe_state @ [(receipt_name k, RegularFile [])]"
    using p(2) probe_state_empty(4) by simp
  have "st' = st' \<and> snd (promote env' k' st') = st' \<and> (\<exists>e. fst (promote env' k' st') = Inl e)" for env' k'
    by (rule truncated_receipt_blocks [OF p(1) st' t probe_state_empty(2) rtranclp.rtrancl_refl]) simp
  with p(1) show ?thesis by (metis is_ok_iff Inl_Inr_False)
qed

end
