(* ===== verification/Triggers.thy ===== *)
theory Triggers
  imports Pipeline
begin

text \<open>
  The scheduling of paid runs, \<open>src/iou_ai/triggers.py\<close>: the material whose digest says whether
  there is anything new to pay for, the state file with the last attempt and the last success, the
  decision, and the lease.  The lease is modelled twice: as the function of what one process meets,
  and as the interleaved steps of several processes.
\<close>

section \<open>The material\<close>

definition TRIGGER_POLICY_VERSION :: string where
  "TRIGGER_POLICY_VERSION = ''meaningful-trigger.v2''"

definition external_kind :: "evidence_kind \<Rightarrow> bool" where
  "external_kind k \<longleftrightarrow> k \<in> {KERNEL_PATCH, MAIL_THREAD, OUTCOME_CLASS, PRIOR_PROPOSAL, RACE_SIGNAL}"

definition external_evidence :: "telemetry_packet \<Rightarrow> evidence_summary list" where
  "external_evidence t =
     sort_key (\<lambda>e. (evidence_kind_value (ev_kind e), ev_ref e)) (filter (\<lambda>e. external_kind (ev_kind e)) (tp_evidence t))"

definition non_normal_outcomes :: "telemetry_packet \<Rightarrow> outcome_class_summary list" where
  "non_normal_outcomes t =
     sort_key outcome_class (filter (\<lambda>x. outcome_class x \<noteq> ''normal_completion'') (tp_outcome_classes t))"

definition lane_states :: "telemetry_packet \<Rightarrow> (string \<times> bool) list" where
  "lane_states t =
     sort_key fst (map (\<lambda>l. (lane_value (ls_lane l), novel_outcomes_in_window l > 0)) (tp_lanes t))"

definition software_authority :: "bytes \<Rightarrow> json \<Rightarrow> json \<Rightarrow> harness_contract \<Rightarrow> json" where
  "software_authority file proposal_schema verdict_schema c =
     JObj [(''compiler_version'', JStr COMPILER_VERSION), (''compiler_hash'', JStr (compiler_digest file)),
       (''contract_digest'', JStr (json_digest (dump_contract c))),
       (''planner_prompt_digest'', JStr (json_digest (JStr PLANNER_INSTRUCTIONS))),
       (''reviewer_prompt_digest'', JStr (json_digest (JStr REVIEWER_SYSTEM))),
       (''auditor_prompt_digest'', JStr (json_digest (JStr AUDITOR_SYSTEM))),
       (''proposal_schema_digest'', JStr (json_digest (strict_json_schema proposal_schema))),
       (''review_schema_digest'', JStr (json_digest (strict_json_schema verdict_schema))),
       (''validator_hash'', JStr VALIDATOR_HASH), (''validator_version'', JStr VALIDATOR_VERSION)]"

definition caller_authority :: "provider_config \<Rightarrow> json" where
  "caller_authority p =
     JObj [(''provider'', JStr (pc_name p)), (''model'', JStr (pc_model p)),
       (''reasoning_effort'', JStr (pc_reasoning_effort p)), (''max_input_tokens'', JInt (pc_max_input_tokens p)),
       (''max_output_tokens'', JInt (pc_max_output_tokens p))]"

definition provider_authority :: "pipeline_config option \<Rightarrow> json" where
  "provider_authority config =
     (case config of
        None \<Rightarrow> JNull
      | Some cfg \<Rightarrow>
          JObj [(''planner'', caller_authority (cf_planner cfg)), (''reviewer'', caller_authority (cf_reviewer cfg)),
            (''auditor'', JObj
               [(''enabled'', JBool (cf_auditor_enabled cfg)), (''sample_every'', JInt (cf_sample_every cfg)),
                (''provider'', JStr (pc_name (cf_auditor cfg))), (''model'', JStr (pc_model (cf_auditor cfg))),
                (''reasoning_effort'', JStr (pc_reasoning_effort (cf_auditor cfg)))])])"

definition meaningful_material ::
  "bytes \<Rightarrow> json \<Rightarrow> json \<Rightarrow> telemetry_packet \<Rightarrow> harness_contract \<Rightarrow> pipeline_config option \<Rightarrow> json" where
  "meaningful_material file proposal_schema verdict_schema t c config =
     JObj [(''schema_version'', JStr TRIGGER_POLICY_VERSION), (''campaign_id'', JStr (tp_campaign_id t)),
       (''fleet_id'', JStr (tp_fleet_id t)), (''kernel_release'', JStr (tp_kernel_release t)),
       (''target_hashes'', dump_target_hashes (tp_target_hashes t)),
       (''fleet_health'', JObj
          [(''workers_expected'', JInt (workers_expected (tp_fleet t))),
           (''workers_running'', JInt (fleet_workers_running (tp_fleet t))),
           (''workers_stalled'', JInt (workers_stalled (tp_fleet t)))]),
       (''lane_states'', JList (map (\<lambda>(lane, novel).
          JObj [(''lane'', JStr lane), (''has_novel_outcome'', JBool novel)]) (lane_states t))),
       (''non_normal_outcomes'', JList (map (\<lambda>x.
          JObj [(''outcome_class'', JStr (outcome_class x)), (''count'', JInt (oc_count x)),
            (''reproducible_count'', JInt (reproducible_count x))]) (non_normal_outcomes t))),
       (''external_evidence'', JList (map (\<lambda>e.
          JObj [(''evidence_ref'', JStr (ev_ref e)), (''kind'', JStr (evidence_kind_value (ev_kind e))),
            (''summary'', JStr (ev_summary e))]) (external_evidence t))),
       (''software_authority'', software_authority file proposal_schema verdict_schema c),
       (''provider_authority'', provider_authority config)]"

definition material_digest ::
  "bytes \<Rightarrow> json \<Rightarrow> json \<Rightarrow> telemetry_packet \<Rightarrow> harness_contract \<Rightarrow> pipeline_config option \<Rightarrow> string" where
  "material_digest file proposal_schema verdict_schema t c config =
     json_digest (meaningful_material file proposal_schema verdict_schema t c config)"

section \<open>The state file\<close>

datatype trigger_error = TriggerError string | TriggerTypeError | TriggerOSError

datatype state_file = NoState | UnreadableState | StateBytes bytes

record trigger_state =
  last_attempt_at :: "string option"
  last_attempt_digest :: "string option"
  last_attempt_status :: "string option"
  last_success_at :: "string option"
  last_success_digest :: "string option"

record trigger_store =
  tr_refresh :: int
  tr_retry :: int
  tr_lease_seconds :: int
  tr_file :: state_file
  tr_leased :: bool

definition init_triggers :: "state_file \<Rightarrow> int \<Rightarrow> int \<Rightarrow> int \<Rightarrow> trigger_error + trigger_store" where
  "init_triggers f refresh retry lease =
     (if refresh < 3600 then Inl (TriggerError ''refresh interval must be at least one hour'')
      else if retry < 900 then Inl (TriggerError ''retry interval must be at least fifteen minutes'')
      else if lease < 60 then Inl (TriggerError ''lease interval must be at least one minute'')
      else Inr \<lparr>tr_refresh = refresh, tr_retry = retry, tr_lease_seconds = lease, tr_file = f, tr_leased = False\<rparr>)"

definition trigger_utc :: "pydatetime \<Rightarrow> trigger_error + instant" where
  "trigger_utc now =
     (case now of Aware i \<Rightarrow> Inr i | Naive \<Rightarrow> Inl (TriggerError ''trigger time must be timezone-aware''))"

text \<open>
  \<open>_parse_timestamp\<close> of a value of the file.  Of the ISO forms the standard library accepts, those of
  the wire pattern are read; the others, which the store never writes, count as invalid.
\<close>

definition trigger_time :: "json \<Rightarrow> string \<Rightarrow> trigger_error + instant option" where
  "trigger_time v name =
     (let bad = Inl (TriggerError (''trigger state '' @ name @ '' is invalid''))
      in case v of
           JNull \<Rightarrow> Inr None
         | JStr s \<Rightarrow>
             if length s > 35 \<or> \<not> is_Timestamp s then bad
             else (case parse_timestamp s of None \<Rightarrow> bad | Some i \<Rightarrow> Inr (Some i))
         | _ \<Rightarrow> bad)"

definition optional_text :: "string option \<Rightarrow> json" where
  "optional_text x = (case x of None \<Rightarrow> JNull | Some s \<Rightarrow> JStr s)"

definition dump_state :: "trigger_state \<Rightarrow> json" where
  "dump_state s =
     JObj [(''schema_version'', JStr ''trigger-state.v1''), (''last_attempt_at'', optional_text (last_attempt_at s)),
       (''last_attempt_digest'', optional_text (last_attempt_digest s)),
       (''last_attempt_status'', optional_text (last_attempt_status s)),
       (''last_success_at'', optional_text (last_success_at s)),
       (''last_success_digest'', optional_text (last_success_digest s))]"

definition STATE_KEYS :: "string list" where
  "STATE_KEYS = [''schema_version'', ''last_attempt_at'', ''last_attempt_digest'', ''last_attempt_status'',
     ''last_success_at'', ''last_success_digest'']"

definition text_of :: "json \<Rightarrow> string option" where
  "text_of v = (case v of JStr s \<Rightarrow> Some s | _ \<Rightarrow> None)"

definition digest_field_ok :: "json \<Rightarrow> bool" where
  "digest_field_ok v \<longleftrightarrow> v = JNull \<or> (\<exists>s. v = JStr s \<and> is_digest s)"

lemma digest_field_ok_code [code]:
  "digest_field_ok v \<longleftrightarrow> (case v of JNull \<Rightarrow> True | JStr s \<Rightarrow> is_digest s | _ \<Rightarrow> False)"
  by (cases v) (auto simp: digest_field_ok_def)

text \<open>A list or an object cannot be looked up in the set of the statuses.\<close>

definition check_status :: "json \<Rightarrow> trigger_error + unit" where
  "check_status v =
     (case v of
        JNull \<Rightarrow> Inr ()
      | JStr s \<Rightarrow>
          if s \<in> {''running'', ''failed'', ''completed''} then Inr ()
          else Inl (TriggerError ''trigger state last_attempt_status is invalid'')
      | JList _ \<Rightarrow> Inl TriggerTypeError
      | JObj _ \<Rightarrow> Inl TriggerTypeError
      | _ \<Rightarrow> Inl (TriggerError ''trigger state last_attempt_status is invalid''))"

text \<open>
  \<open>_read\<close> after the size limit.  A document outside \<open>json\<close> (a float, a text beyond Latin-1) is refused
  here as invalid; the code refuses it too, by one of the later checks.
\<close>

definition check_state :: "bytes \<Rightarrow> json \<Rightarrow> trigger_error + trigger_state" where
  "check_state raw v =
     (case v of
        JObj kvs \<Rightarrow>
          (let get = (\<lambda>k. case map_of kvs k of None \<Rightarrow> JNull | Some x \<Rightarrow> x)
           in if set (map fst kvs) \<noteq> set STATE_KEYS then Inl (TriggerError ''trigger state shape is invalid'')
              else if get ''schema_version'' \<noteq> JStr ''trigger-state.v1'' then
                Inl (TriggerError ''trigger state version is invalid'')
              else if \<not> digest_field_ok (get ''last_attempt_digest'') then
                Inl (TriggerError ''trigger state last_attempt_digest is invalid'')
              else if \<not> digest_field_ok (get ''last_success_digest'') then
                Inl (TriggerError ''trigger state last_success_digest is invalid'')
              else
                bindR (check_status (get ''last_attempt_status'')) (\<lambda>_.
                bindR (trigger_time (get ''last_attempt_at'') ''last_attempt_at'') (\<lambda>_.
                bindR (trigger_time (get ''last_success_at'') ''last_success_at'') (\<lambda>_.
                if canonical_json v \<noteq> raw then Inl (TriggerError ''trigger state is not canonical'')
                else Inr \<lparr>last_attempt_at = text_of (get ''last_attempt_at''),
                  last_attempt_digest = text_of (get ''last_attempt_digest''),
                  last_attempt_status = text_of (get ''last_attempt_status''),
                  last_success_at = text_of (get ''last_success_at''),
                  last_success_digest = text_of (get ''last_success_digest'')\<rparr>))))
      | _ \<Rightarrow> Inl (TriggerError ''trigger state shape is invalid''))"

definition empty_state :: trigger_state where
  "empty_state =
     \<lparr>last_attempt_at = None, last_attempt_digest = None, last_attempt_status = None, last_success_at = None,
      last_success_digest = None\<rparr>"

definition read_state :: "state_file \<Rightarrow> trigger_error + trigger_state" where
  "read_state f =
     (case f of
        NoState \<Rightarrow> Inr empty_state
      | UnreadableState \<Rightarrow> Inl (TriggerError ''trigger state is unavailable'')
      | StateBytes raw \<Rightarrow>
          if length raw > 4096 then Inl (TriggerError ''trigger state is oversized'')
          else (case loads raw of
                  None \<Rightarrow> Inl (TriggerError ''trigger state is invalid'')
                | Some v \<Rightarrow> check_state raw v))"

definition require_lease :: "trigger_store \<Rightarrow> trigger_error + unit" where
  "require_lease st =
     (if tr_leased st then Inr () else Inl (TriggerError ''trigger state mutation requires an active lease''))"

text \<open>\<open>_write\<close>: the file is replaced as a whole or not at all.\<close>

definition write_state :: "write_outcome \<Rightarrow> trigger_state \<Rightarrow> trigger_store \<Rightarrow> trigger_error + trigger_store" where
  "write_state w s st =
     bindR (require_lease st) (\<lambda>_.
       if w = WriteFails then Inl TriggerOSError
       else Inr (st\<lparr>tr_file := StateBytes (canonical_json (dump_state s))\<rparr>))"

section \<open>The decision\<close>

datatype trigger_reason = Initial | MaterialChanged | PeriodicRefresh | RetryDue | Unchanged | RetryCooldown

record trigger_decision =
  should_run :: bool
  td_digest :: string
  td_reason :: trigger_reason

definition state_time :: "string option \<Rightarrow> string \<Rightarrow> trigger_error + instant option" where
  "state_time x name = trigger_time (optional_text x) name"

definition decide :: "trigger_store \<Rightarrow> string \<Rightarrow> instant \<Rightarrow> trigger_state \<Rightarrow> instant option \<Rightarrow> instant option
     \<Rightarrow> trigger_decision" where
  "decide st digest now s success_at attempt_at =
     (let decision = (\<lambda>run reason. \<lparr>should_run = run, td_digest = digest, td_reason = reason\<rparr>);
          cooling = last_attempt_digest s = Some digest \<and>
            last_attempt_status s \<in> {Some ''running'', Some ''failed''} \<and>
            (case attempt_at of
               None \<Rightarrow> False
             | Some a \<Rightarrow> now - a < seconds (tr_retry st) \<and>
                 (case success_at of None \<Rightarrow> True | Some z \<Rightarrow> z \<le> a))
      in if cooling then decision False RetryCooldown
         else (case success_at of
                 None \<Rightarrow>
                   decision True
                     (if attempt_at = None then Initial
                      else if last_attempt_digest s = Some digest then RetryDue else MaterialChanged)
               | Some z \<Rightarrow>
                   if last_success_digest s \<noteq> Some digest then decision True MaterialChanged
                   else if seconds (tr_refresh st) \<le> now - z then decision True PeriodicRefresh
                   else decision False Unchanged))"

definition assess :: "string \<Rightarrow> pydatetime \<Rightarrow> trigger_store \<Rightarrow> trigger_error + trigger_decision" where
  "assess digest now st =
     bindR (require_lease st) (\<lambda>_.
       if \<not> is_digest digest then Inl (TriggerError ''material digest is invalid'')
       else
         bindR (trigger_utc now) (\<lambda>current.
         bindR (read_state (tr_file st)) (\<lambda>s.
         bindR (state_time (last_success_at s) ''last_success_at'') (\<lambda>success_at.
         bindR (state_time (last_attempt_at s) ''last_attempt_at'') (\<lambda>attempt_at.
         Inr (decide st digest current s success_at attempt_at))))))"

text \<open>\<open>mark_attempt\<close> and \<open>mark_failed\<close> differ in the status alone.\<close>

definition mark_unfinished ::
  "string \<Rightarrow> write_outcome \<Rightarrow> string \<Rightarrow> pydatetime \<Rightarrow> trigger_store \<Rightarrow> trigger_error + trigger_store" where
  "mark_unfinished outcome w digest now st =
     bindR (read_state (tr_file st)) (\<lambda>s.
     bindR (trigger_utc now) (\<lambda>i.
     write_state w (s\<lparr>last_attempt_at := Some (iso_z i), last_attempt_digest := Some digest,
       last_attempt_status := Some outcome\<rparr>) st))"

definition mark_attempt ::
  "write_outcome \<Rightarrow> string \<Rightarrow> pydatetime \<Rightarrow> trigger_store \<Rightarrow> trigger_error + trigger_store" where
  "mark_attempt = mark_unfinished ''running''"

definition mark_failed ::
  "write_outcome \<Rightarrow> string \<Rightarrow> pydatetime \<Rightarrow> trigger_store \<Rightarrow> trigger_error + trigger_store" where
  "mark_failed = mark_unfinished ''failed''"

definition mark_completed ::
  "write_outcome \<Rightarrow> string \<Rightarrow> pydatetime \<Rightarrow> trigger_store \<Rightarrow> trigger_error + trigger_store" where
  "mark_completed w digest now st =
     bindR (trigger_utc now) (\<lambda>i.
     bindR (read_state (tr_file st)) (\<lambda>s.
     write_state w (s\<lparr>last_attempt_at := Some (iso_z i), last_attempt_digest := Some digest,
       last_attempt_status := Some ''completed'', last_success_at := Some (iso_z i),
       last_success_digest := Some digest\<rparr>) st))"

section \<open>The lease\<close>

text \<open>What creating the lock file meets: it is created, or it exists with an age (0 if it cannot be read).\<close>

datatype lease_look = LeaseFree | LeaseHeld int

definition acquire_lease :: "lease_look \<Rightarrow> lease_look \<Rightarrow> trigger_store \<Rightarrow> trigger_error + trigger_store" where
  "acquire_lease first second st =
     (let taken = Inr (st\<lparr>tr_leased := True\<rparr>);
          held = Inl (TriggerError ''another scheduling run holds the trigger lease'')
      in case first of
           LeaseFree \<Rightarrow> taken
         | LeaseHeld age \<Rightarrow>
             if age > tr_lease_seconds st then (case second of LeaseFree \<Rightarrow> taken | LeaseHeld _ \<Rightarrow> held)
             else held)"

definition release_lease :: "trigger_store \<Rightarrow> trigger_store" where
  "release_lease st = st\<lparr>tr_leased := False\<rparr>"

text \<open>
  Several processes: the lock file is its time of creation; a process is outside, has found a stale
  lock, has removed it, or holds the lease.  Time passes between any two steps, and a process may be
  killed, which leaves the file.
\<close>

datatype lease_phase = Outside | FoundStale | RemovedStale | Holding

record lease_world =
  lw_now :: int
  lw_lock :: "int option"
  lw_phase :: "nat \<Rightarrow> lease_phase"

inductive lease_step :: "int \<Rightarrow> lease_world \<Rightarrow> lease_world \<Rightarrow> bool" for lease_seconds :: int where
  passes: "0 \<le> k \<Longrightarrow> lease_step lease_seconds w (w\<lparr>lw_now := lw_now w + k\<rparr>)"
| creates: "lw_phase w p \<in> {Outside, RemovedStale} \<Longrightarrow> lw_lock w = None \<Longrightarrow>
    lease_step lease_seconds w (w\<lparr>lw_lock := Some (lw_now w), lw_phase := (lw_phase w)(p := Holding)\<rparr>)"
| finds_stale: "lw_phase w p = Outside \<Longrightarrow> lw_lock w = Some m \<Longrightarrow> lw_now w - m > lease_seconds \<Longrightarrow>
    lease_step lease_seconds w (w\<lparr>lw_phase := (lw_phase w)(p := FoundStale)\<rparr>)"
| removes: "lw_phase w p = FoundStale \<Longrightarrow>
    lease_step lease_seconds w (w\<lparr>lw_lock := None, lw_phase := (lw_phase w)(p := RemovedStale)\<rparr>)"
| gives_up: "lw_phase w p = RemovedStale \<Longrightarrow> lw_lock w = Some m \<Longrightarrow>
    lease_step lease_seconds w (w\<lparr>lw_phase := (lw_phase w)(p := Outside)\<rparr>)"
| releases: "lw_phase w p = Holding \<Longrightarrow>
    lease_step lease_seconds w (w\<lparr>lw_lock := None, lw_phase := (lw_phase w)(p := Outside)\<rparr>)"
| killed: "lease_step lease_seconds w (w\<lparr>lw_phase := (lw_phase w)(p := Outside)\<rparr>)"

inductive_cases lease_stepE: "lease_step lease_seconds w w'"

section \<open>Times written by the store\<close>

lemma pad_digits_digits: "list_all is_digit (pad_digits w n)"
proof (induction w arbitrary: n)
  case (Suc w)
  have "is_digit (digit_char (nat (n mod 10)))" by (rule is_digit_digit_char) simp
  with Suc show ?case by simp
qed simp

lemma matches_digits: "list_all is_digit ds \<Longrightarrow> matches_template (replicate (length ds) CHR ''d'') ds"
  by (induction ds) (simp_all add: matches_template_def)

lemma matches_append: "matches_template p x \<Longrightarrow> matches_template q y \<Longrightarrow> matches_template (p @ q) (x @ y)"
  by (simp add: matches_template_def list_all2_appendI)

lemma matches_pad: "matches_template (replicate w CHR ''d'') (pad_digits w n)"
  using matches_digits [OF pad_digits_digits, of w n] by simp

lemma matches_literal: "c \<noteq> CHR ''d'' \<Longrightarrow> matches_template [c] [c]"
  by (simp add: matches_template_def)

lemma date_time_template: "matches_template ''dddd-dd-ddTdd:dd:dd'' (date_string t @ ''T'' @ time_string t)"
proof -
  obtain y m d where ymd: "ord2ymd (date_of t) = (y, m, d)" by (cases "ord2ymd (date_of t)") auto
  let ?d = "\<lambda>w. replicate w CHR ''d''"
  have "matches_template (?d 4 @ ''-'' @ ?d 2 @ ''-'' @ ?d 2 @ ''T'' @ ?d 2 @ '':'' @ ?d 2 @ '':'' @ ?d 2)
      (date_string t @ ''T'' @ time_string t)"
    unfolding date_string_def time_string_def Let_def ymd prod.case append_assoc
    by (intro matches_append matches_pad matches_literal) simp_all
  moreover have "?d 4 @ ''-'' @ ?d 2 @ ''-'' @ ?d 2 @ ''T'' @ ?d 2 @ '':'' @ ?d 2 @ '':'' @ ?d 2 = ''dddd-dd-ddTdd:dd:dd''"
    by (simp add: eval_nat_numeral)
  ultimately show ?thesis by simp
qed

lemma length_iso_z: "length (iso_z t) \<le> 27"
  by (simp add: iso_z_def)

lemma iso_z_timestamp: "is_Timestamp (iso_z t)"
proof -
  have "take 19 (iso_z t) = date_string t @ ''T'' @ time_string t" by (simp add: iso_z_def)
  moreover have "drop 19 (iso_z t) = (if t mod usec_per_second = 0 then [] else ''.'' @ pad_digits 6 (t mod usec_per_second)) @ ''Z''"
    by (simp add: iso_z_def)
  ultimately show ?thesis
    using date_time_template [of t] pad_digits_digits [of 6 "t mod usec_per_second"] length_iso_z [of t]
    by (simp add: is_Timestamp_def is_zone_def Let_def) (simp add: iso_z_def)
qed

lemma takeWhile_digits: "list_all is_digit ds \<Longrightarrow> \<not> is_digit c \<Longrightarrow> takeWhile is_digit (ds @ c # r) = ds"
  by (induction ds) simp_all

lemma parse_fraction_fields:
  assumes "number_at x 0 4 = y" "number_at x 5 2 = m" "number_at x 8 2 = d" "number_at x 11 2 = h"
    "number_at x 14 2 = mi" "number_at x 17 2 = sec" "drop 19 x = CHR ''.'' # frac @ ''Z''"
    and "takeWhile is_digit (frac @ ''Z'') = frac" "frac \<noteq> []" "length frac = 6" "number_at frac 0 6 = us"
    and "valid_date y m d" "h < 24" "mi < 60" "sec < 60"
    and "(ymd2ord y m d - 1) * usec_per_day + (h * 3600 + mi * 60 + sec) * 1000000 + us = u"
    and "0 \<le> u" "u < 3652059 * usec_per_day"
  shows "parse_timestamp x = Some u"
  using assms(8-)
  unfolding parse_timestamp_def Let_def assms(1-7)
  by (simp add: zone_seconds_def valid_date_def)

text \<open>\<open>iso_z\<close> loses nothing: the instant is read back with its microseconds.\<close>

lemma iso_z_reads:
  assumes "0 \<le> t" "t < 3652059 * usec_per_day"
  shows "parse_timestamp (iso_z t) = Some t"
proof (cases "t mod usec_per_second = 0")
  case True
  then have "iso_z t = iso_seconds_z t" by (simp add: iso_z_def iso_seconds_z_def)
  with timestamp_reads [OF assms] True show ?thesis by simp
next
  case False
  define s where "s = t mod usec_per_day div 1000000"
  obtain y m d where ymd: "ord2ymd (date_of t) = (y, m, d)" by (cases "ord2ymd (date_of t)") auto
  have "1 \<le> date_of t" "date_of t \<le> 3652059"
    using assms by (simp_all add: date_of_def usec_per_day_def pos_imp_zdiv_nonneg_iff div_less_iff_less_mult flip: zless_add1_eq)
  from ord2ymd_inverse [OF this] have date: "valid_date y m d" "ymd2ord y m d = date_of t" by (simp_all add: ymd)
  have s: "0 \<le> s" "s < 86400" by (simp_all add: s_def usec_per_day_def pos_imp_zdiv_nonneg_iff div_less_iff_less_mult)
  note time = time_fields [OF s]
  let ?t = "iso_z t" and ?us = "t mod 1000000"
  have shape: "?t = pad_digits 4 y @ ''-'' @ pad_digits 2 m @ ''-'' @ pad_digits 2 d @ ''T'' @
      pad_digits 2 (s div 3600) @ '':'' @ pad_digits 2 (s mod 3600 div 60) @ '':'' @ pad_digits 2 (s mod 60) @
      CHR ''.'' # pad_digits 6 ?us @ ''Z''"
    using False by (simp add: iso_z_def date_string_def time_string_def Let_def ymd s_def)
  have ranges: "0 \<le> y" "y < 10 ^ 4" "0 \<le> m" "m < 10 ^ 2" "0 \<le> d" "d < 10 ^ 2"
    using date(1) days_in_month_bound [of m y] by (auto simp: valid_date_def)
  have "s mod 60 < 10 ^ 2" using time(6) by simp
  then have seconds: "foldl (\<lambda>a c. 10 * a + digit_of c) 0 (pad_digits 2 (s mod 60)) = s mod 60"
    by (rule foldl_pad_digits [OF time(5)])
  have fields: "number_at ?t 0 4 = y" "number_at ?t 5 2 = m" "number_at ?t 8 2 = d"
    "number_at ?t 11 2 = s div 3600" "number_at ?t 14 2 = s mod 3600 div 60" "number_at ?t 17 2 = s mod 60"
    using ranges time by (simp_all add: number_at_def shape foldl_pad_digits seconds)
  have rest: "drop 19 ?t = CHR ''.'' # pad_digits 6 ?us @ ''Z''" by (simp add: shape)
  have "\<not> is_digit CHR ''Z''" by code_simp
  then have fraction: "takeWhile is_digit (pad_digits 6 ?us @ ''Z'') = pad_digits 6 ?us"
    using takeWhile_digits [OF pad_digits_digits] by simp
  have "foldl (\<lambda>a c. 10 * a + digit_of c) 0 (pad_digits 6 ?us) = ?us" by (rule foldl_pad_digits) simp_all
  then have micros: "number_at (pad_digits 6 ?us) 0 6 = ?us" by (simp add: number_at_def)
  have nonempty: "pad_digits 6 ?us \<noteq> []" by (metis length_pad_digits list.size(3) zero_neq_numeral)
  have "(date_of t - 1) * usec_per_day + (s div 3600 * 3600 + s mod 3600 div 60 * 60 + s mod 60) * 1000000 = t - ?us"
    unfolding time(7) unfolding s_def by (rule day_seconds)
  then have "(ymd2ord y m d - 1) * usec_per_day + (s div 3600 * 3600 + s mod 3600 div 60 * 60 + s mod 60) * 1000000 + ?us = t"
    unfolding date(2) by linarith
  with parse_fraction_fields [OF fields rest fraction nonempty length_pad_digits micros date(1) time(2,4,6) _ assms]
  show ?thesis by blast
qed

section \<open>The state is always readable\<close>

definition valid_state :: "trigger_state \<Rightarrow> bool" where
  "valid_state s \<longleftrightarrow>
     pred_option is_digest (last_attempt_digest s) \<and> pred_option is_digest (last_success_digest s) \<and>
     pred_option (\<lambda>x. x \<in> {''running'', ''failed'', ''completed''}) (last_attempt_status s) \<and>
     is_ok (state_time (last_attempt_at s) ''last_attempt_at'') \<and>
     is_ok (state_time (last_success_at s) ''last_success_at'')"

lemma optional_text_simps [simp]:
  "optional_text None = JNull" "optional_text (Some s) = JStr s" "text_of (optional_text x) = x"
  "norm_json (optional_text x) = optional_text x" "wf_json (optional_text x)"
  by (cases x; simp add: optional_text_def text_of_def)+

lemma wf_dump_state [simp]: "wf_json (dump_state s)"
  by (simp add: dump_state_def)

lemma check_dumped:
  assumes "valid_state s"
  shows "check_state (canonical_json (dump_state s)) (norm_json (dump_state s)) = Inr s"
proof -
  have "norm_json (dump_state s) = JObj
      [(''last_attempt_at'', optional_text (last_attempt_at s)), (''last_attempt_digest'', optional_text (last_attempt_digest s)),
       (''last_attempt_status'', optional_text (last_attempt_status s)), (''last_success_at'', optional_text (last_success_at s)),
       (''last_success_digest'', optional_text (last_success_digest s)), (''schema_version'', JStr ''trigger-state.v1'')]"
    by (simp add: dump_state_def)
  moreover have "digest_field_ok (optional_text (last_attempt_digest s))" "digest_field_ok (optional_text (last_success_digest s))"
    "check_status (optional_text (last_attempt_status s)) = Inr ()"
    using assms by (auto simp: valid_state_def digest_field_ok_def check_status_def optional_text_def split: option.splits)
  moreover obtain a b where "trigger_time (optional_text (last_attempt_at s)) ''last_attempt_at'' = Inr a"
    "trigger_time (optional_text (last_success_at s)) ''last_success_at'' = Inr b"
    using assms by (auto simp: valid_state_def state_time_def is_ok_iff)
  ultimately show ?thesis
    using canonical_norm [of "dump_state s"] by (simp add: check_state_def STATE_KEYS_def Let_def insert_commute)
qed

lemma timed_length: "is_ok (state_time x name) \<Longrightarrow> json_size (optional_text x) \<le> 220"
  by (cases x) (auto simp: state_time_def trigger_time_def Let_def split: if_splits option.splits)

lemma digest_size: "pred_option is_digest x \<Longrightarrow> json_size (optional_text x) \<le> 440"
  using length_of_digest by (cases x) auto

lemma state_bytes_bounded:
  assumes "valid_state s"
  shows "length (canonical_json (dump_state s)) \<le> 4096"
proof -
  have "json_size (optional_text (last_attempt_status s)) \<le> 100"
    using assms by (auto simp: valid_state_def optional_text_def split: option.splits)
  moreover have "json_size (optional_text (last_attempt_at s)) \<le> 220" "json_size (optional_text (last_success_at s)) \<le> 220"
    "json_size (optional_text (last_attempt_digest s)) \<le> 440" "json_size (optional_text (last_success_digest s)) \<le> 440"
    using assms timed_length digest_size by (auto simp: valid_state_def)
  ultimately have "json_size (dump_state s) \<le> 4096" by (simp add: dump_state_def)
  with canonical_size show ?thesis by (rule order_trans)
qed

lemma read_written: "valid_state s \<Longrightarrow> read_state (StateBytes (canonical_json (dump_state s))) = Inr s"
  using state_bytes_bounded [of s] check_dumped [of s] by (simp add: read_state_def loads_canonical not_less)

lemma digest_field_text: "digest_field_ok v \<Longrightarrow> pred_option is_digest (text_of v)"
  by (auto simp: digest_field_ok_def text_of_def)

lemma status_text: "check_status v = Inr u \<Longrightarrow> pred_option (\<lambda>x. x \<in> {''running'', ''failed'', ''completed''}) (text_of v)"
  by (cases v) (auto simp: check_status_def text_of_def split: if_splits)

lemma time_text: "trigger_time v name = Inr x \<Longrightarrow> is_ok (state_time (text_of v) name)"
  by (cases v) (auto simp: state_time_def trigger_time_def text_of_def Let_def split: if_splits option.splits)

lemma check_valid: "check_state raw v = Inr s \<Longrightarrow> valid_state s"
  unfolding check_state_def
  by (cases v) (auto simp: Let_def valid_state_def dest: digest_field_text status_text time_text split: if_splits)

lemma empty_state_valid: "valid_state empty_state"
  by (simp add: valid_state_def empty_state_def state_time_def trigger_time_def)

lemma read_valid: "read_state f = Inr s \<Longrightarrow> valid_state s"
  by (auto simp: read_state_def empty_state_valid dest: check_valid split: state_file.splits if_splits option.splits)

lemma written_time: "0 \<le> i \<Longrightarrow> i < 3652059 * usec_per_day \<Longrightarrow> state_time (Some (iso_z i)) name = Inr (Some i)"
  using length_iso_z [of i] by (simp add: state_time_def trigger_time_def iso_z_timestamp iso_z_reads)

text \<open>An instant a \<open>datetime\<close> can be.\<close>

definition representable :: "instant \<Rightarrow> bool" where
  "representable i \<longleftrightarrow> 0 \<le> i \<and> i < 3652059 * usec_per_day"

lemma marked_unfinished:
  assumes "mark_unfinished outcome w d (Aware i) st = Inr st'" and "outcome \<in> {''running'', ''failed''}"
    and "is_digest d" and "representable i"
  obtains s where "read_state (tr_file st) = Inr s" "tr_leased st'" "tr_retry st' = tr_retry st" "tr_refresh st' = tr_refresh st"
    "read_state (tr_file st') = Inr (s\<lparr>last_attempt_at := Some (iso_z i), last_attempt_digest := Some d,
       last_attempt_status := Some outcome\<rparr>)"
proof -
  from assms(1) obtain s where s: "read_state (tr_file st) = Inr s" and "tr_leased st"
    and st': "st' = st\<lparr>tr_file := StateBytes (canonical_json (dump_state (s\<lparr>last_attempt_at := Some (iso_z i),
       last_attempt_digest := Some d, last_attempt_status := Some outcome\<rparr>)))\<rparr>"
    by (auto simp: mark_unfinished_def trigger_utc_def write_state_def require_lease_def split: if_splits)
  moreover have "valid_state (s\<lparr>last_attempt_at := Some (iso_z i), last_attempt_digest := Some d, last_attempt_status := Some outcome\<rparr>)"
    using read_valid [OF s] assms(2-4) written_time [of i "''last_attempt_at''"] by (auto simp: valid_state_def representable_def)
  ultimately show thesis using read_written by (intro that [of s]) simp_all
qed

lemma marked_completed:
  assumes "mark_completed w d (Aware i) st = Inr st'" and "is_digest d" and "representable i"
  obtains s where "tr_leased st'" "tr_retry st' = tr_retry st" "tr_refresh st' = tr_refresh st"
    "read_state (tr_file st') = Inr (s\<lparr>last_attempt_at := Some (iso_z i), last_attempt_digest := Some d,
       last_attempt_status := Some ''completed'', last_success_at := Some (iso_z i), last_success_digest := Some d\<rparr>)"
proof -
  from assms(1) obtain s where s: "read_state (tr_file st) = Inr s" and "tr_leased st"
    and st': "st' = st\<lparr>tr_file := StateBytes (canonical_json (dump_state (s\<lparr>last_attempt_at := Some (iso_z i),
       last_attempt_digest := Some d, last_attempt_status := Some ''completed'', last_success_at := Some (iso_z i),
       last_success_digest := Some d\<rparr>)))\<rparr>"
    by (auto simp: mark_completed_def trigger_utc_def write_state_def require_lease_def split: if_splits)
  moreover have "valid_state (s\<lparr>last_attempt_at := Some (iso_z i), last_attempt_digest := Some d,
       last_attempt_status := Some ''completed'', last_success_at := Some (iso_z i), last_success_digest := Some d\<rparr>)"
    using assms(2,3) written_time [of i] by (auto simp: valid_state_def representable_def)
  ultimately show thesis using read_written by (intro that [of s]) simp_all
qed

section \<open>What a mark does to the decision\<close>

lemma assess_read:
  assumes "tr_leased st" and "is_digest d" and "read_state (tr_file st) = Inr s"
    and "state_time (last_success_at s) ''last_success_at'' = Inr z" and "state_time (last_attempt_at s) ''last_attempt_at'' = Inr a"
  shows "assess d (Aware now) st = Inr (decide st d now s z a)"
  using assms by (simp add: assess_def require_lease_def trigger_utc_def)

text \<open>
  C21: Paid runs are spaced: once a run of some material is marked as completed, the state can be read
  again at any later time, and the same material is due again exactly when the refresh interval has
  passed, any other material at once.
\<close>

theorem completed_run_decides:
  assumes "mark_completed w d (Aware i) st = Inr st'" and "is_digest d" and "representable i" and "is_digest d'"
  shows "\<exists>decision. assess d' (Aware now) st' = Inr decision \<and>
    (should_run decision \<longleftrightarrow> d' \<noteq> d \<or> seconds (tr_refresh st) \<le> now - i)"
proof (rule marked_completed [OF assms(1-3)])
  fix s :: trigger_state
  let ?s = "s\<lparr>last_attempt_at := Some (iso_z i), last_attempt_digest := Some d,
       last_attempt_status := Some ''completed'', last_success_at := Some (iso_z i), last_success_digest := Some d\<rparr>"
  assume st: "tr_leased st'" "tr_refresh st' = tr_refresh st" "read_state (tr_file st') = Inr ?s"
  have t: "state_time (Some (iso_z i)) name = Inr (Some i)" for name
    using assms(3) by (simp add: written_time representable_def)
  have "assess d' (Aware now) st' = Inr (decide st' d' now ?s (Some i) (Some i))"
    using st(1) assms(4) st(3) by (rule assess_read) (simp_all add: t)
  then show ?thesis using st(2) by (auto simp: decide_def)
qed

text \<open>
  C29: A run that was started or failed does not run again on the same material before the retry
  interval has passed since it was marked (the last success, if any, being older), and afterwards
  it is due again unless that material has meanwhile succeeded.
\<close>

theorem unfinished_run_decides:
  assumes "mark_unfinished outcome w d (Aware i) st = Inr st'" and "outcome \<in> {''running'', ''failed''}"
    and "is_digest d" and "representable i"
    and "read_state (tr_file st) = Inr s" and "state_time (last_success_at s) ''last_success_at'' = Inr z"
    and "pred_option (\<lambda>z. z \<le> i) z"
  shows "\<exists>decision. assess d (Aware now) st' = Inr decision \<and>
    (now - i < seconds (tr_retry st) \<longrightarrow> \<not> should_run decision) \<and>
    (seconds (tr_retry st) \<le> now - i \<and> last_success_digest s \<noteq> Some d \<longrightarrow> should_run decision)"
proof (rule marked_unfinished [OF assms(1-4)])
  fix s0 :: trigger_state
  let ?s = "s\<lparr>last_attempt_at := Some (iso_z i), last_attempt_digest := Some d, last_attempt_status := Some outcome\<rparr>"
  assume st: "read_state (tr_file st) = Inr s0" "tr_leased st'" "tr_retry st' = tr_retry st"
    "read_state (tr_file st') = Inr (s0\<lparr>last_attempt_at := Some (iso_z i), last_attempt_digest := Some d,
       last_attempt_status := Some outcome\<rparr>)"
  then have read: "read_state (tr_file st') = Inr ?s" using assms(5) by simp
  have t: "state_time (Some (iso_z i)) name = Inr (Some i)" for name
    using assms(4) by (simp add: written_time representable_def)
  have "assess d (Aware now) st' = Inr (decide st' d now ?s z (Some i))"
    using st(2) assms(3) read by (rule assess_read) (simp_all add: t assms(6))
  then show ?thesis using st(3) assms(2,7) by (cases z) (auto simp: decide_def)
qed

definition sample_triggers :: trigger_store where
  "sample_triggers =
     \<lparr>tr_refresh = 86400, tr_retry = 3600, tr_lease_seconds = 1800, tr_file = NoState, tr_leased = True\<rparr>"

abbreviation material :: string where
  "material \<equiv> ''sha256:'' @ replicate 64 CHR ''a''"

lemma sample_material: "is_digest material"
  by code_simp

lemma completed_run_decides_witness:
  "\<exists>st decision. assess material (Aware 63905500790000000) st = Inr decision \<and> \<not> should_run decision"
proof -
  have "\<exists>st. mark_completed WriteOk material (Aware 63905500780000000) sample_triggers = Inr st"
    by (simp add: mark_completed_def trigger_utc_def read_state_def write_state_def require_lease_def sample_triggers_def)
  then obtain st where st: "mark_completed WriteOk material (Aware 63905500780000000) sample_triggers = Inr st" by blast
  have "representable 63905500780000000" by (simp add: representable_def usec_per_day_def)
  from completed_run_decides [OF st sample_material this sample_material, of 63905500790000000]
  show ?thesis by (auto simp: sample_triggers_def seconds_def)
qed

lemma unfinished_run_decides_witness:
  "\<exists>st decision. assess material (Aware 63905510780000000) st = Inr decision \<and> should_run decision"
proof -
  have "\<exists>st. mark_unfinished ''failed'' WriteOk material (Aware 63905500780000000) sample_triggers = Inr st"
    by (simp add: mark_unfinished_def trigger_utc_def read_state_def write_state_def require_lease_def sample_triggers_def)
  then obtain st where st: "mark_unfinished ''failed'' WriteOk material (Aware 63905500780000000) sample_triggers = Inr st" by blast
  have r: "representable 63905500780000000" by (simp add: representable_def usec_per_day_def)
  have "read_state (tr_file sample_triggers) = Inr empty_state" by (simp add: read_state_def sample_triggers_def)
  from unfinished_run_decides [OF st _ sample_material r this, of None 63905510780000000]
  show ?thesis
    by (auto simp: sample_triggers_def seconds_def empty_state_def state_time_def trigger_time_def)
qed

section \<open>Who holds the lease\<close>

text \<open>Every lock is still fresh: nobody held the lease, or left it behind, for longer than it lasts.\<close>

definition lock_fresh :: "int \<Rightarrow> lease_world \<Rightarrow> bool" where
  "lock_fresh lease_seconds w \<longleftrightarrow> (case lw_lock w of None \<Rightarrow> True | Some m \<Rightarrow> lw_now w - m \<le> lease_seconds)"

definition prompt_step :: "int \<Rightarrow> lease_world \<Rightarrow> lease_world \<Rightarrow> bool" where
  "prompt_step lease_seconds w w' \<longleftrightarrow> lease_step lease_seconds w w' \<and> lock_fresh lease_seconds w'"

definition lease_inv :: "int \<Rightarrow> lease_world \<Rightarrow> bool" where
  "lease_inv lease_seconds w \<longleftrightarrow>
     lock_fresh lease_seconds w \<and> (\<forall>p. lw_phase w p \<in> {Outside, Holding}) \<and>
     (\<forall>p. lw_phase w p = Holding \<longrightarrow> lw_lock w \<noteq> None) \<and>
     (\<forall>p q. lw_phase w p = Holding \<and> lw_phase w q = Holding \<longrightarrow> p = q)"

lemma lease_inv_step: "prompt_step L w w' \<Longrightarrow> lease_inv L w \<Longrightarrow> lease_inv L w'"
  unfolding prompt_step_def
proof (elim conjE)
  assume inv: "lease_inv L w" and fresh: "lock_fresh L w'"
  assume "lease_step L w w'"
  then show "lease_inv L w'"
  proof cases
    case (finds_stale p m)
    with inv show ?thesis by (auto simp: lease_inv_def lock_fresh_def)
  next
    case (removes p)
    have "lw_phase w p \<in> {Outside, Holding}" using inv unfolding lease_inv_def by blast
    with removes show ?thesis by simp
  next
    case (gives_up p m)
    have "lw_phase w p \<in> {Outside, Holding}" using inv unfolding lease_inv_def by blast
    with gives_up show ?thesis by simp
  qed (use inv fresh in \<open>auto simp: lease_inv_def split: if_splits\<close>)
qed

definition free_world :: "instant \<Rightarrow> lease_world" where
  "free_world now = \<lparr>lw_now = now, lw_lock = None, lw_phase = (\<lambda>_. Outside)\<rparr>"

text \<open>
  C28: As long as no lock file outlives the lease time, the lease excludes: in every state reached from
  a free lock, whatever the processes do and whichever are killed, at most one of them holds it.
\<close>

theorem lease_excludes:
  assumes "(prompt_step lease_seconds)\<^sup>*\<^sup>* (free_world now) w" and "0 \<le> lease_seconds"
    and "lw_phase w p = Holding" and "lw_phase w q = Holding"
  shows "p = q"
proof -
  have "lease_inv lease_seconds (free_world now)" by (simp add: lease_inv_def lock_fresh_def free_world_def)
  with assms(1) have "lease_inv lease_seconds w" by (induction rule: rtranclp_induct) (auto intro: lease_inv_step)
  with assms(3,4) show ?thesis by (auto simp: lease_inv_def)
qed

lemma lease_excludes_witness: "\<exists>w :: lease_world. lw_phase w 1 = Holding \<and> (\<forall>q. lw_phase w q = Holding \<longrightarrow> q = 1)"
proof -
  define w where "w = (free_world 0)\<lparr>lw_lock := Some 0, lw_phase := (\<lambda>_. Outside)(1 := Holding)\<rparr>"
  have "lease_step 1800 (free_world 0) w"
    using lease_step.creates [of "free_world 0" 1 1800] by (simp add: free_world_def w_def)
  then have step: "(prompt_step 1800)\<^sup>*\<^sup>* (free_world 0) w"
    by (intro r_into_rtranclp) (simp add: prompt_step_def lock_fresh_def free_world_def w_def)
  have one: "lw_phase w 1 = Holding" by (simp add: w_def)
  have "q = 1" if "lw_phase w q = Holding" for q
    by (rule lease_excludes [OF step _ that one]) simp
  with one show ?thesis by blast
qed

text \<open>
  C22: Taking over a stale lock is not atomic.  A process is killed and leaves its lock; when the lock
  has become stale two others find it so, the first removes it and takes the lease, then the second
  removes the first's new lock and takes the lease too: two runs at once, neither of which has held
  the lease for any time at all.
\<close>

theorem lease_takeover_races:
  "\<exists>w. (lease_step 1800)\<^sup>*\<^sup>* (free_world 0) w \<and> lw_phase w 1 = Holding \<and> lw_phase w 2 = Holding \<and>
     lw_lock w = Some (lw_now w)"
proof -
  let ?ph = "\<lambda>p q r. ((((\<lambda>_. Outside)(0 := r))(1 := p))(2 := q)) :: nat \<Rightarrow> lease_phase"
  let ?w = "\<lambda>now l p q r. \<lparr>lw_now = now, lw_lock = l, lw_phase = ?ph p q r\<rparr>"
  note first = converse_rtranclp_into_rtranclp [of "lease_step 1800"]
  have start: "free_world 0 = ?w 0 None Outside Outside Outside" by (auto simp: free_world_def)
  have s1: "lease_step 1800 (?w 0 None Outside Outside Outside) (?w 0 (Some 0) Outside Outside Holding)"
    using lease_step.creates [of "?w 0 None Outside Outside Outside" 0 1800] by (simp add: fun_upd_twist fun_upd_def if_distrib cong: if_cong)
  have s2: "lease_step 1800 (?w 0 (Some 0) Outside Outside Holding) (?w 0 (Some 0) Outside Outside Outside)"
    using lease_step.killed [of 1800 "?w 0 (Some 0) Outside Outside Holding" 0] by (simp add: fun_upd_twist)
  have s3: "lease_step 1800 (?w 0 (Some 0) Outside Outside Outside) (?w 2000 (Some 0) Outside Outside Outside)"
    using lease_step.passes [of 2000 1800 "?w 0 (Some 0) Outside Outside Outside"] by simp
  have s4: "lease_step 1800 (?w 2000 (Some 0) Outside Outside Outside) (?w 2000 (Some 0) FoundStale Outside Outside)"
    using lease_step.finds_stale [of "?w 2000 (Some 0) Outside Outside Outside" 1 0 1800] by (simp add: fun_upd_twist)
  have s5: "lease_step 1800 (?w 2000 (Some 0) FoundStale Outside Outside) (?w 2000 (Some 0) FoundStale FoundStale Outside)"
    using lease_step.finds_stale [of "?w 2000 (Some 0) FoundStale Outside Outside" 2 0 1800] by simp
  have s6: "lease_step 1800 (?w 2000 (Some 0) FoundStale FoundStale Outside) (?w 2000 None RemovedStale FoundStale Outside)"
    using lease_step.removes [of "?w 2000 (Some 0) FoundStale FoundStale Outside" 1 1800] by (simp add: fun_upd_twist)
  have s7: "lease_step 1800 (?w 2000 None RemovedStale FoundStale Outside) (?w 2000 (Some 2000) Holding FoundStale Outside)"
    using lease_step.creates [of "?w 2000 None RemovedStale FoundStale Outside" 1 1800] by (simp add: fun_upd_twist)
  have s8: "lease_step 1800 (?w 2000 (Some 2000) Holding FoundStale Outside) (?w 2000 None Holding RemovedStale Outside)"
    using lease_step.removes [of "?w 2000 (Some 2000) Holding FoundStale Outside" 2 1800] by simp
  have s9: "lease_step 1800 (?w 2000 None Holding RemovedStale Outside) (?w 2000 (Some 2000) Holding Holding Outside)"
    using lease_step.creates [of "?w 2000 None Holding RemovedStale Outside" 2 1800] by simp
  have "(lease_step 1800)\<^sup>*\<^sup>* (free_world 0) (?w 2000 (Some 2000) Holding Holding Outside)"
    unfolding start
    by (rule first [OF s1] first [OF s2] first [OF s3] first [OF s4] first [OF s5] first [OF s6]
        first [OF s7] first [OF s8] r_into_rtranclp [of "lease_step 1800", OF s9])+
  then show ?thesis by (intro exI [of _ "?w 2000 (Some 2000) Holding Holding Outside"]) simp
qed

end
