(* ===== verification/Repro.thy ===== *)
theory Repro
  imports Codec
begin

text \<open>
  The triage decoder of crash inputs, \<open>src/iou_ai/repro.py\<close>: the lenient parse that mirrors the harness,
  its trace, and the text printed for it.  The loop is written as one that may run forever, so that
  returning is something to prove.  The lemmas relate it to the strict decoder of \<open>Codec\<close>.
\<close>

unbundle bit_operations_syntax

section \<open>The decoder\<close>

definition operation_family :: "int \<Rightarrow> string" where
  "operation_family sel =
     (if sel = 0 then ''nop/ring-setup''
      else if 1 \<le> sel \<and> sel \<le> 21 then ''file-io''
      else if 22 \<le> sel \<and> sel \<le> 34 then ''socket''
      else if 35 \<le> sel \<and> sel \<le> 40 then ''cancel/link/timeout''
      else if 41 \<le> sel \<and> sel \<le> 46 then ''fixed-io/registered''
      else if 47 \<le> sel \<and> sel \<le> 48 then ''msg_ring''
      else if 49 \<le> sel \<and> sel \<le> 52 then ''futex/waitid''
      else if 53 \<le> sel \<and> sel \<le> 58 then ''path/xattr''
      else if sel = 60 then ''io_uring_register''
      else ''other'')"

record decoded_op =
  do_index :: nat
  do_selector :: int
  do_family :: string
  do_operands :: "(string \<times> int) list"
  do_control :: int
  do_buffer_group :: int
  do_flag_nibble :: int

record decoded_input =
  di_ring :: int
  di_ops :: "decoded_op list"
  di_total_bytes :: nat
  di_consumed_bytes :: nat

text \<open>The \<open>for name in names\<close> loop: the operands read, the cursor, and whether the payload ended in it.\<close>

fun read_operands :: "bytes \<Rightarrow> nat \<Rightarrow> (string \<times> int) list \<Rightarrow> string list \<Rightarrow> (string \<times> int) list \<times> nat \<times> bool" where
  "read_operands payload cursor acc [] = (acc, cursor, False)"
| "read_operands payload cursor acc (name # names) =
     (if cursor \<ge> length payload then (acc, cursor, True)
      else read_operands payload (cursor + 1) (acc @ [(name, uint (payload ! cursor))]) names)"

definition executed_op :: "nat \<Rightarrow> int \<Rightarrow> (string \<times> int) list \<Rightarrow> int \<Rightarrow> decoded_op" where
  "executed_op index sel args control =
     \<lparr>do_index = index, do_selector = sel, do_family = operation_family sel, do_operands = args,
      do_control = control, do_buffer_group = drop_bit 4 control, do_flag_nibble = control AND 15\<rparr>"

text \<open>The \<open>while cursor < n\<close> loop: the operations, and the cursor it ends with.\<close>

partial_function (option) executed_loop ::
  "bytes \<Rightarrow> nat \<Rightarrow> decoded_op list \<Rightarrow> (codec_error + decoded_op list \<times> nat) option" where
  "executed_loop payload cursor ops =
     (if \<not> cursor < length payload then Some (Inr (ops, cursor))
      else
        (let sel = uint (payload ! cursor) mod OPERATION_COUNT
         in case operand_names sel of
              Inl e \<Rightarrow> Some (Inl e)
            | Inr names \<Rightarrow>
                (case read_operands payload (cursor + 1) [] names of
                   (args, cursor, truncated) \<Rightarrow>
                     if truncated \<or> cursor \<ge> length payload then Some (Inr (ops, cursor))
                     else
                       executed_loop payload (cursor + 1)
                         (ops @ [executed_op (length ops) sel args (uint (payload ! cursor))]))))"

declare executed_loop.simps [code]

definition decode_executed :: "bytes \<Rightarrow> (codec_error + decoded_input) option" where
  "decode_executed payload =
     (if payload = [] then
        Some (Inr \<lparr>di_ring = 0, di_ops = [], di_total_bytes = 0, di_consumed_bytes = 0\<rparr>)
      else
        map_option
          (map_sum id (\<lambda>(ops, cursor). \<lparr>di_ring = uint (payload ! 0) mod RING_COUNT, di_ops = ops,
             di_total_bytes = length payload, di_consumed_bytes = cursor\<rparr>))
          (executed_loop payload 1 []))"

section \<open>The trace\<close>

text \<open>The format specifications \<open>:2d\<close> (right) and \<open>:<2d\<close>, \<open>:<20s\<close> (left).\<close>

definition pad_right :: "nat \<Rightarrow> string \<Rightarrow> string" where
  "pad_right w s = s @ replicate (w - length s) CHR '' ''"

definition pad_left :: "nat \<Rightarrow> string \<Rightarrow> string" where
  "pad_left w s = replicate (w - length s) CHR '' '' @ s"

text \<open>\<open>:x\<close> of a value below 16.\<close>

definition hex_nibble :: "int \<Rightarrow> string" where
  "hex_nibble v = [''0123456789abcdef'' ! nat v]"

definition op_line :: "decoded_op \<Rightarrow> string" where
  "op_line d =
     (let joined = join '', '' (map (\<lambda>(name, v). name @ ''='' @ show_int v) (do_operands d));
          args = if joined = [] then ''-'' else joined;
          flags = ''flags=0x'' @ hex_nibble (do_flag_nibble d) @
            (if do_family d \<in> {''fixed-io/registered'', ''msg_ring''} \<or> do_buffer_group d \<noteq> 0
             then '' buf_group='' @ show_int (do_buffer_group d) else [])
      in ''  ['' @ pad_left 2 (show_nat (do_index d)) @ ''] sel='' @ pad_right 2 (show_int (do_selector d)) @ '' '' @
         pad_right 20 (do_family d) @ '' '' @ args @ ''  ('' @ flags @ '')'')"

definition trace_lines :: "decoded_input \<Rightarrow> string option \<Rightarrow> string list" where
  "trace_lines d source =
     (case source of None \<Rightarrow> [] | Some s \<Rightarrow> [''# crash input: '' @ s]) @
     [''# '' @ show_nat (di_total_bytes d) @ '' bytes, '' @ show_nat (length (di_ops d)) @
        '' operation(s), ring personality '' @ show_int (di_ring d)] @
     map op_line (di_ops d) @
     (if di_ops d = [] then [''  (no fully-formed operations decoded)''] else [])"

definition format_trace :: "decoded_input \<Rightarrow> string option \<Rightarrow> string" where
  "format_trace d source = join [CHR 0x0A] (trace_lines d source)"

text \<open>\<open>iou-ai-repro\<close> on the bytes of a file: the harness' input cap, then the trace.\<close>

definition repro_output :: "bytes \<Rightarrow> string option \<Rightarrow> (codec_error + string) option" where
  "repro_output data source =
     map_option (map_sum id (\<lambda>d. format_trace d source)) (decode_executed (take MAX_INPUT_BYTES data))"

section \<open>Canonical operations and their trace\<close>

text \<open>The trace of a list of canonical operations, the specification the loop is measured against.\<close>

definition traced :: "nat \<Rightarrow> native_operation \<Rightarrow> decoded_op" where
  "traced i opn =
     executed_op i (selector opn) (zip (ENCODER_OPERAND_NAMES ! nat (selector opn)) (operands opn)) (sqe_control opn)"

fun traced_from :: "nat \<Rightarrow> native_operation list \<Rightarrow> decoded_op list" where
  "traced_from i [] = []"
| "traced_from i (opn # ops) = traced i opn # traced_from (Suc i) ops"

definition native_of :: "decoded_op \<Rightarrow> native_operation" where
  "native_of d = \<lparr>selector = do_selector d, operands = map snd (do_operands d), sqe_control = do_control d\<rparr>"

definition executed_program :: "decoded_input \<Rightarrow> native_program" where
  "executed_program d = \<lparr>ring_selector = di_ring d, operations = map native_of (di_ops d)\<rparr>"

lemma native_traced: "canonical_op opn \<Longrightarrow> native_of (traced i opn) = opn"
  by (simp add: native_of_def traced_def executed_op_def canonical_op_def)

lemma natives_traced: "list_all canonical_op ops \<Longrightarrow> map native_of (traced_from i ops) = ops"
  by (induction ops arbitrary: i) (simp_all add: native_traced)

lemma length_traced_from [simp]: "length (traced_from i ops) = length ops"
  by (induction ops arbitrary: i) simp_all

lemma read_operands_complete:
  "cursor + length names \<le> length payload \<Longrightarrow>
   read_operands payload cursor acc names =
     (acc @ zip names (map uint (take (length names) (drop cursor payload))), cursor + length names, False)"
proof (induction names arbitrary: cursor acc)
  case (Cons name names)
  then have "drop cursor payload = payload ! cursor # drop (Suc cursor) payload" by (simp add: Cons_nth_drop_Suc)
  with Cons show ?case by simp
qed simp

lemma read_operands_truncated:
  "length payload < cursor + length names \<Longrightarrow> cursor \<le> length payload \<Longrightarrow>
   \<exists>args. read_operands payload cursor acc names = (args, length payload, True)"
  by (induction names arbitrary: cursor acc) auto

lemma selector_names:
  assumes "0 \<le> sel" "sel < 61"
  shows "operand_names sel = Inr (ENCODER_OPERAND_NAMES ! nat sel)"
  using assms by (simp add: operand_names_def OPERATION_COUNT_def require_int_byte_def)

text \<open>One iteration on bytes that are there, and the end.\<close>

lemma executed_loop_end [simp]: "length payload \<le> cursor \<Longrightarrow> executed_loop payload cursor ops = Some (Inr (ops, cursor))"
  by (simp add: executed_loop.simps)

lemma executed_loop_step:
  assumes "cursor < length payload" and sel: "sel = uint (payload ! cursor) mod 61"
    and n: "n = length (ENCODER_OPERAND_NAMES ! nat sel)"
  shows "executed_loop payload cursor ops =
    (if cursor + 1 + n < length payload
     then executed_loop payload (cursor + n + 2)
       (ops @ [traced (length ops) \<lparr>selector = sel, operands = map uint (take n (drop (cursor + 1) payload)),
          sqe_control = uint (payload ! (cursor + 1 + n))\<rparr>])
     else Some (Inr (ops, length payload)))"
proof -
  have "0 \<le> sel" "sel < 61" by (simp_all add: sel)
  note names = selector_names [OF this]
  show ?thesis
  proof (cases "cursor + 1 + n \<le> length payload")
    case True
    then show ?thesis
      using assms(1) names read_operands_complete [of "cursor + 1" "ENCODER_OPERAND_NAMES ! nat sel" payload "[]"]
      by (subst executed_loop.simps)
        (simp add: sel [symmetric] OPERATION_COUNT_def n [symmetric] Let_def traced_def add.commute)
  next
    case False
    then show ?thesis
      using assms(1) names read_operands_truncated [of payload "cursor + 1" "ENCODER_OPERAND_NAMES ! nat sel" "[]"]
      by (subst executed_loop.simps) (auto simp: sel [symmetric] OPERATION_COUNT_def n [symmetric] Let_def)
  qed
qed

lemma executed_loop_traces:
  "cursor \<le> length payload \<Longrightarrow>
   \<exists>new. executed_loop payload cursor acc = Some (Inr (acc @ traced_from (length acc) new, length payload)) \<and>
     list_all canonical_op new \<and> 2 * length new \<le> length payload - cursor"
proof (induction "length payload - cursor" arbitrary: cursor acc rule: less_induct)
  case less
  show ?case
  proof (cases "cursor < length payload")
    case False
    with less.prems show ?thesis by (intro exI [of _ "[]"]) simp
  next
    case True
    let ?sel = "uint (payload ! cursor) mod 61"
    let ?n = "length (ENCODER_OPERAND_NAMES ! nat ?sel)"
    let ?opn = "\<lparr>selector = ?sel, operands = map uint (take ?n (drop (cursor + 1) payload)),
        sqe_control = uint (payload ! (cursor + 1 + ?n))\<rparr>"
    note step = executed_loop_step [OF True refl refl, of acc]
    show ?thesis
    proof (cases "cursor + 1 + ?n < length payload")
      case False
      with step show ?thesis by (intro exI [of _ "[]"]) simp
    next
      case fits: True
      have "length payload - (cursor + ?n + 2) < length payload - cursor" using True by linarith
      from less.hyps [OF this, of "acc @ [traced (length acc) ?opn]"] fits obtain new where new:
        "executed_loop payload (cursor + ?n + 2) (acc @ [traced (length acc) ?opn]) =
           Some (Inr ((acc @ [traced (length acc) ?opn]) @ traced_from (Suc (length acc)) new, length payload))"
        "list_all canonical_op new" "2 * length new \<le> length payload - (cursor + ?n + 2)"
        by auto
      have "canonical_op ?opn" using fits by (simp add: canonical_op_def list_all_iff)
      with new fits step show ?thesis by (intro exI [of _ "?opn # new"]) simp
    qed
  qed
qed

text \<open>Where the bytes of a canonical operation lie in an input.\<close>

lemma op_at:
  assumes "canonical_op opn"
  defines "P \<equiv> \<lambda>pre post. pre @ op_bytes opn @ post"
  shows "length pre < length (P pre post)" "selector opn = uint (P pre post ! length pre) mod 61"
    "length pre + 1 + length (operands opn) < length (P pre post)"
    "\<lparr>selector = selector opn, operands = map uint (take (length (operands opn)) (drop (length pre + 1) (P pre post))),
      sqe_control = uint (P pre post ! (length pre + 1 + length (operands opn)))\<rparr> = opn"
proof -
  let ?n = "length (operands opn)"
  have opn: "0 \<le> selector opn" "selector opn < 61" "list_all is_byte (operands opn)" "is_byte (sqe_control opn)"
    using assms(1) by (simp_all add: canonical_op_def)
  have pay: "P pre post = pre @ word_of_int (selector opn) # map word_of_int (operands opn) @
      word_of_int (sqe_control opn) # post"
    by (simp add: P_def op_bytes_def)
  show "length pre < length (P pre post)" "length pre + 1 + ?n < length (P pre post)" unfolding pay by simp_all
  show "selector opn = uint (P pre post ! length pre) mod 61"
    unfolding pay using opn uint_word_of_int_byte [of "selector opn"] by (simp add: is_byte_def)
  have "uint (P pre post ! (length pre + 1 + ?n)) = sqe_control opn"
    unfolding pay by (simp add: nth_append uint_word_of_int_byte opn)
  moreover have "map uint (take ?n (drop (length pre + 1) (P pre post))) = operands opn"
    unfolding pay using opn(3) by (simp add: map_uint_word_of_int del: map_map)
  ultimately show "\<lparr>selector = selector opn, operands = map uint (take ?n (drop (length pre + 1) (P pre post))),
      sqe_control = uint (P pre post ! (length pre + 1 + ?n))\<rparr> = opn"
    by (cases opn) simp
qed

lemma executed_loop_canonical:
  "list_all canonical_op rest \<Longrightarrow>
   executed_loop (pre @ concat (map op_bytes rest)) (length pre) acc =
     Some (Inr (acc @ traced_from (length acc) rest, length (pre @ concat (map op_bytes rest))))"
proof (induction rest arbitrary: pre acc)
  case (Cons opn rest)
  let ?P = "pre @ op_bytes opn @ concat (map op_bytes rest)"
  have opn: "canonical_op opn" and n: "length (operands opn) = length (ENCODER_OPERAND_NAMES ! nat (selector opn))"
    using Cons.prems by (simp_all add: canonical_op_def)
  note at = op_at [OF opn, of pre "concat (map op_bytes rest)"]
  have "executed_loop ?P (length pre) acc =
      executed_loop ?P (length pre + length (operands opn) + 2) (acc @ [traced (length acc) opn])"
    using executed_loop_step [OF at(1,2) n, of acc] at(3) unfolding at(4) by simp
  also have "length pre + length (operands opn) + 2 = length (pre @ op_bytes opn)" by (simp add: op_bytes_def)
  also have "executed_loop ?P \<dots> (acc @ [traced (length acc) opn]) =
      Some (Inr ((acc @ [traced (length acc) opn]) @ traced_from (length (acc @ [traced (length acc) opn])) rest, length ?P))"
    using Cons.IH [of "pre @ op_bytes opn" "acc @ [traced (length acc) opn]"] Cons.prems by simp
  finally show ?case by simp
qed simp

lemma executed_canonical:
  assumes "canonical_program p"
  shows "decode_executed (program_bytes p) =
    Some (Inr \<lparr>di_ring = ring_selector p, di_ops = traced_from 0 (operations p),
      di_total_bytes = length (program_bytes p), di_consumed_bytes = length (program_bytes p)\<rparr>)"
proof -
  have ring: "uint (word_of_int (ring_selector p) :: 8 word) mod 8 = ring_selector p"
    using assms uint_word_of_int_byte [of "ring_selector p"] by (simp add: canonical_program_def is_byte_def)
  show ?thesis
    using executed_loop_canonical [of "operations p" "[word_of_int (ring_selector p)]" "[]"] assms
    by (simp add: decode_executed_def program_bytes_def RING_COUNT_def ring canonical_program_def)
qed

section \<open>What the triage decoder guarantees\<close>

lemma triage_result:
  "\<exists>d ops. decode_executed payload = Some (Inr d) \<and> 0 \<le> di_ring d \<and> di_ring d < 8 \<and>
     di_ops d = traced_from 0 ops \<and> list_all canonical_op ops \<and> 2 * length ops \<le> length payload - 1 \<and>
     di_total_bytes d = length payload \<and> di_consumed_bytes d = length payload"
proof (cases "payload = []")
  case True
  then show ?thesis by (auto simp: decode_executed_def intro!: exI [of _ "[]"])
next
  case False
  then have "1 \<le> length payload" by (cases payload) auto
  from executed_loop_traces [OF this, of "[]"] False show ?thesis
    by (auto simp: decode_executed_def RING_COUNT_def)
qed

text \<open>
  C18: The lenient loop ends on every input without an error: it reads the whole input, and what it
  returns is a ring below 8 and the trace, numbered from 0, of canonical operations of the audited
  table, at most one for every two bytes after the first.
\<close>

theorem triage_always_returns:
  "\<exists>d ops. decode_executed payload = Some (Inr d) \<and> 0 \<le> di_ring d \<and> di_ring d < 8 \<and>
     di_ops d = traced_from 0 ops \<and> list_all canonical_op ops \<and> 2 * length ops \<le> length payload - 1 \<and>
     di_total_bytes d = length payload \<and> di_consumed_bytes d = length payload"
  by (rule triage_result)

text \<open>
  C19: The two decoders agree wherever the strict one accepts: on every input of a canonical program the
  triage trace is that program, operation by operation with the operands under their names, and no
  byte is left over.
\<close>

theorem triage_shows_canonical_program:
  assumes "decode_program payload h = Inr p"
  shows "\<exists>d. decode_executed payload = Some (Inr d) \<and> executed_program d = p \<and>
    di_ops d = traced_from 0 (operations p)"
proof -
  have p: "canonical_program p" "payload = program_bytes p" using assms by (simp_all add: decode_program_Inr)
  then have "list_all canonical_op (operations p)" by (simp add: canonical_program_def)
  with p show ?thesis by (simp add: executed_canonical executed_program_def natives_traced)
qed

text \<open>
  C1: Every crash input has a canonical form: the program of its trace, if it has at most 96
  operations, is encoded by the audited encoder, and the bytes show the same ring and operations.
\<close>

theorem crash_has_canonical_form:
  assumes "decode_executed payload = Some (Inr d)" and "length (di_ops d) \<le> 96"
  shows "\<exists>b d'. encode_program (executed_program d) AUDITED_HARNESS_HASH = Inr b \<and>
    decode_executed b = Some (Inr d') \<and> di_ring d' = di_ring d \<and> di_ops d' = di_ops d"
proof -
  obtain ops where d: "0 \<le> di_ring d" "di_ring d < 8" "di_ops d = traced_from 0 ops" and ops: "list_all canonical_op ops"
    using triage_result [of payload] assms(1) by auto
  then have p: "executed_program d = \<lparr>ring_selector = di_ring d, operations = ops\<rparr>"
    by (simp add: executed_program_def natives_traced)
  have canonical: "canonical_program (executed_program d)"
    using d ops assms(2) by (simp add: p canonical_program_def)
  then have "encode_program (executed_program d) AUDITED_HARNESS_HASH = Inr (program_bytes (executed_program d))"
    by (simp add: encode_program_Inr)
  with executed_canonical [OF canonical] show ?thesis by (simp add: p d(3))
qed

definition wrapping_crash :: bytes where
  "wrapping_crash = [200, 100, 1, 2, 3, 0xAB]"

lemma triage_shows_canonical_program_witness:
  "\<exists>d. decode_executed (program_bytes (golden_program 39)) = Some (Inr d) \<and> executed_program d = golden_program 39"
proof -
  have "decode_program (program_bytes (golden_program 39)) AUDITED_HARNESS_HASH = Inr (golden_program 39)"
    by (simp add: decode_program_Inr canonical_program_def) code_simp
  from triage_shows_canonical_program [OF this] show ?thesis by blast
qed

lemma crash_has_canonical_form_witness:
  "\<exists>d b d'. decode_executed wrapping_crash = Some (Inr d) \<and> length (di_ops d) = 1 \<and> decode_executed b = Some (Inr d') \<and>
     di_ops d' = di_ops d"
proof -
  obtain d where d: "decode_executed wrapping_crash = Some (Inr d)" using triage_result by blast
  have "map_option (map_sum id (\<lambda>d. length (di_ops d))) (decode_executed wrapping_crash) = Some (Inr 1)" by code_simp
  then have "length (di_ops d) = 1" by (simp add: d)
  with crash_has_canonical_form [OF d] d show ?thesis by auto
qed

end
