(* ===== verification/Harness.thy ===== *)
theory Harness
  imports Repro
begin

text \<open>
  How the native harness reads an input, the persistent loop of \<open>harness/io_uring_harness_native.c\<close>: the
  bytes it takes for each operation, not what the kernel does with them.  It is compared with the
  strict decoder, whose programs the control plane compiles, and with the triage decoder that claims
  to mirror it.
\<close>

section \<open>The loop\<close>

text \<open>\<open>rd8\<close> leaves the variable, which the loop sets to 0 before, when the input is used up.\<close>

definition rd8 :: "bytes \<Rightarrow> nat \<Rightarrow> int \<times> nat" where
  "rd8 payload pos = (if pos \<ge> length payload then (0, pos) else (uint (payload ! pos), pos + 1))"

text \<open>The reads of one case of the switch; how many there are is the table of the decoder.\<close>

fun read_case :: "bytes \<Rightarrow> nat \<Rightarrow> nat \<Rightarrow> int list \<times> nat" where
  "read_case payload pos 0 = ([], pos)"
| "read_case payload pos (Suc n) =
     (case rd8 payload pos of (v, pos) \<Rightarrow> (case read_case payload pos n of (vs, pos) \<Rightarrow> (v # vs, pos)))"

text \<open>
  \<open>while (rd8(&op) == 0) { if (++nops > MAX_OPS) break; ... }\<close>, for a ring with a free submission
  entry at every turn: the operations that are queued.
\<close>

lemma rd8_bounds: "rd8 payload pos = (v, pos') \<Longrightarrow> pos \<le> pos' \<and> (pos < length payload \<longrightarrow> pos < pos')"
  by (auto simp: rd8_def split: if_splits)

lemma read_case_bounds: "read_case payload pos n = (vs, pos') \<Longrightarrow> pos \<le> pos'"
  by (induction n arbitrary: pos vs) (fastforce dest: rd8_bounds split: prod.splits)+

function harness_loop :: "bytes \<Rightarrow> nat \<Rightarrow> nat \<Rightarrow> native_operation list" where
  "harness_loop payload pos nops =
     (if pos \<ge> length payload \<or> nops + 1 > MAX_OPERATIONS then []
      else
        (case rd8 payload pos of
           (opcode, pos1) \<Rightarrow>
             let sel = opcode mod OPERATION_COUNT in
             (case read_case payload pos1 (DECODER_OPERAND_COUNTS ! nat sel) of
                (args, pos2) \<Rightarrow>
                  (case rd8 payload pos2 of
                     (flags, pos3) \<Rightarrow>
                       \<lparr>selector = sel, operands = args, sqe_control = flags\<rparr> # harness_loop payload pos3 (nops + 1)))))"
  by pat_completeness auto
termination
proof (relation "measure (\<lambda>(payload, pos, nops). length payload - pos)", goal_cases)
  case (2 payload pos nops opcode pos1 sel args pos2 flags pos3)
  from rd8_bounds [OF 2(2) [symmetric]] read_case_bounds [OF 2(4) [symmetric]] rd8_bounds [OF 2(5) [symmetric]] 2(1)
  show ?case by (simp, linarith)
qed simp

declare harness_loop.simps [simp del]

text \<open>The input is cut at \<open>MAX_INPUT\<close> and its first byte picks the ring.\<close>

definition harness_operations :: "bytes \<Rightarrow> native_operation list" where
  "harness_operations payload = harness_loop (take MAX_INPUT_BYTES payload) 1 0"

section \<open>The loop and the triage trace\<close>

lemma harness_loop_end [simp]: "length payload \<le> pos \<Longrightarrow> harness_loop payload pos nops = []"
  by (simp add: harness_loop.simps)

lemma harness_loop_full [simp]: "96 \<le> nops \<Longrightarrow> harness_loop payload pos nops = []"
  by (simp add: harness_loop.simps MAX_OPERATIONS_def)

lemma read_case_complete:
  "pos + n \<le> length payload \<Longrightarrow> read_case payload pos n = (map uint (take n (drop pos payload)), pos + n)"
proof (induction n arbitrary: pos)
  case (Suc n)
  then have "drop pos payload = payload ! pos # drop (Suc pos) payload" by (simp add: Cons_nth_drop_Suc)
  with Suc show ?case by (simp add: rd8_def)
qed simp

lemma read_case_exhausted: "length payload \<le> pos \<Longrightarrow> read_case payload pos n = (replicate n 0, pos)"
  by (induction n arbitrary: pos) (simp_all add: rd8_def)

lemma read_case_truncated:
  "pos \<le> length payload \<Longrightarrow> length payload \<le> pos + n \<Longrightarrow> snd (read_case payload pos n) = length payload"
proof (induction n arbitrary: pos)
  case (Suc n)
  show ?case
  proof (cases "pos = length payload")
    case False
    with Suc.prems Suc.IH [of "pos + 1"] show ?thesis by (auto simp: rd8_def split: prod.splits)
  qed (simp add: rd8_def read_case_exhausted)
qed simp

lemma harness_loop_step:
  assumes "pos < length payload" "nops < 96" and sel: "sel = uint (payload ! pos) mod 61"
    and n: "n = length (ENCODER_OPERAND_NAMES ! nat sel)"
  shows "pos + 1 + n < length payload \<Longrightarrow> harness_loop payload pos nops =
      \<lparr>selector = sel, operands = map uint (take n (drop (pos + 1) payload)), sqe_control = uint (payload ! (pos + 1 + n))\<rparr> #
        harness_loop payload (pos + n + 2) (nops + 1)"
    and "length payload \<le> pos + 1 + n \<Longrightarrow> length (harness_loop payload pos nops) = 1"
proof -
  have "nat sel < 61" by (simp add: sel nat_less_iff)
  then have count: "DECODER_OPERAND_COUNTS ! nat sel = n" by (simp add: n table_lookup)
  { assume fits: "pos + 1 + n < length payload"
    then show "harness_loop payload pos nops =
      \<lparr>selector = sel, operands = map uint (take n (drop (pos + 1) payload)), sqe_control = uint (payload ! (pos + 1 + n))\<rparr> #
        harness_loop payload (pos + n + 2) (nops + 1)"
      using assms(1,2) read_case_complete [of "pos + 1" n payload]
      by (subst harness_loop.simps)
        (simp add: rd8_def Let_def sel [symmetric] count OPERATION_COUNT_def MAX_OPERATIONS_def) }
  { assume short: "length payload \<le> pos + 1 + n"
    obtain args pos2 where args: "read_case payload (pos + 1) n = (args, pos2)" by fastforce
    with read_case_truncated [of "pos + 1" payload n] short assms(1) have "pos2 = length payload" by simp
    with args show "length (harness_loop payload pos nops) = 1"
      using assms(1,2)
      by (subst harness_loop.simps)
        (simp add: rd8_def Let_def sel [symmetric] count OPERATION_COUNT_def MAX_OPERATIONS_def) }
qed

text \<open>
  Up to the operation limit the loop runs the operations of the triage trace and then possibly one
  more, the one the input breaks off in.
\<close>

lemma harness_loop_traces:
  "cursor \<le> length payload \<Longrightarrow>
   \<exists>new tail. executed_loop payload cursor acc = Some (Inr (acc @ traced_from (length acc) new, length payload)) \<and>
     list_all canonical_op new \<and> length tail \<le> 1 \<and>
     harness_loop payload cursor nops = take (96 - nops) (new @ tail)"
proof (induction "length payload - cursor" arbitrary: cursor acc nops rule: less_induct)
  case less
  show ?case
  proof (cases "cursor < length payload")
    case False
    with less.prems show ?thesis by (intro exI [of _ "[]"]) simp
  next
    case True
    let ?sel = "uint (payload ! cursor) mod 61"
    let ?n = "length (ENCODER_OPERAND_NAMES ! nat ?sel)"
    let ?opn = "\<lparr>selector = ?sel, operands = map uint (take ?n (drop (cursor + 1) payload)),
        sqe_control = uint (payload ! (cursor + 1 + ?n))\<rparr>"
    note lenient = executed_loop_step [OF True refl refl, of acc]
    note native = harness_loop_step [OF True _ refl refl, of nops]
    show ?thesis
    proof (cases "cursor + 1 + ?n < length payload")
      case False
      have "harness_loop payload cursor nops = take (96 - nops) ([] @ harness_loop payload cursor nops)"
        "length (harness_loop payload cursor nops) \<le> 1"
        using native(2) False by (cases "nops < 96"; simp)+
      with lenient False show ?thesis
        by (intro exI [of _ "[]"] exI [of _ "harness_loop payload cursor nops"]) simp
    next
      case fits: True
      have "length payload - (cursor + ?n + 2) < length payload - cursor" using True by linarith
      from less.hyps [OF this, of "acc @ [traced (length acc) ?opn]" "nops + 1"] fits obtain new tail where new:
        "executed_loop payload (cursor + ?n + 2) (acc @ [traced (length acc) ?opn]) =
           Some (Inr ((acc @ [traced (length acc) ?opn]) @ traced_from (Suc (length acc)) new, length payload))"
        "list_all canonical_op new" "length tail \<le> 1"
        "harness_loop payload (cursor + ?n + 2) (nops + 1) = take (96 - (nops + 1)) (new @ tail)"
        by auto
      have "canonical_op ?opn" using fits by (simp add: canonical_op_def list_all_iff)
      moreover have "harness_loop payload cursor nops = take (96 - nops) ((?opn # new) @ tail)"
        using native(1) [OF _ fits] new(4) by (cases "nops < 96") (simp_all add: take_Cons')
      ultimately show ?thesis using new fits lenient
        by (intro exI [of _ "?opn # new"] exI [of _ tail]) simp
    qed
  qed
qed

lemma harness_triage:
  "\<exists>d tail. decode_executed payload = Some (Inr d) \<and> length tail \<le> 1 \<and>
     harness_loop payload 1 0 = take 96 (map native_of (di_ops d) @ tail)"
proof (cases "payload = []")
  case True
  then show ?thesis by (auto simp: decode_executed_def intro!: exI [of _ "[]"])
next
  case False
  then have "1 \<le> length payload" by (cases payload) auto
  from harness_loop_traces [OF this, of "[]" 0] obtain new tail where
    "executed_loop payload 1 [] = Some (Inr (traced_from 0 new, length payload))" "list_all canonical_op new"
    "length tail \<le> 1" "harness_loop payload 1 0 = take 96 (new @ tail)" by auto
  with False show ?thesis by (auto simp: decode_executed_def natives_traced)
qed

lemma harness_runs_bounded:
  "length payload \<le> MAX_INPUT_BYTES \<Longrightarrow>
   \<exists>d tail. decode_executed payload = Some (Inr d) \<and> length tail \<le> 1 \<and>
     harness_operations payload = take 96 (map native_of (di_ops d) @ tail)"
  using harness_triage [of payload] by (simp add: harness_operations_def)

section \<open>What the harness runs\<close>


text \<open>
  C1: What the harness runs on an input within its cap is the first 96 of the operations the triage
  trace shows, followed by at most one operation the trace does not show.
\<close>

theorem harness_runs_the_trace:
  assumes "length payload \<le> MAX_INPUT_BYTES"
  shows "\<exists>d tail. decode_executed payload = Some (Inr d) \<and> length tail \<le> 1 \<and>
    harness_operations payload = take 96 (map native_of (di_ops d) @ tail)"
  using assms by (rule harness_runs_bounded)



lemma harness_runs_the_trace_witness:
  "\<exists>d tail. decode_executed wrapping_crash = Some (Inr d) \<and> length tail \<le> 1 \<and>
    harness_operations wrapping_crash = take 96 (map native_of (di_ops d) @ tail)"
  by (rule harness_runs_the_trace) (simp add: wrapping_crash_def MAX_INPUT_BYTES_def)

end
