(* ===== verification/Spec2Isabelle.thy ===== *)
theory Spec2Isabelle
  imports Budget ShadowRun Release Triggers Harness
begin

text \<open>
  A verification library for \<^bold>\<open>io-uring-ai-control\<close> (Python, \<open>src/src/iou_ai\<close>): the control plane
  that lets hosted models propose inputs for an io_uring fuzzing fleet and lets none of them near
  the fleet until deterministic checks, an isolated run and a human have agreed.  File names below
  are relative to \<open>src/src/iou_ai\<close>.

  \<^bold>\<open>The program.\<close>  A packet of fleet telemetry is sent to a model that answers with a typed
  \<^emph>\<open>proposal\<close> and to a second one that reviews it with a \<^emph>\<open>verdict\<close>; every call is paid for out of the
  \<^emph>\<open>budget ledger\<close>.  The \<^emph>\<open>contract\<close> is the description of the audited harness, rebuilt from the
  harness' own files.  The \<^emph>\<open>validator\<close> decides about a proposal, the \<^emph>\<open>compiler\<close> turns its program
  into the native bytes the harness reads.  Proposal, verdict and contract are kept in the
  \<^emph>\<open>quarantine\<close>, the bytes in the \<^emph>\<open>artifact store\<close>, both content-addressed and create-only.  The
  \<^emph>\<open>canary service\<close> runs an artifact in isolation and writes the \<^emph>\<open>authority records\<close> (validation
  report, canary report, execution candidate).  The \<^emph>\<open>event outbox\<close> asks a human, the answer comes
  back as a \<^emph>\<open>signed decision\<close> in an archive, and the \<^emph>\<open>promoter\<close> copies an approved candidate into a
  worker's inbox and leaves a receipt.

  \<^bold>\<open>Which theory models what\<close> (each opens with what it holds; operations keep the code's names):
  \<^item> \<open>Prelude\<close>: Python values, errors as the left of a sum with \<open>bindR\<close>, \<open>wrapR\<close> (an \<open>except\<close> clause)
    and \<open>traverse\<close> (a loop that raises), the hint collections, shared lemmas.
  \<^item> \<open>Sha256\<close>, \<open>Canonical\<close>, \<open>PyTime\<close>: \<open>hashlib.sha256\<close> as an executable function, \<open>canonical_json\<close> and
    \<open>content_digest\<close> of \<open>quarantine.py\<close> with the strict \<open>json.loads\<close> that reads them back, and the
    \<open>datetime\<close> operations the code uses.  A timestamp is an integer of microseconds since 0001-01-01.
  \<^item> \<open>Codec\<close>: \<open>harness_codec.py\<close>.  Programs are records, native input is a list of bytes (\<open>8 word\<close>).
  \<^item> \<open>Budget\<close>: \<open>budget.py\<close>.  The SQLite table \<open>ledger_events\<close> is a list of rows in insertion order, with the
    table's uniqueness and trigger rules in \<open>insert_event\<close>; each transaction is one function from table
    to result and table; \<open>ledger_step\<close> interleaves them in any order and at any times.
  \<^item> \<open>Store\<close>, \<open>Quarantine\<close>, \<open>Artifacts\<close>: \<open>quarantine.py\<close> and \<open>artifacts.py\<close>.  A directory is a map from names
    to nodes (regular file, symbolic link, directory); \<open>read_bounded\<close> and \<open>create_only\<close> are the
    \<open>O_NOFOLLOW\<close> reads and \<open>O_EXCL\<close> writes every store shares.
  \<^item> \<open>Models\<close>, \<open>Wire\<close>: \<open>models.py\<close>: one record per class, one \<open>valid_\<close> predicate per model (its field
    constraints and its \<open>model_validator\<close>s), one \<open>dump_\<close> and one strict \<open>load_\<close> per class.
  \<^item> \<open>Contract\<close>, \<open>Compiler\<close>, \<open>Validator\<close>: \<open>contract.py\<close>, \<open>compiler.py\<close>, \<open>validator.py\<close>.  A gate of the
    validator is the list of its \<open>checks.require\<close> calls, in the order of the code, and a report keeps
    the outcome of each.
  \<^item> \<open>Execution\<close>, \<open>Canary\<close>, \<open>CanaryService\<close>: \<open>execution.py\<close>, \<open>canary.py\<close>, \<open>canary_service.py\<close>.  The state
    is the quarantine, the artifact store and the three authority directories; \<open>bridge_step\<close> is one
    pass of the service over one quarantined document.
  \<^item> \<open>EventModels\<close>, \<open>Events\<close>: \<open>events.py\<close>: the seven event documents, the outbox directory, the four
    projections into it, and the fixed notification texts; \<open>outbox_step\<close> interleaves the projections.
  \<^item> \<open>Decisions\<close>: \<open>decisions.py\<close>: the signed documents, HMAC-SHA-256 written out, the archive directory
    and \<open>import_signed\<close>; \<open>import_step\<close> is one import.
  \<^item> \<open>Promoter\<close>, \<open>Release\<close>: \<open>promoter.py\<close>.  The state is the inboxes, the receipt directory and the
    lock; \<open>promotion_step\<close> is one call of \<open>promote\<close>.  \<open>Release\<close> states what the parts give together.
  \<^item> \<open>Feedback\<close>: \<open>feedback.py\<close>: what is kept of a review (\<open>build_review_feedback\<close>), its store, and the bounded
    outcomes shown to the next planner.
  \<^item> \<open>Prompts\<close>, \<open>Pipeline\<close>: \<open>prompts.py\<close>, the closed schemas of \<open>schemas.py\<close>, and \<open>pipeline.py\<close>.  An
    operation of \<open>run\<close> is a function of the four stores (ledger, feedback, artifacts, quarantine) to
    its result or exception and the stores it leaves.
  \<^item> \<open>Spending\<close>, \<open>Acceptance\<close>, \<open>ShadowRun\<close>: the money of a run, what a quarantined run has established, and
    its composition with the canary service, with a concrete run that goes through every stage.
  \<^item> \<open>Triggers\<close>: \<open>triggers.py\<close>: the material of a packet and its digest, the state file, the decision whether
    a run is due, and the lease, both as what one process meets and as the steps of several (\<open>lease_step\<close>).
  \<^item> \<open>Repro\<close>, \<open>Harness\<close>: the lenient triage decoder of \<open>repro.py\<close>, its loop written as one that may not end,
    and the loop of the native harness (\<open>harness/io_uring_harness_native.c\<close>) that reads the input.
  \<^bold>\<open>What the lemmas show.\<close>
  \<^item> \<^emph>\<open>Authority\<close>: whatever sequence of promotions ran, a file in a worker's inbox is the native program of
    a candidate whose evidence was stored, whose human approval is archived and verified, and which
    the current compiler reproduces (\<open>fleet_receives_only_approved\<close>); conversely an approved candidate
    with its evidence in place is published (\<open>approved_candidate_is_published\<close>).  Candidates come only
    from clean canary runs of valid artifacts (\<open>candidates_are_earned\<close>, \<open>candidate_bound\<close>).
  \<^item> \<^emph>\<open>Accounting\<close>: \<open>ledger_inv\<close> holds along every history, and with it the monthly and daily caps, the
    call quota, at most one settlement of a reservation, and the completeness of reconciliation; the
    one way over the hard limit, the settlements above their reservation, is measured exactly.
  \<^item> \<^emph>\<open>Checks\<close>: the compiler is correct against a declarative relation \<open>translates\<close>; accepted programs
    compile, respect the declared order and payload links; the validator's verdict is the conjunction
    of its calls.
  \<^item> \<^emph>\<open>Stores\<close>: one locale, \<open>object_store\<close>, gives durability and integrity for every content-addressed
    directory; it is interpreted for the quarantine, the artifact manifests and the three kinds
    of authority record.
  \<^item> \<^emph>\<open>Round trips\<close>: encoder and decoder of the native format, time stamps, every wire document.
  \<^item> \<^emph>\<open>People\<close>: an event gets at most one decision, a recorded one is never changed, an imported one
    answers the very bytes it names; a human is asked at most twice about the same thing.
  \<^item> \<^emph>\<open>Runs\<close>: a run that ends in the quarantine was reviewed and accepted, and every program is stored
    compiled (\<open>quarantined_after_review\<close>); any other run leaves the quarantine alone; what it left becomes
    an execution candidate when the canary is clean (\<open>quarantined_run_reaches_candidate\<close>).  Wherever a run
    returns or raises, its reservations are closed (\<open>run_closes_its_reservations\<close>).  What is kept of a
    review does not depend on the reviewer's prose (\<open>feedback_forgets_prose\<close>).
  \<^item> \<^emph>\<open>Scheduling\<close>: the marks of a run decide when the same material is due again
    (\<open>completed_run_decides\<close>, \<open>unfinished_run_decides\<close>); the lease excludes as long as no lock outlives it
    (\<open>lease_excludes\<close>), and not otherwise (\<open>lease_takeover_races\<close>).
  \<^item> \<^emph>\<open>The harness\<close>: it runs exactly the operations of every program the codec encodes
    (\<open>harness_runs_the_program\<close>); the triage decoder ends on every input (\<open>triage_always_returns\<close>), agrees with the
    strict one (\<open>triage_shows_canonical_program\<close>), and differs from the harness on others.
  \<^bold>\<open>Bounds and fuel.\<close>  Only the JSON parser runs on fuel: a document of \<open>n\<close> bytes gets \<open>2 * n + 2\<close>, and
  the round trip theorems show that this is enough for every document the program renders, so no
  claim rests on a parser that gave up.  All other recursion is structural or has its measure;
  the loop of the triage decoder is a partial function, and that it returns is a theorem.
  Python's integers are \<open>int\<close>; bytes of the native format and the words of SHA-256 keep their width.
  The size limits of the code (four mebibytes per object, 64 KiB per decision and so on) are the code's
  own constants.

  \<^bold>\<open>Parameters and assumptions.\<close>  What is not under \<open>src/\<close> is an argument: the random bytes of nonces
  and identifiers, the clock, the runner of the canary and the process table it reads, the price
  policies.  A collision of SHA-256 is never assumed away: statements speak of the digest, or of the
  bytes that were stored.  Strings are over the 256 characters of HOL's \<open>char\<close>; the code itself
  restricts most of its fields to ASCII.

  \<^bold>\<open>Not modelled.\<close>
  \<^item> \<open>config.py\<close>: reads a TOML file and the environment into settings; what it yields are parameters here.
  \<^item> \<open>telemetry.py\<close>, \<open>corpus_profile.py\<close>: walk the fleet's directories and coverage databases into a packet;
    the packet is an argument, its validity (\<open>valid_telemetry\<close>) is modelled in \<open>Models\<close>.
  \<^item> \<open>lkml.py\<close>: fetches mailing list archives over HTTP and parses their XML.
  \<^item> \<open>notifier.py\<close>: the delivery queue to a chat service over HTTP.
  \<^item> \<open>providers/\<close>: HTTP clients of hosted models; a provider is a function from requests to what its one
    attempt did.  Of \<open>schemas.py\<close> the rewriting for the second provider's grammar is left out.
  \<^item> the command line modules: argument parsing and printing.
\<close>

text \<open>
  C33: The strict parser reads back every valid proposal, verdict, contract and envelope from its
  canonical bytes: what one process renders and hashes, another one reads as the same document.
\<close>

theorem wire_round_trip:
  shows "(valid_proposal p \<longrightarrow>
      model_validate_json load_proposal valid_proposal (canonical_json (dump_proposal p)) = Some p) \<and>
    (valid_verdict v \<longrightarrow>
      model_validate_json load_verdict valid_verdict (canonical_json (dump_verdict v)) = Some v) \<and>
    (valid_contract c \<longrightarrow>
      model_validate_json load_contract valid_contract (canonical_json (dump_contract c)) = Some c) \<and>
    (valid_envelope e \<longrightarrow>
      model_validate_json load_envelope valid_envelope (canonical_json (dump_envelope e)) = Some e)"
  by (simp add: model_round_trip)

lemma wire_round_trip_witness:
  "model_validate_json load_proposal valid_proposal (canonical_json (dump_proposal probe_plan)) = Some probe_plan \<and>
   model_validate_json load_verdict valid_verdict (canonical_json (dump_verdict probe_verdict)) = Some probe_verdict \<and>
   model_validate_json load_contract valid_contract (canonical_json (dump_contract probe_contract)) = Some probe_contract \<and>
   model_validate_json load_envelope valid_envelope
     (canonical_json (dump_envelope (probe_envelope (content_digest [])))) = Some (probe_envelope (content_digest []))"
proof -
  have v: "valid_proposal probe_plan" "valid_verdict probe_verdict" "valid_contract probe_contract"
    "valid_envelope (probe_envelope (content_digest []))"
    using probe_proposal_valid(1) [OF probe_contract_enabled(8)] probe_verdict_valid
      authorising_enables [OF probe_contract_enabled(1)] probe_envelope_valid [OF content_digest_is_digest]
    by blast+
  show ?thesis
    using wire_round_trip [of probe_plan probe_verdict probe_contract "probe_envelope (content_digest [])"] v by blast
qed

end
